(* ===== verification/Prelude.thy ===== *)
theory Prelude
  imports Complex_Main "HOL-Library.Word" "HOL-Library.Sublist" "HOL-Library.AList"
    "HOL-Library.Char_ord" "HOL-Library.List_Lexorder"
begin

text \<open>
  Shared vocabulary of the development: the Rust primitive types the modelled crates use
  (fixed-width unsigned integers, UTF-8 strings, paths, \<open>Result\<close>), the JSON value type of the
  persisted event details, and the generic lemmas that carry the component proofs.

  A Rust \<open>String\<close> is the list of its UTF-8 bytes; HOL's \<open>char\<close> has exactly the 256 byte values,
  so \<open>string\<close> is used both for \<open>String\<close> and for raw file contents (\<open>bytes\<close>). The order on
  \<open>string\<close> is the bytewise lexicographic order of \<open>Ord for str\<close>. \<open>f64\<close> values are only carried
  by the modelled code, never computed with; the few float operations are parameters.
\<close>

section \<open>Primitive types\<close>

type_synonym u8 = "8 word"
type_synonym u16 = "16 word"
type_synonym u32 = "32 word"
type_synonym u64 = "64 word"
type_synonym bytes = string
type_synonym f64 = real

text \<open>\<open>DateTime<Utc>\<close>: nanoseconds since the epoch. \<open>Duration\<close>: nanoseconds.\<close>

type_synonym timestamp = int
type_synonym duration = nat

named_theorems result_simps \<open>unfolding of the error monads\<close>

section \<open>Fixed-width arithmetic\<close>

definition checked_add_u64 :: "u64 \<Rightarrow> u64 \<Rightarrow> u64 option" where
  "checked_add_u64 a b = (if unat a + unat b < 2 ^ 64 then Some (a + b) else None)"

definition saturating_add_u32 :: "u32 \<Rightarrow> u32 \<Rightarrow> u32" where
  "saturating_add_u32 a b = (if unat a + unat b < 2 ^ 32 then a + b else - 1)"

definition saturating_add_u64 :: "u64 \<Rightarrow> u64 \<Rightarrow> u64" where
  "saturating_add_u64 a b = (if unat a + unat b < 2 ^ 64 then a + b else - 1)"

lemma checked_add_u64_Some:
  "checked_add_u64 a b = Some c \<Longrightarrow> unat c = unat a + unat b"
  by (auto simp: checked_add_u64_def unat_word_ariths split: if_splits)

lemma checked_succ_u64_less:
  assumes "checked_add_u64 a 1 = Some c"
  shows "a < c"
proof -
  have "unat c = unat a + 1" using checked_add_u64_Some [OF assms] by simp
  then show ?thesis by (simp add: word_less_nat_alt)
qed

lemma checked_succ_u64_nonzero:
  assumes "checked_add_u64 a 1 = Some c"
  shows "c \<noteq> 0"
  using checked_succ_u64_less [OF assms] by (metis word_not_simps(1))

lemma unat_saturating_add_u32:
  "unat (saturating_add_u32 a b) = min (2 ^ 32 - 1) (unat a + unat b)"
  by (auto simp: saturating_add_u32_def unat_word_ariths unsigned_minus_1_eq_mask mask_eq_exp_minus_1)

lemma unat_saturating_add_u64:
  "unat (saturating_add_u64 a b) = min (2 ^ 64 - 1) (unat a + unat b)"
  by (auto simp: saturating_add_u64_def unat_word_ariths unsigned_minus_1_eq_mask mask_eq_exp_minus_1)

section \<open>Results\<close>

text \<open>\<open>Result<T>\<close> is the sum with \<open>Inl\<close> for the error; \<open>res_bind\<close> is the \<open>?\<close> operator.\<close>

definition res_bind :: "'e + 'a \<Rightarrow> ('a \<Rightarrow> 'e + 'b) \<Rightarrow> 'e + 'b" where
  "res_bind r f = (case r of Inl e \<Rightarrow> Inl e | Inr a \<Rightarrow> f a)"

lemma res_bind_simps [simp]:
  "res_bind (Inl e) f = Inl e"
  "res_bind (Inr a) f = f a"
  by (simp_all add: res_bind_def)

lemma res_bind_Inr_iff [result_simps]:
  "res_bind r f = Inr b \<longleftrightarrow> (\<exists>a. r = Inr a \<and> f a = Inr b)"
  by (cases r) auto

lemma res_bind_InrE:
  assumes "res_bind r f = Inr b"
  obtains a where "r = Inr a" "f a = Inr b"
  using assms by (auto simp: res_bind_Inr_iff)

lemma res_bind_assoc: "res_bind (res_bind r f) g = res_bind r (\<lambda>a. res_bind (f a) g)"
  by (cases r) simp_all

definition ok_or :: "'a option \<Rightarrow> 'e \<Rightarrow> 'e + 'a" where
  "ok_or x e = (case x of None \<Rightarrow> Inl e | Some a \<Rightarrow> Inr a)"

lemma ok_or_Inr_iff [result_simps]: "ok_or x e = Inr a \<longleftrightarrow> x = Some a"
  by (cases x) (auto simp: ok_or_def)

lemma ok_or_simps [simp]: "ok_or None e = Inl e" "ok_or (Some a) e = Inr a"
  by (simp_all add: ok_or_def)

definition ensure :: "bool \<Rightarrow> 'e \<Rightarrow> 'e + unit" where
  "ensure b e = (if b then Inr () else Inl e)"

lemma ensure_Inr_iff [result_simps]: "ensure b e = Inr u \<longleftrightarrow> b"
  by (auto simp: ensure_def)

lemma ensure_simps [simp]: "ensure True e = Inr ()" "ensure False e = Inl e"
  by (simp_all add: ensure_def)

text \<open>A \<open>for\<close> loop whose body may return early with an error.\<close>

primrec fold_res :: "('s \<Rightarrow> 'e \<Rightarrow> 'err + 's) \<Rightarrow> 's \<Rightarrow> 'e list \<Rightarrow> 'err + 's" where
  "fold_res f s [] = Inr s"
| "fold_res f s (x # xs) = res_bind (f s x) (\<lambda>s'. fold_res f s' xs)"

lemma fold_res_append:
  "fold_res f s (xs @ ys) = res_bind (fold_res f s xs) (\<lambda>s'. fold_res f s' ys)"
  by (induction xs arbitrary: s) (simp_all add: res_bind_assoc)

lemma fold_res_snoc [simp]:
  "fold_res f s (xs @ [y]) = res_bind (fold_res f s xs) (\<lambda>s'. f s' y)"
  by (cases "fold_res f s xs") (auto simp: fold_res_append res_bind_def split: sum.splits)

lemma fold_res_error_append:
  "fold_res f s xs = Inl e \<Longrightarrow> fold_res f s (xs @ ys) = Inl e"
  by (simp add: fold_res_append)

text \<open>\<open>iter().map(f).collect::<Result<Vec<_>>>()\<close>: stops at the first error.\<close>

primrec map_res :: "('a \<Rightarrow> 'err + 'b) \<Rightarrow> 'a list \<Rightarrow> 'err + 'b list" where
  "map_res f [] = Inr []"
| "map_res f (x # xs) = res_bind (f x) (\<lambda>y. res_bind (map_res f xs) (\<lambda>ys. Inr (y # ys)))"

lemma map_res_append:
  "map_res f (xs @ ys) =
    res_bind (map_res f xs) (\<lambda>us. res_bind (map_res f ys) (\<lambda>vs. Inr (us @ vs)))"
  by (induction xs) (auto simp: res_bind_def split: sum.splits)

lemma map_res_Inr_length: "map_res f xs = Inr ys \<Longrightarrow> length ys = length xs"
  by (induction xs arbitrary: ys) (auto simp: res_bind_Inr_iff)

lemma map_res_all:
  "map_res f xs = Inr ys \<Longrightarrow> list_all2 (\<lambda>x y. f x = Inr y) xs ys"
  by (induction xs arbitrary: ys) (auto simp: res_bind_Inr_iff)

lemma find_Some_member: "find P xs = Some x \<Longrightarrow> x \<in> set xs \<and> P x"
  by (auto simp: find_Some_iff)

section \<open>A state machine driven by a fallible step\<close>

text \<open>
  The interface every event fold of the program implements: a step that may refuse an event,
  and an invariant it keeps. The job reducer, the ordered-candidate fold and the task-graph
  checks interpret it.
\<close>

locale event_machine =
  fixes step :: "'s \<Rightarrow> 'e \<Rightarrow> 'err + 's"
    and inv :: "'s \<Rightarrow> bool"
  assumes step_inv: "inv s \<Longrightarrow> step s x = Inr s' \<Longrightarrow> inv s'"
begin

lemma run_inv: "inv s \<Longrightarrow> fold_res step s xs = Inr s' \<Longrightarrow> inv s'"
  by (induction xs arbitrary: s) (auto simp: res_bind_Inr_iff dest: step_inv)

lemma run_prefix_ok:
  "fold_res step s (xs @ ys) = Inr s' \<Longrightarrow> \<exists>t. fold_res step s xs = Inr t \<and> fold_res step t ys = Inr s'"
  by (auto simp: fold_res_append res_bind_Inr_iff)

text \<open>A state relation the step respects relates the start and the end of a run.\<close>

lemma run_related:
  assumes refl: "\<And>s. inv s \<Longrightarrow> R s s"
    and trans: "\<And>a b c. R a b \<Longrightarrow> R b c \<Longrightarrow> R a c"
    and step: "\<And>s x s'. inv s \<Longrightarrow> step s x = Inr s' \<Longrightarrow> R s s'"
  shows "inv s \<Longrightarrow> fold_res step s xs = Inr s' \<Longrightarrow> R s s'"
proof (induction xs arbitrary: s)
  case Nil
  then show ?case using refl by simp
next
  case (Cons x xs)
  from Cons.prems(2) obtain t where t: "step s x = Inr t" "fold_res step t xs = Inr s'"
    by (auto simp: res_bind_Inr_iff)
  have "inv t" using step_inv Cons.prems(1) t(1) by blast
  then have "R t s'" using Cons.IH t(2) by blast
  with step [OF Cons.prems(1) t(1)] show ?case by (rule trans)
qed

end

section \<open>Strings\<close>

definition newline :: char where "newline = CHR 0x0A"

text \<open>The UTF-8 encodings of the characters with the Unicode property \<open>White_Space\<close>.\<close>

definition white_space :: "string list" where
  "white_space =
    [[CHR 0x09], [CHR 0x0A], [CHR 0x0B], [CHR 0x0C], [CHR 0x0D], [CHR 0x20],
     [CHR 0xC2, CHR 0x85], [CHR 0xC2, CHR 0xA0], [CHR 0xE1, CHR 0x9A, CHR 0x80],
     [CHR 0xE2, CHR 0x80, CHR 0x80], [CHR 0xE2, CHR 0x80, CHR 0x81],
     [CHR 0xE2, CHR 0x80, CHR 0x82], [CHR 0xE2, CHR 0x80, CHR 0x83],
     [CHR 0xE2, CHR 0x80, CHR 0x84], [CHR 0xE2, CHR 0x80, CHR 0x85],
     [CHR 0xE2, CHR 0x80, CHR 0x86], [CHR 0xE2, CHR 0x80, CHR 0x87],
     [CHR 0xE2, CHR 0x80, CHR 0x88], [CHR 0xE2, CHR 0x80, CHR 0x89],
     [CHR 0xE2, CHR 0x80, CHR 0x8A], [CHR 0xE2, CHR 0x80, CHR 0xA8],
     [CHR 0xE2, CHR 0x80, CHR 0xA9], [CHR 0xE2, CHR 0x80, CHR 0xAF],
     [CHR 0xE2, CHR 0x81, CHR 0x9F], [CHR 0xE3, CHR 0x80, CHR 0x80]]"

definition leading :: "string list \<Rightarrow> string \<Rightarrow> string option" where
  "leading ws s = find (\<lambda>w. w \<noteq> [] \<and> prefix w s) ws"

lemma leading_shorter:
  assumes "leading ws s = Some w"
  shows "length (drop (length w) s) < length s"
proof -
  from assms have "w \<noteq> [] \<and> prefix w s" by (auto simp: leading_def find_Some_iff)
  then show ?thesis by (auto simp: prefix_def)
qed

function strip_front :: "string list \<Rightarrow> string \<Rightarrow> string" where
  "strip_front ws s =
    (case leading ws s of None \<Rightarrow> s | Some w \<Rightarrow> strip_front ws (drop (length w) s))"
  by pat_completeness auto
termination
  by (relation "measure (\<lambda>(ws, s). length s)") (auto dest: leading_shorter)

declare strip_front.simps [simp del]

definition trim_start :: "string \<Rightarrow> string" where
  "trim_start s = strip_front white_space s"

definition trim_end :: "string \<Rightarrow> string" where
  "trim_end s = rev (strip_front (map rev white_space) (rev s))"

definition trim :: "string \<Rightarrow> string" where
  "trim s = trim_end (trim_start s)"

text \<open>\<open>s.trim().is_empty()\<close>, the emptiness test used throughout.\<close>

definition blank :: "string \<Rightarrow> bool" where
  "blank s \<longleftrightarrow> trim s = []"

lemma leading_Nil [simp]: "leading ws [] = None"
  by (auto simp: leading_def find_None_iff)

lemma strip_front_Nil [simp]: "strip_front ws [] = []"
  by (simp add: strip_front.simps)

lemma trim_Nil [simp]: "trim [] = []"
  by (simp add: trim_def trim_start_def trim_end_def)

lemma blank_Nil [simp]: "blank []"
  by (simp add: blank_def)

lemma strip_front_suffix: "suffix (strip_front ws s) s"
proof (induction ws s rule: strip_front.induct)
  case (1 ws s)
  show ?case
  proof (cases "leading ws s")
    case None
    then show ?thesis by (simp add: strip_front.simps [of ws s])
  next
    case (Some w)
    then have "suffix (strip_front ws (drop (length w) s)) (drop (length w) s)"
      using "1.IH" by blast
    then show ?thesis
      using Some by (auto simp: strip_front.simps [of ws s] intro: suffix_order.trans suffix_drop)
  qed
qed

lemma strip_front_no_leading: "leading ws (strip_front ws s) = None"
proof (induction ws s rule: strip_front.induct)
  case (1 ws s)
  then show ?case
    by (cases "leading ws s") (simp_all add: strip_front.simps [of ws s])
qed

lemma strip_front_idem [simp]: "strip_front ws (strip_front ws s) = strip_front ws s"
  using strip_front_no_leading [of ws s] by (subst strip_front.simps) simp

text \<open>\<open>str::split_whitespace\<close>: the maximal non-empty runs between white space.\<close>

definition emit_word :: "string \<Rightarrow> string list \<Rightarrow> string list" where
  "emit_word acc ws = (if acc = [] then ws else rev acc # ws)"

function split_ws :: "string \<Rightarrow> string \<Rightarrow> string list" where
  "split_ws acc s =
    (case leading white_space s of
       Some w \<Rightarrow> emit_word acc (split_ws [] (drop (length w) s))
     | None \<Rightarrow> (case s of [] \<Rightarrow> emit_word acc [] | c # cs \<Rightarrow> split_ws (c # acc) cs))"
  by pat_completeness auto
termination
  by (relation "measure (\<lambda>(acc, s). length s)") (auto dest: leading_shorter)

declare split_ws.simps [simp del]

definition split_whitespace :: "string \<Rightarrow> string list" where
  "split_whitespace s = split_ws [] s"

definition to_ascii_lowercase :: "string \<Rightarrow> string" where
  "to_ascii_lowercase s =
    map (\<lambda>c. let n = (of_char c :: nat) in if 65 \<le> n \<and> n \<le> 90 then char_of (n + 32) else c) s"

primrec join_with :: "string \<Rightarrow> string list \<Rightarrow> string" where
  "join_with sep [] = []"
| "join_with sep (x # xs) = (if xs = [] then x else x @ sep @ join_with sep xs)"

definition starts_with :: "string \<Rightarrow> string \<Rightarrow> bool" where
  "starts_with s p \<longleftrightarrow> prefix p s"

definition strip_prefix :: "string \<Rightarrow> string \<Rightarrow> string option" where
  "strip_prefix s p = (if prefix p s then Some (drop (length p) s) else None)"

lemma strip_prefix_Some_iff: "strip_prefix s p = Some r \<longleftrightarrow> s = p @ r"
  by (auto simp: strip_prefix_def prefix_def)

text \<open>\<open>slice::split\<close> at one separator byte; a slice with no separator is one piece.\<close>

fun split_on :: "char \<Rightarrow> string \<Rightarrow> string list" where
  "split_on d [] = [[]]"
| "split_on d (c # cs) =
    (if c = d then [] # split_on d cs
     else (case split_on d cs of [] \<Rightarrow> [[c]] | w # ws \<Rightarrow> (c # w) # ws))"

lemma split_on_nonempty [simp]: "split_on d s \<noteq> []"
  by (induction s) (auto split: list.splits)

lemma split_on_no_sep: "d \<notin> set s \<Longrightarrow> split_on d s = [s]"
  by (induction s) auto

lemma split_on_append_sep: "split_on d (s @ d # t) = split_on d s @ split_on d t"
  by (induction s) (auto split: list.splits simp: Cons_eq_append_conv)

lemma split_on_join:
  "xs \<noteq> [] \<Longrightarrow> (\<forall>x\<in>set xs. d \<notin> set x) \<Longrightarrow> split_on d (join_with [d] xs) = xs"
  by (induction xs) (auto simp: split_on_no_sep split_on_append_sep)

text \<open>\<open>str::lines\<close>: pieces ended by a line feed, an optional carriage return dropped, and no
  empty last piece.\<close>

definition strip_cr :: "string \<Rightarrow> string" where
  "strip_cr s = (if s \<noteq> [] \<and> last s = CHR 0x0D then butlast s else s)"

definition str_lines :: "string \<Rightarrow> string list" where
  "str_lines s =
    (let ps = split_on newline s
     in map strip_cr (butlast ps) @ (if last ps = [] then [] else [last ps]))"

lemma str_lines_snoc:
  assumes "newline \<notin> set l"
  shows "str_lines (s @ l @ [newline]) =
    map strip_cr (butlast (split_on newline s)) @ [strip_cr (last (split_on newline s) @ l)]"
proof -
  have "split_on newline (s @ l @ [newline]) = split_on newline (s @ l) @ [[]]"
    using split_on_append_sep [of newline "s @ l" "[]"] by simp
  moreover have "split_on newline (s @ l) = butlast (split_on newline s) @ [last (split_on newline s) @ l]"
    using assms by (induction s) (auto simp: split_on_no_sep split: list.splits)
  ultimately show ?thesis by (simp add: str_lines_def Let_def butlast_append)
qed

section \<open>Paths\<close>

text \<open>A path is the list of its components; equality of paths is equality of components.\<close>

datatype component = RootDir | CurDir | ParentDir | Normal string

type_synonym path = "component list"

definition component_of :: "string \<Rightarrow> component" where
  "component_of s = (if s = ''..'' then ParentDir else if s = ''.'' then CurDir else Normal s)"

text \<open>\<open>Path::components\<close> on Unix: empty pieces vanish, a dot is kept only in front.\<close>

definition components :: "string \<Rightarrow> path" where
  "components s =
    (let ps = filter (\<lambda>p. p \<noteq> []) (split_on (CHR ''/'') s);
         root = (s \<noteq> [] \<and> hd s = CHR ''/'');
         cur = (\<not> root \<and> ps \<noteq> [] \<and> hd ps = ''.'');
         rest = map component_of (filter (\<lambda>p. p \<noteq> ''.'') ps)
     in (if root then [RootDir] else []) @ (if cur then [CurDir] else []) @ rest)"

definition join_path :: "path \<Rightarrow> path \<Rightarrow> path" where
  "join_path p q =
    (if q \<noteq> [] \<and> hd q = RootDir then q
     else if p = [] then q
     else p @ dropWhile (\<lambda>c. c = CurDir) q)"

definition join :: "path \<Rightarrow> string \<Rightarrow> path" where
  "join p s = join_path p (components s)"

definition path_parent :: "path \<Rightarrow> path option" where
  "path_parent p = (if p = [] \<or> p = [RootDir] then None else Some (butlast p))"

definition is_absolute :: "path \<Rightarrow> bool" where
  "is_absolute p \<longleftrightarrow> p \<noteq> [] \<and> hd p = RootDir"

definition strip_path_prefix :: "path \<Rightarrow> path \<Rightarrow> path option" where
  "strip_path_prefix p base = (if prefix base p then Some (drop (length base) p) else None)"

definition is_normal :: "component \<Rightarrow> bool" where
  "is_normal c = (case c of Normal _ \<Rightarrow> True | _ \<Rightarrow> False)"

section \<open>JSON values\<close>

text \<open>\<open>serde_json::Value\<close>, the type of the free-form event details.\<close>

datatype json_number = PosInt u64 | NegInt int | Float f64

datatype json =
    Null
  | Bool bool
  | Number json_number
  | Str string
  | Array "json list"
  | Object "(string \<times> json) list"

definition json_get :: "json \<Rightarrow> string \<Rightarrow> json option" where
  "json_get v k = (case v of Object m \<Rightarrow> map_of m k | _ \<Rightarrow> None)"

definition as_str :: "json \<Rightarrow> string option" where
  "as_str v = (case v of Str s \<Rightarrow> Some s | _ \<Rightarrow> None)"

definition as_u64 :: "json \<Rightarrow> u64 option" where
  "as_u64 v = (case v of Number (PosInt n) \<Rightarrow> Some n | _ \<Rightarrow> None)"

text \<open>The next sequence number or count of a 64-bit value as 32 bits: \<open>u32::try_from\<close>.\<close>

definition u32_try_from :: "u64 \<Rightarrow> u32 option" where
  "u32_try_from n = (if unat n < 2 ^ 32 then Some (ucast n) else None)"

lemma unat_u32_try_from: "u32_try_from n = Some m \<Longrightarrow> unat m = unat n"
  by (auto simp: u32_try_from_def unsigned_ucast_eq take_bit_nat_eq_self split: if_splits)

end
