(* ===== verification/Errors.thy ===== *)
theory Errors
  imports Prelude
begin

text \<open>
  The error type of the core crate (\<open>crates/deadreckon-core/src/error.rs\<close>): its variants, the
  retry/escalate classification, and the reasons carried by \<open>InvalidInput\<close>. The source carries a
  rendered message there; the model carries one constructor per message, with the values the
  message shows, so that every refusal of the code is a distinct value.
\<close>

section \<open>Classes of I/O failures\<close>

text \<open>The \<open>std::io::ErrorKind\<close> values the classification distinguishes.\<close>

datatype io_error_kind =
    IoNotFound
  | IoPermissionDenied
  | IoAlreadyExists
  | IoInterrupted
  | IoWouldBlock
  | IoTimedOut
  | IoConnectionReset
  | IoConnectionAborted
  | IoBrokenPipe
  | IoNotADirectory
  | IoOther

definition is_retryable_io_kind :: "io_error_kind \<Rightarrow> bool" where
  "is_retryable_io_kind k \<longleftrightarrow>
    k \<in> {IoInterrupted, IoWouldBlock, IoTimedOut, IoConnectionReset, IoConnectionAborted,
      IoBrokenPipe}"

datatype process_boundary_kind = WorkExpired | Cancelled | SupervisionFailed | CleanupIncomplete

section \<open>Reasons of a refusal\<close>

text \<open>\<open>history_corrupt\<close> in \<open>job.rs\<close>: what is wrong with a job's lifecycle history.\<close>

datatype history_fault =
    JobImmutable
  | JobIdentity string
  | EventBelongsTo string
  | ConflictingBytes string
  | SequenceGap u64 u64
  | TornFinalRow
  | EventIdReused string
  | AppendSequence u64 u64
  | AfterTerminal
  | EpochNotIncreased
  | InvalidStopReason string
  | TerminalMismatch
  | CancelOverwritten
  | AppliedOutOfOrder
  | ExportedOutOfOrder
  | DeliveryWithoutDestination
  | DeliveryRevisionNotString
  | UndoWithoutDelivery
  | UndoWithoutOperation
  | UndoStartRefused
  | UndoWithoutStart
  | UndoWithoutRevision

text \<open>\<open>lease_error\<close> in \<open>job_lease.rs\<close>.\<close>

datatype lease_fault =
    ClaimAfterTornRow
  | LiveBeyondHeartbeat string u64
  | LiveLease string u64 timestamp
  | EpochExhausted
  | SequenceExhausted
  | StaleToken string u64
  | LeaseExpired u64 timestamp
  | EventOfOtherJob string
  | EventEpochMismatch u64 u64
  | ControlAfterStop
  | ReplaceAfterStop
  | CreateAfterStop
  | ArtifactOutsideJob
  | ArtifactNotNormalized
  | LeaseBelongsTo string

text \<open>Refusals of \<open>plan.rs\<close>.\<close>

datatype plan_fault =
    TooFewChildren
  | TooManyChildren nat
  | ChildIndex string u32 nat
  | EmptyField string
  | DuplicateChild string
  | DuplicateSubject string
  | UnknownDependency string string
  | SelfDependency string
  | SelfSubplan string
  | DependencyCycle string
  | SubplanDepth u32
  | PlanNotOwned string string
  | MissingRequestId
  | CompletionNeedsPrepared
  | CandidateMalformed string
  | CandidateOtherJob string
  | CandidateInitialEmpty
  | CandidateOutOfOrder string
  | CandidateUnprepared string
  | CandidateChanged string
  | CandidateNoAfter string
  | CandidateNotOwned string
  | CoordinatorOtherPlan string

text \<open>Refusals of \<open>campaign.rs\<close>.\<close>

datatype campaign_fault =
    CampaignDepth
  | TaskKeyCycle string
  | ScopeCycle string
  | SubGoalCount nat nat
  | SubGoalEmpty
  | SubGoalDuplicate string

text \<open>Refusals of \<open>chain.rs\<close>.\<close>

datatype chain_fault =
    HookNotFile path
  | HookIdentityChanged
  | HookBytesChanged
  | HookDigestInvalid
  | HookInputChanged
  | ManifestMalformed
  | ManifestRepeatsHook
  | HookAttemptZero
  | HookCompletedNeedsStarted
  | HookEvidenceInvalid string
  | HookLookupNeedsStarted
  | HookOtherPayload
  | HookDuplicateCompletion
  | HookEventOfOtherJob string
  | HookPayloadMismatch
  | HookNotStarted
  | HookConflict
  | StepTransition
  | TooFewSteps
  | TooManySteps nat

text \<open>Why a hexadecimal text has no bytes; why a stored gate key has no key (\<open>gate.rs\<close>).\<close>

datatype hex_fault = HexOddLength | HexInvalidByte char

datatype key_text_fault = KeyHex hex_fault | KeyLength nat

datatype gate_key_fault =
    KeyPathNoParent path
  | KeyMissing string
  | KeyStoreNotDirectory path
  | KeyStoreShared path
  | KeyNotRegular string
  | KeyShared string
  | KeyUnreadable string key_text_fault
  | KeyText key_text_fault
  | KeyHomeUnknown path

text \<open>\<open>delivery_error\<close> in \<open>delivery.rs\<close>.\<close>

datatype delivery_fault =
    DeliveryEmpty string
  | DeliveryDigest string
  | DeliveryRevision string
  | DeliveryTargetRef string
  | RepositoryNotAbsolute string path
  | RepositoryNotCanonical string path path
  | IntentSubmittedSigned
  | AppliedSubmittedSigned
  | IntentDiffers string
  | AppliedDiffers string
  | IntentNamesJob path string
  | AppliedNamesJob path string
  | AppliedNoOp
  | AppliedBinding
  | SignatureText string hex_fault
  | SignatureMismatch string
  | HmacKeyRefused
  | AuthorityTooLarge
  | OperationLockNotRegular path
  | ArtifactNotRegular path
  | ArtifactSwappedOpening path
  | ArtifactSwappedReading path
  | TargetNotWorktreeRoot path path
  | TargetDetached
  | GitFailed "string list" path
  | GitEmptyValue "string list" path

text \<open>An acceptance contract that cannot be read or is too weak (\<open>gate.rs\<close>, \<open>validate_strict_contract\<close>).\<close>

datatype contract_fault =
    ContractYaml
  | ContractCheckShape
  | ContractCheckKind string
  | FileExistsNeedsPath
  | ContentMatchNeedsPath
  | ContentMatchNeedsPattern
  | ShellNeedsCommand
  | CapabilitiesMalformed
  | ContractMissing path
  | ContractNotRegular path
  | ContractUnrenderable
  | NoChecks string
  | NoRequiredChecks string
  | OnlyWorkingDirectory string
  | NetworkUndeclared string string string

text \<open>An acceptance marker that is not valid or cannot be signed (\<open>gate.rs\<close>).\<close>

datatype marker_fault =
    MarkerRunId string string
  | MarkerNotPass
  | MarkerSchema u32
  | MarkerCanonicalSchema u32
  | MarkerFieldTooLarge
  | MarkerHmacRefused
  | MarkerSignatureText hex_fault
  | MarkerForged
  | MarkerLegacyProducer
  | ContainmentIncoherent bool string

text \<open>A keyless evaluation that does not match the approved contract (\<open>gate.rs\<close>).\<close>

datatype binding_fault =
    BindKind string string
  | BindMustPass bool bool
  | BindCommand "string option" "string option"
  | BindCwd "path option" "path option"
  | BindDetailEmpty
  | BindNoDuration
  | BindDetailSuffix string
  | BindProcessOutput
  | BindExists bool bool
  | BindMatch bool bool

datatype evaluation_fault =
    EvalSchema u32
  | EvalRunId string string
  | EvalWorkingDir path path
  | EvalContract string string
  | EvalResultCount nat nat
  | EvalResult nat binding_fault
  | EvalTamperSchema u32
  | EvalTamperRun string string
  | EvalTamperFacts

text \<open>\<open>observation_error\<close> in \<open>sandbox_observation.rs\<close>.\<close>

datatype observation_fault =
    ObservationFields
  | ObservationBackend
  | ObservationDigest string string string
  | ObservationDigestForm string
  | EvaluatorPartial
  | EvaluatorIdentity
  | EvaluatorRequest
  | EvaluatorDocker
  | DockerMissing
  | DockerUnexpected
  | NativeIdentitiesDiffer
  | DockerTarget
  | ObservationTargetNotRegular
  | ObservationNotRegular
  | ObservationChangedReading
  | ObservationHmacRefused
  | ObservationSignatureText hex_fault
  | ObservationSignatureMismatch
  | ObservationTooLarge
  | ObservationPersistedDiffers

text \<open>Refusals of \<open>result_projection.rs\<close>.\<close>

datatype projection_fault =
    ActivationConflict path string
  | ActivationUnsupported path
  | ProjectionManifestIdentity string
  | ProjectionPolicyChanged string
  | ProjectionAdmissionChanged string
  | ProjectionTreeMismatch string path
  | ProjectionBytesChanged string string
  | ProjectionPolicyRendering
  | ProjectionNotDirectory path

text \<open>Refusals of \<open>artifacts.rs\<close> and of the checkpoints of \<open>flight.rs\<close>.\<close>

datatype artifact_fault =
    DestinationNotEmpty path
  | UnsupportedArtifact path
  | DestinationRoot path
  | DestinationOutside path path
  | DestinationNotLeaf path
  | DestinationUnsafe path
  | DestinationAncestor path
  | CopySource path
  | CopyDestination path
  | UnsupportedCopy path
  | SnapshotUnproven string path
  | SnapshotPartial string string
  | CheckpointPartial string
  | CheckpointBytesMissing string path
  | UnsupportedCheckpoint path

text \<open>Refusals of \<open>workspace_capture.rs\<close>.\<close>

datatype capture_fault =
    CapturePolicyVersion u32 path
  | CapturePolicyLost path
  | CapturePolicyMissing path
  | HydrationMissing
  | HydrationDisagrees
  | HydrationVersion u32
  | HydrationNotRepository
  | HydrationNoIndex
  | HydrationIndexForm
  | HydrationHeadForm
  | HydrationUnsafePath path
  | HydrationDuplicatePath path
  | HydrationUnreadable path string
  | TrackedPathsUnreadable path string
  | EncodedPathOdd
  | EncodedPathInvalid
  | CapturePartial string string
  | CapturePathPrefix path path
  | IgnoreRuleInvalid string nat
  | IgnoreSourceInvalid string
  | CapturePolicyRendering
  | CargoMetadataInvalid
  | RemovalNotDirectory path
  | CaptureRootNotDirectory path
  | CaptureUnsafePath path
  | CaptureHierarchyNotDirectory path
  | CaptureSizeChanged path u64 u64
  | BlobCorrupt path

text \<open>Refusals of the Git helpers of \<open>completion.rs\<close>.\<close>

datatype result_git_fault =
    BaseNotAncestor string string
  | GitOperation string path "string option"
  | FilterInventoryMalformed
  | FilteredPaths "path list"

text \<open>
  \<open>completion_error\<close> in \<open>completion.rs\<close>. Two of the messages quote another error, so this type, the
  reasons of \<open>InvalidInput\<close> and the error type are declared together.
\<close>

datatype dr_error =
    Io path io_error_kind
  | Json path
  | InvalidInput input_fault
  | NotFound string
  | LockHeld string string string u64
  | ProcessBoundary process_boundary_kind string "path option" string
and input_fault =
    HistoryCorrupt string history_fault
  | CorruptRow path nat
  | JobLeaseFault string lease_fault
  | PlanFault plan_fault
  | CampaignFault campaign_fault
  | ChainFault chain_fault
  | OwnerIdEmpty
  | BootIdEmpty
  | PidZero
  | TtlZero
  | TtlOutOfRange
  | ExpiryOverflow
  | PathHasNoParent path
  | OwnershipIncomplete
  | RunIdEmpty
  | AmbiguousRunId string "string list"
  | GateKeyFault gate_key_fault
  | DeliveryFault delivery_fault
  | JobOperationActive string
  | TamperBaselineGone path
  | ContractFault contract_fault
  | MarkerFault marker_fault
  | EvaluationFault evaluation_fault
  | AcceptanceRefused "string list"
  | AcceptanceCheckFailed string
  | ObservationFault string observation_fault
  | CaptureFault capture_fault
  | ProjectionFault projection_fault
  | ArtifactFault artifact_fault
  | ResultGitFault result_git_fault
  | CompletionFault string completion_fault
  | SteerTextEmpty
  | DeliveredTurnEmpty
and completion_fault =
    IdentitiesDisagree
  | MarkerNotNative
  | NotContained
  | JudgmentNotAchieved
  | JudgmentCoverage
  | ProjectionMissing
  | ProjectionDigestMissing
  | ProjectionGone
  | DigestChanged string string string
  | JudgeModeChanged
  | NoExecutionPolicy
  | PolicyContainment
  | ContractRejected dr_error
  | ReceiptIdentity
  | ReceiptProvenance
  | AttemptIdentity
  | ExecutionLedgersChanged
  | JudgmentChanged
  | ProofMismatch
  | NoReceipt
  | ReceiptHmacRefused
  | ReceiptSignatureText hex_fault
  | ReceiptSignatureMismatch
  | ReceiptTooLarge
  | SnapshotMissing string path
  | SnapshotNotRegular string path
  | SnapshotIdentity string
  | SnapshotChanged string
  | RepairIncomplete
  | RepairIntentMalformed
  | RepairNotRevised
  | RepairNotFenced
  | RepairCandidateMismatch
  | RepairCandidateNotFenced
  | RepairOtherAttempt
  | RepairMergedGone
  | RepairMergedChanged
  | RepairChainBroken
  | RepairLineageBroken
  | RepairFirstRound
  | RecordUnavailable dr_error
  | ResultNoGitRoot
  | ResultNoBranch
  | ResultNoBase
  | ResultNoSourceRevision
  | ResultBaseMismatch
  | ResultBranchUnavailable
  | ResultRevisionGone
  | ResultGitlinks "path list"
  | ResultNonDeliverable "path list"
  | ResultDirty "path list"
  | ResultNoHead
  | ResultHeadMismatch
  | ResultNoCheckout
  | ResultRevisionMismatch
  | ResultNotCommitted
  | ResultDiffers string "path list"
  | RetentionConflict

section \<open>Results and the error classes\<close>

type_synonym 'a res = "dr_error + 'a"

fun is_retryable :: "dr_error \<Rightarrow> bool" where
  "is_retryable (Io _ k) = is_retryable_io_kind k"
| "is_retryable (Json _) = False"
| "is_retryable (InvalidInput _) = False"
| "is_retryable (NotFound _) = False"
| "is_retryable (LockHeld _ _ _ _) = True"
| "is_retryable (ProcessBoundary _ _ _ _) = False"

fun is_fatal :: "dr_error \<Rightarrow> bool" where
  "is_fatal (Io _ k) = (\<not> is_retryable_io_kind k)"
| "is_fatal (Json _) = True"
| "is_fatal (InvalidInput _) = True"
| "is_fatal (NotFound _) = True"
| "is_fatal (LockHeld _ _ _ _) = False"
| "is_fatal (ProcessBoundary k _ _ _) = (k = SupervisionFailed \<or> k = CleanupIncomplete)"

definition history_corrupt :: "string \<Rightarrow> history_fault \<Rightarrow> dr_error" where
  "history_corrupt job_id f = InvalidInput (HistoryCorrupt job_id f)"

definition lease_error :: "string \<Rightarrow> lease_fault \<Rightarrow> dr_error" where
  "lease_error job_id f = InvalidInput (JobLeaseFault job_id f)"

text \<open>A refusal of the history or of the lease is final: the watchdog escalates it.\<close>

lemma corrupt_and_lease_refusals_fatal [simp]:
  "is_fatal (history_corrupt j f)" "is_fatal (lease_error j g)"
  "\<not> is_retryable (history_corrupt j f)" "\<not> is_retryable (lease_error j g)"
  by (simp_all add: history_corrupt_def lease_error_def)

end
