(* ===== verification/Protocol_Job.thy ===== *)
theory Protocol_Job
  imports Errors
begin

text \<open>
  The persisted vocabulary of durable jobs (\<open>crates/deadreckon-protocol/src/job.rs\<close>): the job and
  its approved policy, the lifecycle events, the lease, and the table that says which stop reason
  may explain which terminal outcome. Constructors keep the source's names; where two enums share
  a name the type qualifies it, as in \<open>job_outcome.Verified\<close> and \<open>stop_reason.Verified\<close>. Record
  fields carry a short prefix of their struct.
\<close>

section \<open>Schema version and sequence numbers\<close>

definition JOB_SCHEMA_VERSION :: u32 where "JOB_SCHEMA_VERSION = 1"

datatype job_schema_version = JobSchemaVersion (schema_get: u32)

definition CURRENT :: job_schema_version where
  "CURRENT = JobSchemaVersion JOB_SCHEMA_VERSION"

text \<open>Any version but the current one fails to deserialize.\<close>

definition deserialize_schema_version :: "u32 \<Rightarrow> job_schema_version option" where
  "deserialize_schema_version v = (if v = JOB_SCHEMA_VERSION then Some CURRENT else None)"

text \<open>A position in the history is a non-zero 64-bit number; \<open>new\<close> refuses zero.\<close>

type_synonym job_event_sequence = u64

definition job_event_sequence_new :: "u64 \<Rightarrow> job_event_sequence option" where
  "job_event_sequence_new v = (if v = 0 then None else Some v)"

section \<open>The job and its policy\<close>

datatype job_shape = Single | Graph | LegacyChain | LegacyCampaign

datatype semantic_judge_mode = Required | Optional | Disabled

datatype job_gate_network_access = Deny | Loopback | Full

record job_tool_policy =
  tp_workspace_read :: bool
  tp_workspace_write :: bool
  tp_network_allowlist :: "string list"

record job_gate_policy =
  gp_network :: job_gate_network_access

record gate_binary_identity =
  gb_sha256 :: string
  gb_os :: string
  gb_arch :: string

record docker_gate_identity =
  dk_image_id :: string
  dk_platform :: string
  dk_guest_path :: path

record gate_evaluator_identity =
  ge_schema_version :: u32
  ge_protocol_version :: u32
  ge_controller :: gate_binary_identity
  ge_evaluator :: gate_binary_identity
  ge_docker :: "docker_gate_identity option"

record job_execution_policy =
  ep_sandbox_requested :: string
  ep_require_containment :: bool
  ep_tools :: "string \<rightharpoonup> job_tool_policy"
  ep_gate :: job_gate_policy
  ep_gate_evaluator :: "gate_evaluator_identity option"

definition workspace_only :: "string \<Rightarrow> job_execution_policy" where
  "workspace_only sandbox =
    (let tool = \<lparr>tp_workspace_read = True, tp_workspace_write = True, tp_network_allowlist = []\<rparr>
     in \<lparr>ep_sandbox_requested = sandbox,
         ep_require_containment = True,
         ep_tools = fold (\<lambda>name tools. tools(name \<mapsto> tool)) [''bash'', ''write_file''] Map.empty,
         ep_gate = \<lparr>gp_network = Deny\<rparr>,
         ep_gate_evaluator = None\<rparr>)"

record job_policy =
  pl_max_spend_usd :: f64
  pl_max_wall_seconds :: u64
  pl_max_attempts :: u32
  pl_deadline :: "timestamp option"
  pl_semantic_judge :: semantic_judge_mode
  pl_execution :: "job_execution_policy option"

record job =
  jb_schema_version :: job_schema_version
  jb_job_id :: string
  jb_scope :: string
  jb_goal :: string
  jb_shape :: job_shape
  jb_created_at :: timestamp
  jb_source_cwd :: path
  jb_launch_plan_sha256 :: string
  jb_authority_sha256 :: string
  jb_policy :: job_policy

section \<open>Phase, outcome and stop reason\<close>

datatype job_phase = Queued | Running | VerifyingChecks | VerifyingMeaning | Waiting | Terminal

datatype job_outcome =
    Verified
  | NeedsReview
  | Blocked
  | BudgetExhausted
  | DeadlineReached
  | RetryExhausted
  | Cancelled
  | Failed

datatype stop_reason =
    Verified
  | SemanticRevise
  | SemanticUncertain
  | SemanticUnavailable
  | OperatorInputRequired
  | SpendCap
  | WallCap
  | Deadline
  | AttemptLimit
  | CancelRequested
  | DeterministicRevise
  | TransientProvider
  | FatalProvider
  | FatalGate
  | LostContainment
  | SupervisorFailure
  | CorruptHistory
  | LegacyUnknown

definition all_stop_reasons :: "stop_reason list" where
  "all_stop_reasons =
    [stop_reason.Verified, SemanticRevise, SemanticUncertain, SemanticUnavailable,
     OperatorInputRequired, SpendCap, WallCap, Deadline, AttemptLimit,
     CancelRequested, DeterministicRevise, TransientProvider, FatalProvider, FatalGate,
     LostContainment, SupervisorFailure, CorruptHistory, LegacyUnknown]"

fun accepts_stop_reason :: "job_outcome \<Rightarrow> stop_reason \<Rightarrow> bool" where
  "accepts_stop_reason job_outcome.Verified r = (r = stop_reason.Verified)"
| "accepts_stop_reason job_outcome.NeedsReview r =
    (r \<in> {SemanticRevise, SemanticUncertain, SemanticUnavailable})"
| "accepts_stop_reason job_outcome.Blocked r = (r \<in> {OperatorInputRequired, LostContainment})"
| "accepts_stop_reason job_outcome.BudgetExhausted r = (r \<in> {SpendCap, WallCap})"
| "accepts_stop_reason job_outcome.DeadlineReached r = (r = Deadline)"
| "accepts_stop_reason job_outcome.RetryExhausted r = (r = AttemptLimit)"
| "accepts_stop_reason job_outcome.Cancelled r = (r = stop_reason.CancelRequested)"
| "accepts_stop_reason job_outcome.Failed r =
    (r \<in> {TransientProvider, FatalProvider, FatalGate, SupervisorFailure, CorruptHistory,
      LegacyUnknown})"

text \<open>The \<open>snake_case\<close> wire names of the stop reasons.\<close>

fun stop_reason_label :: "stop_reason \<Rightarrow> string" where
  "stop_reason_label stop_reason.Verified = ''verified''"
| "stop_reason_label SemanticRevise = ''semantic_revise''"
| "stop_reason_label SemanticUncertain = ''semantic_uncertain''"
| "stop_reason_label SemanticUnavailable = ''semantic_unavailable''"
| "stop_reason_label OperatorInputRequired = ''operator_input_required''"
| "stop_reason_label SpendCap = ''spend_cap''"
| "stop_reason_label WallCap = ''wall_cap''"
| "stop_reason_label Deadline = ''deadline''"
| "stop_reason_label AttemptLimit = ''attempt_limit''"
| "stop_reason_label CancelRequested = ''cancel_requested''"
| "stop_reason_label DeterministicRevise = ''deterministic_revise''"
| "stop_reason_label TransientProvider = ''transient_provider''"
| "stop_reason_label FatalProvider = ''fatal_provider''"
| "stop_reason_label FatalGate = ''fatal_gate''"
| "stop_reason_label LostContainment = ''lost_containment''"
| "stop_reason_label SupervisorFailure = ''supervisor_failure''"
| "stop_reason_label CorruptHistory = ''corrupt_history''"
| "stop_reason_label LegacyUnknown = ''legacy_unknown''"

definition stop_reason_of_label :: "string \<Rightarrow> stop_reason option" where
  "stop_reason_of_label s = find (\<lambda>r. stop_reason_label r = s) all_stop_reasons"

text \<open>The derived deserializer of a unit-variant enum: its name, or an object with the name as
  the only key and null as its value.\<close>

definition stop_reason_of_json :: "json \<Rightarrow> stop_reason option" where
  "stop_reason_of_json v =
    (case v of
       Str s \<Rightarrow> stop_reason_of_label s
     | Object [(s, Null)] \<Rightarrow> stop_reason_of_label s
     | _ \<Rightarrow> None)"

section \<open>Events and leases\<close>

datatype job_event_kind =
    Created
  | ContractApproved
  | Queued
  | LeaseAcquired
  | LeaseReclaimed
  | WorkspacePrepared
  | ChildLaunchPrepared
  | AttemptStarted
  | ChildLinked
  | CampaignSubAuthorityChanged
  | RepairChildAuthorityChanged
  | AttemptStopped
  | RetryScheduled
  | DeterministicGatePassed
  | DeterministicGateFailed
  | SemanticJudgeAchieved
  | SemanticJudgeRevise
  | SemanticJudgeUncertain
  | NeedsReview
  | Blocked
  | BudgetExhausted
  | DeadlineReached
  | CancelRequested
  | Cancelled
  | Failed
  | Verified
  | ResultApplied
  | ResultExported
  | UndoStarted
  | UndoCompleted
  | UndoFailed

record job_event =
  ev_schema_version :: job_schema_version
  ev_job_id :: string
  ev_sequence :: job_event_sequence
  ev_event_id :: string
  ev_causation_id :: string
  ev_timestamp :: timestamp
  ev_lease_epoch :: u64
  ev_kind :: job_event_kind
  ev_detail :: json

record job_lease =
  ls_schema_version :: job_schema_version
  ls_job_id :: string
  ls_owner_id :: string
  ls_epoch :: u64
  ls_acquired_at :: timestamp
  ls_heartbeat_at :: timestamp
  ls_expires_at :: timestamp
  ls_boot_id :: string
  ls_pid :: u32
  ls_process_start_identity :: "string option"
  ls_process_group :: u32
  ls_child_pid :: "u32 option"

section \<open>Facts about the vocabulary\<close>

lemma all_stop_reasons_complete: "r \<in> set all_stop_reasons"
  by (cases r) (simp_all add: all_stop_reasons_def)

lemma stop_reason_labels_distinct: "distinct (map stop_reason_label all_stop_reasons)"
  by code_simp

lemma stop_reason_label_inject: "stop_reason_label r = stop_reason_label q \<longleftrightarrow> r = q"
proof -
  have "inj_on stop_reason_label (set all_stop_reasons)"
    using stop_reason_labels_distinct by (simp only: distinct_map)
  then show ?thesis using all_stop_reasons_complete by (auto dest: inj_onD)
qed

lemma stop_reason_of_label_label [simp]: "stop_reason_of_label (stop_reason_label r) = Some r"
proof -
  have "\<exists>i < length all_stop_reasons. all_stop_reasons ! i = r"
    using all_stop_reasons_complete [of r] by (simp add: in_set_conv_nth)
  then obtain i where i: "i < length all_stop_reasons" "all_stop_reasons ! i = r" by blast
  have "distinct all_stop_reasons"
    using stop_reason_labels_distinct by (simp only: distinct_map)
  then have "j < i \<Longrightarrow> all_stop_reasons ! j \<noteq> r" for j
    using i by (metis less_trans nat_neq_iff nth_eq_iff_index_eq)
  then show ?thesis
    using i unfolding stop_reason_of_label_def find_Some_iff
    by (metis stop_reason_label_inject)
qed

lemma stop_reason_of_label_Some: "stop_reason_of_label s = Some r \<Longrightarrow> s = stop_reason_label r"
  by (auto simp: stop_reason_of_label_def find_Some_iff)

text \<open>A stop reason explains at most one outcome, so the outcome is a function of the reason.\<close>

lemma accepts_stop_reason_unique:
  "accepts_stop_reason o1 r \<Longrightarrow> accepts_stop_reason o2 r \<Longrightarrow> o1 = o2"
  by (cases o1; cases o2) auto

end
