(* ===== verification/Store.thy ===== *)
theory Store
  imports Errors
begin

text \<open>
  The files under the DeadReckon home as the core crate uses them, and the computations that read
  and write them. A file system is a map from paths to contents together with the failures the
  operating system would report: an operation on a path either fails with the recorded I/O error
  or has its effect. A failing append says how many bytes reached the file first, so a torn row is
  a state of the model. A missing parent directory shows as a write failure of the path.

  A computation \<open>'a io\<close> threads the file system and stops at the first error (the \<open>?\<close>
  operator). \<open>serde_json\<close> is a parameter: a codec gives the bytes of a value and the value of
  bytes, and the properties that need it name the two laws they use (\<open>codec_ok\<close>).
\<close>

section \<open>File systems\<close>

record fs =
  files :: "path \<Rightarrow> bytes option"
  read_fault :: "path \<Rightarrow> io_error_kind option"
  write_fault :: "path \<Rightarrow> io_error_kind option"
  append_fault :: "path \<Rightarrow> (io_error_kind \<times> nat) option"

type_synonym 'a io = "fs \<Rightarrow> 'a res \<times> fs"

definition put_file :: "path \<Rightarrow> bytes \<Rightarrow> fs \<Rightarrow> fs" where
  "put_file p b s = s\<lparr>files := (files s)(p \<mapsto> b)\<rparr>"

lemma put_file_simps [simp]:
  "files (put_file p b s) = (files s)(p \<mapsto> b)"
  "read_fault (put_file p b s) = read_fault s"
  "write_fault (put_file p b s) = write_fault s"
  "append_fault (put_file p b s) = append_fault s"
  by (simp_all add: put_file_def)

definition same_faults :: "fs \<Rightarrow> fs \<Rightarrow> bool" where
  "same_faults s t \<longleftrightarrow> read_fault t = read_fault s \<and> write_fault t = write_fault s
    \<and> append_fault t = append_fault s"

lemma same_faults_refl [simp]: "same_faults s s"
  by (simp add: same_faults_def)

lemma same_faults_trans: "same_faults s t \<Longrightarrow> same_faults t u \<Longrightarrow> same_faults s u"
  by (simp add: same_faults_def)

lemma same_faults_put_file [simp]: "same_faults s (put_file p b t) = same_faults s t"
  by (simp add: same_faults_def)

section \<open>Computations\<close>

definition io_return :: "'a \<Rightarrow> 'a io" where
  "io_return a = (\<lambda>s. (Inr a, s))"

definition io_throw :: "dr_error \<Rightarrow> 'a io" where
  "io_throw e = (\<lambda>s. (Inl e, s))"

definition io_lift :: "'a res \<Rightarrow> 'a io" where
  "io_lift r = (\<lambda>s. (r, s))"

definition io_bind :: "'a io \<Rightarrow> ('a \<Rightarrow> 'b io) \<Rightarrow> 'b io" where
  "io_bind m f = (\<lambda>s. case m s of (Inl e, s') \<Rightarrow> (Inl e, s') | (Inr a, s') \<Rightarrow> f a s')"

definition io_when :: "bool \<Rightarrow> dr_error \<Rightarrow> unit io" where
  "io_when b e = (if b then io_throw e else io_return ())"

lemma io_run [simp]:
  "io_return a s = (Inr a, s)"
  "io_throw e s = (Inl e, s)"
  "io_lift r s = (r, s)"
  by (simp_all add: io_return_def io_throw_def io_lift_def)

lemma io_bind_run:
  "io_bind m f s = (case m s of (Inl e, s') \<Rightarrow> (Inl e, s') | (Inr a, s') \<Rightarrow> f a s')"
  by (simp add: io_bind_def)

lemma io_bind_steps [simp]:
  "m s = (Inl e, s') \<Longrightarrow> io_bind m f s = (Inl e, s')"
  "m s = (Inr a, s') \<Longrightarrow> io_bind m f s = f a s'"
  by (simp_all add: io_bind_run)

lemma io_bind_Inr_iff [result_simps]:
  "io_bind m f s = (Inr b, s'') \<longleftrightarrow> (\<exists>a s'. m s = (Inr a, s') \<and> f a s' = (Inr b, s''))"
  by (auto simp: io_bind_run split: prod.splits sum.splits)

lemma io_bind_Inl_iff [result_simps]:
  "io_bind m f s = (Inl e, s'') \<longleftrightarrow>
    m s = (Inl e, s'') \<or> (\<exists>a s'. m s = (Inr a, s') \<and> f a s' = (Inl e, s''))"
  by (auto simp: io_bind_run split: prod.splits sum.splits)

lemma io_lift_Inr_iff [result_simps]: "io_lift r s = (Inr a, s') \<longleftrightarrow> r = Inr a \<and> s' = s"
  by (auto simp: io_lift_def)

lemma io_when_run [simp]: "io_when b e s = (if b then (Inl e, s) else (Inr (), s))"
  by (simp add: io_when_def)

text \<open>
  A computation that only looks keeps the file system; one that is framed by a relation keeps the
  relation, whatever the outcome. The two lemmas carry the frame proofs of all operations.
\<close>

definition readonly :: "'a io \<Rightarrow> bool" where
  "readonly m \<longleftrightarrow> (\<forall>s. snd (m s) = s)"

lemma readonly_intros [intro!]:
  "readonly (io_return a)" "readonly (io_throw e)" "readonly (io_lift r)" "readonly (io_when b e)"
  by (simp_all add: readonly_def)

lemma readonly_bind [intro]:
  assumes "readonly m" "\<And>a. readonly (f a)"
  shows "readonly (io_bind m f)"
  using assms by (auto simp: readonly_def io_bind_run split: prod.splits sum.splits) (metis snd_conv)+

lemma readonlyD: "readonly m \<Longrightarrow> m s = (r, s') \<Longrightarrow> s' = s"
  by (metis readonly_def snd_conv)

definition framed :: "(fs \<Rightarrow> fs \<Rightarrow> bool) \<Rightarrow> 'a io \<Rightarrow> bool" where
  "framed R m \<longleftrightarrow> (\<forall>s. R s (snd (m s)))"

lemma framedD: "framed R m \<Longrightarrow> m s = (r, s') \<Longrightarrow> R s s'"
  by (metis framed_def snd_conv)

lemma framed_readonly: "readonly m \<Longrightarrow> (\<And>s. R s s) \<Longrightarrow> framed R m"
  by (simp add: framed_def readonly_def)

lemma framed_bind:
  assumes "framed R m" "\<And>a. framed R (f a)" and trans: "\<And>a b c. R a b \<Longrightarrow> R b c \<Longrightarrow> R a c"
  shows "framed R (io_bind m f)"
  unfolding framed_def
proof
  fix s
  obtain r t where m: "m s = (r, t)" by (cases "m s")
  then have st: "R s t" using assms(1) framedD by metis
  show "R s (snd (io_bind m f s))"
  proof (cases r)
    case (Inl e)
    with m st show ?thesis by (simp add: io_bind_run)
  next
    case (Inr a)
    have "R t (snd (f a t))" using assms(2) by (simp add: framed_def)
    with st have "R s (snd (f a t))" by (rule trans)
    with m Inr show ?thesis by (simp add: io_bind_run)
  qed
qed

section \<open>Computations on any world\<close>

text \<open>The same computations where more than files changes: commands run, trees are copied, clocks are read.\<close>

type_synonym ('w, 'a) act = "'w \<Rightarrow> 'a res \<times> 'w"

definition act_return :: "'a \<Rightarrow> ('w, 'a) act" where "act_return a = (\<lambda>w. (Inr a, w))"

definition act_lift :: "'a res \<Rightarrow> ('w, 'a) act" where "act_lift r = (\<lambda>w. (r, w))"

definition act_bind :: "('w, 'a) act \<Rightarrow> ('a \<Rightarrow> ('w, 'b) act) \<Rightarrow> ('w, 'b) act" where
  "act_bind m f = (\<lambda>w. case m w of (Inl e, w') \<Rightarrow> (Inl e, w') | (Inr a, w') \<Rightarrow> f a w')"

lemma act_run [simp]: "act_return a w = (Inr a, w)" "act_lift r w = (r, w)"
  by (simp_all add: act_return_def act_lift_def)

lemma act_bind_Inr_iff [result_simps]:
  "act_bind m f w = (Inr b, w'') \<longleftrightarrow> (\<exists>a w'. m w = (Inr a, w') \<and> f a w' = (Inr b, w''))"
  by (auto simp: act_bind_def split: prod.splits sum.splits)

lemma act_bindE:
  assumes "act_bind m f w = (Inr b, w'')"
  obtains a w' where "m w = (Inr a, w')" "f a w' = (Inr b, w'')"
  using assms by (auto simp: act_bind_Inr_iff)

lemma act_lift_Inr_iff [result_simps]: "act_lift r w = (Inr a, w') \<longleftrightarrow> r = Inr a \<and> w' = w"
  by auto

lemma act_bind_step [simp]: "m w = (Inr a, w') \<Longrightarrow> act_bind m f w = f a w'"
  by (simp add: act_bind_def)

lemma act_bind_fails [simp]: "m w = (Inl e, w') \<Longrightarrow> act_bind m f w = (Inl e, w')"
  by (simp add: act_bind_def)

section \<open>File operations\<close>

text \<open>\<open>fs::read\<close>, with the path attached to the error.\<close>

definition fs_read :: "path \<Rightarrow> bytes io" where
  "fs_read p = (\<lambda>s.
    (case read_fault s p of
       Some k \<Rightarrow> Inl (Io p k)
     | None \<Rightarrow> (case files s p of None \<Rightarrow> Inl (Io p IoNotFound) | Some b \<Rightarrow> Inr b), s))"

text \<open>Reading where a missing file counts as empty (the \<open>ErrorKind::NotFound\<close> arms).\<close>

definition fs_read_or :: "bytes \<Rightarrow> path \<Rightarrow> bytes io" where
  "fs_read_or dflt p = (\<lambda>s. case fs_read p s of
     (Inl (Io q IoNotFound), s') \<Rightarrow> (Inr dflt, s')
   | r \<Rightarrow> r)"

definition fs_read_optional :: "path \<Rightarrow> bytes option io" where
  "fs_read_optional p = (\<lambda>s. case fs_read p s of
     (Inl (Io q IoNotFound), s') \<Rightarrow> (Inr None, s')
   | (Inl e, s') \<Rightarrow> (Inl e, s')
   | (Inr b, s') \<Rightarrow> (Inr (Some b), s'))"

text \<open>\<open>path.exists()\<close>: a path whose metadata cannot be read does not exist.\<close>

definition fs_exists :: "path \<Rightarrow> bool io" where
  "fs_exists p = (\<lambda>s. (Inr (read_fault s p = None \<and> files s p \<noteq> None), s))"

lemma readonly_reads [intro!]:
  "readonly (fs_read p)" "readonly (fs_read_or d p)" "readonly (fs_read_optional p)"
  "readonly (fs_exists p)"
  by (auto simp: readonly_def fs_read_def fs_read_or_def fs_read_optional_def fs_exists_def
      split: option.splits prod.splits sum.splits dr_error.splits io_error_kind.splits)

lemma fs_read_Inr_iff [result_simps]:
  "fs_read p s = (Inr b, s') \<longleftrightarrow> s' = s \<and> read_fault s p = None \<and> files s p = Some b"
  by (auto simp: fs_read_def split: option.splits)

lemma fs_read_or_value:
  "read_fault s p = None \<Longrightarrow>
    fs_read_or d p s = (Inr (case files s p of None \<Rightarrow> d | Some b \<Rightarrow> b), s)"
  by (simp add: fs_read_or_def fs_read_def split: option.splits)

section \<open>Writing JSON\<close>

text \<open>A \<open>serde_json\<close> codec of one persisted type.\<close>

record 'a codec =
  enc :: "'a \<Rightarrow> bytes option"
  dec :: "bytes \<Rightarrow> 'a option"

text \<open>
  The two laws of the row format used for a value: compact JSON escapes control characters, so a
  row holds no line feed and is not empty, and parsing a row gives the value back.
\<close>

definition codec_ok :: "'a codec \<Rightarrow> 'a \<Rightarrow> bool" where
  "codec_ok c v \<longleftrightarrow>
    (\<forall>b. enc c v = Some b \<longrightarrow> b \<noteq> [] \<and> newline \<notin> set b \<and> dec c b = Some v)"

lemma codec_okD:
  assumes "codec_ok c v" "enc c v = Some b"
  shows "b \<noteq> []" "newline \<notin> set b" "dec c b = Some v"
  using assms by (auto simp: codec_ok_def)

text \<open>A document is written with a final line feed, which parsing ignores.\<close>

definition document_ok :: "'a codec \<Rightarrow> 'a \<Rightarrow> bool" where
  "document_ok c v \<longleftrightarrow> (\<forall>b. enc c v = Some b \<longrightarrow> dec c (b @ [newline]) = Some v)"

text \<open>A codec given by a finite table, and an empty disk that never fails: the concrete parameters
  at which properties are evaluated.\<close>

definition table_codec :: "('a \<times> bytes) list \<Rightarrow> 'a codec" where
  "table_codec t =
    \<lparr>enc = map_of t,
     dec = (\<lambda>b. map_of (map prod.swap t)
       (if b \<noteq> [] \<and> last b = newline then butlast b else b))\<rparr>"

definition empty_fs :: fs where
  "empty_fs = \<lparr>files = (\<lambda>_. None), read_fault = (\<lambda>_. None), write_fault = (\<lambda>_. None),
    append_fault = (\<lambda>_. None)\<rparr>"

lemma empty_fs_simps [simp]:
  "files empty_fs p = None" "read_fault empty_fs p = None" "write_fault empty_fs p = None"
  "append_fault empty_fs p = None"
  by (simp_all add: empty_fs_def)

text \<open>Parsing errors carry the path (\<open>with_json_path\<close>).\<close>

definition parse_json :: "('a, 'b) codec_scheme \<Rightarrow> path \<Rightarrow> bytes \<Rightarrow> 'a res" where
  "parse_json c p b = ok_or (dec c b) (Json p)"

text \<open>
  \<open>atomic_write_json\<close>: the bytes go to a temporary file that replaces the target in one step, so a
  failure leaves the old contents.
\<close>

definition atomic_write_json :: "'a codec \<Rightarrow> path \<Rightarrow> 'a \<Rightarrow> unit io" where
  "atomic_write_json c p v = (\<lambda>s.
    (case path_parent p of
       None \<Rightarrow> (Inl (InvalidInput (PathHasNoParent p)), s)
     | Some _ \<Rightarrow>
        (case write_fault s p of
           Some k \<Rightarrow> (Inl (Io p k), s)
         | None \<Rightarrow>
            (case enc c v of
               None \<Rightarrow> (Inl (Json p), s)
             | Some b \<Rightarrow> (Inr (), put_file p (b @ [newline]) s)))))"

text \<open>
  Appending one row (\<open>append_synced_json_line\<close>, \<open>append_json_line\<close>): the row is rendered first,
  then written and synced; a failing append leaves the bytes that reached the file.
\<close>

definition append_bytes :: "path \<Rightarrow> bytes \<Rightarrow> unit io" where
  "append_bytes p b = (\<lambda>s.
    (let old = (case files s p of None \<Rightarrow> [] | Some x \<Rightarrow> x) in
     case append_fault s p of
       Some (k, n) \<Rightarrow> (Inl (Io p k), if n = 0 then s else put_file p (old @ take n b) s)
     | None \<Rightarrow> (Inr (), put_file p (old @ b) s)))"

definition append_row :: "'a codec \<Rightarrow> path \<Rightarrow> 'a \<Rightarrow> unit io" where
  "append_row c p v =
    io_bind (io_lift (ok_or (enc c v) (Json p))) (\<lambda>b. append_bytes p (b @ [newline]))"

text \<open>\<open>append_json_line\<close> of \<open>state.rs\<close> also refuses a path without parent.\<close>

definition append_json_line :: "'a codec \<Rightarrow> path \<Rightarrow> 'a \<Rightarrow> unit io" where
  "append_json_line c p v =
    io_bind (io_lift (ok_or (path_parent p) (InvalidInput (PathHasNoParent p))))
      (\<lambda>_. append_row c p v)"

lemma atomic_write_json_Inr_iff [result_simps]:
  "atomic_write_json c p v s = (Inr u, s') \<longleftrightarrow>
    path_parent p \<noteq> None \<and> write_fault s p = None
      \<and> (\<exists>b. enc c v = Some b \<and> s' = put_file p (b @ [newline]) s)"
  by (auto simp: atomic_write_json_def split: option.splits)

lemma append_row_Inr_iff [result_simps]:
  "append_row c p v s = (Inr u, s') \<longleftrightarrow>
    append_fault s p = None
      \<and> (\<exists>b. enc c v = Some b
        \<and> s' = put_file p ((case files s p of None \<Rightarrow> [] | Some x \<Rightarrow> x) @ b @ [newline]) s)"
  by (cases "append_fault s p")
    (auto simp: append_row_def append_bytes_def Let_def result_simps split: option.splits)

section \<open>What a write may change\<close>

text \<open>Only the given paths change, and the failures of the system stay.\<close>

definition changes_only :: "path set \<Rightarrow> fs \<Rightarrow> fs \<Rightarrow> bool" where
  "changes_only P s t \<longleftrightarrow> same_faults s t \<and> (\<forall>p. p \<notin> P \<longrightarrow> files t p = files s p)"

lemma changes_only_refl [simp]: "changes_only P s s"
  by (simp add: changes_only_def)

lemma changes_only_trans: "changes_only P s t \<Longrightarrow> changes_only P t u \<Longrightarrow> changes_only P s u"
  by (auto simp: changes_only_def intro: same_faults_trans)

lemma changes_only_mono: "changes_only P s t \<Longrightarrow> P \<subseteq> Q \<Longrightarrow> changes_only Q s t"
  by (auto simp: changes_only_def)

lemma changes_only_put_file: "p \<in> P \<Longrightarrow> changes_only P s (put_file p b s)"
  by (auto simp: changes_only_def)

lemma framed_changes_bind:
  "framed (changes_only P) m \<Longrightarrow> (\<And>a. framed (changes_only P) (f a)) \<Longrightarrow>
    framed (changes_only P) (io_bind m f)"
  by (rule framed_bind) (auto intro: changes_only_trans)

lemma framed_changes_readonly: "readonly m \<Longrightarrow> framed (changes_only P) m"
  by (rule framed_readonly) simp_all

lemma framed_atomic_write_json: "p \<in> P \<Longrightarrow> framed (changes_only P) (atomic_write_json c p v)"
  by (auto simp: framed_def atomic_write_json_def changes_only_put_file split: option.splits)

lemma framed_append_row: "p \<in> P \<Longrightarrow> framed (changes_only P) (append_row c p v)"
  by (auto simp: framed_def append_row_def append_bytes_def io_bind_run ok_or_def Let_def
      changes_only_put_file split: option.splits prod.splits sum.splits)

lemma framed_append_json_line: "p \<in> P \<Longrightarrow> framed (changes_only P) (append_json_line c p v)"
  unfolding append_json_line_def
  by (intro framed_changes_bind framed_append_row framed_changes_readonly readonly_intros)

text \<open>A log file only grows: its old contents are a prefix of the new ones.\<close>

definition grows :: "path \<Rightarrow> fs \<Rightarrow> fs \<Rightarrow> bool" where
  "grows p s t \<longleftrightarrow>
    prefix (case files s p of None \<Rightarrow> [] | Some b \<Rightarrow> b) (case files t p of None \<Rightarrow> [] | Some b \<Rightarrow> b)"

lemma grows_refl [simp]: "grows p s s"
  by (simp add: grows_def)

lemma grows_trans: "grows p s t \<Longrightarrow> grows p t u \<Longrightarrow> grows p s u"
  unfolding grows_def by (rule prefix_order.trans)

lemma framed_grows_bind:
  "framed (grows p) m \<Longrightarrow> (\<And>a. framed (grows p) (f a)) \<Longrightarrow> framed (grows p) (io_bind m f)"
  by (rule framed_bind) (auto intro: grows_trans)

lemma framed_grows_readonly: "readonly m \<Longrightarrow> framed (grows p) m"
  by (rule framed_readonly) simp_all

lemma framed_grows_append_row: "framed (grows p) (append_row c q v)"
  by (auto simp: framed_def append_row_def append_bytes_def io_bind_run ok_or_def Let_def grows_def
      split: option.splits prod.splits sum.splits)

lemma framed_grows_atomic_write: "p \<noteq> q \<Longrightarrow> framed (grows p) (atomic_write_json c q v)"
  by (auto simp: framed_def atomic_write_json_def grows_def split: option.splits)

end
