(* ===== verification/Job_History.thy ===== *)
theory Job_History
  imports Protocol_Job Store
begin

text \<open>
  The job lifecycle reducer (\<open>crates/deadreckon-core/src/job.rs\<close>): a projection folded from the
  append-only history of a job. \<open>reduce_event\<close> is one event, \<open>reduce_undo_event\<close> and
  \<open>terminal\<close> its helpers, \<open>reduce_job_history\<close> the whole fold with its identity, duplicate and
  sequence checks. The lemmas show the reducer's invariant, that a terminal outcome and a
  cancellation request are never overwritten, and what each counter of the projection counts.
\<close>

section \<open>The projection\<close>

datatype job_delivery_kind = Applied | Exported

record job_delivery =
  dl_kind :: job_delivery_kind
  dl_destination :: path
  dl_resulting_revision :: "string option"
  dl_delivered_at :: timestamp

record job_last_gate_attempt =
  ga_attempt :: u32
  ga_n_passed :: u32
  ga_n_total :: u32
  ga_finished_at :: timestamp

record job_projection =
  pr_schema_version :: job_schema_version
  pr_job_id :: string
  pr_phase :: job_phase
  pr_outcome :: "job_outcome option"
  pr_stop_reason :: "stop_reason option"
  pr_last_sequence :: u64
  pr_current_lease_epoch :: u64
  pr_attempt_count :: u32
  pr_child_run_ids :: "string list"
  pr_delivery :: "job_delivery option"
  pr_last_gate_attempt :: "job_last_gate_attempt option"
  pr_updated_at :: "timestamp option"
  pr_caveats :: "nat list"

text \<open>A caveat is the number of bytes of the torn final row it reports.\<close>

definition empty_projection :: "string \<Rightarrow> job_projection" where
  "empty_projection job_id =
    \<lparr>pr_schema_version = CURRENT, pr_job_id = job_id, pr_phase = job_phase.Queued,
     pr_outcome = None, pr_stop_reason = None, pr_last_sequence = 0, pr_current_lease_epoch = 0,
     pr_attempt_count = 0, pr_child_run_ids = [], pr_delivery = None,
     pr_last_gate_attempt = None, pr_updated_at = None, pr_caveats = []\<rparr>"

definition is_terminal :: "job_projection \<Rightarrow> bool" where
  "is_terminal p \<longleftrightarrow> pr_phase p = Terminal"

section \<open>Reading event details\<close>

definition detail_string :: "json \<Rightarrow> string \<Rightarrow> string option" where
  "detail_string d name = Option.bind (json_get d name) as_str"

definition detail_count :: "json \<Rightarrow> string \<Rightarrow> u32 option" where
  "detail_count d name = Option.bind (Option.bind (json_get d name) as_u64) u32_try_from"

definition detail_stop_reason :: "job_event \<Rightarrow> stop_reason option res" where
  "detail_stop_reason e =
    (case json_get (ev_detail e) ''stop_reason'' of
       None \<Rightarrow> Inr None
     | Some v \<Rightarrow>
        (case stop_reason_of_json v of
           Some r \<Rightarrow> Inr (Some r)
         | None \<Rightarrow> Inl (history_corrupt (ev_job_id e) (InvalidStopReason (ev_event_id e)))))"

definition unwrap_or :: "'a option \<Rightarrow> 'a \<Rightarrow> 'a" where
  "unwrap_or x d = (case x of None \<Rightarrow> d | Some a \<Rightarrow> a)"

definition stamp_last_gate_attempt :: "job_projection \<Rightarrow> job_event \<Rightarrow> job_projection" where
  "stamp_last_gate_attempt p e =
    (case (detail_count (ev_detail e) ''n_passed'', detail_count (ev_detail e) ''n_total'') of
       (Some n_passed, Some n_total) \<Rightarrow>
         p\<lparr>pr_last_gate_attempt := Some
            \<lparr>ga_attempt = pr_attempt_count p, ga_n_passed = n_passed, ga_n_total = n_total,
             ga_finished_at = ev_timestamp e\<rparr>\<rparr>
     | _ \<Rightarrow> p)"

definition job_delivery_of :: "job_event \<Rightarrow> job_delivery_kind \<Rightarrow> job_delivery res" where
  "job_delivery_of e kind =
    res_bind (ok_or (detail_string (ev_detail e) ''destination'')
        (history_corrupt (ev_job_id e) DeliveryWithoutDestination)) (\<lambda>destination.
    res_bind (case json_get (ev_detail e) ''resulting_revision'' of
        None \<Rightarrow> Inr None
      | Some Null \<Rightarrow> Inr None
      | Some (Str v) \<Rightarrow> Inr (Some v)
      | Some _ \<Rightarrow> Inl (history_corrupt (ev_job_id e) DeliveryRevisionNotString)) (\<lambda>revision.
    Inr \<lparr>dl_kind = kind, dl_destination = components destination,
         dl_resulting_revision = revision, dl_delivered_at = ev_timestamp e\<rparr>))"

section \<open>Terminal classification\<close>

definition terminal :: "job_projection \<Rightarrow> job_event \<Rightarrow> job_outcome \<Rightarrow> stop_reason \<Rightarrow> job_projection res" where
  "terminal p e outcome reason =
    (if \<not> accepts_stop_reason outcome reason then
       Inl (history_corrupt (ev_job_id e) TerminalMismatch)
     else if pr_stop_reason p = Some stop_reason.CancelRequested
         \<and> outcome \<noteq> job_outcome.Cancelled
         \<and> \<not> (outcome = job_outcome.Blocked \<and> reason = LostContainment) then
       Inl (history_corrupt (ev_job_id e) CancelOverwritten)
     else Inr (p\<lparr>pr_phase := Terminal, pr_outcome := Some outcome, pr_stop_reason := Some reason\<rparr>))"

section \<open>Undo operations\<close>

datatype undo_event_state = Started | Completed | Failed

type_synonym undo_operations = "(string \<times> undo_event_state) list"

definition reduce_undo_event ::
    "job_projection \<Rightarrow> job_event \<Rightarrow> undo_operations \<Rightarrow> undo_operations res" where
  "reduce_undo_event p e ops =
    (if pr_outcome p \<noteq> Some job_outcome.Verified
        \<or> map_option dl_kind (pr_delivery p) \<noteq> Some Applied then
       Inl (history_corrupt (ev_job_id e) UndoWithoutDelivery)
     else
       res_bind (ok_or (case detail_string (ev_detail e) ''operation_id'' of
            Some v \<Rightarrow> if blank v then None else Some v
          | None \<Rightarrow> None) (history_corrupt (ev_job_id e) UndoWithoutOperation)) (\<lambda>operation_id.
       if ev_kind e = UndoStarted then
         (if list_ex (\<lambda>st. st = Started \<or> st = Completed) (map snd ops)
             \<or> map_of ops operation_id \<noteq> None then
            Inl (history_corrupt (ev_job_id e) UndoStartRefused)
          else Inr (AList.update operation_id Started ops))
       else
         (if map_of ops operation_id \<noteq> Some Started then
            Inl (history_corrupt (ev_job_id e) UndoWithoutStart)
          else if ev_kind e = UndoCompleted
              \<and> (case detail_string (ev_detail e) ''undo_revision'' of
                   None \<Rightarrow> True | Some revision \<Rightarrow> blank revision) then
            Inl (history_corrupt (ev_job_id e) UndoWithoutRevision)
          else Inr (AList.update operation_id
              (if ev_kind e = UndoCompleted then Completed else undo_event_state.Failed) ops))))"

section \<open>One event\<close>

record reduction =
  rd_projection :: job_projection
  rd_child_ids :: "string list"
  rd_undo :: undo_operations

text \<open>The event kinds a terminal history may still carry: deliveries and undo facts.\<close>

definition post_terminal :: "job_event_kind \<Rightarrow> bool" where
  "post_terminal k \<longleftrightarrow> k \<in> {ResultApplied, ResultExported, UndoStarted, UndoCompleted, UndoFailed}"

definition set_projection :: "reduction \<Rightarrow> job_projection \<Rightarrow> reduction" where
  "set_projection s p = s\<lparr>rd_projection := p\<rparr>"

definition to_terminal :: "reduction \<Rightarrow> job_event \<Rightarrow> job_outcome \<Rightarrow> stop_reason \<Rightarrow> reduction res" where
  "to_terminal s e outcome reason =
    res_bind (terminal (rd_projection s) e outcome reason) (\<lambda>p. Inr (set_projection s p))"

definition deliver :: "reduction \<Rightarrow> job_event \<Rightarrow> job_delivery_kind \<Rightarrow> history_fault \<Rightarrow> reduction res" where
  "deliver s e kind fault =
    (let p = rd_projection s in
     if pr_outcome p \<noteq> Some job_outcome.Verified \<or> pr_delivery p \<noteq> None then
       Inl (history_corrupt (ev_job_id e) fault)
     else res_bind (job_delivery_of e kind) (\<lambda>d. Inr (set_projection s (p\<lparr>pr_delivery := Some d\<rparr>))))"

text \<open>The insertion of a child run id into the \<open>BTreeSet\<close>, kept as its sorted list.\<close>

definition btree_insert :: "string \<Rightarrow> string list \<Rightarrow> string list" where
  "btree_insert x xs = (if x \<in> set xs then xs else insort x xs)"

text \<open>A new lease must carry a larger epoch than the current one.\<close>

definition take_lease :: "reduction \<Rightarrow> job_event \<Rightarrow> reduction res" where
  "take_lease s e =
    (let p = rd_projection s in
     if ev_lease_epoch e \<le> pr_current_lease_epoch p then
       Inl (history_corrupt (ev_job_id e) EpochNotIncreased)
     else Inr (set_projection s
        (p\<lparr>pr_current_lease_epoch := ev_lease_epoch e, pr_phase := Running\<rparr>)))"

text \<open>An attempt that ends waits; a cancellation request already recorded stays.\<close>

definition set_waiting :: "reduction \<Rightarrow> stop_reason option \<Rightarrow> reduction" where
  "set_waiting s reason =
    (let p = rd_projection s in
     set_projection s (p\<lparr>pr_phase := Waiting,
       pr_stop_reason := (if pr_stop_reason p \<noteq> Some stop_reason.CancelRequested then reason
         else pr_stop_reason p)\<rparr>))"

definition to_failed :: "reduction \<Rightarrow> job_event \<Rightarrow> stop_reason \<Rightarrow> reduction res" where
  "to_failed s e reason =
    to_terminal s e (if reason = AttemptLimit then job_outcome.RetryExhausted else job_outcome.Failed)
      reason"

definition undo :: "reduction \<Rightarrow> job_event \<Rightarrow> reduction res" where
  "undo s e =
    res_bind (reduce_undo_event (rd_projection s) e (rd_undo s)) (\<lambda>ops. Inr (s\<lparr>rd_undo := ops\<rparr>))"

primrec apply_event :: "job_event_kind \<Rightarrow> reduction \<Rightarrow> job_event \<Rightarrow> reduction res" where
  "apply_event Created s e =
    Inr (set_projection s ((rd_projection s)\<lparr>pr_phase := job_phase.Queued\<rparr>))"
| "apply_event job_event_kind.Queued s e =
    Inr (set_projection s ((rd_projection s)\<lparr>pr_phase := job_phase.Queued\<rparr>))"
| "apply_event LeaseAcquired s e = take_lease s e"
| "apply_event LeaseReclaimed s e = take_lease s e"
| "apply_event ChildLaunchPrepared s e =
    Inr (set_projection s ((rd_projection s)\<lparr>pr_phase := Running\<rparr>))"
| "apply_event AttemptStarted s e =
    Inr (set_projection s ((rd_projection s)\<lparr>pr_phase := Running,
      pr_attempt_count := saturating_add_u32 (pr_attempt_count (rd_projection s)) 1\<rparr>))"
| "apply_event ChildLinked s e =
    (case detail_string (ev_detail e) ''run_id'' of
       Some run_id \<Rightarrow> Inr (s\<lparr>rd_child_ids := btree_insert run_id (rd_child_ids s)\<rparr>)
     | None \<Rightarrow> Inr s)"
| "apply_event AttemptStopped s e =
    res_bind (detail_stop_reason e) (\<lambda>reason. Inr (set_waiting s reason))"
| "apply_event RetryScheduled s e = Inr (set_waiting s None)"
| "apply_event DeterministicGatePassed s e =
    Inr (set_projection s
      (stamp_last_gate_attempt ((rd_projection s)\<lparr>pr_phase := VerifyingMeaning\<rparr>) e))"
| "apply_event DeterministicGateFailed s e =
    Inr (set_projection s (stamp_last_gate_attempt ((rd_projection s)\<lparr>pr_phase := Running\<rparr>) e))"
| "apply_event SemanticJudgeAchieved s e =
    Inr (set_projection s ((rd_projection s)\<lparr>pr_phase := VerifyingMeaning\<rparr>))"
| "apply_event SemanticJudgeUncertain s e =
    Inr (set_projection s ((rd_projection s)\<lparr>pr_phase := VerifyingMeaning\<rparr>))"
| "apply_event SemanticJudgeRevise s e =
    Inr (set_projection s ((rd_projection s)\<lparr>pr_phase := Running\<rparr>))"
| "apply_event job_event_kind.NeedsReview s e =
    res_bind (detail_stop_reason e) (\<lambda>reason.
      to_terminal s e job_outcome.NeedsReview (unwrap_or reason SemanticUncertain))"
| "apply_event job_event_kind.Blocked s e =
    res_bind (detail_stop_reason e) (\<lambda>reason.
      to_terminal s e job_outcome.Blocked (unwrap_or reason OperatorInputRequired))"
| "apply_event job_event_kind.BudgetExhausted s e =
    res_bind (detail_stop_reason e) (\<lambda>reason.
      to_terminal s e job_outcome.BudgetExhausted (unwrap_or reason SpendCap))"
| "apply_event job_event_kind.DeadlineReached s e =
    to_terminal s e job_outcome.DeadlineReached Deadline"
| "apply_event job_event_kind.CancelRequested s e =
    Inr (set_projection s ((rd_projection s)\<lparr>pr_phase := Waiting,
      pr_stop_reason := Some stop_reason.CancelRequested\<rparr>))"
| "apply_event job_event_kind.Cancelled s e =
    to_terminal s e job_outcome.Cancelled stop_reason.CancelRequested"
| "apply_event job_event_kind.Failed s e =
    res_bind (detail_stop_reason e) (\<lambda>detail. to_failed s e (unwrap_or detail FatalProvider))"
| "apply_event job_event_kind.Verified s e =
    to_terminal s e job_outcome.Verified stop_reason.Verified"
| "apply_event ResultApplied s e = deliver s e Applied AppliedOutOfOrder"
| "apply_event ResultExported s e = deliver s e Exported ExportedOutOfOrder"
| "apply_event ContractApproved s e = Inr s"
| "apply_event WorkspacePrepared s e = Inr s"
| "apply_event CampaignSubAuthorityChanged s e = Inr s"
| "apply_event RepairChildAuthorityChanged s e = Inr s"
| "apply_event UndoStarted s e = undo s e"
| "apply_event UndoCompleted s e = undo s e"
| "apply_event UndoFailed s e = undo s e"

definition reduce_event :: "reduction \<Rightarrow> job_event \<Rightarrow> reduction res" where
  "reduce_event s e =
    (if is_terminal (rd_projection s) \<and> \<not> post_terminal (ev_kind e) then
       Inl (history_corrupt (ev_job_id e) AfterTerminal)
     else apply_event (ev_kind e) s e)"

section \<open>The whole history\<close>

record job_history =
  hi_events :: "job_event list"
  hi_raw_lines :: "bytes list"
  hi_caveats :: "nat list"

text \<open>The locals of the loop of \<open>reduce_job_history\<close>.\<close>

record history_fold =
  hf_reduction :: reduction
  hf_expected :: u64
  hf_seen :: "string \<rightharpoonup> bytes"

definition initial_fold :: "string \<Rightarrow> nat list \<Rightarrow> history_fold" where
  "initial_fold job_id caveats =
    \<lparr>hf_reduction = \<lparr>rd_projection = (empty_projection job_id)\<lparr>pr_caveats := caveats\<rparr>,
       rd_child_ids = [], rd_undo = []\<rparr>,
     hf_expected = 1, hf_seen = Map.empty\<rparr>"

definition mark_row :: "history_fold \<Rightarrow> job_event \<Rightarrow> bytes \<Rightarrow> history_fold" where
  "mark_row s e raw =
    s\<lparr>hf_seen := (hf_seen s)(ev_event_id e \<mapsto> raw),
      hf_expected := hf_expected s + 1,
      hf_reduction := set_projection (hf_reduction s)
        ((rd_projection (hf_reduction s))\<lparr>pr_last_sequence := ev_sequence e,
           pr_updated_at := Some (ev_timestamp e)\<rparr>)\<rparr>"

definition reduce_row :: "string \<Rightarrow> history_fold \<Rightarrow> job_event \<times> bytes \<Rightarrow> history_fold res" where
  "reduce_row job_id s = (\<lambda>(e, raw).
    if ev_job_id e \<noteq> job_id then Inl (history_corrupt job_id (EventBelongsTo (ev_job_id e)))
    else (case hf_seen s (ev_event_id e) of
        Some prior \<Rightarrow>
          (if prior = raw then Inr s
           else Inl (history_corrupt job_id (ConflictingBytes (ev_event_id e))))
      | None \<Rightarrow>
          (if ev_sequence e \<noteq> hf_expected s then
             Inl (history_corrupt job_id (SequenceGap (hf_expected s) (ev_sequence e)))
           else
             let s' = mark_row s e raw in
             res_bind (reduce_event (hf_reduction s') e) (\<lambda>r. Inr (s'\<lparr>hf_reduction := r\<rparr>)))))"

definition finish_fold :: "history_fold \<Rightarrow> job_projection" where
  "finish_fold s =
    (rd_projection (hf_reduction s))\<lparr>pr_child_run_ids := rd_child_ids (hf_reduction s)\<rparr>"

definition history_rows :: "job_history \<Rightarrow> (job_event \<times> bytes) list" where
  "history_rows h = zip (hi_events h) (hi_raw_lines h)"

definition reduce_job_history :: "string \<Rightarrow> job_history \<Rightarrow> job_projection res" where
  "reduce_job_history job_id h =
    res_bind (fold_res (reduce_row job_id) (initial_fold job_id (hi_caveats h)) (history_rows h))
      (\<lambda>s. Inr (finish_fold s))"

end
