(* ===== verification/Job_Lifecycle.thy ===== *)
theory Job_Lifecycle
  imports Job_History
begin

text \<open>
  Facts about the lifecycle reducer of \<open>Job_History\<close>: the classification of events by their
  effect, the invariant of the projection (an interpretation of \<open>event_machine\<close> for the reducer),
  what the fold counts, and the guarantees an operator relies on: a terminal outcome is final and
  explained by its reason, a cancellation is never turned into another result, lease epochs
  increase, a result is delivered and undone at most once.
\<close>

section \<open>Classes of events and the invariant\<close>

definition lease_kind :: "job_event_kind \<Rightarrow> bool" where
  "lease_kind k \<longleftrightarrow> k = LeaseAcquired \<or> k = LeaseReclaimed"

definition progresses :: "job_projection \<Rightarrow> job_projection \<Rightarrow> bool" where
  "progresses p q \<longleftrightarrow> pr_phase p \<noteq> Terminal \<and> pr_phase q \<noteq> Terminal \<and> pr_outcome q = pr_outcome p
    \<and> pr_delivery q = pr_delivery p
    \<and> (pr_stop_reason p = Some stop_reason.CancelRequested
        \<longrightarrow> pr_stop_reason q = Some stop_reason.CancelRequested)"

definition terminal_kind :: "job_event_kind \<Rightarrow> bool" where
  "terminal_kind k \<longleftrightarrow> k \<in> {job_event_kind.NeedsReview, job_event_kind.Blocked,
    job_event_kind.BudgetExhausted, job_event_kind.DeadlineReached, job_event_kind.Cancelled,
    job_event_kind.Failed, job_event_kind.Verified}"

definition undo_kind :: "job_event_kind \<Rightarrow> bool" where
  "undo_kind k \<longleftrightarrow> k \<in> {UndoStarted, UndoCompleted, UndoFailed}"

definition projection_ok :: "job_projection \<Rightarrow> bool" where
  "projection_ok p \<longleftrightarrow>
    (is_terminal p \<longleftrightarrow> pr_outcome p \<noteq> None)
    \<and> (\<forall>oc. pr_outcome p = Some oc \<longrightarrow> (\<exists>r. pr_stop_reason p = Some r \<and> accepts_stop_reason oc r))
    \<and> (pr_delivery p \<noteq> None \<longrightarrow> pr_outcome p = Some job_outcome.Verified)"

definition undo_ok :: "job_projection \<Rightarrow> undo_operations \<Rightarrow> bool" where
  "undo_ok p ops \<longleftrightarrow>
    distinct (map fst ops)
    \<and> (ops \<noteq> [] \<longrightarrow> map_option dl_kind (pr_delivery p) = Some Applied)
    \<and> length (filter (\<lambda>x. snd x \<noteq> undo_event_state.Failed) ops) \<le> 1"

definition reduction_inv :: "reduction \<Rightarrow> bool" where
  "reduction_inv s \<longleftrightarrow> projection_ok (rd_projection s) \<and> undo_ok (rd_projection s) (rd_undo s)
    \<and> sorted (rd_child_ids s) \<and> distinct (rd_child_ids s)"

section \<open>Effects of one event\<close>

lemma set_waiting_simps [simp]:
  "pr_phase (rd_projection (set_waiting s r)) = Waiting"
  "pr_outcome (rd_projection (set_waiting s r)) = pr_outcome (rd_projection s)"
  "pr_delivery (rd_projection (set_waiting s r)) = pr_delivery (rd_projection s)"
  "pr_stop_reason (rd_projection (set_waiting s r)) =
    (if pr_stop_reason (rd_projection s) \<noteq> Some stop_reason.CancelRequested then r
     else pr_stop_reason (rd_projection s))"
  "pr_attempt_count (rd_projection (set_waiting s r)) = pr_attempt_count (rd_projection s)"
  "pr_current_lease_epoch (rd_projection (set_waiting s r)) = pr_current_lease_epoch (rd_projection s)"
  "pr_last_sequence (rd_projection (set_waiting s r)) = pr_last_sequence (rd_projection s)"
  "pr_updated_at (rd_projection (set_waiting s r)) = pr_updated_at (rd_projection s)"
  "pr_caveats (rd_projection (set_waiting s r)) = pr_caveats (rd_projection s)"
  "pr_job_id (rd_projection (set_waiting s r)) = pr_job_id (rd_projection s)"
  "pr_schema_version (rd_projection (set_waiting s r)) = pr_schema_version (rd_projection s)"
  "rd_undo (set_waiting s r) = rd_undo s"
  "rd_child_ids (set_waiting s r) = rd_child_ids s"
  by (simp_all add: set_waiting_def set_projection_def Let_def)

lemmas event_defs = to_terminal_def to_failed_def deliver_def undo_def take_lease_def
  set_projection_def
  stamp_last_gate_attempt_def Let_def

lemma reduce_event_attempts:
  assumes "reduce_event s e = Inr s'"
  shows "pr_attempt_count (rd_projection s') =
    (if ev_kind e = AttemptStarted then saturating_add_u32 (pr_attempt_count (rd_projection s)) 1
     else pr_attempt_count (rd_projection s))"
  using assms
  by (cases "ev_kind e"; auto simp: reduce_event_def event_defs terminal_def result_simps
      split: if_splits option.splits)

lemma reduce_event_epoch:
  assumes "reduce_event s e = Inr s'"
  shows "pr_current_lease_epoch (rd_projection s') =
    (if lease_kind (ev_kind e) then ev_lease_epoch e else pr_current_lease_epoch (rd_projection s))"
    and "lease_kind (ev_kind e) \<Longrightarrow> pr_current_lease_epoch (rd_projection s) < ev_lease_epoch e"
  using assms
  by (cases "ev_kind e"; auto simp: lease_kind_def reduce_event_def event_defs terminal_def result_simps
      split: if_splits option.splits)+

lemma reduce_event_applies:
  assumes "reduce_event s e = Inr s'"
  shows "apply_event (ev_kind e) s e = Inr s'"
    and "post_terminal (ev_kind e) \<or> pr_phase (rd_projection s) \<noteq> Terminal"
  using assms by (auto simp: reduce_event_def is_terminal_def split: if_splits)

lemma progress_event:
  assumes "reduce_event s e = Inr s'" "\<not> terminal_kind (ev_kind e)" "\<not> post_terminal (ev_kind e)"
  shows "progresses (rd_projection s) (rd_projection s') \<and> rd_undo s' = rd_undo s"
proof -
  have "apply_event (ev_kind e) s e = Inr s'" and "pr_phase (rd_projection s) \<noteq> Terminal"
    using reduce_event_applies [OF assms(1)] assms(3) by auto
  then show ?thesis
    using assms(2,3) unfolding progresses_def terminal_kind_def post_terminal_def
    by (cases "ev_kind e") (auto simp: event_defs result_simps split: if_splits option.splits)
qed

lemma terminal_event:
  assumes "reduce_event s e = Inr s'" "terminal_kind (ev_kind e)"
  shows "\<exists>outcome reason. terminal (rd_projection s) e outcome reason = Inr (rd_projection s')
    \<and> (ev_kind e = job_event_kind.Verified \<longleftrightarrow> outcome = job_outcome.Verified)"
    and "pr_phase (rd_projection s) \<noteq> Terminal"
    and "rd_undo s' = rd_undo s" "rd_child_ids s' = rd_child_ids s"
  using assms
  by (cases "ev_kind e"; auto simp: reduce_event_def is_terminal_def event_defs terminal_kind_def
      post_terminal_def result_simps split: if_splits option.splits; blast)+

lemma job_delivery_of_kind: "job_delivery_of e kind = Inr d \<Longrightarrow> dl_kind d = kind"
  by (auto simp: job_delivery_of_def result_simps)

lemma deliver_effect:
  assumes "deliver s e kind f = Inr s'"
  obtains d where "dl_kind d = kind" "s' = s\<lparr>rd_projection := (rd_projection s)\<lparr>pr_delivery := Some d\<rparr>\<rparr>"
    "pr_outcome (rd_projection s) = Some job_outcome.Verified" "pr_delivery (rd_projection s) = None"
proof -
  from assms have pre: "pr_outcome (rd_projection s) = Some job_outcome.Verified"
      "pr_delivery (rd_projection s) = None"
    by (auto simp: deliver_def Let_def split: if_splits)
  with assms obtain d where d: "job_delivery_of e kind = Inr d"
      "s' = set_projection s ((rd_projection s)\<lparr>pr_delivery := Some d\<rparr>)"
    by (auto simp: deliver_def Let_def result_simps)
  show ?thesis
    by (rule that [OF job_delivery_of_kind [OF d(1)] d(2) [unfolded set_projection_def] pre])
qed

lemma delivery_event:
  assumes "reduce_event s e = Inr s'" "ev_kind e = ResultApplied \<or> ev_kind e = ResultExported"
  obtains d where "dl_kind d = Applied \<longleftrightarrow> ev_kind e = ResultApplied"
    "s' = s\<lparr>rd_projection := (rd_projection s)\<lparr>pr_delivery := Some d\<rparr>\<rparr>"
    "pr_outcome (rd_projection s) = Some job_outcome.Verified" "pr_delivery (rd_projection s) = None"
proof (cases "ev_kind e = ResultApplied")
  case True
  then have "deliver s e Applied AppliedOutOfOrder = Inr s'"
    using reduce_event_applies(1) [OF assms(1)] by simp
  then show ?thesis by (rule deliver_effect) (rule that, simp_all add: True)
next
  case False
  then have "deliver s e Exported ExportedOutOfOrder = Inr s'"
    using reduce_event_applies(1) [OF assms(1)] assms(2) by simp
  then show ?thesis by (rule deliver_effect) (rule that, simp_all add: False)
qed

lemma undo_event:
  assumes "reduce_event s e = Inr s'" "undo_kind (ev_kind e)"
  obtains ops where "reduce_undo_event (rd_projection s) e (rd_undo s) = Inr ops"
    "s' = s\<lparr>rd_undo := ops\<rparr>"
  using assms
  by (auto simp: reduce_event_def event_defs result_simps undo_kind_def split: if_splits)

lemma event_kind_cases:
  obtains (progress) "\<not> terminal_kind k" "\<not> post_terminal k"
  | (terminal) "terminal_kind k"
  | (delivery) "k = ResultApplied \<or> k = ResultExported"
  | (undo) "undo_kind k"
  by (cases k) (auto simp: terminal_kind_def post_terminal_def undo_kind_def)

lemma terminal_ok:
  assumes "terminal p e outcome reason = Inr q"
  shows "q = p\<lparr>pr_phase := Terminal, pr_outcome := Some outcome, pr_stop_reason := Some reason\<rparr>"
    and "accepts_stop_reason outcome reason"
    and "pr_stop_reason p = Some stop_reason.CancelRequested \<Longrightarrow>
      outcome = job_outcome.Cancelled \<or> outcome = job_outcome.Blocked \<and> reason = LostContainment"
  using assms by (auto simp: terminal_def split: if_splits)

lemma projection_ok_step:
  assumes "projection_ok (rd_projection s)" "reduce_event s e = Inr s'"
  shows "projection_ok (rd_projection s')"
proof (cases rule: event_kind_cases [of "ev_kind e"])
  case progress
  then show ?thesis
    using assms progress_event [OF assms(2)]
    by (auto simp: projection_ok_def progresses_def is_terminal_def)
next
  case terminal
  then obtain outcome reason where
    "Job_History.terminal (rd_projection s) e outcome reason = Inr (rd_projection s')"
    using terminal_event(1) [OF assms(2)] by blast
  from terminal_ok [OF this] terminal_event(2) [OF assms(2) terminal] assms(1) show ?thesis
    by (auto simp: projection_ok_def is_terminal_def)
next
  case delivery
  then show ?thesis
    using assms by (auto elim!: delivery_event simp: projection_ok_def is_terminal_def)
next
  case undo
  then show ?thesis
    using assms by (auto elim: undo_event)
qed

lemma update_fresh: "map_of ops k = None \<Longrightarrow> AList.update k v ops = ops @ [(k, v)]"
  by (induction ops) (auto split: if_splits)

lemma live_undo_update:
  assumes "distinct (map fst ops)" "map_of ops k = Some Started"
  shows "length (filter (\<lambda>x. snd x \<noteq> undo_event_state.Failed) (AList.update k v ops))
    \<le> length (filter (\<lambda>x. snd x \<noteq> undo_event_state.Failed) ops)"
  using assms by (induction ops) auto

lemma reduce_undo_effect:
  assumes "reduce_undo_event p e ops = Inr ops'"
  shows "map_option dl_kind (pr_delivery p) = Some Applied"
    and "(\<exists>k. filter (\<lambda>x. snd x \<noteq> undo_event_state.Failed) ops = [] \<and> map_of ops k = None
          \<and> ops' = AList.update k Started ops)
      \<or> (\<exists>k v. map_of ops k = Some Started \<and> ops' = AList.update k v ops)"
proof -
  have no_live: "\<not> list_ex (\<lambda>st. st = Started \<or> st = Completed) (map snd ops) \<Longrightarrow>
      filter (\<lambda>x. snd x \<noteq> undo_event_state.Failed) ops = []"
    by (induction ops) (auto, metis undo_event_state.exhaust)
  show "map_option dl_kind (pr_delivery p) = Some Applied"
    using assms by (auto simp: reduce_undo_event_def split: if_splits)
  show "(\<exists>k. filter (\<lambda>x. snd x \<noteq> undo_event_state.Failed) ops = [] \<and> map_of ops k = None
          \<and> ops' = AList.update k Started ops)
      \<or> (\<exists>k v. map_of ops k = Some Started \<and> ops' = AList.update k v ops)"
    using assms no_live unfolding reduce_undo_event_def
    by (fastforce simp: result_simps split: if_splits)
qed

lemma reduce_undo_ok:
  assumes "undo_ok p ops" "reduce_undo_event p e ops = Inr ops'"
  shows "undo_ok p ops'"
  using reduce_undo_effect [OF assms(2)] assms(1)
  by (auto simp: undo_ok_def update_fresh distinct_update intro: order_trans [OF live_undo_update])

lemma undo_ok_step:
  assumes "undo_ok (rd_projection s) (rd_undo s)" "projection_ok (rd_projection s)"
    "reduce_event s e = Inr s'"
  shows "undo_ok (rd_projection s') (rd_undo s')"
proof (cases rule: event_kind_cases [of "ev_kind e"])
  case progress
  then show ?thesis
    using assms progress_event [OF assms(3)] by (auto simp: undo_ok_def progresses_def)
next
  case terminal
  then obtain outcome reason where
    "Job_History.terminal (rd_projection s) e outcome reason = Inr (rd_projection s')"
    using terminal_event(1) [OF assms(3)] by blast
  from terminal_ok [OF this] terminal_event(3) [OF assms(3) terminal] assms(1) show ?thesis
    by (auto simp: undo_ok_def)
next
  case delivery
  then show ?thesis
    using assms by (auto elim!: delivery_event simp: undo_ok_def)
next
  case undo
  then obtain ops where ops: "reduce_undo_event (rd_projection s) e (rd_undo s) = Inr ops"
    "s' = s\<lparr>rd_undo := ops\<rparr>"
    using assms(3) by (auto elim: undo_event)
  from reduce_undo_ok [OF assms(1) ops(1)] ops(2) show ?thesis by simp
qed

lemma child_ids_step:
  assumes "reduce_event s e = Inr s'"
  shows "rd_child_ids s' = rd_child_ids s \<or> (\<exists>x. rd_child_ids s' = btree_insert x (rd_child_ids s))"
  using assms
  by (cases "ev_kind e"; auto simp: reduce_event_def event_defs result_simps
      split: if_splits option.splits)

lemma btree_insert_ok:
  "sorted xs \<Longrightarrow> distinct xs \<Longrightarrow> sorted (btree_insert x xs) \<and> distinct (btree_insert x xs)"
  by (simp add: btree_insert_def sorted_insort distinct_insort)

interpretation reducer: event_machine reduce_event reduction_inv
proof
  fix s e s'
  assume "reduction_inv s" "reduce_event s e = Inr s'"
  then show "reduction_inv s'"
    using projection_ok_step undo_ok_step child_ids_step [of s e s'] btree_insert_ok
    by (auto simp: reduction_inv_def)
qed

end
