(* ===== verification/Job_Rows.thy ===== *)
theory Job_Rows
  imports Job_Lifecycle
begin

text \<open>
  Facts about whole histories. A history is a list of rows, an event with its raw line; the rows
  that count are the first of each event id (\<open>facts_of\<close>). The row fold interprets
  \<open>event_machine\<close> with the reducer's invariant, and the properties at the end are what an
  operator relies on: a terminal outcome is final and explained by its reason, a cancellation is
  never turned into another result, epochs increase, rows repeat without effect, a result is
  delivered and undone at most once.
\<close>

section \<open>Histories as lists of rows\<close>

type_synonym row = "job_event \<times> bytes"

abbreviation row_id :: "row \<Rightarrow> string" where
  "row_id r \<equiv> ev_event_id (fst r)"

definition history_of_rows :: "row list \<Rightarrow> nat list \<Rightarrow> job_history" where
  "history_of_rows rows caveats =
    \<lparr>hi_events = map fst rows, hi_raw_lines = map snd rows, hi_caveats = caveats\<rparr>"

fun first_rows :: "string list \<Rightarrow> row list \<Rightarrow> row list" where
  "first_rows known [] = []"
| "first_rows known (r # rs) =
    (if row_id r \<in> set known then first_rows known rs
     else r # first_rows (row_id r # known) rs)"

definition facts_of :: "row list \<Rightarrow> job_event list" where
  "facts_of rows = map fst (first_rows [] rows)"

definition lease_epochs :: "job_event list \<Rightarrow> u64 list" where
  "lease_epochs es = map ev_lease_epoch (filter (\<lambda>e. lease_kind (ev_kind e)) es)"

definition count_kind :: "job_event_kind \<Rightarrow> job_event list \<Rightarrow> nat" where
  "count_kind k es = length (filter (\<lambda>e. ev_kind e = k) es)"

definition completed_undos :: "undo_operations \<Rightarrow> nat" where
  "completed_undos ops = length (filter (\<lambda>x. snd x = Completed) ops)"

definition deliveries :: "job_event list \<Rightarrow> nat" where
  "deliveries es = count_kind ResultApplied es + count_kind ResultExported es"

definition fold_inv :: "history_fold \<Rightarrow> bool" where
  "fold_inv s \<longleftrightarrow> reduction_inv (hf_reduction s)"

definition cancel_held :: "history_fold \<Rightarrow> bool" where
  "cancel_held s \<longleftrightarrow>
    (let p = rd_projection (hf_reduction s) in
     pr_stop_reason p = Some stop_reason.CancelRequested
       \<or> pr_phase p = Terminal \<and> pr_outcome p = Some job_outcome.Blocked
         \<and> pr_stop_reason p = Some LostContainment)"

definition terminal_kept :: "history_fold \<Rightarrow> history_fold \<Rightarrow> bool" where
  "terminal_kept s t \<longleftrightarrow>
    (let p = rd_projection (hf_reduction s); q = rd_projection (hf_reduction t) in
     pr_phase p = Terminal \<longrightarrow>
       pr_phase q = Terminal \<and> pr_outcome q = pr_outcome p \<and> pr_stop_reason q = pr_stop_reason p
       \<and> pr_attempt_count q = pr_attempt_count p
       \<and> pr_current_lease_epoch q = pr_current_lease_epoch p)"

text \<open>Concrete histories, used to evaluate the properties at the end.\<close>

definition sample_event :: "nat \<Rightarrow> string \<Rightarrow> job_event_kind \<Rightarrow> u64 \<Rightarrow> json \<Rightarrow> job_event" where
  "sample_event n i k epoch d =
    \<lparr>ev_schema_version = CURRENT, ev_job_id = ''job'', ev_sequence = of_nat n, ev_event_id = i,
     ev_causation_id = ''c'', ev_timestamp = int n, ev_lease_epoch = epoch, ev_kind = k,
     ev_detail = d\<rparr>"

definition sample_delivered :: "row list" where
  "sample_delivered =
    [(sample_event 1 ''a'' Created 0 Null, ''r1''),
     (sample_event 2 ''b'' LeaseAcquired 2 Null, ''r2''),
     (sample_event 3 ''c'' AttemptStarted 2 Null, ''r3''),
     (sample_event 3 ''c'' AttemptStarted 2 Null, ''r3''),
     (sample_event 4 ''d'' LeaseReclaimed 4 Null, ''r4''),
     (sample_event 5 ''e'' job_event_kind.Verified 4 Null, ''r5'')]"

definition sample_delivery :: "row list" where
  "sample_delivery =
    [(sample_event 6 ''f'' ResultApplied 4 (Object [(''destination'', Str ''out'')]), ''r6'')]"

definition sample_cancelled :: "row list" where
  "sample_cancelled =
    [(sample_event 1 ''a'' Created 0 Null, ''r1''),
     (sample_event 2 ''b'' job_event_kind.CancelRequested 0 Null, ''r2'')]"

definition sample_cancel_end :: "row list" where
  "sample_cancel_end =
    [(sample_event 3 ''c'' AttemptStopped 0 Null, ''r3''),
     (sample_event 4 ''d'' job_event_kind.Cancelled 0 Null, ''r4'')]"

lemma history_rows_of_rows [simp]: "history_rows (history_of_rows rows c) = rows"
  by (simp add: history_rows_def history_of_rows_def zip_map_fst_snd)

lemma caveats_of_rows [simp]: "hi_caveats (history_of_rows rows c) = c"
  by (simp add: history_of_rows_def)

lemma history_of_history_rows:
  "length (hi_events h) = length (hi_raw_lines h) \<Longrightarrow>
    history_of_rows (history_rows h) (hi_caveats h) = h"
  by (simp add: history_of_rows_def history_rows_def)

lemma reduce_row_cases:
  assumes "reduce_row j s (e, raw) = Inr s'"
  obtains (repeated) "hf_seen s (ev_event_id e) = Some raw" "s' = s"
  | (fresh) r where "hf_seen s (ev_event_id e) = None" "ev_job_id e = j" "ev_sequence e = hf_expected s"
      "reduce_event (hf_reduction (mark_row s e raw)) e = Inr r"
      "s' = (mark_row s e raw)\<lparr>hf_reduction := r\<rparr>"
  using assms
  by (auto simp: reduce_row_def Let_def result_simps split: if_splits option.splits)

lemma mark_row_simps [simp]:
  "hf_seen (mark_row s e raw) = (hf_seen s)(ev_event_id e \<mapsto> raw)"
  "hf_expected (mark_row s e raw) = hf_expected s + 1"
  "pr_phase (rd_projection (hf_reduction (mark_row s e raw))) = pr_phase (rd_projection (hf_reduction s))"
  "pr_outcome (rd_projection (hf_reduction (mark_row s e raw))) = pr_outcome (rd_projection (hf_reduction s))"
  "pr_stop_reason (rd_projection (hf_reduction (mark_row s e raw))) = pr_stop_reason (rd_projection (hf_reduction s))"
  "pr_delivery (rd_projection (hf_reduction (mark_row s e raw))) = pr_delivery (rd_projection (hf_reduction s))"
  "pr_attempt_count (rd_projection (hf_reduction (mark_row s e raw))) = pr_attempt_count (rd_projection (hf_reduction s))"
  "pr_current_lease_epoch (rd_projection (hf_reduction (mark_row s e raw))) =
    pr_current_lease_epoch (rd_projection (hf_reduction s))"
  "pr_last_sequence (rd_projection (hf_reduction (mark_row s e raw))) = ev_sequence e"
  "pr_updated_at (rd_projection (hf_reduction (mark_row s e raw))) = Some (ev_timestamp e)"
  "pr_caveats (rd_projection (hf_reduction (mark_row s e raw))) = pr_caveats (rd_projection (hf_reduction s))"
  "pr_job_id (rd_projection (hf_reduction (mark_row s e raw))) = pr_job_id (rd_projection (hf_reduction s))"
  "rd_undo (hf_reduction (mark_row s e raw)) = rd_undo (hf_reduction s)"
  "rd_child_ids (hf_reduction (mark_row s e raw)) = rd_child_ids (hf_reduction s)"
  by (simp_all add: mark_row_def set_projection_def)

lemma projection_ok_cong:
  assumes "pr_phase q = pr_phase p" "pr_outcome q = pr_outcome p" "pr_stop_reason q = pr_stop_reason p"
    "pr_delivery q = pr_delivery p"
  shows "projection_ok q = projection_ok p" "undo_ok q ops = undo_ok p ops"
  using assms by (simp_all add: projection_ok_def undo_ok_def is_terminal_def)

lemma fold_inv_mark [simp]: "fold_inv (mark_row s e raw) = fold_inv s"
  by (simp add: fold_inv_def reduction_inv_def
      projection_ok_cong [of "rd_projection (hf_reduction (mark_row s e raw))" "rd_projection (hf_reduction s)"])

lemma fold_inv_step: "fold_inv s \<Longrightarrow> reduce_row j s (e, raw) = Inr s' \<Longrightarrow> fold_inv s'"
proof (erule reduce_row_cases)
  fix r
  assume "fold_inv s" "reduce_event (hf_reduction (mark_row s e raw)) e = Inr r"
    "s' = (mark_row s e raw)\<lparr>hf_reduction := r\<rparr>"
  then show "fold_inv s'"
    using reducer.step_inv fold_inv_mark [of s e raw] by (auto simp: fold_inv_def)
qed simp

interpretation history: event_machine "reduce_row j" fold_inv for j
  by unfold_locales (metis fold_inv_step surj_pair)

lemma fold_inv_initial [simp]: "fold_inv (initial_fold j c)"
  by (simp add: fold_inv_def initial_fold_def reduction_inv_def projection_ok_def undo_ok_def
      is_terminal_def empty_projection_def)

text \<open>Reducing is folding the rows.\<close>

lemma reduce_rows_Inr:
  "reduce_job_history j (history_of_rows rows c) = Inr p \<longleftrightarrow>
    (\<exists>s. fold_res (reduce_row j) (initial_fold j c) rows = Inr s \<and> p = finish_fold s)"
  by (auto simp: reduce_job_history_def result_simps)

lemma finish_fold_simps [simp]:
  "pr_phase (finish_fold s) = pr_phase (rd_projection (hf_reduction s))"
  "pr_outcome (finish_fold s) = pr_outcome (rd_projection (hf_reduction s))"
  "pr_stop_reason (finish_fold s) = pr_stop_reason (rd_projection (hf_reduction s))"
  "pr_delivery (finish_fold s) = pr_delivery (rd_projection (hf_reduction s))"
  "pr_attempt_count (finish_fold s) = pr_attempt_count (rd_projection (hf_reduction s))"
  "pr_current_lease_epoch (finish_fold s) = pr_current_lease_epoch (rd_projection (hf_reduction s))"
  "pr_last_sequence (finish_fold s) = pr_last_sequence (rd_projection (hf_reduction s))"
  "pr_caveats (finish_fold s) = pr_caveats (rd_projection (hf_reduction s))"
  "pr_job_id (finish_fold s) = pr_job_id (rd_projection (hf_reduction s))"
  "pr_child_run_ids (finish_fold s) = rd_child_ids (hf_reduction s)"
  by (simp_all add: finish_fold_def)

lemma terminal_kept_step:
  assumes "fold_inv s" "reduce_row j s (e, raw) = Inr s'"
  shows "terminal_kept s s'"
  using assms(2)
proof (cases rule: reduce_row_cases)
  case repeated
  then show ?thesis by (simp add: terminal_kept_def Let_def)
next
  case (fresh r)
  show ?thesis
  proof (cases rule: event_kind_cases [of "ev_kind e"])
    case progress
    then show ?thesis using progress_event [OF fresh(4)] fresh(5)
      by (simp add: terminal_kept_def progresses_def Let_def)
  next
    case terminal
    then show ?thesis using terminal_event(2) [OF fresh(4)] fresh(5)
      by (simp add: terminal_kept_def Let_def)
  next
    case delivery
    obtain d where "r = (hf_reduction (mark_row s e raw))
        \<lparr>rd_projection := (rd_projection (hf_reduction (mark_row s e raw)))\<lparr>pr_delivery := Some d\<rparr>\<rparr>"
      using delivery_event [OF fresh(4) delivery] by blast
    then show ?thesis using fresh(5) by (simp add: terminal_kept_def Let_def)
  next
    case undo
    then obtain ops where "r = (hf_reduction (mark_row s e raw))\<lparr>rd_undo := ops\<rparr>"
      using undo_event [OF fresh(4)] by blast
    then show ?thesis using fresh(5) by (simp add: terminal_kept_def Let_def)
  qed
qed

lemma cancel_held_step:
  assumes "fold_inv s" "reduce_row j s (e, raw) = Inr s'" "cancel_held s"
  shows "cancel_held s'"
  using assms(2)
proof (cases rule: reduce_row_cases)
  case repeated
  with assms show ?thesis by simp
next
  case (fresh r)
  show ?thesis
  proof (cases "pr_phase (rd_projection (hf_reduction s)) = Terminal")
    case True
    with terminal_kept_step [OF assms(1,2)] assms(3) show ?thesis
      by (auto simp: terminal_kept_def cancel_held_def Let_def)
  next
    case False
    then have stop: "pr_stop_reason (rd_projection (hf_reduction (mark_row s e raw))) =
        Some stop_reason.CancelRequested"
      using assms(3) by (simp add: cancel_held_def Let_def)
    from False assms(1) have out: "pr_outcome (rd_projection (hf_reduction s)) = None"
      by (simp add: fold_inv_def reduction_inv_def projection_ok_def is_terminal_def)
    show ?thesis
    proof (cases rule: event_kind_cases [of "ev_kind e"])
      case progress
      then show ?thesis using progress_event [OF fresh(4)] fresh(5) stop
        by (simp add: cancel_held_def progresses_def Let_def)
    next
      case terminal
      then obtain outcome reason where t: "Job_History.terminal (rd_projection (hf_reduction (mark_row s e raw)))
          e outcome reason = Inr (rd_projection r)"
        using terminal_event(1) [OF fresh(4)] by blast
      from terminal_ok [OF t] stop fresh(5) show ?thesis
        by (auto simp: cancel_held_def Let_def)
    next
      case delivery
      have "pr_outcome (rd_projection (hf_reduction (mark_row s e raw))) = Some job_outcome.Verified"
        by (rule delivery_event [OF fresh(4) delivery])
      with out show ?thesis by simp
    next
      case undo
      then obtain ops where "r = (hf_reduction (mark_row s e raw))\<lparr>rd_undo := ops\<rparr>"
        using undo_event [OF fresh(4)] by blast
      then show ?thesis using fresh(5) stop by (simp add: cancel_held_def Let_def)
    qed
  qed
qed

lemma terminal_kept_run:
  "fold_inv s \<Longrightarrow> fold_res (reduce_row j) s rows = Inr t \<Longrightarrow> terminal_kept s t"
  by (rule history.run_related [where R = terminal_kept])
    (auto simp: terminal_kept_def Let_def dest: terminal_kept_step)

lemma cancel_held_run:
  "fold_inv s \<Longrightarrow> fold_res (reduce_row j) s rows = Inr t \<Longrightarrow> cancel_held s \<Longrightarrow> cancel_held t"
  using history.run_related [where R = "\<lambda>s t. cancel_held s \<longrightarrow> cancel_held t", of j s rows t]
    cancel_held_step by (metis surj_pair)


section \<open>What the fold counts\<close>

text \<open>One fresh row, seen through its event: what it does to the counters of the fold.\<close>

lemma fresh_row_effect:
  assumes "reduce_event (hf_reduction (mark_row s e raw)) e = Inr r"
  shows "pr_attempt_count (rd_projection r) =
      (if ev_kind e = AttemptStarted
       then saturating_add_u32 (pr_attempt_count (rd_projection (hf_reduction s))) 1
       else pr_attempt_count (rd_projection (hf_reduction s)))"
    and "pr_current_lease_epoch (rd_projection r) =
      (if lease_kind (ev_kind e) then ev_lease_epoch e
       else pr_current_lease_epoch (rd_projection (hf_reduction s)))"
    and "lease_kind (ev_kind e) \<Longrightarrow>
      pr_current_lease_epoch (rd_projection (hf_reduction s)) < ev_lease_epoch e"
  using reduce_event_attempts [OF assms] reduce_event_epoch [OF assms] by auto

lemma reduce_event_last_sequence:
  assumes "reduce_event s e = Inr s'"
  shows "pr_last_sequence (rd_projection s') = pr_last_sequence (rd_projection s)"
    and "pr_job_id (rd_projection s') = pr_job_id (rd_projection s)"
    and "pr_caveats (rd_projection s') = pr_caveats (rd_projection s)"
  using assms
  by (cases "ev_kind e"; auto simp: reduce_event_def event_defs terminal_def result_simps
      split: if_splits option.splits)+

text \<open>Folding the rows is folding their first occurrences.\<close>

lemma fold_first_rows:
  assumes "fold_res (reduce_row j) s rows = Inr t" "dom (hf_seen s) = set known"
  shows "fold_res (reduce_row j) s (first_rows known rows) = Inr t"
  using assms
proof (induction rows arbitrary: s known)
  case (Cons r rows)
  obtain e raw where r: "r = (e, raw)" by force
  from Cons.prems(1) obtain s' where s': "reduce_row j s (e, raw) = Inr s'"
      "fold_res (reduce_row j) s' rows = Inr t"
    by (auto simp: r result_simps)
  from s'(1) show ?case
  proof (cases rule: reduce_row_cases)
    case repeated
    then have "ev_event_id e \<in> set known" using Cons.prems(2) by auto
    then show ?thesis using Cons.IH [OF s'(2)] Cons.prems(2) repeated r by simp
  next
    case (fresh x)
    then have "ev_event_id e \<notin> set known" using Cons.prems(2) by auto
    moreover have "dom (hf_seen s') = set (ev_event_id e # known)"
      using Cons.prems(2) fresh by simp
    ultimately show ?thesis using Cons.IH [OF s'(2)] s'(1) r by simp
  qed
qed simp

text \<open>A run in which every row is fresh.\<close>

lemma first_rows_fresh:
  "distinct (map row_id (first_rows known rows)) \<and> row_id ` set (first_rows known rows) \<inter> set known = {}"
  by (induction known rows rule: first_rows.induct) (auto split: if_splits)

lemma fresh_run_step:
  assumes "reduce_row j s (e, raw) = Inr s'" "ev_event_id e \<notin> dom (hf_seen s)"
  obtains r where "ev_sequence e = hf_expected s" "ev_job_id e = j"
    "reduce_event (hf_reduction (mark_row s e raw)) e = Inr r"
    "s' = (mark_row s e raw)\<lparr>hf_reduction := r\<rparr>"
  using assms by (auto elim: reduce_row_cases)

text \<open>The list of a fold's fresh rows is consumed one by one.\<close>

lemma fresh_run_induct [consumes 3, case_names Nil Cons]:
  assumes "fold_res (reduce_row j) s rows = Inr t"
    and "distinct (map row_id rows)" "row_id ` set rows \<inter> dom (hf_seen s) = {}"
    and nil: "\<And>s. P s [] s"
    and cons: "\<And>s e raw r rows t. ev_sequence e = hf_expected s \<Longrightarrow> ev_job_id e = j \<Longrightarrow>
      reduce_event (hf_reduction (mark_row s e raw)) e = Inr r \<Longrightarrow>
      P ((mark_row s e raw)\<lparr>hf_reduction := r\<rparr>) rows t \<Longrightarrow> P s ((e, raw) # rows) t"
  shows "P s rows t"
  using assms(1-3)
proof (induction rows arbitrary: s)
  case Nil
  then show ?case using nil by simp
next
  case (Cons x rows)
  obtain e raw where x: "x = (e, raw)" by force
  from Cons.prems(1) obtain s' where s': "reduce_row j s (e, raw) = Inr s'"
      "fold_res (reduce_row j) s' rows = Inr t"
    by (auto simp: x result_simps)
  have "ev_event_id e \<notin> dom (hf_seen s)" using Cons.prems(3) x by auto
  with s'(1) obtain r where r: "ev_sequence e = hf_expected s" "ev_job_id e = j"
      "reduce_event (hf_reduction (mark_row s e raw)) e = Inr r"
      "s' = (mark_row s e raw)\<lparr>hf_reduction := r\<rparr>"
    by (rule fresh_run_step)
  have "dom (hf_seen s') = insert (ev_event_id e) (dom (hf_seen s))"
    using r(4) by simp
  moreover have "ev_event_id e \<notin> row_id ` set rows" "row_id ` set rows \<inter> dom (hf_seen s) = {}"
    using Cons.prems(2,3) x by auto
  ultimately have "P s' rows t"
    using Cons.IH [OF s'(2)] Cons.prems(2) by simp
  then show ?case using cons [OF r(1-3)] r(4) x by simp
qed

lemma fresh_run_counts:
  assumes "fold_res (reduce_row j) s rows = Inr t"
    "distinct (map row_id rows)" "row_id ` set rows \<inter> dom (hf_seen s) = {}"
  shows "hf_expected t = hf_expected s + of_nat (length rows)
      \<and> map (ev_sequence \<circ> fst) rows = map (\<lambda>i. hf_expected s + of_nat i) [0..<length rows]
      \<and> (\<forall>e\<in>set (map fst rows). ev_job_id e = j)
      \<and> unat (pr_attempt_count (rd_projection (hf_reduction t))) =
        min (2 ^ 32 - 1) (unat (pr_attempt_count (rd_projection (hf_reduction s)))
          + count_kind AttemptStarted (map fst rows))"
  using assms
proof (induction rule: fresh_run_induct)
  case (Nil s)
  have "unat (pr_attempt_count (rd_projection (hf_reduction s))) \<le> 2 ^ 32 - 1"
    using unsigned_less [of "pr_attempt_count (rd_projection (hf_reduction s))", where ?'a = nat]
    by simp
  then show ?case by (simp add: count_kind_def)
next
  case (Cons s e raw r rows t)
  have shift: "map (\<lambda>i. hf_expected s + of_nat i) [0..<Suc n] =
      hf_expected s # map (\<lambda>i. (hf_expected s + 1) + of_nat i) [0..<n]" for n
    by (simp add: upt_conv_Cons map_Suc_upt [symmetric] algebra_simps del: upt_Suc)
  show ?case
    using Cons.IH Cons.hyps fresh_row_effect(1) [OF Cons.hyps(3)] shift
    by (auto simp: count_kind_def unat_saturating_add_u32 algebra_simps simp del: upt_Suc)
qed

lemma fresh_run_epochs:
  assumes "fold_res (reduce_row j) s rows = Inr t"
    "distinct (map row_id rows)" "row_id ` set rows \<inter> dom (hf_seen s) = {}"
  shows "let p = pr_current_lease_epoch (rd_projection (hf_reduction s));
             es = lease_epochs (map fst rows) in
      sorted_wrt (<) (p # es)
      \<and> pr_current_lease_epoch (rd_projection (hf_reduction t)) = last (p # es)"
  using assms
proof (induction rule: fresh_run_induct)
  case (Cons s e raw r rows t)
  then show ?case
    using fresh_row_effect(2,3) [OF Cons.hyps(3)]
    by (auto simp: lease_epochs_def Let_def split: if_splits dest: order.strict_trans)
qed (simp add: lease_epochs_def)


section \<open>Deliveries and undo operations\<close>

lemma completed_undos_update:
  assumes "distinct (map fst ops)"
  shows "\<forall>v. (k, v) \<notin> set ops \<Longrightarrow> completed_undos (AList.update k Started ops) = completed_undos ops"
    and "map_of ops k = Some Started \<Longrightarrow> completed_undos (AList.update k v ops) =
      completed_undos ops + (if v = Completed then 1 else 0)"
  using assms by (induction ops) (auto simp: completed_undos_def)

lemma reduce_undo_completed:
  assumes "reduce_undo_event p e ops = Inr ops'" "distinct (map fst ops)" "undo_kind (ev_kind e)"
  shows "completed_undos ops' = completed_undos ops + (if ev_kind e = UndoCompleted then 1 else 0)"
  using assms
  by (auto simp: reduce_undo_event_def result_simps completed_undos_update split: if_splits)

lemma reduce_event_deliveries:
  assumes "reduce_event s e = Inr s'" "reduction_inv s"
  shows "(if pr_delivery (rd_projection s') = None then 0 else 1) =
      (if pr_delivery (rd_projection s) = None then 0 else 1) + deliveries [e]
    \<and> completed_undos (rd_undo s') = completed_undos (rd_undo s) + count_kind UndoCompleted [e]"
proof (cases rule: event_kind_cases [of "ev_kind e"])
  case progress
  with progress_event [OF assms(1)] show ?thesis
    by (auto simp: progresses_def deliveries_def count_kind_def post_terminal_def)
next
  case terminal
  then obtain outcome reason where t: "Job_History.terminal (rd_projection s) e outcome reason = Inr (rd_projection s')"
    using terminal_event(1) [OF assms(1)] by blast
  show ?thesis
    using terminal terminal_event(3) [OF assms(1) terminal] terminal_ok(1) [OF t]
    by (auto simp: deliveries_def count_kind_def terminal_kind_def)
next
  case delivery
  show ?thesis
    by (rule delivery_event [OF assms(1) delivery])
      (use delivery in \<open>auto simp: deliveries_def count_kind_def\<close>)
next
  case undo
  obtain ops where ops: "reduce_undo_event (rd_projection s) e (rd_undo s) = Inr ops"
      "s' = s\<lparr>rd_undo := ops\<rparr>"
    using undo_event [OF assms(1) undo] by blast
  have "distinct (map fst (rd_undo s))" using assms(2) by (simp add: reduction_inv_def undo_ok_def)
  with reduce_undo_completed [OF ops(1) _ undo] ops(2) undo show ?thesis
    by (auto simp: deliveries_def count_kind_def undo_kind_def)
qed

lemma fresh_run_deliveries:
  assumes "fold_res (reduce_row j) s rows = Inr t"
    "distinct (map row_id rows)" "row_id ` set rows \<inter> dom (hf_seen s) = {}"
  shows "fold_inv s \<longrightarrow>
      (if pr_delivery (rd_projection (hf_reduction t)) = None then 0 else 1) =
      (if pr_delivery (rd_projection (hf_reduction s)) = None then 0 else 1) + deliveries (map fst rows)
    \<and> completed_undos (rd_undo (hf_reduction t)) =
      completed_undos (rd_undo (hf_reduction s)) + count_kind UndoCompleted (map fst rows)"
  using assms
proof (induction rule: fresh_run_induct)
  case (Cons s e raw r rows t)
  show ?case
  proof
    assume "fold_inv s"
    then have inv: "reduction_inv (hf_reduction (mark_row s e raw))"
      using fold_inv_mark [of s e raw] by (simp add: fold_inv_def)
    then have "fold_inv ((mark_row s e raw)\<lparr>hf_reduction := r\<rparr>)"
      using reducer.step_inv [OF _ Cons.hyps(3)] by (simp add: fold_inv_def)
    moreover have "deliveries (map fst ((e, raw) # rows)) = deliveries [e] + deliveries (map fst rows)"
      "count_kind UndoCompleted (map fst ((e, raw) # rows)) =
        count_kind UndoCompleted [e] + count_kind UndoCompleted (map fst rows)"
      by (simp_all add: deliveries_def count_kind_def)
    ultimately show "(if pr_delivery (rd_projection (hf_reduction t)) = None then 0 else 1) =
        (if pr_delivery (rd_projection (hf_reduction s)) = None then 0 else 1)
          + deliveries (map fst ((e, raw) # rows))
      \<and> completed_undos (rd_undo (hf_reduction t)) = completed_undos (rd_undo (hf_reduction s))
          + count_kind UndoCompleted (map fst ((e, raw) # rows))"
      using Cons.IH reduce_event_deliveries [OF Cons.hyps(3) inv] by simp
  qed
qed (simp add: deliveries_def count_kind_def)

section \<open>Repeated rows\<close>

lemma seen_step:
  assumes "reduce_row j s (e, raw) = Inr s'"
  shows "hf_seen s' (ev_event_id e) = Some raw \<and> ev_job_id e = j \<and> hf_seen s \<subseteq>\<^sub>m hf_seen s'"
proof -
  have "ev_job_id e = j" using assms by (auto simp: reduce_row_def split: if_splits)
  with assms show ?thesis by (auto elim!: reduce_row_cases simp: map_le_def)
qed

lemma seen_run:
  assumes "fold_res (reduce_row j) s rows = Inr t"
  shows "hf_seen s \<subseteq>\<^sub>m hf_seen t
    \<and> (\<forall>(e, raw)\<in>set rows. hf_seen t (ev_event_id e) = Some raw \<and> ev_job_id e = j)"
  using assms
proof (induction rows arbitrary: s)
  case (Cons x rows)
  obtain e raw where x: "x = (e, raw)" by force
  from Cons.prems obtain u where u: "reduce_row j s (e, raw) = Inr u"
      "fold_res (reduce_row j) u rows = Inr t"
    by (auto simp: x result_simps)
  from Cons.IH [OF u(2)] seen_step [OF u(1)] show ?case
    by (auto simp: x intro: map_le_trans dest: map_le_implies_dom_le) (metis domI map_le_def)
qed simp

lemma seen_dom:
  "fold_res (reduce_row j) s rows = Inr t \<Longrightarrow> dom (hf_seen t) = dom (hf_seen s) \<union> row_id ` set rows"
proof (induction rows arbitrary: s)
  case (Cons x rows)
  obtain e raw where x: "x = (e, raw)" by force
  from Cons.prems obtain u where u: "reduce_row j s (e, raw) = Inr u"
      "fold_res (reduce_row j) u rows = Inr t"
    by (auto simp: x result_simps)
  from u(1) have "dom (hf_seen u) = insert (ev_event_id e) (dom (hf_seen s))"
    by (cases rule: reduce_row_cases) auto
  with Cons.IH [OF u(2)] x show ?case by auto
qed simp

lemma repeated_rows_run:
  assumes "fold_res (reduce_row j) s rows = Inr t" "set later \<subseteq> set rows"
  shows "fold_res (reduce_row j) t later = Inr t"
  using assms(2)
proof (induction later)
  case (Cons x later)
  obtain e raw where x: "x = (e, raw)" by force
  have "hf_seen t (ev_event_id e) = Some raw \<and> ev_job_id e = j"
    using seen_run [OF assms(1)] Cons.prems x by auto
  then have "reduce_row j t x = Inr t" by (simp add: reduce_row_def x)
  with Cons show ?case by simp
qed simp


section \<open>Properties of the lifecycle\<close>

lemma reduce_rows_extend:
  assumes "reduce_job_history j (history_of_rows rows c) = Inr p"
    "reduce_job_history j (history_of_rows (rows @ later) c) = Inr q"
  obtains s t where "fold_inv s" "fold_res (reduce_row j) s later = Inr t"
    "p = finish_fold s" "q = finish_fold t"
proof -
  from assms(1) obtain s where s: "fold_res (reduce_row j) (initial_fold j c) rows = Inr s"
      "p = finish_fold s"
    by (auto simp: reduce_rows_Inr)
  moreover from assms(2) s obtain t where "fold_res (reduce_row j) s later = Inr t" "q = finish_fold t"
    by (auto simp: reduce_rows_Inr fold_res_append)
  ultimately show ?thesis using that history.run_inv [OF fold_inv_initial] by blast
qed

text \<open>The last row of an accepted history, when its event id is new, is one reducer step.\<close>

lemma reduce_rows_snoc:
  assumes "reduce_job_history j (history_of_rows (rows @ [(e, row)]) c) = Inr q"
    and "ev_event_id e \<notin> row_id ` set rows"
  obtains s r where "fold_res (reduce_row j) (initial_fold j c) rows = Inr s"
    "reduce_job_history j (history_of_rows rows c) = Inr (finish_fold s)"
    "reduce_event (hf_reduction (mark_row s e row)) e = Inr r"
    "q = finish_fold ((mark_row s e row)\<lparr>hf_reduction := r\<rparr>)"
proof -
  from assms(1) obtain s t where st: "fold_res (reduce_row j) (initial_fold j c) rows = Inr s"
      "reduce_row j s (e, row) = Inr t" "q = finish_fold t"
    by (auto simp: reduce_rows_Inr result_simps)
  have "ev_event_id e \<notin> dom (hf_seen s)"
    using seen_dom [OF st(1)] assms(2) by (simp add: initial_fold_def)
  with st(2) obtain r where r: "reduce_event (hf_reduction (mark_row s e row)) e = Inr r"
      "t = (mark_row s e row)\<lparr>hf_reduction := r\<rparr>"
    using fresh_run_step by blast
  have "reduce_job_history j (history_of_rows rows c) = Inr (finish_fold s)"
    using st(1) by (auto simp: reduce_rows_Inr)
  from that [OF st(1) this r(1)] r(2) st(3) show ?thesis by simp
qed

lemma reduce_rows_facts:
  assumes "reduce_job_history j (history_of_rows rows c) = Inr p"
  obtains t where "fold_res (reduce_row j) (initial_fold j c) (first_rows [] rows) = Inr t"
    "distinct (map row_id (first_rows [] rows))"
    "row_id ` set (first_rows [] rows) \<inter> dom (hf_seen (initial_fold j c)) = {}"
    "fold_inv t" "p = finish_fold t"
proof -
  from assms obtain t where t: "fold_res (reduce_row j) (initial_fold j c) rows = Inr t" "p = finish_fold t"
    by (auto simp: reduce_rows_Inr)
  have seen: "dom (hf_seen (initial_fold j c)) = set []" by (simp add: initial_fold_def)
  show ?thesis
    using that [OF fold_first_rows [OF t(1) seen]] first_rows_fresh [of "[]" rows] seen t
      history.run_inv [OF fold_inv_initial t(1)] by simp
qed

lemma initial_fold_simps [simp]:
  "hf_expected (initial_fold j c) = 1"
  "pr_attempt_count (rd_projection (hf_reduction (initial_fold j c))) = 0"
  "pr_current_lease_epoch (rd_projection (hf_reduction (initial_fold j c))) = 0"
  "pr_delivery (rd_projection (hf_reduction (initial_fold j c))) = None"
  "pr_last_sequence (rd_projection (hf_reduction (initial_fold j c))) = 0"
  "rd_undo (hf_reduction (initial_fold j c)) = []"
  by (simp_all add: initial_fold_def empty_projection_def)

text \<open>
  C11: Once the reduction of a history is terminal, every accepted extension of the history reduces
  to a projection with the same phase, outcome, stop reason, attempt count and lease epoch.
\<close>

theorem terminal_outcome_is_final:
  assumes "reduce_job_history j (history_of_rows rows c) = Inr p" "is_terminal p"
    and "reduce_job_history j (history_of_rows (rows @ later) c) = Inr q"
  shows "is_terminal q \<and> pr_outcome q = pr_outcome p \<and> pr_stop_reason q = pr_stop_reason p
    \<and> pr_attempt_count q = pr_attempt_count p \<and> pr_current_lease_epoch q = pr_current_lease_epoch p"
  by (rule reduce_rows_extend [OF assms(1,3)], drule (1) terminal_kept_run)
    (use assms(2) in \<open>auto simp: terminal_kept_def is_terminal_def Let_def\<close>)

lemmas sample_defs = sample_delivered_def sample_delivery_def sample_cancelled_def
  sample_cancel_end_def sample_event_def

lemmas reduce_eval = reduce_job_history_def history_rows_def history_of_rows_def initial_fold_def
  finish_fold_def reduce_row_def mark_row_def reduce_event_def event_defs empty_projection_def
  is_terminal_def post_terminal_def terminal_def set_waiting_def detail_stop_reason_def
  job_delivery_of_def detail_string_def json_get_def as_str_def

theorem terminal_outcome_is_final_witness:
  "\<exists>p q. reduce_job_history ''job'' (history_of_rows sample_delivered []) = Inr p \<and> is_terminal p
    \<and> reduce_job_history ''job'' (history_of_rows (sample_delivered @ sample_delivery) []) = Inr q
    \<and> pr_outcome q = pr_outcome p \<and> pr_stop_reason q = pr_stop_reason p"
proof -
  have "\<exists>p. reduce_job_history ''job'' (history_of_rows sample_delivered []) = Inr p \<and> is_terminal p"
    by (simp add: reduce_eval sample_defs)
  moreover have "\<exists>q. reduce_job_history ''job''
      (history_of_rows (sample_delivered @ sample_delivery) []) = Inr q"
    by (simp add: reduce_eval sample_defs)
  ultimately show ?thesis using terminal_outcome_is_final by blast
qed

text \<open>
  C13: An accepted history is terminal exactly when it has an outcome, the outcome is explained by
  a stop reason of its class, and only a verified job has a delivery.
\<close>

theorem terminal_iff_explained_outcome:
  assumes "reduce_job_history j h = Inr p"
  shows "(is_terminal p \<longleftrightarrow> pr_outcome p \<noteq> None)
    \<and> (\<forall>oc. pr_outcome p = Some oc \<longrightarrow>
        (\<exists>r. pr_stop_reason p = Some r \<and> accepts_stop_reason oc r))
    \<and> (pr_delivery p \<noteq> None \<longrightarrow> pr_outcome p = Some job_outcome.Verified)"
proof -
  from assms obtain s where s: "fold_res (reduce_row j) (initial_fold j (hi_caveats h)) (history_rows h) = Inr s"
      "p = finish_fold s"
    by (auto simp: reduce_job_history_def result_simps)
  have "fold_inv s" by (rule history.run_inv [OF fold_inv_initial s(1)])
  with s(2) show ?thesis
    by (simp add: fold_inv_def reduction_inv_def projection_ok_def is_terminal_def)
qed

theorem terminal_iff_explained_outcome_witness:
  "\<exists>p. reduce_job_history ''job'' (history_of_rows (sample_delivered @ sample_delivery) []) = Inr p
    \<and> is_terminal p \<and> pr_outcome p \<noteq> None \<and> pr_delivery p \<noteq> None"
proof -
  have "\<exists>p. reduce_job_history ''job'' (history_of_rows (sample_delivered @ sample_delivery) []) = Inr p
      \<and> pr_delivery p \<noteq> None"
    by (simp add: reduce_eval sample_defs)
  then show ?thesis using terminal_iff_explained_outcome by blast
qed

text \<open>
  C12: After a recorded cancellation request no accepted continuation gives another result: the
  job ends cancelled, or blocked because containment of its process was lost.
\<close>

theorem cancellation_is_never_overwritten:
  assumes "reduce_job_history j (history_of_rows rows c) = Inr p"
    and "pr_stop_reason p = Some stop_reason.CancelRequested"
    and "reduce_job_history j (history_of_rows (rows @ later) c) = Inr q"
    and "pr_outcome q = Some outcome"
  shows "outcome = job_outcome.Cancelled
    \<or> outcome = job_outcome.Blocked \<and> pr_stop_reason q = Some LostContainment"
proof -
  obtain s t where st: "fold_inv s" "fold_res (reduce_row j) s later = Inr t"
      "p = finish_fold s" "q = finish_fold t"
    using reduce_rows_extend [OF assms(1,3)] by blast
  have "cancel_held t"
    using cancel_held_run [OF st(1,2)] assms(2) st(3) by (simp add: cancel_held_def Let_def)
  moreover have "\<exists>r. pr_stop_reason q = Some r \<and> accepts_stop_reason outcome r"
    using history.run_inv [OF st(1,2)] assms(4) st(4)
    by (simp add: fold_inv_def reduction_inv_def projection_ok_def)
  ultimately show ?thesis
    using assms(4) st(4) by (cases outcome) (auto simp: cancel_held_def Let_def)
qed

theorem cancellation_is_never_overwritten_witness:
  "\<exists>p q. reduce_job_history ''job'' (history_of_rows sample_cancelled []) = Inr p
    \<and> reduce_job_history ''job'' (history_of_rows (sample_cancelled @ sample_cancel_end) []) = Inr q
    \<and> pr_outcome q = Some job_outcome.Cancelled"
proof -
  have "\<exists>p. reduce_job_history ''job'' (history_of_rows sample_cancelled []) = Inr p
      \<and> pr_stop_reason p = Some stop_reason.CancelRequested"
    by (simp add: reduce_eval sample_defs)
  moreover have "\<exists>q. reduce_job_history ''job''
      (history_of_rows (sample_cancelled @ sample_cancel_end) []) = Inr q
      \<and> pr_outcome q \<noteq> None \<and> pr_stop_reason q \<noteq> Some LostContainment"
    by (simp add: reduce_eval sample_defs)
  ultimately show ?thesis using cancellation_is_never_overwritten by blast
qed

text \<open>
  C14: The lease epochs granted by an accepted history are strictly increasing and positive, and the
  projection's current epoch is the last one granted (zero when there is none).
\<close>

theorem lease_epochs_strictly_increase:
  assumes "reduce_job_history j (history_of_rows rows c) = Inr p"
  shows "sorted_wrt (<) (0 # lease_epochs (facts_of rows))
    \<and> pr_current_lease_epoch p = last (0 # lease_epochs (facts_of rows))"
proof -
  obtain t where t: "fold_res (reduce_row j) (initial_fold j c) (first_rows [] rows) = Inr t"
    "distinct (map row_id (first_rows [] rows))"
    "row_id ` set (first_rows [] rows) \<inter> dom (hf_seen (initial_fold j c)) = {}" "p = finish_fold t"
    using reduce_rows_facts [OF assms] by blast
  from fresh_run_epochs [OF t(1-3)] t(4) show ?thesis
    by (simp add: facts_of_def Let_def)
qed

theorem lease_epochs_strictly_increase_witness:
  "\<exists>p. reduce_job_history ''job'' (history_of_rows sample_delivered []) = Inr p
    \<and> pr_current_lease_epoch p = 4"
proof -
  have "\<exists>p. reduce_job_history ''job'' (history_of_rows sample_delivered []) = Inr p"
    by (simp add: reduce_eval sample_defs)
  moreover have "last (0 # lease_epochs (facts_of sample_delivered)) = 4"
    by (simp add: lease_epochs_def facts_of_def sample_defs lease_kind_def)
  ultimately show ?thesis using lease_epochs_strictly_increase by metis
qed

text \<open>
  The first rows of each event id in an accepted history belong to the job and carry the
  sequence numbers 1, 2, 3, ... without a gap; the attempt count is the number of recorded attempt
  starts, saturated at the largest 32-bit value.
\<close>

theorem accepted_history_is_contiguous:
  assumes "reduce_job_history j (history_of_rows rows c) = Inr p"
  shows "map ev_sequence (facts_of rows) = map (\<lambda>i. 1 + of_nat i) [0..<length (facts_of rows)]
    \<and> (\<forall>e\<in>set (facts_of rows). ev_job_id e = j)
    \<and> unat (pr_attempt_count p) = min (2 ^ 32 - 1) (count_kind AttemptStarted (facts_of rows))"
proof -
  obtain t where t: "fold_res (reduce_row j) (initial_fold j c) (first_rows [] rows) = Inr t"
    "distinct (map row_id (first_rows [] rows))"
    "row_id ` set (first_rows [] rows) \<inter> dom (hf_seen (initial_fold j c)) = {}" "p = finish_fold t"
    using reduce_rows_facts [OF assms] by blast
  from fresh_run_counts [OF t(1-3)] t(4) show ?thesis
    by (simp add: facts_of_def)
qed

theorem accepted_history_is_contiguous_witness:
  "\<exists>p. reduce_job_history ''job'' (history_of_rows sample_delivered []) = Inr p
    \<and> unat (pr_attempt_count p) = 1 \<and> length (facts_of sample_delivered) = 5"
proof -
  have "\<exists>p. reduce_job_history ''job'' (history_of_rows sample_delivered []) = Inr p"
    by (simp add: reduce_eval sample_defs)
  moreover have "count_kind AttemptStarted (facts_of sample_delivered) = 1"
      "length (facts_of sample_delivered) = 5"
    by (simp_all add: count_kind_def facts_of_def sample_defs)
  moreover have "min (2 ^ 32 - 1) 1 = (1::nat)" by simp
  ultimately show ?thesis using accepted_history_is_contiguous by metis
qed

text \<open>
  Rows that repeat rows already in an accepted history, with the same bytes and in any order,
  leave its projection as it is.
\<close>

theorem repeated_rows_are_idempotent:
  assumes "reduce_job_history j (history_of_rows rows c) = Inr p" "set later \<subseteq> set rows"
  shows "reduce_job_history j (history_of_rows (rows @ later) c) = Inr p"
  using assms repeated_rows_run
  by (fastforce simp: reduce_rows_Inr fold_res_append)

theorem repeated_rows_are_idempotent_witness:
  "reduce_job_history ''job'' (history_of_rows (sample_cancelled @ rev sample_cancelled) []) =
    reduce_job_history ''job'' (history_of_rows sample_cancelled [])"
proof -
  have "\<exists>p. reduce_job_history ''job'' (history_of_rows sample_cancelled []) = Inr p"
    by (simp add: reduce_eval sample_defs)
  then show ?thesis
    using repeated_rows_are_idempotent [of "''job''" sample_cancelled "[]" _ "rev sample_cancelled"]
    by fastforce
qed

text \<open>
  An accepted history records at most one delivery and at most one completed undo, and the
  projection shows a delivery exactly when the history has one.
\<close>

theorem delivered_and_undone_at_most_once:
  assumes "reduce_job_history j (history_of_rows rows c) = Inr p"
  shows "deliveries (facts_of rows) \<le> 1 \<and> (pr_delivery p \<noteq> None \<longleftrightarrow> deliveries (facts_of rows) = 1)
    \<and> count_kind UndoCompleted (facts_of rows) \<le> 1"
proof -
  obtain t where t: "fold_res (reduce_row j) (initial_fold j c) (first_rows [] rows) = Inr t"
    "distinct (map row_id (first_rows [] rows))"
    "row_id ` set (first_rows [] rows) \<inter> dom (hf_seen (initial_fold j c)) = {}"
    "fold_inv t" "p = finish_fold t"
    using reduce_rows_facts [OF assms] by blast
  have "completed_undos (rd_undo (hf_reduction t)) \<le> 1"
  proof -
    have "completed_undos ops \<le> length (filter (\<lambda>x. snd x \<noteq> undo_event_state.Failed) ops)" for ops
      by (induction ops) (auto simp: completed_undos_def)
    with t(4) show ?thesis
      by (simp add: fold_inv_def reduction_inv_def undo_ok_def) (meson order_trans)
  qed
  moreover have "completed_undos [] = 0" by (simp add: completed_undos_def)
  ultimately show ?thesis
    using fresh_run_deliveries [OF t(1-3)] t(5)
    by (auto simp: facts_of_def split: if_splits)
qed

theorem delivered_and_undone_at_most_once_witness:
  "\<exists>p. reduce_job_history ''job'' (history_of_rows (sample_delivered @ sample_delivery) []) = Inr p
    \<and> pr_delivery p \<noteq> None"
proof -
  have "\<exists>p. reduce_job_history ''job'' (history_of_rows (sample_delivered @ sample_delivery) []) = Inr p"
    by (simp add: reduce_eval sample_defs)
  moreover have "deliveries (facts_of (sample_delivered @ sample_delivery)) = 1"
    by (simp add: deliveries_def count_kind_def facts_of_def sample_defs)
  ultimately show ?thesis using delivered_and_undone_at_most_once by blast
qed

end
