(* ===== verification/Paths.thy ===== *)
theory Paths
  imports Prelude
begin

text \<open>
  The layout of the DeadReckon home (\<open>crates/deadreckon-core/src/paths.rs\<close>). Every method of
  \<open>DeadreckonPaths\<close> is a function of the home directory; names derived from user text go through
  \<open>sanitize_slug\<close>, \<open>task_key\<close> or \<open>operator_capture_component\<close>. The environment variables and
  the probes of the file system that \<open>discover\<close>, \<open>workspace_scope\<close> and \<open>find_git_root\<close> make are
  arguments. The lemmas show that derived names are one plain component each, that slugs are
  stable, and that capture directories of different jobs differ.
\<close>

section \<open>The home directory\<close>

definition default_deadreckon_home :: "path option \<Rightarrow> path" where
  "default_deadreckon_home home_dir =
    (case home_dir of Some h \<Rightarrow> join h ''.deadreckon'' | None \<Rightarrow> components ''.deadreckon'')"

definition discover :: "string option \<Rightarrow> path option \<Rightarrow> path" where
  "discover env_home home_dir =
    (case env_home of
       Some v \<Rightarrow> if v = [] then default_deadreckon_home home_dir else components v
     | None \<Rightarrow> default_deadreckon_home home_dir)"

definition runstate_dir :: "path \<Rightarrow> path" where
  "runstate_dir home = join home ''runstate''"

definition scope_root :: "path \<Rightarrow> string \<Rightarrow> path" where
  "scope_root home scope = join (runstate_dir home) scope"

definition current_dir :: "path \<Rightarrow> string \<Rightarrow> path" where
  "current_dir home scope = join (scope_root home scope) ''current''"

definition current_pointer_path :: "path \<Rightarrow> string \<Rightarrow> string \<Rightarrow> path" where
  "current_pointer_path home scope key = join (current_dir home scope) (key @ ''.json'')"

definition runs_dir :: "path \<Rightarrow> string \<Rightarrow> path" where
  "runs_dir home scope = join (scope_root home scope) ''runs''"

definition run_root :: "path \<Rightarrow> string \<Rightarrow> string \<Rightarrow> path" where
  "run_root home scope run_id = join (runs_dir home scope) run_id"

definition locks_dir :: "path \<Rightarrow> path" where
  "locks_dir home = join home ''locks''"

section \<open>Jobs\<close>

definition jobs_dir :: "path \<Rightarrow> path" where
  "jobs_dir home = join home ''jobs''"

definition job_dir :: "path \<Rightarrow> string \<Rightarrow> path" where
  "job_dir home job_id = join (jobs_dir home) job_id"

definition job_json :: "path \<Rightarrow> string \<Rightarrow> path" where
  "job_json home job_id = join (job_dir home job_id) ''job.json''"

definition job_events :: "path \<Rightarrow> string \<Rightarrow> path" where
  "job_events home job_id = join (job_dir home job_id) ''job-events.jsonl''"

definition job_projection_path :: "path \<Rightarrow> string \<Rightarrow> path" where
  "job_projection_path home job_id = join (job_dir home job_id) ''projection.json''"

definition job_lease_path :: "path \<Rightarrow> string \<Rightarrow> path" where
  "job_lease_path home job_id = join (job_dir home job_id) ''lease.json''"

definition job_launch_plan :: "path \<Rightarrow> string \<Rightarrow> path" where
  "job_launch_plan home job_id = join (job_dir home job_id) ''launch-plan.json''"

definition job_authority :: "path \<Rightarrow> string \<Rightarrow> path" where
  "job_authority home job_id = join (job_dir home job_id) ''authority.json''"

definition job_gate_artifacts_dir :: "path \<Rightarrow> string \<Rightarrow> path" where
  "job_gate_artifacts_dir home job_id = join (job_dir home job_id) ''gate-artifacts''"

definition job_frozen_controller_gate :: "string \<Rightarrow> path \<Rightarrow> string \<Rightarrow> path" where
  "job_frozen_controller_gate exe_suffix home job_id =
    join (join (job_gate_artifacts_dir home job_id) ''controller'') (''dr-gate'' @ exe_suffix)"

definition job_frozen_evaluator_gate :: "path \<Rightarrow> string \<Rightarrow> path" where
  "job_frozen_evaluator_gate home job_id =
    join (join (job_gate_artifacts_dir home job_id) ''evaluator'') ''dr-gate''"

definition job_receipt :: "path \<Rightarrow> string \<Rightarrow> path" where
  "job_receipt home job_id = join (job_dir home job_id) ''receipt.json''"

definition job_delivery_dir :: "path \<Rightarrow> string \<Rightarrow> path" where
  "job_delivery_dir home job_id = join (job_dir home job_id) ''delivery''"

definition job_delivery_intent :: "path \<Rightarrow> string \<Rightarrow> path" where
  "job_delivery_intent home job_id = join (job_delivery_dir home job_id) ''intent.json''"

definition job_applied_delivery_receipt :: "path \<Rightarrow> string \<Rightarrow> path" where
  "job_applied_delivery_receipt home job_id =
    join (job_delivery_dir home job_id) ''applied-receipt.json''"

definition job_operation_lock :: "path \<Rightarrow> string \<Rightarrow> path" where
  "job_operation_lock home job_id = join (job_dir home job_id) ''operation.lock''"

definition job_sandbox_boundary_observation :: "path \<Rightarrow> string \<Rightarrow> path" where
  "job_sandbox_boundary_observation home job_id =
    join (job_dir home job_id) ''sandbox-boundary-observation.json''"

definition JOB_CONTROL_LOCK :: string where
  "JOB_CONTROL_LOCK = ''control.lock''"

section \<open>Names made from user text\<close>

definition is_ascii_alphanumeric :: "char \<Rightarrow> bool" where
  "is_ascii_alphanumeric c \<longleftrightarrow>
    (let n = of_char c :: nat in 48 \<le> n \<and> n \<le> 57 \<or> 65 \<le> n \<and> n \<le> 90 \<or> 97 \<le> n \<and> n \<le> 122)"

text \<open>The loop of \<open>sanitize_slug\<close>, with the flag \<open>last_dash\<close>. Characters outside ASCII are dropped,
  so working on the bytes of the UTF-8 text is the same.\<close>

fun slug_loop :: "bool \<Rightarrow> string \<Rightarrow> string" where
  "slug_loop last_dash [] = []"
| "slug_loop last_dash (c # cs) =
    (if is_ascii_alphanumeric c then to_ascii_lowercase [c] @ slug_loop False cs
     else if c \<in> set ''-_ .'' then
       (if last_dash then slug_loop last_dash cs else CHR ''-'' # slug_loop True cs)
     else slug_loop last_dash cs)"

definition trim_dashes_end :: "string \<Rightarrow> string" where
  "trim_dashes_end s = rev (dropWhile (\<lambda>c. c = CHR ''-'') (rev s))"

definition trim_dashes :: "string \<Rightarrow> string" where
  "trim_dashes s = trim_dashes_end (dropWhile (\<lambda>c. c = CHR ''-'') s)"

definition sanitize_slug :: "string \<Rightarrow> string" where
  "sanitize_slug input = trim_dashes (slug_loop False input)"

definition fnv1a32 :: "string \<Rightarrow> u32" where
  "fnv1a32 input = fold (\<lambda>b hash. (xor hash (of_nat (of_char b))) * 0x01000193) input 0x811c9dc5"

definition hex_digit :: "nat \<Rightarrow> char" where
  "hex_digit n = ''0123456789abcdef'' ! (n mod 16)"

definition hex2 :: "char \<Rightarrow> string" where
  "hex2 c = [hex_digit (of_char c div 16), hex_digit (of_char c)]"

text \<open>\<open>{:08x}\<close> of a 32-bit value.\<close>

definition hex8 :: "u32 \<Rightarrow> string" where
  "hex8 w = map (\<lambda>i. hex_digit (unat w div 16 ^ i)) [7, 6, 5, 4, 3, 2, 1, 0]"

definition task_key :: "string \<Rightarrow> string" where
  "task_key goal =
    (let trimmed = trim goal;
         stem = sanitize_slug trimmed;
         stem = (if length stem > 48 then trim_dashes_end (take 48 stem) else stem);
         stem = (if stem = [] then ''task'' else stem)
     in stem @ ''-'' @ hex8 (fnv1a32 trimmed))"

definition capture_byte :: "char \<Rightarrow> string" where
  "capture_byte b =
    (if is_ascii_alphanumeric b \<or> b = CHR ''-'' \<or> b = CHR ''_'' then [b] else CHR ''%'' # hex2 b)"

definition operator_capture_component :: "string \<Rightarrow> string" where
  "operator_capture_component v =
    (let output = concat (map capture_byte v) in if output = [] then ''%00'' else output)"

text \<open>The scope of a workspace: \<open>root\<close> is the \<open>DEADRECKON_SCOPE_ROOT\<close> variable; the canonical form
  of a directory and its rendering are the file system's.\<close>

function find_git_root_from :: "(path \<Rightarrow> bool) \<Rightarrow> path \<Rightarrow> path option" where
  "find_git_root_from exists cursor =
    (if exists (join cursor ''.git'') then Some cursor
     else (case path_parent cursor of
         None \<Rightarrow> None
       | Some up \<Rightarrow> find_git_root_from exists up))"
  by pat_completeness auto
termination
  by (relation "measure (\<lambda>(_, p). length p)") (auto simp: path_parent_def split: if_splits)

declare find_git_root_from.simps [simp del]

definition find_git_root :: "(path \<Rightarrow> bool) \<Rightarrow> (path \<Rightarrow> bool) \<Rightarrow> path \<Rightarrow> path option" where
  "find_git_root is_file exists start =
    (if is_file start then
       (case path_parent start of None \<Rightarrow> None | Some up \<Rightarrow> find_git_root_from exists up)
     else find_git_root_from exists start)"

definition file_name :: "path \<Rightarrow> string option" where
  "file_name p = (if p = [] then None else case last p of Normal s \<Rightarrow> Some s | _ \<Rightarrow> None)"

definition workspace_scope ::
    "(path \<Rightarrow> 'e + path) \<Rightarrow> (path \<Rightarrow> string) \<Rightarrow> (path \<Rightarrow> bool) \<Rightarrow> (path \<Rightarrow> bool) \<Rightarrow> path option \<Rightarrow> path
      \<Rightarrow> 'e + string" where
  "workspace_scope canonicalize to_string_lossy is_file exists scope_env start =
    (let root = (case scope_env of Some r \<Rightarrow> r
           | None \<Rightarrow> (case find_git_root is_file exists start of Some r \<Rightarrow> r | None \<Rightarrow> start))
     in res_bind (canonicalize root) (\<lambda>canonical.
       let base = (case map_option sanitize_slug (file_name canonical) of
             Some name \<Rightarrow> if name = [] then ''workspace'' else name
           | None \<Rightarrow> ''workspace'')
       in Inr (base @ ''-'' @ hex8 (fnv1a32 (to_string_lossy canonical)))))"

section \<open>Captures, plans, chains and learning\<close>

definition operator_captures_dir :: "path \<Rightarrow> path" where
  "operator_captures_dir home = join home ''operator-captures''"

definition operator_capture_dir :: "path \<Rightarrow> string \<Rightarrow> string \<Rightarrow> path" where
  "operator_capture_dir home job_id session_id =
    join (join (operator_captures_dir home) (operator_capture_component job_id))
      (operator_capture_component session_id)"

definition operator_capture_binding :: "path \<Rightarrow> string \<Rightarrow> string \<Rightarrow> path" where
  "operator_capture_binding home j s = join (operator_capture_dir home j s) ''binding.json''"

definition operator_capture_events :: "path \<Rightarrow> string \<Rightarrow> string \<Rightarrow> path" where
  "operator_capture_events home j s = join (operator_capture_dir home j s) ''capture-events.jsonl''"

definition operator_capture_receipt :: "path \<Rightarrow> string \<Rightarrow> string \<Rightarrow> path" where
  "operator_capture_receipt home j s = join (operator_capture_dir home j s) ''capture-receipt.json''"

definition chains_dir :: "path \<Rightarrow> path" where
  "chains_dir home = join home ''chains''"

definition plans_dir :: "path \<Rightarrow> path" where
  "plans_dir home = join home ''plans''"

definition plan_dir :: "path \<Rightarrow> string \<Rightarrow> path" where
  "plan_dir home plan_id = join (plans_dir home) plan_id"

definition plan_json :: "path \<Rightarrow> string \<Rightarrow> path" where
  "plan_json home plan_id = join (plan_dir home plan_id) ''plan.json''"

definition coordinator_json :: "path \<Rightarrow> string \<Rightarrow> path" where
  "coordinator_json home plan_id = join (plan_dir home plan_id) ''coordinator.json''"

definition plan_messages :: "path \<Rightarrow> string \<Rightarrow> path" where
  "plan_messages home plan_id = join (plan_dir home plan_id) ''messages.jsonl''"

definition plan_events :: "path \<Rightarrow> string \<Rightarrow> path" where
  "plan_events home plan_id = join (plan_dir home plan_id) ''plan-events.jsonl''"

definition worker_spec :: "path \<Rightarrow> string \<Rightarrow> string \<Rightarrow> path" where
  "worker_spec home plan_id task_id =
    join (join (plan_dir home plan_id) ''worker-specs'') (sanitize_slug task_id @ ''.md'')"

definition child_summary :: "path \<Rightarrow> string \<Rightarrow> string \<Rightarrow> path" where
  "child_summary home plan_id task_id =
    join (join (plan_dir home plan_id) ''summaries'') (sanitize_slug task_id @ ''.md'')"

definition merge_working :: "path \<Rightarrow> string \<Rightarrow> path" where
  "merge_working home plan_id = join (plan_dir home plan_id) ''merge-working''"

definition merge_proofs :: "path \<Rightarrow> string \<Rightarrow> path" where
  "merge_proofs home plan_id = join (plan_dir home plan_id) ''merge-proofs''"

definition chain_dir :: "path \<Rightarrow> string \<Rightarrow> path" where
  "chain_dir home chain_id = join (chains_dir home) chain_id"

definition chain_json :: "path \<Rightarrow> string \<Rightarrow> path" where
  "chain_json home chain_id = join (chain_dir home chain_id) ''chain.json''"

definition chain_events :: "path \<Rightarrow> string \<Rightarrow> path" where
  "chain_events home chain_id = join (chain_dir home chain_id) ''chain-events.jsonl''"

definition conductor_json :: "path \<Rightarrow> string \<Rightarrow> path" where
  "conductor_json home chain_id = join (chain_dir home chain_id) ''conductor.json''"

definition library_dir :: "path \<Rightarrow> string \<Rightarrow> string \<Rightarrow> path" where
  "library_dir home scope run_id = join (join (join home ''library'') scope) run_id"

section \<open>Reference definitions\<close>

definition lower_alnum :: "char \<Rightarrow> bool" where
  "lower_alnum c \<longleftrightarrow> (let n = of_char c :: nat in 48 \<le> n \<and> n \<le> 57 \<or> 97 \<le> n \<and> n \<le> 122)"

text \<open>Lower-case letters and digits, separated by single dashes.\<close>

fun single_dashes :: "bool \<Rightarrow> string \<Rightarrow> bool" where
  "single_dashes d [] = True"
| "single_dashes d (c # cs) =
    (if c = CHR ''-'' then \<not> d \<and> single_dashes True cs else lower_alnum c \<and> single_dashes False cs)"

definition is_slug :: "string \<Rightarrow> bool" where
  "is_slug s \<longleftrightarrow> single_dashes False s \<and> (s \<noteq> [] \<longrightarrow> hd s \<noteq> CHR ''-'' \<and> last s \<noteq> CHR ''-'')"

definition hex_val :: "char \<Rightarrow> nat" where
  "hex_val c = length (takeWhile (\<lambda>x. x \<noteq> c) ''0123456789abcdef'')"

fun capture_decode :: "string \<Rightarrow> string" where
  "capture_decode [] = []"
| "capture_decode (c # cs) =
    (if c = CHR ''%'' then
       (case cs of a # b # rest \<Rightarrow> char_of (16 * hex_val a + hex_val b) # capture_decode rest
        | _ \<Rightarrow> [])
     else c # capture_decode cs)"

section \<open>Plain names\<close>

text \<open>A plain name is one normal component: joining it extends the path by exactly that name.\<close>

definition plain :: "string \<Rightarrow> bool" where
  "plain s \<longleftrightarrow> s \<noteq> [] \<and> CHR ''/'' \<notin> set s \<and> s \<noteq> ''.'' \<and> s \<noteq> ''..''"

lemma components_plain: "plain s \<Longrightarrow> components s = [Normal s]"
  by (cases s) (auto simp: plain_def components_def split_on_no_sep component_of_def Let_def)

lemma join_plain: "plain s \<Longrightarrow> join p s = p @ [Normal s]"
  by (simp add: join_def join_path_def components_plain)

lemma plain_names [simp]:
  "plain ''jobs''" "plain ''job.json''" "plain ''job-events.jsonl''" "plain ''projection.json''"
  "plain ''lease.json''" "plain ''control.lock''" "plain ''plans''" "plain ''plan.json''"
  "plain ''plan-events.jsonl''" "plain ''chains''" "plain ''chain.json''"
  "plain ''chain-events.jsonl''" "plain ''operator-captures''" "plain ''coordinator.json''"
  "plain ''worker-specs''" "plain ''summaries''"
  by (simp_all add: plain_def)

text \<open>The files of one job are different files, all with a parent.\<close>

lemmas job_files = job_json_def job_events_def job_projection_path_def job_lease_path_def

lemma job_files_distinct [simp]:
  "job_events h j \<noteq> job_projection_path h i" "job_projection_path h i \<noteq> job_events h j"
  "job_events h j \<noteq> job_lease_path h i" "job_lease_path h i \<noteq> job_events h j"
  "job_events h j \<noteq> job_json h i" "job_json h i \<noteq> job_events h j"
  "job_projection_path h j \<noteq> job_lease_path h i" "job_lease_path h i \<noteq> job_projection_path h j"
  "job_projection_path h j \<noteq> job_json h i" "job_json h i \<noteq> job_projection_path h j"
  "job_lease_path h j \<noteq> job_json h i" "job_json h i \<noteq> job_lease_path h j"
  by (simp_all add: job_files join_plain)

lemma job_files_have_parent [simp]:
  "path_parent (job_json h j) = Some (job_dir h j)"
  "path_parent (job_events h j) = Some (job_dir h j)"
  "path_parent (job_projection_path h j) = Some (job_dir h j)"
  "path_parent (job_lease_path h j) = Some (job_dir h j)"
  by (auto simp: job_files join_plain path_parent_def)


section \<open>Slugs\<close>

lemma char_neq_code: "of_char c \<noteq> (of_char d :: nat) \<Longrightarrow> c \<noteq> d"
  by auto

lemma lower_alnum_alnum: "lower_alnum c \<Longrightarrow> is_ascii_alphanumeric c"
  by (auto simp: lower_alnum_def is_ascii_alphanumeric_def Let_def)

lemma lower_alnum_lower: "lower_alnum c \<Longrightarrow> to_ascii_lowercase [c] = [c]"
  by (auto simp: lower_alnum_def to_ascii_lowercase_def Let_def)

lemma dash_not_alnum [simp]: "\<not> lower_alnum (CHR ''-'')" "\<not> is_ascii_alphanumeric (CHR ''-'')"
  by (simp_all add: lower_alnum_def is_ascii_alphanumeric_def Let_def)

lemma alnum_lower:
  assumes "is_ascii_alphanumeric c"
  obtains l where "to_ascii_lowercase [c] = [l]" "lower_alnum l"
  using assms
  by (cases "65 \<le> (of_char c :: nat) \<and> (of_char c :: nat) \<le> 90")
    (auto simp: to_ascii_lowercase_def is_ascii_alphanumeric_def lower_alnum_def Let_def)

lemma slug_loop_dashes: "single_dashes d (slug_loop d s)"
proof (induction d s rule: slug_loop.induct)
  case (2 d c cs)
  show ?case
  proof (cases "is_ascii_alphanumeric c")
    case True
    then obtain l where l: "to_ascii_lowercase [c] = [l]" "lower_alnum l" by (rule alnum_lower)
    then have "l \<noteq> CHR ''-''" by auto
    with 2 l True show ?thesis by simp
  qed (use 2 in auto)
qed simp

lemma slug_loop_id: "single_dashes d s \<Longrightarrow> slug_loop d s = s"
  by (induction s arbitrary: d)
    (auto simp: lower_alnum_alnum lower_alnum_lower split: if_splits)

lemma single_dashes_take: "single_dashes d s \<Longrightarrow> single_dashes d (take n s)"
  by (induction s arbitrary: d n) (auto simp: take_Cons' split: if_splits)

lemma single_dashes_drop:
  "single_dashes d s \<Longrightarrow> single_dashes False (dropWhile (\<lambda>c. c = CHR ''-'') s)"
proof -
  have weaken: "single_dashes True s \<Longrightarrow> single_dashes False s" for s
    by (cases s) auto
  show "single_dashes d s \<Longrightarrow> single_dashes False (dropWhile (\<lambda>c. c = CHR ''-'') s)"
    by (induction s arbitrary: d) (auto simp: weaken split: if_splits)
qed

lemma trim_dashes_end_prefix: "\<exists>n. trim_dashes_end s = take n s"
  unfolding trim_dashes_end_def by (simp add: dropWhile_eq_drop rev_drop) blast

lemma last_trim_dashes_end: "trim_dashes_end s \<noteq> [] \<Longrightarrow> last (trim_dashes_end s) \<noteq> CHR ''-''"
  unfolding trim_dashes_end_def
  using hd_dropWhile [of "\<lambda>c. c = CHR ''-''" "rev s"] by (simp only: last_rev rev_is_Nil_conv) blast

lemma trim_dashes_end_slug:
  assumes "single_dashes False s" "s \<noteq> [] \<longrightarrow> hd s \<noteq> CHR ''-''"
  shows "is_slug (trim_dashes_end s)"
proof -
  obtain n where n: "trim_dashes_end s = take n s" using trim_dashes_end_prefix by blast
  have "trim_dashes_end s \<noteq> [] \<Longrightarrow> hd (trim_dashes_end s) = hd s"
    unfolding n by (cases s; cases n) auto
  moreover have "trim_dashes_end s \<noteq> [] \<Longrightarrow> s \<noteq> []" unfolding n by auto
  ultimately show ?thesis
    using assms last_trim_dashes_end [of s] single_dashes_take [OF assms(1), of n] n
    by (auto simp: is_slug_def)
qed

lemma trim_dashes_slug: "single_dashes d s \<Longrightarrow> is_slug (trim_dashes s)"
  unfolding trim_dashes_def
  using hd_dropWhile [of "\<lambda>c. c = CHR ''-''" s]
  by (intro trim_dashes_end_slug impI single_dashes_drop) blast+

lemma is_slug_trim: "is_slug s \<Longrightarrow> trim_dashes s = s"
proof -
  assume s: "is_slug s"
  then have "dropWhile (\<lambda>c. c = CHR ''-'') s = s"
    by (cases s) (auto simp: is_slug_def)
  moreover have "dropWhile (\<lambda>c. c = CHR ''-'') (rev s) = rev s"
    using s by (cases s rule: rev_cases) (auto simp: is_slug_def)
  ultimately show ?thesis by (simp add: trim_dashes_def trim_dashes_end_def)
qed

lemma sanitize_slug_is_slug: "is_slug (sanitize_slug s)"
  unfolding sanitize_slug_def by (rule trim_dashes_slug) (rule slug_loop_dashes)

lemma single_dashes_chars: "single_dashes d s \<Longrightarrow> c \<in> set s \<Longrightarrow> c = CHR ''-'' \<or> lower_alnum c"
  by (induction d s rule: single_dashes.induct) (auto split: if_splits)

lemma slug_chars_plain:
  "c = CHR ''-'' \<or> lower_alnum c \<Longrightarrow> c \<noteq> CHR ''/'' \<and> c \<noteq> CHR ''.''"
  by (auto simp: lower_alnum_def Let_def)

section \<open>Task keys and captures\<close>

lemma hex_digit_lower: "lower_alnum (hex_digit n)"
proof -
  have "list_all (\<lambda>i. lower_alnum (''0123456789abcdef'' ! i)) [0..<16]" by code_simp
  then show ?thesis by (simp add: hex_digit_def list_all_iff)
qed

lemma hex8_length [simp]: "length (hex8 w) = 8"
  by (simp add: hex8_def)

lemma hex8_lower: "c \<in> set (hex8 w) \<Longrightarrow> lower_alnum c"
  by (auto simp: hex8_def hex_digit_lower)

lemma hex_val_digit: "hex_val (hex_digit n) = n mod 16"
proof -
  have "list_all (\<lambda>i. hex_val (''0123456789abcdef'' ! i) = i) [0..<16]" by code_simp
  then show ?thesis by (simp add: hex_digit_def list_all_iff)
qed

lemma capture_decode_byte: "capture_decode (capture_byte b @ rest) = b # capture_decode rest"
proof (cases "is_ascii_alphanumeric b \<or> b = CHR ''-'' \<or> b = CHR ''_''")
  case True
  then have "b \<noteq> CHR ''%''" by (auto simp: is_ascii_alphanumeric_def Let_def)
  with True show ?thesis by (simp add: capture_byte_def)
next
  case False
  have "(of_char b :: nat) < 256" by simp
  then have "16 * ((of_char b :: nat) div 16 mod 16) + (of_char b :: nat) mod 16 = of_char b"
    using mult_div_mod_eq [of 16 "of_char b :: nat"] by (simp add: less_mult_imp_div_less)
  with False show ?thesis by (simp add: capture_byte_def hex2_def hex_val_digit)
qed

lemma capture_decode_all: "capture_decode (concat (map capture_byte v)) = v"
  by (induction v) (simp_all add: capture_decode_byte)

lemma capture_byte_plain: "capture_byte b \<noteq> []" "c \<in> set (capture_byte b) \<Longrightarrow> c \<noteq> CHR ''/'' \<and> c \<noteq> CHR ''.''"
proof -
  have "hex_digit n \<noteq> CHR ''/'' \<and> hex_digit n \<noteq> CHR ''.''" for n
    using slug_chars_plain hex_digit_lower by blast
  moreover have "\<not> is_ascii_alphanumeric (CHR ''/'')" "\<not> is_ascii_alphanumeric (CHR ''.'')"
    by (simp_all add: is_ascii_alphanumeric_def Let_def)
  ultimately show "capture_byte b \<noteq> []"
    "c \<in> set (capture_byte b) \<Longrightarrow> c \<noteq> CHR ''/'' \<and> c \<noteq> CHR ''.''"
    by (auto simp: capture_byte_def hex2_def split: if_splits)
qed

lemma operator_capture_component_plain: "plain (operator_capture_component v)"
proof -
  have "c \<in> set (concat (map capture_byte v)) \<Longrightarrow> c \<noteq> CHR ''/'' \<and> c \<noteq> CHR ''.''" for c
    using capture_byte_plain(2) by auto
  then show ?thesis
    by (cases "concat (map capture_byte v)") (auto simp: operator_capture_component_def plain_def)
qed

section \<open>Properties\<close>

text \<open>
  A slug is made of lower-case letters and digits separated by single dashes, with no dash at
  either end, and a slug of a slug is itself.
\<close>

theorem sanitize_slug_stable:
  "is_slug (sanitize_slug s) \<and> sanitize_slug (sanitize_slug s) = sanitize_slug s"
  using sanitize_slug_is_slug [of s] slug_loop_id is_slug_trim
  by (simp add: sanitize_slug_def is_slug_def)

text \<open>A task key is a short slug, a dash and eight hex digits.\<close>

lemma task_key_shape:
  obtains cut where "length cut \<le> 48" "\<forall>c\<in>set cut. c = CHR ''-'' \<or> lower_alnum c"
    "task_key goal = (if cut = [] then ''task'' else cut) @ ''-'' @ hex8 (fnv1a32 (trim goal))"
proof -
  define stem where "stem = sanitize_slug (trim goal)"
  define cut where "cut = (if length stem > 48 then trim_dashes_end (take 48 stem) else stem)"
  have slug: "is_slug stem" unfolding stem_def by (rule sanitize_slug_is_slug)
  have "length cut \<le> 48"
  proof (cases "length stem > 48")
    case True
    obtain n where "trim_dashes_end (take 48 stem) = take n (take 48 stem)"
      using trim_dashes_end_prefix by blast
    with True show ?thesis by (simp add: cut_def)
  qed (simp add: cut_def)
  moreover have "set cut \<subseteq> set stem"
    using trim_dashes_end_prefix [of "take 48 stem"] by (auto simp: cut_def dest: in_set_takeD)
  then have "\<forall>c\<in>set cut. c = CHR ''-'' \<or> lower_alnum c"
    using slug single_dashes_chars by (auto simp: is_slug_def)
  moreover have "task_key goal = (if cut = [] then ''task'' else cut) @ ''-'' @ hex8 (fnv1a32 (trim goal))"
    by (simp add: task_key_def cut_def stem_def Let_def)
  ultimately show ?thesis by (rule that)
qed

lemma task_key_chars: "c \<in> set (task_key goal) \<Longrightarrow> c = CHR ''-'' \<or> lower_alnum c"
proof (rule task_key_shape [of goal])
  fix cut
  assume "c \<in> set (task_key goal)" "\<forall>c\<in>set cut. c = CHR ''-'' \<or> lower_alnum c"
    "task_key goal = (if cut = [] then ''task'' else cut) @ ''-'' @ hex8 (fnv1a32 (trim goal))"
  moreover have "\<forall>c\<in>set ''task''. lower_alnum c" by code_simp
  ultimately show "c = CHR ''-'' \<or> lower_alnum c"
    using hex8_lower by (auto split: if_splits)
qed

text \<open>
  The task key of any goal is one plain path component of at most 57 characters: a stem of at
  most 48 and the eight hex digits of the goal's hash, so no goal text can climb out of the
  directory its pointer file is written to.
\<close>

theorem task_key_is_plain_component:
  "plain (task_key goal) \<and> length (task_key goal) \<le> 57
    \<and> join p (task_key goal @ ''.json'') = p @ [Normal (task_key goal @ ''.json'')]"
proof -
  obtain cut where len: "length cut \<le> 48"
    and key: "task_key goal = (if cut = [] then ''task'' else cut) @ ''-'' @ hex8 (fnv1a32 (trim goal))"
    by (rule task_key_shape)
  have no: "c \<in> set (task_key goal) \<Longrightarrow> c \<noteq> CHR ''/'' \<and> c \<noteq> CHR ''.''" for c
    using task_key_chars slug_chars_plain by blast
  have "task_key goal \<noteq> []" "length (task_key goal) \<le> 57" using len unfolding key by (auto simp: hex8_def)
  moreover have "plain (task_key goal)" "plain (task_key goal @ ''.json'')"
    using no \<open>task_key goal \<noteq> []\<close> by (auto simp: plain_def append_eq_Cons_conv)
  ultimately show ?thesis by (simp add: join_plain)
qed

text \<open>
  The capture directory of a job and a session is two plain components below the captures
  directory, and it determines both: distinct non-empty identities never share a directory.
\<close>

theorem operator_capture_dirs_are_distinct:
  assumes "j \<noteq> []" "s \<noteq> []" "j' \<noteq> []" "s' \<noteq> []"
    and "operator_capture_dir home j s = operator_capture_dir home j' s'"
  shows "j = j' \<and> s = s'"
proof -
  have comp: "v \<noteq> [] \<Longrightarrow> operator_capture_component v = concat (map capture_byte v)" for v
    using capture_byte_plain(1) by (cases v) (auto simp: operator_capture_component_def)
  from assms(5) have "operator_capture_component j = operator_capture_component j'"
      "operator_capture_component s = operator_capture_component s'"
    by (simp_all add: operator_capture_dir_def join_plain operator_capture_component_plain)
  then have "concat (map capture_byte j) = concat (map capture_byte j')"
      "concat (map capture_byte s) = concat (map capture_byte s')"
    using comp [OF assms(1)] comp [OF assms(2)] comp [OF assms(3)] comp [OF assms(4)] by simp_all
  then show ?thesis using capture_decode_all by metis
qed

theorem operator_capture_dirs_are_distinct_witness:
  "operator_capture_dir [RootDir] ''../etc'' ''s'' \<noteq> operator_capture_dir [RootDir] ''..%2fetc'' ''s''"
  using operator_capture_dirs_are_distinct [of "''../etc''" "''s''" "''..%2fetc''" "''s''" "[RootDir]"]
  by auto

text \<open>The empty identity and the identity of one zero byte do share their component.\<close>

lemma operator_capture_component_collision:
  "operator_capture_component [] = operator_capture_component [CHR 0x00]"
  by code_simp

end
