(* ===== verification/Job_Log.thy ===== *)
theory Job_Log
  imports Job_Rows Paths
begin

text \<open>
  The durable history of a job (\<open>crates/deadreckon-core/src/job.rs\<close>): reading the JSON-lines log
  with its torn-row rule, writing the immutable job identity, appending one event under the job's
  control lock and rebuilding the projection. \<open>job_store\<close> bundles the home directory and the JSON
  codecs. The lemmas show that the log only grows, that an accepted append is read back, that a
  torn final row costs nothing but a caveat, and that repeating an append changes nothing. Sequence
  numbers wrap here as a release build wraps them; as many rows as a 64-bit counter has are out of reach.
\<close>

section \<open>The store of a home\<close>

record job_store =
  js_home :: path
  js_job :: "job codec"
  js_event :: "job_event codec"
  js_projection :: "job_projection codec"
  js_lease :: "job_lease codec"

section \<open>Identity\<close>

definition load_job :: "job_store \<Rightarrow> string \<Rightarrow> job io" where
  "load_job st job_id =
    (let p = job_json (js_home st) job_id in
     io_bind (fs_read p) (\<lambda>raw.
     io_bind (io_lift (parse_json (js_job st) p raw)) (\<lambda>j.
     io_bind (io_when (jb_job_id j \<noteq> job_id) (history_corrupt job_id (JobIdentity (jb_job_id j)))) (\<lambda>_.
     io_return j))))"

definition write_job :: "job_store \<Rightarrow> job \<Rightarrow> unit io" where
  "write_job st j =
    (let p = job_json (js_home st) (jb_job_id j) in
     io_bind (fs_exists p) (\<lambda>exists.
     if exists then
       io_bind (load_job st (jb_job_id j)) (\<lambda>existing.
       io_when (existing \<noteq> j) (history_corrupt (jb_job_id j) JobImmutable))
     else atomic_write_json (js_job st) p j))"

section \<open>Reading the log\<close>

definition terminated :: "bytes \<Rightarrow> bool" where
  "terminated raw \<longleftrightarrow> raw = [] \<or> last raw = newline"

definition complete_len :: "bytes \<Rightarrow> nat" where
  "complete_len raw =
    (if terminated raw then length raw else length (dropWhile (\<lambda>b. b \<noteq> newline) (rev raw)))"

definition complete_lines :: "bytes \<Rightarrow> bytes list" where
  "complete_lines raw = filter (\<lambda>l. l \<noteq> []) (split_on newline (take (complete_len raw) raw))"

definition parse_row :: "job_event codec \<Rightarrow> path \<Rightarrow> nat \<times> bytes \<Rightarrow> job_event res" where
  "parse_row c p = (\<lambda>(i, line). ok_or (dec c line) (InvalidInput (CorruptRow p (i + 1))))"

definition parse_history :: "job_event codec \<Rightarrow> path \<Rightarrow> bytes \<Rightarrow> job_history res" where
  "parse_history c p raw =
    (let lines = complete_lines raw in
     res_bind (map_res (parse_row c p) (enumerate 0 lines)) (\<lambda>events.
     Inr \<lparr>hi_events = events, hi_raw_lines = lines,
       hi_caveats = (if terminated raw then [] else [length raw - complete_len raw])\<rparr>))"

definition read_job_history :: "job_event codec \<Rightarrow> path \<Rightarrow> job_history io" where
  "read_job_history c p = io_bind (fs_read_or [] p) (\<lambda>raw. io_lift (parse_history c p raw))"

section \<open>Appending\<close>

definition expected_sequence :: "job_history \<Rightarrow> u64" where
  "expected_sequence h = (if hi_events h = [] then 1 else ev_sequence (last (hi_events h)) + 1)"

definition append_job_event_locked :: "job_store \<Rightarrow> job_event \<Rightarrow> job_projection io" where
  "append_job_event_locked st e =
    (let j = ev_job_id e; log = job_events (js_home st) j in
     io_bind (read_job_history (js_event st) log) (\<lambda>h.
     io_bind (io_when (hi_caveats h \<noteq> []) (history_corrupt j TornFinalRow)) (\<lambda>_.
     case find (\<lambda>(x, raw). ev_event_id x = ev_event_id e) (history_rows h) of
       Some (x, raw) \<Rightarrow>
         io_bind (io_lift (ok_or (enc (js_event st) e) (Json log))) (\<lambda>candidate.
         if candidate = raw then io_lift (reduce_job_history j h)
         else io_throw (history_corrupt j (EventIdReused (ev_event_id e))))
     | None \<Rightarrow>
         io_bind (io_when (ev_sequence e \<noteq> expected_sequence h)
           (history_corrupt j (AppendSequence (expected_sequence h) (ev_sequence e)))) (\<lambda>_.
         io_bind (append_row (js_event st) log e) (\<lambda>_.
         io_bind (read_job_history (js_event st) log) (\<lambda>rebuilt.
         io_bind (io_lift (reduce_job_history j rebuilt)) (\<lambda>projection.
         io_bind (atomic_write_json (js_projection st) (job_projection_path (js_home st) j) projection) (\<lambda>_.
         io_return projection))))))))"

text \<open>The control lock is a file beside the log that is created once and never removed; holding it
  makes each operation one step of the model.\<close>

definition create_dir_all :: "path \<Rightarrow> unit io" where
  "create_dir_all p = (\<lambda>s. (case write_fault s p of Some k \<Rightarrow> Inl (Io p k) | None \<Rightarrow> Inr (), s))"

definition open_job_control_lock :: "path \<Rightarrow> unit io" where
  "open_job_control_lock p = (\<lambda>s.
    case write_fault s p of
      Some k \<Rightarrow> (Inl (Io p k), s)
    | None \<Rightarrow> (Inr (), if files s p = None then put_file p [] s else s))"

definition control_lock_path :: "job_store \<Rightarrow> string \<Rightarrow> path" where
  "control_lock_path st j = join (job_dir (js_home st) j) JOB_CONTROL_LOCK"

definition append_job_event :: "job_store \<Rightarrow> job_event \<Rightarrow> job_projection io" where
  "append_job_event st e =
    io_bind (create_dir_all (job_dir (js_home st) (ev_job_id e))) (\<lambda>_.
    io_bind (open_job_control_lock (control_lock_path st (ev_job_id e))) (\<lambda>_.
    append_job_event_locked st e))"

definition rebuild_job_projection :: "job_store \<Rightarrow> string \<Rightarrow> job_projection io" where
  "rebuild_job_projection st job_id =
    io_bind (load_job st job_id) (\<lambda>j.
    io_bind (read_job_history (js_event st) (job_events (js_home st) job_id)) (\<lambda>h.
    io_bind (io_lift (reduce_job_history (jb_job_id j) h)) (\<lambda>projection.
    io_bind (atomic_write_json (js_projection st) (job_projection_path (js_home st) job_id) projection) (\<lambda>_.
    io_return projection))))"

definition load_job_projection :: "job_store \<Rightarrow> string \<Rightarrow> job_projection io" where
  "load_job_projection st job_id =
    (let p = job_projection_path (js_home st) job_id in
     io_bind (fs_read p) (\<lambda>raw. io_lift (parse_json (js_projection st) p raw)))"

text \<open>A store with a few known events and projections, at which the properties are evaluated.\<close>

definition log_events :: "job_event list" where
  "log_events =
    [sample_event 1 ''a'' Created 0 Null, sample_event 2 ''b'' job_event_kind.Verified 0 Null,
     sample_event 2 ''c'' job_event_kind.CancelRequested 0 Null,
     sample_event 3 ''d'' job_event_kind.Verified 0 Null]"

definition created_projection :: job_projection where
  "created_projection = (empty_projection ''job'')\<lparr>pr_last_sequence := 1, pr_updated_at := Some 1\<rparr>"

definition cancel_projection :: job_projection where
  "cancel_projection = (empty_projection ''job'')
    \<lparr>pr_phase := Waiting, pr_stop_reason := Some stop_reason.CancelRequested,
     pr_last_sequence := 2, pr_updated_at := Some 2\<rparr>"

definition sample_job :: job where
  "sample_job =
    \<lparr>jb_schema_version = CURRENT, jb_job_id = ''job'', jb_scope = ''scope'', jb_goal = ''goal'',
     jb_shape = Single, jb_created_at = 0, jb_source_cwd = [RootDir], jb_launch_plan_sha256 = ''l'',
     jb_authority_sha256 = ''a'',
     jb_policy = \<lparr>pl_max_spend_usd = 5, pl_max_wall_seconds = 60, pl_max_attempts = 3,
       pl_deadline = None, pl_semantic_judge = Required, pl_execution = None\<rparr>\<rparr>"

definition sample_store :: job_store where
  "sample_store = \<lparr>js_home = [RootDir], js_job = table_codec [(sample_job, ''J'')],
    js_event = table_codec (map (\<lambda>e. (e, ''E'' @ ev_event_id e)) log_events),
    js_projection = table_codec [(created_projection, ''P1''), (cancel_projection, ''P2'')],
    js_lease = table_codec []\<rparr>"

section \<open>The rows of a log\<close>

definition log_bytes :: "job_store \<Rightarrow> string \<Rightarrow> fs \<Rightarrow> bytes" where
  "log_bytes st j s = (case files s (job_events (js_home st) j) of None \<Rightarrow> [] | Some b \<Rightarrow> b)"

text \<open>A missing file is an absent file, never a recorded read failure.\<close>

definition fs_ok :: "fs \<Rightarrow> bool" where
  "fs_ok s \<longleftrightarrow> (\<forall>p. read_fault s p \<noteq> Some IoNotFound)"

definition history_of_log :: "job_store \<Rightarrow> string \<Rightarrow> fs \<Rightarrow> job_history res" where
  "history_of_log st j s = parse_history (js_event st) (job_events (js_home st) j) (log_bytes st j s)"

definition job_files_of :: "job_store \<Rightarrow> string \<Rightarrow> path set" where
  "job_files_of st j = {job_events (js_home st) j, job_projection_path (js_home st) j}"

lemma terminated_simps [simp]:
  "terminated []" "terminated (raw @ [newline])" "terminated (raw @ row @ [newline])"
  by (simp_all add: terminated_def)

lemma complete_len_terminated [simp]: "terminated raw \<Longrightarrow> complete_len raw = length raw"
  by (simp add: complete_len_def)

lemma complete_len_torn:
  assumes "terminated raw" "newline \<notin> set torn" "torn \<noteq> []"
  shows "complete_len (raw @ torn) = length raw" "\<not> terminated (raw @ torn)"
proof -
  have "last torn \<noteq> newline" using assms(2,3) last_in_set by metis
  with assms(3) show n: "\<not> terminated (raw @ torn)" by (simp add: terminated_def)
  have "dropWhile (\<lambda>b. b \<noteq> newline) (rev torn @ rev raw) = dropWhile (\<lambda>b. b \<noteq> newline) (rev raw)"
    using assms(2) by (intro dropWhile_append2) auto
  also have "\<dots> = rev raw"
    using assms(1) by (cases raw rule: rev_cases) (auto simp: terminated_def)
  finally show "complete_len (raw @ torn) = length raw" using n by (simp add: complete_len_def)
qed

lemma complete_lines_torn:
  assumes "terminated raw" "newline \<notin> set torn" "torn \<noteq> []"
  shows "complete_lines (raw @ torn) = complete_lines raw"
  using complete_len_torn [OF assms] assms(1) by (simp add: complete_lines_def)

lemma complete_lines_snoc:
  assumes "terminated raw" "newline \<notin> set row" "row \<noteq> []"
  shows "complete_lines (raw @ row @ [newline]) = complete_lines raw @ [row]"
proof -
  have row: "split_on newline (row @ [newline]) = [row, []]"
    using split_on_append_sep [of newline row "[]"] split_on_no_sep [OF assms(2)] by simp
  show ?thesis
  proof (cases raw rule: rev_cases)
    case Nil
    with row assms(3) show ?thesis by (simp add: complete_lines_def)
  next
    case (snoc l x)
    then have raw: "raw = l @ [newline]" using assms(1) by (simp add: terminated_def)
    have "split_on newline (raw @ row @ [newline]) = split_on newline l @ [row, []]"
      using split_on_append_sep [of newline l "row @ [newline]"] row by (simp add: raw)
    moreover have "split_on newline raw = split_on newline l @ [[]]"
      using split_on_append_sep [of newline l "[]"] by (simp add: raw)
    moreover have "complete_len (raw @ row @ [newline]) = length (raw @ row @ [newline])"
        "complete_len raw = length raw"
      using assms(1) by simp_all
    ultimately show ?thesis using assms(3) by (simp only: complete_lines_def take_all) simp
  qed
qed

lemma parse_history_snoc:
  assumes "terminated raw" "newline \<notin> set row" "row \<noteq> []" "dec c row = Some e"
    and "parse_history c p raw = Inr h"
  shows "parse_history c p (raw @ row @ [newline]) =
    Inr \<lparr>hi_events = hi_events h @ [e], hi_raw_lines = hi_raw_lines h @ [row], hi_caveats = []\<rparr>"
  using assms
  by (auto simp: parse_history_def Let_def complete_lines_snoc enumerate_append_eq map_res_append
      parse_row_def result_simps)

lemma parse_history_torn:
  assumes "terminated raw" "newline \<notin> set torn" "torn \<noteq> []"
  shows "parse_history c p (raw @ torn) =
    res_bind (parse_history c p raw) (\<lambda>h. Inr (h\<lparr>hi_caveats := [length torn]\<rparr>))"
  using complete_len_torn [OF assms] complete_lines_torn [OF assms] assms(1)
  by (cases "map_res (parse_row c p) (enumerate 0 (complete_lines raw))")
    (simp_all add: parse_history_def Let_def)

lemma parse_history_lengths:
  "parse_history c p raw = Inr h \<Longrightarrow> length (hi_events h) = length (hi_raw_lines h)"
  by (auto simp: parse_history_def Let_def result_simps dest: map_res_Inr_length)

lemma parse_history_caveats:
  "parse_history c p raw = Inr h \<Longrightarrow> hi_caveats h = [] \<longleftrightarrow> terminated raw"
  by (auto simp: parse_history_def Let_def result_simps split: if_splits)

lemma read_job_history_run:
  "read_fault s p = None \<Longrightarrow> read_job_history c p s =
    (parse_history c p (case files s p of None \<Rightarrow> [] | Some b \<Rightarrow> b), s)"
  by (simp add: read_job_history_def fs_read_or_value)

lemma readonly_job_reads [intro!]:
  "readonly (read_job_history c p)" "readonly (load_job st j)" "readonly (load_job_projection st j)"
  by (auto simp: read_job_history_def load_job_def load_job_projection_def Let_def
      intro!: readonly_bind)


section \<open>What an append does\<close>

lemma fs_ok_changes: "changes_only P s t \<Longrightarrow> fs_ok t = fs_ok s"
  by (simp add: fs_ok_def changes_only_def same_faults_def)

lemma fs_ok_put_file [simp]: "fs_ok (put_file p b s) = fs_ok s"
  by (simp add: fs_ok_def)

lemma log_bytes_put_file:
  "log_bytes st j (put_file (job_events (js_home st) j) b s) = b"
  "p \<noteq> job_events (js_home st) j \<Longrightarrow> log_bytes st j (put_file p b s) = log_bytes st j s"
  by (simp_all add: log_bytes_def)

lemma history_of_log_put_file:
  "p \<noteq> job_events (js_home st) j \<Longrightarrow> history_of_log st j (put_file p b s) = history_of_log st j s"
  by (simp add: history_of_log_def log_bytes_put_file)

lemma read_log_Inr:
  assumes "fs_ok s"
  shows "read_job_history (js_event st) (job_events (js_home st) j) s = (Inr h, s') \<longleftrightarrow>
    s' = s \<and> read_fault s (job_events (js_home st) j) = None \<and> history_of_log st j s = Inr h"
proof (cases "read_fault s (job_events (js_home st) j)")
  case None
  then show ?thesis by (auto simp: read_job_history_run history_of_log_def log_bytes_def)
next
  case (Some k)
  with assms have "k \<noteq> IoNotFound" by (auto simp: fs_ok_def)
  with Some show ?thesis
    by (auto simp: read_job_history_def fs_read_or_def fs_read_def result_simps
        split: io_error_kind.splits)
qed

lemma find_row_None:
  "find (\<lambda>(x, raw). ev_event_id x = i) rows = None \<longleftrightarrow> i \<notin> row_id ` set rows"
  by (induction rows) (auto split: if_splits)

lemma find_row_Some:
  "find (\<lambda>(x, raw). ev_event_id x = i) rows = Some (x, raw) \<Longrightarrow>
    (x, raw) \<in> set rows \<and> ev_event_id x = i"
  by (induction rows) (auto split: if_splits)

lemma append_locked_cases:
  assumes "append_job_event_locked st e s = (Inr p, s')" "fs_ok s"
  obtains (repeated) h x row where "history_of_log st (ev_job_id e) s = Inr h" "hi_caveats h = []"
      "find (\<lambda>(x, raw). ev_event_id x = ev_event_id e) (history_rows h) = Some (x, row)"
      "enc (js_event st) e = Some row" "reduce_job_history (ev_job_id e) h = Inr p" "s' = s"
  | (appended) h row h' pb where "history_of_log st (ev_job_id e) s = Inr h" "hi_caveats h = []"
      "ev_event_id e \<notin> row_id ` set (history_rows h)" "ev_sequence e = expected_sequence h"
      "enc (js_event st) e = Some row"
      "parse_history (js_event st) (job_events (js_home st) (ev_job_id e))
        (log_bytes st (ev_job_id e) s @ row @ [newline]) = Inr h'"
      "reduce_job_history (ev_job_id e) h' = Inr p" "enc (js_projection st) p = Some pb"
      "s' = put_file (job_projection_path (js_home st) (ev_job_id e)) (pb @ [newline])
        (put_file (job_events (js_home st) (ev_job_id e))
          (log_bytes st (ev_job_id e) s @ row @ [newline]) s)"
proof -
  let ?l = "job_events (js_home st) (ev_job_id e)"
  from assms obtain h where h: "history_of_log st (ev_job_id e) s = Inr h" "hi_caveats h = []"
    by (auto simp: append_job_event_locked_def Let_def result_simps read_log_Inr split: if_splits)
  have rd: "read_job_history (js_event st) ?l s = (Inr h, s)"
    using assms h
    by (auto simp: append_job_event_locked_def Let_def result_simps read_log_Inr split: if_splits)
  show thesis
  proof (cases "find (\<lambda>(x, raw). ev_event_id x = ev_event_id e) (history_rows h)")
    case (Some y)
    obtain x row where y: "y = (x, row)" by force
    from assms(1) Some y rd h(2) show thesis
      by (auto simp: append_job_event_locked_def Let_def result_simps split: if_splits
          intro!: repeated [OF h])
  next
    case None
    with assms(1) rd h(2) obtain row s1 where s1: "ev_sequence e = expected_sequence h"
        "enc (js_event st) e = Some row"
        "s1 = put_file ?l (log_bytes st (ev_job_id e) s @ row @ [newline]) s"
        "io_bind (read_job_history (js_event st) ?l) (\<lambda>rebuilt.
         io_bind (io_lift (reduce_job_history (ev_job_id e) rebuilt)) (\<lambda>projection.
         io_bind (atomic_write_json (js_projection st)
           (job_projection_path (js_home st) (ev_job_id e)) projection) (\<lambda>_.
         io_return projection))) s1 = (Inr p, s')"
      by (auto simp: append_job_event_locked_def Let_def log_bytes_def result_simps split: if_splits)
    have "fs_ok s1" using s1(3) assms(2) by simp
    with s1(4) obtain h' pb where h': "history_of_log st (ev_job_id e) s1 = Inr h'"
        "reduce_job_history (ev_job_id e) h' = Inr p" "enc (js_projection st) p = Some pb"
        "s' = put_file (job_projection_path (js_home st) (ev_job_id e)) (pb @ [newline]) s1"
      by (auto simp: result_simps read_log_Inr)
    show thesis
      by (rule appended [OF h _ s1(1,2) _ h'(2,3) h'(4) [unfolded s1(3)]])
        (use None h'(1) s1(3) in \<open>auto simp: find_row_None history_of_log_def log_bytes_put_file\<close>)
  qed
qed

lemma framed_append_locked:
  "framed (changes_only (job_files_of st (ev_job_id e))) (append_job_event_locked st e)"
  unfolding append_job_event_locked_def Let_def
  by (intro framed_changes_bind)
    (auto simp: job_files_of_def split: option.splits intro!: framed_changes_bind framed_append_row
      framed_atomic_write_json intro: framed_changes_readonly)

lemma framed_grows_append_locked:
  "framed (grows (job_events (js_home st) j)) (append_job_event_locked st e)"
  unfolding append_job_event_locked_def Let_def
  by (intro framed_grows_bind)
    (auto split: option.splits intro!: framed_grows_bind framed_grows_append_row
      framed_grows_atomic_write intro: framed_grows_readonly)


section \<open>Consequences\<close>

lemma parse_rows_decode:
  assumes "parse_history c p raw = Inr h" "(x, row) \<in> set (history_rows h)"
  shows "dec c row = Some x"
proof -
  from assms(1) have m: "map_res (parse_row c p) (enumerate 0 (hi_raw_lines h)) = Inr (hi_events h)"
    by (auto simp: parse_history_def Let_def result_simps)
  have "list_all2 (\<lambda>l x. dec c l = Some x) (hi_raw_lines h) (hi_events h)"
    using map_res_all [OF m]
    by (auto simp: list_all2_conv_all_nth parse_row_def result_simps nth_enumerate_eq)
  with assms(2) show ?thesis
    by (auto simp: history_rows_def list_all2_conv_all_nth set_zip)
qed

lemma history_rows_snoc:
  assumes "length (hi_events h) = length (hi_raw_lines h)"
  shows "history_rows \<lparr>hi_events = hi_events h @ [e], hi_raw_lines = hi_raw_lines h @ [row], hi_caveats = c\<rparr>
    = history_rows h @ [(e, row)]"
  using assms by (simp add: history_rows_def)

lemma parsed_after_append:
  assumes "history_of_log st j s = Inr h" "hi_caveats h = []"
    and "codec_ok (js_event st) e" "enc (js_event st) e = Some row"
  shows "parse_history (js_event st) (job_events (js_home st) j) (log_bytes st j s @ row @ [newline]) =
    Inr \<lparr>hi_events = hi_events h @ [e], hi_raw_lines = hi_raw_lines h @ [row], hi_caveats = []\<rparr>"
  using assms codec_okD [OF assms(3,4)]
  by (intro parse_history_snoc) (auto simp: history_of_log_def parse_history_caveats)

lemma append_locked_repeat:
  assumes "history_of_log st (ev_job_id e) s = Inr h" "hi_caveats h = []"
    "read_fault s (job_events (js_home st) (ev_job_id e)) = None"
    "find (\<lambda>(x, raw). ev_event_id x = ev_event_id e) (history_rows h) = Some (x, row)"
    "enc (js_event st) e = Some row"
  shows "append_job_event_locked st e s = (reduce_job_history (ev_job_id e) h, s)"
proof -
  have "read_job_history (js_event st) (job_events (js_home st) (ev_job_id e)) s = (Inr h, s)"
    using assms(1,3) by (simp add: read_job_history_run history_of_log_def log_bytes_def)
  with assms show ?thesis by (simp add: append_job_event_locked_def Let_def)
qed

lemma append_locked_readable:
  "append_job_event_locked st e s = (Inr p, s') \<Longrightarrow> fs_ok s \<Longrightarrow>
    read_fault s (job_events (js_home st) (ev_job_id e)) = None"
  by (auto simp: append_job_event_locked_def Let_def result_simps read_log_Inr)

lemma find_append_fresh:
  "i \<notin> row_id ` set rows \<Longrightarrow> ev_event_id e = i \<Longrightarrow>
    find (\<lambda>(x, raw). ev_event_id x = i) (rows @ [(e, row)]) = Some (e, row)"
  by (induction rows) auto

lemmas append_eval = append_job_event_locked_def Let_def read_job_history_def fs_read_or_def fs_read_def
  parse_history_def complete_lines_def complete_len_def terminated_def parse_row_def
  sample_store_def table_codec_def expected_sequence_def append_row_def append_bytes_def
  atomic_write_json_def io_bind_run log_events_def created_projection_def cancel_projection_def
  newline_def

text \<open>The disk after the first event of the sample job, and after its cancellation request.\<close>

definition created_fs :: fs where
  "created_fs = put_file (job_projection_path [RootDir] ''job'') (''P1'' @ [newline])
    (put_file (job_events [RootDir] ''job'') (''Ea'' @ [newline]) empty_fs)"

definition cancelled_fs :: fs where
  "cancelled_fs = put_file (job_projection_path [RootDir] ''job'') (''P2'' @ [newline])
    (put_file (job_events [RootDir] ''job'') (''Ea'' @ [newline] @ ''Ec'' @ [newline]) created_fs)"

lemma sample_appends:
  "append_job_event_locked sample_store (sample_event 1 ''a'' Created 0 Null) empty_fs =
    (Inr created_projection, created_fs)"
  by (simp add: append_eval sample_defs reduce_eval created_fs_def)

lemma sample_codec_ok:
  "codec_ok (js_event sample_store) (sample_event 1 ''a'' Created 0 Null)"
  "codec_ok (js_event sample_store) (sample_event 2 ''b'' job_event_kind.Verified 0 Null)"
  "codec_ok (js_event sample_store) (sample_event 3 ''d'' job_event_kind.Verified 0 Null)"
  by (simp_all add: codec_ok_def append_eval sample_defs)

lemma fs_ok_samples [simp]: "fs_ok empty_fs" "fs_ok created_fs" "fs_ok cancelled_fs"
  by (simp_all add: fs_ok_def created_fs_def cancelled_fs_def)

lemma append_read_back:
  assumes "append_job_event_locked st e s = (Inr p, s')" "fs_ok s" "codec_ok (js_event st) e"
  shows "\<exists>h. history_of_log st (ev_job_id e) s' = Inr h \<and> hi_caveats h = [] \<and> e \<in> set (hi_events h)
    \<and> reduce_job_history (ev_job_id e) h = Inr p \<and> append_job_event_locked st e s' = (Inr p, s')"
  using assms(1,2)
proof (cases rule: append_locked_cases)
  case (repeated h x row)
  have "(x, row) \<in> set (history_rows h)" using find_row_Some [OF repeated(3)] by simp
  moreover from this have "dec (js_event st) row = Some x"
    using repeated(1) parse_rows_decode by (simp add: history_of_log_def)
  then have "x = e" using codec_okD(3) [OF assms(3) repeated(4)] by simp
  ultimately show ?thesis
    using repeated assms(1) by (auto simp: history_rows_def dest: set_zip_leftD)
next
  case (appended h row h' pb)
  have h': "h' = \<lparr>hi_events = hi_events h @ [e], hi_raw_lines = hi_raw_lines h @ [row], hi_caveats = []\<rparr>"
    using parsed_after_append [OF appended(1,2) assms(3) appended(5)] appended(6) by simp
  have log: "history_of_log st (ev_job_id e) s' = Inr h'"
    using appended(6) by (simp add: appended(9) history_of_log_def log_bytes_put_file)
  have "find (\<lambda>(x, raw). ev_event_id x = ev_event_id e) (history_rows h') = Some (e, row)"
    using appended(1,3) unfolding h'
    by (simp add: history_rows_snoc parse_history_lengths history_of_log_def find_append_fresh)
  then have "append_job_event_locked st e s' = (Inr p, s')"
    using append_locked_repeat [OF log] appended(5,7,9) append_locked_readable [OF assms(1,2)] h'
    by simp
  with log appended(7) h' show ?thesis by simp
qed

text \<open>
  C15: A successful append is read back: the log then parses without a caveat, holds the event, and
  reduces to the projection that was returned; appending the same event again returns the same
  projection and changes nothing.
\<close>

theorem append_reads_back:
  assumes "append_job_event_locked st e s = (Inr p, s')" "fs_ok s" "codec_ok (js_event st) e"
  shows "\<exists>h. history_of_log st (ev_job_id e) s' = Inr h \<and> hi_caveats h = [] \<and> e \<in> set (hi_events h)
    \<and> reduce_job_history (ev_job_id e) h = Inr p \<and> append_job_event_locked st e s' = (Inr p, s')"
  by (rule append_read_back [OF assms])

theorem append_reads_back_witness:
  "\<exists>h. history_of_log sample_store ''job'' created_fs = Inr h
    \<and> sample_event 1 ''a'' Created 0 Null \<in> set (hi_events h)
    \<and> append_job_event_locked sample_store (sample_event 1 ''a'' Created 0 Null) created_fs =
      (Inr created_projection, created_fs)"
  using append_reads_back [OF sample_appends fs_ok_samples(1) sample_codec_ok(1)]
  by (auto simp: sample_event_def)

text \<open>
  Whatever its outcome, an append changes nothing but the job's log and projection, and the
  bytes of the log before it are a prefix of the bytes after it.
\<close>

theorem append_only_log:
  "prefix (log_bytes st (ev_job_id e) s) (log_bytes st (ev_job_id e) (snd (append_job_event_locked st e s)))
    \<and> changes_only (job_files_of st (ev_job_id e)) s (snd (append_job_event_locked st e s))"
  using framed_append_locked framed_grows_append_locked
  by (auto simp: framed_def grows_def log_bytes_def)

text \<open>
  C16: When the system fails during the write of the row, the append reports that failure and the
  log keeps its meaning: with no byte written it is as before; with part of the row written the
  earlier events are read as before, the torn bytes are counted in one caveat and every further
  append is refused without touching the disk; with the whole row written the event is recorded.
\<close>

theorem torn_append_keeps_history:
  assumes "history_of_log st (ev_job_id e) s = Inr h" "hi_caveats h = []"
    and "read_fault s (job_events (js_home st) (ev_job_id e)) = None"
    and "ev_event_id e \<notin> row_id ` set (history_rows h)" "ev_sequence e = expected_sequence h"
    and "enc (js_event st) e = Some row" "codec_ok (js_event st) e"
    and "append_fault s (job_events (js_home st) (ev_job_id e)) = Some (k, n)"
  shows "\<exists>s'. append_job_event_locked st e s = (Inl (Io (job_events (js_home st) (ev_job_id e)) k), s')
    \<and> history_of_log st (ev_job_id e) s' =
      Inr (if n = 0 then h else if n \<le> length row then h\<lparr>hi_caveats := [n]\<rparr>
        else \<lparr>hi_events = hi_events h @ [e], hi_raw_lines = hi_raw_lines h @ [row], hi_caveats = []\<rparr>)
    \<and> (0 < n \<and> n \<le> length row \<longrightarrow>
      (\<forall>e'. ev_job_id e' = ev_job_id e \<longrightarrow> append_job_event_locked st e' s' =
        (Inl (history_corrupt (ev_job_id e) TornFinalRow), s')))"
proof -
  let ?j = "ev_job_id e" and ?log = "job_events (js_home st) (ev_job_id e)"
  define s' where "s' = (if n = 0 then s
    else put_file ?log (log_bytes st ?j s @ take n (row @ [newline])) s)"
  have rd: "read_job_history (js_event st) ?log s = (Inr h, s)"
    using assms(1,3) by (simp add: read_job_history_run history_of_log_def log_bytes_def)
  have ap: "append_row (js_event st) ?log e s = (Inl (Io ?log k), s')"
    using assms(6,8) by (simp add: append_row_def append_bytes_def s'_def log_bytes_def Let_def)
  have run: "append_job_event_locked st e s = (Inl (Io ?log k), s')"
    using rd assms(2,4,5) ap
    by (simp add: append_job_event_locked_def Let_def find_row_None [symmetric])
  have ended: "terminated (log_bytes st ?j s)"
    using assms(1,2) by (simp add: history_of_log_def parse_history_caveats)
  have torn: "history_of_log st ?j s' = Inr (h\<lparr>hi_caveats := [n]\<rparr>)" if "0 < n" "n \<le> length row"
  proof -
    have "newline \<notin> set (take n row)" "take n row \<noteq> []"
      using codec_okD(1,2) [OF assms(7,6)] that by (auto dest: in_set_takeD)
    from parse_history_torn [OF ended this] that assms(1) show ?thesis
      by (simp add: s'_def history_of_log_def log_bytes_put_file)
  qed
  have whole: "history_of_log st ?j s' =
      Inr \<lparr>hi_events = hi_events h @ [e], hi_raw_lines = hi_raw_lines h @ [row], hi_caveats = []\<rparr>"
    if "length row < n"
    using parsed_after_append [OF assms(1,2,7,6)] that
    by (simp add: s'_def history_of_log_def log_bytes_put_file)
  have refuse: "append_job_event_locked st e' s' = (Inl (history_corrupt ?j TornFinalRow), s')"
    if "0 < n" "n \<le> length row" "ev_job_id e' = ?j" for e'
  proof -
    have "read_job_history (js_event st) ?log s' = (Inr (h\<lparr>hi_caveats := [n]\<rparr>), s')"
      using torn [OF that(1,2)] assms(3)
      by (simp add: read_job_history_run history_of_log_def log_bytes_def s'_def)
    then show ?thesis using that(3) by (simp add: append_job_event_locked_def Let_def)
  qed
  have "history_of_log st ?j s' = Inr (if n = 0 then h else if n \<le> length row
      then h\<lparr>hi_caveats := [n]\<rparr>
      else \<lparr>hi_events = hi_events h @ [e], hi_raw_lines = hi_raw_lines h @ [row], hi_caveats = []\<rparr>)"
    using torn whole assms(1) by (auto simp: s'_def)
  with run refuse show ?thesis by blast
qed


theorem torn_append_keeps_history_witness:
  "\<exists>s'. append_job_event_locked sample_store (sample_event 1 ''a'' Created 0 Null)
      (empty_fs\<lparr>append_fault := (\<lambda>_. Some (IoOther, 1))\<rparr>) =
      (Inl (Io (job_events [RootDir] ''job'') IoOther), s')
    \<and> history_of_log sample_store ''job'' s' =
      Inr \<lparr>hi_events = [], hi_raw_lines = [], hi_caveats = [1]\<rparr>"
proof -
  let ?e = "sample_event 1 ''a'' Created 0 Null"
    and ?s = "empty_fs\<lparr>append_fault := (\<lambda>_. Some (IoOther, 1))\<rparr>"
    and ?h = "\<lparr>hi_events = [], hi_raw_lines = [], hi_caveats = []\<rparr>"
  have "history_of_log sample_store (ev_job_id ?e) ?s = Inr ?h"
    by (simp add: history_of_log_def log_bytes_def append_eval)
  moreover have "enc (js_event sample_store) ?e = Some ''Ea''"
    by (simp add: append_eval sample_defs)
  moreover have "ev_sequence ?e = expected_sequence ?h"
    by (simp add: expected_sequence_def sample_event_def)
  moreover have "read_fault ?s p = None" "append_fault ?s p = Some (IoOther, 1)" for p
    by simp_all
  moreover have "js_home sample_store = [RootDir]" "ev_job_id ?e = ''job''"
    by (simp_all add: sample_store_def sample_event_def)
  ultimately show ?thesis
    using torn_append_keeps_history [of sample_store ?e ?s ?h "''Ea''" IoOther 1] sample_codec_ok(1)
    by (auto simp: history_rows_def)
qed

text \<open>
  C17: The row of an event reaches the disk before the reducer looks at it. An event the reducer
  refuses is therefore reported as an error but stays in the log, and from then on no append to
  this job succeeds.
\<close>

theorem refused_event_poisons_the_log:
  assumes "history_of_log st (ev_job_id e) s = Inr h" "hi_caveats h = []" "fs_ok s"
    and "read_fault s (job_events (js_home st) (ev_job_id e)) = None"
    and "append_fault s (job_events (js_home st) (ev_job_id e)) = None"
    and "ev_event_id e \<notin> row_id ` set (history_rows h)" "ev_sequence e = expected_sequence h"
    and "enc (js_event st) e = Some row" "codec_ok (js_event st) e"
    and "reduce_job_history (ev_job_id e) (history_of_rows (history_rows h @ [(e, row)]) []) = Inl err"
  shows "\<exists>s'. append_job_event_locked st e s = (Inl err, s')
    \<and> log_bytes st (ev_job_id e) s' = log_bytes st (ev_job_id e) s @ row @ [newline]
    \<and> (\<forall>e' p s''. ev_job_id e' = ev_job_id e \<longrightarrow> codec_ok (js_event st) e' \<longrightarrow>
        append_job_event_locked st e' s' \<noteq> (Inr p, s''))"
proof -
  let ?j = "ev_job_id e" and ?log = "job_events (js_home st) (ev_job_id e)"
  let ?h = "\<lparr>hi_events = hi_events h @ [e], hi_raw_lines = hi_raw_lines h @ [row], hi_caveats = []\<rparr>"
  define s' where "s' = put_file ?log (log_bytes st ?j s @ row @ [newline]) s"
  have len: "length (hi_events h) = length (hi_raw_lines h)"
    using assms(1) by (simp add: history_of_log_def parse_history_lengths)
  have log: "history_of_log st ?j s' = Inr ?h"
    using parsed_after_append [OF assms(1,2,9,8)]
    by (simp add: s'_def history_of_log_def log_bytes_put_file)
  have bad: "reduce_job_history ?j ?h = Inl err"
    using assms(10) history_of_history_rows [of ?h] by (simp add: history_rows_snoc len)
  have "read_job_history (js_event st) ?log s = (Inr h, s)"
      "read_job_history (js_event st) ?log s' = (Inr ?h, s')"
    using assms(1,4) log by (simp_all add: read_job_history_run history_of_log_def log_bytes_def s'_def)
  moreover have "append_row (js_event st) ?log e s = (Inr (), s')"
    using assms(5,8) by (simp add: append_row_def append_bytes_def s'_def log_bytes_def Let_def)
  ultimately have run: "append_job_event_locked st e s = (Inl err, s')"
    using assms(2,6,7) bad
    by (simp add: append_job_event_locked_def Let_def find_row_None [symmetric])
  have "append_job_event_locked st e' s' \<noteq> (Inr p, s'')"
    if e': "ev_job_id e' = ?j" "codec_ok (js_event st) e'" for e' p s''
  proof
    assume a: "append_job_event_locked st e' s' = (Inr p, s'')"
    have "fs_ok s'" using assms(3) by (simp add: s'_def)
    with a show False
    proof (cases rule: append_locked_cases)
      case (repeated h' x row')
      then show False using log bad e' by simp
    next
      case (appended h' row' h2 pb)
      have "history_of_log st (ev_job_id e') s' = Inr ?h" using log e'(1) by simp
      from parsed_after_append [OF this _ e'(2) appended(5)] appended(6)
      have "h2 = \<lparr>hi_events = hi_events ?h @ [e'], hi_raw_lines = hi_raw_lines ?h @ [row'], hi_caveats = []\<rparr>"
        by simp
      then have "history_rows h2 = history_rows ?h @ [(e', row')]" "hi_caveats h2 = hi_caveats ?h"
        using history_rows_snoc [of ?h e' row' "[]"] len by simp_all
      with bad appended(7) e'(1) show False
        by (auto simp: reduce_job_history_def res_bind_def split: sum.splits)
    qed
  qed
  with run show ?thesis by (auto simp: s'_def log_bytes_put_file)
qed

theorem refused_event_poisons_the_log_witness:
  "\<exists>s' err. append_job_event_locked sample_store (sample_event 3 ''d'' job_event_kind.Verified 0 Null)
      cancelled_fs = (Inl err, s')
    \<and> (\<forall>p s''. append_job_event_locked sample_store
        (sample_event 3 ''d'' job_event_kind.Verified 0 Null) s' \<noteq> (Inr p, s''))"
proof -
  let ?e = "sample_event 3 ''d'' job_event_kind.Verified 0 Null"
    and ?h = "\<lparr>hi_events = [sample_event 1 ''a'' Created 0 Null,
        sample_event 2 ''c'' job_event_kind.CancelRequested 0 Null],
      hi_raw_lines = [''Ea'', ''Ec''], hi_caveats = []\<rparr>"
  have "history_of_log sample_store (ev_job_id ?e) cancelled_fs = Inr ?h"
    by (simp add: history_of_log_def log_bytes_def append_eval sample_defs cancelled_fs_def)
  moreover have "\<exists>err. reduce_job_history (ev_job_id ?e)
      (history_of_rows (history_rows ?h @ [(?e, ''Ed'')]) []) = Inl err"
    by (simp add: sample_defs reduce_eval)
  moreover have "enc (js_event sample_store) ?e = Some ''Ed''"
    by (simp add: append_eval sample_defs)
  moreover have "ev_sequence ?e = expected_sequence ?h" "ev_event_id ?e \<notin> row_id ` set (history_rows ?h)"
    by (simp_all add: expected_sequence_def sample_event_def history_rows_def)
  moreover have "read_fault cancelled_fs p = None" "append_fault cancelled_fs p = None" for p
    by (simp_all add: cancelled_fs_def created_fs_def)
  ultimately show ?thesis
    using refused_event_poisons_the_log [of sample_store ?e cancelled_fs ?h "''Ed''"]
      sample_codec_ok(3) by fastforce
qed

text \<open>
  A job's identity is written once: after a successful write the same job is loaded back, and
  writing a different job under the same id is refused without changing the disk.
\<close>

theorem job_identity_is_immutable:
  assumes "write_job st j s = (Inr (), s')" "document_ok (js_job st) j"
    and "read_fault s (job_json (js_home st) (jb_job_id j)) = None"
  shows "load_job st (jb_job_id j) s' = (Inr j, s')
    \<and> (\<forall>j'. jb_job_id j' = jb_job_id j \<and> j' \<noteq> j \<longrightarrow>
        write_job st j' s' = (Inl (history_corrupt (jb_job_id j) JobImmutable), s'))"
proof -
  let ?p = "job_json (js_home st) (jb_job_id j)"
  have loaded: "load_job st (jb_job_id j) s' = (Inr j, s') \<and> files s' ?p \<noteq> None \<and> read_fault s' ?p = None"
  proof (cases "files s ?p")
    case None
    with assms(1,3) obtain b where "enc (js_job st) j = Some b" "s' = put_file ?p (b @ [newline]) s"
      by (auto simp: write_job_def fs_exists_def Let_def result_simps)
    with assms(2,3) show ?thesis
      by (simp add: load_job_def Let_def fs_read_def parse_json_def document_ok_def io_bind_run)
  next
    case (Some b)
    with assms(1,3) have "load_job st (jb_job_id j) s = (Inr j, s)" "s' = s"
      by (auto simp: write_job_def fs_exists_def Let_def result_simps split: if_splits
          dest: readonlyD [OF readonly_job_reads(2)])
    with Some assms(3) show ?thesis by simp
  qed
  then show ?thesis
    by (auto simp: write_job_def fs_exists_def Let_def io_bind_run)
qed

theorem job_identity_is_immutable_witness:
  "\<exists>s'. write_job sample_store sample_job empty_fs = (Inr (), s')
    \<and> load_job sample_store ''job'' s' = (Inr sample_job, s')
    \<and> write_job sample_store (sample_job\<lparr>jb_goal := ''other''\<rparr>) s' =
      (Inl (history_corrupt ''job'' JobImmutable), s')"
proof -
  have "\<exists>s'. write_job sample_store sample_job empty_fs = (Inr (), s')"
    by (simp add: write_job_def fs_exists_def append_eval sample_job_def job_json_def job_dir_def
        jobs_dir_def join_plain path_parent_def)
  moreover have "document_ok (js_job sample_store) sample_job"
    by (simp add: document_ok_def append_eval)
  moreover have "jb_job_id sample_job = ''job''" "sample_job\<lparr>jb_goal := ''other''\<rparr> \<noteq> sample_job"
      "jb_job_id (sample_job\<lparr>jb_goal := ''other''\<rparr>) = ''job''"
    by (simp_all add: sample_job_def)
  ultimately show ?thesis
    using job_identity_is_immutable [of sample_store sample_job empty_fs] by fastforce
qed

end
