(* ===== verification/Boot_Identity.thy ===== *)
theory Boot_Identity
  imports Paths
begin

text \<open>
  Boot identities (\<open>crates/deadreckon-core/src/exec/pid_file.rs\<close>): the strings by which a lease tells
  whether its owner lived before the last reboot. The UUID crate is a parameter (\<open>uuid_lib\<close>, with a
  UUID as its 128-bit number). The lemmas show that matching is equality of a key, so it is symmetric
  and transitive, that malformed identities match nothing, and that normalizing an identity keeps
  what it matches.
\<close>

section \<open>Parsing\<close>

record uuid_lib =
  parse_uuid :: "string \<Rightarrow> nat option"
  show_uuid :: "nat \<Rightarrow> string"

definition is_ascii_digit :: "char \<Rightarrow> bool" where
  "is_ascii_digit c \<longleftrightarrow> (let n = of_char c :: nat in 48 \<le> n \<and> n \<le> 57)"

definition digits_value :: "string \<Rightarrow> nat" where
  "digits_value s = foldl (\<lambda>n c. 10 * n + (of_char c - 48)) 0 s"

definition parse_boot_seconds :: "string \<Rightarrow> u64 option" where
  "parse_boot_seconds s =
    (if s \<noteq> [] \<and> list_all is_ascii_digit s \<and> digits_value s < 2 ^ 64
     then Some (of_nat (digits_value s)) else None)"

definition macos_boot_session_uuid :: "uuid_lib \<Rightarrow> string \<Rightarrow> nat option" where
  "macos_boot_session_uuid lib identity =
    Option.bind (strip_prefix (trim identity) ''macos:session='') (\<lambda>payload.
    Option.bind (parse_uuid lib (trim payload)) (\<lambda>session.
    if session \<noteq> 0 then Some session else None))"

text \<open>\<open>split_once\<close>: the part before the first occurrence, none when there is no occurrence.\<close>

definition before_first :: "char \<Rightarrow> string \<Rightarrow> string option" where
  "before_first d s = (if d \<in> set s then Some (takeWhile (\<lambda>c. c \<noteq> d) s) else None)"

definition macos_boot_seconds :: "string \<Rightarrow> u64 option" where
  "macos_boot_seconds identity =
    Option.bind (strip_prefix (trim identity) ''macos:'') (\<lambda>payload.
    case strip_prefix payload ''sec='' of
      Some seconds \<Rightarrow> parse_boot_seconds seconds
    | None \<Rightarrow>
        Option.bind (strip_prefix (trim_start payload) ''{'') (\<lambda>inner.
        Option.bind (before_first (CHR ''}'') inner) (\<lambda>fields.
        Option.bind (strip_prefix (trim (hd (split_on (CHR '','') fields))) ''sec'') (\<lambda>rest.
        Option.bind (strip_prefix (trim_start rest) ''='') (\<lambda>seconds.
        parse_boot_seconds (trim seconds))))))"

text \<open>The decimal form of a number.\<close>

fun show_nat :: "nat \<Rightarrow> string" where
  "show_nat n = (if n < 10 then [char_of (48 + n)] else show_nat (n div 10) @ [char_of (48 + n mod 10)])"

declare show_nat.simps [simp del]

definition normalize_boot_identity :: "uuid_lib \<Rightarrow> string \<Rightarrow> string" where
  "normalize_boot_identity lib identity =
    (case macos_boot_session_uuid lib identity of
       Some session \<Rightarrow> ''macos:session='' @ show_uuid lib session
     | None \<Rightarrow>
        (case macos_boot_seconds identity of
           Some seconds \<Rightarrow> ''macos:sec='' @ show_nat (unat seconds)
         | None \<Rightarrow> identity))"

definition boot_identities_match :: "uuid_lib \<Rightarrow> string \<Rightarrow> string \<Rightarrow> bool" where
  "boot_identities_match lib left right =
    (if blank left \<or> blank right then False
     else case (macos_boot_session_uuid lib left, macos_boot_session_uuid lib right) of
       (Some l, Some r) \<Rightarrow> l = r
     | (Some _, None) \<Rightarrow> False
     | (None, Some _) \<Rightarrow> False
     | (None, None) \<Rightarrow>
        (case (macos_boot_seconds left, macos_boot_seconds right) of
           (Some l, Some r) \<Rightarrow> l = r
         | (Some _, None) \<Rightarrow> False
         | (None, Some _) \<Rightarrow> False
         | (None, None) \<Rightarrow>
            (if starts_with (trim left) ''macos:'' \<or> starts_with (trim right) ''macos:'' then False
             else left = right)))"

section \<open>The key of an identity\<close>

datatype boot_key = Session nat | Seconds u64 | Opaque string

definition boot_key_of :: "uuid_lib \<Rightarrow> string \<Rightarrow> boot_key option" where
  "boot_key_of lib s =
    (if blank s then None
     else case macos_boot_session_uuid lib s of
       Some u \<Rightarrow> Some (Session u)
     | None \<Rightarrow> (case macos_boot_seconds s of
         Some n \<Rightarrow> Some (Seconds n)
       | None \<Rightarrow> if starts_with (trim s) ''macos:'' then None else Some (Opaque s)))"

lemma boot_match_key:
  "boot_identities_match lib l r \<longleftrightarrow> boot_key_of lib l \<noteq> None \<and> boot_key_of lib l = boot_key_of lib r"
  by (auto simp: boot_identities_match_def boot_key_of_def split: option.splits)

section \<open>Printable text\<close>

definition graphic :: "char \<Rightarrow> bool" where
  "graphic c \<longleftrightarrow> (let n = of_char c :: nat in 33 \<le> n \<and> n \<le> 126)"

lemma graphic_not_leading:
  assumes "graphic c"
  shows "leading white_space (c # s) = None" "leading (map rev white_space) (c # s) = None"
proof -
  have "list_all (\<lambda>w. w \<noteq> [] \<and> \<not> graphic (hd w) \<and> \<not> graphic (last w)) white_space"
    by code_simp
  then have "w \<in> set white_space \<Longrightarrow> \<not> graphic (hd w) \<and> w \<noteq> []"
      "w \<in> set (map rev white_space) \<Longrightarrow> \<not> graphic (hd w) \<and> w \<noteq> []" for w
    by (auto simp: list_all_iff hd_rev)
  then have "w \<in> set white_space \<Longrightarrow> \<not> prefix w (c # s)"
      "w \<in> set (map rev white_space) \<Longrightarrow> \<not> prefix w (c # s)" for w
    using assms by (auto simp: prefix_Cons) force+
  then show "leading white_space (c # s) = None" "leading (map rev white_space) (c # s) = None"
    unfolding leading_def find_None_iff by blast+
qed

lemma trim_graphic:
  assumes "s \<noteq> []" "graphic (hd s)" "graphic (last s)"
  shows "trim s = s"
proof -
  have "trim_start s = s"
    using assms graphic_not_leading(1) [of "hd s" "tl s"]
    by (simp add: trim_start_def strip_front.simps [of white_space s])
  moreover have "strip_front (map rev white_space) (rev s) = rev s"
  proof -
    obtain c t where t: "rev s = c # t" using assms(1) by (cases "rev s") auto
    then have "c = last s" using hd_rev [of s] by simp
    with assms(3) graphic_not_leading(2) [of c t]
    have "leading (map rev white_space) (rev s) = None" unfolding t by simp
    then show ?thesis by (subst strip_front.simps) (simp only: option.case)
  qed
  ultimately show ?thesis by (simp add: trim_def trim_end_def)
qed

lemma show_nat_digits: "show_nat n \<noteq> [] \<and> list_all is_ascii_digit (show_nat n)"
proof (induction n rule: show_nat.induct)
  case (1 n)
  have "m < 10 \<Longrightarrow> is_ascii_digit (char_of (48 + m))" for m :: nat
    by (simp add: is_ascii_digit_def Let_def)
  with 1 show ?case
    by (subst (1 2) show_nat.simps) auto
qed

lemma digits_value_show: "digits_value (show_nat n) = n"
proof (induction n rule: show_nat.induct)
  case (1 n)
  then show ?case
    by (subst show_nat.simps) (auto simp: digits_value_def)
qed

lemma parse_show_seconds: "parse_boot_seconds (show_nat (unat n)) = Some (n :: u64)"
proof -
  have "unat n < 2 ^ 64" using unsigned_less [of n, where ?'a = nat] by simp
  then show ?thesis
    using show_nat_digits by (simp add: parse_boot_seconds_def digits_value_show)
qed

section \<open>Normalizing\<close>

text \<open>The laws of the UUID crate: a UUID is printed as visible text that parses back.\<close>

definition uuid_ok :: "uuid_lib \<Rightarrow> bool" where
  "uuid_ok lib \<longleftrightarrow>
    (\<forall>u. parse_uuid lib (show_uuid lib u) = Some u \<and> show_uuid lib u \<noteq> []
      \<and> list_all graphic (show_uuid lib u))"

lemma trim_macos:
  assumes "list_all graphic t" "t \<noteq> []"
  shows "trim t = t" "trim (''macos:session='' @ t) = ''macos:session='' @ t"
    "trim (''macos:sec='' @ t) = ''macos:sec='' @ t"
proof -
  have g: "graphic (CHR ''m'')" "graphic (hd t)" "graphic (last t)"
    using assms by (auto simp: graphic_def Let_def list_all_iff)
  show "trim t = t" "trim (''macos:session='' @ t) = ''macos:session='' @ t"
    "trim (''macos:sec='' @ t) = ''macos:sec='' @ t"
    by (rule trim_graphic; use g assms(2) in simp)+
qed

lemma digits_graphic: "list_all is_ascii_digit s \<Longrightarrow> list_all graphic s"
  by (auto simp: list_all_iff is_ascii_digit_def graphic_def Let_def)

lemma boot_key_session:
  assumes "uuid_ok lib" "u \<noteq> 0"
  shows "boot_key_of lib (''macos:session='' @ show_uuid lib u) = Some (Session u)"
proof -
  have t: "list_all graphic (show_uuid lib u)" "show_uuid lib u \<noteq> []"
    "parse_uuid lib (show_uuid lib u) = Some u"
    using assms(1) by (auto simp: uuid_ok_def)
  have "macos_boot_session_uuid lib (''macos:session='' @ show_uuid lib u) = Some u"
    unfolding macos_boot_session_uuid_def trim_macos(2) [OF t(1,2)]
    using assms(2) t(3) by (simp add: strip_prefix_def trim_macos(1) [OF t(1,2)])
  moreover have "\<not> blank (''macos:session='' @ show_uuid lib u)"
    unfolding blank_def trim_macos(2) [OF t(1,2)] by simp
  ultimately show ?thesis by (simp add: boot_key_of_def)
qed

lemma boot_key_seconds:
  "boot_key_of lib (''macos:sec='' @ show_nat (unat n)) = Some (Seconds n)"
proof -
  have t: "list_all graphic (show_nat (unat n))" "show_nat (unat n) \<noteq> []"
    using show_nat_digits digits_graphic by auto
  have "macos_boot_session_uuid lib (''macos:sec='' @ show_nat (unat n)) = None"
    unfolding macos_boot_session_uuid_def trim_macos(3) [OF t] by (simp add: strip_prefix_def)
  moreover have "macos_boot_seconds (''macos:sec='' @ show_nat (unat n)) = Some n"
    unfolding macos_boot_seconds_def trim_macos(3) [OF t]
    by (simp add: strip_prefix_def parse_show_seconds)
  moreover have "\<not> blank (''macos:sec='' @ show_nat (unat n))"
    unfolding blank_def trim_macos(3) [OF t] by simp
  ultimately show ?thesis by (simp add: boot_key_of_def)
qed

lemma boot_key_nonblank:
  "macos_boot_session_uuid lib s = Some u \<Longrightarrow> \<not> blank s \<and> u \<noteq> 0"
  "macos_boot_seconds s = Some n \<Longrightarrow> \<not> blank s"
  by (auto simp: macos_boot_session_uuid_def macos_boot_seconds_def blank_def strip_prefix_def
      split: Option.bind_splits if_splits)

lemma boot_key_normalize:
  assumes "uuid_ok lib"
  shows "boot_key_of lib (normalize_boot_identity lib s) = boot_key_of lib s"
proof (cases "macos_boot_session_uuid lib s")
  case (Some u)
  then show ?thesis
    using boot_key_nonblank(1) [OF Some] boot_key_session [OF assms, of u]
    by (simp add: normalize_boot_identity_def) (simp add: boot_key_of_def)
next
  case None
  show ?thesis
  proof (cases "macos_boot_seconds s")
    case (Some n)
    then show ?thesis
      using None boot_key_nonblank(2) [OF Some] boot_key_seconds [of lib n]
      by (simp add: normalize_boot_identity_def) (simp add: boot_key_of_def)
  qed (simp add: normalize_boot_identity_def None)
qed

text \<open>
  Comparing boot identities is symmetric and transitive, and rewriting both sides to their
  normal form, as newer versions do on disk, never changes the answer.
\<close>

theorem boot_matching_is_stable:
  assumes "uuid_ok lib"
  shows "boot_identities_match lib (normalize_boot_identity lib l) (normalize_boot_identity lib r) =
      boot_identities_match lib l r
    \<and> boot_identities_match lib l r = boot_identities_match lib r l
    \<and> (boot_identities_match lib l r \<and> boot_identities_match lib r t \<longrightarrow> boot_identities_match lib l t)"
  unfolding boot_match_key boot_key_normalize [OF assms] by metis

definition decimal_uuid :: uuid_lib where
  "decimal_uuid = \<lparr>parse_uuid = (\<lambda>s. Some (digits_value s)), show_uuid = show_nat\<rparr>"

theorem boot_matching_is_stable_witness:
  "uuid_ok decimal_uuid
    \<and> boot_identities_match decimal_uuid (normalize_boot_identity decimal_uuid ''macos:{ sec = 12, usec = 3 }'')
        (normalize_boot_identity decimal_uuid ''macos:sec=12'') =
      boot_identities_match decimal_uuid ''macos:{ sec = 12, usec = 3 }'' ''macos:sec=12''"
proof -
  have "uuid_ok decimal_uuid"
    using show_nat_digits digits_graphic by (simp add: uuid_ok_def decimal_uuid_def digits_value_show)
  with boot_matching_is_stable show ?thesis by blast
qed

end
