(* ===== verification/Job_Lease.thy ===== *)
theory Job_Lease
  imports Job_Log Boot_Identity
begin

text \<open>
  Fenced ownership of a job (\<open>crates/deadreckon-core/src/job_lease.rs\<close>). The append-only lease event
  is written first and the file \<open>lease.json\<close> is its checkpoint; every worker commit presents a token
  that is compared with the checkpoint while the job's control lock is held, so each operation is
  one step. \<open>host\<close> holds what the operating system and the time library answer: the id of the
  current process, the start identity of a process, the UUID parser, the conversions of \<open>chrono\<close>
  and the JSON object of a lease. Fresh event ids and clock samples are arguments.
\<close>

section \<open>Owners, tokens and claims\<close>

record lease_owner =
  lo_owner_id :: string
  lo_boot_id :: string
  lo_pid :: u32
  lo_process_group :: u32

record lease_token =
  lt_job_id :: string
  lt_owner_id :: string
  lt_epoch :: u64
  lt_boot_id :: string

record fenced_job_json_event =
  fe_kind :: job_event_kind
  fe_causation_id :: string
  fe_detail :: json

datatype create_fenced_job_json_disposition = DispositionCreated job_projection | AlreadyExists

definition token_of :: "job_lease \<Rightarrow> lease_token" where
  "token_of l = \<lparr>lt_job_id = ls_job_id l, lt_owner_id = ls_owner_id l, lt_epoch = ls_epoch l,
    lt_boot_id = ls_boot_id l\<rparr>"

datatype lease_reclaim_reason = Expired | BootIdentityChanged | MissingCheckpoint

fun reclaim_reason_str :: "lease_reclaim_reason \<Rightarrow> string" where
  "reclaim_reason_str Expired = ''expired''"
| "reclaim_reason_str BootIdentityChanged = ''boot_identity_changed''"
| "reclaim_reason_str MissingCheckpoint = ''missing_checkpoint''"

datatype lease_claim_disposition = Acquired | Reclaimed lease_reclaim_reason

record lease_claim =
  lc_lease :: job_lease
  lc_disposition :: lease_claim_disposition

definition claim_token :: "lease_claim \<Rightarrow> lease_token" where
  "claim_token c = token_of (lc_lease c)"

section \<open>The host\<close>

record host =
  ho_process_id :: u32
  ho_start_identity :: "u32 \<Rightarrow> string option"
  ho_uuid :: uuid_lib
  ho_from_std :: "duration \<Rightarrow> int option"
  ho_checked_add :: "timestamp \<Rightarrow> int \<Rightarrow> timestamp option"
  ho_lease_value :: "job_lease \<Rightarrow> json option"

definition lease_expiry :: "host \<Rightarrow> timestamp \<Rightarrow> duration \<Rightarrow> timestamp res" where
  "lease_expiry ho now ttl =
    (if ttl = 0 then Inl (InvalidInput TtlZero)
     else res_bind (ok_or (ho_from_std ho ttl) (InvalidInput TtlOutOfRange)) (\<lambda>delta.
       ok_or (ho_checked_add ho now delta) (InvalidInput ExpiryOverflow)))"

definition exact_lease_owner_is_live :: "host \<Rightarrow> job_lease \<Rightarrow> bool" where
  "exact_lease_owner_is_live ho l =
    (case ls_process_start_identity l of
       None \<Rightarrow> False
     | Some expected \<Rightarrow> ho_start_identity ho (ls_pid l) = Some expected)"

section \<open>Validation\<close>

definition validate_owner :: "lease_owner \<Rightarrow> unit res" where
  "validate_owner owner =
    (if blank (lo_owner_id owner) then Inl (InvalidInput OwnerIdEmpty)
     else if blank (lo_boot_id owner) then Inl (InvalidInput BootIdEmpty)
     else if lo_pid owner = 0 \<or> lo_process_group owner = 0 then Inl (InvalidInput PidZero)
     else Inr ())"

definition validate_token_identity :: "job_lease \<Rightarrow> lease_token \<Rightarrow> unit res" where
  "validate_token_identity l t =
    (if ls_job_id l \<noteq> lt_job_id t \<or> ls_owner_id l \<noteq> lt_owner_id t \<or> ls_epoch l \<noteq> lt_epoch t
        \<or> ls_boot_id l \<noteq> lt_boot_id t then
       Inl (lease_error (lt_job_id t) (StaleToken (lt_owner_id t) (lt_epoch t)))
     else Inr ())"

definition validate_token :: "job_lease \<Rightarrow> lease_token \<Rightarrow> timestamp \<Rightarrow> unit res" where
  "validate_token l t now =
    res_bind (validate_token_identity l t) (\<lambda>_.
    if ls_expires_at l \<le> now then
      Inl (lease_error (lt_job_id t) (LeaseExpired (ls_epoch l) (ls_expires_at l)))
    else Inr ())"

definition validate_heartbeat_token :: "host \<Rightarrow> job_lease \<Rightarrow> lease_token \<Rightarrow> timestamp \<Rightarrow> unit res" where
  "validate_heartbeat_token ho l t now =
    res_bind (validate_token_identity l t) (\<lambda>_.
    if ls_expires_at l > now then Inr ()
    else if ls_pid l = ho_process_id ho \<and> exact_lease_owner_is_live ho l then Inr ()
    else Inl (lease_error (lt_job_id t) (LeaseExpired (ls_epoch l) (ls_expires_at l))))"

section \<open>The checkpoint\<close>

definition load_job_lease :: "job_store \<Rightarrow> string \<Rightarrow> job_lease io" where
  "load_job_lease st job_id =
    (let p = job_lease_path (js_home st) job_id in
     io_bind (fs_read p) (\<lambda>raw.
     io_bind (io_lift (parse_json (js_lease st) p raw)) (\<lambda>l.
     io_bind (io_when (ls_job_id l \<noteq> job_id) (lease_error job_id (LeaseBelongsTo (ls_job_id l)))) (\<lambda>_.
     io_return l))))"

definition load_job_lease_optional :: "job_store \<Rightarrow> string \<Rightarrow> job_lease option io" where
  "load_job_lease_optional st job_id =
    (let p = job_lease_path (js_home st) job_id in
     io_bind (fs_read_optional p) (\<lambda>found.
     case found of
       None \<Rightarrow> io_return None
     | Some raw \<Rightarrow>
         io_bind (io_lift (parse_json (js_lease st) p raw)) (\<lambda>l.
         io_bind (io_when (ls_job_id l \<noteq> job_id) (lease_error job_id (LeaseBelongsTo (ls_job_id l)))) (\<lambda>_.
         io_return (Some l)))))"

definition lease_event ::
    "host \<Rightarrow> job_lease \<Rightarrow> job_event_sequence \<Rightarrow> lease_claim_disposition \<Rightarrow> timestamp \<Rightarrow> string
      \<Rightarrow> job_event res" where
  "lease_event ho l sequence disposition now event_id =
    res_bind (ok_or (ho_lease_value ho l) (Json (components ''lease.json''))) (\<lambda>v.
    let detail = (case v of Object d \<Rightarrow> d | _ \<Rightarrow> []);
        detail = (case disposition of
            Reclaimed reason \<Rightarrow> AList.update ''reclaim_reason'' (Str (reclaim_reason_str reason)) detail
          | Acquired \<Rightarrow> detail)
    in Inr \<lparr>ev_schema_version = CURRENT, ev_job_id = ls_job_id l, ev_sequence = sequence,
         ev_event_id = event_id,
         ev_causation_id = ''lease-claim:'' @ ls_job_id l @ '':'' @ ls_owner_id l @ '':''
           @ show_nat (unat (ls_epoch l)),
         ev_timestamp = now, ev_lease_epoch = ls_epoch l,
         ev_kind = (case disposition of Acquired \<Rightarrow> LeaseAcquired | Reclaimed _ \<Rightarrow> LeaseReclaimed),
         ev_detail = Object detail\<rparr>)"

section \<open>Claiming and renewing\<close>

definition lock_job :: "job_store \<Rightarrow> string \<Rightarrow> unit io" where
  "lock_job st j = open_job_control_lock (control_lock_path st j)"

text \<open>The guarded \<open>match\<close> on the previous checkpoint: how a claim is allowed, or why it is not.\<close>

definition claim_disposition ::
    "host \<Rightarrow> string \<Rightarrow> lease_owner \<Rightarrow> timestamp \<Rightarrow> job_lease option \<Rightarrow> u64 \<Rightarrow> lease_claim_disposition res" where
  "claim_disposition ho job_id owner now prior durable_epoch =
    (case prior of
       Some l \<Rightarrow>
         (if ls_epoch l = durable_epoch then
            (if \<not> boot_identities_match (ho_uuid ho) (ls_boot_id l) (lo_boot_id owner) then
               Inr (Reclaimed BootIdentityChanged)
             else if ls_expires_at l \<le> now \<and> exact_lease_owner_is_live ho l then
               Inl (lease_error job_id (LiveBeyondHeartbeat (ls_owner_id l) (ls_epoch l)))
             else if ls_expires_at l \<le> now then Inr (Reclaimed Expired)
             else Inl (lease_error job_id (LiveLease (ls_owner_id l) (ls_epoch l) (ls_expires_at l))))
          else if durable_epoch > 0 then Inr (Reclaimed MissingCheckpoint)
          else Inr Acquired)
     | None \<Rightarrow> if durable_epoch > 0 then Inr (Reclaimed MissingCheckpoint) else Inr Acquired)"

definition next_sequence :: "string \<Rightarrow> job_projection \<Rightarrow> job_event_sequence res" where
  "next_sequence job_id p =
    ok_or (Option.bind (checked_add_u64 (pr_last_sequence p) 1) job_event_sequence_new)
      (lease_error job_id SequenceExhausted)"

definition new_lease :: "host \<Rightarrow> string \<Rightarrow> lease_owner \<Rightarrow> u64 \<Rightarrow> timestamp \<Rightarrow> timestamp \<Rightarrow> job_lease" where
  "new_lease ho job_id owner epoch now expires_at =
    \<lparr>ls_schema_version = CURRENT, ls_job_id = job_id, ls_owner_id = lo_owner_id owner,
     ls_epoch = epoch, ls_acquired_at = now, ls_heartbeat_at = now, ls_expires_at = expires_at,
     ls_boot_id = lo_boot_id owner, ls_pid = lo_pid owner,
     ls_process_start_identity = ho_start_identity ho (lo_pid owner),
     ls_process_group = lo_process_group owner, ls_child_pid = None\<rparr>"

definition claim_job_lease ::
    "job_store \<Rightarrow> host \<Rightarrow> string \<Rightarrow> lease_owner \<Rightarrow> timestamp \<Rightarrow> duration \<Rightarrow> string \<Rightarrow> lease_claim io" where
  "claim_job_lease st ho job_id owner now ttl event_id =
    io_bind (io_lift (validate_owner owner)) (\<lambda>_.
    io_bind (io_lift (lease_expiry ho now ttl)) (\<lambda>expires_at.
    io_bind (create_dir_all (job_dir (js_home st) job_id)) (\<lambda>_.
    io_bind (lock_job st job_id) (\<lambda>_.
    io_bind (load_job_lease_optional st job_id) (\<lambda>prior.
    io_bind (read_job_history (js_event st) (job_events (js_home st) job_id)) (\<lambda>h.
    io_bind (io_when (hi_caveats h \<noteq> []) (lease_error job_id ClaimAfterTornRow)) (\<lambda>_.
    io_bind (io_lift (reduce_job_history job_id h)) (\<lambda>projection.
    let checkpoint_epoch = (case prior of None \<Rightarrow> 0 | Some l \<Rightarrow> ls_epoch l);
        durable_epoch = max (pr_current_lease_epoch projection) checkpoint_epoch in
    io_bind (io_lift (claim_disposition ho job_id owner now prior durable_epoch)) (\<lambda>disposition.
    io_bind (io_lift (ok_or (checked_add_u64 durable_epoch 1) (lease_error job_id EpochExhausted))) (\<lambda>epoch.
    let l = new_lease ho job_id owner epoch now expires_at in
    io_bind (io_lift (next_sequence job_id projection)) (\<lambda>sequence.
    io_bind (io_lift (lease_event ho l sequence disposition now event_id)) (\<lambda>e.
    io_bind (append_job_event_locked st e) (\<lambda>_.
    io_bind (atomic_write_json (js_lease st) (job_lease_path (js_home st) job_id) l) (\<lambda>_.
    io_return \<lparr>lc_lease = l, lc_disposition = disposition\<rparr>))))))))))))))"

text \<open>\<open>clock1\<close> and \<open>clock2\<close> are the two samples of the clock taken after the lock is held.\<close>

definition heartbeat_job_lease ::
    "job_store \<Rightarrow> host \<Rightarrow> lease_token \<Rightarrow> timestamp \<Rightarrow> duration \<Rightarrow> timestamp \<Rightarrow> timestamp \<Rightarrow> job_lease io" where
  "heartbeat_job_lease st ho t now ttl clock1 clock2 =
    io_bind (io_lift (lease_expiry ho now ttl)) (\<lambda>_.
    io_bind (lock_job st (lt_job_id t)) (\<lambda>_.
    io_bind (load_job_lease st (lt_job_id t)) (\<lambda>l.
    let current_process = (ls_pid l = ho_process_id ho);
        renewed_at = (if current_process then max now clock1 else now) in
    io_bind (io_lift (validate_heartbeat_token ho l t renewed_at)) (\<lambda>_.
    let renewed_at = (if current_process then max renewed_at clock2 else renewed_at) in
    io_bind (io_lift (lease_expiry ho renewed_at ttl)) (\<lambda>expires_at.
    let l' = l\<lparr>ls_heartbeat_at := renewed_at, ls_expires_at := expires_at\<rparr> in
    io_bind (atomic_write_json (js_lease st) (job_lease_path (js_home st) (lt_job_id t)) l') (\<lambda>_.
    io_return l'))))))"

section \<open>Fenced commits\<close>

text \<open>After a cancellation request only the cancellation itself may still be recorded.\<close>

definition cancellation_fact :: "job_event_kind \<Rightarrow> json \<Rightarrow> bool" where
  "cancellation_fact kind detail \<longleftrightarrow>
    kind = job_event_kind.Cancelled
    \<or> kind = AttemptStopped \<and> detail_string detail ''stop_reason'' = Some ''cancel_requested''"

definition cancel_requested :: "job_projection \<Rightarrow> bool" where
  "cancel_requested p \<longleftrightarrow> pr_stop_reason p = Some stop_reason.CancelRequested"

definition append_fenced_job_event ::
    "job_store \<Rightarrow> lease_token \<Rightarrow> timestamp \<Rightarrow> job_event \<Rightarrow> job_projection io" where
  "append_fenced_job_event st t now e =
    io_bind (lock_job st (lt_job_id t)) (\<lambda>_.
    io_bind (load_job_lease st (lt_job_id t)) (\<lambda>l.
    io_bind (io_lift (validate_token l t now)) (\<lambda>_.
    io_bind (io_when (ev_job_id e \<noteq> lt_job_id t)
      (lease_error (lt_job_id t) (EventOfOtherJob (ev_job_id e)))) (\<lambda>_.
    io_bind (io_when (ev_lease_epoch e \<noteq> lt_epoch t)
      (lease_error (lt_job_id t) (EventEpochMismatch (ev_lease_epoch e) (lt_epoch t)))) (\<lambda>_.
    io_bind (read_job_history (js_event st) (job_events (js_home st) (ev_job_id e))) (\<lambda>h.
    io_bind (io_lift (reduce_job_history (ev_job_id e) h)) (\<lambda>projection.
    if is_terminal projection then io_return projection
    else if cancel_requested projection \<and> \<not> cancellation_fact (ev_kind e) (ev_detail e) then
      io_return projection
    else append_job_event_locked st e)))))))"

definition worker_event ::
    "lease_token \<Rightarrow> timestamp \<Rightarrow> job_event_sequence \<Rightarrow> string \<Rightarrow> job_event_kind \<Rightarrow> string \<Rightarrow> json \<Rightarrow> job_event" where
  "worker_event t now sequence event_id kind causation_id detail =
    \<lparr>ev_schema_version = CURRENT, ev_job_id = lt_job_id t, ev_sequence = sequence,
     ev_event_id = event_id, ev_causation_id = causation_id, ev_timestamp = now,
     ev_lease_epoch = lt_epoch t, ev_kind = kind, ev_detail = detail\<rparr>"

definition append_next_fenced_job_event ::
    "job_store \<Rightarrow> lease_token \<Rightarrow> timestamp \<Rightarrow> job_event_kind \<Rightarrow> string \<Rightarrow> json \<Rightarrow> string \<Rightarrow> job_projection io" where
  "append_next_fenced_job_event st t now kind causation_id detail event_id =
    io_bind (lock_job st (lt_job_id t)) (\<lambda>_.
    io_bind (load_job_lease st (lt_job_id t)) (\<lambda>l.
    io_bind (io_lift (validate_token l t now)) (\<lambda>_.
    io_bind (read_job_history (js_event st) (job_events (js_home st) (lt_job_id t))) (\<lambda>h.
    io_bind (io_lift (reduce_job_history (lt_job_id t) h)) (\<lambda>projection.
    if is_terminal projection then io_return projection
    else if cancel_requested projection \<and> \<not> cancellation_fact kind detail then io_return projection
    else
      io_bind (io_lift (next_sequence (lt_job_id t) projection)) (\<lambda>sequence.
      append_job_event_locked st (worker_event t now sequence event_id kind causation_id detail)))))))"

text \<open>The authority checks shared by the three controller-owned mutations.\<close>

definition fenced_projection ::
    "job_store \<Rightarrow> lease_token \<Rightarrow> timestamp \<Rightarrow> lease_fault \<Rightarrow> job_projection io" where
  "fenced_projection st t now stopped =
    io_bind (lock_job st (lt_job_id t)) (\<lambda>_.
    io_bind (load_job_lease st (lt_job_id t)) (\<lambda>l.
    io_bind (io_lift (validate_token l t now)) (\<lambda>_.
    io_bind (read_job_history (js_event st) (job_events (js_home st) (lt_job_id t))) (\<lambda>h.
    io_bind (io_lift (reduce_job_history (lt_job_id t) h)) (\<lambda>projection.
    io_bind (io_when (is_terminal projection \<or> cancel_requested projection)
      (lease_error (lt_job_id t) stopped)) (\<lambda>_.
    io_return projection))))))"

definition with_fenced_job_control :: "job_store \<Rightarrow> lease_token \<Rightarrow> timestamp \<Rightarrow> 'a io \<Rightarrow> 'a io" where
  "with_fenced_job_control st t now mutate =
    io_bind (fenced_projection st t now ControlAfterStop) (\<lambda>_. mutate)"

definition validate_artifact_path :: "job_store \<Rightarrow> lease_token \<Rightarrow> path \<Rightarrow> unit res" where
  "validate_artifact_path st t artifact =
    res_bind (ok_or (strip_path_prefix artifact (job_dir (js_home st) (lt_job_id t)))
      (lease_error (lt_job_id t) ArtifactOutsideJob)) (\<lambda>relative.
    if relative = [] \<or> \<not> list_all is_normal relative then
      Inl (lease_error (lt_job_id t) ArtifactNotNormalized)
    else Inr ())"

definition replace_fenced_job_json_and_append_event ::
    "job_store \<Rightarrow> 'a codec \<Rightarrow> lease_token \<Rightarrow> timestamp \<Rightarrow> path \<Rightarrow> fenced_job_json_event \<Rightarrow> 'a \<Rightarrow> string
      \<Rightarrow> job_projection io" where
  "replace_fenced_job_json_and_append_event st c t now artifact fe v event_id =
    io_bind (io_lift (validate_artifact_path st t artifact)) (\<lambda>_.
    io_bind (fenced_projection st t now ReplaceAfterStop) (\<lambda>projection.
    io_bind (io_lift (next_sequence (lt_job_id t) projection)) (\<lambda>sequence.
    io_bind (atomic_write_json c artifact v) (\<lambda>_.
    append_job_event_locked st
      (worker_event t now sequence event_id (fe_kind fe) (fe_causation_id fe) (fe_detail fe))))))"

text \<open>\<open>persist_noclobber\<close>: the new file appears only where there was none.\<close>

definition persist_new_json :: "'a codec \<Rightarrow> path \<Rightarrow> 'a \<Rightarrow> bool io" where
  "persist_new_json c p v = (\<lambda>s.
    case path_parent p of
      None \<Rightarrow> (Inl (InvalidInput (PathHasNoParent p)), s)
    | Some _ \<Rightarrow>
       (case enc c v of
          None \<Rightarrow> (Inl (Json p), s)
        | Some b \<Rightarrow>
           (if files s p \<noteq> None then (Inr False, s)
            else case write_fault s p of
              Some k \<Rightarrow> ((if k = IoAlreadyExists then Inr False else Inl (Io p k)), s)
            | None \<Rightarrow> (Inr True, put_file p (b @ [newline]) s))))"

definition create_fenced_job_json_and_append_event ::
    "job_store \<Rightarrow> 'a codec \<Rightarrow> lease_token \<Rightarrow> timestamp \<Rightarrow> path \<Rightarrow> fenced_job_json_event \<Rightarrow> 'a \<Rightarrow> string
      \<Rightarrow> create_fenced_job_json_disposition io" where
  "create_fenced_job_json_and_append_event st c t now artifact fe v event_id =
    io_bind (io_lift (validate_artifact_path st t artifact)) (\<lambda>_.
    io_bind (fenced_projection st t now CreateAfterStop) (\<lambda>projection.
    io_bind (io_lift (next_sequence (lt_job_id t) projection)) (\<lambda>sequence.
    io_bind (persist_new_json c artifact v) (\<lambda>created.
    if \<not> created then io_return AlreadyExists
    else io_bind (append_job_event_locked st
        (worker_event t now sequence event_id (fe_kind fe) (fe_causation_id fe) (fe_detail fe)))
      (\<lambda>p. io_return (DispositionCreated p))))))"

section \<open>What a token gives\<close>

definition lease_on_disk :: "job_store \<Rightarrow> string \<Rightarrow> fs \<Rightarrow> job_lease option" where
  "lease_on_disk st j s =
    (let p = job_lease_path (js_home st) j in
     case (read_fault s p, files s p) of
       (None, Some raw) \<Rightarrow>
         (case dec (js_lease st) raw of
            Some l \<Rightarrow> if ls_job_id l = j then Some l else None
          | None \<Rightarrow> None)
     | _ \<Rightarrow> None)"

definition valid_token :: "job_store \<Rightarrow> lease_token \<Rightarrow> timestamp \<Rightarrow> fs \<Rightarrow> bool" where
  "valid_token st t now s \<longleftrightarrow>
    (case lease_on_disk st (lt_job_id t) s of
       Some l \<Rightarrow> token_of l = t \<and> now < ls_expires_at l
     | None \<Rightarrow> False)"

definition refuses :: "path set \<Rightarrow> 'a io \<Rightarrow> fs \<Rightarrow> bool" where
  "refuses P m s \<longleftrightarrow> (\<exists>e s'. m s = (Inl e, s') \<and> changes_only P s s')"

abbreviation lock_only :: "job_store \<Rightarrow> lease_token \<Rightarrow> path set" where
  "lock_only st t \<equiv> {control_lock_path st (lt_job_id t)}"

lemma refuses_bind: "refuses P m s \<Longrightarrow> refuses P (io_bind m f) s"
  by (auto simp: refuses_def)

lemma refuses_lift:
  "(\<And>a. r = Inr a \<Longrightarrow> refuses P (f a) s) \<Longrightarrow> refuses P (io_bind (io_lift r) f) s"
  by (cases r) (auto simp: refuses_def io_bind_run)

lemma lock_path_distinct [simp]:
  "control_lock_path st j \<noteq> job_events (js_home st) i" "job_events (js_home st) i \<noteq> control_lock_path st j"
  "control_lock_path st j \<noteq> job_lease_path (js_home st) i" "job_lease_path (js_home st) i \<noteq> control_lock_path st j"
  "control_lock_path st j \<noteq> job_projection_path (js_home st) i"
  "job_projection_path (js_home st) i \<noteq> control_lock_path st j"
  by (simp_all add: control_lock_path_def JOB_CONTROL_LOCK_def job_files join_plain)

lemma framed_lock_job: "framed (changes_only {control_lock_path st j}) (lock_job st j)"
  by (auto simp: framed_def lock_job_def open_job_control_lock_def changes_only_put_file
      split: option.splits)

lemma lease_on_disk_changes:
  "changes_only P s s' \<Longrightarrow> job_lease_path (js_home st) j \<notin> P \<Longrightarrow>
    lease_on_disk st j s' = lease_on_disk st j s"
  by (simp add: lease_on_disk_def changes_only_def same_faults_def Let_def cong: option.case_cong)

lemma history_of_log_changes:
  "changes_only P s s' \<Longrightarrow> job_events (js_home st) j \<notin> P \<Longrightarrow>
    history_of_log st j s' = history_of_log st j s \<and> log_bytes st j s' = log_bytes st j s"
  by (simp add: history_of_log_def log_bytes_def changes_only_def)

lemma load_job_lease_Inr [result_simps]:
  "load_job_lease st j s = (Inr l, s') \<longleftrightarrow> s' = s \<and> lease_on_disk st j s = Some l"
  by (auto simp: load_job_lease_def lease_on_disk_def Let_def result_simps parse_json_def
      split: option.splits if_splits)

lemma readonly_leases [intro!]: "readonly (load_job_lease st j)" "readonly (load_job_lease_optional st j)"
  by (auto simp: load_job_lease_def load_job_lease_optional_def Let_def split: option.splits
      intro!: readonly_bind)

lemma validate_token_ok:
  "validate_token l t now = Inr u \<longleftrightarrow> token_of l = t \<and> now < ls_expires_at l"
  by (cases t) (auto simp: validate_token_def validate_token_identity_def token_of_def res_bind_def)

text \<open>Every fenced operation starts by locking, loading the checkpoint and checking the token.\<close>

lemma fence_refuses:
  assumes "\<not> valid_token st t now s"
  shows "refuses (lock_only st t) (io_bind (lock_job st (lt_job_id t)) (\<lambda>_.
    io_bind (load_job_lease st (lt_job_id t)) (\<lambda>l.
    io_bind (io_lift (validate_token l t now)) (\<lambda>_. f l)))) s"
proof -
  obtain r s1 where lock: "lock_job st (lt_job_id t) s = (r, s1)" by force
  have ch: "changes_only (lock_only st t) s s1"
    using framedD [OF framed_lock_job lock] .
  show ?thesis
  proof (cases r)
    case (Inl e)
    with lock ch show ?thesis by (auto simp: refuses_def)
  next
    case (Inr u)
    have disk: "lease_on_disk st (lt_job_id t) s1 = lease_on_disk st (lt_job_id t) s"
      using lease_on_disk_changes [OF ch] by simp
    obtain r2 s2 where load: "load_job_lease st (lt_job_id t) s1 = (r2, s2)" by force
    then have s2: "s2 = s1" using readonly_leases(1) readonlyD by blast
    show ?thesis
    proof (cases r2)
      case (Inl e)
      with lock Inr load s2 ch show ?thesis by (auto simp: refuses_def io_bind_run)
    next
      case r2: (Inr l)
      then have "lease_on_disk st (lt_job_id t) s = Some l" using load disk by (simp add: result_simps)
      with assms have "validate_token l t now \<noteq> Inr ()"
        by (auto simp: valid_token_def validate_token_ok)
      then obtain e where "validate_token l t now = Inl e"
        by (cases "validate_token l t now") auto
      with lock Inr load s2 r2 ch show ?thesis by (auto simp: refuses_def io_bind_run)
    qed
  qed
qed

section \<open>The contract of fenced operations\<close>

text \<open>
  What a client of the lease may rely on: an operation that takes a token and the time, and that
  refuses, touching nothing but the lock file, unless the token is the one on disk and unexpired.
\<close>

locale fenced_operation =
  fixes st :: job_store
    and op :: "lease_token \<Rightarrow> timestamp \<Rightarrow> 'a io"
  assumes needs_token: "\<not> valid_token st t now s \<Longrightarrow> refuses (lock_only st t) (op t now) s"
begin

lemma commit_is_authorized: "op t now s = (Inr a, s') \<Longrightarrow> valid_token st t now s"
  using needs_token [of t now s] by (auto simp: refuses_def)

text \<open>In one state of the disk at most one token of a job can commit.\<close>

lemma one_owner:
  assumes "op t now s = (Inr a, s1)" "op t' now' s = (Inr b, s2)" "lt_job_id t = lt_job_id t'"
  shows "t = t'"
  using commit_is_authorized [OF assms(1)] commit_is_authorized [OF assms(2)] assms(3)
  by (auto simp: valid_token_def split: option.splits)

text \<open>A refused operation leaves the log and the checkpoint of every job as they are.\<close>

lemma refusal_keeps_state:
  assumes "\<not> valid_token st t now s" "op t now s = (r, s')"
  shows "(\<exists>e. r = Inl e) \<and> history_of_log st j s' = history_of_log st j s
    \<and> lease_on_disk st j s' = lease_on_disk st j s"
proof -
  from needs_token [OF assms(1)] assms(2) obtain e where
    "r = Inl e" "changes_only (lock_only st t) s s'"
    by (auto simp: refuses_def)
  then show ?thesis
    using lease_on_disk_changes [of "lock_only st t" s s'] history_of_log_changes [of "lock_only st t" s s']
    by simp
qed

end

lemma fenced_projection_needs_token:
  "\<not> valid_token st t now s \<Longrightarrow> refuses (lock_only st t) (fenced_projection st t now f) s"
  unfolding fenced_projection_def by (rule fence_refuses)

interpretation append_fenced: fenced_operation st "\<lambda>t now. append_fenced_job_event st t now e" for st e
  by unfold_locales (unfold append_fenced_job_event_def, rule fence_refuses)

interpretation append_next: fenced_operation st
  "\<lambda>t now. append_next_fenced_job_event st t now kind causation detail event_id"
  for st kind causation detail event_id
  by unfold_locales (unfold append_next_fenced_job_event_def, rule fence_refuses)

interpretation fenced_control: fenced_operation st "\<lambda>t now. with_fenced_job_control st t now mutate"
  for st mutate
  by unfold_locales (auto simp: with_fenced_job_control_def intro: refuses_bind fenced_projection_needs_token)

interpretation replace_json: fenced_operation st
  "\<lambda>t now. replace_fenced_job_json_and_append_event st c t now artifact fe v event_id"
  for st c artifact fe v event_id
  by unfold_locales (auto simp: replace_fenced_job_json_and_append_event_def
      intro: refuses_lift refuses_bind fenced_projection_needs_token)

interpretation create_json: fenced_operation st
  "\<lambda>t now. create_fenced_job_json_and_append_event st c t now artifact fe v event_id"
  for st c artifact fe v event_id
  by unfold_locales (auto simp: create_fenced_job_json_and_append_event_def
      intro: refuses_lift refuses_bind fenced_projection_needs_token)

end
