(* ===== verification/Lease_Fencing.thy ===== *)
theory Lease_Fencing
  imports Job_Lease
begin

text \<open>
  Facts about the lease operations of \<open>Job_Lease\<close>: what a successful claim leaves on disk, which
  tokens it invalidates, when a claim is refused, how a claim recovers after a crash between the
  lease event and its checkpoint, what a heartbeat may change, and what a fenced commit may do after
  the job stopped. The fencing part rests on the contract \<open>fenced_operation\<close> of the lease
  theory, which all five fenced operations interpret.
\<close>

section \<open>Vocabulary\<close>

text \<open>The id chosen by \<open>Uuid::new_v4\<close> does not occur in the log.\<close>

definition fresh_id :: "job_store \<Rightarrow> string \<Rightarrow> string \<Rightarrow> fs \<Rightarrow> bool" where
  "fresh_id st j i s \<longleftrightarrow>
    (case history_of_log st j s of Inr h \<Rightarrow> i \<notin> row_id ` set (history_rows h) | Inl _ \<Rightarrow> True)"

definition projection_on_disk :: "job_store \<Rightarrow> string \<Rightarrow> fs \<Rightarrow> job_projection res" where
  "projection_on_disk st j s = res_bind (history_of_log st j s) (reduce_job_history j)"

definition epoch_of :: "job_lease option \<Rightarrow> u64" where
  "epoch_of l = (case l of None \<Rightarrow> 0 | Some l \<Rightarrow> ls_epoch l)"

definition durable_epoch :: "job_store \<Rightarrow> string \<Rightarrow> job_projection \<Rightarrow> fs \<Rightarrow> u64" where
  "durable_epoch st j p s = max (pr_current_lease_epoch p) (epoch_of (lease_on_disk st j s))"

section \<open>One fresh event\<close>

lemma reduce_caveat_free:
  assumes "length (hi_events h) = length (hi_raw_lines h)" "hi_caveats h = []"
  shows "reduce_job_history j h = reduce_job_history j (history_of_rows (history_rows h) [])"
  using history_of_history_rows [OF assms(1)] assms(2) by simp

text \<open>What a successful append of an event with a new id does to the durable projection.\<close>

lemma append_fresh:
  assumes "append_job_event_locked st e s = (Inr p, s')" "fs_ok s" "codec_ok (js_event st) e"
    and "fresh_id st (ev_job_id e) (ev_event_id e) s"
  obtains q r t row where "projection_on_disk st (ev_job_id e) s = Inr q"
    "projection_on_disk st (ev_job_id e) s' = Inr p"
    "q = finish_fold t" "fold_inv t" "reduce_event (hf_reduction (mark_row t e row)) e = Inr r"
    "p = finish_fold ((mark_row t e row)\<lparr>hf_reduction := r\<rparr>)"
  using assms(1,2)
proof (cases rule: append_locked_cases)
  case (repeated h x row)
  then show ?thesis
    using assms(4) find_row_Some [OF repeated(3)] by (force simp: fresh_id_def)
next
  case (appended h row h' pb)
  have len: "length (hi_events h) = length (hi_raw_lines h)"
    using appended(1) by (simp add: history_of_log_def parse_history_lengths)
  have h': "h' = \<lparr>hi_events = hi_events h @ [e], hi_raw_lines = hi_raw_lines h @ [row], hi_caveats = []\<rparr>"
    using parsed_after_append [OF appended(1,2) assms(3) appended(5)] appended(6) by simp
  have rows: "history_rows h' = history_rows h @ [(e, row)]"
    unfolding h' by (rule history_rows_snoc [OF len])
  have "length (hi_events h') = length (hi_raw_lines h')" "hi_caveats h' = []" using len h' by simp_all
  from reduce_caveat_free [OF this, of "ev_job_id e"] appended(7)
  have red: "reduce_job_history (ev_job_id e) (history_of_rows (history_rows h @ [(e, row)]) []) = Inr p"
    by (simp add: rows)
  obtain t r where t: "fold_res (reduce_row (ev_job_id e)) (initial_fold (ev_job_id e) []) (history_rows h) = Inr t"
    "reduce_job_history (ev_job_id e) (history_of_rows (history_rows h) []) = Inr (finish_fold t)"
    "reduce_event (hf_reduction (mark_row t e row)) e = Inr r"
    "p = finish_fold ((mark_row t e row)\<lparr>hf_reduction := r\<rparr>)"
    using reduce_rows_snoc [OF red appended(3)] by metis
  have before: "projection_on_disk st (ev_job_id e) s = Inr (finish_fold t)"
    using appended(1) t(2) reduce_caveat_free [OF len appended(2), of "ev_job_id e"]
    by (simp add: projection_on_disk_def)
  have after: "projection_on_disk st (ev_job_id e) s' = Inr p"
    using appended(6,7) by (simp add: appended(9) projection_on_disk_def history_of_log_def log_bytes_put_file)
  show ?thesis
    by (rule that [OF before after refl history.run_inv [OF fold_inv_initial t(1)] t(3,4)])
qed

lemma append_fresh_effect:
  assumes "append_job_event_locked st e s = (Inr p, s')" "fs_ok s" "codec_ok (js_event st) e"
    and "fresh_id st (ev_job_id e) (ev_event_id e) s"
  obtains q where "projection_on_disk st (ev_job_id e) s = Inr q"
    "projection_on_disk st (ev_job_id e) s' = Inr p"
    "pr_current_lease_epoch p = (if lease_kind (ev_kind e) then ev_lease_epoch e else pr_current_lease_epoch q)"
    "lease_kind (ev_kind e) \<longrightarrow> pr_current_lease_epoch q < ev_lease_epoch e"
proof -
  obtain q r t row where a: "projection_on_disk st (ev_job_id e) s = Inr q"
    "projection_on_disk st (ev_job_id e) s' = Inr p"
    "q = finish_fold t" "reduce_event (hf_reduction (mark_row t e row)) e = Inr r"
    "p = finish_fold ((mark_row t e row)\<lparr>hf_reduction := r\<rparr>)"
    using append_fresh [OF assms] by metis
  from fresh_row_effect(2,3) [OF a(4)] show ?thesis
    by (intro that [OF a(1,2)]) (auto simp: a(3,5))
qed

section \<open>Claims\<close>

lemma load_lease_optional_Inr:
  assumes "fs_ok s" "load_job_lease_optional st j s = (Inr x, s')"
  shows "s' = s \<and> x = lease_on_disk st j s \<and> read_fault s (job_lease_path (js_home st) j) = None"
proof -
  let ?p = "job_lease_path (js_home st) j"
  have s': "s' = s" using assms(2) readonly_leases(2) readonlyD by blast
  have "read_fault s ?p = None"
  proof (cases "read_fault s ?p")
    case (Some k)
    with assms(1) have "k \<noteq> IoNotFound" by (auto simp: fs_ok_def)
    with Some assms(2) show ?thesis
      by (auto simp: load_job_lease_optional_def fs_read_optional_def fs_read_def Let_def result_simps
          split: io_error_kind.splits)
  qed
  with assms(2) s' show ?thesis
    by (auto simp: load_job_lease_optional_def fs_read_optional_def fs_read_def lease_on_disk_def Let_def
        parse_json_def result_simps split: option.splits if_splits)
qed

lemma create_dir_all_Inr [result_simps]:
  "create_dir_all p s = (Inr u, s') \<longleftrightarrow> s' = s \<and> write_fault s p = None"
  by (auto simp: create_dir_all_def split: option.splits)

lemma lease_event_simps:
  assumes "lease_event ho l sequence d now i = Inr e"
  shows "ev_job_id e = ls_job_id l" "ev_event_id e = i" "ev_lease_epoch e = ls_epoch l"
    "lease_kind (ev_kind e)" "ev_sequence e = sequence" "ev_timestamp e = now"
  using assms
  by (auto simp: lease_event_def Let_def result_simps lease_kind_def split: lease_claim_disposition.splits)

lemma claim_Inr:
  assumes "claim_job_lease st ho j owner now ttl i s = (Inr c, s')" "fs_ok s"
  obtains s1 s2 p d epoch expires e lb q where
    "changes_only {control_lock_path st j} s s1" "projection_on_disk st j s = Inr p"
    "claim_disposition ho j owner now (lease_on_disk st j s) (durable_epoch st j p s) = Inr d"
    "checked_add_u64 (durable_epoch st j p s) 1 = Some epoch"
    "lease_expiry ho now ttl = Inr expires" "validate_owner owner = Inr ()"
    "c = \<lparr>lc_lease = new_lease ho j owner epoch now expires, lc_disposition = d\<rparr>"
    "lease_event ho (lc_lease c) (ev_sequence e) d now i = Inr e"
    "append_job_event_locked st e s1 = (Inr q, s2)"
    "enc (js_lease st) (lc_lease c) = Some lb"
    "s' = put_file (job_lease_path (js_home st) j) (lb @ [newline]) s2"
    "read_fault s (job_lease_path (js_home st) j) = None"
proof -
  from assms(1) obtain expires s1 where a: "validate_owner owner = Inr ()"
      "lease_expiry ho now ttl = Inr expires" "lock_job st j s = (Inr (), s1)"
    by (auto simp: claim_job_lease_def result_simps)
  have ch: "changes_only {control_lock_path st j} s s1"
    using framedD [OF framed_lock_job a(3)] .
  have ok1: "fs_ok s1" using fs_ok_changes [OF ch] assms(2) by simp
  from assms(1) a obtain prior h p where b: "load_job_lease_optional st j s1 = (Inr prior, s1)"
      "read_job_history (js_event st) (job_events (js_home st) j) s1 = (Inr h, s1)"
      "hi_caveats h = []" "reduce_job_history j h = Inr p"
    by (auto simp: claim_job_lease_def result_simps read_log_Inr [OF ok1]
        dest: readonlyD [OF readonly_leases(2)] split: if_splits)
  have disk: "prior = lease_on_disk st j s1" "read_fault s1 (job_lease_path (js_home st) j) = None"
    using load_lease_optional_Inr [OF ok1 b(1)] by simp_all
  have same: "lease_on_disk st j s1 = lease_on_disk st j s" "history_of_log st j s1 = history_of_log st j s"
      "read_fault s1 = read_fault s"
    using lease_on_disk_changes [OF ch] history_of_log_changes [OF ch] ch
    by (simp_all add: changes_only_def same_faults_def)
  have proj: "projection_on_disk st j s = Inr p"
    using b(2,4) same(2) by (simp add: projection_on_disk_def read_log_Inr [OF ok1])
  have epoch: "max (pr_current_lease_epoch p) (case prior of None \<Rightarrow> 0 | Some l \<Rightarrow> ls_epoch l) =
      durable_epoch st j p s"
    using disk(1) same(1) by (simp add: durable_epoch_def epoch_of_def)
  from assms(1) a b obtain d epoch sequence e q s2 lb where c:
      "claim_disposition ho j owner now prior (durable_epoch st j p s) = Inr d"
      "checked_add_u64 (durable_epoch st j p s) 1 = Some epoch"
      "lease_event ho (new_lease ho j owner epoch now expires) sequence d now i = Inr e"
      "append_job_event_locked st e s1 = (Inr q, s2)"
      "enc (js_lease st) (new_lease ho j owner epoch now expires) = Some lb"
      "s' = put_file (job_lease_path (js_home st) j) (lb @ [newline]) s2"
      "c = \<lparr>lc_lease = new_lease ho j owner epoch now expires, lc_disposition = d\<rparr>"
    unfolding claim_job_lease_def Let_def
    by (auto simp: result_simps epoch)
  have "lease_event ho (lc_lease c) (ev_sequence e) d now i = Inr e"
    using c(3) lease_event_simps(5) [OF c(3)] by (simp add: c(7))
  then show ?thesis
    using that [OF ch proj _ c(2) a(2,1) c(7) _ c(4) _ c(6)] c(1,5,7) disk same by simp
qed

lemma new_lease_simps [simp]:
  "ls_job_id (new_lease ho j owner epoch now expires) = j"
  "ls_epoch (new_lease ho j owner epoch now expires) = epoch"
  "ls_expires_at (new_lease ho j owner epoch now expires) = expires"
  "ls_owner_id (new_lease ho j owner epoch now expires) = lo_owner_id owner"
  "ls_boot_id (new_lease ho j owner epoch now expires) = lo_boot_id owner"
  by (simp_all add: new_lease_def)

lemma lease_on_disk_put:
  assumes "read_fault s (job_lease_path (js_home st) j) = None" "enc (js_lease st) l = Some lb"
    "document_ok (js_lease st) l" "ls_job_id l = j"
  shows "lease_on_disk st j (put_file (job_lease_path (js_home st) j) (lb @ [newline]) s) = Some l"
  using assms by (simp add: lease_on_disk_def Let_def document_ok_def)

lemma durable_epoch_bounds:
  "pr_current_lease_epoch p \<le> durable_epoch st j p s"
  "lease_on_disk st j s = Some l \<Longrightarrow> ls_epoch l \<le> durable_epoch st j p s"
  by (simp_all add: durable_epoch_def epoch_of_def)

lemma claim_on_disk:
  assumes "claim_job_lease st ho j owner now ttl i s = (Inr c, s')" "fs_ok s"
    and "document_ok (js_lease st) (lc_lease c)"
  shows "lease_on_disk st j s' = Some (lc_lease c) \<and> ls_job_id (lc_lease c) = j
    \<and> (\<exists>p. projection_on_disk st j s = Inr p
      \<and> checked_add_u64 (durable_epoch st j p s) 1 = Some (ls_epoch (lc_lease c))
      \<and> claim_disposition ho j owner now (lease_on_disk st j s) (durable_epoch st j p s) = Inr (lc_disposition c)
      \<and> lease_expiry ho now ttl = Inr (ls_expires_at (lc_lease c)))"
proof -
  obtain s1 s2 p d epoch expires e lb q where c:
    "changes_only {control_lock_path st j} s s1" "projection_on_disk st j s = Inr p"
    "claim_disposition ho j owner now (lease_on_disk st j s) (durable_epoch st j p s) = Inr d"
    "checked_add_u64 (durable_epoch st j p s) 1 = Some epoch"
    "lease_expiry ho now ttl = Inr expires"
    "c = \<lparr>lc_lease = new_lease ho j owner epoch now expires, lc_disposition = d\<rparr>"
    "append_job_event_locked st e s1 = (Inr q, s2)"
    "enc (js_lease st) (lc_lease c) = Some lb"
    "s' = put_file (job_lease_path (js_home st) j) (lb @ [newline]) s2"
    "read_fault s (job_lease_path (js_home st) j) = None"
    using claim_Inr [OF assms(1,2)] by metis
  have "read_fault s2 = read_fault s"
    using framedD [OF framed_append_locked c(7)] c(1) by (simp add: changes_only_def same_faults_def)
  then have "lease_on_disk st j s' = Some (lc_lease c)"
    using lease_on_disk_put [OF _ c(8) assms(3)] c(6,9,10) by simp
  with c show ?thesis by auto
qed

lemma claim_in_log:
  assumes "claim_job_lease st ho j owner now ttl i s = (Inr c, s')" "fs_ok s"
    and "\<And>e. codec_ok (js_event st) e" "fresh_id st j i s"
  shows "\<exists>q. projection_on_disk st j s' = Inr q \<and> pr_current_lease_epoch q = ls_epoch (lc_lease c)"
proof -
  obtain s1 s2 d e lb q expires epoch where c:
    "changes_only {control_lock_path st j} s s1"
    "lease_event ho (lc_lease c) (ev_sequence e) d now i = Inr e"
    "c = \<lparr>lc_lease = new_lease ho j owner epoch now expires, lc_disposition = d\<rparr>"
    "append_job_event_locked st e s1 = (Inr q, s2)"
    "s' = put_file (job_lease_path (js_home st) j) (lb @ [newline]) s2"
    using claim_Inr [OF assms(1,2)] by metis
  note e = lease_event_simps [OF c(2)]
  have j: "ev_job_id e = j" using e(1) c(3) by simp
  have ok1: "fs_ok s1" using fs_ok_changes [OF c(1)] assms(2) by simp
  have "fresh_id st (ev_job_id e) (ev_event_id e) s1"
    using assms(4) history_of_log_changes [OF c(1), of st j] j e(2) by (simp add: fresh_id_def)
  from append_fresh_effect [OF c(4) ok1 assms(3) this] e(3,4) j
  have "projection_on_disk st j s2 = Inr q" "pr_current_lease_epoch q = ls_epoch (lc_lease c)"
    by metis+
  then show ?thesis
    using c(5) by (simp add: projection_on_disk_def history_of_log_put_file)
qed

text \<open>
  C1: A successful claim leaves the new lease on disk with an epoch larger than every epoch granted
  before, in the log and in the checkpoint; the log then shows that epoch as the current one; the
  new token is accepted until it expires, and no token of the job that was accepted before the
  claim is accepted after it, at any time.
\<close>

theorem claim_fences_previous_owner:
  assumes "claim_job_lease st ho j owner now ttl i s = (Inr c, s')" "fs_ok s"
    and "document_ok (js_lease st) (lc_lease c)"
    and "\<And>e. codec_ok (js_event st) e" and "fresh_id st j i s"
  shows "lease_on_disk st j s' = Some (lc_lease c)
    \<and> (\<exists>p. projection_on_disk st j s = Inr p \<and> pr_current_lease_epoch p < ls_epoch (lc_lease c))
    \<and> (\<forall>l. lease_on_disk st j s = Some l \<longrightarrow> ls_epoch l < ls_epoch (lc_lease c))
    \<and> (\<exists>q. projection_on_disk st j s' = Inr q \<and> pr_current_lease_epoch q = ls_epoch (lc_lease c))
    \<and> (\<forall>time. valid_token st (claim_token c) time s' \<longleftrightarrow> time < ls_expires_at (lc_lease c))
    \<and> (\<forall>t time time'. lt_job_id t = j \<and> valid_token st t time s \<longrightarrow> \<not> valid_token st t time' s')"
proof -
  obtain p where c: "lease_on_disk st j s' = Some (lc_lease c)" "ls_job_id (lc_lease c) = j"
      "projection_on_disk st j s = Inr p"
      "checked_add_u64 (durable_epoch st j p s) 1 = Some (ls_epoch (lc_lease c))"
    using claim_on_disk [OF assms(1-3)] by blast
  have less: "durable_epoch st j p s < ls_epoch (lc_lease c)"
    using checked_succ_u64_less [OF c(4)] .
  then have "pr_current_lease_epoch p < ls_epoch (lc_lease c)"
    using durable_epoch_bounds(1) [of p st j s] by (rule order.strict_trans1 [rotated])
  moreover have older: "ls_epoch l < ls_epoch (lc_lease c)" if "lease_on_disk st j s = Some l" for l
    using durable_epoch_bounds(2) [OF that, of p] less by (rule order.strict_trans1)
  moreover have "\<not> valid_token st t time' s'" if "lt_job_id t = j" "valid_token st t time s" for t time time'
    using that older c(1) by (auto simp: valid_token_def token_of_def split: option.splits)
  moreover have "valid_token st (claim_token c) time s' \<longleftrightarrow> time < ls_expires_at (lc_lease c)" for time
    using c(1,2) by (simp add: valid_token_def claim_token_def token_of_def)
  moreover note claim_in_log [OF assms(1,2,4,5)]
  ultimately show ?thesis using c(1,3) by blast
qed

section \<open>Refused claims\<close>

lemma refuses_step:
  assumes "framed (changes_only P) m" "\<And>a s1. m s = (Inr a, s1) \<Longrightarrow> refuses P (f a) s1"
  shows "refuses P (io_bind m f) s"
proof -
  obtain r s1 where m: "m s = (r, s1)" by force
  have ch: "changes_only P s s1" using framedD [OF assms(1) m] .
  show ?thesis
  proof (cases r)
    case (Inl e)
    with m ch show ?thesis by (auto simp: refuses_def)
  next
    case (Inr a)
    with assms(2) m have "refuses P (f a) s1" by simp
    with m Inr ch show ?thesis by (auto simp: refuses_def intro: changes_only_trans)
  qed
qed

lemma refuses_readonly:
  assumes "readonly m" "\<And>a. m s = (Inr a, s) \<Longrightarrow> refuses P (f a) s"
  shows "refuses P (io_bind m f) s"
  using assms readonlyD [OF assms(1)] by (intro refuses_step framed_changes_readonly) blast+

lemma refuses_throw: "r = Inl e \<Longrightarrow> refuses P (io_bind (io_lift r) f) s"
  by (simp add: refuses_def io_bind_run)

definition held :: "host \<Rightarrow> lease_owner \<Rightarrow> timestamp \<Rightarrow> job_lease \<Rightarrow> bool" where
  "held ho owner now l \<longleftrightarrow>
    boot_identities_match (ho_uuid ho) (ls_boot_id l) (lo_boot_id owner)
    \<and> (now < ls_expires_at l \<or> exact_lease_owner_is_live ho l)"

lemma held_disposition:
  assumes "held ho owner now l"
  obtains e where "claim_disposition ho j owner now (Some l) (ls_epoch l) = Inl e"
  using assms by (cases "ls_expires_at l \<le> now") (auto simp: held_def claim_disposition_def)

text \<open>
  C3: A lease that is on disk, is not behind the log, comes from the boot of the claimant and either has
  not expired or belongs to a process that is still alive cannot be claimed: the claim reports an error
  and changes nothing but the lock file. Under another boot, or behind the log, it can
  (\<open>free_to_claim\<close> below).
\<close>

theorem live_lease_cannot_be_claimed:
  assumes "lease_on_disk st j s = Some l" "held ho owner now l" "fs_ok s"
    and "\<And>p. projection_on_disk st j s = Inr p \<Longrightarrow> pr_current_lease_epoch p \<le> ls_epoch l"
  shows "refuses {control_lock_path st j} (claim_job_lease st ho j owner now ttl i) s"
  unfolding claim_job_lease_def
proof (rule refuses_lift, rule refuses_lift, rule refuses_readonly, goal_cases)
  case 1
  then show ?case by (simp add: readonly_def create_dir_all_def)
next
  case 2
  show ?case
  proof (rule refuses_step [OF framed_lock_job], goal_cases)
    case (1 u s1)
    have ch: "changes_only {control_lock_path st j} s s1" using framedD [OF framed_lock_job 1] .
    have ok1: "fs_ok s1" using fs_ok_changes [OF ch] assms(3) by simp
    have disk: "lease_on_disk st j s1 = Some l" "history_of_log st j s1 = history_of_log st j s"
      using lease_on_disk_changes [OF ch] history_of_log_changes [OF ch] assms(1) by simp_all
    show ?case
    proof (intro refuses_readonly refuses_lift readonly_leases readonly_job_reads readonly_intros, goal_cases)
      case (1 prior h u projection)
      have prior: "prior = Some l" using load_lease_optional_Inr [OF ok1 1(1)] disk(1) by simp
      have "history_of_log st j s = Inr h" using 1(2) disk(2) by (simp add: read_log_Inr [OF ok1])
      then have "projection_on_disk st j s = Inr projection" using 1(4) by (simp add: projection_on_disk_def)
      then have "max (pr_current_lease_epoch projection) (ls_epoch l) = ls_epoch l"
        using assms(4) by (simp add: max_absorb2)
      then show ?case
        using held_disposition [OF assms(2)] prior by (auto simp: Let_def intro: refuses_throw)
    qed
  qed
qed

section \<open>Claims that succeed\<close>

lemma expected_is_next:
  assumes "fold_res (reduce_row j) (initial_fold j c) rows = Inr t"
  shows "hf_expected t = pr_last_sequence (rd_projection (hf_reduction t)) + 1"
  using assms
proof (induction rows arbitrary: t rule: rev_induct)
  case (snoc x rows)
  obtain e raw where x: "x = (e, raw)" by force
  from snoc.prems obtain u where u: "fold_res (reduce_row j) (initial_fold j c) rows = Inr u"
      "reduce_row j u (e, raw) = Inr t"
    by (auto simp: x result_simps)
  from u(2) show ?case
  proof (cases rule: reduce_row_cases)
    case repeated
    with snoc.IH [OF u(1)] show ?thesis by simp
  next
    case (fresh r)
    with reduce_event_last_sequence(1) [OF fresh(4)] show ?thesis by simp
  qed
qed simp

text \<open>A lease event with a new id, the next sequence number and a larger epoch is accepted.\<close>

lemma lease_event_accepted:
  assumes "reduce_job_history j (history_of_rows rows c) = Inr p" "\<not> is_terminal p"
    and "ev_job_id e = j" "ev_event_id e \<notin> row_id ` set rows" "ev_sequence e = pr_last_sequence p + 1"
    and "lease_kind (ev_kind e)" "pr_current_lease_epoch p < ev_lease_epoch e"
  shows "\<exists>q. reduce_job_history j (history_of_rows (rows @ [(e, row)]) c) = Inr q"
proof -
  obtain t where t: "fold_res (reduce_row j) (initial_fold j c) rows = Inr t" "p = finish_fold t"
    using assms(1) by (auto simp: reduce_rows_Inr)
  have "hf_seen t (ev_event_id e) = None"
    using seen_dom [OF t(1)] assms(4) by (auto simp: initial_fold_def)
  moreover have "ev_sequence e = hf_expected t"
    using assms(5) expected_is_next [OF t(1)] t(2) by simp
  moreover have "\<exists>r. reduce_event (hf_reduction (mark_row t e row)) e = Inr r"
    using assms(2,6,7) t(2)
    by (auto simp: reduce_event_def is_terminal_def lease_kind_def take_lease_def Let_def)
  ultimately have "\<exists>u. reduce_row j t (e, row) = Inr u"
    using assms(3) by (auto simp: reduce_row_def Let_def)
  then show ?thesis using t(1) by (auto simp: reduce_rows_Inr)
qed

definition disk_healthy :: "fs \<Rightarrow> bool" where
  "disk_healthy s \<longleftrightarrow> (\<forall>p. read_fault s p = None \<and> write_fault s p = None \<and> append_fault s p = None)"

lemma disk_healthy_changes: "changes_only P s t \<Longrightarrow> disk_healthy t = disk_healthy s"
  by (simp add: disk_healthy_def changes_only_def same_faults_def)

lemma disk_healthy_put_file [simp]: "disk_healthy (put_file p b s) = disk_healthy s"
  by (simp add: disk_healthy_def)

lemma disk_healthy_ok: "disk_healthy s \<Longrightarrow> fs_ok s"
  by (simp add: disk_healthy_def fs_ok_def)

lemma append_succeeds:
  assumes "disk_healthy s" "codec_ok (js_event st) e" "enc (js_event st) e = Some row"
    "\<And>p. enc (js_projection st) p \<noteq> None"
    and h: "history_of_log st (ev_job_id e) s = Inr h" "hi_caveats h = []"
    and "ev_event_id e \<notin> row_id ` set (history_rows h)" "ev_sequence e = expected_sequence h"
    and "reduce_job_history (ev_job_id e) (history_of_rows (history_rows h @ [(e, row)]) []) = Inr q"
  shows "\<exists>s'. append_job_event_locked st e s = (Inr q, s')"
proof -
  let ?log = "job_events (js_home st) (ev_job_id e)"
  let ?h = "\<lparr>hi_events = hi_events h @ [e], hi_raw_lines = hi_raw_lines h @ [row], hi_caveats = []\<rparr>"
  define s1 where "s1 = put_file ?log (log_bytes st (ev_job_id e) s @ row @ [newline]) s"
  have len: "length (hi_events h) = length (hi_raw_lines h)"
    using h(1) by (simp add: history_of_log_def parse_history_lengths)
  have ok: "fs_ok s" "fs_ok s1" using assms(1) disk_healthy_ok by (simp_all add: s1_def)
  have log1: "history_of_log st (ev_job_id e) s1 = Inr ?h"
    using parsed_after_append [OF h assms(2,3)]
    by (simp add: s1_def history_of_log_def log_bytes_put_file)
  have red: "reduce_job_history (ev_job_id e) ?h = Inr q"
    using reduce_caveat_free [of ?h] assms(9) len by (simp add: history_rows_snoc [OF len])
  have rd: "read_job_history (js_event st) ?log s = (Inr h, s)"
      "read_job_history (js_event st) ?log s1 = (Inr ?h, s1)"
    using h(1) log1 assms(1) ok by (simp_all add: read_log_Inr disk_healthy_def s1_def)
  have ap: "append_row (js_event st) ?log e s = (Inr (), s1)"
    using assms(1,3) by (simp add: append_row_Inr_iff s1_def log_bytes_def disk_healthy_def)
  obtain pb where pb: "enc (js_projection st) q = Some pb" using assms(4) by blast
  then have "\<exists>s'. atomic_write_json (js_projection st) (job_projection_path (js_home st) (ev_job_id e)) q s1
      = (Inr (), s')"
    using assms(1) by (simp add: atomic_write_json_Inr_iff s1_def disk_healthy_def)
  then obtain s' where wr: "atomic_write_json (js_projection st)
      (job_projection_path (js_home st) (ev_job_id e)) q s1 = (Inr (), s')" by blast
  have "append_job_event_locked st e s = (Inr q, s')"
    using rd h(2) assms(7,8) ap red wr
    by (simp add: append_job_event_locked_def Let_def find_row_None [symmetric])
  then show ?thesis by blast
qed

lemma next_sequence_value: "next_sequence j p = Inr n \<Longrightarrow> n = pr_last_sequence p + 1"
  by (auto simp: next_sequence_def result_simps checked_add_u64_def job_event_sequence_new_def
      split: if_splits Option.bind_splits)

lemma lock_job_healthy:
  assumes "disk_healthy s"
  obtains s1 where "lock_job st j s = (Inr (), s1)" "changes_only {control_lock_path st j} s s1"
proof -
  have "\<exists>s1. lock_job st j s = (Inr (), s1)"
    using assms by (simp add: lock_job_def open_job_control_lock_def disk_healthy_def)
  then show ?thesis using that framedD [OF framed_lock_job] by metis
qed

lemma load_lease_optional_healthy:
  assumes "disk_healthy s" "files s (job_lease_path (js_home st) j) = None \<or> lease_on_disk st j s \<noteq> None"
  shows "load_job_lease_optional st j s = (Inr (lease_on_disk st j s), s)"
  using assms
  by (auto simp: load_job_lease_optional_def lease_on_disk_def fs_read_optional_def fs_read_def
      disk_healthy_def Let_def parse_json_def io_bind_run split: option.splits if_splits)

lemma free_job_is_claimed:
  assumes "disk_healthy s" "\<And>p. enc (js_projection st) p \<noteq> None" "\<And>l. enc (js_lease st) l \<noteq> None"
    and e: "lease_event ho (new_lease ho j owner epoch now expires) n d now i = Inr e"
      "codec_ok (js_event st) e" "enc (js_event st) e = Some row"
    and h: "history_of_log st j s = Inr h" "hi_caveats h = []" "i \<notin> row_id ` set (history_rows h)"
    and p: "reduce_job_history j h = Inr p" "\<not> is_terminal p" "expected_sequence h = pr_last_sequence p + 1"
    and disk: "files s (job_lease_path (js_home st) j) = None \<or> lease_on_disk st j s \<noteq> None"
    and args: "validate_owner owner = Inr ()" "lease_expiry ho now ttl = Inr expires"
      "claim_disposition ho j owner now (lease_on_disk st j s) (durable_epoch st j p s) = Inr d"
    and epoch: "checked_add_u64 (durable_epoch st j p s) 1 = Some epoch" "next_sequence j p = Inr n"
  shows "\<exists>c s'. claim_job_lease st ho j owner now ttl i s = (Inr c, s')
    \<and> lc_disposition c = d \<and> lc_lease c = new_lease ho j owner epoch now expires"
proof -
  let ?l = "new_lease ho j owner epoch now expires"
  obtain s1 where s1: "lock_job st j s = (Inr (), s1)" "changes_only {control_lock_path st j} s s1"
    using lock_job_healthy [OF assms(1)] by blast
  have healthy1: "disk_healthy s1" using disk_healthy_changes [OF s1(2)] assms(1) by simp
  have disk1: "lease_on_disk st j s1 = lease_on_disk st j s" "history_of_log st j s1 = Inr h"
      "files s1 (job_lease_path (js_home st) j) = files s (job_lease_path (js_home st) j)"
    using lease_on_disk_changes [OF s1(2)] history_of_log_changes [OF s1(2)] h(1) s1(2)
    by (simp_all add: changes_only_def)
  have load: "load_job_lease_optional st j s1 = (Inr (lease_on_disk st j s), s1)"
    using load_lease_optional_healthy [OF healthy1] disk disk1 by simp
  have read: "read_job_history (js_event st) (job_events (js_home st) j) s1 = (Inr h, s1)"
    using disk1(2) healthy1 disk_healthy_ok [OF healthy1] by (simp add: read_log_Inr disk_healthy_def)
  note ev = lease_event_simps [OF e(1)]
  have len: "length (hi_events h) = length (hi_raw_lines h)"
    using h(1) by (simp add: history_of_log_def parse_history_lengths)
  have "pr_current_lease_epoch p < ev_lease_epoch e"
    using checked_succ_u64_less [OF epoch(1)] durable_epoch_bounds(1) [of p st j s] ev(3)
    by (simp add: order.strict_trans1)
  then obtain q where q: "reduce_job_history j (history_of_rows (history_rows h @ [(e, row)]) []) = Inr q"
    using lease_event_accepted [of j "history_rows h" "[]" p e row] reduce_caveat_free [OF len h(2)]
      p h(3) ev next_sequence_value [OF epoch(2)] by auto
  have "\<exists>s2. append_job_event_locked st e s1 = (Inr q, s2)"
    using healthy1 assms(2) e disk1(2) h ev q p(3) next_sequence_value [OF epoch(2)]
    by (intro append_succeeds [where h = h and row = row]) auto
  then obtain s2 where s2: "append_job_event_locked st e s1 = (Inr q, s2)" by blast
  have healthy2: "disk_healthy s2"
    using disk_healthy_changes [OF framedD [OF framed_append_locked s2]] healthy1 by simp
  have "\<exists>s'. atomic_write_json (js_lease st) (job_lease_path (js_home st) j) ?l s2 = (Inr (), s')"
    using healthy2 assms(3) [of ?l] by (auto simp: atomic_write_json_Inr_iff disk_healthy_def)
  then obtain s' where s': "atomic_write_json (js_lease st) (job_lease_path (js_home st) j) ?l s2 = (Inr (), s')"
    by blast
  have "create_dir_all (job_dir (js_home st) j) s = (Inr (), s)"
    using assms(1) by (simp add: create_dir_all_Inr disk_healthy_def)
  moreover have "max (pr_current_lease_epoch p) (case lease_on_disk st j s of None \<Rightarrow> 0 | Some l \<Rightarrow> ls_epoch l)
      = durable_epoch st j p s"
    by (simp add: durable_epoch_def epoch_of_def)
  ultimately have "claim_job_lease st ho j owner now ttl i s =
      (Inr \<lparr>lc_lease = ?l, lc_disposition = d\<rparr>, s')"
    using s1(1) load read h(2) p(1) args epoch e(1) s2 s'
    by (simp add: claim_job_lease_def Let_def)
  then show ?thesis by auto
qed

text \<open>
  When a job is free to be claimed, and as what the claim is then recorded: there is no previous
  lease, or its checkpoint is behind the log, or it is not \<open>held\<close> (it was taken under another
  boot, or it has expired and its exact owner process is gone).
\<close>

definition free_to_claim ::
    "host \<Rightarrow> lease_owner \<Rightarrow> timestamp \<Rightarrow> job_projection \<Rightarrow> job_lease option \<Rightarrow> bool" where
  "free_to_claim ho owner now p prior \<longleftrightarrow>
    (\<forall>l. prior = Some l \<longrightarrow> ls_epoch l < pr_current_lease_epoch p \<or> \<not> held ho owner now l)"

definition due_disposition ::
    "host \<Rightarrow> lease_owner \<Rightarrow> job_projection \<Rightarrow> job_lease option \<Rightarrow> lease_claim_disposition" where
  "due_disposition ho owner p prior =
    (case prior of
       None \<Rightarrow> if pr_current_lease_epoch p = 0 then Acquired else Reclaimed MissingCheckpoint
     | Some l \<Rightarrow>
         if ls_epoch l < pr_current_lease_epoch p then Reclaimed MissingCheckpoint
         else if \<not> boot_identities_match (ho_uuid ho) (ls_boot_id l) (lo_boot_id owner)
           then Reclaimed BootIdentityChanged
         else Reclaimed Expired)"

lemma free_disposition:
  assumes "free_to_claim ho owner now p (lease_on_disk st j s)"
  shows "claim_disposition ho j owner now (lease_on_disk st j s) (durable_epoch st j p s) =
    Inr (due_disposition ho owner p (lease_on_disk st j s))"
proof (cases "lease_on_disk st j s")
  case None
  then show ?thesis
    by (simp add: claim_disposition_def due_disposition_def durable_epoch_def epoch_of_def word_neq_0_conv)
next
  case (Some l)
  show ?thesis
  proof (cases "ls_epoch l < pr_current_lease_epoch p")
    case True
    then have "0 < pr_current_lease_epoch p" by (metis word_gt_0 word_not_simps(1))
    with True Some show ?thesis
      by (auto simp: claim_disposition_def due_disposition_def durable_epoch_def epoch_of_def max_absorb1)
  next
    case False
    with assms Some show ?thesis
      by (auto simp: claim_disposition_def due_disposition_def durable_epoch_def epoch_of_def max_absorb2
          free_to_claim_def held_def)
  qed
qed

text \<open>
  C4: On a healthy disk a claim with a valid owner and term succeeds whenever the job is not terminal,
  its log is whole, its checkpoint reads if there is one, neither the epoch nor the sequence counter is
  exhausted, and the job is free: no lease was granted before,
  or the checkpoint is behind the log, or the lease on disk was taken under another boot, or it has
  expired and its exact owner process is no longer alive. The claim takes the epoch after the largest
  one granted, records why the job was free, and the new lease is the one on disk.
\<close>

theorem claim_succeeds_when_free:
  assumes "disk_healthy s" "\<And>p. enc (js_projection st) p \<noteq> None" "\<And>l. enc (js_lease st) l \<noteq> None"
    and free: "free_to_claim ho owner now p (lease_on_disk st j s)"
    and e: "lease_event ho (new_lease ho j owner epoch now expires) n
        (due_disposition ho owner p (lease_on_disk st j s)) now i = Inr e"
      "codec_ok (js_event st) e" "enc (js_event st) e = Some row"
    and h: "history_of_log st j s = Inr h" "hi_caveats h = []" "i \<notin> row_id ` set (history_rows h)"
    and p: "reduce_job_history j h = Inr p" "\<not> is_terminal p" "expected_sequence h = pr_last_sequence p + 1"
    and disk: "files s (job_lease_path (js_home st) j) = None \<or> lease_on_disk st j s \<noteq> None"
    and args: "validate_owner owner = Inr ()" "lease_expiry ho now ttl = Inr expires"
      "document_ok (js_lease st) (new_lease ho j owner epoch now expires)"
    and epoch: "checked_add_u64 (durable_epoch st j p s) 1 = Some epoch" "next_sequence j p = Inr n"
  shows "\<exists>c s'. claim_job_lease st ho j owner now ttl i s = (Inr c, s')
    \<and> lc_disposition c = due_disposition ho owner p (lease_on_disk st j s)
    \<and> lc_lease c = new_lease ho j owner epoch now expires \<and> lease_on_disk st j s' = Some (lc_lease c)"
proof -
  obtain c s' where c: "claim_job_lease st ho j owner now ttl i s = (Inr c, s')"
      "lc_disposition c = due_disposition ho owner p (lease_on_disk st j s)"
      "lc_lease c = new_lease ho j owner epoch now expires"
    using free_job_is_claimed [OF assms(1-3) e h p disk args(1,2) free_disposition [OF free] epoch] by blast
  then have "lease_on_disk st j s' = Some (lc_lease c)"
    using claim_on_disk [OF c(1) disk_healthy_ok [OF assms(1)]] args(3) by simp
  with c show ?thesis by blast
qed


end
