(* ===== verification/Lease_Use.thy ===== *)
theory Lease_Use
  imports Lease_Fencing
begin

text \<open>
  The remaining facts about leases: what a heartbeat renews, that a stale token is refused by every
  fenced operation, that a stopped job takes no further commit, that a fenced artifact is created at
  most once, and that a valid token commits on a healthy disk, even when its epoch is older than the
  one the log shows.
\<close>

section \<open>Heartbeats\<close>

lemma validate_heartbeat_ok:
  "validate_heartbeat_token ho l t now = Inr u \<Longrightarrow>
    token_of l = t \<and> (now < ls_expires_at l \<or> ls_pid l = ho_process_id ho \<and> exact_lease_owner_is_live ho l)"
  by (cases t)
    (auto simp: validate_heartbeat_token_def validate_token_identity_def token_of_def result_simps
      split: if_splits)

text \<open>
  A successful heartbeat renews exactly the lease its token names: the owner, epoch and boot stay,
  the new expiry is computed from a time not before the caller's, an expired lease is renewed only by
  its own live process, and nothing on disk but the checkpoint and the lock file changes.
\<close>

theorem heartbeat_renews_own_lease:
  assumes "heartbeat_job_lease st ho t now ttl clock1 clock2 s = (Inr l', s')"
    and "document_ok (js_lease st) l'" "lease_on_disk st (lt_job_id t) s = Some l"
  shows "token_of l = t \<and> token_of l' = t \<and> lease_on_disk st (lt_job_id t) s' = Some l'
    \<and> ls_acquired_at l' = ls_acquired_at l \<and> now \<le> ls_heartbeat_at l'
    \<and> lease_expiry ho (ls_heartbeat_at l') ttl = Inr (ls_expires_at l')
    \<and> (now < ls_expires_at l \<or> ls_pid l = ho_process_id ho \<and> exact_lease_owner_is_live ho l)
    \<and> changes_only {control_lock_path st (lt_job_id t), job_lease_path (js_home st) (lt_job_id t)} s s'"
proof -
  let ?j = "lt_job_id t"
  from assms(1) obtain s1 where s1: "lock_job st ?j s = (Inr (), s1)"
    by (auto simp: heartbeat_job_lease_def result_simps)
  have ch: "changes_only {control_lock_path st ?j} s s1" using framedD [OF framed_lock_job s1] .
  have l: "lease_on_disk st ?j s1 = Some l"
    using lease_on_disk_changes [OF ch] assms(3) by simp
  define r where "r = (if ls_pid l = ho_process_id ho then max now clock1 else now)"
  define r' where "r' = (if ls_pid l = ho_process_id ho then max r clock2 else r)"
  from assms(1) s1 l obtain ex lb where b: "validate_heartbeat_token ho l t r = Inr ()"
      "lease_expiry ho r' ttl = Inr ex" "l' = l\<lparr>ls_heartbeat_at := r', ls_expires_at := ex\<rparr>"
      "enc (js_lease st) l' = Some lb"
      "s' = put_file (job_lease_path (js_home st) ?j) (lb @ [newline]) s1"
    by (auto simp: heartbeat_job_lease_def result_simps Let_def r_def r'_def split: if_splits)
  have le: "now \<le> r" "r \<le> r'" by (auto simp: r_def r'_def)
  have tok: "token_of l = t" "r < ls_expires_at l \<or> ls_pid l = ho_process_id ho \<and> exact_lease_owner_is_live ho l"
    using validate_heartbeat_ok [OF b(1)] by simp_all
  have "ls_job_id l = ?j" using tok(1) by (auto simp: token_of_def)
  moreover have "read_fault s1 (job_lease_path (js_home st) ?j) = None"
    using l by (auto simp: lease_on_disk_def Let_def split: option.splits)
  ultimately have "lease_on_disk st ?j s' = Some l'"
    using lease_on_disk_put [OF _ b(4) assms(2)] b(3,5) by simp
  moreover have "changes_only {control_lock_path st ?j, job_lease_path (js_home st) ?j} s s'"
    unfolding b(5) by (rule changes_only_trans [OF changes_only_mono [OF ch] changes_only_put_file]) auto
  moreover have "token_of l' = t" using tok(1) b(3) by (simp add: token_of_def)
  ultimately show ?thesis using tok le b(2,3) by auto
qed

section \<open>Stale tokens and stopped jobs\<close>

text \<open>
  C2: Every fenced operation (the two event appends, the controller's mutations, replacing and
  creating a fenced artifact) refuses a token that is not the one on disk or has expired: it reports
  an error, and nothing but the lock file may have changed.
\<close>

theorem stale_token_is_refused_everywhere:
  assumes "\<not> valid_token st t now s"
  shows "refuses (lock_only st t) (append_fenced_job_event st t now e) s
    \<and> refuses (lock_only st t) (append_next_fenced_job_event st t now kind cause detail i) s
    \<and> refuses (lock_only st t) (with_fenced_job_control st t now mutate) s
    \<and> refuses (lock_only st t) (replace_fenced_job_json_and_append_event st c t now artifact fe v i) s
    \<and> refuses (lock_only st t) (create_fenced_job_json_and_append_event st c' t now artifact fe v' i) s"
  by (intro conjI append_fenced.needs_token [OF assms] append_next.needs_token [OF assms]
      fenced_control.needs_token [OF assms] replace_json.needs_token [OF assms]
      create_json.needs_token [OF assms])

lemma fenced_read:
  assumes "io_bind (lock_job st (lt_job_id t)) (\<lambda>_. io_bind (load_job_lease st (lt_job_id t)) (\<lambda>l.
      io_bind (io_lift (validate_token l t now)) (\<lambda>_. f l))) s = (Inr q, s')" "fs_ok s"
  obtains l s1 where "changes_only (lock_only st t) s s1" "fs_ok s1"
    "lease_on_disk st (lt_job_id t) s = Some l" "valid_token st t now s" "f l s1 = (Inr q, s')"
proof -
  from assms(1) obtain s1 l where s1: "lock_job st (lt_job_id t) s = (Inr (), s1)"
      "lease_on_disk st (lt_job_id t) s1 = Some l" "validate_token l t now = Inr ()"
      "f l s1 = (Inr q, s')"
    by (auto simp: result_simps)
  have ch: "changes_only (lock_only st t) s s1" using framedD [OF framed_lock_job s1(1)] .
  have disk: "lease_on_disk st (lt_job_id t) s = Some l"
    using lease_on_disk_changes [OF ch] s1(2) by simp
  then have "valid_token st t now s" using s1(3) by (simp add: valid_token_def validate_token_ok)
  then show ?thesis using that [OF ch _ disk _ s1(4)] fs_ok_changes [OF ch] assms(2) by simp
qed

text \<open>The stopped job: terminal, or asked to cancel and the fact is not the cancellation.\<close>

definition stopped_for :: "job_projection \<Rightarrow> job_event_kind \<Rightarrow> json \<Rightarrow> bool" where
  "stopped_for p kind detail \<longleftrightarrow>
    is_terminal p \<or> cancel_requested p \<and> \<not> cancellation_fact kind detail"

lemma projection_after_lock:
  "changes_only (lock_only st t) s s1 \<Longrightarrow> projection_on_disk st j s1 = projection_on_disk st j s"
  using history_of_log_changes [of "lock_only st t" s s1 st j] by (simp add: projection_on_disk_def)

lemma fenced_projection_ok:
  assumes "fenced_projection st t now f s = (Inr p, s')" "fs_ok s"
  shows "changes_only (lock_only st t) s s' \<and> valid_token st t now s
    \<and> projection_on_disk st (lt_job_id t) s = Inr p \<and> \<not> is_terminal p \<and> \<not> cancel_requested p"
proof (rule fenced_read [OF assms(1) [unfolded fenced_projection_def] assms(2)], goal_cases)
  case (1 l s1)
  then show ?case
    using history_of_log_changes [OF 1(1), of st "lt_job_id t"]
    by (auto simp: result_simps read_log_Inr projection_on_disk_def split: if_splits)
qed

lemma framed_fenced_projection: "framed (changes_only (lock_only st t)) (fenced_projection st t now f)"
  unfolding fenced_projection_def
  by (intro framed_changes_bind framed_lock_job framed_changes_readonly readonly_intros readonly_leases
      readonly_job_reads)

text \<open>Whatever the outcome, the operation leaves all files but those of \<open>P\<close> alone; if it returns, it
  returns \<open>v\<close>.\<close>

definition only_returns :: "path set \<Rightarrow> 'a \<Rightarrow> 'a io \<Rightarrow> fs \<Rightarrow> bool" where
  "only_returns P v m s \<longleftrightarrow>
    (case m s of (r, s') \<Rightarrow> changes_only P s s' \<and> (case r of Inr a \<Rightarrow> a = v | Inl e \<Rightarrow> True))"

lemma only_returns_step:
  assumes "framed (changes_only P) m" "\<And>a s1. m s = (Inr a, s1) \<Longrightarrow> only_returns P v (f a) s1"
  shows "only_returns P v (io_bind m f) s"
proof -
  obtain r s1 where m: "m s = (r, s1)" by force
  have ch: "changes_only P s s1" using framedD [OF assms(1) m] .
  show ?thesis
  proof (cases r)
    case (Inl e)
    with m ch show ?thesis by (simp add: only_returns_def io_bind_run)
  next
    case (Inr a)
    with assms(2) m have "only_returns P v (f a) s1" by simp
    with m Inr ch show ?thesis
      by (auto simp: only_returns_def io_bind_run intro: changes_only_trans split: prod.splits)
  qed
qed

lemma only_returns_readonly:
  assumes "readonly m" "\<And>a. m s = (Inr a, s) \<Longrightarrow> only_returns P v (f a) s"
  shows "only_returns P v (io_bind m f) s"
  using assms readonlyD [OF assms(1)] by (intro only_returns_step framed_changes_readonly) blast+

lemma only_returns_return [simp]: "only_returns P v (io_return v) s"
  by (simp add: only_returns_def)

lemma append_next_stopped:
  assumes "fs_ok s" "projection_on_disk st (lt_job_id t) s = Inr p" "stopped_for p kind detail"
  shows "only_returns (lock_only st t) p (append_next_fenced_job_event st t now kind cause detail i) s"
  unfolding append_next_fenced_job_event_def
proof (rule only_returns_step [OF framed_lock_job], goal_cases)
  case (1 u s1)
  have ch: "changes_only (lock_only st t) s s1" using framedD [OF framed_lock_job 1] .
  have "fs_ok s1" "projection_on_disk st (lt_job_id t) s1 = Inr p"
    using fs_ok_changes [OF ch] projection_after_lock [OF ch] assms(1,2) by simp_all
  then show ?case
    using assms(3)
    by (intro only_returns_readonly readonly_leases readonly_job_reads readonly_intros)
      (auto simp: result_simps read_log_Inr projection_on_disk_def stopped_for_def)
qed

lemma append_fenced_stopped:
  assumes "fs_ok s" "projection_on_disk st (lt_job_id t) s = Inr p" "stopped_for p (ev_kind e) (ev_detail e)"
  shows "only_returns (lock_only st t) p (append_fenced_job_event st t now e) s"
  unfolding append_fenced_job_event_def
proof (rule only_returns_step [OF framed_lock_job], goal_cases)
  case (1 u s1)
  have ch: "changes_only (lock_only st t) s s1" using framedD [OF framed_lock_job 1] .
  have "fs_ok s1" "projection_on_disk st (lt_job_id t) s1 = Inr p"
    using fs_ok_changes [OF ch] projection_after_lock [OF ch] assms(1,2) by simp_all
  then show ?case
    using assms(3)
    by (intro only_returns_readonly readonly_leases readonly_job_reads readonly_intros)
      (auto simp: result_simps read_log_Inr projection_on_disk_def stopped_for_def split: if_splits)
qed

lemma fenced_projection_stopped:
  assumes "fs_ok s" "projection_on_disk st (lt_job_id t) s = Inr p" "stopped_for p kind detail"
  shows "refuses (lock_only st t) (fenced_projection st t now f) s"
proof -
  obtain r s' where run: "fenced_projection st t now f s = (r, s')" by force
  have "r \<noteq> Inr q" for q
    using fenced_projection_ok [of st t now f s q s'] run assms by (auto simp: stopped_for_def)
  then obtain e where "r = Inl e" by (cases r) auto
  then show ?thesis
    using run framedD [OF framed_fenced_projection run] by (auto simp: refuses_def)
qed

text \<open>
  C6: Once a job is terminal, or a cancellation was requested and the fact is not the cancellation
  itself, none of the five fenced operations commits anything. The two appends change nothing but the
  lock file, whatever their outcome, and return the standing projection if they return at all; a
  controller's mutation, the replacement and the creation of a fenced artifact are refused with an
  error, and change nothing but the lock file.
\<close>

theorem stopped_job_takes_no_commit:
  assumes "fs_ok s" "projection_on_disk st (lt_job_id t) s = Inr p" "stopped_for p kind detail"
    and "ev_kind e = kind" "ev_detail e = detail"
  shows "only_returns (lock_only st t) p (append_next_fenced_job_event st t now kind cause detail i) s
    \<and> only_returns (lock_only st t) p (append_fenced_job_event st t now e) s
    \<and> refuses (lock_only st t) (with_fenced_job_control st t now mutate) s
    \<and> refuses (lock_only st t) (replace_fenced_job_json_and_append_event st c t now artifact fe v i) s
    \<and> refuses (lock_only st t) (create_fenced_job_json_and_append_event st c' t now artifact fe v' i) s"
proof (intro conjI)
  note stopped = fenced_projection_stopped [OF assms(1-3), THEN refuses_bind]
  show "refuses (lock_only st t) (with_fenced_job_control st t now mutate) s"
    unfolding with_fenced_job_control_def by (rule stopped)
  show "refuses (lock_only st t) (replace_fenced_job_json_and_append_event st c t now artifact fe v i) s"
    unfolding replace_fenced_job_json_and_append_event_def by (intro refuses_lift stopped)
  show "refuses (lock_only st t) (create_fenced_job_json_and_append_event st c' t now artifact fe v' i) s"
    unfolding create_fenced_job_json_and_append_event_def by (intro refuses_lift stopped)
qed (use append_next_stopped [OF assms(1-3)] append_fenced_stopped [OF assms(1,2)] assms(3-5) in auto)

section \<open>Artifacts created once\<close>

lemma persist_new_json_True:
  assumes "persist_new_json c p v s = (Inr True, s')"
  shows "files s p = None" "files s' p \<noteq> None" "changes_only {p} s s'"
  using assms by (auto simp: persist_new_json_def changes_only_put_file split: option.splits if_splits)

lemma persist_new_json_taken:
  "files s p \<noteq> None \<Longrightarrow> persist_new_json c p v s = (Inr b, s') \<Longrightarrow> \<not> b \<and> s' = s"
  by (auto simp: persist_new_json_def split: option.splits if_splits)

definition job_private :: "job_store \<Rightarrow> string \<Rightarrow> path set" where
  "job_private st j = {control_lock_path st j, job_events (js_home st) j, job_projection_path (js_home st) j}"

text \<open>
  A fenced artifact is created at most once: after a successful creation the file is there, and
  any later creation at the same path, by whatever token, finds it taken and leaves the artifact and
  the log as they are.
\<close>

theorem fenced_artifact_is_created_once:
  assumes "create_fenced_job_json_and_append_event st c t now artifact fe v i s = (Inr (DispositionCreated p), s')"
    and "fs_ok s" "artifact \<notin> job_private st (lt_job_id t)"
  shows "files s artifact = None \<and> files s' artifact \<noteq> None
    \<and> (\<forall>t' now' fe' v' i' r s''.
        create_fenced_job_json_and_append_event st c t' now' artifact fe' v' i' s' = (Inr r, s'') \<longrightarrow>
        r = AlreadyExists \<and> changes_only {control_lock_path st (lt_job_id t')} s' s'')"
proof -
  from assms(1) obtain q s1 s2 e where a: "fenced_projection st t now CreateAfterStop s = (Inr q, s1)"
      "persist_new_json c artifact v s1 = (Inr True, s2)"
      "append_job_event_locked st e s2 = (Inr p, s')" "ev_job_id e = lt_job_id t"
    by (auto simp: create_fenced_job_json_and_append_event_def result_simps worker_event_def
        split: if_splits)
  have ch: "changes_only (lock_only st t) s s1"
    using fenced_projection_ok [OF a(1) assms(2)] by simp
  have ap: "changes_only (job_files_of st (lt_job_id t)) s2 s'"
    using framedD [OF framed_append_locked a(3)] a(4) by simp
  have made: "files s artifact = None" "files s' artifact \<noteq> None"
    using persist_new_json_True [OF a(2)] ch ap assms(3)
    by (simp_all add: changes_only_def job_private_def job_files_of_def)
  have ok': "fs_ok s'"
    using fs_ok_changes [OF ch] fs_ok_changes [OF persist_new_json_True(3) [OF a(2)]]
      fs_ok_changes [OF ap] assms(2) by simp
  have "r = AlreadyExists \<and> changes_only (lock_only st t') s' s''"
    if again: "create_fenced_job_json_and_append_event st c t' now' artifact fe' v' i' s' = (Inr r, s'')"
    for t' now' fe' v' i' r s''
  proof -
    obtain q' s3 n b s4 where b: "fenced_projection st t' now' CreateAfterStop s' = (Inr q', s3)"
        "persist_new_json c artifact v' s3 = (Inr b, s4)"
        "(if \<not> b then io_return AlreadyExists
          else io_bind (append_job_event_locked st
            (worker_event t' now' n i' (fe_kind fe') (fe_causation_id fe') (fe_detail fe')))
          (\<lambda>p. io_return (DispositionCreated p))) s4 = (Inr r, s'')"
      using again unfolding create_fenced_job_json_and_append_event_def io_bind_Inr_iff io_lift_Inr_iff
      by (elim exE conjE) blast
    have ch': "changes_only (lock_only st t') s' s3"
      using fenced_projection_ok [OF b(1) ok'] by simp
    have "files s3 artifact \<noteq> None"
    proof (cases "artifact = control_lock_path st (lt_job_id t')")
      case True
      with b(1) show ?thesis
        by (auto simp: fenced_projection_def result_simps lock_job_def open_job_control_lock_def
            dest!: readonlyD [OF readonly_job_reads(1)] split: option.splits if_splits)
    next
      case False
      with ch' made(2) show ?thesis by (simp add: changes_only_def)
    qed
    from persist_new_json_taken [OF this b(2)] b(3) have "r = AlreadyExists \<and> s'' = s3" by simp
    with ch' show ?thesis by simp
  qed
  with made show ?thesis by blast
qed

section \<open>Commits that succeed\<close>

lemma fenced_projection_healthy:
  assumes "disk_healthy s" "valid_token st t now s" "history_of_log st (lt_job_id t) s = Inr h"
    "reduce_job_history (lt_job_id t) h = Inr p" "\<not> is_terminal p" "\<not> cancel_requested p"
  obtains l s1 where "lock_job st (lt_job_id t) s = (Inr (), s1)" "changes_only (lock_only st t) s s1"
    "load_job_lease st (lt_job_id t) s1 = (Inr l, s1)" "validate_token l t now = Inr ()"
    "read_job_history (js_event st) (job_events (js_home st) (lt_job_id t)) s1 = (Inr h, s1)"
    "fenced_projection st t now f s = (Inr p, s1)"
proof -
  obtain s1 where s1: "lock_job st (lt_job_id t) s = (Inr (), s1)" "changes_only (lock_only st t) s s1"
    using lock_job_healthy [OF assms(1)] by blast
  obtain l where l: "lease_on_disk st (lt_job_id t) s = Some l" "validate_token l t now = Inr ()"
    using assms(2) by (auto simp: valid_token_def validate_token_ok split: option.splits)
  have load: "load_job_lease st (lt_job_id t) s1 = (Inr l, s1)"
    using lease_on_disk_changes [OF s1(2)] l(1) by (simp add: load_job_lease_Inr)
  have "disk_healthy s1" using disk_healthy_changes [OF s1(2)] assms(1) by simp
  then have read: "read_job_history (js_event st) (job_events (js_home st) (lt_job_id t)) s1 = (Inr h, s1)"
    using history_of_log_changes [OF s1(2), of st "lt_job_id t"] assms(3) disk_healthy_ok
    by (simp add: read_log_Inr disk_healthy_def)
  have "fenced_projection st t now f s = (Inr p, s1)"
    using s1(1) load l(2) read assms(4-6) by (simp add: fenced_projection_def)
  from that [OF s1 load l(2) read this] show ?thesis .
qed

lemma attempt_accepted:
  assumes "reduce_job_history j (history_of_rows rows c) = Inr p" "\<not> is_terminal p"
    and "ev_job_id e = j" "ev_event_id e \<notin> row_id ` set rows" "ev_sequence e = pr_last_sequence p + 1"
    and "ev_kind e = AttemptStarted"
  shows "\<exists>q. reduce_job_history j (history_of_rows (rows @ [(e, row)]) c) = Inr q
    \<and> pr_current_lease_epoch q = pr_current_lease_epoch p
    \<and> pr_attempt_count q = saturating_add_u32 (pr_attempt_count p) 1"
proof -
  obtain t where t: "fold_res (reduce_row j) (initial_fold j c) rows = Inr t" "p = finish_fold t"
    using assms(1) by (auto simp: reduce_rows_Inr)
  have seen: "hf_seen t (ev_event_id e) = None"
    using seen_dom [OF t(1)] assms(4) by (auto simp: initial_fold_def)
  have seq: "ev_sequence e = hf_expected t"
    using assms(5) expected_is_next [OF t(1)] t(2) by simp
  obtain r where r: "reduce_event (hf_reduction (mark_row t e row)) e = Inr r"
    using assms(2,6) t(2) by (auto simp: reduce_event_def is_terminal_def)
  then have "reduce_row j t (e, row) = Inr ((mark_row t e row)\<lparr>hf_reduction := r\<rparr>)"
    using assms(3) seen seq by (simp add: reduce_row_def Let_def)
  moreover note fresh_row_effect(1,2) [OF r]
  ultimately show ?thesis
    using t assms(6) by (auto simp: reduce_rows_Inr lease_kind_def)
qed

lemma valid_token_commits:
  assumes "disk_healthy s" "valid_token st t now s" "\<And>p. enc (js_projection st) p \<noteq> None"
    and h: "history_of_log st (lt_job_id t) s = Inr h" "hi_caveats h = []" "i \<notin> row_id ` set (history_rows h)"
    and p: "reduce_job_history (lt_job_id t) h = Inr p" "\<not> is_terminal p" "\<not> cancel_requested p"
      "expected_sequence h = pr_last_sequence p + 1" "next_sequence (lt_job_id t) p = Inr n"
    and e: "codec_ok (js_event st) (worker_event t now n i AttemptStarted cause detail)"
      "enc (js_event st) (worker_event t now n i AttemptStarted cause detail) = Some row"
  shows "\<exists>q s'. append_next_fenced_job_event st t now AttemptStarted cause detail i s = (Inr q, s')
    \<and> pr_attempt_count q = saturating_add_u32 (pr_attempt_count p) 1
    \<and> pr_current_lease_epoch q = pr_current_lease_epoch p"
proof -
  let ?e = "worker_event t now n i AttemptStarted cause detail"
  obtain l s1 where s1: "lock_job st (lt_job_id t) s = (Inr (), s1)" "changes_only (lock_only st t) s s1"
      "load_job_lease st (lt_job_id t) s1 = (Inr l, s1)" "validate_token l t now = Inr ()"
      "read_job_history (js_event st) (job_events (js_home st) (lt_job_id t)) s1 = (Inr h, s1)"
    using fenced_projection_healthy [OF assms(1,2) h(1) p(1-3)] by metis
  have ev: "ev_job_id ?e = lt_job_id t" "ev_event_id ?e = i" "ev_kind ?e = AttemptStarted" "ev_sequence ?e = n"
    by (simp_all add: worker_event_def)
  have len: "length (hi_events h) = length (hi_raw_lines h)"
    using h(1) by (simp add: history_of_log_def parse_history_lengths)
  obtain q where q: "reduce_job_history (lt_job_id t) (history_of_rows (history_rows h @ [(?e, row)]) []) = Inr q"
      "pr_current_lease_epoch q = pr_current_lease_epoch p"
      "pr_attempt_count q = saturating_add_u32 (pr_attempt_count p) 1"
    using attempt_accepted [of "lt_job_id t" "history_rows h" "[]" p ?e row] reduce_caveat_free [OF len h(2)]
      p h(3) ev next_sequence_value [OF p(5)] by auto
  have "\<exists>s2. append_job_event_locked st ?e s1 = (Inr q, s2)"
    using disk_healthy_changes [OF s1(2)] history_of_log_changes [OF s1(2), of st "lt_job_id t"]
      assms(1,3) e h ev q(1) p(4) next_sequence_value [OF p(5)]
    by (intro append_succeeds [where h = h and row = row]) auto
  then show ?thesis
    using s1 p q(2,3) by (auto simp: append_next_fenced_job_event_def)
qed


text \<open>
  A fenced append compares its token with the checkpoint only. While a crash has left the
  checkpoint behind the log, the token of the older epoch still commits: the log then holds a worker
  fact of an epoch below the one the log itself shows as current.
\<close>

theorem checkpoint_lag_lets_old_epoch_commit:
  assumes "disk_healthy s" "valid_token st t now s" "\<And>p. enc (js_projection st) p \<noteq> None"
    and "history_of_log st (lt_job_id t) s = Inr h" "hi_caveats h = []" "i \<notin> row_id ` set (history_rows h)"
    and "reduce_job_history (lt_job_id t) h = Inr p" "\<not> is_terminal p" "\<not> cancel_requested p"
      "expected_sequence h = pr_last_sequence p + 1" "next_sequence (lt_job_id t) p = Inr n"
    and "codec_ok (js_event st) (worker_event t now n i AttemptStarted cause detail)"
      "enc (js_event st) (worker_event t now n i AttemptStarted cause detail) = Some row"
    and "lt_epoch t < pr_current_lease_epoch p"
  shows "\<exists>q s'. append_next_fenced_job_event st t now AttemptStarted cause detail i s = (Inr q, s')
    \<and> pr_attempt_count q = saturating_add_u32 (pr_attempt_count p) 1
    \<and> ev_lease_epoch (worker_event t now n i AttemptStarted cause detail) < pr_current_lease_epoch q"
  using valid_token_commits [OF assms(1-13)] assms(14) by (auto simp: worker_event_def)

end
