(* ===== verification/Plan_Graph.thy ===== *)
theory Plan_Graph
  imports Lease_Use
begin

text \<open>
  Plans as task graphs (\<open>crates/deadreckon-core/src/plan.rs\<close>): the plan and task records, the graph
  validation with its depth-first cycle check, readiness of tasks under a failure policy, retries and
  the nesting guard. The recursion of the cycle check carries fuel, one more than the number of
  tasks; the lemmas show that this is always enough, that the check accepts exactly the acyclic
  graphs, and that an accepted plan always has a ready task while work is pending.
\<close>

section \<open>Vocabulary\<close>

definition PLAN_SCHEMA_VERSION :: u32 where "PLAN_SCHEMA_VERSION = 2"
definition DEFAULT_MAX_ATTEMPTS :: u32 where "DEFAULT_MAX_ATTEMPTS = 3"
definition DEFAULT_CIRCUIT_BREAKER_THRESHOLD :: u32 where "DEFAULT_CIRCUIT_BREAKER_THRESHOLD = 2"
definition MAX_SUBPLAN_DEPTH :: u32 where "MAX_SUBPLAN_DEPTH = 2"

datatype plan_mode = FullPlan | Review

fun plan_mode_str :: "plan_mode \<Rightarrow> string" where
  "plan_mode_str FullPlan = ''full-plan''"
| "plan_mode_str Review = ''review''"

record root_planner_accounting =
  ra_schema_version :: u32
  ra_planner_invoked :: bool
  ra_provider :: "string option"
  ra_model :: "string option"
  ra_input_tokens :: u64
  ra_output_tokens :: u64
  ra_cost_usd :: f64
  ra_subscription :: bool
  ra_wall_seconds :: f64
  ra_recorded_at :: timestamp

datatype budget_dimension = Spend | Wall

datatype apply_when = AtEnd | PerNode

fun apply_when_str :: "apply_when \<Rightarrow> string" where
  "apply_when_str AtEnd = ''at-end''"
| "apply_when_str PerNode = ''per-node''"

datatype branch_policy = Stack | Base | MergeBranch

datatype apply_mode = Auto | Preview | Manual

datatype apply_strategy = Squash | MergeCommit | CherryPick

datatype on_fail = Stop | Skip | Continue

datatype plan_status = PlanPending | Forked | Merged | PlanFailed

datatype plan_task_status = Pending | Running | Completed | Skipped | Failed | Killed

definition satisfies_dependency :: "plan_task_status \<Rightarrow> bool" where
  "satisfies_dependency s \<longleftrightarrow> s = plan_task_status.Completed \<or> s = Skipped"

definition is_successful_terminal :: "plan_task_status \<Rightarrow> bool" where
  "is_successful_terminal s \<longleftrightarrow> s = plan_task_status.Completed \<or> s = Skipped"

datatype plan_role = Child | Coder | Reviewer

datatype network_capability = NetDeny | Allowlist | NetFull

record capability_preview =
  cp_network :: network_capability
  cp_deploy :: bool
  cp_global_install :: bool
  cp_filesystem :: "string list"
  cp_notes :: "string list"

definition default_capability_preview :: capability_preview where
  "default_capability_preview = \<lparr>cp_network = NetDeny, cp_deploy = False, cp_global_install = False,
    cp_filesystem = [], cp_notes = []\<rparr>"

record plan_providers =
  pp_planner :: "string option"
  pp_default_child :: "string option"
  pp_coder :: "string option"
  pp_reviewer :: "string option"
  pp_children :: "u32 \<rightharpoonup> string"
  pp_planner_model :: "string option"
  pp_default_child_model :: "string option"
  pp_coder_model :: "string option"
  pp_reviewer_model :: "string option"
  pp_child_models :: "u32 \<rightharpoonup> string"

record task_attempt =
  at_attempt :: u32
  at_run_id :: "string option"
  at_status :: plan_task_status
  at_failure_reason :: "string option"
  at_started_at :: timestamp
  at_finished_at :: "timestamp option"
  at_spend_usd :: f64

definition task_attempt_new :: "u32 \<Rightarrow> string option \<Rightarrow> timestamp \<Rightarrow> task_attempt" where
  "task_attempt_new n run now = \<lparr>at_attempt = n, at_run_id = run, at_status = plan_task_status.Running,
    at_failure_reason = None, at_started_at = now, at_finished_at = None, at_spend_usd = 0\<rparr>"

definition task_attempt_failed ::
    "u32 \<Rightarrow> string option \<Rightarrow> string option \<Rightarrow> f64 \<Rightarrow> timestamp \<Rightarrow> timestamp \<Rightarrow> task_attempt" where
  "task_attempt_failed n run reason spend clock1 clock2 =
    \<lparr>at_attempt = n, at_run_id = run, at_status = plan_task_status.Failed, at_failure_reason = reason,
     at_started_at = clock1, at_finished_at = Some clock2, at_spend_usd = spend\<rparr>"

record plan_task =
  tk_index :: u32
  tk_task_id :: string
  tk_subject :: string
  tk_goal :: string
  tk_active_form :: string
  tk_provider :: "string option"
  tk_role :: plan_role
  tk_depends_on :: "string list"
  tk_subplan :: "string option"
  tk_attempts :: "task_attempt list"
  tk_worker_spec :: path
  tk_summary_path :: "path option"
  tk_review_status :: "string option"
  tk_child_run_id :: "string option"
  tk_child_scope :: "string option"
  tk_status :: plan_task_status

definition plan_task_new :: "u32 \<Rightarrow> string \<Rightarrow> string \<Rightarrow> plan_role \<Rightarrow> string option \<Rightarrow> plan_task" where
  "plan_task_new index subject goal role provider =
    (let task_id = ''task-'' @ show_nat (unat index) in
     \<lparr>tk_index = index, tk_task_id = task_id, tk_subject = subject, tk_goal = goal,
      tk_active_form = (if blank subject then ''Running child '' @ show_nat (unat index) else subject),
      tk_provider = provider, tk_role = role, tk_depends_on = [], tk_subplan = None, tk_attempts = [],
      tk_worker_spec = components (''worker-specs/'' @ task_id @ ''.md''), tk_summary_path = None,
      tk_review_status = None, tk_child_run_id = None, tk_child_scope = None, tk_status = Pending\<rparr>)"

section \<open>Retries\<close>

definition attempts_used :: "plan_task \<Rightarrow> u32" where
  "attempts_used t = of_nat (length (tk_attempts t))"

definition may_retry :: "plan_task \<Rightarrow> u32 \<Rightarrow> bool" where
  "may_retry t max_attempts \<longleftrightarrow> attempts_used t < max_attempts"

definition retry_parent_run_id :: "plan_task \<Rightarrow> string option" where
  "retry_parent_run_id t =
    (if tk_attempts t = [] then None
     else if at_status (last (tk_attempts t)) \<noteq> plan_task_status.Failed then None
     else at_run_id (last (tk_attempts t)))"

definition last_failure_reason :: "plan_task \<Rightarrow> string option" where
  "last_failure_reason t =
    (if tk_attempts t = [] then None else at_failure_reason (last (tk_attempts t)))"

text \<open>The sums of floating-point amounts, read as exact reals; \<open>elapsed\<close> is whole milliseconds.\<close>

definition attempts_spend_usd :: "plan_task \<Rightarrow> f64" where
  "attempts_spend_usd t = sum_list (map at_spend_usd (tk_attempts t))"

definition attempts_wall_seconds :: "plan_task \<Rightarrow> f64" where
  "attempts_wall_seconds t =
    sum_list (List.map_filter (\<lambda>a. case at_finished_at a of
        None \<Rightarrow> None
      | Some finished \<Rightarrow>
         (let elapsed = (finished - at_started_at a) div 1000000 in
          if elapsed > 0 then Some (real_of_int elapsed / 1000) else None)) (tk_attempts t))"

section \<open>The plan\<close>

record plan =
  pn_schema_version :: u32
  pn_plan_id :: string
  pn_root_goal :: string
  pn_mode :: plan_mode
  pn_n :: u32
  pn_providers :: plan_providers
  pn_capability_preview :: capability_preview
  pn_tasks :: "plan_task list"
  pn_parent_scope :: "string option"
  pn_parent_cwd :: "path option"
  pn_acceptance_path :: "path option"
  pn_apply :: apply_when
  pn_branch_policy :: branch_policy
  pn_apply_strategy :: apply_strategy
  pn_apply_allowlist :: "string list"
  pn_on_fail :: on_fail
  pn_max_attempts :: u32
  pn_circuit_breaker_threshold :: u32
  pn_parent_plan_id :: "string option"
  pn_owner_job_id :: "string option"
  pn_root_planner_accounting :: "root_planner_accounting option"
  pn_conductor_pid :: "u32 option"
  pn_status :: plan_status
  pn_created_at :: timestamp
  pn_forked_at :: "timestamp option"
  pn_merged_at :: "timestamp option"
  pn_merged_run_id :: "string option"
  pn_deadreckon_version :: string

section \<open>Validation\<close>

definition plan_error :: "plan_fault \<Rightarrow> dr_error" where
  "plan_error f = InvalidInput (PlanFault f)"

definition validate_task_count :: "nat \<Rightarrow> unit res" where
  "validate_task_count count =
    (if count \<le> 1 then Inl (plan_error TooFewChildren)
     else if count \<le> 6 then Inr ()
     else Inl (plan_error (TooManyChildren count)))"

definition validate_nonempty :: "string \<Rightarrow> string \<Rightarrow> unit res" where
  "validate_nonempty v field = (if blank v then Inl (plan_error (EmptyField field)) else Inr ())"

definition normalized_subject :: "string \<Rightarrow> string" where
  "normalized_subject s = to_ascii_lowercase (join_with '' '' (split_whitespace s))"

text \<open>The first loop: each task's index, text fields, id and subject; the state is the two sets.\<close>

definition check_task_identity ::
    "string set \<times> string set \<Rightarrow> nat \<times> plan_task \<Rightarrow> (string set \<times> string set) res" where
  "check_task_identity = (\<lambda>(ids, subjects) (expected, t).
    if tk_index t \<noteq> of_nat expected then
      Inl (plan_error (ChildIndex (tk_task_id t) (tk_index t) expected))
    else
      res_bind (validate_nonempty (tk_task_id t) ''task_id'') (\<lambda>_.
      res_bind (validate_nonempty (tk_subject t) ''subject'') (\<lambda>_.
      res_bind (validate_nonempty (tk_goal t) ''goal'') (\<lambda>_.
      if tk_task_id t \<in> ids then Inl (plan_error (DuplicateChild (tk_task_id t)))
      else if normalized_subject (tk_subject t) \<in> subjects then
        Inl (plan_error (DuplicateSubject (tk_subject t)))
      else Inr (insert (tk_task_id t) ids, insert (normalized_subject (tk_subject t)) subjects)))))"

definition check_dependency :: "string set \<Rightarrow> plan_task \<Rightarrow> unit \<Rightarrow> string \<Rightarrow> unit res" where
  "check_dependency ids t u d =
    (if d \<notin> ids then Inl (plan_error (UnknownDependency (tk_task_id t) d))
     else if d = tk_task_id t then Inl (plan_error (SelfDependency (tk_task_id t)))
     else Inr ())"

definition check_task_edges :: "string set \<Rightarrow> unit \<Rightarrow> plan_task \<Rightarrow> unit res" where
  "check_task_edges ids u t =
    res_bind (fold_res (check_dependency ids t) () (tk_depends_on t)) (\<lambda>_.
    case tk_subplan t of
      None \<Rightarrow> Inr ()
    | Some subplan \<Rightarrow>
        res_bind (validate_nonempty subplan ''subplan'') (\<lambda>_.
        if subplan = tk_task_id t then Inl (plan_error (SelfSubplan (tk_task_id t))) else Inr ()))"

section \<open>The cycle check\<close>

datatype mark = Visiting | Done

type_synonym marks = "string \<rightharpoonup> mark"

text \<open>The dependencies looked up in \<open>by_id\<close>; an unknown id has none.\<close>

definition deps_of :: "(string \<rightharpoonup> plan_task) \<Rightarrow> string \<Rightarrow> string list" where
  "deps_of by_id i = (case by_id i of None \<Rightarrow> [] | Some t \<Rightarrow> tk_depends_on t)"

text \<open>One \<open>for\<close> loop over dependencies; the outer option is running out of fuel.\<close>

primrec visit_list ::
    "(string \<Rightarrow> marks \<Rightarrow> marks res option) \<Rightarrow> string list \<Rightarrow> marks \<Rightarrow> marks res option" where
  "visit_list v [] m = Some (Inr m)"
| "visit_list v (d # ds) m =
    (case v d m of
       None \<Rightarrow> None
     | Some (Inl e) \<Rightarrow> Some (Inl e)
     | Some (Inr m') \<Rightarrow> visit_list v ds m')"

primrec visit :: "nat \<Rightarrow> (string \<rightharpoonup> plan_task) \<Rightarrow> string \<Rightarrow> marks \<Rightarrow> marks res option" where
  "visit 0 by_id i m = None"
| "visit (Suc fuel) by_id i m =
    (case m i of
       Some Visiting \<Rightarrow> Some (Inl (plan_error (DependencyCycle i)))
     | Some Done \<Rightarrow> Some (Inr m)
     | None \<Rightarrow>
        (case visit_list (visit fuel by_id) (deps_of by_id i) (m(i \<mapsto> Visiting)) of
           None \<Rightarrow> None
         | Some (Inl e) \<Rightarrow> Some (Inl e)
         | Some (Inr m') \<Rightarrow> Some (Inr (m'(i \<mapsto> Done)))))"

definition task_map :: "plan_task list \<Rightarrow> string \<rightharpoonup> plan_task" where
  "task_map ts = map_of (rev (map (\<lambda>t. (tk_task_id t, t)) ts))"

definition detect_task_cycle_fuel :: "nat \<Rightarrow> plan_task list \<Rightarrow> unit res option" where
  "detect_task_cycle_fuel fuel ts =
    (case visit_list (visit fuel (task_map ts)) (map tk_task_id ts) Map.empty of
       None \<Rightarrow> None
     | Some r \<Rightarrow> Some (res_bind r (\<lambda>_. Inr ())))"

definition detect_task_cycle :: "plan_task list \<Rightarrow> unit res" where
  "detect_task_cycle ts = the (detect_task_cycle_fuel (Suc (length ts)) ts)"

definition validate_task_graph :: "plan_task list \<Rightarrow> unit res" where
  "validate_task_graph ts =
    res_bind (validate_task_count (length ts)) (\<lambda>_.
    res_bind (fold_res check_task_identity ({}, {}) (enumerate 0 ts)) (\<lambda>(ids, subjects).
    res_bind (fold_res (check_task_edges ids) () ts) (\<lambda>_.
    detect_task_cycle ts)))"

definition plan_new ::
    "string \<Rightarrow> plan_mode \<Rightarrow> plan_task list \<Rightarrow> plan_providers \<Rightarrow> string option \<Rightarrow> string \<Rightarrow> string \<Rightarrow> timestamp
      \<Rightarrow> plan res" where
  "plan_new root_goal mode tasks providers parent_scope version plan_id now =
    res_bind (validate_task_graph tasks) (\<lambda>_.
    Inr \<lparr>pn_schema_version = PLAN_SCHEMA_VERSION, pn_plan_id = plan_id, pn_root_goal = root_goal,
      pn_mode = mode, pn_n = of_nat (length tasks), pn_providers = providers,
      pn_capability_preview = default_capability_preview, pn_tasks = tasks,
      pn_parent_scope = parent_scope, pn_parent_cwd = None, pn_acceptance_path = None,
      pn_apply = AtEnd, pn_branch_policy = Stack, pn_apply_strategy = Squash, pn_apply_allowlist = [],
      pn_on_fail = Skip, pn_max_attempts = DEFAULT_MAX_ATTEMPTS,
      pn_circuit_breaker_threshold = DEFAULT_CIRCUIT_BREAKER_THRESHOLD, pn_parent_plan_id = None,
      pn_owner_job_id = None, pn_root_planner_accounting = None, pn_conductor_pid = None,
      pn_status = PlanPending, pn_created_at = now, pn_forked_at = None, pn_merged_at = None,
      pn_merged_run_id = None, pn_deadreckon_version = version\<rparr>)"

section \<open>Readiness\<close>

definition task_by_id :: "plan \<Rightarrow> string \<Rightarrow> plan_task option" where
  "task_by_id p i = find (\<lambda>t. tk_task_id t = i) (pn_tasks p)"

definition satisfied :: "on_fail \<Rightarrow> plan_task \<Rightarrow> bool" where
  "satisfied policy t \<longleftrightarrow>
    satisfies_dependency (tk_status t)
    \<or> policy = Continue \<and> (tk_status t = plan_task_status.Failed \<or> tk_status t = Killed)"

definition ready_pending_task_indices_for :: "plan \<Rightarrow> on_fail \<Rightarrow> nat list" where
  "ready_pending_task_indices_for p policy =
    (let ok = set (map tk_task_id (filter (satisfied policy) (pn_tasks p)))
     in map fst (filter (\<lambda>(i, t). tk_status t = Pending \<and> list_all (\<lambda>d. d \<in> ok) (tk_depends_on t))
       (enumerate 0 (pn_tasks p))))"

definition ready_pending_task_indices :: "plan \<Rightarrow> nat list" where
  "ready_pending_task_indices p = ready_pending_task_indices_for p (pn_on_fail p)"

definition plan_attempts_spend_usd :: "plan \<Rightarrow> f64" where
  "plan_attempts_spend_usd p = sum_list (map attempts_spend_usd (pn_tasks p))"

definition guard_subplan_depth :: "u32 \<Rightarrow> unit res" where
  "guard_subplan_depth current_depth =
    (if current_depth + 1 \<ge> MAX_SUBPLAN_DEPTH then Inl (plan_error (SubplanDepth current_depth))
     else Inr ())"

section \<open>Dependencies as a relation\<close>

text \<open>\<open>(d, i)\<close> when the task \<open>i\<close> depends on \<open>d\<close>.\<close>

definition dep_rel :: "(string \<rightharpoonup> plan_task) \<Rightarrow> (string \<times> string) set" where
  "dep_rel by_id = {(d, i). d \<in> set (deps_of by_id i)}"

definition depends :: "plan_task list \<Rightarrow> (string \<times> string) set" where
  "depends ts = {(d, i). \<exists>t\<in>set ts. tk_task_id t = i \<and> d \<in> set (tk_depends_on t)}"

definition visiting :: "marks \<Rightarrow> string set" where
  "visiting m = {i. m i = Some Visiting}"

definition done_set :: "marks \<Rightarrow> string set" where
  "done_set m = {i. m i = Some Done}"

definition unmarked :: "(string \<rightharpoonup> plan_task) \<Rightarrow> marks \<Rightarrow> string set" where
  "unmarked by_id m = dom by_id - dom m"

lemmas visit_Suc = visit.simps(2)

declare visit.simps(2) [simp del]

text \<open>Marks only grow, the ids being visited are restored, and the visited id is done.\<close>

definition extends :: "marks \<Rightarrow> marks \<Rightarrow> bool" where
  "extends m m' \<longleftrightarrow> dom m \<subseteq> dom m' \<and> done_set m \<subseteq> done_set m' \<and> visiting m' = visiting m"

lemma extends_refl [simp]: "extends m m"
  by (simp add: extends_def)

lemma extends_trans: "extends a b \<Longrightarrow> extends b c \<Longrightarrow> extends a c"
  by (auto simp: extends_def)

lemma visit_list_extends:
  assumes "\<And>d m m'. v d m = Some (Inr m') \<Longrightarrow> extends m m' \<and> d \<in> done_set m'"
    and "visit_list v ds m = Some (Inr m')"
  shows "extends m m' \<and> set ds \<subseteq> done_set m'"
  using assms(2)
proof (induction ds arbitrary: m)
  case (Cons d ds)
  then obtain m1 where m1: "v d m = Some (Inr m1)" "visit_list v ds m1 = Some (Inr m')"
    by (auto split: option.splits sum.splits)
  from assms(1) [OF m1(1)] Cons.IH [OF m1(2)] show ?case
    by (auto intro: extends_trans simp: extends_def)
qed simp

lemma visit_extends:
  "visit fuel by_id i m = Some (Inr m') \<Longrightarrow> extends m m' \<and> i \<in> done_set m'"
proof (induction fuel arbitrary: i m m')
  case (Suc fuel)
  show ?case
  proof (cases "m i")
    case None
    then obtain m1 where m1: "visit_list (visit fuel by_id) (deps_of by_id i) (m(i \<mapsto> Visiting)) = Some (Inr m1)"
        "m' = m1(i \<mapsto> Done)"
      using Suc.prems by (auto simp: visit_Suc split: option.splits sum.splits)
    have "extends (m(i \<mapsto> Visiting)) m1"
      using visit_list_extends [OF Suc.IH m1(1)] by blast
    with None m1(2) show ?thesis
      by (auto simp: extends_def visiting_def done_set_def dom_def split: if_splits)
  next
    case (Some x)
    then show ?thesis
      using Suc.prems by (cases x) (auto simp: visit_Suc done_set_def)
  qed
qed simp

lemma visits_extend:
  "visit_list (visit fuel by_id) ds m = Some (Inr m') \<Longrightarrow> extends m m' \<and> set ds \<subseteq> done_set m'"
  by (rule visit_list_extends) (rule visit_extends)

section \<open>Fuel\<close>

lemma visit_list_runs:
  assumes "\<And>d m. measure_of m \<le> (k::nat) \<Longrightarrow> v d m \<noteq> None"
    and "\<And>d m m'. v d m = Some (Inr m') \<Longrightarrow> measure_of m' \<le> measure_of m"
    and "measure_of m \<le> k"
  shows "visit_list v ds m \<noteq> None"
  using assms(3)
proof (induction ds arbitrary: m)
  case (Cons d ds)
  then show ?case
    using assms(1) [of m d] assms(2) [of d m] by (force split: option.splits sum.splits)
qed simp

lemma unmarked_mono:
  "finite (dom by_id) \<Longrightarrow> extends m m' \<Longrightarrow> card (unmarked by_id m') \<le> card (unmarked by_id m)"
  by (auto simp: unmarked_def extends_def intro!: card_mono)

text \<open>With more fuel than unmarked tasks a visit always returns.\<close>

lemma visit_returns:
  assumes "finite (dom by_id)"
  shows "card (unmarked by_id m) < fuel \<Longrightarrow> visit fuel by_id i m \<noteq> None"
proof (induction fuel arbitrary: i m)
  case (Suc fuel)
  show ?case
  proof (cases "m i")
    case None
    show ?thesis
    proof (cases "by_id i")
      case unknown: None
      with None show ?thesis by (simp add: visit_Suc deps_of_def)
    next
      case (Some t)
      have "unmarked by_id (m(i \<mapsto> Visiting)) \<subset> unmarked by_id m"
        using Some None by (auto simp: unmarked_def)
      moreover have "finite (unmarked by_id m)" using assms by (simp add: unmarked_def)
      ultimately have less: "card (unmarked by_id (m(i \<mapsto> Visiting))) < fuel"
        using psubset_card_mono Suc.prems by (metis less_Suc_eq_le order_less_le_trans)
      have "visit_list (visit fuel by_id) (deps_of by_id i) (m(i \<mapsto> Visiting)) \<noteq> None"
      proof (rule visit_list_runs [where measure_of = "\<lambda>m. card (unmarked by_id m)" and k = "fuel - 1"])
        show "card (unmarked by_id m) \<le> fuel - 1 \<Longrightarrow> visit fuel by_id d m \<noteq> None" for d m
          using Suc.IH [of m d] less by linarith
        show "visit fuel by_id d m = Some (Inr m') \<Longrightarrow> card (unmarked by_id m') \<le> card (unmarked by_id m)"
          for d m m'
          using visit_extends unmarked_mono [OF assms] by blast
      qed (use less in linarith)
      with None show ?thesis by (auto simp: visit_Suc split: option.splits sum.splits)
    qed
  next
    case (Some x)
    then show ?thesis by (cases x) (simp_all add: visit_Suc)
  qed
qed simp

lemma dom_task_map: "dom (task_map ts) = tk_task_id ` set ts"
  by (auto simp: task_map_def dom_map_of_conv_image_fst image_image)

lemma detect_returns: "detect_task_cycle_fuel (Suc (length ts)) ts \<noteq> None"
proof -
  have fin: "finite (dom (task_map ts))" by (simp add: dom_task_map)
  have "card (unmarked (task_map ts) Map.empty) \<le> length ts"
    using card_image_le [of "set ts" tk_task_id] card_length [of ts]
    by (simp add: unmarked_def dom_task_map)
  then have "visit_list (visit (Suc (length ts)) (task_map ts)) (map tk_task_id ts) Map.empty \<noteq> None"
  proof (intro visit_list_runs [where measure_of = "\<lambda>m. card (unmarked (task_map ts) m)" and k = "length ts"])
    show "card (unmarked (task_map ts) m) \<le> length ts \<Longrightarrow> visit (Suc (length ts)) (task_map ts) d m \<noteq> None" for d m
      using visit_returns [OF fin] by simp
    show "visit (Suc (length ts)) (task_map ts) d m = Some (Inr m') \<Longrightarrow>
        card (unmarked (task_map ts) m') \<le> card (unmarked (task_map ts) m)" for d m m'
      using visit_extends unmarked_mono [OF fin] by blast
  qed
  then show ?thesis by (auto simp: detect_task_cycle_fuel_def split: option.splits)
qed

section \<open>Cycles\<close>

text \<open>Finished ids have no cycle behind them: they are in the accessible part of the relation.\<close>

lemma visit_list_acc:
  assumes "\<And>d m m'. v d m = Some (Inr m') \<Longrightarrow> done_set m \<subseteq> A \<Longrightarrow> done_set m' \<subseteq> A"
    and "visit_list v ds m = Some (Inr m')" "done_set m \<subseteq> A"
  shows "done_set m' \<subseteq> A"
  using assms(2,3)
proof (induction ds arbitrary: m)
  case (Cons d ds)
  then obtain m1 where "v d m = Some (Inr m1)" "visit_list v ds m1 = Some (Inr m')"
    by (auto split: option.splits sum.splits)
  with Cons assms(1) show ?case by blast
qed simp

lemma visit_acc:
  "visit fuel by_id i m = Some (Inr m') \<Longrightarrow> done_set m \<subseteq> Wellfounded.acc (dep_rel by_id) \<Longrightarrow>
    done_set m' \<subseteq> Wellfounded.acc (dep_rel by_id)"
proof (induction fuel arbitrary: i m m')
  case (Suc fuel)
  show ?case
  proof (cases "m i")
    case None
    then obtain m1 where m1: "visit_list (visit fuel by_id) (deps_of by_id i) (m(i \<mapsto> Visiting)) = Some (Inr m1)"
        "m' = m1(i \<mapsto> Done)"
      using Suc.prems by (auto simp: visit_Suc split: option.splits sum.splits)
    have start: "done_set (m(i \<mapsto> Visiting)) \<subseteq> Wellfounded.acc (dep_rel by_id)"
      using Suc.prems(2) by (auto simp: done_set_def)
    have sub: "done_set m1 \<subseteq> Wellfounded.acc (dep_rel by_id)"
      by (rule visit_list_acc [OF _ m1(1) start]) (rule Suc.IH)
    moreover have "set (deps_of by_id i) \<subseteq> done_set m1"
      using visits_extend [OF m1(1)] by blast
    ultimately have "i \<in> Wellfounded.acc (dep_rel by_id)"
      by (intro accI [of i]) (auto simp: dep_rel_def)
    with sub m1(2) show ?thesis by (auto simp: done_set_def)
  next
    case (Some x)
    then show ?thesis
      using Suc.prems by (cases x) (auto simp: visit_Suc)
  qed
qed simp

lemma acc_no_cycle: "x \<in> Wellfounded.acc r \<Longrightarrow> (x, x) \<notin> r\<^sup>+"
proof (induction rule: acc_induct_rule)
  fix x
  assume IH: "\<And>y. (y, x) \<in> r \<Longrightarrow> (y, y) \<notin> r\<^sup>+"
  show "(x, x) \<notin> r\<^sup>+"
  proof
    assume "(x, x) \<in> r\<^sup>+"
    then obtain y where y: "(x, y) \<in> r\<^sup>*" "(y, x) \<in> r" by (meson tranclD2)
    then have "(y, y) \<in> r\<^sup>+" by (meson rtrancl_into_trancl2)
    with IH [OF y(2)] show False by blast
  qed
qed

text \<open>A refused graph has a cycle: every id being visited depends on the current one.\<close>

lemma visit_list_cycle:
  assumes ext: "\<And>d m m'. v d m = Some (Inr m') \<Longrightarrow> visiting m' = visiting m"
    and err: "\<And>d m e. v d m = Some (Inl e) \<Longrightarrow> \<forall>x\<in>visiting m. (d, x) \<in> r\<^sup>+ \<Longrightarrow> \<exists>x. (x, x) \<in> r\<^sup>+"
    and "visit_list v ds m = Some (Inl e)" "\<forall>d\<in>set ds. \<forall>x\<in>visiting m. (d, x) \<in> r\<^sup>+"
  shows "\<exists>x. (x, x) \<in> r\<^sup>+"
  using assms(3,4)
proof (induction ds arbitrary: m)
  case (Cons d ds)
  show ?case
  proof (cases "v d m")
    case (Some w)
    show ?thesis
    proof (cases w)
      case (Inl e')
      with Some err Cons.prems(2) show ?thesis by auto
    next
      case (Inr m1)
      then have "visit_list v ds m1 = Some (Inl e)" "visiting m1 = visiting m"
        using Cons.prems(1) Some ext by auto
      with Cons.IH Cons.prems(2) show ?thesis by auto
    qed
  qed (use Cons.prems in simp)
qed simp

lemma visit_cycle:
  "visit fuel by_id i m = Some (Inl e) \<Longrightarrow> \<forall>x\<in>visiting m. (i, x) \<in> (dep_rel by_id)\<^sup>+ \<Longrightarrow>
    \<exists>x. (x, x) \<in> (dep_rel by_id)\<^sup>+"
proof (induction fuel arbitrary: i m e)
  case (Suc fuel)
  show ?case
  proof (cases "m i")
    case None
    then obtain e' where e': "visit_list (visit fuel by_id) (deps_of by_id i) (m(i \<mapsto> Visiting)) = Some (Inl e')"
      using Suc.prems by (auto simp: visit_Suc split: option.splits sum.splits)
    have below: "(d, x) \<in> (dep_rel by_id)\<^sup>+"
      if "d \<in> set (deps_of by_id i)" "x \<in> visiting (m(i \<mapsto> Visiting))" for d x
    proof (cases "x = i")
      case True
      with that(1) show ?thesis by (auto simp: dep_rel_def)
    next
      case False
      then have "(i, x) \<in> (dep_rel by_id)\<^sup>+" using that(2) Suc.prems(2) by (auto simp: visiting_def)
      moreover have "(d, i) \<in> dep_rel by_id" using that(1) by (simp add: dep_rel_def)
      ultimately show ?thesis by (rule trancl_into_trancl2 [rotated])
    qed
    show ?thesis
    proof (rule visit_list_cycle [OF _ _ e'])
      show "visit fuel by_id d m = Some (Inr m') \<Longrightarrow> visiting m' = visiting m" for d m m'
        using visit_extends by (auto simp: extends_def)
    qed (use Suc.IH below in blast)+
  next
    case (Some x)
    then show ?thesis
      using Suc.prems by (cases x) (auto simp: visit_Suc visiting_def)
  qed
qed simp

lemma dep_rel_task_map:
  assumes "distinct (map tk_task_id ts)"
  shows "dep_rel (task_map ts) = depends ts"
proof -
  have keys: "map fst (rev (map (\<lambda>t. (tk_task_id t, t)) ts)) = rev (map tk_task_id ts)"
    by (simp add: rev_map comp_def)
  have look: "task_map ts i = Some t \<longleftrightarrow> t \<in> set ts \<and> tk_task_id t = i" for i t
    using map_of_eq_Some_iff [of "rev (map (\<lambda>t. (tk_task_id t, t)) ts)" i t] assms keys
    by (auto simp: task_map_def)
  have "d \<in> set (deps_of (task_map ts) i) \<longleftrightarrow> (\<exists>t. task_map ts i = Some t \<and> d \<in> set (tk_depends_on t))" for d i
    by (cases "task_map ts i") (simp_all add: deps_of_def)
  then show ?thesis unfolding dep_rel_def depends_def look by blast
qed

lemma detect_task_cycle_acyclic:
  assumes "distinct (map tk_task_id ts)"
  shows "detect_task_cycle ts = Inr () \<longleftrightarrow> acyclic (depends ts)"
proof -
  let ?m = "task_map ts" and ?fuel = "Suc (length ts)"
  obtain r where r: "visit_list (visit ?fuel ?m) (map tk_task_id ts) Map.empty = Some r"
    using detect_returns [of ts] by (auto simp: detect_task_cycle_fuel_def split: option.splits)
  then have d: "detect_task_cycle ts = res_bind r (\<lambda>_. Inr ())"
    by (simp add: detect_task_cycle_def detect_task_cycle_fuel_def)
  have rel: "dep_rel ?m = depends ts" by (rule dep_rel_task_map [OF assms])
  show ?thesis
  proof (cases r)
    case (Inl e)
    have "\<exists>x. (x, x) \<in> (dep_rel ?m)\<^sup>+"
    proof (rule visit_list_cycle)
      show "visit ?fuel ?m d m = Some (Inr m') \<Longrightarrow> visiting m' = visiting m" for d m m'
        using visit_extends by (auto simp: extends_def)
      show "visit_list (visit ?fuel ?m) (map tk_task_id ts) Map.empty = Some (Inl e)" using r Inl by simp
    qed (use visit_cycle in \<open>auto simp: visiting_def\<close>)
    with rel d Inl show ?thesis by (auto simp: acyclic_def)
  next
    case (Inr m')
    have "visit_list (visit ?fuel ?m) (map tk_task_id ts) Map.empty = Some (Inr m')" using r Inr by simp
    from visits_extend [OF this] have "set (map tk_task_id ts) \<subseteq> done_set m'" by blast
    moreover have "done_set m' \<subseteq> Wellfounded.acc (dep_rel ?m)"
      by (rule visit_list_acc [where v = "visit ?fuel ?m"], erule (1) visit_acc)
        (use r Inr in \<open>auto simp: done_set_def\<close>)
    ultimately have "i \<in> tk_task_id ` set ts \<Longrightarrow> i \<in> Wellfounded.acc (depends ts)" for i
      unfolding rel by auto
    then have "i \<in> tk_task_id ` set ts \<Longrightarrow> (i, i) \<notin> (depends ts)\<^sup>+" for i
      by (intro acc_no_cycle)
    moreover have "(i, i) \<in> (depends ts)\<^sup>+ \<Longrightarrow> i \<in> tk_task_id ` set ts" for i
      by (drule tranclD2) (auto simp: depends_def)
    ultimately have "acyclic (depends ts)" unfolding acyclic_def by blast
    with d Inr show ?thesis by simp
  qed
qed

section \<open>What validation accepts\<close>

definition well_named :: "plan_task \<Rightarrow> bool" where
  "well_named t \<longleftrightarrow> \<not> blank (tk_task_id t) \<and> \<not> blank (tk_subject t) \<and> \<not> blank (tk_goal t)"

definition edges_ok :: "string set \<Rightarrow> plan_task \<Rightarrow> bool" where
  "edges_ok ids t \<longleftrightarrow> (\<forall>d\<in>set (tk_depends_on t). d \<in> ids \<and> d \<noteq> tk_task_id t)
    \<and> (\<forall>p. tk_subplan t = Some p \<longrightarrow> \<not> blank p \<and> p \<noteq> tk_task_id t)"

definition valid_graph :: "plan_task list \<Rightarrow> bool" where
  "valid_graph ts \<longleftrightarrow>
    2 \<le> length ts \<and> length ts \<le> 6
    \<and> (\<forall>i<length ts. tk_index (ts ! i) = of_nat i)
    \<and> (\<forall>t\<in>set ts. well_named t \<and> edges_ok (tk_task_id ` set ts) t)
    \<and> distinct (map tk_task_id ts) \<and> distinct (map (normalized_subject \<circ> tk_subject) ts)
    \<and> acyclic (depends ts)"

lemma validate_nonempty_Inr [result_simps]: "validate_nonempty v f = Inr u \<longleftrightarrow> \<not> blank v"
  by (simp add: validate_nonempty_def)

lemma check_task_identity_Inr:
  "check_task_identity (ids, subs) (k, t) = Inr x \<longleftrightarrow>
    tk_index t = of_nat k \<and> well_named t \<and> tk_task_id t \<notin> ids \<and> normalized_subject (tk_subject t) \<notin> subs
    \<and> x = (insert (tk_task_id t) ids, insert (normalized_subject (tk_subject t)) subs)"
  by (auto simp: check_task_identity_def well_named_def result_simps split: if_splits)

lemma check_identities:
  "fold_res check_task_identity (ids, subs) (enumerate k ts) = Inr x \<longleftrightarrow>
    (\<forall>i<length ts. tk_index (ts ! i) = of_nat (k + i)) \<and> (\<forall>t\<in>set ts. well_named t)
    \<and> distinct (map tk_task_id ts) \<and> tk_task_id ` set ts \<inter> ids = {}
    \<and> distinct (map (normalized_subject \<circ> tk_subject) ts)
    \<and> (normalized_subject \<circ> tk_subject) ` set ts \<inter> subs = {}
    \<and> x = (ids \<union> tk_task_id ` set ts, subs \<union> (normalized_subject \<circ> tk_subject) ` set ts)"
proof (induction ts arbitrary: ids subs k)
  case (Cons t ts)
  have split: "(\<forall>i<Suc n. P i) \<longleftrightarrow> P 0 \<and> (\<forall>i<n. P (Suc i))" for n and P :: "nat \<Rightarrow> bool"
    by (auto simp: less_Suc_eq_0_disj)
  show ?case
    by (auto simp: res_bind_Inr_iff check_task_identity_Inr Cons.IH split)
qed auto

lemma check_dependencies:
  "fold_res (check_dependency ids t) () ds = Inr u \<longleftrightarrow> (\<forall>d\<in>set ds. d \<in> ids \<and> d \<noteq> tk_task_id t)"
  by (induction ds) (auto simp: res_bind_Inr_iff check_dependency_def)

lemma check_edges: "fold_res (check_task_edges ids) () ts = Inr u \<longleftrightarrow> (\<forall>t\<in>set ts. edges_ok ids t)"
proof (induction ts)
  case (Cons t ts)
  have "check_task_edges ids () t = Inr v \<longleftrightarrow> edges_ok ids t" for v
    by (auto simp: check_task_edges_def edges_ok_def check_dependencies result_simps split: option.splits if_splits)
  with Cons show ?case by (auto simp: res_bind_Inr_iff)
qed simp

lemma valid_graph_checked: "validate_task_graph ts = Inr () \<longleftrightarrow> valid_graph ts"
proof -
  have count: "validate_task_count n = Inr u \<longleftrightarrow> 2 \<le> n \<and> n \<le> 6" for n u
    by (auto simp: validate_task_count_def)
  show ?thesis
    unfolding validate_task_graph_def res_bind_Inr_iff count valid_graph_def
    using detect_task_cycle_acyclic [of ts] by (auto simp: check_identities check_edges res_bind_Inr_iff)
qed

text \<open>
  C7: The validation of a task graph accepts exactly the well-formed graphs: two to six children with
  consecutive indices, non-blank texts, unique ids and subjects, dependencies that are other children
  of the same plan, and no dependency cycle.
\<close>

theorem validate_task_graph_iff: "validate_task_graph ts = Inr () \<longleftrightarrow> valid_graph ts"
  by (rule valid_graph_checked)

text \<open>
  C18: The depth-first cycle check always returns: its recursion is never deeper than the number of
  tasks, for every task list, valid or not.
\<close>

theorem cycle_check_terminates:
  "\<exists>r. detect_task_cycle_fuel (Suc (length ts)) ts = Some r"
  using detect_returns [of ts] by blast

section \<open>Progress of a plan\<close>

lemma ready_iff:
  "i \<in> set (ready_pending_task_indices_for p policy) \<longleftrightarrow>
    i < length (pn_tasks p) \<and> tk_status (pn_tasks p ! i) = Pending
    \<and> (\<forall>d\<in>set (tk_depends_on (pn_tasks p ! i)).
        \<exists>t\<in>set (pn_tasks p). satisfied policy t \<and> tk_task_id t = d)"
  by (force simp: ready_pending_task_indices_for_def Let_def in_set_enumerate_eq list_all_iff image_iff)

lemma finite_depends: "finite (depends ts)"
proof -
  have "depends ts = (\<Union>t\<in>set ts. (\<lambda>d. (d, tk_task_id t)) ` set (tk_depends_on t))"
    by (auto simp: depends_def)
  then show ?thesis by simp
qed

text \<open>
  C8: A plan whose graph was accepted never gets stuck: while some task is pending and every other task
  is either pending or settled for the failure policy, at least one task is ready to start; and every
  task reported ready is pending with all its dependencies settled.
\<close>

theorem accepted_plan_makes_progress:
  assumes "valid_graph (pn_tasks p)"
    and "\<exists>t\<in>set (pn_tasks p). tk_status t = Pending"
    and "\<forall>t\<in>set (pn_tasks p). tk_status t = Pending \<or> satisfied policy t"
  shows "ready_pending_task_indices_for p policy \<noteq> []
    \<and> (\<forall>i\<in>set (ready_pending_task_indices_for p policy). tk_status (pn_tasks p ! i) = Pending
      \<and> (\<forall>d\<in>set (tk_depends_on (pn_tasks p ! i)).
          \<exists>t\<in>set (pn_tasks p). satisfied policy t \<and> tk_task_id t = d))"
proof -
  let ?ts = "pn_tasks p"
  have wf: "wf (depends ?ts)"
    using assms(1) finite_depends by (auto simp: valid_graph_def intro: finite_acyclic_wf)
  let ?Q = "{tk_task_id t | t. t \<in> set ?ts \<and> tk_status t = Pending}"
  obtain i where i: "i \<in> ?Q" "\<And>y. (y, i) \<in> depends ?ts \<Longrightarrow> y \<notin> ?Q"
    using wfE_min [OF wf, of _ ?Q] assms(2) by blast
  then obtain t where t: "t \<in> set ?ts" "tk_status t = Pending" "tk_task_id t = i" by blast
  have "\<exists>u\<in>set ?ts. satisfied policy u \<and> tk_task_id u = d" if "d \<in> set (tk_depends_on t)" for d
  proof -
    have "(d, i) \<in> depends ?ts" using that t by (auto simp: depends_def)
    then have "d \<notin> ?Q" using i(2) by blast
    moreover have "edges_ok (tk_task_id ` set ?ts) t"
      using assms(1) t(1) by (simp add: valid_graph_def)
    with that obtain u where "u \<in> set ?ts" "tk_task_id u = d" by (auto simp: edges_ok_def)
    ultimately show ?thesis using assms(3) by blast
  qed
  moreover obtain k where "k < length ?ts" "?ts ! k = t" using t(1) by (auto simp: in_set_conv_nth)
  ultimately have "k \<in> set (ready_pending_task_indices_for p policy)"
    using t(2) by (simp add: ready_iff)
  then have "ready_pending_task_indices_for p policy \<noteq> []" by auto
  then show ?thesis by (simp add: ready_iff)
qed

text \<open>A plan of two tasks, the second after the first.\<close>

definition sample_tasks :: "plan_task list" where
  "sample_tasks = [plan_task_new 0 ''Shell'' ''g'' Child None,
    (plan_task_new 1 ''Tests'' ''g'' Child None)\<lparr>tk_depends_on := [''task-0'']\<rparr>]"

definition sample_plan :: plan where
  "sample_plan =
    \<lparr>pn_schema_version = 2, pn_plan_id = ''p'', pn_root_goal = ''g'', pn_mode = FullPlan, pn_n = 2,
     pn_providers = \<lparr>pp_planner = None, pp_default_child = None, pp_coder = None, pp_reviewer = None,
       pp_children = Map.empty, pp_planner_model = None, pp_default_child_model = None,
       pp_coder_model = None, pp_reviewer_model = None, pp_child_models = Map.empty\<rparr>,
     pn_capability_preview = default_capability_preview, pn_tasks = sample_tasks,
     pn_parent_scope = None, pn_parent_cwd = None, pn_acceptance_path = None, pn_apply = AtEnd,
     pn_branch_policy = Stack, pn_apply_strategy = Squash, pn_apply_allowlist = [], pn_on_fail = Skip,
     pn_max_attempts = 3, pn_circuit_breaker_threshold = 2, pn_parent_plan_id = None,
     pn_owner_job_id = Some ''job'', pn_root_planner_accounting = None, pn_conductor_pid = None,
     pn_status = PlanPending, pn_created_at = 0, pn_forked_at = None, pn_merged_at = None,
     pn_merged_run_id = None, pn_deadreckon_version = ''v''\<rparr>"

lemma sample_task_ids: "show_nat 0 = ''0''" "show_nat (Suc 0) = ''1''"
  by code_simp+

lemma sample_tasks_valid: "valid_graph sample_tasks"
proof -
  have texts: "\<not> blank ''task-0''" "\<not> blank ''task-1''" "\<not> blank ''Shell''" "\<not> blank ''Tests''" "\<not> blank ''g''"
      "normalized_subject ''Tests'' \<noteq> normalized_subject ''Shell''"
    by code_simp+
  have "validate_task_graph sample_tasks = Inr ()"
    by (simp add: sample_tasks_def plan_task_new_def validate_task_graph_def validate_task_count_def
        check_task_identity_def validate_nonempty_def texts check_task_edges_def check_dependency_def
        detect_task_cycle_def detect_task_cycle_fuel_def visit.simps deps_of_def task_map_def sample_task_ids)
  then show ?thesis by (simp add: valid_graph_checked)
qed

theorem accepted_plan_makes_progress_witness:
  "ready_pending_task_indices_for sample_plan Skip \<noteq> []"
proof -
  have "valid_graph (pn_tasks sample_plan)" by (simp add: sample_plan_def sample_tasks_valid)
  moreover have "\<exists>t\<in>set (pn_tasks sample_plan). tk_status t = Pending"
      "\<forall>t\<in>set (pn_tasks sample_plan). tk_status t = Pending \<or> satisfied Skip t"
    by (simp_all add: sample_plan_def sample_tasks_def plan_task_new_def)
  ultimately show ?thesis using accepted_plan_makes_progress by blast
qed

text \<open>
  Unique ids are not unique file names: worker specs are stored under the slug of the id, and two
  children of one accepted graph can share the file.
\<close>

definition colliding_tasks :: "plan_task list" where
  "colliding_tasks = [(plan_task_new 0 ''Shell'' ''g'' Child None)\<lparr>tk_task_id := ''a.b''\<rparr>,
    (plan_task_new 1 ''Tests'' ''g'' Child None)\<lparr>tk_task_id := ''a-b''\<rparr>]"

lemma accepted_tasks_share_worker_spec:
  "validate_task_graph colliding_tasks = Inr ()
    \<and> worker_spec home plan_id ''a.b'' = worker_spec home plan_id ''a-b''"
proof -
  have texts: "\<not> blank ''a.b''" "\<not> blank ''a-b''" "\<not> blank ''Shell''" "\<not> blank ''Tests''" "\<not> blank ''g''"
      "normalized_subject ''Tests'' \<noteq> normalized_subject ''Shell''" "sanitize_slug ''a.b'' = sanitize_slug ''a-b''"
    by code_simp+
  then show ?thesis
    by (simp add: colliding_tasks_def plan_task_new_def validate_task_graph_def validate_task_count_def
        check_task_identity_def validate_nonempty_def check_task_edges_def worker_spec_def
        detect_task_cycle_def detect_task_cycle_fuel_def visit.simps deps_of_def task_map_def)
qed

end
