(* ===== verification/Plan_Store.thy ===== *)
theory Plan_Store
  imports Plan_Graph
begin

text \<open>
  The durable side of plans (\<open>crates/deadreckon-core/src/plan.rs\<close>): plan files, messages, events,
  coordinator state, the nesting depth, and the log of ordered candidate applications, the two facts
  around each landing of a child result on the job's candidate branch. Every write to a plan owned by
  a job goes through the fence of its lease; those operations interpret \<open>fenced_operation\<close>. The fold
  of candidate events interprets \<open>event_machine\<close>: accepted logs form one chain of revisions.
  Hashing and the JSON codecs are parameters, the clock is an argument.
\<close>

section \<open>Messages and events\<close>

datatype plan_message_kind =
    Progress
  | Blocker
  | ReviewRequest
  | ReviewResponse
  | CapabilityRequest
  | ShutdownRequest
  | ShutdownResponse

record plan_message =
  pm_schema_version :: u32
  pm_ts :: timestamp
  pm_request_id :: "string option"
  pm_from :: string
  pm_to :: string
  pm_kind :: plan_message_kind
  pm_summary :: string
  pm_body :: json

definition needs_request_id :: "plan_message_kind \<Rightarrow> bool" where
  "needs_request_id k \<longleftrightarrow> k \<in> {ReviewRequest, ReviewResponse, ShutdownRequest, ShutdownResponse}"

definition plan_message_new ::
    "string \<Rightarrow> string \<Rightarrow> plan_message_kind \<Rightarrow> string \<Rightarrow> json \<Rightarrow> string \<Rightarrow> timestamp \<Rightarrow> plan_message" where
  "plan_message_new sender receiver kind summary body uuid now =
    \<lparr>pm_schema_version = 1, pm_ts = now,
     pm_request_id = (if needs_request_id kind then Some uuid else None),
     pm_from = sender, pm_to = receiver, pm_kind = kind, pm_summary = summary, pm_body = body\<rparr>"

definition validate_message_request_id :: "plan_message \<Rightarrow> unit res" where
  "validate_message_request_id msg =
    (if needs_request_id (pm_kind msg) \<and> unwrap_or (pm_request_id msg) [] = [] then
       Inl (plan_error MissingRequestId)
     else Inr ())"

datatype plan_event_kind =
    PlanCreated plan_mode nat
  | PlanStarted
  | TaskReady string nat
  | TaskStarted string nat
  | TaskRunDiscovered string nat "string option" "u32 option"
  | TaskCompleted string nat "string option" string
  | TaskSkipped string nat string
  | TaskBlocked string nat string
  | TaskFailed string nat string
  | TaskRetrying string nat u32 u32 string "string option"
  | TaskBudgetExhausted string nat budget_dimension string
  | RootBudgetExhausted budget_dimension string
  | CircuitBreakerTripped u32 u32
  | TaskApplied string nat string
  | TaskKilled string nat "string option"
  | MergeStarted
  | MergeConflict nat
  | MergeRepairPlanned nat "string option"
  | MergeRepairStarted string
  | MergeRepairRunDiscovered string "u32 option"
  | MergeRepaired string "string option"
  | MergeRepairFailed string
  | MergeCompleted string
  | PlanCompleted
  | PlanFailedEvent string
  | PlanKilled

record plan_event =
  pe_timestamp :: timestamp
  pe_plan_id :: string
  pe_event :: plan_event_kind

record plan_child_marker =
  cm_schema_version :: u32
  cm_kind :: string
  cm_parent_plan_id :: string
  cm_parent_scope :: string
  cm_parent_goal :: string
  cm_task_id :: string
  cm_child_index :: u32
  cm_task_goal :: string
  cm_worker_spec :: path
  cm_provider :: "string option"
  cm_role :: plan_role
  cm_created_at :: timestamp
  cm_deadreckon_version :: string

record coordinator_child =
  cc_child_index :: u32
  cc_task_id :: string
  cc_run_id :: "string option"
  cc_pid :: "u32 option"
  cc_scope :: "string option"
  cc_provider :: "string option"
  cc_role :: plan_role
  cc_status :: plan_task_status

record coordinator_state =
  cs_schema_version :: u32
  cs_plan_id :: string
  cs_coordinator_pid :: u32
  cs_started_at :: timestamp
  cs_children :: "coordinator_child list"

section \<open>Ordered candidate applications\<close>

datatype ordered_candidate_application_event_kind = Prepared | CompletedApplication

record ordered_candidate_application_event =
  oc_schema_version :: u32
  oc_application_id :: string
  oc_job_id :: string
  oc_plan_id :: string
  oc_task_id :: string
  oc_task_index :: nat
  oc_run_id :: string
  oc_candidate_before_revision :: string
  oc_child_base_revision :: string
  oc_child_result_revision :: string
  oc_validated_marker_sha256 :: string
  oc_apply_strategy :: apply_strategy
  oc_completed_hook_invocation_ids :: "string list"
  oc_kind :: ordered_candidate_application_event_kind
  oc_recorded_at :: timestamp
  oc_candidate_after_revision :: "string option"

abbreviation NUL :: char where "NUL \<equiv> CHR 0x00"

fun apply_strategy_str :: "apply_strategy \<Rightarrow> string" where
  "apply_strategy_str Squash = ''squash''"
| "apply_strategy_str MergeCommit = ''merge''"
| "apply_strategy_str CherryPick = ''cherry-pick''"

definition ordered_candidate_application_id ::
    "(string \<Rightarrow> string) \<Rightarrow> ordered_candidate_application_event \<Rightarrow> string" where
  "ordered_candidate_application_id sha256_text e =
    sha256_text (join_with [NUL]
      [''ordered-candidate-application-v1'', oc_job_id e, oc_plan_id e, oc_task_id e,
       show_nat (oc_task_index e), oc_run_id e, oc_candidate_before_revision e,
       oc_child_base_revision e, oc_child_result_revision e, oc_validated_marker_sha256 e,
       apply_strategy_str (oc_apply_strategy e),
       join_with [NUL] (oc_completed_hook_invocation_ids e)])"

definition candidate_fault :: "(string \<Rightarrow> plan_fault) \<Rightarrow> ordered_candidate_application_event \<Rightarrow> dr_error" where
  "candidate_fault f e = plan_error (f (oc_application_id e))"

definition verify_candidate ::
    "(string \<Rightarrow> string) \<Rightarrow> ordered_candidate_application_event \<Rightarrow> unit res" where
  "verify_candidate sha e =
    (let identity_fields = [oc_job_id e, oc_plan_id e, oc_task_id e, oc_run_id e,
           oc_candidate_before_revision e, oc_child_base_revision e, oc_child_result_revision e,
           oc_validated_marker_sha256 e];
         after_shape_is_valid = (case oc_kind e of
             Prepared \<Rightarrow> oc_candidate_after_revision e = None
           | CompletedApplication \<Rightarrow>
              (case oc_candidate_after_revision e of None \<Rightarrow> False | Some r \<Rightarrow> \<not> blank r))
     in if oc_schema_version e \<noteq> 1
         \<or> list_ex (\<lambda>v. blank v \<or> NUL \<in> set v) identity_fields
         \<or> \<not> starts_with (oc_validated_marker_sha256 e) ''sha256:''
         \<or> list_ex (\<lambda>i. \<not> starts_with i ''sha256:'' \<or> NUL \<in> set i) (oc_completed_hook_invocation_ids e)
         \<or> ordered_candidate_application_id sha e \<noteq> oc_application_id e
         \<or> \<not> after_shape_is_valid
        then Inl (candidate_fault CandidateMalformed e) else Inr ())"

definition candidate_prepared ::
    "(string \<Rightarrow> string) \<Rightarrow> string \<Rightarrow> string \<Rightarrow> string \<Rightarrow> nat \<Rightarrow> string \<Rightarrow> string \<Rightarrow> string \<Rightarrow> string \<Rightarrow> string
      \<Rightarrow> apply_strategy \<Rightarrow> string list \<Rightarrow> timestamp \<Rightarrow> ordered_candidate_application_event res" where
  "candidate_prepared sha job_id plan_id task_id task_index run_id before base result marker strategy hooks now =
    (let e = \<lparr>oc_schema_version = 1, oc_application_id = [], oc_job_id = job_id, oc_plan_id = plan_id,
           oc_task_id = task_id, oc_task_index = task_index, oc_run_id = run_id,
           oc_candidate_before_revision = before, oc_child_base_revision = base,
           oc_child_result_revision = result, oc_validated_marker_sha256 = marker,
           oc_apply_strategy = strategy, oc_completed_hook_invocation_ids = hooks, oc_kind = Prepared,
           oc_recorded_at = now, oc_candidate_after_revision = None\<rparr>;
         e = e\<lparr>oc_application_id := ordered_candidate_application_id sha e\<rparr>
     in res_bind (verify_candidate sha e) (\<lambda>_. Inr e))"

definition candidate_completed ::
    "(string \<Rightarrow> string) \<Rightarrow> ordered_candidate_application_event \<Rightarrow> string \<Rightarrow> timestamp
      \<Rightarrow> ordered_candidate_application_event res" where
  "candidate_completed sha prepared after now =
    (if oc_kind prepared \<noteq> Prepared then Inl (plan_error CompletionNeedsPrepared)
     else
       let e = prepared\<lparr>oc_kind := CompletedApplication, oc_recorded_at := now,
             oc_candidate_after_revision := Some after\<rparr>
       in res_bind (verify_candidate sha e) (\<lambda>_. Inr e))"

definition same_binding ::
    "ordered_candidate_application_event \<Rightarrow> ordered_candidate_application_event \<Rightarrow> bool" where
  "same_binding a b \<longleftrightarrow>
    oc_application_id a = oc_application_id b \<and> oc_job_id a = oc_job_id b
    \<and> oc_plan_id a = oc_plan_id b \<and> oc_task_id a = oc_task_id b \<and> oc_task_index a = oc_task_index b
    \<and> oc_run_id a = oc_run_id b \<and> oc_candidate_before_revision a = oc_candidate_before_revision b
    \<and> oc_child_base_revision a = oc_child_base_revision b
    \<and> oc_child_result_revision a = oc_child_result_revision b
    \<and> oc_validated_marker_sha256 a = oc_validated_marker_sha256 b
    \<and> oc_apply_strategy a = oc_apply_strategy b
    \<and> oc_completed_hook_invocation_ids a = oc_completed_hook_invocation_ids b"

definition same_fact ::
    "ordered_candidate_application_event \<Rightarrow> ordered_candidate_application_event \<Rightarrow> bool" where
  "same_fact a b \<longleftrightarrow> same_binding a b \<and> oc_kind a = oc_kind b
    \<and> oc_candidate_after_revision a = oc_candidate_after_revision b"

text \<open>The locals of the fold: the public result and the set of ids seen.\<close>

record candidate_fold =
  cf_expected_head_revision :: string
  cf_pending :: "ordered_candidate_application_event option"
  cf_completed :: "ordered_candidate_application_event list"
  cf_application_ids :: "string set"

definition candidate_step ::
    "(string \<Rightarrow> string) \<Rightarrow> candidate_fold \<Rightarrow> ordered_candidate_application_event \<Rightarrow> candidate_fold res" where
  "candidate_step sha s e =
    res_bind (verify_candidate sha e) (\<lambda>_.
    case oc_kind e of
      Prepared \<Rightarrow>
        (if cf_pending s \<noteq> None \<or> oc_candidate_before_revision e \<noteq> cf_expected_head_revision s
            \<or> oc_application_id e \<in> cf_application_ids s then
           Inl (candidate_fault CandidateOutOfOrder e)
         else Inr (s\<lparr>cf_pending := Some e,
           cf_application_ids := insert (oc_application_id e) (cf_application_ids s)\<rparr>))
    | CompletedApplication \<Rightarrow>
        res_bind (ok_or (cf_pending s) (candidate_fault CandidateUnprepared e)) (\<lambda>prepared.
        if \<not> same_binding prepared e \<or> oc_candidate_before_revision e \<noteq> cf_expected_head_revision s then
          Inl (candidate_fault CandidateChanged e)
        else
          res_bind (ok_or (oc_candidate_after_revision e) (candidate_fault CandidateNoAfter e)) (\<lambda>after.
          Inr (s\<lparr>cf_pending := None, cf_expected_head_revision := after,
            cf_completed := cf_completed s @ [e]\<rparr>))))"

definition initial_candidate_fold :: "string \<Rightarrow> candidate_fold" where
  "initial_candidate_fold initial = \<lparr>cf_expected_head_revision = initial, cf_pending = None,
    cf_completed = [], cf_application_ids = {}\<rparr>"

definition fold_ordered_candidate_application_events ::
    "(string \<Rightarrow> string) \<Rightarrow> ordered_candidate_application_event list \<Rightarrow> string \<Rightarrow> candidate_fold res" where
  "fold_ordered_candidate_application_events sha es initial =
    (if blank initial then Inl (plan_error CandidateInitialEmpty)
     else fold_res (candidate_step sha) (initial_candidate_fold initial) es)"

section \<open>The store of plans\<close>

record plan_store =
  ps_jobs :: job_store
  ps_plan :: "plan codec"
  ps_message :: "plan_message codec"
  ps_event :: "plan_event codec"
  ps_candidate :: "ordered_candidate_application_event codec"
  ps_coordinator :: "coordinator_state codec"
  ps_marker :: "plan_child_marker codec"
  ps_sha256_text :: "string \<Rightarrow> string"

abbreviation ps_home :: "plan_store \<Rightarrow> path" where
  "ps_home st \<equiv> js_home (ps_jobs st)"

definition save_plan :: "plan_store \<Rightarrow> plan \<Rightarrow> unit io" where
  "save_plan st p = atomic_write_json (ps_plan st) (plan_json (ps_home st) (pn_plan_id p)) p"

definition load_plan :: "plan_store \<Rightarrow> string \<Rightarrow> plan io" where
  "load_plan st plan_id =
    (let p = plan_json (ps_home st) plan_id in
     io_bind (fs_read p) (\<lambda>raw. io_lift (parse_json (ps_plan st) p raw)))"

text \<open>\<open>plan_depth\<close>: the loop leaves after \<open>MAX_SUBPLAN_DEPTH\<close> hops, so two rounds are all of it.\<close>

definition plan_depth :: "plan_store \<Rightarrow> plan \<Rightarrow> u32 io" where
  "plan_depth st p = (\<lambda>s.
    (Inr (case pn_parent_plan_id p of
       None \<Rightarrow> 0
     | Some parent_id \<Rightarrow>
        (if 1 \<ge> MAX_SUBPLAN_DEPTH then 1
         else case fst (load_plan st parent_id s) of
           Inl _ \<Rightarrow> 1
         | Inr parent_plan \<Rightarrow> (case pn_parent_plan_id parent_plan of None \<Rightarrow> 1 | Some _ \<Rightarrow> 2))), s))"

definition validate_owned_plan_token :: "lease_token \<Rightarrow> plan \<Rightarrow> unit res" where
  "validate_owned_plan_token t p =
    (if pn_owner_job_id p \<noteq> Some (lt_job_id t) then
       Inl (plan_error (PlanNotOwned (pn_plan_id p) (lt_job_id t)))
     else Inr ())"

definition save_owned_plan_fenced :: "plan_store \<Rightarrow> lease_token \<Rightarrow> timestamp \<Rightarrow> plan \<Rightarrow> unit io" where
  "save_owned_plan_fenced st t now p =
    io_bind (io_lift (validate_owned_plan_token t p)) (\<lambda>_.
    with_fenced_job_control (ps_jobs st) t now
      (atomic_write_json (ps_plan st) (plan_json (ps_home st) (pn_plan_id p)) p))"

text \<open>Inside the fence: the plan on disk must be owned by the token's job.\<close>

definition owned_plan :: "plan_store \<Rightarrow> lease_token \<Rightarrow> string \<Rightarrow> unit io" where
  "owned_plan st t plan_id =
    io_bind (load_plan st plan_id) (\<lambda>p. io_lift (validate_owned_plan_token t p))"

definition append_plan_message :: "plan_store \<Rightarrow> string \<Rightarrow> plan_message \<Rightarrow> unit io" where
  "append_plan_message st plan_id msg =
    io_bind (io_lift (validate_message_request_id msg)) (\<lambda>_.
    append_json_line (ps_message st) (plan_messages (ps_home st) plan_id) msg)"

definition append_owned_plan_message_fenced ::
    "plan_store \<Rightarrow> lease_token \<Rightarrow> timestamp \<Rightarrow> string \<Rightarrow> plan_message \<Rightarrow> unit io" where
  "append_owned_plan_message_fenced st t now plan_id msg =
    io_bind (io_lift (validate_message_request_id msg)) (\<lambda>_.
    with_fenced_job_control (ps_jobs st) t now
      (io_bind (owned_plan st t plan_id) (\<lambda>_.
       append_json_line (ps_message st) (plan_messages (ps_home st) plan_id) msg)))"

definition append_plan_event :: "plan_store \<Rightarrow> string \<Rightarrow> plan_event_kind \<Rightarrow> timestamp \<Rightarrow> unit io" where
  "append_plan_event st plan_id event now =
    append_json_line (ps_event st) (plan_events (ps_home st) plan_id)
      \<lparr>pe_timestamp = now, pe_plan_id = plan_id, pe_event = event\<rparr>"

definition append_owned_plan_event_fenced ::
    "plan_store \<Rightarrow> lease_token \<Rightarrow> timestamp \<Rightarrow> string \<Rightarrow> plan_event_kind \<Rightarrow> timestamp \<Rightarrow> unit io" where
  "append_owned_plan_event_fenced st t now plan_id event recorded =
    with_fenced_job_control (ps_jobs st) t now
      (io_bind (owned_plan st t plan_id) (\<lambda>_.
       append_json_line (ps_event st) (plan_events (ps_home st) plan_id)
         \<lparr>pe_timestamp = recorded, pe_plan_id = plan_id, pe_event = event\<rparr>))"

text \<open>Non-blank lines, each parsed; a missing file is an empty log.\<close>

definition read_rows :: "'a codec \<Rightarrow> path \<Rightarrow> ('a \<Rightarrow> unit res) \<Rightarrow> 'a list io" where
  "read_rows c p check =
    io_bind (fs_read_or [] p) (\<lambda>raw.
    io_lift (map_res (\<lambda>line. res_bind (parse_json c p line) (\<lambda>v. res_bind (check v) (\<lambda>_. Inr v)))
      (filter (\<lambda>l. \<not> blank l) (str_lines raw))))"

definition read_plan_events :: "plan_store \<Rightarrow> string \<Rightarrow> plan_event list io" where
  "read_plan_events st plan_id =
    read_rows (ps_event st) (plan_events (ps_home st) plan_id) (\<lambda>_. Inr ())"

definition read_plan_messages :: "plan_store \<Rightarrow> string \<Rightarrow> plan_message list io" where
  "read_plan_messages st plan_id =
    read_rows (ps_message st) (plan_messages (ps_home st) plan_id) (\<lambda>_. Inr ())"

definition ordered_candidate_application_events_path :: "path \<Rightarrow> string \<Rightarrow> path" where
  "ordered_candidate_application_events_path home job_id =
    join (job_dir home job_id) ''ordered-candidate-applications.jsonl''"

definition check_candidate_row ::
    "plan_store \<Rightarrow> string \<Rightarrow> ordered_candidate_application_event \<Rightarrow> unit res" where
  "check_candidate_row st job_id e =
    res_bind (verify_candidate (ps_sha256_text st) e) (\<lambda>_.
    if oc_job_id e \<noteq> job_id then Inl (plan_error (CandidateOtherJob (oc_job_id e))) else Inr ())"

definition read_ordered_candidate_application_events ::
    "plan_store \<Rightarrow> string \<Rightarrow> ordered_candidate_application_event list io" where
  "read_ordered_candidate_application_events st job_id =
    read_rows (ps_candidate st) (ordered_candidate_application_events_path (ps_home st) job_id)
      (check_candidate_row st job_id)"

text \<open>The mutation that runs inside the fence.\<close>

definition append_candidate ::
    "plan_store \<Rightarrow> lease_token \<Rightarrow> string \<Rightarrow> string \<Rightarrow> ordered_candidate_application_event \<Rightarrow> unit io" where
  "append_candidate st t plan_id initial e =
    io_bind (owned_plan st t plan_id) (\<lambda>_.
    io_bind (read_ordered_candidate_application_events st (lt_job_id t)) (\<lambda>existing.
    io_bind (io_lift (fold_ordered_candidate_application_events (ps_sha256_text st) existing initial)) (\<lambda>_.
    if list_ex (\<lambda>prior. same_fact prior e) existing then io_return ()
    else
      io_bind (io_lift (fold_ordered_candidate_application_events (ps_sha256_text st) (existing @ [e]) initial)) (\<lambda>_.
      append_json_line (ps_candidate st)
        (ordered_candidate_application_events_path (ps_home st) (lt_job_id t)) e))))"

definition append_owned_ordered_candidate_application_event_fenced ::
    "plan_store \<Rightarrow> lease_token \<Rightarrow> string \<Rightarrow> string \<Rightarrow> ordered_candidate_application_event \<Rightarrow> unit io" where
  "append_owned_ordered_candidate_application_event_fenced st t plan_id initial e =
    io_bind (io_lift (verify_candidate (ps_sha256_text st) e)) (\<lambda>_.
    io_bind (io_when (oc_job_id e \<noteq> lt_job_id t \<or> oc_plan_id e \<noteq> plan_id)
      (candidate_fault CandidateNotOwned e)) (\<lambda>_.
    with_fenced_job_control (ps_jobs st) t (oc_recorded_at e) (append_candidate st t plan_id initial e)))"

definition write_coordinator_state :: "plan_store \<Rightarrow> string \<Rightarrow> coordinator_state \<Rightarrow> unit io" where
  "write_coordinator_state st plan_id c =
    atomic_write_json (ps_coordinator st) (coordinator_json (ps_home st) plan_id) c"

definition write_owned_coordinator_state_fenced ::
    "plan_store \<Rightarrow> lease_token \<Rightarrow> timestamp \<Rightarrow> string \<Rightarrow> coordinator_state \<Rightarrow> unit io" where
  "write_owned_coordinator_state_fenced st t now plan_id c =
    io_bind (io_when (cs_plan_id c \<noteq> plan_id) (plan_error (CoordinatorOtherPlan (cs_plan_id c)))) (\<lambda>_.
    with_fenced_job_control (ps_jobs st) t now
      (io_bind (owned_plan st t plan_id) (\<lambda>_.
       atomic_write_json (ps_coordinator st) (coordinator_json (ps_home st) plan_id) c)))"

definition write_plan_child_marker :: "plan_store \<Rightarrow> path \<Rightarrow> plan_child_marker \<Rightarrow> path io" where
  "write_plan_child_marker st working_dir marker =
    (let p = join working_dir ''.deadreckon/parent.json'' in
     io_bind (atomic_write_json (ps_marker st) p marker) (\<lambda>_. io_return p))"

text \<open>\<open>fs::write\<close> of a text file below the plan; its parent is created first.\<close>

definition fs_write :: "path \<Rightarrow> bytes \<Rightarrow> path io" where
  "fs_write p b = (\<lambda>s. case write_fault s p of
     Some k \<Rightarrow> (Inl (Io p k), s)
   | None \<Rightarrow> (Inr p, put_file p b s))"

definition write_worker_spec :: "plan_store \<Rightarrow> string \<Rightarrow> string \<Rightarrow> string \<Rightarrow> path io" where
  "write_worker_spec st plan_id task_id spec = fs_write (worker_spec (ps_home st) plan_id task_id) spec"

definition write_child_summary :: "plan_store \<Rightarrow> string \<Rightarrow> string \<Rightarrow> string \<Rightarrow> path io" where
  "write_child_summary st plan_id task_id summary =
    fs_write (child_summary (ps_home st) plan_id task_id) summary"

definition plan_task_key :: "string \<Rightarrow> string" where
  "plan_task_key plan_id = ''plan--'' @ plan_id"

definition worker_spec_relative_path :: "string \<Rightarrow> path" where
  "worker_spec_relative_path task_id = components (''worker-specs/'' @ sanitize_slug task_id @ ''.md'')"

definition child_summary_relative_path :: "string \<Rightarrow> path" where
  "child_summary_relative_path task_id = components (''summaries/'' @ sanitize_slug task_id @ ''.md'')"

section \<open>The chain of landed revisions\<close>

text \<open>Each landing starts at the revision the previous one produced.\<close>

fun revision_chain :: "string \<Rightarrow> ordered_candidate_application_event list \<Rightarrow> string \<Rightarrow> bool" where
  "revision_chain head [] final \<longleftrightarrow> final = head"
| "revision_chain head (e # es) final \<longleftrightarrow>
    oc_candidate_before_revision e = head
    \<and> (case oc_candidate_after_revision e of None \<Rightarrow> False | Some after \<Rightarrow> revision_chain after es final)"

definition candidate_inv :: "string \<Rightarrow> candidate_fold \<Rightarrow> bool" where
  "candidate_inv initial s \<longleftrightarrow>
    revision_chain initial (cf_completed s) (cf_expected_head_revision s)
    \<and> distinct (map oc_application_id (cf_completed s))
    \<and> set (map oc_application_id (cf_completed s)) \<subseteq> cf_application_ids s
    \<and> (\<forall>p. cf_pending s = Some p \<longrightarrow>
        oc_candidate_before_revision p = cf_expected_head_revision s \<and> oc_kind p = Prepared
        \<and> oc_application_id p \<in> cf_application_ids s
        \<and> oc_application_id p \<notin> set (map oc_application_id (cf_completed s)))"

lemma revision_chain_snoc:
  "revision_chain head es mid \<Longrightarrow> oc_candidate_before_revision e = mid \<Longrightarrow>
    oc_candidate_after_revision e = Some final \<Longrightarrow> revision_chain head (es @ [e]) final"
  by (induction es arbitrary: head) (auto split: option.splits)

lemma candidate_step_cases:
  assumes "candidate_step sha s e = Inr s'"
  obtains (prepared) "oc_kind e = Prepared" "cf_pending s = None"
      "oc_candidate_before_revision e = cf_expected_head_revision s"
      "oc_application_id e \<notin> cf_application_ids s"
      "s' = s\<lparr>cf_pending := Some e,
        cf_application_ids := insert (oc_application_id e) (cf_application_ids s)\<rparr>"
  | (completed) p after where "oc_kind e = CompletedApplication" "cf_pending s = Some p" "same_binding p e"
      "oc_candidate_before_revision e = cf_expected_head_revision s"
      "oc_candidate_after_revision e = Some after"
      "s' = s\<lparr>cf_pending := None, cf_expected_head_revision := after,
        cf_completed := cf_completed s @ [e]\<rparr>"
proof (cases "oc_kind e")
  case Prepared
  with assms show ?thesis
    by (auto simp: candidate_step_def res_bind_Inr_iff split: if_splits intro: prepared)
next
  case CompletedApplication
  with assms show ?thesis
    by (auto simp: candidate_step_def result_simps split: if_splits intro: completed)
qed

interpretation candidates: event_machine "candidate_step sha" "candidate_inv initial" for sha initial
proof
  fix s e s'
  assume inv: "candidate_inv initial s" and "candidate_step sha s e = Inr s'"
  from this(2) show "candidate_inv initial s'"
  proof (cases rule: candidate_step_cases)
    case prepared
    with inv show ?thesis by (auto simp: candidate_inv_def)
  next
    case (completed p after)
    have "oc_application_id e = oc_application_id p" using completed(3) by (simp add: same_binding_def)
    with inv completed show ?thesis
      by (auto simp: candidate_inv_def intro: revision_chain_snoc)
  qed
qed

lemma candidate_inv_initial: "candidate_inv initial (initial_candidate_fold initial)"
  by (simp add: candidate_inv_def initial_candidate_fold_def)

text \<open>What the fold keeps of the log: all completions, each with its preparation before it.\<close>

lemma candidate_fold_facts:
  assumes "fold_res (candidate_step sha) (initial_candidate_fold initial) es = Inr s"
  shows "cf_completed s = filter (\<lambda>e. oc_kind e = CompletedApplication) es
    \<and> (\<forall>e\<in>set (cf_completed s). \<exists>p\<in>set es. oc_kind p = Prepared \<and> same_binding p e)
    \<and> (\<forall>p. cf_pending s = Some p \<longrightarrow> p \<in> set es)"
  using assms
proof (induction es arbitrary: s rule: rev_induct)
  case Nil
  then show ?case by (auto simp: initial_candidate_fold_def)
next
  case (snoc e es)
  from snoc.prems obtain t where t: "fold_res (candidate_step sha) (initial_candidate_fold initial) es = Inr t"
      "candidate_step sha t e = Inr s"
    by (auto simp: res_bind_Inr_iff)
  note IH = snoc.IH [OF t(1)]
  have inv: "candidate_inv initial t" by (rule candidates.run_inv [OF candidate_inv_initial t(1)])
  from t(2) show ?case
  proof (cases rule: candidate_step_cases)
    case prepared
    with IH show ?thesis by auto
  next
    case (completed p after)
    have "p \<in> set es" "oc_kind p = Prepared" using IH inv completed(2) by (auto simp: candidate_inv_def)
    with IH completed show ?thesis by auto
  qed
qed

text \<open>
  C10: An accepted log of ordered candidate applications is one chain: its completed landings are all
  the completions in the log, in order; each starts at the revision the previous one produced, from
  the initial revision up to the reported head; each repeats the binding of an earlier preparation; no
  application lands twice; and a pending preparation starts at the reported head.
\<close>

theorem ordered_candidates_form_a_chain:
  assumes "fold_ordered_candidate_application_events sha es initial = Inr s"
  shows "revision_chain initial (cf_completed s) (cf_expected_head_revision s)
    \<and> cf_completed s = filter (\<lambda>e. oc_kind e = CompletedApplication) es
    \<and> distinct (map oc_application_id (cf_completed s))
    \<and> (\<forall>e\<in>set (cf_completed s). \<exists>p\<in>set es. oc_kind p = Prepared \<and> same_binding p e)
    \<and> (\<forall>p. cf_pending s = Some p \<longrightarrow> oc_candidate_before_revision p = cf_expected_head_revision s)"
proof -
  have run: "fold_res (candidate_step sha) (initial_candidate_fold initial) es = Inr s"
    using assms by (simp add: fold_ordered_candidate_application_events_def split: if_splits)
  have "candidate_inv initial s" by (rule candidates.run_inv [OF candidate_inv_initial run])
  with candidate_fold_facts [OF run] show ?thesis by (simp add: candidate_inv_def)
qed

definition sample_prepared :: ordered_candidate_application_event where
  "sample_prepared = \<lparr>oc_schema_version = 1, oc_application_id = ''id'', oc_job_id = ''job'',
    oc_plan_id = ''p'', oc_task_id = ''task-0'', oc_task_index = 0, oc_run_id = ''r'',
    oc_candidate_before_revision = ''r0'', oc_child_base_revision = ''r0'',
    oc_child_result_revision = ''c1'', oc_validated_marker_sha256 = ''sha256:m'',
    oc_apply_strategy = Squash, oc_completed_hook_invocation_ids = [], oc_kind = Prepared,
    oc_recorded_at = 12, oc_candidate_after_revision = None\<rparr>"

definition sample_completed :: ordered_candidate_application_event where
  "sample_completed = sample_prepared\<lparr>oc_kind := CompletedApplication,
    oc_candidate_after_revision := Some ''r1''\<rparr>"

definition sample_sha :: "string \<Rightarrow> string" where
  "sample_sha t = ''id''"

lemma sample_candidates_verified:
  "verify_candidate sample_sha sample_prepared = Inr ()" "verify_candidate sample_sha sample_completed = Inr ()"
proof -
  have texts: "\<not> blank ''job''" "\<not> blank ''p''" "\<not> blank ''task-0''" "\<not> blank ''r''" "\<not> blank ''r0''"
      "\<not> blank ''r1''" "\<not> blank ''c1''" "\<not> blank ''sha256:m''"
    by code_simp+
  then show "verify_candidate sample_sha sample_prepared = Inr ()"
      "verify_candidate sample_sha sample_completed = Inr ()"
    by (simp_all add: verify_candidate_def sample_prepared_def sample_completed_def sample_sha_def
        starts_with_def ordered_candidate_application_id_def)
qed

lemma sample_candidate_steps:
  "\<exists>f. fold_ordered_candidate_application_events sample_sha [sample_prepared, sample_completed] ''r0'' = Inr f
    \<and> cf_expected_head_revision f = ''r1''"
proof -
  have "\<not> blank ''r0''" by code_simp
  then show ?thesis
    by (simp add: fold_ordered_candidate_application_events_def candidate_step_def sample_candidates_verified)
      (simp add: sample_prepared_def sample_completed_def initial_candidate_fold_def same_binding_def)
qed

lemma sample_candidate_prefix:
  "\<exists>f. fold_ordered_candidate_application_events sample_sha [] ''r0'' = Inr f"
  "\<exists>f. fold_ordered_candidate_application_events sample_sha [sample_prepared] ''r0'' = Inr f"
proof -
  have "\<not> blank ''r0''" by code_simp
  then show "\<exists>f. fold_ordered_candidate_application_events sample_sha [] ''r0'' = Inr f"
    "\<exists>f. fold_ordered_candidate_application_events sample_sha [sample_prepared] ''r0'' = Inr f"
    by (simp_all add: fold_ordered_candidate_application_events_def candidate_step_def sample_candidates_verified)
      (simp add: sample_prepared_def initial_candidate_fold_def)
qed

theorem ordered_candidates_form_a_chain_witness:
  "\<exists>f. fold_ordered_candidate_application_events sample_sha [sample_prepared, sample_completed] ''r0'' = Inr f
    \<and> revision_chain ''r0'' (cf_completed f) ''r1''"
  using sample_candidate_steps ordered_candidates_form_a_chain by metis

section \<open>Appending a candidate fact\<close>

text \<open>A row as \<open>serde_json\<close> writes it also ends in a bracket, so no line ending is taken from it.\<close>

definition row_ok :: "'a codec \<Rightarrow> 'a \<Rightarrow> bool" where
  "row_ok c v \<longleftrightarrow> codec_ok c v \<and> (\<forall>b. enc c v = Some b \<longrightarrow> last b \<noteq> CHR 0x0D \<and> \<not> blank b)"

lemma str_lines_complete_snoc:
  assumes "terminated raw" "newline \<notin> set row" "row \<noteq> []" "last row \<noteq> CHR 0x0D"
  shows "str_lines (raw @ row @ [newline]) = str_lines raw @ [row]"
proof -
  have "last (split_on newline raw) = []"
    using assms(1) split_on_append_sep [of newline "butlast raw" "[]"]
    by (cases raw rule: rev_cases) (auto simp: terminated_def)
  with assms(3,4) show ?thesis
    unfolding str_lines_snoc [OF assms(2)] by (simp add: str_lines_def Let_def strip_cr_def)
qed

lemma read_rows_after_append:
  assumes read: "read_rows c p check s = (Inr vs, s1)"
    and ended: "terminated (case files s p of None \<Rightarrow> [] | Some b \<Rightarrow> b)"
    and app: "append_json_line c p v s = (Inr u, s2)" and ok: "row_ok c v" "check v = Inr ()"
    and f: "read_fault s p = None"
  shows "read_rows c p check s2 = (Inr (vs @ [v]), s2)"
proof -
  let ?raw = "case files s p of None \<Rightarrow> [] | Some b \<Rightarrow> b"
  obtain b where b: "enc c v = Some b" "s2 = put_file p (?raw @ b @ [newline]) s"
    using app by (auto simp: append_json_line_def result_simps)
  have row: "b \<noteq> []" "newline \<notin> set b" "dec c b = Some v" "last b \<noteq> CHR 0x0D" "\<not> blank b"
    using ok(1) b(1) codec_okD [of c v b] by (auto simp: row_ok_def)
  have lines: "str_lines (?raw @ b @ [newline]) = str_lines ?raw @ [b]"
    by (rule str_lines_complete_snoc [OF ended row(2,1,4)])
  have "map_res (\<lambda>line. res_bind (parse_json c p line) (\<lambda>v. res_bind (check v) (\<lambda>_. Inr v)))
      (filter (\<lambda>l. \<not> blank l) (str_lines ?raw)) = Inr vs"
    using read f by (auto simp: read_rows_def fs_read_or_value io_bind_run split: sum.splits)
  then show ?thesis
    using row ok(2) f by (simp add: read_rows_def fs_read_or_value b(2) lines map_res_append parse_json_def)
qed

lemma candidate_path_not_lock [simp]:
  "ordered_candidate_application_events_path (ps_home st) j \<noteq> control_lock_path (ps_jobs st) i"
proof -
  have "plain ''ordered-candidate-applications.jsonl''" by (simp add: plain_def)
  then show ?thesis
    by (simp add: ordered_candidate_application_events_path_def control_lock_path_def JOB_CONTROL_LOCK_def
        join_plain)
qed

lemma readonly_owned_plan: "readonly (owned_plan st t plan_id)"
  by (auto simp: owned_plan_def load_plan_def Let_def intro!: readonly_bind)

lemma readonly_read_rows: "readonly (read_rows c p check)"
  by (auto simp: read_rows_def intro!: readonly_bind)

text \<open>
  Logs that are read, judged and appended to inside the fence: taking the lock does not change what is
  read, and the appended row is read back at the end.
\<close>

lemma fenced_log_reads_back:
  assumes ch: "changes_only L s s1" "p \<notin> L" and read: "read_rows c p check s1 = (Inr old, s2)"
    and f: "read_fault s p = None" and ended: "terminated (case files s p of None \<Rightarrow> [] | Some b \<Rightarrow> b)"
  shows "s2 = s1" "fst (read_rows c p check s) = Inr old"
    and "append_json_line c p e s1 = (Inr u, s') \<Longrightarrow> row_ok c e \<Longrightarrow> check e = Inr () \<Longrightarrow>
      read_rows c p check s' = (Inr (old @ [e]), s')"
proof -
  have same: "files s1 p = files s p" "read_fault s1 p = None"
    using ch f by (simp_all add: changes_only_def same_faults_def)
  show "s2 = s1" by (rule readonlyD [OF readonly_read_rows read])
  show "fst (read_rows c p check s) = Inr old"
    using read same f by (simp add: read_rows_def io_bind_run fs_read_or_value)
  show "append_json_line c p e s1 = (Inr u, s') \<Longrightarrow> row_ok c e \<Longrightarrow> check e = Inr () \<Longrightarrow>
      read_rows c p check s' = (Inr (old @ [e]), s')"
    by (rule read_rows_after_append [OF read]) (use ended same in simp_all)
qed

text \<open>
  A fenced append of a candidate fact that returns has it in the log: read back from the disk the
  log is the old one, with the fact at its end unless it was recorded already, and it is accepted by
  the fold. So a repeated append after a lost reply is harmless.
\<close>

theorem candidate_append_is_durable:
  fixes st t
  defines "p \<equiv> ordered_candidate_application_events_path (ps_home st) (lt_job_id t)"
  assumes run: "append_owned_ordered_candidate_application_event_fenced st t plan_id initial e s = (Inr u, s')"
    and row: "row_ok (ps_candidate st) e" and readable: "read_fault s p = None"
    and ended: "terminated (case files s p of None \<Rightarrow> [] | Some b \<Rightarrow> b)"
  shows "\<exists>old new f. fst (read_ordered_candidate_application_events st (lt_job_id t) s) = Inr old
    \<and> read_ordered_candidate_application_events st (lt_job_id t) s' = (Inr new, s')
    \<and> new = (if list_ex (\<lambda>x. same_fact x e) old then old else old @ [e])
    \<and> fold_ordered_candidate_application_events (ps_sha256_text st) new initial = Inr f"
proof -
  from run obtain q s1 where job: "oc_job_id e = lt_job_id t" "verify_candidate (ps_sha256_text st) e = Inr ()"
    and fence: "fenced_projection (ps_jobs st) t (oc_recorded_at e) ControlAfterStop s = (Inr q, s1)"
    and app: "append_candidate st t plan_id initial e s1 = (Inr u, s')"
    by (auto simp: append_owned_ordered_candidate_application_event_fenced_def with_fenced_job_control_def
        result_simps split: if_splits)
  have ch: "changes_only (lock_only (ps_jobs st) t) s s1" by (rule framedD [OF framed_fenced_projection fence])
  from app obtain w s2 old s3 f0 where
      own: "owned_plan st t plan_id s1 = (Inr w, s2)"
    and read: "read_ordered_candidate_application_events st (lt_job_id t) s2 = (Inr old, s3)"
    and fold0: "fold_ordered_candidate_application_events (ps_sha256_text st) old initial = Inr f0"
    and rest: "list_ex (\<lambda>x. same_fact x e) old \<and> s' = s3 \<or> \<not> list_ex (\<lambda>x. same_fact x e) old
      \<and> (\<exists>f. fold_ordered_candidate_application_events (ps_sha256_text st) (old @ [e]) initial = Inr f)
      \<and> append_json_line (ps_candidate st) p e s3 = (Inr u, s')"
    by (auto simp: append_candidate_def result_simps p_def split: if_splits)
  have s2: "s2 = s1" by (rule readonlyD [OF readonly_owned_plan own])
  note rows = read_ordered_candidate_application_events_def [of st "lt_job_id t", folded p_def]
  note log = fenced_log_reads_back [OF ch _ read [unfolded s2 rows] readable ended]
  have p: "p \<notin> lock_only (ps_jobs st) t" by (simp add: p_def)
  from rest show ?thesis
    using log(1,2) [OF p] log(3) [OF p _ row] read fold0 job unfolding rows s2
    by (auto simp: check_candidate_row_def)
qed

section \<open>Writes of an owned plan\<close>

lemma refuses_when: "refuses P (f ()) s \<Longrightarrow> refuses P (io_bind (io_when b e) f) s"
  by (auto simp: refuses_def io_bind_run)

interpretation save_owned_plan: fenced_operation "ps_jobs st" "\<lambda>t now. save_owned_plan_fenced st t now p"
  for st p
  by unfold_locales (auto simp: save_owned_plan_fenced_def intro: refuses_lift fenced_control.needs_token)

interpretation owned_plan_message: fenced_operation "ps_jobs st"
  "\<lambda>t now. append_owned_plan_message_fenced st t now plan_id msg" for st plan_id msg
  by unfold_locales (auto simp: append_owned_plan_message_fenced_def
      intro: refuses_lift fenced_control.needs_token)

interpretation owned_plan_event: fenced_operation "ps_jobs st"
  "\<lambda>t now. append_owned_plan_event_fenced st t now plan_id ev recorded" for st plan_id ev recorded
  by unfold_locales (auto simp: append_owned_plan_event_fenced_def intro: fenced_control.needs_token)

interpretation owned_coordinator: fenced_operation "ps_jobs st"
  "\<lambda>t now. write_owned_coordinator_state_fenced st t now plan_id c" for st plan_id c
  by unfold_locales (auto simp: write_owned_coordinator_state_fenced_def
      intro!: refuses_when fenced_control.needs_token)

interpretation owned_candidate: fenced_operation "ps_jobs st"
  "\<lambda>t now. append_owned_ordered_candidate_application_event_fenced st t plan_id initial (e\<lparr>oc_recorded_at := now\<rparr>)"
  for st plan_id initial e
proof
  fix t now s
  assume "\<not> valid_token (ps_jobs st) t now s"
  then show "refuses (lock_only (ps_jobs st) t)
      (append_owned_ordered_candidate_application_event_fenced st t plan_id initial (e\<lparr>oc_recorded_at := now\<rparr>)) s"
    unfolding append_owned_ordered_candidate_application_event_fenced_def
    by (intro refuses_lift refuses_when) (simp add: fenced_control.needs_token)
qed

text \<open>
  Every write to a job-owned plan (the plan file, its messages, its events, the coordinator state,
  the candidate log) refuses a stale or expired token, leaving everything but the lock file alone.
\<close>

theorem owned_plan_writes_are_fenced:
  assumes "\<not> valid_token (ps_jobs st) t now s"
  shows "refuses (lock_only (ps_jobs st) t) (save_owned_plan_fenced st t now p) s
    \<and> refuses (lock_only (ps_jobs st) t) (append_owned_plan_message_fenced st t now plan_id msg) s
    \<and> refuses (lock_only (ps_jobs st) t) (append_owned_plan_event_fenced st t now plan_id ev recorded) s
    \<and> refuses (lock_only (ps_jobs st) t) (write_owned_coordinator_state_fenced st t now plan_id c) s
    \<and> refuses (lock_only (ps_jobs st) t) (append_owned_ordered_candidate_application_event_fenced st t plan_id
        initial (e\<lparr>oc_recorded_at := now\<rparr>)) s"
  by (intro conjI save_owned_plan.needs_token [OF assms] owned_plan_message.needs_token [OF assms]
      owned_plan_event.needs_token [OF assms] owned_coordinator.needs_token [OF assms]
      owned_candidate.needs_token [OF assms])

end
