(* ===== verification/Lease_Examples.thy ===== *)
theory Lease_Examples
  imports Lease_Use
begin

text \<open>
  A concrete store, host and a few states of the disk, and the lease properties applied to them: a
  first claim, a lease that is held, a job that ended, the crash between a lease event and its
  checkpoint, a stale token, an artifact created twice.
\<close>

section \<open>A concrete host\<close>

definition sample_host :: host where
  "sample_host = \<lparr>ho_process_id = 7, ho_start_identity = (\<lambda>_. None), ho_uuid = decimal_uuid,
    ho_from_std = (\<lambda>d. Some (int d)), ho_checked_add = (\<lambda>a b. Some (a + b)),
    ho_lease_value = (\<lambda>_. Some (Object []))\<rparr>"

definition sample_owner :: "string \<Rightarrow> lease_owner" where
  "sample_owner boot = \<lparr>lo_owner_id = ''A'', lo_boot_id = boot, lo_pid = 7, lo_process_group = 7\<rparr>"

definition sample_lease :: "u64 \<Rightarrow> job_lease" where
  "sample_lease epoch = new_lease sample_host ''job'' (sample_owner ''b1'') epoch 10 15"

text \<open>Events are stored under their id; every projection and lease has one rendering.\<close>

definition lease_store :: "job_event list \<Rightarrow> job_lease \<Rightarrow> job_store" where
  "lease_store es l = \<lparr>js_home = [RootDir], js_job = table_codec [],
    js_event = table_codec (map (\<lambda>e. (e, ''E'' @ ev_event_id e)) es),
    js_projection = \<lparr>enc = (\<lambda>_. Some ''P''), dec = (\<lambda>_. None)\<rparr>,
    js_lease = \<lparr>enc = (\<lambda>_. Some ''L''), dec = (\<lambda>_. Some l)\<rparr>\<rparr>"

definition log_fs :: "string list \<Rightarrow> fs" where
  "log_fs ids = put_file (job_events [RootDir] ''job'') (concat (map (\<lambda>i. ''E'' @ i @ [newline]) ids)) empty_fs"

definition with_lease_file :: "fs \<Rightarrow> fs" where
  "with_lease_file s = put_file (job_lease_path [RootDir] ''job'') (''L'' @ [newline]) s"

definition created_row :: job_event where "created_row = sample_event 1 ''a'' Created 0 Null"

definition claim_row :: job_event where
  "claim_row = \<lparr>ev_schema_version = CURRENT, ev_job_id = ''job'', ev_sequence = 2, ev_event_id = ''i'',
     ev_causation_id = ''lease-claim:job:A:1'', ev_timestamp = 10, ev_lease_epoch = 1,
     ev_kind = LeaseAcquired, ev_detail = Object []\<rparr>"

definition store1 :: job_store where
  "store1 = lease_store [created_row, claim_row] (sample_lease 1)"

lemma show_nat_1: "show_nat (Suc 0) = ''1''" by code_simp
lemma blanks: "\<not> blank ''A''" "\<not> blank ''b1''" by code_simp+
lemma boots: "boot_identities_match decimal_uuid ''b1'' ''b1''" by code_simp

lemma store1_simps:
  "js_home store1 = [RootDir]" "enc (js_event store1) claim_row = Some ''Ei''"
  "enc (js_projection store1) p = Some ''P''" "enc (js_lease store1) l = Some ''L''"
  "dec (js_lease store1) b = Some (sample_lease 1)"
  by (simp_all add: store1_def lease_store_def table_codec_def created_row_def claim_row_def sample_event_def)

lemma created_projection_simps:
  "pr_last_sequence created_projection = 1" "pr_current_lease_epoch created_projection = 0"
  "\<not> is_terminal created_projection"
  by (simp_all add: created_projection_def empty_projection_def is_terminal_def)

lemma sample_owner_ok: "validate_owner (sample_owner ''b1'') = Inr ()"
  "lease_expiry sample_host 10 5 = Inr 15"
  by (simp_all add: validate_owner_def lease_expiry_def sample_host_def sample_owner_def blanks)

lemma claim_codecs: "codec_ok (js_event store1) e"
  by (auto simp: codec_ok_def store1_def lease_store_def table_codec_def created_row_def claim_row_def
      sample_event_def newline_def split: if_splits)

lemma claim_history:
  "history_of_log store1 ''job'' (log_fs [''a'']) =
    Inr \<lparr>hi_events = [created_row], hi_raw_lines = [''Ea''], hi_caveats = []\<rparr>"
  by (simp add: history_of_log_def log_bytes_def store1_def lease_store_def log_fs_def append_eval
     created_row_def sample_event_def)

lemma claim_event:
  "lease_event sample_host (new_lease sample_host ''job'' (sample_owner ''b1'') 1 10 15) 2 Acquired 10 ''i'' =
    Inr claim_row"
  by (simp add: lease_event_def sample_host_def sample_owner_def new_lease_def claim_row_def show_nat_1)

lemma claim_projection:
  "reduce_job_history ''job'' \<lparr>hi_events = [created_row], hi_raw_lines = [''Ea''], hi_caveats = []\<rparr> =
    Inr created_projection"
  by (simp add: created_row_def sample_event_def reduce_eval created_projection_def)

lemma claim_disk: "lease_on_disk store1 ''job'' (log_fs [''a'']) = None"
  "files (log_fs [''a'']) (job_lease_path [RootDir] ''job'') = None"
  "disk_healthy (log_fs ids)" "fs_ok (log_fs ids)"
  by (simp_all add: lease_on_disk_def log_fs_def store1_def lease_store_def disk_healthy_def fs_ok_def)

lemma claim_epoch: "durable_epoch store1 ''job'' created_projection (log_fs [''a'']) = 0"
  by (simp add: durable_epoch_def claim_disk epoch_of_def created_projection_def empty_projection_def)

lemma sample_claim:
  "\<exists>s'. claim_job_lease store1 sample_host ''job'' (sample_owner ''b1'') 10 5 ''i'' (log_fs [''a'']) =
    (Inr \<lparr>lc_lease = sample_lease 1, lc_disposition = Acquired\<rparr>, s')"
proof -
  have "\<exists>c s'. claim_job_lease store1 sample_host ''job'' (sample_owner ''b1'') 10 5 ''i'' (log_fs [''a'']) = (Inr c, s')
    \<and> lc_disposition c = Acquired \<and> lc_lease c = new_lease sample_host ''job'' (sample_owner ''b1'') 1 10 15"
    by (rule free_job_is_claimed [OF claim_disk(3) _ _ claim_event claim_codecs _ claim_history _ _ claim_projection,
         where row = "''Ei''"])
      (simp_all add: claim_disk claim_epoch claim_disposition_def checked_add_u64_def next_sequence_def
        job_event_sequence_new_def sample_owner_ok store1_simps created_projection_simps
        expected_sequence_def created_row_def sample_event_def history_rows_def)
  then show ?thesis by (metis sample_lease_def lease_claim.surjective old.unit.exhaust)
qed


lemma fresh_sample: "fresh_id store1 ''job'' ''i'' (log_fs [''a''])"
  by (simp add: fresh_id_def claim_history history_rows_def created_row_def sample_event_def)

lemma sample_lease_document: "document_ok (js_lease store1) (sample_lease 1)"
  by (simp add: document_ok_def store1_simps)

theorem claim_fences_previous_owner_witness:
  "\<exists>s'. claim_job_lease store1 sample_host ''job'' (sample_owner ''b1'') 10 5 ''i'' (log_fs [''a'']) =
      (Inr \<lparr>lc_lease = sample_lease 1, lc_disposition = Acquired\<rparr>, s')
    \<and> lease_on_disk store1 ''job'' s' = Some (sample_lease 1)
    \<and> valid_token store1 (token_of (sample_lease 1)) 14 s'
    \<and> \<not> valid_token store1 (token_of (sample_lease 1)) 15 s'"
proof -
  obtain s' where c: "claim_job_lease store1 sample_host ''job'' (sample_owner ''b1'') 10 5 ''i'' (log_fs [''a'']) =
      (Inr \<lparr>lc_lease = sample_lease 1, lc_disposition = Acquired\<rparr>, s')"
    using sample_claim by blast
  have ex: "ls_expires_at (sample_lease 1) = 15" by (simp add: sample_lease_def)
  show ?thesis
    using claim_fences_previous_owner [OF c claim_disk(4) _ claim_codecs fresh_sample] sample_lease_document c ex
    by (auto simp: claim_token_def)
qed

text \<open>The sample lease on disk, beside a log with one event.\<close>

definition leased_fs :: fs where
  "leased_fs = with_lease_file (log_fs [''a''])"

lemma leased_fs_simps:
  "lease_on_disk store1 ''job'' leased_fs = Some (sample_lease 1)"
  "history_of_log store1 ''job'' leased_fs =
    Inr \<lparr>hi_events = [created_row], hi_raw_lines = [''Ea''], hi_caveats = []\<rparr>"
  "projection_on_disk store1 ''job'' leased_fs = Inr created_projection" "fs_ok leased_fs"
proof -
  show "lease_on_disk store1 ''job'' leased_fs = Some (sample_lease 1)" "fs_ok leased_fs"
    using claim_disk(4) [of "[''a'']"]
    by (simp_all add: lease_on_disk_def leased_fs_def with_lease_file_def store1_simps log_fs_def sample_lease_def)
  show h: "history_of_log store1 ''job'' leased_fs =
      Inr \<lparr>hi_events = [created_row], hi_raw_lines = [''Ea''], hi_caveats = []\<rparr>"
    using claim_history
    by (simp add: leased_fs_def with_lease_file_def history_of_log_put_file store1_simps)
  then show "projection_on_disk store1 ''job'' leased_fs = Inr created_projection"
    by (simp add: projection_on_disk_def claim_projection)
qed

theorem live_lease_cannot_be_claimed_witness:
  "refuses {control_lock_path store1 ''job''}
    (claim_job_lease store1 sample_host ''job'' (sample_owner ''b1'') 14 5 ''i'') leased_fs"
proof (rule live_lease_cannot_be_claimed [OF leased_fs_simps(1) _ leased_fs_simps(4)])
  show "held sample_host (sample_owner ''b1'') 14 (sample_lease 1)"
    by (simp add: held_def sample_lease_def sample_owner_def sample_host_def boots)
qed (simp add: leased_fs_simps created_projection_simps)

theorem stale_token_is_refused_everywhere_witness:
  "refuses {control_lock_path store1 ''job''}
    (append_next_fenced_job_event store1 ((token_of (sample_lease 1))\<lparr>lt_epoch := 0\<rparr>) 12 AttemptStarted
      ''c'' Null ''w'') leased_fs"
proof -
  let ?t = "(token_of (sample_lease 1))\<lparr>lt_epoch := 0\<rparr>"
  have j: "lt_job_id ?t = ''job''" by (simp add: token_of_def sample_lease_def)
  have "\<not> valid_token store1 ?t 12 leased_fs"
    unfolding valid_token_def j leased_fs_simps(1) by (simp add: token_of_def sample_lease_def)
  from stale_token_is_refused_everywhere [OF this, THEN conjunct2, THEN conjunct1] j show ?thesis by simp
qed


lemma sample_heartbeat:
  "\<exists>s'. heartbeat_job_lease store1 sample_host (token_of (sample_lease 1)) 10 5 0 0 leased_fs =
    (Inr (sample_lease 1), s')"
proof -
  have healthy: "disk_healthy leased_fs"
    using claim_disk(3) by (simp add: leased_fs_def with_lease_file_def)
  obtain s1 where s1: "lock_job store1 ''job'' leased_fs = (Inr (), s1)"
      "changes_only {control_lock_path store1 ''job''} leased_fs s1"
    using lock_job_healthy [OF healthy] by blast
  have load: "load_job_lease store1 ''job'' s1 = (Inr (sample_lease 1), s1)"
    using lease_on_disk_changes [OF s1(2), of store1 "''job''"] leased_fs_simps(1)
    by (simp add: load_job_lease_Inr)
  have "disk_healthy s1" using disk_healthy_changes [OF s1(2)] healthy by simp
  then have "\<exists>s'. atomic_write_json (js_lease store1) (job_lease_path [RootDir] ''job'') (sample_lease 1) s1 =
      (Inr (), s')"
    by (simp add: atomic_write_json_Inr_iff store1_simps disk_healthy_def)
  moreover have "validate_heartbeat_token sample_host (sample_lease 1) (token_of (sample_lease 1)) 10 = Inr ()"
    by (simp add: validate_heartbeat_token_def validate_token_identity_def token_of_def sample_lease_def)
  moreover have "lt_job_id (token_of (sample_lease 1)) = ''job''" "ls_pid (sample_lease 1) = 7"
      "ho_process_id sample_host = 7"
      "(sample_lease 1)\<lparr>ls_heartbeat_at := 10, ls_expires_at := 15\<rparr> = sample_lease 1"
    by (simp_all add: token_of_def sample_lease_def sample_host_def sample_owner_def new_lease_def)
  ultimately show ?thesis
    using s1(1) load by (auto simp: heartbeat_job_lease_def sample_owner_ok store1_simps Let_def)
qed

theorem heartbeat_renews_own_lease_witness:
  "\<exists>s'. heartbeat_job_lease store1 sample_host (token_of (sample_lease 1)) 10 5 0 0 leased_fs =
      (Inr (sample_lease 1), s') \<and> lease_on_disk store1 ''job'' s' = Some (sample_lease 1)"
proof -
  obtain s' where h: "heartbeat_job_lease store1 sample_host (token_of (sample_lease 1)) 10 5 0 0 leased_fs =
      (Inr (sample_lease 1), s')"
    using sample_heartbeat by blast
  have "lt_job_id (token_of (sample_lease 1)) = ''job''" by (simp add: token_of_def sample_lease_def)
  with heartbeat_renews_own_lease [OF h sample_lease_document] leased_fs_simps(1) h show ?thesis by auto
qed


text \<open>A store whose log already ended verified.\<close>

definition verified_row :: job_event where
  "verified_row = sample_event 2 ''b'' job_event_kind.Verified 0 Null"

definition verified_store :: job_store where
  "verified_store = lease_store [created_row, verified_row] (sample_lease 1)"

definition verified_fs :: fs where
  "verified_fs = with_lease_file (log_fs [''a'', ''b''])"

lemma verified_log:
  "history_of_log verified_store ''job'' verified_fs =
    Inr \<lparr>hi_events = [created_row, verified_row], hi_raw_lines = [''Ea'', ''Eb''], hi_caveats = []\<rparr>"
  by (simp add: history_of_log_def log_bytes_def verified_store_def lease_store_def verified_fs_def with_lease_file_def
      log_fs_def append_eval created_row_def verified_row_def sample_event_def)

text \<open>The state a crash leaves when the lease event was written and its checkpoint was not.\<close>

definition reclaim_row :: job_event where
  "reclaim_row = \<lparr>ev_schema_version = CURRENT, ev_job_id = ''job'', ev_sequence = 3, ev_event_id = ''r'',
     ev_causation_id = ''lease-claim:job:A:2'', ev_timestamp = 10, ev_lease_epoch = 2,
     ev_kind = LeaseReclaimed, ev_detail = Object [(''reclaim_reason'', Str ''missing_checkpoint'')]\<rparr>"

definition crash_history :: job_history where
  "crash_history = \<lparr>hi_events = [created_row, claim_row], hi_raw_lines = [''Ea'', ''Ei''], hi_caveats = []\<rparr>"

definition crash_projection :: job_projection where
  "crash_projection = (empty_projection ''job'')
    \<lparr>pr_phase := Running, pr_last_sequence := 2, pr_current_lease_epoch := 1, pr_updated_at := Some 10\<rparr>"

lemma crash_reduces: "reduce_job_history ''job'' crash_history = Inr crash_projection"
  by (simp add: reduce_eval created_row_def claim_row_def sample_event_def crash_history_def crash_projection_def)

lemma crash_projection_simps:
  "pr_last_sequence crash_projection = 2" "pr_current_lease_epoch crash_projection = 1"
  "\<not> is_terminal crash_projection"
  by (simp_all add: crash_projection_def empty_projection_def is_terminal_def)

definition lag_row :: job_event where
  "lag_row = worker_event (token_of (sample_lease 1)) 12 4 ''w'' AttemptStarted ''c'' Null"

definition lag_store :: job_store where
  "lag_store = lease_store [created_row, claim_row, reclaim_row, lag_row] (sample_lease 1)"

definition lag_fs :: fs where
  "lag_fs = with_lease_file (log_fs [''a'', ''i'', ''r''])"

definition lag_history :: job_history where
  "lag_history = \<lparr>hi_events = [created_row, claim_row, reclaim_row], hi_raw_lines = [''Ea'', ''Ei'', ''Er''],
    hi_caveats = []\<rparr>"

definition lag_projection :: job_projection where
  "lag_projection = crash_projection\<lparr>pr_last_sequence := 3, pr_current_lease_epoch := 2\<rparr>"

lemmas lag_rows = created_row_def claim_row_def reclaim_row_def lag_row_def sample_event_def worker_event_def
  token_of_def

lemma lag_log: "history_of_log lag_store ''job'' lag_fs = Inr lag_history"
  by (simp add: history_of_log_def log_bytes_def lag_store_def lease_store_def lag_fs_def with_lease_file_def
      log_fs_def append_eval lag_rows lag_history_def)

lemma lag_reduces: "reduce_job_history ''job'' lag_history = Inr lag_projection"
  by (simp add: reduce_eval lag_rows lag_history_def lag_projection_def crash_projection_def word_le_nat_alt)

lemma lag_store_simps:
  "js_home lag_store = [RootDir]" "enc (js_event lag_store) lag_row = Some ''Ew''"
  "enc (js_projection lag_store) p = Some ''P''" "codec_ok (js_event lag_store) e"
  "lease_on_disk lag_store ''job'' lag_fs = Some (sample_lease 1)" "disk_healthy lag_fs"
  using claim_disk(3)
  by (auto simp: lag_store_def lease_store_def table_codec_def lag_rows codec_ok_def newline_def
      lease_on_disk_def lag_fs_def with_lease_file_def log_fs_def sample_lease_def split: if_splits)

theorem checkpoint_lag_lets_old_epoch_commit_witness:
  "\<exists>q s'. append_next_fenced_job_event lag_store (token_of (sample_lease 1)) 12 AttemptStarted ''c'' Null ''w'' lag_fs
    = (Inr q, s') \<and> ls_epoch (sample_lease 1) < pr_current_lease_epoch q"
proof -
  let ?t = "token_of (sample_lease 1)"
  have t: "lt_job_id ?t = ''job''" "lt_epoch ?t = 1" "ls_expires_at (sample_lease 1) = 15"
    by (simp_all add: token_of_def sample_lease_def)
  have valid: "valid_token lag_store ?t 12 lag_fs"
    using t lag_store_simps(5) by (simp add: valid_token_def)
  have p: "\<not> is_terminal lag_projection" "\<not> cancel_requested lag_projection"
      "expected_sequence lag_history = pr_last_sequence lag_projection + 1" "next_sequence ''job'' lag_projection = Inr 4"
      "pr_current_lease_epoch lag_projection = 2" "''w'' \<notin> row_id ` set (history_rows lag_history)"
      "hi_caveats lag_history = []"
    by (simp_all add: lag_projection_def crash_projection_def empty_projection_def is_terminal_def
        cancel_requested_def expected_sequence_def lag_history_def lag_rows next_sequence_def
        checked_add_u64_def job_event_sequence_new_def history_rows_def)
  have "\<exists>q s'. append_next_fenced_job_event lag_store ?t 12 AttemptStarted ''c'' Null ''w'' lag_fs = (Inr q, s')
      \<and> pr_attempt_count q = saturating_add_u32 (pr_attempt_count lag_projection) 1
      \<and> ev_lease_epoch (worker_event ?t 12 4 ''w'' AttemptStarted ''c'' Null) < pr_current_lease_epoch q"
    by (rule checkpoint_lag_lets_old_epoch_commit [OF lag_store_simps(6) valid, where h = lag_history
          and p = lag_projection and row = "''Ew''"])
      (simp_all add: t p lag_log lag_reduces lag_store_simps flip: lag_row_def)
  then show ?thesis by (auto simp: worker_event_def token_of_def)
qed

section \<open>Claiming over an older lease\<close>

text \<open>A store that tells two leases apart: the one on disk and the one a claim writes.\<close>

definition two_leases :: "job_lease \<Rightarrow> job_lease \<Rightarrow> job_lease codec" where
  "two_leases old new =
    \<lparr>enc = (\<lambda>l. Some (if l = old then ''L'' else ''N'')),
     dec = (\<lambda>b. if b = ''L'' @ [newline] then Some old else if b = ''N'' @ [newline] then Some new else None)\<rparr>"

definition next_lease :: "u64 \<Rightarrow> timestamp \<Rightarrow> job_lease" where
  "next_lease epoch now = new_lease sample_host ''job'' (sample_owner ''b1'') epoch now (now + 5)"

definition succession_store :: "job_event \<Rightarrow> job_lease \<Rightarrow> job_store" where
  "succession_store e new =
    (lease_store [created_row, claim_row, reclaim_row, e] (sample_lease 1))\<lparr>js_lease := two_leases (sample_lease 1) new\<rparr>"

definition succession_row :: "job_event_sequence \<Rightarrow> timestamp \<Rightarrow> u64 \<Rightarrow> string \<Rightarrow> lease_reclaim_reason \<Rightarrow> job_event" where
  "succession_row n now epoch shown reason =
    \<lparr>ev_schema_version = CURRENT, ev_job_id = ''job'', ev_sequence = n, ev_event_id = ''n'',
     ev_causation_id = ''lease-claim:job:A:'' @ shown, ev_timestamp = now, ev_lease_epoch = epoch,
     ev_kind = LeaseReclaimed, ev_detail = Object [(''reclaim_reason'', Str (reclaim_reason_str reason))]\<rparr>"

lemma succession_event:
  assumes "show_nat (unat epoch) = shown"
  shows "lease_event sample_host (next_lease epoch now) n (Reclaimed reason) now ''n'' =
    Inr (succession_row n now epoch shown reason)"
  using assms
  by (simp add: lease_event_def sample_host_def sample_owner_def new_lease_def next_lease_def succession_row_def)

lemma show_epochs: "show_nat 2 = ''2''" "show_nat 3 = ''3''"
  by code_simp+

lemma succession_simps:
  "js_home (succession_store e new) = [RootDir]"
  "enc (js_projection (succession_store e new)) p = Some ''P''"
  "enc (js_lease (succession_store e new)) l \<noteq> None"
  "epoch \<noteq> 1 \<Longrightarrow> document_ok (js_lease (succession_store e (next_lease epoch now))) (next_lease epoch now)"
  "document_ok (js_lease (succession_store e new)) (sample_lease 1)"
  by (auto simp: succession_store_def lease_store_def two_leases_def document_ok_def sample_lease_def
      next_lease_def new_lease_def newline_def)

lemma succession_codec:
  "enc (js_event (succession_store (succession_row n now epoch shown reason) new)) (succession_row n now epoch shown reason)
    = Some ''En''"
  "codec_ok (js_event (succession_store (succession_row n now epoch shown reason) new)) e"
  by (auto simp: succession_store_def lease_store_def table_codec_def created_row_def claim_row_def reclaim_row_def
      succession_row_def sample_event_def codec_ok_def newline_def split: if_splits)

lemma succession_logs:
  "history_of_log (succession_store (succession_row n now epoch shown reason) new) ''job'' (with_lease_file (log_fs [''a'', ''i'']))
    = Inr crash_history"
  "history_of_log (succession_store (succession_row n now epoch shown reason) new) ''job'' lag_fs = Inr lag_history"
  by (simp_all add: history_of_log_def log_bytes_def succession_store_def lease_store_def log_fs_def append_eval
      lag_rows crash_history_def lag_history_def lag_fs_def with_lease_file_def succession_row_def)

lemma succession_disk:
  "lease_on_disk (succession_store e new) ''job'' (with_lease_file (log_fs ids)) = Some (sample_lease 1)"
  "disk_healthy (with_lease_file (log_fs ids))"
  using claim_disk(3)
  by (simp_all add: lease_on_disk_def with_lease_file_def log_fs_def succession_store_def lease_store_def
      two_leases_def sample_lease_def)

lemma succession_owner:
  "lease_expiry sample_host now 5 = Inr (now + 5)" "ls_expires_at (sample_lease 1) = 15"
  "ls_epoch (sample_lease 1) = 1" "\<not> exact_lease_owner_is_live sample_host (sample_lease 1)"
  "boot_identities_match (ho_uuid sample_host) (ls_boot_id (sample_lease 1)) (lo_boot_id (sample_owner ''b1''))"
  by (simp_all add: lease_expiry_def sample_host_def sample_lease_def exact_lease_owner_is_live_def new_lease_def
      sample_owner_def boots)

text \<open>The lease of epoch 1 expired at time 15 and its owner is gone: the claim at that time takes epoch 2.\<close>

theorem claim_succeeds_when_free_witness:
  "\<exists>c s'. claim_job_lease (succession_store (succession_row 3 15 2 ''2'' Expired) (next_lease 2 15)) sample_host ''job''
      (sample_owner ''b1'') 15 5 ''n'' (with_lease_file (log_fs [''a'', ''i''])) = (Inr c, s')
    \<and> lc_disposition c = Reclaimed Expired \<and> ls_epoch (lc_lease c) = 2"
proof -
  let ?st = "succession_store (succession_row 3 15 2 ''2'' Expired) (next_lease 2 15)"
    and ?s = "with_lease_file (log_fs [''a'', ''i''])"
  have p: "next_sequence ''job'' crash_projection = Inr 3" "''n'' \<notin> row_id ` set (history_rows crash_history)"
      "hi_caveats crash_history = []" "expected_sequence crash_history = pr_last_sequence crash_projection + 1"
    by (simp_all add: next_sequence_def checked_add_u64_def job_event_sequence_new_def crash_projection_simps
        history_rows_def crash_history_def lag_rows expected_sequence_def)
  have due: "due_disposition sample_host (sample_owner ''b1'') crash_projection (Some (sample_lease 1)) =
      Reclaimed Expired"
    and free: "free_to_claim sample_host (sample_owner ''b1'') 15 crash_projection (lease_on_disk ?st ''job'' ?s)"
    by (simp_all add: due_disposition_def succession_disk succession_owner crash_projection_simps free_to_claim_def
        held_def)
  have epoch: "checked_add_u64 (durable_epoch ?st ''job'' crash_projection ?s) 1 = Some 2"
    by (simp add: durable_epoch_def epoch_of_def succession_disk succession_owner crash_projection_simps
        checked_add_u64_def)
  have new: "new_lease sample_host ''job'' (sample_owner ''b1'') 2 15 20 = next_lease 2 15"
    by (simp add: next_lease_def)
  have "\<exists>c s'. claim_job_lease ?st sample_host ''job'' (sample_owner ''b1'') 15 5 ''n'' ?s = (Inr c, s')
      \<and> lc_disposition c = due_disposition sample_host (sample_owner ''b1'') crash_projection (lease_on_disk ?st ''job'' ?s)
      \<and> lc_lease c = new_lease sample_host ''job'' (sample_owner ''b1'') 2 15 20
      \<and> lease_on_disk ?st ''job'' s' = Some (lc_lease c)"
    by (rule claim_succeeds_when_free [OF succession_disk(2) _ _ free, where n = 3 and row = "''En''"
          and e = "succession_row 3 15 2 ''2'' Expired" and h = crash_history])
      (simp_all add: due new succession_simps succession_codec succession_logs succession_disk succession_owner
        succession_event show_epochs p crash_reduces crash_projection_simps sample_owner_ok epoch)
  then show ?thesis by (auto simp: due succession_disk)
qed


text \<open>An artifact of the sample job, created under the sample lease.\<close>

definition artifact_row :: job_event where
  "artifact_row = worker_event (token_of (sample_lease 1)) 12 2 ''w'' AttemptStarted ''c'' Null"

definition artifact_store :: job_store where
  "artifact_store = lease_store [created_row, artifact_row] (sample_lease 1)"

definition artifact_path :: path where
  "artifact_path = job_dir [RootDir] ''job'' @ [Normal ''x.json'']"

definition artifact_codec :: "nat codec" where
  "artifact_codec = \<lparr>enc = (\<lambda>_. Some ''X''), dec = (\<lambda>_. None)\<rparr>"

definition artifact_event :: fenced_job_json_event where
  "artifact_event = \<lparr>fe_kind = AttemptStarted, fe_causation_id = ''c'', fe_detail = Null\<rparr>"

theorem stopped_job_takes_no_commit_witness:
  "\<exists>p. is_terminal p
    \<and> only_returns {control_lock_path verified_store ''job''} p (append_next_fenced_job_event verified_store
        (token_of (sample_lease 1)) 12 AttemptStarted ''c'' Null ''w'') verified_fs
    \<and> refuses {control_lock_path verified_store ''job''} (replace_fenced_job_json_and_append_event verified_store
        artifact_codec (token_of (sample_lease 1)) 12 artifact_path artifact_event 0 ''w'') verified_fs
    \<and> valid_token verified_store (token_of (sample_lease 1)) 12 verified_fs"
proof -
  have t: "lt_job_id (token_of (sample_lease 1)) = ''job''" "ls_expires_at (sample_lease 1) = 15"
    by (simp_all add: token_of_def sample_lease_def)
  have ok: "fs_ok verified_fs"
    using claim_disk(4) by (simp add: verified_fs_def with_lease_file_def)
  have valid: "valid_token verified_store (token_of (sample_lease 1)) 12 verified_fs"
    using t by (simp add: valid_token_def lease_on_disk_def verified_fs_def with_lease_file_def log_fs_def
        verified_store_def lease_store_def sample_lease_def)
  have "\<exists>p. projection_on_disk verified_store ''job'' verified_fs = Inr p \<and> is_terminal p"
    by (simp add: projection_on_disk_def verified_log reduce_eval created_row_def verified_row_def sample_event_def)
  then obtain p where p: "projection_on_disk verified_store (lt_job_id (token_of (sample_lease 1))) verified_fs = Inr p"
      "is_terminal p"
    using t by auto
  then have stopped: "stopped_for p AttemptStarted Null"
    by (simp add: stopped_for_def)
  have "ev_kind (claim_row\<lparr>ev_kind := AttemptStarted, ev_detail := Null\<rparr>) = AttemptStarted"
      "ev_detail (claim_row\<lparr>ev_kind := AttemptStarted, ev_detail := Null\<rparr>) = Null"
    by simp_all
  from stopped_job_takes_no_commit [OF ok p(1) stopped this, where now = 12 and cause = "''c''" and i = "''w''"
      and c = artifact_codec and artifact = artifact_path and fe = artifact_event and v = 0
      and c' = artifact_codec and v' = 0 and mutate = "io_return ()"]
  show ?thesis
    using p(2) valid unfolding t(1) by blast
qed

lemma artifact_store_simps:
  "js_home artifact_store = [RootDir]" "enc (js_event artifact_store) artifact_row = Some ''Ew''"
  "enc (js_projection artifact_store) p = Some ''P''" "codec_ok (js_event artifact_store) e"
  "lease_on_disk artifact_store ''job'' leased_fs = Some (sample_lease 1)" "disk_healthy leased_fs"
  "history_of_log artifact_store ''job'' leased_fs =
    Inr \<lparr>hi_events = [created_row], hi_raw_lines = [''Ea''], hi_caveats = []\<rparr>"
  using claim_disk(3)
  by (auto simp: artifact_store_def lease_store_def table_codec_def created_row_def artifact_row_def
      sample_event_def worker_event_def token_of_def codec_ok_def newline_def lease_on_disk_def leased_fs_def
      with_lease_file_def log_fs_def sample_lease_def history_of_log_def log_bytes_def append_eval
      split: if_splits)

lemma artifact_path_fresh:
  "artifact_path \<notin> job_private artifact_store ''job''" "artifact_path \<noteq> job_events [RootDir] ''job''"
  "artifact_path \<noteq> job_lease_path [RootDir] ''job''" "artifact_path \<noteq> control_lock_path artifact_store ''job''"
  "\<exists>u. path_parent artifact_path = Some u"
  by (simp_all add: artifact_path_def job_private_def job_files control_lock_path_def JOB_CONTROL_LOCK_def
      join_plain artifact_store_simps path_parent_def)

lemma sample_creation:
  "\<exists>p s'. create_fenced_job_json_and_append_event artifact_store artifact_codec (token_of (sample_lease 1)) 12
    artifact_path artifact_event v ''w'' leased_fs = (Inr (DispositionCreated p), s')"
proof -
  let ?t = "token_of (sample_lease 1)" and ?st = artifact_store
    and ?h = "\<lparr>hi_events = [created_row], hi_raw_lines = [''Ea''], hi_caveats = []\<rparr>"
  have t: "lt_job_id ?t = ''job''" "ls_expires_at (sample_lease 1) = 15"
    by (simp_all add: token_of_def sample_lease_def)
  have valid: "valid_token ?st ?t 12 leased_fs"
    using t artifact_store_simps(5) by (simp add: valid_token_def)
  have p: "\<not> cancel_requested created_projection"
    by (simp add: cancel_requested_def created_projection_def empty_projection_def)
  obtain s1 where s1: "fenced_projection ?st ?t 12 CreateAfterStop leased_fs = (Inr created_projection, s1)"
      "changes_only {control_lock_path ?st ''job''} leased_fs s1"
    using fenced_projection_healthy [OF artifact_store_simps(6) valid, where h = ?h and p = created_projection]
      t artifact_store_simps(7) claim_projection created_projection_simps(3) p by metis
  have "files s1 artifact_path = None"
    using s1(2) artifact_path_fresh
    by (simp add: changes_only_def leased_fs_def with_lease_file_def log_fs_def)
  moreover have healthy1: "disk_healthy s1"
    using disk_healthy_changes [OF s1(2)] artifact_store_simps(6) by simp
  ultimately have new: "persist_new_json artifact_codec artifact_path v s1 =
      (Inr True, put_file artifact_path (''X'' @ [newline]) s1)"
    using artifact_path_fresh(5) by (auto simp: persist_new_json_def artifact_codec_def disk_healthy_def)
  have "history_of_log ?st ''job'' s1 = Inr ?h"
    using artifact_store_simps(7) history_of_log_changes [OF s1(2), of ?st "''job''"] by simp
  then have log: "history_of_log ?st ''job'' (put_file artifact_path (''X'' @ [newline]) s1) = Inr ?h"
    using artifact_path_fresh(2) by (simp add: history_of_log_put_file artifact_store_simps(1))
  have ev: "ev_job_id artifact_row = ''job''" "ev_event_id artifact_row = ''w''" "ev_sequence artifact_row = 2"
      "ev_kind artifact_row = AttemptStarted" "ev_sequence created_row = 1" "ev_event_id created_row = ''a''"
    by (simp_all add: artifact_row_def worker_event_def t created_row_def sample_event_def)
  have rows: "history_rows ?h = [(created_row, ''Ea'')]" by (simp add: history_rows_def)
  obtain q where "reduce_job_history ''job'' (history_of_rows (history_rows ?h @ [(artifact_row, ''Ew'')]) []) = Inr q"
    using attempt_accepted [of "''job''" "history_rows ?h" "[]" created_projection artifact_row "''Ew''"]
      claim_projection history_of_history_rows [of ?h] created_projection_simps ev
    by (auto simp: history_rows_def)
  then have "\<exists>s2. append_job_event_locked ?st artifact_row (put_file artifact_path (''X'' @ [newline]) s1) = (Inr q, s2)"
    using healthy1 artifact_store_simps log ev rows
    by (intro append_succeeds [where h = ?h and row = "''Ew''"]) (simp_all add: expected_sequence_def)
  moreover have "next_sequence ''job'' created_projection = Inr 2"
    by (simp add: next_sequence_def checked_add_u64_def job_event_sequence_new_def created_projection_simps)
  moreover have "validate_artifact_path ?st ?t artifact_path = Inr ()"
    by (simp add: validate_artifact_path_def t artifact_store_simps(1) artifact_path_def strip_path_prefix_def
        is_normal_def)
  ultimately show ?thesis
    using s1(1) new t
    by (auto simp: create_fenced_job_json_and_append_event_def artifact_event_def artifact_row_def)
qed

theorem fenced_artifact_is_created_once_witness:
  "\<exists>p s'. create_fenced_job_json_and_append_event artifact_store artifact_codec (token_of (sample_lease 1)) 12
      artifact_path artifact_event 0 ''w'' leased_fs = (Inr (DispositionCreated p), s')
    \<and> files s' artifact_path \<noteq> None"
proof -
  obtain p s' where c: "create_fenced_job_json_and_append_event artifact_store artifact_codec
      (token_of (sample_lease 1)) 12 artifact_path artifact_event 0 ''w'' leased_fs = (Inr (DispositionCreated p), s')"
    using sample_creation by blast
  have "artifact_path \<notin> job_private artifact_store (lt_job_id (token_of (sample_lease 1)))"
    using artifact_path_fresh(1) by (simp add: token_of_def sample_lease_def)
  from fenced_artifact_is_created_once [OF c leased_fs_simps(4) this] c show ?thesis by blast
qed

end
