(* ===== verification/Plan_Examples.thy ===== *)
theory Plan_Examples
  imports Plan_Store Lease_Examples
begin

text \<open>
  The properties of owned plans at a concrete store: a plan of the sample job, its lease held, and the
  first candidate fact of the job.
\<close>

definition owned_sample_plan :: plan where
  "owned_sample_plan = sample_plan\<lparr>pn_owner_job_id := Some ''job''\<rparr>"

definition sample_plan_store :: plan_store where
  "sample_plan_store = \<lparr>ps_jobs = store1,
    ps_plan = \<lparr>enc = (\<lambda>_. Some ''P''), dec = (\<lambda>_. Some owned_sample_plan)\<rparr>,
    ps_message = table_codec [], ps_event = table_codec [],
    ps_candidate = table_codec [(sample_prepared, ''C'')], ps_coordinator = table_codec [],
    ps_marker = table_codec [], ps_sha256_text = sample_sha\<rparr>"

abbreviation sample_token :: lease_token where
  "sample_token \<equiv> token_of (sample_lease 1)"

lemma sample_token_job: "lt_job_id sample_token = ''job''"
  by (simp add: token_of_def sample_lease_def)

theorem owned_plan_writes_are_fenced_witness:
  "refuses {control_lock_path store1 ''job''}
    (save_owned_plan_fenced sample_plan_store sample_token 12 owned_sample_plan) empty_fs"
proof -
  have "\<not> valid_token (ps_jobs sample_plan_store) sample_token 12 empty_fs"
    by (simp add: valid_token_def lease_on_disk_def)
  from owned_plan_writes_are_fenced [OF this, THEN conjunct1]
  show ?thesis by (simp add: sample_plan_store_def sample_token_job)
qed

text \<open>The leased job with its plan on disk.\<close>

definition plan_fs :: fs where
  "plan_fs = put_file (plan_json [RootDir] ''p'') (''P'' @ [newline]) leased_fs"

lemma plan_path_fresh:
  "plan_json [RootDir] ''p'' \<noteq> job_events [RootDir] ''job''"
  "plan_json [RootDir] ''p'' \<noteq> job_lease_path [RootDir] ''job''"
  "plan_json [RootDir] ''p'' \<noteq> control_lock_path store1 ''job''"
  "plan_json [RootDir] ''p'' \<noteq> ordered_candidate_application_events_path [RootDir] ''job''"
  "job_events [RootDir] ''job'' \<noteq> ordered_candidate_application_events_path [RootDir] ''job''"
  "job_lease_path [RootDir] ''job'' \<noteq> ordered_candidate_application_events_path [RootDir] ''job''"
  "\<exists>u. path_parent (ordered_candidate_application_events_path [RootDir] ''job'') = Some u"
proof -
  have "plain ''ordered-candidate-applications.jsonl''" by (simp add: plain_def)
  then show "plan_json [RootDir] ''p'' \<noteq> job_events [RootDir] ''job''"
    "plan_json [RootDir] ''p'' \<noteq> job_lease_path [RootDir] ''job''"
    "plan_json [RootDir] ''p'' \<noteq> control_lock_path store1 ''job''"
    "plan_json [RootDir] ''p'' \<noteq> ordered_candidate_application_events_path [RootDir] ''job''"
    "job_events [RootDir] ''job'' \<noteq> ordered_candidate_application_events_path [RootDir] ''job''"
    "job_lease_path [RootDir] ''job'' \<noteq> ordered_candidate_application_events_path [RootDir] ''job''"
    "\<exists>u. path_parent (ordered_candidate_application_events_path [RootDir] ''job'') = Some u"
    by (simp_all add: plan_json_def job_files control_lock_path_def JOB_CONTROL_LOCK_def
        ordered_candidate_application_events_path_def join_plain store1_simps path_parent_def)
qed

lemma candidate_appended:
  "\<exists>s'. append_owned_ordered_candidate_application_event_fenced sample_plan_store sample_token ''p'' ''r0''
    sample_prepared plan_fs = (Inr (), s')"
proof -
  let ?c = "ordered_candidate_application_events_path [RootDir] ''job''"
  let ?h = "\<lparr>hi_events = [created_row], hi_raw_lines = [''Ea''], hi_caveats = []\<rparr>"
  have healthy: "disk_healthy plan_fs"
    using artifact_store_simps(6) by (simp add: plan_fs_def disk_healthy_def)
  have disk: "lease_on_disk store1 ''job'' plan_fs = Some (sample_lease 1)" "history_of_log store1 ''job'' plan_fs = Inr ?h"
    using leased_fs_simps(1,2) plan_path_fresh
    by (auto simp: plan_fs_def lease_on_disk_def Let_def history_of_log_put_file store1_simps)
  have expiry: "ls_expires_at (sample_lease 1) = 15" by (simp add: sample_lease_def)
  have valid: "valid_token store1 sample_token 12 plan_fs"
    using disk(1) expiry by (simp add: valid_token_def sample_token_job)
  have running: "\<not> cancel_requested created_projection"
    by (simp add: cancel_requested_def created_projection_def empty_projection_def)
  obtain s1 where s1: "fenced_projection store1 sample_token 12 ControlAfterStop plan_fs = (Inr created_projection, s1)"
      "changes_only {control_lock_path store1 ''job''} plan_fs s1"
    using fenced_projection_healthy [OF healthy valid, where h = ?h and p = created_projection]
      sample_token_job disk(2) claim_projection created_projection_simps(3) running by metis
  have h1: "disk_healthy s1" using disk_healthy_changes [OF s1(2)] healthy by simp
  have f1: "files s1 (plan_json [RootDir] ''p'') = Some (''P'' @ [newline])" "files s1 ?c = None"
    using s1(2) plan_path_fresh(3) plan_path_fresh(4-6) [symmetric]
      candidate_path_not_lock [of sample_plan_store "''job''" "''job''"]
    by (simp_all add: changes_only_def plan_fs_def leased_fs_def with_lease_file_def log_fs_def
        sample_plan_store_def store1_simps)
  have ps: "ps_jobs sample_plan_store = store1" "ps_sha256_text sample_plan_store = sample_sha"
      "ps_candidate sample_plan_store = table_codec [(sample_prepared, ''C'')]"
      "dec (ps_plan sample_plan_store) b = Some owned_sample_plan" for b
    by (simp_all add: sample_plan_store_def)
  have own: "owned_plan sample_plan_store sample_token ''p'' s1 = (Inr (), s1)"
    using f1(1) h1
    by (simp add: owned_plan_def load_plan_def Let_def io_bind_run fs_read_def disk_healthy_def ps store1_simps
        parse_json_def validate_owned_plan_token_def owned_sample_plan_def sample_token_job)
  have read: "read_ordered_candidate_application_events sample_plan_store ''job'' s1 = (Inr [], s1)"
    using f1(2) h1
    by (simp add: read_ordered_candidate_application_events_def read_rows_def fs_read_or_value disk_healthy_def
        ps store1_simps io_bind_run str_lines_def)
  have app: "\<exists>s'. append_json_line (table_codec [(sample_prepared, ''C'')]) ?c sample_prepared s1 = (Inr (), s')"
    using plan_path_fresh(7) h1
    by (auto simp: append_json_line_def append_row_Inr_iff io_bind_run disk_healthy_def table_codec_def
        intro!: append_row_Inr_iff [THEN iffD2])
  have "oc_job_id sample_prepared = ''job''" "oc_plan_id sample_prepared = ''p''" "oc_recorded_at sample_prepared = 12"
    by (simp_all add: sample_prepared_def)
  then show ?thesis
    using s1(1) own read app sample_candidate_prefix sample_candidates_verified(1)
    by (auto simp: append_owned_ordered_candidate_application_event_fenced_def append_candidate_def
        with_fenced_job_control_def ps store1_simps sample_token_job)
qed

theorem candidate_append_is_durable_witness:
  "\<exists>s'. append_owned_ordered_candidate_application_event_fenced sample_plan_store sample_token ''p'' ''r0''
      sample_prepared plan_fs = (Inr (), s')
    \<and> read_ordered_candidate_application_events sample_plan_store ''job'' s' = (Inr [sample_prepared], s')"
proof -
  let ?c = "ordered_candidate_application_events_path [RootDir] ''job''"
  obtain s' where run: "append_owned_ordered_candidate_application_event_fenced sample_plan_store sample_token ''p''
      ''r0'' sample_prepared plan_fs = (Inr (), s')"
    using candidate_appended by blast
  have "\<not> blank ''C''" by code_simp
  then have row: "row_ok (ps_candidate sample_plan_store) sample_prepared"
    by (simp add: row_ok_def codec_ok_def sample_plan_store_def table_codec_def newline_def)
  have disk: "files plan_fs ?c = None" "read_fault plan_fs ?c = None" "ps_home sample_plan_store = [RootDir]"
    using plan_path_fresh(4-6) [symmetric]
    by (simp_all add: plan_fs_def leased_fs_def with_lease_file_def log_fs_def sample_plan_store_def store1_simps)
  have "fst (read_ordered_candidate_application_events sample_plan_store ''job'' plan_fs) = Inr []"
    by (simp add: read_ordered_candidate_application_events_def read_rows_def fs_read_or_value io_bind_run
        str_lines_def disk)
  with candidate_append_is_durable [OF run row] run show ?thesis
    by (auto simp: sample_token_job disk)
qed

end
