(* ===== verification/Campaign.thy ===== *)
theory Campaign
  imports Plan_Store "HOL-Library.Signed_Division"
begin

text \<open>
  Campaigns (\<open>crates/deadreckon-core/src/campaign.rs\<close>): the lineage that crosses the spawn boundary,
  the depth and cycle guard, the sub-goals of a campaign, the split of its budget and the roll-up of
  the leaf verdicts. The lemmas show that a spawned process cannot start a campaign, that the
  ancestors' task keys survive the environment, that shares of a budget sum back to it, and that
  a campaign completes only when every leaf is signed and not refused.
\<close>

section \<open>Lineage\<close>

definition CAMPAIGN_MAX_DEPTH :: u32 where "CAMPAIGN_MAX_DEPTH = 2"

record lineage =
  ln_schema_version :: u32
  ln_depth :: u32
  ln_campaign_root_id :: "string option"
  ln_ancestor_task_keys :: "string list"
  ln_ancestor_scopes :: "string list"

definition default_lineage :: lineage where
  "default_lineage = \<lparr>ln_schema_version = 1, ln_depth = 0, ln_campaign_root_id = None,
    ln_ancestor_task_keys = [], ln_ancestor_scopes = []\<rparr>"

definition lineage_path_for_plan_dir :: "path \<Rightarrow> path" where
  "lineage_path_for_plan_dir dir = join dir ''lineage.json''"

definition read_lineage :: "lineage codec \<Rightarrow> path \<Rightarrow> lineage io" where
  "read_lineage c dir =
    (let p = lineage_path_for_plan_dir dir in
     io_bind (fs_read_optional p) (\<lambda>found.
     case found of
       Some raw \<Rightarrow> io_lift (parse_json c p raw)
     | None \<Rightarrow> io_return default_lineage))"

definition write_lineage :: "lineage codec \<Rightarrow> path \<Rightarrow> lineage \<Rightarrow> unit io" where
  "write_lineage c dir l = atomic_write_json c (lineage_path_for_plan_dir dir) l"

definition campaign_error :: "campaign_fault \<Rightarrow> dr_error" where
  "campaign_error f = InvalidInput (CampaignFault f)"

definition guard_campaign ::
    "u32 \<Rightarrow> string list \<Rightarrow> string list \<Rightarrow> string list \<Rightarrow> string list \<Rightarrow> unit res" where
  "guard_campaign current_depth ancestor_task_keys ancestor_scopes requested_sub_task_keys requested_sub_scopes =
    (if current_depth + 1 \<ge> CAMPAIGN_MAX_DEPTH then Inl (campaign_error CampaignDepth)
     else case find (\<lambda>key. key \<in> set ancestor_task_keys) requested_sub_task_keys of
       Some key \<Rightarrow> Inl (campaign_error (TaskKeyCycle key))
     | None \<Rightarrow>
        (case find (\<lambda>scope. scope \<in> set ancestor_scopes) requested_sub_scopes of
           Some scope \<Rightarrow> Inl (campaign_error (ScopeCycle scope))
         | None \<Rightarrow> Inr ()))"

section \<open>Campaigns and sub-goals\<close>

datatype campaign_status = CampaignPending | CampaignForked | CampaignMerged | CampaignFailed | CampaignKilled

datatype sub_goal_status = SubPending | SubRunning | SubMerged | SubFailed | SubKilled

record sub_goal =
  sg_sub_id :: string
  sg_goal :: string
  sg_task_key :: string
  sg_sub_plan_id :: "string option"
  sg_result_run_id :: "string option"
  sg_scope :: "string option"
  sg_status :: sub_goal_status

record campaign =
  ca_schema_version :: u32
  ca_campaign_id :: string
  ca_root_goal :: string
  ca_n :: u32
  ca_depth :: u32
  ca_providers :: plan_providers
  ca_sub_goals :: "sub_goal list"
  ca_tree_budget_usd :: "f64 option"
  ca_tree_wall_seconds :: "f64 option"
  ca_root_planner_accounting :: "root_planner_accounting option"
  ca_status :: campaign_status
  ca_merged_run_id :: "string option"
  ca_created_at :: timestamp
  ca_forked_at :: "timestamp option"
  ca_merged_at :: "timestamp option"
  ca_deadreckon_version :: string

definition campaign_new ::
    "string \<Rightarrow> sub_goal list \<Rightarrow> plan_providers \<Rightarrow> u32 \<Rightarrow> f64 option \<Rightarrow> f64 option \<Rightarrow> string \<Rightarrow> string
      \<Rightarrow> timestamp \<Rightarrow> campaign res" where
  "campaign_new root_goal sub_goals providers depth budget wall version campaign_id now =
    res_bind (validate_task_count (length sub_goals)) (\<lambda>_.
    Inr \<lparr>ca_schema_version = 1, ca_campaign_id = campaign_id, ca_root_goal = root_goal,
      ca_n = of_nat (length sub_goals), ca_depth = depth, ca_providers = providers,
      ca_sub_goals = sub_goals, ca_tree_budget_usd = budget, ca_tree_wall_seconds = wall,
      ca_root_planner_accounting = None, ca_status = CampaignPending, ca_merged_run_id = None,
      ca_created_at = now, ca_forked_at = None, ca_merged_at = None, ca_deadreckon_version = version\<rparr>)"

definition sub_by_id :: "campaign \<Rightarrow> string \<Rightarrow> sub_goal option" where
  "sub_by_id c sub_id = find (\<lambda>sub. sg_sub_id sub = sub_id) (ca_sub_goals c)"

text \<open>A change through \<open>sub_by_id_mut\<close> reaches the first sub-goal with the id.\<close>

fun update_first :: "('a \<Rightarrow> bool) \<Rightarrow> ('a \<Rightarrow> 'a) \<Rightarrow> 'a list \<Rightarrow> 'a list" where
  "update_first P f [] = []"
| "update_first P f (x # xs) = (if P x then f x # xs else x # update_first P f xs)"

definition sub_by_id_mut :: "(sub_goal \<Rightarrow> sub_goal) \<Rightarrow> campaign \<Rightarrow> string \<Rightarrow> campaign" where
  "sub_by_id_mut f c sub_id =
    c\<lparr>ca_sub_goals := update_first (\<lambda>sub. sg_sub_id sub = sub_id) f (ca_sub_goals c)\<rparr>"

definition sub_task_keys :: "campaign \<Rightarrow> string list" where
  "sub_task_keys c = map sg_task_key (ca_sub_goals c)"

text \<open>The loop of \<open>build_sub_goals\<close>: the set of normalized goals seen and the sub-goals so far.\<close>

definition sub_goal_step ::
    "string set \<times> sub_goal list \<Rightarrow> nat \<times> string \<Rightarrow> (string set \<times> sub_goal list) res" where
  "sub_goal_step = (\<lambda>(seen, subs) (index, goal).
    let trimmed = trim goal;
        normalized = to_ascii_lowercase (join_with '' '' (split_whitespace trimmed))
    in if trimmed = [] then Inl (campaign_error SubGoalEmpty)
       else if normalized \<in> seen then Inl (campaign_error (SubGoalDuplicate trimmed))
       else Inr (insert normalized seen, subs @
         [\<lparr>sg_sub_id = ''sub-'' @ show_nat index, sg_goal = trimmed, sg_task_key = task_key trimmed,
           sg_sub_plan_id = None, sg_result_run_id = None, sg_scope = None, sg_status = SubPending\<rparr>]))"

definition build_sub_goals :: "string list \<Rightarrow> nat \<Rightarrow> sub_goal list res" where
  "build_sub_goals goals requested_n =
    (if length goals \<noteq> requested_n then Inl (campaign_error (SubGoalCount (length goals) requested_n))
     else
       res_bind (validate_task_count (length goals)) (\<lambda>_.
       res_bind (fold_res sub_goal_step ({}, []) (enumerate 0 goals)) (\<lambda>(seen, subs). Inr subs)))"

definition campaign_path_for_plan_dir :: "path \<Rightarrow> path" where
  "campaign_path_for_plan_dir dir = join dir ''campaign.json''"

definition read_campaign :: "campaign codec \<Rightarrow> path \<Rightarrow> campaign io" where
  "read_campaign c dir =
    (let p = campaign_path_for_plan_dir dir in
     io_bind (fs_read p) (\<lambda>raw. io_lift (parse_json c p raw)))"

definition write_campaign :: "campaign codec \<Rightarrow> path \<Rightarrow> campaign \<Rightarrow> unit io" where
  "write_campaign c dir v = atomic_write_json c (campaign_path_for_plan_dir dir) v"

section \<open>Results of sub-orchestrators\<close>

record sub_result =
  sr_schema_version :: u32
  sr_sub_id :: string
  sr_plan_id :: "string option"
  sr_result_run_id :: "string option"
  sr_ok :: bool

definition sub_result_path :: "path \<Rightarrow> path" where
  "sub_result_path launch_dir = join launch_dir ''sub-result.json''"

definition read_sub_result :: "sub_result codec \<Rightarrow> path \<Rightarrow> sub_result option io" where
  "read_sub_result c launch_dir =
    (let p = sub_result_path launch_dir in
     io_bind (fs_read_optional p) (\<lambda>found.
     case found of
       Some raw \<Rightarrow> io_lift (res_bind (parse_json c p raw) (\<lambda>r. Inr (Some r)))
     | None \<Rightarrow> io_return None))"

definition write_sub_result :: "sub_result codec \<Rightarrow> path \<Rightarrow> sub_result \<Rightarrow> unit io" where
  "write_sub_result c launch_dir r = atomic_write_json c (sub_result_path launch_dir) r"

section \<open>Lineage from the environment\<close>

text \<open>\<open>str::parse::<u32>\<close>: an optional plus sign, then at least one digit, in range.\<close>

definition parse_u32 :: "string \<Rightarrow> u32 option" where
  "parse_u32 s =
    (let ds = (case s of c # cs \<Rightarrow> if c = CHR ''+'' then cs else s | [] \<Rightarrow> [])
     in if ds \<noteq> [] \<and> list_all is_ascii_digit ds \<and> digits_value ds < 2 ^ 32
        then Some (of_nat (digits_value ds)) else None)"

definition split_items :: "string option \<Rightarrow> string list" where
  "split_items v =
    (case v of
       None \<Rightarrow> []
     | Some raw \<Rightarrow> filter (\<lambda>item. item \<noteq> []) (map trim (split_on (CHR '','') raw)))"

definition parse_lineage ::
    "string option \<Rightarrow> string option \<Rightarrow> string option \<Rightarrow> string option \<Rightarrow> lineage" where
  "parse_lineage depth campaign_root_id ancestor_task_keys ancestor_scopes =
    \<lparr>ln_schema_version = 1,
     ln_depth = unwrap_or (Option.bind depth (\<lambda>raw. parse_u32 (trim raw))) 0,
     ln_campaign_root_id =
       (case campaign_root_id of
          None \<Rightarrow> None
        | Some v \<Rightarrow> if trim v \<noteq> [] then Some (trim v) else None),
     ln_ancestor_task_keys = split_items ancestor_task_keys,
     ln_ancestor_scopes = split_items ancestor_scopes\<rparr>"

text \<open>The environment is a map; a variable that is not Unicode counts as absent.\<close>

definition lineage_from_env :: "(string \<rightharpoonup> string) \<Rightarrow> lineage" where
  "lineage_from_env env = parse_lineage (env ''DEADRECKON_CAMPAIGN_DEPTH'') (env ''DEADRECKON_CAMPAIGN_ROOT'')
    (env ''DEADRECKON_CAMPAIGN_ANCESTOR_TASK_KEYS'') (env ''DEADRECKON_CAMPAIGN_ANCESTOR_SCOPES'')"

text \<open>What the launcher puts there (\<open>commands/campaign.rs\<close>).\<close>

definition sub_orchestrator_env :: "string \<Rightarrow> string list \<Rightarrow> string list \<Rightarrow> (string \<rightharpoonup> string) \<Rightarrow> string \<rightharpoonup> string" where
  "sub_orchestrator_env campaign_id ancestor_task_keys ancestor_scopes env =
    (let env = env(''DEADRECKON_CAMPAIGN_DEPTH'' \<mapsto> ''1'', ''DEADRECKON_CAMPAIGN_ROOT'' \<mapsto> campaign_id);
         env = (if ancestor_task_keys = [] then env
           else env(''DEADRECKON_CAMPAIGN_ANCESTOR_TASK_KEYS'' \<mapsto> join_with '','' ancestor_task_keys))
     in if ancestor_scopes = [] then env
        else env(''DEADRECKON_CAMPAIGN_ANCESTOR_SCOPES'' \<mapsto> join_with '','' ancestor_scopes))"

section \<open>Events of a campaign\<close>

record campaign_event =
  ce_schema_version :: u32
  ce_ts :: timestamp
  ce_kind :: string
  ce_detail :: json

definition campaign_events_path :: "path \<Rightarrow> path" where
  "campaign_events_path dir = join dir ''campaign-events.jsonl''"

definition append_campaign_event :: "campaign_event codec \<Rightarrow> path \<Rightarrow> string \<Rightarrow> json \<Rightarrow> timestamp \<Rightarrow> unit io" where
  "append_campaign_event c dir kind detail now =
    append_json_line c (campaign_events_path dir)
      \<lparr>ce_schema_version = 1, ce_ts = now, ce_kind = kind, ce_detail = detail\<rparr>"

definition read_campaign_events :: "campaign_event codec \<Rightarrow> path \<Rightarrow> campaign_event list io" where
  "read_campaign_events c dir = read_rows c (campaign_events_path dir) (\<lambda>_. Inr ())"

section \<open>Budgets\<close>

text \<open>
  \<open>(x * 100.0).round() as i64\<close> on exact reals: half away from zero, then saturating at the range of
  64 bits. Shares are whole cents; \<open>sdiv\<close> is the division of machine integers, towards zero.
\<close>

definition round_half_away :: "real \<Rightarrow> int" where
  "round_half_away x = (if x \<ge> 0 then \<lfloor>x + 1 / 2\<rfloor> else - \<lfloor>- x + 1 / 2\<rfloor>)"

definition as_i64 :: "int \<Rightarrow> int" where
  "as_i64 x = max (- (2 ^ 63)) (min (2 ^ 63 - 1) x)"

definition total_cents :: "f64 \<Rightarrow> int" where
  "total_cents tree_budget = as_i64 (round_half_away (tree_budget * 100))"

definition share_cents :: "int \<Rightarrow> nat \<Rightarrow> nat \<Rightarrow> int" where
  "share_cents cents n index =
    (let base = cents sdiv int n;
         remainder = cents - base * int n
     in if int index < remainder then base + 1 else base)"

definition allocate_budget :: "f64 \<Rightarrow> nat \<Rightarrow> f64 list" where
  "allocate_budget tree_budget n =
    (if n = 0 then []
     else map (\<lambda>index. real_of_int (share_cents (total_cents tree_budget) n index) / 100) [0..<n])"

definition tree_budget_exhausted :: "f64 option \<Rightarrow> f64 \<Rightarrow> bool" where
  "tree_budget_exhausted tree_budget spent =
    (case tree_budget of None \<Rightarrow> False | Some cap \<Rightarrow> spent \<ge> cap)"

section \<open>The roll-up of leaf verdicts\<close>

datatype acceptance_tamper_verdict = TamperClean | TamperCaveat | TamperRefuse

datatype rollup_verdict = Clean | Caveat | Refused

record leaf_verdict =
  lv_sub_id :: string
  lv_result_run_id :: "string option"
  lv_gate :: string
  lv_tamper_verdict :: acceptance_tamper_verdict
  lv_caveats :: "string list"

definition effective :: "leaf_verdict \<Rightarrow> rollup_verdict" where
  "effective l =
    (if lv_gate l \<noteq> ''signed'' then Refused
     else case lv_tamper_verdict l of
       TamperClean \<Rightarrow> Clean
     | TamperCaveat \<Rightarrow> Caveat
     | TamperRefuse \<Rightarrow> Refused)"

record campaign_rollup =
  cr_schema_version :: u32
  cr_campaign_id :: string
  cr_evaluated_at :: timestamp
  cr_leaves :: "leaf_verdict list"
  cr_rollup_verdict :: rollup_verdict
  cr_refused_subs :: "string list"
  cr_caveat_subs :: "string list"

definition worst_of :: "rollup_verdict list \<Rightarrow> rollup_verdict" where
  "worst_of verdicts =
    (if verdicts = [] then Refused
     else if Refused \<in> set verdicts then Refused
     else if Caveat \<in> set verdicts then Caveat
     else Clean)"

definition rollup_permits_completion :: "rollup_verdict \<Rightarrow> bool" where
  "rollup_permits_completion v \<longleftrightarrow> v \<noteq> Refused"

type_synonym leaf_lookup = "string \<Rightarrow> string \<times> acceptance_tamper_verdict \<times> string list"

definition leaf_of :: "leaf_lookup \<Rightarrow> sub_goal \<Rightarrow> leaf_verdict" where
  "leaf_of leaf_lookup sub =
    (case sg_result_run_id sub of
       Some run_id \<Rightarrow>
        (let (gate, tamper, caveats) = leaf_lookup run_id
         in \<lparr>lv_sub_id = sg_sub_id sub, lv_result_run_id = Some run_id, lv_gate = gate,
              lv_tamper_verdict = tamper, lv_caveats = caveats\<rparr>)
     | None \<Rightarrow> \<lparr>lv_sub_id = sg_sub_id sub, lv_result_run_id = None, lv_gate = ''missing'',
         lv_tamper_verdict = TamperRefuse, lv_caveats = []\<rparr>)"

definition build_rollup :: "campaign \<Rightarrow> leaf_lookup \<Rightarrow> timestamp \<Rightarrow> campaign_rollup" where
  "build_rollup c leaf_lookup now =
    (let leaves = map (leaf_of leaf_lookup) (ca_sub_goals c)
     in \<lparr>cr_schema_version = 1, cr_campaign_id = ca_campaign_id c, cr_evaluated_at = now,
          cr_leaves = leaves, cr_rollup_verdict = worst_of (map effective leaves),
          cr_refused_subs = map lv_sub_id (filter (\<lambda>l. effective l = Refused) leaves),
          cr_caveat_subs = map lv_sub_id (filter (\<lambda>l. effective l = Caveat) leaves)\<rparr>)"

definition campaign_can_complete :: "campaign \<Rightarrow> campaign_rollup \<Rightarrow> bool" where
  "campaign_can_complete c r \<longleftrightarrow>
    list_all (\<lambda>sub. sg_status sub = SubMerged) (ca_sub_goals c)
    \<and> rollup_permits_completion (cr_rollup_verdict r)"

definition rollup_path_for_plan_dir :: "path \<Rightarrow> path" where
  "rollup_path_for_plan_dir dir = join dir ''campaign-rollup.json''"

definition rollup_path_at_run_root :: "path \<Rightarrow> path" where
  "rollup_path_at_run_root root_dir = join root_dir ''campaign-rollup.json''"

definition write_campaign_rollup :: "campaign_rollup codec \<Rightarrow> path \<Rightarrow> campaign_rollup \<Rightarrow> unit io" where
  "write_campaign_rollup c dir r = atomic_write_json c (rollup_path_for_plan_dir dir) r"

definition write_campaign_rollup_at_run_root :: "campaign_rollup codec \<Rightarrow> path \<Rightarrow> campaign_rollup \<Rightarrow> unit io" where
  "write_campaign_rollup_at_run_root c root_dir r = atomic_write_json c (rollup_path_at_run_root root_dir) r"

definition read_campaign_rollup :: "campaign_rollup codec \<Rightarrow> path \<Rightarrow> campaign_rollup io" where
  "read_campaign_rollup c dir =
    (let p = rollup_path_for_plan_dir dir in
     io_bind (fs_read p) (\<lambda>raw. io_lift (parse_json c p raw)))"

section \<open>Verdicts are ordered by severity\<close>

instantiation rollup_verdict :: linorder
begin

fun severity :: "rollup_verdict \<Rightarrow> nat" where
  "severity Clean = 0"
| "severity Caveat = 1"
| "severity Refused = 2"

definition less_eq_rollup_verdict :: "rollup_verdict \<Rightarrow> rollup_verdict \<Rightarrow> bool" where
  "less_eq_rollup_verdict a b \<longleftrightarrow> severity a \<le> severity b"

definition less_rollup_verdict :: "rollup_verdict \<Rightarrow> rollup_verdict \<Rightarrow> bool" where
  "less_rollup_verdict a b \<longleftrightarrow> severity a < severity b"

instance
proof
  fix a b :: rollup_verdict
  show "a \<le> b \<Longrightarrow> b \<le> a \<Longrightarrow> a = b"
    by (cases a; cases b) (simp_all add: less_eq_rollup_verdict_def)
qed (auto simp: less_eq_rollup_verdict_def less_rollup_verdict_def)

end

lemma worst_of_is_Max:
  assumes "vs \<noteq> []"
  shows "worst_of vs = Max (set vs)"
proof -
  show ?thesis
  proof (rule Max_eqI [symmetric])
    show "worst_of vs \<in> set vs"
    proof -
      obtain v where v: "v \<in> set vs" using assms by (cases vs) auto
      show ?thesis by (cases v) (use v in \<open>auto simp: worst_of_def\<close>)
    qed
    show "v \<le> worst_of vs" if "v \<in> set vs" for v
      by (cases v) (use that in \<open>auto simp: worst_of_def less_eq_rollup_verdict_def\<close>)
  qed simp
qed

text \<open>
  C9: No laundering. A campaign completes under its own roll-up exactly when it has sub-goals, all of
  them merged, and every one has a result run whose gate is signed and whose tamper verdict is not a
  refusal; the recorded verdict is then the worst of the leaves.
\<close>

theorem campaign_completes_iff_every_leaf_stands:
  "campaign_can_complete c (build_rollup c leaf_lookup now) \<longleftrightarrow>
    ca_sub_goals c \<noteq> [] \<and> (\<forall>sub\<in>set (ca_sub_goals c). sg_status sub = SubMerged
      \<and> (\<exists>run verdict caveats. sg_result_run_id sub = Some run
        \<and> leaf_lookup run = (''signed'', verdict, caveats) \<and> verdict \<noteq> TamperRefuse))"
proof -
  have leaf: "effective (leaf_of leaf_lookup sub) \<noteq> Refused \<longleftrightarrow>
      (\<exists>run verdict caveats. sg_result_run_id sub = Some run
        \<and> leaf_lookup run = (''signed'', verdict, caveats) \<and> verdict \<noteq> TamperRefuse)" for sub
    by (auto simp: effective_def leaf_of_def split: option.splits prod.splits acceptance_tamper_verdict.splits)
  have worst: "worst_of vs \<noteq> Refused \<longleftrightarrow> vs \<noteq> [] \<and> (\<forall>v\<in>set vs. v \<noteq> Refused)" for vs
    by (auto simp: worst_of_def)
  have "campaign_can_complete c (build_rollup c leaf_lookup now) \<longleftrightarrow>
      ca_sub_goals c \<noteq> [] \<and> (\<forall>sub\<in>set (ca_sub_goals c). sg_status sub = SubMerged
        \<and> effective (leaf_of leaf_lookup sub) \<noteq> Refused)"
    unfolding campaign_can_complete_def rollup_permits_completion_def build_rollup_def Let_def
    by (auto simp: list_all_iff worst)
  then show ?thesis unfolding leaf .
qed

definition sample_sub :: "string \<Rightarrow> sub_goal" where
  "sample_sub i = \<lparr>sg_sub_id = i, sg_goal = ''g'', sg_task_key = ''k'', sg_sub_plan_id = None,
    sg_result_run_id = Some ''run'', sg_scope = None, sg_status = SubMerged\<rparr>"

definition sample_campaign :: campaign where
  "sample_campaign = \<lparr>ca_schema_version = 1, ca_campaign_id = ''c'', ca_root_goal = ''g'', ca_n = 2,
    ca_depth = 0, ca_providers = pn_providers sample_plan, ca_sub_goals = [sample_sub ''sub-0'', sample_sub ''sub-1''],
    ca_tree_budget_usd = None, ca_tree_wall_seconds = None, ca_root_planner_accounting = None,
    ca_status = CampaignForked, ca_merged_run_id = None, ca_created_at = 1, ca_forked_at = None,
    ca_merged_at = None, ca_deadreckon_version = []\<rparr>"

theorem campaign_completes_iff_every_leaf_stands_witness:
  "campaign_can_complete sample_campaign (build_rollup sample_campaign (\<lambda>_. (''signed'', TamperCaveat, [])) 5)
    \<and> \<not> campaign_can_complete sample_campaign (build_rollup sample_campaign (\<lambda>_. (''signed'', TamperRefuse, [])) 5)"
  unfolding campaign_completes_iff_every_leaf_stands by (auto simp: sample_campaign_def sample_sub_def)

section \<open>The guard\<close>

lemma guard_campaign_ok:
  "guard_campaign d keys scopes sub_keys sub_scopes = Inr () \<longleftrightarrow>
    d + 1 < CAMPAIGN_MAX_DEPTH \<and> set sub_keys \<inter> set keys = {} \<and> set sub_scopes \<inter> set scopes = {}"
  by (auto simp: guard_campaign_def find_None_iff dest: find_Some_member split: option.splits)

lemma word_succ_small: "(d :: u32) + 1 < 2 \<longleftrightarrow> d = 0 \<or> d = - 1"
proof -
  have "d + 1 < 2 \<longleftrightarrow> unat (d + 1) = 0 \<or> unat (d + 1) = 1" by (auto simp: word_less_nat_alt)
  also have "\<dots> \<longleftrightarrow> d + 1 = 0 \<or> d + 1 = 1" by (simp add: word_unat_eq_iff)
  also have "\<dots> \<longleftrightarrow> d = 0 \<or> d = - 1" by (simp add: eq_neg_iff_add_eq_0 disj_commute)
  finally show ?thesis .
qed

section \<open>Crossing the spawn boundary\<close>

lemma leading_None: "(\<forall>w\<in>set ws. w \<noteq> [] \<longrightarrow> hd w \<noteq> c) \<Longrightarrow> leading ws (c # cs) = None"
  by (auto simp: leading_def find_None_iff prefix_def) (metis append_Cons list.sel(1) list.exhaust)

lemma trim_id:
  assumes "\<forall>c\<in>set s. c = CHR ''-'' \<or> lower_alnum c"
  shows "trim s = s"
proof -
  have ok: "\<forall>w\<in>set white_space. w \<noteq> [] \<longrightarrow> hd w \<noteq> c" "\<forall>w\<in>set (map rev white_space). w \<noteq> [] \<longrightarrow> hd w \<noteq> c"
    if "c = CHR ''-'' \<or> lower_alnum c" for c
  proof -
    have "list_all (\<lambda>w. hd w \<noteq> CHR ''-'' \<and> \<not> lower_alnum (hd w)) (white_space @ map rev white_space)"
      by code_simp
    then show "\<forall>w\<in>set white_space. w \<noteq> [] \<longrightarrow> hd w \<noteq> c"
        "\<forall>w\<in>set (map rev white_space). w \<noteq> [] \<longrightarrow> hd w \<noteq> c"
      using that by (auto simp: list_all_iff)
  qed
  have "leading white_space s = None"
  proof (cases s)
    case (Cons c cs)
    then have "c = CHR ''-'' \<or> lower_alnum c" using assms by simp
    then show ?thesis unfolding Cons by (rule leading_None [OF ok(1)])
  qed simp
  moreover have "leading (map rev white_space) (rev s) = None"
  proof (cases s rule: rev_cases)
    case (snoc cs c)
    then have "c = CHR ''-'' \<or> lower_alnum c" using assms by simp
    then show ?thesis unfolding snoc rev_append rev.simps append_Nil append_Cons by (rule leading_None [OF ok(2)])
  qed simp
  ultimately have "strip_front white_space s = s" "strip_front (map rev white_space) (rev s) = rev s"
    by (simp_all add: strip_front.simps [of white_space s] strip_front.simps [of "map rev white_space" "rev s"])
  then show ?thesis by (simp add: trim_def trim_start_def trim_end_def)
qed

lemma task_keys_survive:
  assumes "goals \<noteq> []"
  shows "split_items (Some (join_with '','' (map task_key goals))) = map task_key goals"
proof -
  have no_comma: "CHR '','' \<notin> set (task_key g)" for g
    using task_key_chars [of "CHR '',''" g] by (auto simp: lower_alnum_def Let_def)
  have "task_key g \<noteq> []" for g by (rule task_key_shape [of g]) auto
  then have "filter (\<lambda>i. i \<noteq> []) (map trim (map task_key goals)) = map task_key goals"
    using trim_id task_key_chars by (induction goals) auto
  then show ?thesis
    using split_on_join [of "map task_key goals" "CHR '',''"] assms no_comma by (simp add: split_items_def)
qed

lemma sub_orchestrator_env_lookup:
  "sub_orchestrator_env i keys scopes env ''DEADRECKON_CAMPAIGN_DEPTH'' = Some ''1''"
  "sub_orchestrator_env i keys scopes env ''DEADRECKON_CAMPAIGN_ANCESTOR_TASK_KEYS'' =
    (if keys = [] then env ''DEADRECKON_CAMPAIGN_ANCESTOR_TASK_KEYS'' else Some (join_with '','' keys))"
  by (simp_all add: sub_orchestrator_env_def Let_def)

text \<open>
  A process launched for a sub-goal knows it: whatever environment it inherits, the variables its
  launcher sets give it depth one and all task keys of its ancestors, and the guard refuses it every
  campaign. At depth zero the guard accepts exactly the requests that repeat no ancestor.
\<close>

theorem spawned_process_starts_no_campaign:
  assumes "goals \<noteq> []"
  shows "ln_depth (lineage_from_env (sub_orchestrator_env i (map task_key goals) scopes env)) = 1
    \<and> ln_ancestor_task_keys (lineage_from_env (sub_orchestrator_env i (map task_key goals) scopes env))
        = map task_key goals
    \<and> guard_campaign 1 keys scopes' sub_keys sub_scopes = Inl (campaign_error CampaignDepth)
    \<and> (guard_campaign 0 keys scopes' sub_keys sub_scopes = Inr () \<longleftrightarrow>
        set sub_keys \<inter> set keys = {} \<and> set sub_scopes \<inter> set scopes' = {})"
proof (intro conjI)
  have "trim ''1'' = ''1''" by (rule trim_id) (simp add: lower_alnum_def)
  then have "parse_u32 (trim ''1'') = Some 1" by (simp add: parse_u32_def is_ascii_digit_def digits_value_def)
  then show "ln_depth (lineage_from_env (sub_orchestrator_env i (map task_key goals) scopes env)) = 1"
    by (simp add: lineage_from_env_def parse_lineage_def sub_orchestrator_env_lookup unwrap_or_def)
  show "ln_ancestor_task_keys (lineage_from_env (sub_orchestrator_env i (map task_key goals) scopes env))
      = map task_key goals"
    using task_keys_survive [OF assms] assms
    by (simp add: lineage_from_env_def parse_lineage_def sub_orchestrator_env_lookup)
  show "guard_campaign 1 keys scopes' sub_keys sub_scopes = Inl (campaign_error CampaignDepth)"
    by (simp add: guard_campaign_def CAMPAIGN_MAX_DEPTH_def)
  show "guard_campaign 0 keys scopes' sub_keys sub_scopes = Inr () \<longleftrightarrow>
      set sub_keys \<inter> set keys = {} \<and> set sub_scopes \<inter> set scopes' = {}"
    by (simp add: guard_campaign_ok CAMPAIGN_MAX_DEPTH_def)
qed

theorem spawned_process_starts_no_campaign_witness:
  "ln_ancestor_task_keys (lineage_from_env (sub_orchestrator_env ''c'' [task_key ''Build it''] [] Map.empty))
    = [task_key ''Build it'']"
  using spawned_process_starts_no_campaign [of "[''Build it'']" "''c''" "[]" Map.empty] by simp

section \<open>Sub-goals\<close>

definition normalized_goal :: "string \<Rightarrow> string" where
  "normalized_goal goal = to_ascii_lowercase (join_with '' '' (split_whitespace (trim goal)))"

definition fresh_sub_goal :: "nat \<Rightarrow> string \<Rightarrow> sub_goal" where
  "fresh_sub_goal index goal = \<lparr>sg_sub_id = ''sub-'' @ show_nat index, sg_goal = trim goal,
    sg_task_key = task_key (trim goal), sg_sub_plan_id = None, sg_result_run_id = None, sg_scope = None,
    sg_status = SubPending\<rparr>"

lemma sub_goal_step_ok:
  "sub_goal_step (seen, subs) (index, goal) = Inr st \<longleftrightarrow>
    \<not> blank goal \<and> normalized_goal goal \<notin> seen
    \<and> st = (insert (normalized_goal goal) seen, subs @ [fresh_sub_goal index goal])"
  by (auto simp: sub_goal_step_def Let_def blank_def normalized_goal_def fresh_sub_goal_def)

lemma sub_goal_fold:
  "fold_res sub_goal_step (seen, subs) (enumerate k goals) = Inr st \<longleftrightarrow>
    (\<forall>g\<in>set goals. \<not> blank g \<and> normalized_goal g \<notin> seen) \<and> distinct (map normalized_goal goals)
    \<and> st = (seen \<union> normalized_goal ` set goals,
        subs @ map (\<lambda>(i, g). fresh_sub_goal i g) (enumerate k goals))"
proof (induction goals arbitrary: seen subs k)
  case Nil
  then show ?case by (auto simp: enumerate_eq_zip)
next
  case (Cons g goals)
  show ?case
    unfolding enumerate_simps fold_res.simps res_bind_Inr_iff sub_goal_step_ok
    by (auto simp: Cons.IH) (metis image_eqI)
qed

lemma show_nat_inj: "show_nat m = show_nat n \<Longrightarrow> m = n"
  by (metis digits_value_show)

text \<open>
  The planner's output is accepted exactly when there are as many goals as requested, between two
  and six, none blank and no two equal up to case and white space; the sub-goals are then the
  trimmed goals in order, pending, with distinct ids.
\<close>

theorem build_sub_goals_iff:
  "(build_sub_goals goals n = Inr subs \<longleftrightarrow>
      length goals = n \<and> 2 \<le> n \<and> n \<le> 6 \<and> (\<forall>g\<in>set goals. \<not> blank g)
      \<and> distinct (map normalized_goal goals)
      \<and> subs = map (\<lambda>(i, g). fresh_sub_goal i g) (enumerate 0 goals))
    \<and> distinct (map (\<lambda>(i, g). sg_sub_id (fresh_sub_goal i g)) (enumerate 0 goals))"
proof
  show "build_sub_goals goals n = Inr subs \<longleftrightarrow>
      length goals = n \<and> 2 \<le> n \<and> n \<le> 6 \<and> (\<forall>g\<in>set goals. \<not> blank g)
      \<and> distinct (map normalized_goal goals)
      \<and> subs = map (\<lambda>(i, g). fresh_sub_goal i g) (enumerate 0 goals)"
    by (auto simp: build_sub_goals_def validate_task_count_def res_bind_Inr_iff sub_goal_fold)
  have "map (\<lambda>(i, g). sg_sub_id (fresh_sub_goal i g)) (enumerate 0 goals) =
      map (\<lambda>i. ''sub-'' @ show_nat i) [0..<length goals]"
    by (rule nth_equalityI) (auto simp: fresh_sub_goal_def enumerate_eq_zip)
  then show "distinct (map (\<lambda>(i, g). sg_sub_id (fresh_sub_goal i g)) (enumerate 0 goals))"
    by (simp add: distinct_map inj_on_def show_nat_inj)
qed

theorem build_sub_goals_iff_witness:
  "build_sub_goals [''API'', '' ui ''] 2 = Inr [fresh_sub_goal 0 ''API'', fresh_sub_goal 1 '' ui '']"
proof -
  have "\<not> blank ''API''" "\<not> blank '' ui ''" "normalized_goal ''API'' \<noteq> normalized_goal '' ui ''" by code_simp+
  then show ?thesis
    using build_sub_goals_iff [of "[''API'', '' ui '']" 2 "[fresh_sub_goal 0 ''API'', fresh_sub_goal 1 '' ui '']"]
    by simp
qed

section \<open>Shares of a budget\<close>

lemma sum_first_extra: "r \<le> n \<Longrightarrow> (\<Sum>i<n. if i < r then b + 1 else b :: int) = b * int n + int r"
  by (induction n) (auto simp: algebra_simps le_Suc_eq)

lemma share_cents_nonneg:
  assumes "0 \<le> cents" "0 < n"
  shows "share_cents cents n i = (if i < nat (cents mod int n) then cents div int n + 1 else cents div int n)"
proof -
  have "cents sdiv int n = cents div int n"
    using assms by (simp add: signed_divide_int_def sgn_if)
  moreover have "cents - cents div int n * int n = cents mod int n" by (simp add: minus_div_mult_eq_mod)
  ultimately show ?thesis by (auto simp: share_cents_def Let_def)
qed

text \<open>
  A ceiling that is not negative is split into n shares that are within a cent of each other, the
  larger ones first, and that sum to the ceiling rounded to whole cents.
\<close>

theorem budget_shares_sum_to_ceiling:
  assumes "0 \<le> tree_budget" "0 < n"
  shows "length (allocate_budget tree_budget n) = n
    \<and> sum_list (allocate_budget tree_budget n) = total_cents tree_budget / 100
    \<and> (\<forall>i j. i \<le> j \<and> j < n \<longrightarrow>
        allocate_budget tree_budget n ! i - allocate_budget tree_budget n ! j \<in> {0, 1 / 100})"
proof (intro conjI allI impI)
  let ?c = "total_cents tree_budget"
  have c: "0 \<le> ?c" using assms by (simp add: total_cents_def as_i64_def round_half_away_def)
  note share = share_cents_nonneg [OF c assms(2)]
  show "length (allocate_budget tree_budget n) = n" using assms(2) by (simp add: allocate_budget_def)
  have r: "nat (?c mod int n) \<le> n" using assms(2) by (simp add: order_less_imp_le nat_le_iff)
  have "(\<Sum>i<n. share_cents ?c n i) = ?c"
    unfolding share sum_first_extra [OF r] using assms(2) by simp
  then have "(\<Sum>i<n. real_of_int (share_cents ?c n i)) = real_of_int ?c"
    by (simp flip: of_int_sum)
  then have "(\<Sum>i<n. real_of_int (share_cents ?c n i) / 100) = ?c / 100"
    by (simp flip: sum_divide_distrib)
  then show "sum_list (allocate_budget tree_budget n) = ?c / 100"
    using assms(2) by (simp add: allocate_budget_def interv_sum_list_conv_sum_set_nat atLeast0LessThan)
  fix i j
  assume "i \<le> j \<and> j < n"
  then show "allocate_budget tree_budget n ! i - allocate_budget tree_budget n ! j \<in> {0, 1 / 100}"
    by (auto simp: allocate_budget_def share)
qed

theorem budget_shares_sum_to_ceiling_witness:
  "sum_list (allocate_budget 10 3) = total_cents 10 / 100 \<and> total_cents 10 = 1000"
proof -
  have "\<lfloor>2001 / 2 :: real\<rfloor> = 1000" by (simp add: floor_eq_iff)
  then have "total_cents 10 = 1000" by (simp add: total_cents_def as_i64_def round_half_away_def)
  then show ?thesis using budget_shares_sum_to_ceiling [of 10 3] by simp
qed

text \<open>A negative ceiling is not split exactly: minus one cent among two is nothing for both.\<close>

lemma negative_ceiling_is_lost: "share_cents (- 1) 2 0 + share_cents (- 1) 2 1 \<noteq> - 1"
  by (simp add: share_cents_def signed_divide_int_def)

end
