(* ===== verification/Chain_Steps.thy ===== *)
theory Chain_Steps
  imports Plan_Store
begin

text \<open>
  Chains (\<open>crates/deadreckon-core/src/chain.rs\<close>): the chain record, its steps and their state machine,
  the files of a chain. The state machine is the relation of the allowed transitions; by rule
  induction over the traces of a step, a step is applied only right after it ran to completion.
\<close>

section \<open>Steps\<close>

datatype chain_status =
    ChainPending
  | ChainRunning
  | ChainPaused
  | ChainCompleted
  | ChainFailed
  | ChainKilled
  | ChainUndone

datatype chain_step_status =
    StepPending
  | StepRunning
  | StepCompleted
  | StepFailed
  | StepSkipped
  | StepApplied
  | StepUndone

record chain_step =
  st_index :: u32
  st_goal :: string
  st_status :: chain_step_status
  st_run_id :: "string option"
  st_applied_at :: "timestamp option"
  st_applied_sha :: "string option"
  st_fail_reason :: "string option"
  st_max_spend_usd :: "f64 option"
  st_spend_usd :: f64

definition chain_step_new :: "u32 \<Rightarrow> string \<Rightarrow> chain_step" where
  "chain_step_new index goal =
    \<lparr>st_index = index, st_goal = goal, st_status = StepPending, st_run_id = None, st_applied_at = None,
     st_applied_sha = None, st_fail_reason = None, st_max_spend_usd = None, st_spend_usd = 0\<rparr>"

fun step_transition_allowed :: "chain_step_status \<Rightarrow> chain_step_status \<Rightarrow> bool" where
  "step_transition_allowed StepPending StepRunning = True"
| "step_transition_allowed StepPending StepSkipped = True"
| "step_transition_allowed StepPending StepFailed = True"
| "step_transition_allowed StepRunning StepCompleted = True"
| "step_transition_allowed StepRunning StepFailed = True"
| "step_transition_allowed StepRunning StepSkipped = True"
| "step_transition_allowed StepCompleted StepApplied = True"
| "step_transition_allowed StepCompleted StepFailed = True"
| "step_transition_allowed StepCompleted StepPending = True"
| "step_transition_allowed StepFailed StepPending = True"
| "step_transition_allowed StepApplied StepPending = True"
| "step_transition_allowed StepApplied StepUndone = True"
| "step_transition_allowed StepSkipped StepPending = True"
| "step_transition_allowed StepUndone StepPending = True"
| "step_transition_allowed _ _ = False"

definition chain_error :: "chain_fault \<Rightarrow> dr_error" where
  "chain_error f = InvalidInput (ChainFault f)"

text \<open>The step keeps its status when the transition is refused.\<close>

definition transition_to :: "chain_step \<Rightarrow> chain_step_status \<Rightarrow> unit res \<times> chain_step" where
  "transition_to step status =
    (if \<not> step_transition_allowed (st_status step) status then (Inl (chain_error StepTransition), step)
     else (Inr (), step\<lparr>st_status := status\<rparr>))"

section \<open>The chain\<close>

record chain =
  ch_schema_version :: u32
  ch_chain_id :: string
  ch_root_goal :: string
  ch_steps :: "chain_step list"
  ch_branch_policy :: branch_policy
  ch_apply_mode :: apply_mode
  ch_apply_strategy :: apply_strategy
  ch_apply_allowlist :: "string list"
  ch_on_fail :: on_fail
  ch_circuit_breaker_threshold :: u32
  ch_circuit_breaker_consecutive_failures :: u32
  ch_max_spend_usd :: "f64 option"
  ch_max_wall_seconds :: "f64 option"
  ch_total_spend_usd :: f64
  ch_total_wall_seconds :: f64
  ch_scope :: string
  ch_base_branch :: string
  ch_base_sha :: string
  ch_cwd :: path
  ch_provider :: "string option"
  ch_model :: "string option"
  ch_sandbox :: string
  ch_status :: chain_status
  ch_paused_reason :: "string option"
  ch_failure_reason :: "string option"
  ch_conductor_pid :: "u32 option"
  ch_created_at :: timestamp
  ch_started_at :: "timestamp option"
  ch_completed_at :: "timestamp option"
  ch_deadreckon_version :: string

record chain_new_options =
  co_root_goal :: string
  co_goals :: "string list"
  co_scope :: string
  co_base_branch :: string
  co_base_sha :: string
  co_cwd :: path
  co_provider :: "string option"
  co_model :: "string option"
  co_sandbox :: string
  co_branch_policy :: branch_policy
  co_apply_mode :: apply_mode
  co_apply_strategy :: apply_strategy
  co_apply_allowlist :: "string list"
  co_on_fail :: on_fail
  co_circuit_breaker_threshold :: u32
  co_max_spend_usd :: "f64 option"
  co_max_wall_seconds :: "f64 option"
  co_deadreckon_version :: string

definition validate_goal_count :: "nat \<Rightarrow> unit res" where
  "validate_goal_count count =
    (if count \<le> 1 then Inl (chain_error TooFewSteps)
     else if count \<le> 12 then Inr ()
     else Inl (chain_error (TooManySteps count)))"

definition chain_new :: "chain_new_options \<Rightarrow> string \<Rightarrow> timestamp \<Rightarrow> chain res" where
  "chain_new options chain_id now =
    res_bind (validate_goal_count (length (co_goals options))) (\<lambda>_.
    Inr \<lparr>ch_schema_version = 1, ch_chain_id = chain_id, ch_root_goal = co_root_goal options,
      ch_steps = map (\<lambda>(index, goal). chain_step_new (of_nat index) goal) (enumerate 0 (co_goals options)),
      ch_branch_policy = co_branch_policy options, ch_apply_mode = co_apply_mode options,
      ch_apply_strategy = co_apply_strategy options, ch_apply_allowlist = co_apply_allowlist options,
      ch_on_fail = co_on_fail options,
      ch_circuit_breaker_threshold = co_circuit_breaker_threshold options,
      ch_circuit_breaker_consecutive_failures = 0, ch_max_spend_usd = co_max_spend_usd options,
      ch_max_wall_seconds = co_max_wall_seconds options, ch_total_spend_usd = 0,
      ch_total_wall_seconds = 0, ch_scope = co_scope options, ch_base_branch = co_base_branch options,
      ch_base_sha = co_base_sha options, ch_cwd = co_cwd options, ch_provider = co_provider options,
      ch_model = co_model options, ch_sandbox = co_sandbox options, ch_status = ChainPending,
      ch_paused_reason = None, ch_failure_reason = None, ch_conductor_pid = None, ch_created_at = now,
      ch_started_at = None, ch_completed_at = None,
      ch_deadreckon_version = co_deadreckon_version options\<rparr>)"

definition chain_task_key :: "string \<Rightarrow> string" where
  "chain_task_key chain_id = ''chain--'' @ chain_id"

definition pending_count :: "chain \<Rightarrow> nat" where
  "pending_count c = length (filter (\<lambda>s. st_status s = StepPending) (ch_steps c))"

section \<open>Files of a chain\<close>

record chain_step_marker =
  mk_schema_version :: u32
  mk_kind :: string
  mk_chain_id :: string
  mk_step_index :: u32
  mk_chain_root_goal :: string
  mk_step_goal :: string
  mk_prior_applied_sha :: "string option"
  mk_created_at :: timestamp
  mk_deadreckon_version :: string

definition chain_step_marker_new :: "chain \<Rightarrow> chain_step \<Rightarrow> string option \<Rightarrow> timestamp \<Rightarrow> chain_step_marker" where
  "chain_step_marker_new c step prior now =
    \<lparr>mk_schema_version = 1, mk_kind = ''chain_step'', mk_chain_id = ch_chain_id c,
     mk_step_index = st_index step, mk_chain_root_goal = ch_root_goal c, mk_step_goal = st_goal step,
     mk_prior_applied_sha = prior, mk_created_at = now, mk_deadreckon_version = ch_deadreckon_version c\<rparr>"

record conductor_state =
  cd_schema_version :: u32
  cd_chain_id :: string
  cd_conductor_pid :: u32
  cd_started_at :: timestamp
  cd_live_step :: "u32 option"
  cd_live_run_id :: "string option"
  cd_live_child_pid :: "u32 option"

datatype chain_event_kind =
    ChainCreated
  | ChainStepStarted
  | ChainRunCompleted
  | ChainApplyStarted
  | ChainApplied
  | ChainApplyRefused
  | ChainStepFailed
  | ChainPausedEvent
  | ChainResumed
  | ChainKilledEvent
  | ChainCompletedEvent
  | ChainUndoStarted
  | ChainUndoneStep
  | ChainHookInvoked
  | ChainStepExtended
  | ChainStepRedone
  | LegacyExecutionSelected

record chain_event =
  cv_timestamp :: timestamp
  cv_chain_id :: string
  cv_event :: chain_event_kind
  cv_step_index :: "u32 option"
  cv_detail :: json

definition chain_json_path :: "path \<Rightarrow> string \<Rightarrow> path" where
  "chain_json_path home chain_id = chain_json home chain_id"

definition save_chain :: "chain codec \<Rightarrow> path \<Rightarrow> chain \<Rightarrow> unit io" where
  "save_chain c home v = atomic_write_json c (chain_json_path home (ch_chain_id v)) v"

definition load_chain :: "chain codec \<Rightarrow> path \<Rightarrow> string \<Rightarrow> chain io" where
  "load_chain c home chain_id =
    (let p = chain_json_path home chain_id in
     io_bind (fs_read p) (\<lambda>raw. io_lift (parse_json c p raw)))"

definition append_chain_event ::
    "chain_event codec \<Rightarrow> path \<Rightarrow> string \<Rightarrow> chain_event_kind \<Rightarrow> u32 option \<Rightarrow> json \<Rightarrow> timestamp \<Rightarrow> unit io" where
  "append_chain_event c home chain_id event step_index detail now =
    append_json_line c (chain_events home chain_id)
      \<lparr>cv_timestamp = now, cv_chain_id = chain_id, cv_event = event, cv_step_index = step_index,
       cv_detail = detail\<rparr>"

definition write_chain_step_marker :: "chain_step_marker codec \<Rightarrow> path \<Rightarrow> chain_step_marker \<Rightarrow> path io" where
  "write_chain_step_marker c working_dir marker =
    (let p = join working_dir ''.deadreckon/chain-step.json'' in
     io_bind (atomic_write_json c p marker) (\<lambda>_. io_return p))"

definition read_chain_step_marker :: "chain_step_marker codec \<Rightarrow> path \<Rightarrow> chain_step_marker option io" where
  "read_chain_step_marker c working_dir =
    (let p = join working_dir ''.deadreckon/chain-step.json'' in
     io_bind (fs_read_optional p) (\<lambda>found.
     case found of
       Some raw \<Rightarrow> io_lift (res_bind (parse_json c p raw) (\<lambda>m. Inr (Some m)))
     | None \<Rightarrow> io_return None))"

section \<open>Traces of a step\<close>

text \<open>The statuses a step goes through: each accepted call of \<open>transition_to\<close> adds one.\<close>

inductive step_trace :: "chain_step \<Rightarrow> chain_step_status list \<Rightarrow> chain_step \<Rightarrow> bool" where
  start: "st_status step = StepPending \<Longrightarrow> step_trace step [StepPending] step"
| move: "step_trace step0 ts step \<Longrightarrow> transition_to step status = (Inr (), step') \<Longrightarrow>
    step_trace step0 (ts @ [status]) step'"

lemma transition_to_ok:
  "transition_to step status = (Inr (), step') \<longleftrightarrow>
    step_transition_allowed (st_status step) status \<and> step' = step\<lparr>st_status := status\<rparr>"
  by (auto simp: transition_to_def)

lemma transition_to_refused:
  "\<not> step_transition_allowed (st_status step) status \<Longrightarrow>
    transition_to step status = (Inl (chain_error StepTransition), step)"
  by (simp add: transition_to_def)

lemma step_trace_last: "step_trace step0 ts step \<Longrightarrow> ts \<noteq> [] \<and> last ts = st_status step"
  by (induction rule: step_trace.induct) (auto simp: transition_to_ok)

lemma into_applied: "step_transition_allowed s StepApplied \<Longrightarrow> s = StepCompleted"
  by (cases s) simp_all

lemma into_completed: "step_transition_allowed s StepCompleted \<Longrightarrow> s = StepRunning"
  by (cases s) simp_all

lemma into_running: "step_transition_allowed s StepRunning \<Longrightarrow> s = StepPending"
  by (cases s) simp_all

lemma step_trace_run:
  "step_trace step0 ts step \<Longrightarrow>
    (st_status step = StepRunning \<longrightarrow> (\<exists>pre. ts = pre @ [StepPending, StepRunning]))
    \<and> (st_status step = StepCompleted \<longrightarrow> (\<exists>pre. ts = pre @ [StepPending, StepRunning, StepCompleted]))
    \<and> (st_status step = StepApplied \<longrightarrow>
        (\<exists>pre. ts = pre @ [StepPending, StepRunning, StepCompleted, StepApplied]))"
proof (induction rule: step_trace.induct)
  case (move step0 ts step status step')
  from move.hyps(2) have allowed: "step_transition_allowed (st_status step) status"
      "st_status step' = status" by (auto simp: transition_to_ok)
  obtain pre where ts: "ts = pre @ [st_status step]"
    using step_trace_last [OF move.hyps(1)] append_butlast_last_id by metis
  show ?case
    using allowed ts move.IH into_running into_completed into_applied by (auto; metis append.assoc append_Cons append_Nil)
qed simp

text \<open>
  A chain step is applied only right after it was started from pending, ran and completed; its
  other fields never change with its status, and a refused transition leaves the step as it was.
\<close>

theorem applied_step_was_run:
  assumes "step_trace step0 ts step"
  shows "(st_status step = StepApplied \<longrightarrow>
      (\<exists>pre. ts = pre @ [StepPending, StepRunning, StepCompleted, StepApplied]))
    \<and> step = step0\<lparr>st_status := last ts\<rparr>
    \<and> (\<forall>status. step_transition_allowed (st_status step) status \<or> snd (transition_to step status) = step)"
proof -
  have "step = step0\<lparr>st_status := last ts\<rparr>"
    using assms by (induction rule: step_trace.induct) (auto simp: transition_to_ok)
  moreover have "\<forall>status. step_transition_allowed (st_status step) status \<or> snd (transition_to step status) = step"
    by (metis transition_to_refused snd_conv)
  ultimately show ?thesis using step_trace_run [OF assms] by blast
qed

theorem applied_step_was_run_witness:
  "\<exists>step. step_trace (chain_step_new 0 ''g'') [StepPending, StepRunning, StepCompleted, StepApplied] step
    \<and> step = (chain_step_new 0 ''g'')\<lparr>st_status := StepApplied\<rparr>"
proof -
  let ?s = "chain_step_new 0 ''g''"
  have "step_trace ?s [StepPending] ?s" by (rule step_trace.start) (simp add: chain_step_new_def)
  from step_trace.move [OF this, of StepRunning]
  have "step_trace ?s [StepPending, StepRunning] (?s\<lparr>st_status := StepRunning\<rparr>)"
    by (simp add: transition_to_ok chain_step_new_def)
  from step_trace.move [OF this, of StepCompleted]
  have "step_trace ?s [StepPending, StepRunning, StepCompleted] (?s\<lparr>st_status := StepCompleted\<rparr>)"
    by (simp add: transition_to_ok)
  from step_trace.move [OF this, of StepApplied]
  have t: "step_trace ?s [StepPending, StepRunning, StepCompleted, StepApplied] (?s\<lparr>st_status := StepApplied\<rparr>)"
    by (simp add: transition_to_ok)
  from applied_step_was_run [OF t] t show ?thesis by auto
qed

end
