(* ===== verification/Ordered_Map.thy ===== *)
theory Ordered_Map
  imports Prelude "HOL-Library.Multiset" "HOL-Library.Product_Lexorder"
begin

text \<open>
  \<open>BTreeMap\<close> as the sorted list of its entries: insertion, building it from a list, and the facts
  the canonical payloads and the inbox rest on. Two sorted lists with the same lookup are equal, so
  a map built from a list depends on the last value of each key only.
\<close>

section \<open>Insertion\<close>

text \<open>A \<open>BTreeMap\<close> as its sorted entries; inserting a known key replaces its value.\<close>

fun btree_map_insert :: "'k::linorder \<Rightarrow> 'a \<Rightarrow> ('k \<times> 'a) list \<Rightarrow> ('k \<times> 'a) list" where
  "btree_map_insert k v [] = [(k, v)]"
| "btree_map_insert k v ((k', v') # m) =
    (if k < k' then (k, v) # (k', v') # m
     else if k = k' then (k, v) # m
     else (k', v') # btree_map_insert k v m)"

definition btree_of :: "('k::linorder \<times> 'a) list \<Rightarrow> ('k \<times> 'a) list" where
  "btree_of kvs = fold (\<lambda>(k, v). btree_map_insert k v) kvs []"

section \<open>Lookup and order\<close>

abbreviation keys_sorted :: "('k::linorder \<times> 'a) list \<Rightarrow> bool" where
  "keys_sorted m \<equiv> sorted_wrt (<) (map fst m)"

lemma btree_map_insert_keys: "set (map fst (btree_map_insert k v m)) = insert k (set (map fst m))"
  by (induction k v m rule: btree_map_insert.induct) auto

lemma btree_map_insert_sorted: "keys_sorted m \<Longrightarrow> keys_sorted (btree_map_insert k v m)"
proof (induction k v m rule: btree_map_insert.induct)
  case (2 k v k' v' m)
  then show ?case using btree_map_insert_keys [of k v m] by (auto simp del: set_map)
qed simp

lemma btree_map_insert_map_of: "keys_sorted m \<Longrightarrow> map_of (btree_map_insert k v m) = (map_of m)(k \<mapsto> v)"
  by (induction k v m rule: btree_map_insert.induct) auto

lemma btree_fold:
  "keys_sorted m \<Longrightarrow> keys_sorted (fold (\<lambda>(k, v). btree_map_insert k v) kvs m)
    \<and> map_of (fold (\<lambda>(k, v). btree_map_insert k v) kvs m) = map_of m ++ map_of (rev kvs)"
proof (induction kvs arbitrary: m)
  case (Cons kv kvs)
  obtain k v where kv: "kv = (k, v)" by force
  show ?case
    using Cons.IH [OF btree_map_insert_sorted [OF Cons.prems], of k v] Cons.prems
    by (simp add: kv btree_map_insert_map_of map_add_def fun_eq_iff split: option.splits)
qed simp

lemma btree_of_sorted: "keys_sorted (btree_of kvs)"
  and btree_of_map_of: "map_of (btree_of kvs) = map_of (rev kvs)"
  using btree_fold [of "[]" kvs] by (simp_all add: btree_of_def)

lemma sorted_maps_eq:
  assumes "keys_sorted m" "keys_sorted m'" "map_of m = map_of m'"
  shows "m = m'"
proof -
  have d: "distinct (map fst m)" "distinct (map fst m')" "sorted (map fst m)" "sorted (map fst m')"
    using assms(1,2) by (simp_all add: strict_sorted_iff)
  have "set m = set m'"
    using set_map_of_compr [OF d(1)] set_map_of_compr [OF d(2)] assms(3) by simp
  moreover have "inj_on fst (set m \<union> set m')" using d(1,2) calculation by (simp add: distinct_map)
  ultimately show ?thesis using map_sorted_distinct_set_unique d by metis
qed

lemma map_of_perm:
  assumes "distinct (map fst kvs)" "mset kvs = mset kvs'"
  shows "map_of (rev kvs) = map_of (rev kvs')"
proof -
  have "distinct (map fst (rev kvs))" "distinct (map fst (rev kvs'))" "set (rev kvs) = set (rev kvs')"
    using assms mset_eq_imp_distinct_iff [of "map fst kvs" "map fst kvs'"] mset_eq_setD
    by (auto simp: rev_map [symmetric] simp del: rev_map)
  then show ?thesis using map_of_inject_set by blast
qed

lemma btree_of_perm: "distinct (map fst kvs) \<Longrightarrow> mset kvs = mset kvs' \<Longrightarrow> btree_of kvs = btree_of kvs'"
  by (rule sorted_maps_eq) (simp_all add: btree_of_sorted btree_of_map_of map_of_perm)

lemma btree_of_id: "keys_sorted m \<Longrightarrow> btree_of m = m"
proof (rule sorted_maps_eq [OF btree_of_sorted])
  assume m: "keys_sorted m"
  then show "map_of (btree_of m) = map_of m"
    using map_of_perm [of m "rev m"] by (simp add: btree_of_map_of strict_sorted_iff)
qed

lemma btree_of_values: "(k, v) \<in> set (btree_of kvs) \<Longrightarrow> (k, v) \<in> set kvs"
proof -
  assume "(k, v) \<in> set (btree_of kvs)"
  moreover have "distinct (map fst (btree_of kvs))" using btree_of_sorted [of kvs] by (simp add: strict_sorted_iff)
  ultimately have "map_of (rev kvs) k = Some v" by (simp add: map_of_eq_Some_iff flip: btree_of_map_of)
  then show ?thesis using map_of_SomeD by fastforce
qed

end
