(* ===== verification/Chain_Hooks.thy ===== *)
theory Chain_Hooks
  imports Chain_Steps Ordered_Map
begin

text \<open>
  Frozen chain hooks and their evidence (\<open>crates/deadreckon-core/src/chain.rs\<close>): the identity of a
  hook approved with a durable job, the adapter manifest, the canonical payload of an invocation and
  the fenced log of hook events. A hook may have effects outside, so the log decides whether an
  invocation may run: its rows are an \<open>event_machine\<close> whose invariant is that every completion
  follows its exact start and that nothing is recorded twice. SHA-256, \<open>serde_json\<close>, path rendering
  and canonicalization are parameters.
\<close>

section \<open>Hook identities\<close>

datatype chain_hook_name = PreStep | PostStep | OnPromote | OnChainEnd

fun hook_name_str :: "chain_hook_name \<Rightarrow> string" where
  "hook_name_str PreStep = ''pre-step''"
| "hook_name_str PostStep = ''post-step''"
| "hook_name_str OnPromote = ''on-promote''"
| "hook_name_str OnChainEnd = ''on-chain-end''"

text \<open>The derived order of the names, used to sort the hooks of a manifest.\<close>

instantiation chain_hook_name :: linorder
begin

fun hook_rank :: "chain_hook_name \<Rightarrow> nat" where
  "hook_rank PreStep = 0"
| "hook_rank PostStep = 1"
| "hook_rank OnPromote = 2"
| "hook_rank OnChainEnd = 3"

definition less_eq_chain_hook_name :: "chain_hook_name \<Rightarrow> chain_hook_name \<Rightarrow> bool" where
  "less_eq_chain_hook_name a b \<longleftrightarrow> hook_rank a \<le> hook_rank b"

definition less_chain_hook_name :: "chain_hook_name \<Rightarrow> chain_hook_name \<Rightarrow> bool" where
  "less_chain_hook_name a b \<longleftrightarrow> hook_rank a < hook_rank b"

instance
proof
  fix a b :: chain_hook_name
  show "a \<le> b \<Longrightarrow> b \<le> a \<Longrightarrow> a = b"
    by (cases a; cases b) (simp_all add: less_eq_chain_hook_name_def)
qed (auto simp: less_eq_chain_hook_name_def less_chain_hook_name_def)

end

datatype chain_hook_source = Workspace | User | Installation

fun hook_source_str :: "chain_hook_source \<Rightarrow> string" where
  "hook_source_str Workspace = ''workspace''"
| "hook_source_str User = ''user''"
| "hook_source_str Installation = ''installation''"

record frozen_chain_hook =
  fh_name :: chain_hook_name
  fh_source :: chain_hook_source
  fh_source_path :: path
  fh_approved_bytes :: bytes
  fh_content_sha256 :: string
  fh_identity_sha256 :: string

text \<open>What the chain code takes from outside: both uses of SHA-256 and \<open>Path::display\<close>.\<close>

record digests =
  dg_sha256_text :: "string \<Rightarrow> string"
  dg_sha256_bytes :: "bytes \<Rightarrow> string"
  dg_display :: "path \<Rightarrow> string"

definition chain_hook_identity_sha256 ::
    "digests \<Rightarrow> chain_hook_name \<Rightarrow> chain_hook_source \<Rightarrow> path \<Rightarrow> string \<Rightarrow> string" where
  "chain_hook_identity_sha256 dg name source source_path content =
    dg_sha256_text dg (join_with [NUL]
      [hook_name_str name, hook_source_str source, dg_display dg source_path, content])"

text \<open>\<open>fs::canonicalize\<close> is an argument; every path of the file system model is a regular file.\<close>

definition freeze ::
    "digests \<Rightarrow> (path \<Rightarrow> path res) \<Rightarrow> chain_hook_name \<Rightarrow> chain_hook_source \<Rightarrow> path \<Rightarrow> frozen_chain_hook io" where
  "freeze dg canonicalize name source path =
    io_bind (io_lift (canonicalize path)) (\<lambda>source_path.
    io_bind (fs_exists source_path) (\<lambda>is_file.
    io_bind (io_when (\<not> is_file) (chain_error (HookNotFile source_path))) (\<lambda>_.
    io_bind (fs_read source_path) (\<lambda>approved.
    let content = dg_sha256_bytes dg approved
    in io_return \<lparr>fh_name = name, fh_source = source, fh_source_path = source_path,
         fh_approved_bytes = approved, fh_content_sha256 = content,
         fh_identity_sha256 = chain_hook_identity_sha256 dg name source source_path content\<rparr>))))"

definition verify_hook :: "digests \<Rightarrow> frozen_chain_hook \<Rightarrow> unit res" where
  "verify_hook dg h =
    (if chain_hook_identity_sha256 dg (fh_name h) (fh_source h) (fh_source_path h) (fh_content_sha256 h)
        \<noteq> fh_identity_sha256 h then Inl (chain_error HookIdentityChanged)
     else if dg_sha256_bytes dg (fh_approved_bytes h) \<noteq> fh_content_sha256 h then
       Inl (chain_error HookBytesChanged)
     else Inr ())"

text \<open>The file that holds the approved bytes, named by the digest.\<close>

definition hex_lower :: "char \<Rightarrow> bool" where
  "hex_lower c \<longleftrightarrow> is_ascii_digit c \<or> (let n = of_char c :: nat in 97 \<le> n \<and> n \<le> 102)"

definition approved_chain_hook_path :: "path \<Rightarrow> string \<Rightarrow> frozen_chain_hook \<Rightarrow> path res" where
  "approved_chain_hook_path home job_id h =
    (case strip_prefix (fh_identity_sha256 h) ''sha256:'' of
       None \<Rightarrow> Inl (chain_error HookDigestInvalid)
     | Some digest \<Rightarrow>
        (if length digest = 64 \<and> list_all hex_lower digest then
           Inr (join (join (join (job_dir home job_id) ''approved-chain-hooks'') digest) ''hook'')
         else Inl (chain_error HookDigestInvalid)))"

section \<open>Canonical payloads\<close>

fun canonicalize_json :: "json \<Rightarrow> json" where
  "canonicalize_json (Array vs) = Array (map canonicalize_json vs)"
| "canonicalize_json (Object kvs) = Object (btree_of (map (\<lambda>(k, v). (k, canonicalize_json v)) kvs))"
| "canonicalize_json v = v"

definition canonical_chain_hook_payload :: "digests \<Rightarrow> json codec \<Rightarrow> json \<Rightarrow> (bytes \<times> string) res" where
  "canonical_chain_hook_payload dg js payload =
    res_bind (ok_or (enc js (canonicalize_json payload)) (Json (components ''<durable-chain-hook-payload>''))) (\<lambda>b.
    Inr (b, dg_sha256_bytes dg b))"

definition durable_chain_hook_invocation_id ::
    "digests \<Rightarrow> string \<Rightarrow> string \<Rightarrow> frozen_chain_hook \<Rightarrow> u32 option \<Rightarrow> u32 \<Rightarrow> string \<Rightarrow> string" where
  "durable_chain_hook_invocation_id dg job_id source_chain_id hook step_index attempt payload_sha256 =
    dg_sha256_text dg (join_with [NUL]
      [''durable-chain-hook-v2'', job_id, source_chain_id, hook_name_str (fh_name hook),
       (case step_index of None \<Rightarrow> ''end'' | Some i \<Rightarrow> show_nat (unat i)), show_nat (unat attempt),
       fh_identity_sha256 hook, payload_sha256])"

section \<open>The adapter manifest\<close>

datatype durable_chain_undo_kind = RevertAppliedDelivery

record durable_chain_undo_policy =
  up_kind :: durable_chain_undo_kind
  up_source_base_sha :: string

record durable_chain_adapter_manifest =
  am_schema_version :: u32
  am_source_chain_id :: string
  am_source_base_sha :: string
  am_branch_policy :: branch_policy
  am_apply_mode :: apply_mode
  am_apply_strategy :: apply_strategy
  am_on_fail :: on_fail
  am_hooks :: "frozen_chain_hook list"
  am_undo :: durable_chain_undo_policy

definition manifest_new :: "chain \<Rightarrow> frozen_chain_hook list \<Rightarrow> durable_chain_adapter_manifest" where
  "manifest_new c hooks =
    \<lparr>am_schema_version = 1, am_source_chain_id = ch_chain_id c, am_source_base_sha = ch_base_sha c,
     am_branch_policy = ch_branch_policy c, am_apply_mode = ch_apply_mode c,
     am_apply_strategy = ch_apply_strategy c, am_on_fail = ch_on_fail c,
     am_hooks = sort_key fh_name hooks,
     am_undo = \<lparr>up_kind = RevertAppliedDelivery, up_source_base_sha = ch_base_sha c\<rparr>\<rparr>"

definition manifest_hook_step ::
    "digests \<Rightarrow> chain_hook_name set \<Rightarrow> frozen_chain_hook \<Rightarrow> chain_hook_name set res" where
  "manifest_hook_step dg names h =
    (if fh_name h \<in> names then Inl (chain_error ManifestRepeatsHook)
     else res_bind (verify_hook dg h) (\<lambda>_. Inr (insert (fh_name h) names)))"

definition verify_manifest :: "digests \<Rightarrow> durable_chain_adapter_manifest \<Rightarrow> unit res" where
  "verify_manifest dg m =
    (if am_schema_version m \<noteq> 1 \<or> blank (am_source_chain_id m) \<or> blank (am_source_base_sha m)
        \<or> up_source_base_sha (am_undo m) \<noteq> am_source_base_sha m
        \<or> up_kind (am_undo m) \<noteq> RevertAppliedDelivery then Inl (chain_error ManifestMalformed)
     else res_bind (fold_res (manifest_hook_step dg) {} (am_hooks m)) (\<lambda>_. Inr ()))"

section \<open>Hook events\<close>

datatype durable_chain_hook_event_kind = HookStarted | HookCompleted

record durable_chain_hook_event =
  he_schema_version :: u32
  he_job_id :: string
  he_source_chain_id :: string
  he_invocation_id :: string
  he_hook :: frozen_chain_hook
  he_step_index :: "u32 option"
  he_attempt :: u32
  he_payload_bytes :: bytes
  he_payload_sha256 :: string
  he_kind :: durable_chain_hook_event_kind
  he_recorded_at :: timestamp
  he_exit_code :: "int option"
  he_stdout :: string
  he_stderr :: string

definition hook_event_started ::
    "digests \<Rightarrow> json codec \<Rightarrow> string \<Rightarrow> string \<Rightarrow> frozen_chain_hook \<Rightarrow> u32 option \<Rightarrow> u32 \<Rightarrow> timestamp \<Rightarrow> json
      \<Rightarrow> durable_chain_hook_event res" where
  "hook_event_started dg js job_id source_chain_id hook step_index attempt recorded_at payload =
    (if attempt = 0 then Inl (chain_error HookAttemptZero)
     else
       res_bind (canonical_chain_hook_payload dg js payload) (\<lambda>(payload_bytes, payload_sha256).
       Inr \<lparr>he_schema_version = 1, he_job_id = job_id, he_source_chain_id = source_chain_id,
         he_invocation_id = durable_chain_hook_invocation_id dg job_id source_chain_id hook step_index
           attempt payload_sha256,
         he_hook = hook, he_step_index = step_index, he_attempt = attempt,
         he_payload_bytes = payload_bytes, he_payload_sha256 = payload_sha256, he_kind = HookStarted,
         he_recorded_at = recorded_at, he_exit_code = None, he_stdout = [], he_stderr = []\<rparr>))"

definition hook_event_completed ::
    "durable_chain_hook_event \<Rightarrow> timestamp \<Rightarrow> int \<Rightarrow> string \<Rightarrow> string \<Rightarrow> durable_chain_hook_event res" where
  "hook_event_completed started recorded_at exit_code out err =
    (if he_kind started \<noteq> HookStarted then Inl (chain_error HookCompletedNeedsStarted)
     else Inr (started\<lparr>he_kind := HookCompleted, he_recorded_at := recorded_at,
       he_exit_code := Some exit_code, he_stdout := out, he_stderr := err\<rparr>))"

definition hook_shape_is_valid :: "durable_chain_hook_event \<Rightarrow> bool" where
  "hook_shape_is_valid e =
    (case he_kind e of
       HookStarted \<Rightarrow> he_exit_code e = None \<and> he_stdout e = [] \<and> he_stderr e = []
     | HookCompleted \<Rightarrow> he_exit_code e \<noteq> None)"

definition verify_hook_event :: "digests \<Rightarrow> json codec \<Rightarrow> durable_chain_hook_event \<Rightarrow> unit res" where
  "verify_hook_event dg js e =
    res_bind (verify_hook dg (he_hook e)) (\<lambda>_.
    res_bind (parse_json js (components ''<durable-chain-hook-event-payload>'') (he_payload_bytes e)) (\<lambda>payload.
    res_bind (canonical_chain_hook_payload dg js payload) (\<lambda>(canonical_bytes, payload_sha256).
    if he_schema_version e \<noteq> 1 \<or> he_attempt e = 0 \<or> blank (he_source_chain_id e)
       \<or> canonical_bytes \<noteq> he_payload_bytes e \<or> payload_sha256 \<noteq> he_payload_sha256 e
       \<or> durable_chain_hook_invocation_id dg (he_job_id e) (he_source_chain_id e) (he_hook e)
           (he_step_index e) (he_attempt e) payload_sha256 \<noteq> he_invocation_id e
       \<or> \<not> hook_shape_is_valid e
    then Inl (chain_error (HookEvidenceInvalid (he_invocation_id e))) else Inr ())))"

text \<open>Looking for a reusable outcome: the loop over the rows at the same coordinate.\<close>

definition same_coordinate :: "durable_chain_hook_event \<Rightarrow> durable_chain_hook_event \<Rightarrow> bool" where
  "same_coordinate e requested \<longleftrightarrow>
    he_job_id e = he_job_id requested \<and> he_source_chain_id e = he_source_chain_id requested
    \<and> fh_name (he_hook e) = fh_name (he_hook requested)
    \<and> he_step_index e = he_step_index requested \<and> he_attempt e = he_attempt requested"

definition completion_step ::
    "digests \<Rightarrow> json codec \<Rightarrow> durable_chain_hook_event \<Rightarrow> durable_chain_hook_event option
      \<Rightarrow> durable_chain_hook_event \<Rightarrow> durable_chain_hook_event option res" where
  "completion_step dg js requested completed e =
    res_bind (verify_hook_event dg js e) (\<lambda>_.
    if he_payload_sha256 e \<noteq> he_payload_sha256 requested \<or> he_payload_bytes e \<noteq> he_payload_bytes requested
       \<or> he_invocation_id e \<noteq> he_invocation_id requested then Inl (chain_error HookOtherPayload)
    else if he_kind e = HookCompleted then
      (if completed \<noteq> None then Inl (chain_error HookDuplicateCompletion) else Inr (Some e))
    else Inr completed)"

definition reusable_durable_chain_hook_completion ::
    "digests \<Rightarrow> json codec \<Rightarrow> durable_chain_hook_event list \<Rightarrow> durable_chain_hook_event
      \<Rightarrow> durable_chain_hook_event option res" where
  "reusable_durable_chain_hook_completion dg js events requested =
    (if he_kind requested \<noteq> HookStarted then Inl (chain_error HookLookupNeedsStarted)
     else
       res_bind (verify_hook_event dg js requested) (\<lambda>_.
       fold_res (completion_step dg js requested) None (filter (\<lambda>e. same_coordinate e requested) events)))"

section \<open>The log of hook events\<close>

record hook_store =
  hk_jobs :: job_store
  hk_event :: "durable_chain_hook_event codec"
  hk_json :: "json codec"
  hk_digests :: digests

abbreviation hk_home :: "hook_store \<Rightarrow> path" where
  "hk_home st \<equiv> js_home (hk_jobs st)"

definition durable_chain_hook_events_path :: "path \<Rightarrow> string \<Rightarrow> path" where
  "durable_chain_hook_events_path home job_id = join (job_dir home job_id) ''chain-hook-events.jsonl''"

definition read_durable_chain_hook_events :: "hook_store \<Rightarrow> string \<Rightarrow> durable_chain_hook_event list io" where
  "read_durable_chain_hook_events st job_id =
    read_rows (hk_event st) (durable_chain_hook_events_path (hk_home st) job_id)
      (\<lambda>e. if he_job_id e \<noteq> job_id then Inl (chain_error (HookEventOfOtherJob (he_job_id e))) else Inr ())"

text \<open>The decision under the lock: to append the row (true), or that it is there already.\<close>

definition same_slot :: "durable_chain_hook_event \<Rightarrow> durable_chain_hook_event \<Rightarrow> bool" where
  "same_slot prior e \<longleftrightarrow> fh_name (he_hook prior) = fh_name (he_hook e)
    \<and> he_step_index prior = he_step_index e \<and> he_attempt prior = he_attempt e \<and> he_kind prior = he_kind e"

definition starts :: "durable_chain_hook_event \<Rightarrow> durable_chain_hook_event \<Rightarrow> bool" where
  "starts prior e \<longleftrightarrow> he_kind prior = HookStarted \<and> he_invocation_id prior = he_invocation_id e
    \<and> he_payload_sha256 prior = he_payload_sha256 e \<and> he_payload_bytes prior = he_payload_bytes e
    \<and> he_hook prior = he_hook e"

definition same_record :: "durable_chain_hook_event \<Rightarrow> durable_chain_hook_event \<Rightarrow> bool" where
  "same_record prior e \<longleftrightarrow> he_invocation_id prior = he_invocation_id e \<and> he_kind prior = he_kind e"

definition admit_hook_event ::
    "digests \<Rightarrow> json codec \<Rightarrow> durable_chain_hook_event list \<Rightarrow> durable_chain_hook_event \<Rightarrow> bool res" where
  "admit_hook_event dg js existing e =
    res_bind (fold_res (\<lambda>_ prior. verify_hook_event dg js prior) () existing) (\<lambda>_.
    if (case find (\<lambda>prior. same_slot prior e) existing of
          None \<Rightarrow> False
        | Some prior \<Rightarrow> he_payload_sha256 prior \<noteq> he_payload_sha256 e
            \<or> he_payload_bytes prior \<noteq> he_payload_bytes e)
    then Inl (chain_error HookPayloadMismatch)
    else if he_kind e = HookCompleted \<and> \<not> list_ex (\<lambda>prior. starts prior e) existing then
      Inl (chain_error HookNotStarted)
    else case find (\<lambda>prior. same_record prior e) existing of
        Some prior \<Rightarrow> if prior = e then Inr False else Inl (chain_error HookConflict)
      | None \<Rightarrow> Inr True)"

definition append_hook_row :: "hook_store \<Rightarrow> durable_chain_hook_event \<Rightarrow> unit io" where
  "append_hook_row st e =
    io_bind (read_durable_chain_hook_events st (he_job_id e)) (\<lambda>existing.
    io_bind (io_lift (admit_hook_event (hk_digests st) (hk_json st) existing e)) (\<lambda>new.
    if \<not> new then io_return ()
    else append_json_line (hk_event st) (durable_chain_hook_events_path (hk_home st) (he_job_id e)) e))"

definition append_fenced_durable_chain_hook_event ::
    "hook_store \<Rightarrow> lease_token \<Rightarrow> durable_chain_hook_event \<Rightarrow> unit io" where
  "append_fenced_durable_chain_hook_event st t e =
    io_bind (io_when (he_job_id e \<noteq> lt_job_id t) (chain_error (HookEventOfOtherJob (he_job_id e)))) (\<lambda>_.
    io_bind (io_lift (verify_hook_event (hk_digests st) (hk_json st) e)) (\<lambda>_.
    with_fenced_job_control (hk_jobs st) t (he_recorded_at e) (append_hook_row st e)))"

section \<open>Canonical payloads do not depend on key order\<close>

lemma canonicalize_json_idem: "canonicalize_json (canonicalize_json v) = canonicalize_json v"
proof (induction v rule: canonicalize_json.induct)
  case (1 vs)
  then show ?case by simp
next
  case (2 kvs)
  let ?m = "btree_of (map (\<lambda>(k, v). (k, canonicalize_json v)) kvs)"
  have "canonicalize_json v = v" if "(k, v) \<in> set ?m" for k v
    using btree_of_values [OF that] 2 by auto
  then have "map (\<lambda>(k, v). (k, canonicalize_json v)) ?m = ?m"
    by (intro map_idI) auto
  then show ?case by (simp add: btree_of_id btree_of_sorted)
qed simp_all

text \<open>
  The canonical form of a hook payload is a normal form: making it canonical again changes
  nothing, and an object gives the same form in whatever order its entries come, so the digest of
  an invocation does not depend on how its payload was built.
\<close>

theorem canonical_payload_is_normal_form:
  assumes "distinct (map fst kvs)" "mset kvs = mset kvs'"
  shows "canonicalize_json (canonicalize_json v) = canonicalize_json v
    \<and> canonicalize_json (Object kvs) = canonicalize_json (Object kvs')
    \<and> canonical_chain_hook_payload dg js (Object kvs) = canonical_chain_hook_payload dg js (Object kvs')
    \<and> canonical_chain_hook_payload dg js (canonicalize_json v) = canonical_chain_hook_payload dg js v"
proof -
  let ?f = "\<lambda>(k, v). (k, canonicalize_json v)"
  have "distinct (map fst (map ?f kvs))" "mset (map ?f kvs) = mset (map ?f kvs')"
    using assms by (simp_all add: comp_def case_prod_beta')
  from btree_of_perm [OF this] have "canonicalize_json (Object kvs) = canonicalize_json (Object kvs')" by simp
  then show ?thesis
    using canonicalize_json_idem by (simp add: canonical_chain_hook_payload_def del: canonicalize_json.simps)
qed

theorem canonical_payload_is_normal_form_witness:
  "canonicalize_json (Object [(''b'', Null), (''a'', Bool True)]) =
    canonicalize_json (Object [(''a'', Bool True), (''b'', Null)])"
  using canonical_payload_is_normal_form [of "[(''b'', Null), (''a'', Bool True)]"
      "[(''a'', Bool True), (''b'', Null)]"]
  by auto

section \<open>Where the approved bytes are kept\<close>

text \<open>Whatever a hook's name, source or path, its bytes go to three plain components below the job.\<close>

lemma approved_hook_path_below_job:
  assumes "approved_chain_hook_path home job_id h = Inr p"
  shows "\<exists>digest. plain digest
    \<and> p = job_dir home job_id @ [Normal ''approved-chain-hooks'', Normal digest, Normal ''hook'']"
proof -
  from assms obtain digest where d: "length digest = 64" "list_all hex_lower digest"
      "p = join (join (join (job_dir home job_id) ''approved-chain-hooks'') digest) ''hook''"
    by (auto simp: approved_chain_hook_path_def split: option.splits if_splits)
  have "\<not> hex_lower (CHR ''/'')" "\<not> hex_lower (CHR ''.'')" by code_simp+
  with d(1,2) have "plain digest" by (auto simp: plain_def list_all_iff)
  moreover have "plain ''approved-chain-hooks''" "plain ''hook''" by (simp_all add: plain_def)
  ultimately show ?thesis using d(3) by (auto simp: join_plain)
qed

section \<open>Reusing a completed invocation\<close>

lemma completion_fold:
  "fold_res (completion_step dg js r) acc es = Inr res \<Longrightarrow>
    (\<forall>e\<in>set es. verify_hook_event dg js e = Inr () \<and> he_invocation_id e = he_invocation_id r
      \<and> he_payload_bytes e = he_payload_bytes r)
    \<and> (case acc of
        Some c \<Rightarrow> res = Some c \<and> (\<forall>e\<in>set es. he_kind e = HookStarted)
      | None \<Rightarrow> (case res of
            None \<Rightarrow> \<forall>e\<in>set es. he_kind e = HookStarted
          | Some c \<Rightarrow> filter (\<lambda>e. he_kind e = HookCompleted) es = [c]))"
proof (induction es arbitrary: acc)
  case Nil
  then show ?case by (simp split: option.splits)
next
  case (Cons e es)
  from Cons.prems obtain acc' where step: "completion_step dg js r acc e = Inr acc'"
    and rest: "fold_res (completion_step dg js r) acc' es = Inr res"
    by (auto simp: res_bind_Inr_iff)
  have none: "filter (\<lambda>e. he_kind e = HookCompleted) es = []" if "\<forall>e\<in>set es. he_kind e = HookStarted"
    using that by (simp add: filter_empty_conv)
  from step have ok: "verify_hook_event dg js e = Inr ()" "he_invocation_id e = he_invocation_id r"
      "he_payload_bytes e = he_payload_bytes r"
    by (auto simp: completion_step_def res_bind_Inr_iff split: if_splits)
  show ?case
  proof (cases "he_kind e")
    case HookStarted
    with step have "acc' = acc" by (auto simp: completion_step_def res_bind_Inr_iff split: if_splits)
    with Cons.IH [OF rest] ok HookStarted show ?thesis by (auto split: option.splits)
  next
    case HookCompleted
    with step have "acc = None" "acc' = Some e"
      by (auto simp: completion_step_def res_bind_Inr_iff split: if_splits)
    with Cons.IH [OF rest] ok HookCompleted none show ?thesis by (auto split: option.splits)
  qed
qed

text \<open>
  Looking up the outcome of a hook invocation never lends the outcome of another one: a returned
  outcome is the only completion recorded at that hook, step and attempt and was made with the same
  payload bytes, and no outcome means that nothing recorded there has completed.
\<close>

theorem reused_completion_is_exact:
  assumes "reusable_durable_chain_hook_completion dg js es r = Inr res"
  shows "(\<forall>e\<in>set es. same_coordinate e r \<longrightarrow>
      he_invocation_id e = he_invocation_id r \<and> he_payload_bytes e = he_payload_bytes r)
    \<and> (case res of
        Some c \<Rightarrow> filter (\<lambda>e. same_coordinate e r \<and> he_kind e = HookCompleted) es = [c]
      | None \<Rightarrow> \<forall>e\<in>set es. same_coordinate e r \<longrightarrow> he_kind e = HookStarted)"
proof -
  have run: "fold_res (completion_step dg js r) None (filter (\<lambda>e. same_coordinate e r) es) = Inr res"
    using assms by (auto simp: reusable_durable_chain_hook_completion_def res_bind_Inr_iff split: if_splits)
  have "filter (\<lambda>e. he_kind e = HookCompleted) (filter (\<lambda>e. same_coordinate e r) es) =
      filter (\<lambda>e. same_coordinate e r \<and> he_kind e = HookCompleted) es"
    by (simp add: conj_commute)
  with completion_fold [OF run] show ?thesis by (cases res) auto
qed

section \<open>The evidence of hooks\<close>

text \<open>What the log keeps: verified rows, one per invocation and kind, completions after their starts.\<close>

definition hook_log_ok :: "digests \<Rightarrow> json codec \<Rightarrow> durable_chain_hook_event list \<Rightarrow> bool" where
  "hook_log_ok dg js es \<longleftrightarrow>
    (\<forall>e\<in>set es. verify_hook_event dg js e = Inr ())
    \<and> distinct (map (\<lambda>e. (he_invocation_id e, he_kind e)) es)
    \<and> (\<forall>pre e post. es = pre @ e # post \<and> he_kind e = HookCompleted \<longrightarrow> (\<exists>p\<in>set pre. starts p e))"

definition hook_log_step ::
    "digests \<Rightarrow> json codec \<Rightarrow> durable_chain_hook_event list \<Rightarrow> durable_chain_hook_event
      \<Rightarrow> durable_chain_hook_event list res" where
  "hook_log_step dg js es e =
    res_bind (verify_hook_event dg js e) (\<lambda>_.
    res_bind (admit_hook_event dg js es e) (\<lambda>new. Inr (if new then es @ [e] else es)))"

lemma admit_cases:
  assumes "admit_hook_event dg js es e = Inr new"
  shows "\<not> new \<and> e \<in> set es \<or> new \<and> (\<forall>p\<in>set es. \<not> same_record p e)
    \<and> (he_kind e = HookCompleted \<longrightarrow> (\<exists>p\<in>set es. starts p e))"
  using assms
  by (auto simp: admit_hook_event_def res_bind_Inr_iff list_ex_iff find_None_iff split: if_splits option.splits
      dest: find_Some_member)

lemma hook_log_snoc:
  assumes "hook_log_ok dg js es" "verify_hook_event dg js e = Inr ()" "\<forall>p\<in>set es. \<not> same_record p e"
    and "he_kind e = HookCompleted \<longrightarrow> (\<exists>p\<in>set es. starts p e)"
  shows "hook_log_ok dg js (es @ [e])"
  unfolding hook_log_ok_def
proof (intro conjI allI impI)
  show "\<forall>x\<in>set (es @ [e]). verify_hook_event dg js x = Inr ()"
    using assms(1,2) by (simp add: hook_log_ok_def)
  show "distinct (map (\<lambda>e. (he_invocation_id e, he_kind e)) (es @ [e]))"
    using assms(1,3) by (auto simp: hook_log_ok_def same_record_def)
  fix pre x post
  assume x: "es @ [e] = pre @ x # post \<and> he_kind x = HookCompleted"
  show "\<exists>p\<in>set pre. starts p x"
  proof (cases post rule: rev_cases)
    case Nil
    with x have "es = pre" "e = x" by auto
    with x assms(4) show ?thesis by simp
  next
    case (snoc post' y)
    with x have "es = pre @ x # post'" by simp
    with x assms(1) show ?thesis by (simp add: hook_log_ok_def)
  qed
qed

interpretation hook_log: event_machine "hook_log_step dg js" "hook_log_ok dg js" for dg js
proof
  fix es e es'
  assume "hook_log_ok dg js es" "hook_log_step dg js es e = Inr es'"
  then show "hook_log_ok dg js es'"
    using hook_log_snoc admit_cases by (fastforce simp: hook_log_step_def res_bind_Inr_iff)
qed

lemma hook_path_not_lock: "durable_chain_hook_events_path (hk_home st) j \<noteq> control_lock_path (hk_jobs st) i"
proof -
  have "plain ''chain-hook-events.jsonl''" by (simp add: plain_def)
  then show ?thesis
    by (simp add: durable_chain_hook_events_path_def control_lock_path_def JOB_CONTROL_LOCK_def join_plain)
qed

interpretation hook_event_append: fenced_operation "hk_jobs st"
  "\<lambda>t now. append_fenced_durable_chain_hook_event st t (e\<lparr>he_recorded_at := now\<rparr>)" for st e
proof
  fix t now s
  assume "\<not> valid_token (hk_jobs st) t now s"
  then show "refuses (lock_only (hk_jobs st) t)
      (append_fenced_durable_chain_hook_event st t (e\<lparr>he_recorded_at := now\<rparr>)) s"
    unfolding append_fenced_durable_chain_hook_event_def
    by (intro refuses_lift refuses_when) (simp add: fenced_control.needs_token)
qed

text \<open>
  C38: The log of hook events keeps its discipline. A fenced append that returns leaves a log that is
  read back with the event in it, added at the end unless it was there: every row is verified, no
  invocation starts or completes twice, and every completion follows the start with its exact
  payload. A stale or expired token leaves the log alone.
\<close>

theorem hook_evidence_is_exact:
  fixes st t
  defines "p \<equiv> durable_chain_hook_events_path (hk_home st) (lt_job_id t)"
  assumes run: "append_fenced_durable_chain_hook_event st t e s = (Inr u, s')"
    and row: "row_ok (hk_event st) e" and readable: "read_fault s p = None"
    and ended: "terminated (case files s p of None \<Rightarrow> [] | Some b \<Rightarrow> b)"
    and old: "fst (read_durable_chain_hook_events st (lt_job_id t) s) = Inr old"
    and log_ok: "hook_log_ok (hk_digests st) (hk_json st) old"
  shows "\<exists>new. read_durable_chain_hook_events st (lt_job_id t) s' = (Inr new, s')
    \<and> hook_log_ok (hk_digests st) (hk_json st) new \<and> e \<in> set new \<and> (new = old \<or> new = old @ [e])
    \<and> valid_token (hk_jobs st) t (he_recorded_at e) s"
proof -
  from run obtain q s1 where job: "he_job_id e = lt_job_id t"
    and verified: "verify_hook_event (hk_digests st) (hk_json st) e = Inr ()"
    and fence: "fenced_projection (hk_jobs st) t (he_recorded_at e) ControlAfterStop s = (Inr q, s1)"
    and app: "append_hook_row st e s1 = (Inr u, s')"
    by (auto simp: append_fenced_durable_chain_hook_event_def with_fenced_job_control_def result_simps
        split: if_splits)
  have ch: "changes_only (lock_only (hk_jobs st) t) s s1" by (rule framedD [OF framed_fenced_projection fence])
  from app job obtain es s2 new where read: "read_durable_chain_hook_events st (lt_job_id t) s1 = (Inr es, s2)"
    and admit: "admit_hook_event (hk_digests st) (hk_json st) es e = Inr new"
    and rest: "\<not> new \<and> s' = s2 \<or> new \<and> append_json_line (hk_event st) p e s2 = (Inr u, s')"
    by (auto simp: append_hook_row_def result_simps p_def split: if_splits)
  note rows = read_durable_chain_hook_events_def [of st "lt_job_id t", folded p_def]
  have p: "p \<notin> lock_only (hk_jobs st) t" by (simp add: p_def hook_path_not_lock)
  note log = fenced_log_reads_back [OF ch p read [unfolded rows] readable ended]
  have es: "es = old" using log(2) old by (simp add: rows)
  have token: "valid_token (hk_jobs st) t (he_recorded_at e) s"
    using hook_event_append.commit_is_authorized [where st = st and t = t and e = e and now = "he_recorded_at e"
        and s = s] run by simp
  from admit_cases [OF admit] show ?thesis
  proof
    assume "\<not> new \<and> e \<in> set es"
    with rest log(1) read es log_ok token show ?thesis by auto
  next
    assume new: "new \<and> (\<forall>p\<in>set es. \<not> same_record p e)
      \<and> (he_kind e = HookCompleted \<longrightarrow> (\<exists>p\<in>set es. starts p e))"
    with rest log(1) have "append_json_line (hk_event st) p e s1 = (Inr u, s')" by simp
    then have "read_durable_chain_hook_events st (lt_job_id t) s' = (Inr (old @ [e]), s')"
      unfolding rows es [symmetric] by (rule log(3) [OF _ row]) (simp add: job)
    moreover have "hook_log_ok (hk_digests st) (hk_json st) (old @ [e])"
      using hook_log_snoc [OF log_ok verified] new es by simp
    ultimately show ?thesis using token by auto
  qed
qed

end
