(* ===== verification/Chain_Examples.thy ===== *)
theory Chain_Examples
  imports Chain_Hooks Plan_Examples
begin

text \<open>The properties of hook evidence at one hook of the sample job, started and completed.\<close>

definition sample_digests :: digests where
  "sample_digests = \<lparr>dg_sha256_text = (\<lambda>_. ''id''), dg_sha256_bytes = (\<lambda>_. ''sum''), dg_display = (\<lambda>_. [])\<rparr>"

definition sample_json :: "json codec" where
  "sample_json = \<lparr>enc = (\<lambda>_. Some ''{}''), dec = (\<lambda>_. Some (Object []))\<rparr>"

definition sample_hook :: frozen_chain_hook where
  "sample_hook = \<lparr>fh_name = PreStep, fh_source = User, fh_source_path = [RootDir], fh_approved_bytes = ''run'',
    fh_content_sha256 = ''sum'', fh_identity_sha256 = ''id''\<rparr>"

definition sample_started :: durable_chain_hook_event where
  "sample_started = \<lparr>he_schema_version = 1, he_job_id = ''job'', he_source_chain_id = ''chain'',
    he_invocation_id = ''id'', he_hook = sample_hook, he_step_index = Some 0, he_attempt = 1,
    he_payload_bytes = ''{}'', he_payload_sha256 = ''sum'', he_kind = HookStarted, he_recorded_at = 12,
    he_exit_code = None, he_stdout = [], he_stderr = []\<rparr>"

definition sample_done :: durable_chain_hook_event where
  "sample_done = sample_started\<lparr>he_kind := HookCompleted, he_exit_code := Some 0\<rparr>"

lemmas sample_hook_defs = sample_digests_def sample_json_def sample_hook_def sample_started_def sample_done_def

lemma sample_events_verified:
  "verify_hook_event sample_digests sample_json sample_started = Inr ()"
  "verify_hook_event sample_digests sample_json sample_done = Inr ()"
proof -
  have "\<not> blank ''chain''" by code_simp
  then show "verify_hook_event sample_digests sample_json sample_started = Inr ()"
    "verify_hook_event sample_digests sample_json sample_done = Inr ()"
    by (simp_all add: verify_hook_event_def verify_hook_def parse_json_def canonical_chain_hook_payload_def
        chain_hook_identity_sha256_def durable_chain_hook_invocation_id_def hook_shape_is_valid_def
        sample_hook_defs)
qed

theorem reused_completion_is_exact_witness:
  "reusable_durable_chain_hook_completion sample_digests sample_json [sample_started, sample_done] sample_started
      = Inr (Some sample_done)
    \<and> filter (\<lambda>e. same_coordinate e sample_started \<and> he_kind e = HookCompleted) [sample_started, sample_done]
      = [sample_done]"
proof -
  have kinds: "he_kind sample_started = HookStarted" "he_kind sample_done = HookCompleted"
      "same_coordinate sample_started sample_started" "same_coordinate sample_done sample_started"
      "he_payload_bytes sample_done = he_payload_bytes sample_started"
      "he_payload_sha256 sample_done = he_payload_sha256 sample_started"
      "he_invocation_id sample_done = he_invocation_id sample_started"
    by (simp_all add: sample_hook_defs same_coordinate_def)
  then have "reusable_durable_chain_hook_completion sample_digests sample_json [sample_started, sample_done]
      sample_started = Inr (Some sample_done)"
    by (simp add: reusable_durable_chain_hook_completion_def completion_step_def sample_events_verified)
  with reused_completion_is_exact [OF this] show ?thesis by simp
qed

definition sample_hook_store :: hook_store where
  "sample_hook_store = \<lparr>hk_jobs = store1, hk_event = table_codec [(sample_started, ''H'')], hk_json = sample_json,
    hk_digests = sample_digests\<rparr>"

lemma hook_path_facts:
  "job_events [RootDir] ''job'' \<noteq> durable_chain_hook_events_path [RootDir] ''job''"
  "job_lease_path [RootDir] ''job'' \<noteq> durable_chain_hook_events_path [RootDir] ''job''"
  "durable_chain_hook_events_path [RootDir] ''job'' \<noteq> control_lock_path store1 ''job''"
  "\<exists>u. path_parent (durable_chain_hook_events_path [RootDir] ''job'') = Some u"
proof -
  have "plain ''chain-hook-events.jsonl''" by (simp add: plain_def)
  then show "job_events [RootDir] ''job'' \<noteq> durable_chain_hook_events_path [RootDir] ''job''"
    "job_lease_path [RootDir] ''job'' \<noteq> durable_chain_hook_events_path [RootDir] ''job''"
    "durable_chain_hook_events_path [RootDir] ''job'' \<noteq> control_lock_path store1 ''job''"
    "\<exists>u. path_parent (durable_chain_hook_events_path [RootDir] ''job'') = Some u"
    by (simp_all add: durable_chain_hook_events_path_def job_files control_lock_path_def JOB_CONTROL_LOCK_def
        join_plain store1_simps path_parent_def)
qed

lemma hook_store_simps:
  "hk_jobs sample_hook_store = store1" "hk_digests sample_hook_store = sample_digests"
  "hk_json sample_hook_store = sample_json" "hk_event sample_hook_store = table_codec [(sample_started, ''H'')]"
  by (simp_all add: sample_hook_store_def)

lemma hook_log_empty:
  "files leased_fs (durable_chain_hook_events_path [RootDir] ''job'') = None"
  "disk_healthy leased_fs"
  using hook_path_facts(1,2) [symmetric] artifact_store_simps(6)
  by (simp_all add: leased_fs_def with_lease_file_def log_fs_def)

lemma sample_hook_appended:
  "\<exists>s'. append_fenced_durable_chain_hook_event sample_hook_store sample_token sample_started leased_fs = (Inr (), s')"
proof -
  let ?c = "durable_chain_hook_events_path [RootDir] ''job''"
  have expiry: "ls_expires_at (sample_lease 1) = 15" by (simp add: sample_lease_def)
  have valid: "valid_token store1 sample_token 12 leased_fs"
    using leased_fs_simps(1) expiry by (simp add: valid_token_def sample_token_job)
  have running: "\<not> cancel_requested created_projection"
    by (simp add: cancel_requested_def created_projection_def empty_projection_def)
  obtain s1 where s1: "fenced_projection store1 sample_token 12 ControlAfterStop leased_fs = (Inr created_projection, s1)"
      "changes_only {control_lock_path store1 ''job''} leased_fs s1"
    using fenced_projection_healthy [OF hook_log_empty(2) valid] sample_token_job leased_fs_simps(2)
      claim_projection created_projection_simps(3) running by metis
  have h1: "disk_healthy s1" using disk_healthy_changes [OF s1(2)] hook_log_empty(2) by simp
  have f1: "files s1 ?c = None"
    using s1(2) hook_path_facts(3) hook_log_empty(1) by (simp add: changes_only_def)
  have read: "read_durable_chain_hook_events sample_hook_store ''job'' s1 = (Inr [], s1)"
    using f1 h1
    by (simp add: read_durable_chain_hook_events_def read_rows_def fs_read_or_value disk_healthy_def
        hook_store_simps store1_simps io_bind_run str_lines_def)
  have app: "\<exists>s'. append_json_line (table_codec [(sample_started, ''H'')]) ?c sample_started s1 = (Inr (), s')"
    using hook_path_facts(4) h1
    by (auto simp: append_json_line_def append_row_Inr_iff io_bind_run disk_healthy_def table_codec_def
        intro!: append_row_Inr_iff [THEN iffD2])
  have "he_job_id sample_started = ''job''" "he_recorded_at sample_started = 12" "he_kind sample_started = HookStarted"
    by (simp_all add: sample_started_def)
  then show ?thesis
    using s1(1) read app sample_events_verified(1)
    by (auto simp: append_fenced_durable_chain_hook_event_def append_hook_row_def admit_hook_event_def
        with_fenced_job_control_def hook_store_simps store1_simps sample_token_job)
qed

theorem hook_evidence_is_exact_witness:
  "\<exists>s'. append_fenced_durable_chain_hook_event sample_hook_store sample_token sample_started leased_fs = (Inr (), s')
    \<and> read_durable_chain_hook_events sample_hook_store ''job'' s' = (Inr [sample_started], s')"
proof -
  obtain s' where run: "append_fenced_durable_chain_hook_event sample_hook_store sample_token sample_started
      leased_fs = (Inr (), s')"
    using sample_hook_appended by blast
  have "\<not> blank ''H''" by code_simp
  then have row: "row_ok (hk_event sample_hook_store) sample_started"
    by (simp add: row_ok_def codec_ok_def hook_store_simps table_codec_def newline_def)
  have disk: "read_fault leased_fs p = None" for p using hook_log_empty(2) by (simp add: disk_healthy_def)
  have home: "hk_home sample_hook_store = [RootDir]" by (simp add: hook_store_simps store1_simps)
  have old: "fst (read_durable_chain_hook_events sample_hook_store ''job'' leased_fs) = Inr []"
    by (simp add: read_durable_chain_hook_events_def read_rows_def fs_read_or_value io_bind_run str_lines_def
        disk home hook_log_empty(1))
  have "hook_log_ok (hk_digests sample_hook_store) (hk_json sample_hook_store) []" by (simp add: hook_log_ok_def)
  with hook_evidence_is_exact [OF run row] run old show ?thesis
    by (auto simp: sample_token_job disk home hook_log_empty(1))
qed

end
