(* ===== verification/Steer_Inbox.thy ===== *)
theory Steer_Inbox
  imports Plan_Store Ordered_Map
begin

text \<open>
  The steering inbox of a run (\<open>crates/deadreckon-core/src/steer_inbox.rs\<close>): operator messages are
  appended as rows, a delivery appends the entry again as delivered, and reading keeps the last row
  of each identity, in the order of time and text. The lemmas describe the inbox as a map from
  identities to entries and what an append or a delivery changes of it.
\<close>

section \<open>Entries\<close>

datatype steer_source = Cli | Tui

datatype steer_status = SteerPending | SteerDelivered

text \<open>The derived order of \<open>SteerIdentity\<close> is lexicographic in its fields.\<close>

type_synonym steer_identity = "timestamp \<times> string"

record steer_inbox_entry =
  se_ts :: timestamp
  se_source :: steer_source
  se_text :: string
  se_status :: steer_status
  se_delivered_turn_id :: "string option"
  se_delivered_at :: "timestamp option"

definition identity :: "steer_inbox_entry \<Rightarrow> steer_identity" where
  "identity e = (se_ts e, se_text e)"

definition steer_inbox_path :: "path \<Rightarrow> path" where
  "steer_inbox_path root_dir = join root_dir ''steer-inbox.jsonl''"

section \<open>Operations\<close>

definition append_steer ::
    "steer_inbox_entry codec \<Rightarrow> path \<Rightarrow> steer_source \<Rightarrow> string \<Rightarrow> timestamp \<Rightarrow> steer_inbox_entry io" where
  "append_steer c root_dir source message now =
    io_bind (io_when (blank message) (InvalidInput SteerTextEmpty)) (\<lambda>_.
    let entry = \<lparr>se_ts = now, se_source = source, se_text = message, se_status = SteerPending,
          se_delivered_turn_id = None, se_delivered_at = None\<rparr>
    in io_bind (append_json_line c (steer_inbox_path root_dir) entry) (\<lambda>_. io_return entry))"

definition effective_entries :: "steer_inbox_entry list \<Rightarrow> steer_inbox_entry list" where
  "effective_entries rows = map snd (btree_of (map (\<lambda>e. (identity e, e)) rows))"

definition read_steer_inbox :: "steer_inbox_entry codec \<Rightarrow> path \<Rightarrow> steer_inbox_entry list io" where
  "read_steer_inbox c root_dir =
    io_bind (read_rows c (steer_inbox_path root_dir) (\<lambda>_. Inr ())) (\<lambda>rows.
    io_return (effective_entries rows))"

definition pending_steers :: "steer_inbox_entry codec \<Rightarrow> path \<Rightarrow> steer_inbox_entry list io" where
  "pending_steers c root_dir =
    io_bind (read_steer_inbox c root_dir) (\<lambda>entries.
    io_return (filter (\<lambda>e. se_status e = SteerPending) entries))"

definition mark_steer_delivered ::
    "steer_inbox_entry codec \<Rightarrow> path \<Rightarrow> steer_identity \<Rightarrow> string \<Rightarrow> timestamp \<Rightarrow> steer_inbox_entry io" where
  "mark_steer_delivered c root_dir i turn_id now =
    io_bind (io_when (blank turn_id) (InvalidInput DeliveredTurnEmpty)) (\<lambda>_.
    io_bind (read_steer_inbox c root_dir) (\<lambda>entries.
    io_bind (io_lift (ok_or (find (\<lambda>e. identity e = i) entries) (NotFound (snd i)))) (\<lambda>entry.
    if se_status entry = SteerDelivered then io_return entry
    else
      let entry = entry\<lparr>se_status := SteerDelivered, se_delivered_turn_id := Some turn_id,
            se_delivered_at := Some now\<rparr>
      in io_bind (append_json_line c (steer_inbox_path root_dir) entry) (\<lambda>_. io_return entry))))"

section \<open>The inbox as a map\<close>

text \<open>The entry of an identity: its last row.\<close>

definition inbox :: "steer_inbox_entry list \<Rightarrow> steer_identity \<rightharpoonup> steer_inbox_entry" where
  "inbox rows = map_of (rev (map (\<lambda>e. (identity e, e)) rows))"

lemma inbox_Nil [simp]: "inbox [] = Map.empty"
  by (simp add: inbox_def)

lemma inbox_snoc [simp]: "inbox (rows @ [e]) = (inbox rows)(identity e \<mapsto> e)"
  by (simp add: inbox_def)

lemma inbox_identity: "inbox rows i = Some e \<Longrightarrow> identity e = i"
  unfolding inbox_def by (auto dest: map_of_SomeD)

lemma snd_image_iff: "b \<in> snd ` X \<longleftrightarrow> (\<exists>a. (a, b) \<in> X)"
  by force

lemma effective_entries_iff: "e \<in> set (effective_entries rows) \<longleftrightarrow> inbox rows (identity e) = Some e"
proof -
  let ?m = "map (\<lambda>e. (identity e, e)) rows"
  have d: "distinct (map fst (btree_of ?m))" using btree_of_sorted [of ?m] by (simp add: strict_sorted_iff)
  have entry: "(k, v) \<in> set (btree_of ?m) \<longleftrightarrow> inbox rows k = Some v" for k v
    using map_of_eq_Some_iff [OF d, of k v] btree_of_map_of [of ?m] by (simp add: inbox_def)
  have "e \<in> set (effective_entries rows) \<longleftrightarrow> (\<exists>k. inbox rows k = Some e)"
    unfolding effective_entries_def set_map entry [symmetric] by (rule snd_image_iff)
  then show ?thesis using inbox_identity by blast
qed

lemma identities_sorted: "sorted_wrt (<) (map identity (effective_entries rows))"
proof -
  let ?m = "btree_of (map (\<lambda>e. (identity e, e)) rows)"
  have same: "map identity (map snd ?m) = map fst ?m"
    using btree_of_values by (fastforce simp: comp_def)
  show ?thesis unfolding effective_entries_def same by (rule btree_of_sorted)
qed

lemma find_identity:
  "find (\<lambda>e. identity e = i) (effective_entries rows) = inbox rows i"
proof (cases "inbox rows i")
  case None
  then have "\<forall>e\<in>set (effective_entries rows). identity e \<noteq> i" by (auto simp: effective_entries_iff)
  with None show ?thesis by (simp add: find_None_iff)
next
  case (Some e)
  then have "e \<in> set (effective_entries rows)" "identity e = i"
    using inbox_identity by (auto simp: effective_entries_iff)
  then obtain e' where e': "find (\<lambda>e. identity e = i) (effective_entries rows) = Some e'"
    by (cases "find (\<lambda>e. identity e = i) (effective_entries rows)") (auto simp: find_None_iff)
  from find_Some_member [OF this] have "inbox rows i = Some e'" by (auto simp: effective_entries_iff)
  with e' show ?thesis by simp
qed

section \<open>Delivery\<close>

text \<open>The rows of the inbox as they are read.\<close>

abbreviation inbox_rows :: "steer_inbox_entry codec \<Rightarrow> path \<Rightarrow> steer_inbox_entry list io" where
  "inbox_rows c root_dir \<equiv> read_rows c (steer_inbox_path root_dir) (\<lambda>_. Inr ())"

lemma mark_cases:
  assumes "mark_steer_delivered c root_dir i turn now s = (Inr e, s')"
  obtains rows old where "inbox_rows c root_dir s = (Inr rows, s)" "inbox rows i = Some old" "\<not> blank turn"
    "se_status old = SteerDelivered \<and> e = old \<and> s' = s
      \<or> se_status old = SteerPending
        \<and> e = old\<lparr>se_status := SteerDelivered, se_delivered_turn_id := Some turn, se_delivered_at := Some now\<rparr>
        \<and> append_json_line c (steer_inbox_path root_dir) e s = (Inr (), s')"
proof -
  from assms obtain rows s1 old where *: "inbox_rows c root_dir s = (Inr rows, s1)" "inbox rows i = Some old"
      "\<not> blank turn"
      "se_status old = SteerDelivered \<and> e = old \<and> s' = s1
      \<or> se_status old \<noteq> SteerDelivered
        \<and> e = old\<lparr>se_status := SteerDelivered, se_delivered_turn_id := Some turn, se_delivered_at := Some now\<rparr>
        \<and> append_json_line c (steer_inbox_path root_dir) e s1 = (Inr (), s')"
    by (auto simp: mark_steer_delivered_def read_steer_inbox_def result_simps find_identity Let_def split: if_splits)
  moreover have "s1 = s" by (rule readonlyD [OF readonly_read_rows *(1)])
  moreover have "se_status old \<noteq> SteerDelivered \<Longrightarrow> se_status old = SteerPending" by (cases "se_status old") auto
  ultimately show ?thesis by (intro that) auto
qed

text \<open>
  Marking a steering message as delivered changes its entry and no other: afterwards the inbox
  read from disk holds the returned entry, delivered, under the same identity and every other entry
  as before, in order; it is no longer pending, and marking it again, by whatever turn, returns the
  first delivery and writes nothing.
\<close>

theorem steer_delivery_is_exact:
  fixes root_dir s
  defines "p \<equiv> steer_inbox_path root_dir"
  assumes mark: "mark_steer_delivered c root_dir i turn now s = (Inr e, s')"
    and row: "row_ok c e" and readable: "read_fault s p = None"
    and ended: "terminated (case files s p of None \<Rightarrow> [] | Some b \<Rightarrow> b)"
    and again: "\<not> blank turn'"
  shows "\<exists>old new. fst (read_steer_inbox c root_dir s) = Inr old \<and> read_steer_inbox c root_dir s' = (Inr new, s')
    \<and> identity e = i \<and> se_status e = SteerDelivered \<and> e \<in> set new
    \<and> {x \<in> set new. identity x \<noteq> i} = {x \<in> set old. identity x \<noteq> i}
    \<and> sorted_wrt (<) (map identity new)
    \<and> fst (pending_steers c root_dir s') = Inr (filter (\<lambda>x. se_status x = SteerPending) new)
    \<and> mark_steer_delivered c root_dir i turn' now' s' = (Inr e, s')"
proof (rule mark_cases [OF mark], goal_cases)
  case (1 rows old)
  have e: "identity e = i" "se_status e = SteerDelivered"
    using 1(2,4) inbox_identity [OF 1(2)] by (auto simp: identity_def)
  obtain rows' where rows': "inbox_rows c root_dir s' = (Inr rows', s')" "inbox rows' = (inbox rows)(i \<mapsto> e)"
  proof (cases "s' = s \<and> e = old")
    case True
    with 1(1,2) that [of rows] show ?thesis by (simp add: fun_upd_idem)
  next
    case False
    with 1(4) have "append_json_line c p e s = (Inr (), s')" by (auto simp: p_def)
    from fenced_log_reads_back(3) [OF changes_only_refl [of "{}"] _ 1(1) _ _ this [unfolded p_def] row]
      readable ended e(1) that [of "rows @ [e]"] show ?thesis by (simp add: p_def)
  qed
  have "{x \<in> set (effective_entries rows'). identity x \<noteq> i} = {x \<in> set (effective_entries rows). identity x \<noteq> i}"
    by (auto simp: effective_entries_iff rows'(2))
  moreover have "e \<in> set (effective_entries rows')" using e(1) by (simp add: effective_entries_iff rows'(2))
  moreover have "mark_steer_delivered c root_dir i turn' now' s' = (Inr e, s')"
    using again rows' e(2) by (simp add: mark_steer_delivered_def read_steer_inbox_def find_identity)
  ultimately show ?case
    using 1(1) rows'(1) e identities_sorted [of rows']
    by (intro exI [of _ "effective_entries rows"] exI [of _ "effective_entries rows'"])
      (simp add: read_steer_inbox_def pending_steers_def)
qed

text \<open>A message that was delivered already: the first delivery stands.\<close>

definition sample_entry :: steer_inbox_entry where
  "sample_entry = \<lparr>se_ts = 5, se_source = Cli, se_text = ''go'', se_status = SteerPending,
    se_delivered_turn_id = None, se_delivered_at = None\<rparr>"

definition sample_delivered_entry :: steer_inbox_entry where
  "sample_delivered_entry = sample_entry\<lparr>se_status := SteerDelivered, se_delivered_turn_id := Some ''t1'',
    se_delivered_at := Some 9\<rparr>"

definition steer_codec :: "steer_inbox_entry codec" where
  "steer_codec = table_codec [(sample_entry, ''P''), (sample_delivered_entry, ''D'')]"

definition steer_fs :: fs where
  "steer_fs = put_file (steer_inbox_path [RootDir]) (''P'' @ [newline]) empty_fs"

lemma steer_texts: "\<not> blank ''P''" "\<not> blank ''D''" "\<not> blank ''t1''" "\<not> blank ''t2''"
  by code_simp+

lemma steer_rows: "inbox_rows steer_codec [RootDir] steer_fs = (Inr [sample_entry], steer_fs)"
proof -
  have "str_lines (''P'' @ [newline]) = [''P'']" by (simp add: str_lines_def newline_def strip_cr_def)
  then show ?thesis
    using steer_texts(1)
    by (simp add: read_rows_def steer_fs_def fs_read_or_value io_bind_run parse_json_def steer_codec_def
        table_codec_def newline_def)
qed

lemma steer_marked:
  "\<exists>s'. mark_steer_delivered steer_codec [RootDir] (5, ''go'') ''t1'' 9 steer_fs = (Inr sample_delivered_entry, s')"
proof -
  have "plain ''steer-inbox.jsonl''" by (simp add: plain_def)
  then have "\<exists>s'. append_json_line steer_codec (steer_inbox_path [RootDir]) sample_delivered_entry steer_fs = (Inr (), s')"
    by (auto simp: append_json_line_def io_bind_run append_row_Inr_iff steer_fs_def steer_codec_def table_codec_def
        sample_delivered_entry_def sample_entry_def steer_inbox_path_def join_plain path_parent_def)
  then obtain s' where "append_json_line steer_codec (steer_inbox_path [RootDir])
      (sample_entry\<lparr>se_status := SteerDelivered, se_delivered_turn_id := Some ''t1'', se_delivered_at := Some 9\<rparr>)
      steer_fs = (Inr (), s')"
    by (auto simp: sample_delivered_entry_def)
  moreover have "inbox [sample_entry] (5, ''go'') = Some sample_entry" "se_status sample_entry \<noteq> SteerDelivered"
    by (simp_all add: inbox_def identity_def sample_entry_def)
  ultimately show ?thesis
    using steer_rows steer_texts(3)
    by (auto simp: mark_steer_delivered_def read_steer_inbox_def find_identity io_bind_run Let_def sample_delivered_entry_def)
qed

theorem steer_delivery_is_exact_witness:
  "\<exists>s'. mark_steer_delivered steer_codec [RootDir] (5, ''go'') ''t1'' 9 steer_fs = (Inr sample_delivered_entry, s')
    \<and> mark_steer_delivered steer_codec [RootDir] (5, ''go'') ''t2'' 10 s' = (Inr sample_delivered_entry, s')"
proof -
  obtain s' where mark: "mark_steer_delivered steer_codec [RootDir] (5, ''go'') ''t1'' 9 steer_fs =
      (Inr sample_delivered_entry, s')"
    using steer_marked by blast
  have row: "row_ok steer_codec sample_delivered_entry"
    using steer_texts
    by (simp add: row_ok_def codec_ok_def steer_codec_def table_codec_def newline_def sample_delivered_entry_def
        sample_entry_def)
  have "read_fault steer_fs p = None" "terminated (case files steer_fs (steer_inbox_path [RootDir]) of
      None \<Rightarrow> [] | Some b \<Rightarrow> b)" for p
    by (simp_all add: steer_fs_def terminated_def)
  from steer_delivery_is_exact [OF mark row this steer_texts(4)] mark show ?thesis by blast
qed

end
