(* ===== verification/Head_Tail.thy ===== *)
theory Head_Tail
  imports Boot_Identity
begin

text \<open>
  Bounded capture of process output (\<open>crates/deadreckon-core/src/exec/head_tail_buffer.rs\<close> and
  \<open>exec/truncation.rs\<close>): a buffer that keeps the beginning and the end of a byte stream and counts
  what it dropped, and its rendering as text. The specification of the buffer is a function of the
  whole stream; pushing chunks refines it, however the stream is cut. \<open>std::str::from_utf8\<close> and
  \<open>String::from_utf8_lossy\<close> are modelled after the Unicode table of well-formed sequences, and the
  rendering of a well-formed stream is shown to contain only pieces of it. Lengths are natural
  numbers, as no buffer reaches the range of \<open>usize\<close>; the counter is a saturating \<open>u64\<close>.
\<close>

section \<open>The buffer\<close>

record head_tail_buffer =
  hb_limit :: nat
  hb_head :: bytes
  hb_tail :: bytes
  hb_omitted_bytes :: u64

definition head_tail_new :: "nat \<Rightarrow> head_tail_buffer" where
  "head_tail_new limit = \<lparr>hb_limit = limit, hb_head = [], hb_tail = [], hb_omitted_bytes = 0\<rparr>"

definition push_chunk :: "head_tail_buffer \<Rightarrow> bytes \<Rightarrow> head_tail_buffer" where
  "push_chunk b chunk =
    (let head_limit = hb_limit b div 2;
         tail_limit = hb_limit b - head_limit;
         head_room = head_limit - length (hb_head b);
         to_head = min head_room (length chunk);
         b = b\<lparr>hb_head := hb_head b @ take to_head chunk\<rparr>;
         remaining = drop to_head chunk
     in if remaining = [] then b
        else if tail_limit = 0 then
          b\<lparr>hb_omitted_bytes := saturating_add_u64 (hb_omitted_bytes b) (of_nat (length remaining))\<rparr>
        else
          let overflow = (length (hb_tail b) + length remaining) - tail_limit;
              kept = drop (min overflow (length (hb_tail b))) (hb_tail b);
              omitted = (if overflow > 0 then saturating_add_u64 (hb_omitted_bytes b) (of_nat overflow)
                else hb_omitted_bytes b);
              retained_start = length remaining - tail_limit
          in b\<lparr>hb_tail := kept @ drop retained_start remaining, hb_omitted_bytes := omitted\<rparr>)"

definition omitted_bytes :: "head_tail_buffer \<Rightarrow> u64" where
  "omitted_bytes b = hb_omitted_bytes b"

section \<open>UTF-8\<close>

text \<open>The ranges of the continuation bytes after a first byte; none for a byte that cannot start.\<close>

definition cont_ranges :: "nat \<Rightarrow> (nat \<times> nat) list option" where
  "cont_ranges b =
    (if b < 128 then Some []
     else if 194 \<le> b \<and> b \<le> 223 then Some [(128, 191)]
     else if b = 224 then Some [(160, 191), (128, 191)]
     else if b = 237 then Some [(128, 159), (128, 191)]
     else if 225 \<le> b \<and> b \<le> 239 then Some [(128, 191), (128, 191)]
     else if b = 240 then Some [(144, 191), (128, 191), (128, 191)]
     else if 241 \<le> b \<and> b \<le> 243 then Some [(128, 191), (128, 191), (128, 191)]
     else if b = 244 then Some [(128, 143), (128, 191), (128, 191)]
     else None)"

text \<open>One scalar value of a given length, an error of a given length, or an end in the middle.\<close>

datatype utf8_item = Scalar nat | Malformed nat | Truncated

fun match_cont :: "nat \<Rightarrow> (nat \<times> nat) list \<Rightarrow> bytes \<Rightarrow> utf8_item" where
  "match_cont n [] cs = Scalar n"
| "match_cont n (r # rs) [] = Truncated"
| "match_cont n (r # rs) (c # cs) =
    (if fst r \<le> of_char c \<and> of_char c \<le> snd r then match_cont (Suc n) rs cs else Malformed n)"

fun utf8_next :: "bytes \<Rightarrow> utf8_item" where
  "utf8_next [] = Truncated"
| "utf8_next (c # cs) =
    (case cont_ranges (of_char c) of None \<Rightarrow> Malformed 1 | Some rs \<Rightarrow> match_cont 1 rs cs)"

lemma match_cont_bounds:
  "match_cont n rs cs = Scalar m \<Longrightarrow> m = n + length rs \<and> length rs \<le> length cs"
  "match_cont n rs cs = Malformed m \<Longrightarrow> n \<le> m \<and> m < n + length rs"
  by (induction n rs cs rule: match_cont.induct) (auto split: if_splits)

lemma utf8_next_pos: "utf8_next s = Scalar n \<Longrightarrow> 0 < n" "utf8_next s = Malformed n \<Longrightarrow> 0 < n"
  by (cases s; auto split: option.splits dest: match_cont_bounds)+

text \<open>\<open>str::from_utf8\<close>: nothing, or how many bytes are valid and the length of the error, if it is one.\<close>

function utf8_error :: "nat \<Rightarrow> bytes \<Rightarrow> (nat \<times> nat option) option" where
  "utf8_error off s =
    (if s = [] then None
     else case utf8_next s of
       Scalar n \<Rightarrow> utf8_error (off + n) (drop n s)
     | Malformed n \<Rightarrow> Some (off, Some n)
     | Truncated \<Rightarrow> Some (off, None))"
  by pat_completeness auto
termination
  by (relation "measure (\<lambda>(off, s). length s)") (auto dest: utf8_next_pos)

declare utf8_error.simps [simp del]

definition replacement :: bytes where
  "replacement = [CHR 0xEF, CHR 0xBF, CHR 0xBD]"

function from_utf8_lossy :: "bytes \<Rightarrow> string" where
  "from_utf8_lossy s =
    (if s = [] then []
     else case utf8_next s of
       Scalar n \<Rightarrow> take n s @ from_utf8_lossy (drop n s)
     | Malformed n \<Rightarrow> replacement @ from_utf8_lossy (drop n s)
     | Truncated \<Rightarrow> replacement)"
  by pat_completeness auto
termination
  by (relation "measure length") (auto dest: utf8_next_pos)

declare from_utf8_lossy.simps [simp del]

section \<open>Rendering\<close>

definition render_head :: "bytes \<Rightarrow> string" where
  "render_head s =
    (case utf8_error 0 s of
       None \<Rightarrow> s
     | Some (valid_up_to, None) \<Rightarrow> from_utf8_lossy (take valid_up_to s)
     | Some (valid_up_to, Some n) \<Rightarrow> from_utf8_lossy s)"

definition render_tail :: "bytes \<Rightarrow> string" where
  "render_tail s =
    (if utf8_error 0 s = None then s
     else case find (\<lambda>start. utf8_error 0 (drop start s) = None) [1..<Suc (min (length s) 3)] of
       Some start \<Rightarrow> drop start s
     | None \<Rightarrow> from_utf8_lossy s)"

definition render :: "(path \<Rightarrow> string) \<Rightarrow> head_tail_buffer \<Rightarrow> path option \<Rightarrow> string" where
  "render display b full_copy =
    (let head = render_head (hb_head b);
         tail = render_tail (hb_tail b)
     in if hb_omitted_bytes b = 0 then head @ tail
        else
          let full = (case full_copy of None \<Rightarrow> [] | Some p \<Rightarrow> ''; full output: '' @ display p)
          in head @ [newline] @ ''['' @ [CHR 0xE2, CHR 0x80, CHR 0xA6] @ '' ''
             @ show_nat (unat (hb_omitted_bytes b)) @ '' bytes omitted'' @ full @ '']'' @ [newline] @ tail)"

section \<open>Truncation policies\<close>

record truncation_policy =
  tp_limit_bytes :: nat
  tp_label :: string

definition ledger_policy :: truncation_policy where
  "ledger_policy = \<lparr>tp_limit_bytes = 16 * 1024, tp_label = ''ledger''\<rparr>"

definition provider_content_policy :: truncation_policy where
  "provider_content_policy = \<lparr>tp_limit_bytes = 256 * 1024, tp_label = ''provider-content''\<rparr>"

definition pane_policy :: truncation_policy where
  "pane_policy = \<lparr>tp_limit_bytes = 64 * 1024, tp_label = ''pane''\<rparr>"

definition policy_buffer :: "truncation_policy \<Rightarrow> head_tail_buffer" where
  "policy_buffer p = head_tail_new (tp_limit_bytes p)"

section \<open>The buffer as a function of the stream\<close>

definition last_n :: "nat \<Rightarrow> 'a list \<Rightarrow> 'a list" where
  "last_n n xs = drop (length xs - n) xs"

definition window :: "nat \<Rightarrow> bytes \<Rightarrow> head_tail_buffer" where
  "window limit bs = \<lparr>hb_limit = limit, hb_head = take (limit div 2) bs,
    hb_tail = last_n (limit - limit div 2) (drop (limit div 2) bs),
    hb_omitted_bytes = of_nat (min (2 ^ 64 - 1) (length bs - limit))\<rparr>"

lemma last_n_append:
  "last_n n (xs @ ys) = drop ((min (length xs) n + length ys) - n) (last_n n xs) @ last_n n ys"
  by (auto simp: last_n_def min_def add.commute)

lemma length_last_n [simp]: "length (last_n n xs) = min (length xs) n"
  by (simp add: last_n_def)

lemma unat_of_nat_u64: "n < 2 ^ 64 \<Longrightarrow> unat (of_nat n :: u64) = n"
  by (simp add: unsigned_of_nat take_bit_nat_eq_self)

lemma saturating_add_of_nat:
  "saturating_add_u64 (of_nat (min (2 ^ 64 - 1) a)) (of_nat b) = of_nat (min (2 ^ 64 - 1) (a + b))"
  if "b < 2 ^ 64"
proof -
  have a: "unat (of_nat (min (2 ^ 64 - 1) a) :: u64) = min (2 ^ 64 - 1) a"
    by (rule unat_of_nat_u64) simp
  have b: "unat (of_nat b :: u64) = b" using that by (rule unat_of_nat_u64)
  have top: "(of_nat (2 ^ 64 - 1) :: u64) = - 1" by simp
  show ?thesis
  proof (cases "min (2 ^ 64 - 1) a + b < 2 ^ 64")
    case True
    then have "min (2 ^ 64 - 1) (a + b) = min (2 ^ 64 - 1) a + b" by auto
    with True a b show ?thesis by (simp add: saturating_add_u64_def)
  next
    case False
    then have "min (2 ^ 64 - 1) (a + b) = 2 ^ 64 - 1" by auto
    with False a b top show ?thesis by (simp add: saturating_add_u64_def)
  qed
qed

text \<open>One push moves the window over one chunk.\<close>

lemma push_chunk_window:
  assumes small: "length chunk < 2 ^ 64"
  shows "push_chunk (window limit bs) chunk = window limit (bs @ chunk)"
proof -
  define h t where "h = limit div 2" and "t = limit - h"
  define rem where "rem = drop (h - length bs) chunk"
  have ht: "h + t = limit" "t = 0 \<longleftrightarrow> limit = 0" by (auto simp: h_def t_def)
  have head: "take h bs @ take (min (h - length (take h bs)) (length chunk)) chunk = take h (bs @ chunk)"
    by (simp add: min_def)
  have rem_eq: "drop (min (h - length (take h bs)) (length chunk)) chunk = rem"
    by (auto simp: rem_def min_def)
  have stream: "drop h (bs @ chunk) = drop h bs @ rem" by (simp add: rem_def)
  have rem_small: "length rem < 2 ^ 64" using small by (simp add: rem_def)
  show ?thesis
  proof (cases "rem = []")
    case True
    then have "length chunk \<le> h - length bs" by (simp add: rem_def)
    then have "length (bs @ chunk) - limit = length bs - limit" using ht(1) by auto
    with True head rem_eq stream show ?thesis
      by (simp add: push_chunk_def window_def h_def [symmetric] t_def [symmetric] Let_def)
  next
    case False
    let ?over = "(min (length bs - h) t + length rem) - t"
    have over: "length bs - limit + ?over = length (bs @ chunk) - limit"
      using False ht(1) by (auto simp: rem_def min_def)
    have "?over \<le> length rem" by auto
    with rem_small have add: "saturating_add_u64 (of_nat (min (2 ^ 64 - 1) (length bs - limit))) (of_nat ?over) =
        of_nat (min (2 ^ 64 - 1) (length (bs @ chunk) - limit))"
      using saturating_add_of_nat [of ?over "length bs - limit"] over by simp
    have tail: "drop ?over (last_n t (drop h bs)) @ drop (length rem - t) rem = last_n t (drop h (bs @ chunk))"
      unfolding stream last_n_append by (simp add: last_n_def)
    have clip: "drop (min ?over (length (last_n t (drop h bs)))) (last_n t (drop h bs)) =
        drop ?over (last_n t (drop h bs))"
      by (auto simp: min_def)
    show ?thesis
    proof (cases "t = 0")
      case True
      then show ?thesis
        using False head rem_eq add ht
        by (simp add: push_chunk_def window_def h_def [symmetric] t_def [symmetric] Let_def last_n_def)
    next
      case False': False
      define T where "T = last_n t (drop h bs)"
      define omitted :: u64 where "omitted = of_nat (min (2 ^ 64 - 1) (length bs - limit))"
      have T: "length T = min (length bs - h) t" by (simp add: T_def)
      have omit: "(if ?over > 0 then saturating_add_u64 omitted (of_nat ?over) else omitted) =
          of_nat (min (2 ^ 64 - 1) (length (bs @ chunk) - limit))"
        using add over by (cases "?over = 0") (simp_all only: omitted_def, simp_all)
      have "window limit bs = \<lparr>hb_limit = limit, hb_head = take h bs, hb_tail = T, hb_omitted_bytes = omitted\<rparr>"
        by (simp only: window_def h_def t_def T_def omitted_def)
      then have "push_chunk (window limit bs) chunk = \<lparr>hb_limit = limit, hb_head = take h (bs @ chunk),
          hb_tail = drop (min ?over (length T)) T @ drop (length rem - t) rem,
          hb_omitted_bytes = (if ?over > 0 then saturating_add_u64 omitted (of_nat ?over) else omitted)\<rparr>"
        using False False' head rem_eq
        by (simp only: push_chunk_def head_tail_buffer.simps h_def [symmetric] t_def [symmetric] Let_def
            T [symmetric] if_False)
      also have "\<dots> = window limit (bs @ chunk)"
        unfolding omit clip [folded T_def] tail [folded T_def] by (simp only: window_def h_def t_def)
      finally show ?thesis .
    qed
  qed
qed

lemma head_tail_new_window: "head_tail_new limit = window limit []"
  by (simp add: head_tail_new_def window_def last_n_def)

lemma pushes_window:
  "\<forall>c\<in>set chunks. length c < 2 ^ 64 \<Longrightarrow>
    foldl push_chunk (window limit bs) chunks = window limit (bs @ concat chunks)"
  by (induction chunks arbitrary: bs) (simp_all add: push_chunk_window)

text \<open>
  C39: The buffer refines its specification: whatever the chunks, it holds the first half of the limit
  and the last bytes of the whole stream, has counted every other byte, saturating, never holds more
  than its limit, and holds the stream exactly while the stream fits.
\<close>

theorem head_tail_buffer_refines_window:
  assumes "\<forall>c\<in>set chunks. length c < 2 ^ 64"
  shows "foldl push_chunk (head_tail_new limit) chunks = window limit (concat chunks)
    \<and> length (hb_head (window limit bs)) + length (hb_tail (window limit bs)) \<le> limit
    \<and> (length bs \<le> limit \<longrightarrow> hb_head (window limit bs) @ hb_tail (window limit bs) = bs
        \<and> omitted_bytes (window limit bs) = 0)
    \<and> unat (omitted_bytes (window limit bs)) = min (2 ^ 64 - 1) (length bs - limit)"
proof (intro conjI impI)
  show "foldl push_chunk (head_tail_new limit) chunks = window limit (concat chunks)"
    using pushes_window [OF assms] by (simp add: head_tail_new_window)
  show "length (hb_head (window limit bs)) + length (hb_tail (window limit bs)) \<le> limit"
    by (auto simp: window_def min_def)
  show "unat (omitted_bytes (window limit bs)) = min (2 ^ 64 - 1) (length bs - limit)"
    by (simp add: window_def omitted_bytes_def unat_of_nat_u64 del: of_nat_min)
  assume "length bs \<le> limit"
  then show "hb_head (window limit bs) @ hb_tail (window limit bs) = bs"
      "omitted_bytes (window limit bs) = 0"
    by (simp_all add: window_def last_n_def omitted_bytes_def)
qed

theorem head_tail_buffer_refines_window_witness:
  "foldl push_chunk (head_tail_new 8) [''abcd'', ''efghijkl''] = window 8 ''abcdefghijkl''"
  using head_tail_buffer_refines_window [of "[''abcd'', ''efghijkl'']" 8] by simp

section \<open>Rendering well-formed streams\<close>

abbreviation utf8_valid :: "bytes \<Rightarrow> bool" where
  "utf8_valid s \<equiv> utf8_error 0 s = None"

lemma cont_ranges_length: "cont_ranges b = Some rs \<Longrightarrow> length rs \<le> 3"
  by (auto simp: cont_ranges_def split: if_splits)

lemma utf8_next_bounds:
  assumes "utf8_next s = Scalar n"
  shows "0 < n" "n \<le> 4" "n \<le> length s"
  using assms cont_ranges_length
  by (cases s; fastforce split: option.splits dest: match_cont_bounds)+

lemma match_cont_take:
  "match_cont n rs cs = Scalar m \<Longrightarrow>
    match_cont n rs (take k cs) = (if k < length rs then Truncated else Scalar m)"
proof (induction n rs cs arbitrary: k rule: match_cont.induct)
  case (3 n r rs c cs)
  then show ?case by (cases k) (auto split: if_splits)
qed auto

lemma utf8_next_take:
  assumes "utf8_next s = Scalar n" "0 < k"
  shows "utf8_next (take k s) = (if k < n then Truncated else Scalar n)"
proof -
  from assms obtain c cs k' where s: "s = c # cs" "k = Suc k'" by (cases s; cases k) auto
  with assms obtain rs where rs: "cont_ranges (of_char c) = Some rs" "match_cont 1 rs cs = Scalar n"
    by (auto split: option.splits)
  then show ?thesis
    using match_cont_take [OF rs(2), of k'] match_cont_bounds(1) [OF rs(2)] s by auto
qed

lemma utf8_error_offset: "utf8_error off s = map_option (\<lambda>(m, e). (off + m, e)) (utf8_error 0 s)"
proof (induction "length s" arbitrary: off s rule: less_induct)
  case less
  show ?case
  proof (cases "s = [] \<or> (\<forall>n. utf8_next s \<noteq> Scalar n)")
    case True
    then show ?thesis by (auto simp: utf8_error.simps [of _ s] split: utf8_item.splits)
  next
    case False
    then obtain n where n: "utf8_next s = Scalar n" "s \<noteq> []" by auto
    then have "length (drop n s) < length s" using utf8_next_bounds [OF n(1)] by simp
    from less [OF this, of "off + n"] less [OF this, of n] n show ?thesis
      by (auto simp: utf8_error.simps [of off s] utf8_error.simps [of 0 s] option.map_comp comp_def
          case_prod_beta' add.assoc)
  qed
qed

lemma utf8_valid_step:
  assumes "utf8_next s = Scalar n"
  shows "utf8_valid s \<longleftrightarrow> utf8_valid (drop n s)"
proof -
  have "s \<noteq> []" using utf8_next_bounds [OF assms] by auto
  with assms show ?thesis
    using utf8_error_offset [of n "drop n s"] by (simp add: utf8_error.simps [of 0 s])
qed

lemma utf8_valid_induct [consumes 1, case_names Nil Scalar]:
  assumes "utf8_valid s" "P []"
    and step: "\<And>s n. utf8_next s = Scalar n \<Longrightarrow> utf8_valid (drop n s) \<Longrightarrow> P (drop n s) \<Longrightarrow> P s"
  shows "P s"
  using assms(1)
proof (induction "length s" arbitrary: s rule: less_induct)
  case less
  show ?case
  proof (cases "s = []")
    case False
    with less.prems obtain n where n: "utf8_next s = Scalar n"
      by (auto simp: utf8_error.simps [of 0 s] split: utf8_item.splits)
    have "length (drop n s) < length s" using utf8_next_bounds [OF n] by simp
    with less n utf8_valid_step [OF n] show ?thesis using step by blast
  qed (use assms(2) in simp)
qed

lemma lossy_valid: "utf8_valid s \<Longrightarrow> from_utf8_lossy s = s"
proof (induction rule: utf8_valid_induct)
  case Nil
  then show ?case by (simp add: from_utf8_lossy.simps)
next
  case (Scalar s n)
  then show ?case by (simp add: from_utf8_lossy.simps [of s])
qed

text \<open>A prefix of a well-formed stream is well-formed up to a cut character at its end.\<close>

lemma utf8_prefix:
  "utf8_valid s \<Longrightarrow> (\<exists>m\<le>k. k \<le> m + 3 \<and> utf8_valid (take m s)
    \<and> (utf8_error 0 (take k s) = None \<and> take k s = take m s \<or> utf8_error 0 (take k s) = Some (m, None)))"
proof (induction arbitrary: k rule: utf8_valid_induct)
  case Nil
  show ?case by (rule exI [of _ k]) (simp add: utf8_error.simps)
next
  case (Scalar s n)
  note b = utf8_next_bounds [OF Scalar.hyps(1)]
  consider "k = 0" | "0 < k" "k < n" | "n \<le> k" by linarith
  then show ?case
  proof cases
    case 1
    then show ?thesis by (auto simp: utf8_error.simps)
  next
    case 2
    then have "utf8_error 0 (take k s) = Some (0, None)"
      using utf8_next_take [OF Scalar.hyps(1)] b(3) by (auto simp: utf8_error.simps [of 0 "take k s"])
    with 2 b(2) show ?thesis by (intro exI [of _ 0]) (auto simp: utf8_error.simps)
  next
    case 3
    from Scalar.IH [of "k - n"] obtain m where m: "m \<le> k - n" "k - n \<le> m + 3" "utf8_valid (take m (drop n s))"
      "utf8_error 0 (take (k - n) (drop n s)) = None \<and> take (k - n) (drop n s) = take m (drop n s)
        \<or> utf8_error 0 (take (k - n) (drop n s)) = Some (m, None)" by blast
    have split: "take j s = take n s @ take (j - n) (drop n s)" if "n \<le> j" for j
      using that by (metis append_take_drop_id le_add_diff_inverse take_add)
    have err: "utf8_error 0 (take j s) = map_option (\<lambda>(m, e). (n + m, e)) (utf8_error 0 (take (j - n) (drop n s)))"
      if "n \<le> j" for j
    proof -
      have "utf8_next (take j s) = Scalar n" "take j s \<noteq> []"
        using utf8_next_take [OF Scalar.hyps(1), of j] that b(1,3) by auto
      then show ?thesis
        using utf8_error_offset [of n "drop n (take j s)"] by (simp add: utf8_error.simps [of 0 "take j s"] drop_take)
    qed
    have "utf8_valid (take (n + m) s)" using err [of "n + m"] m(3) by simp
    moreover have "take k s = take (n + m) s" if "take (k - n) (drop n s) = take m (drop n s)"
      using split [OF 3] split [of "n + m"] that by simp
    ultimately show ?thesis using m 3 err [OF 3] by (intro exI [of _ "n + m"]) auto
  qed
qed

text \<open>A suffix is well-formed after at most three bytes of a cut character.\<close>

lemma utf8_suffix: "utf8_valid s \<Longrightarrow> \<exists>j\<le>3. utf8_valid (drop (k + j) s)"
proof (induction arbitrary: k rule: utf8_valid_induct)
  case Nil
  show ?case by (rule exI [of _ 0]) (simp add: utf8_error.simps)
next
  case (Scalar s n)
  note b = utf8_next_bounds [OF Scalar.hyps(1)]
  consider "k = 0" | "0 < k" "k < n" | "n \<le> k" by linarith
  then show ?case
  proof cases
    case 1
    then show ?thesis using utf8_valid_step [OF Scalar.hyps(1)] Scalar.hyps(2) by (intro exI [of _ 0]) simp
  next
    case 2
    then show ?thesis using Scalar.hyps(2) b(2) by (intro exI [of _ "n - k"]) simp
  next
    case 3
    from Scalar.IH [of "k - n"] obtain j where "j \<le> 3" "utf8_valid (drop (k - n + j) (drop n s))" by blast
    with 3 show ?thesis by (intro exI [of _ j]) (simp add: add.commute)
  qed
qed

lemma render_head_valid:
  assumes "utf8_valid s"
  shows "\<exists>m\<le>k. k \<le> m + 3 \<and> utf8_valid (take m s) \<and> render_head (take k s) = take m s"
proof -
  obtain m where m: "m \<le> k" "k \<le> m + 3" "utf8_valid (take m s)"
    "utf8_error 0 (take k s) = None \<and> take k s = take m s \<or> utf8_error 0 (take k s) = Some (m, None)"
    using utf8_prefix [OF assms] by blast
  moreover have "from_utf8_lossy (take m (take k s)) = take m s"
    using m(1,3) lossy_valid by (simp add: min_def)
  ultimately show ?thesis by (auto simp: render_head_def)
qed

lemma render_tail_valid:
  assumes "utf8_valid s"
  shows "\<exists>j\<le>3. utf8_valid (drop (k + j) s) \<and> render_tail (drop k s) = drop (k + j) s"
proof (cases "utf8_valid (drop k s)")
  case True
  then show ?thesis by (intro exI [of _ 0]) (simp add: render_tail_def)
next
  case False
  obtain j where j: "j \<le> 3" "utf8_valid (drop (k + j) s)" using utf8_suffix [OF assms] by blast
  let ?P = "\<lambda>start. utf8_valid (drop start (drop k s))"
  let ?l = "length (drop k s)"
  have "?P (min j ?l)"
    using j(2) by (cases "j \<le> ?l") (auto simp: add.commute utf8_error.simps)
  moreover from this False have "0 < min j ?l" by (cases "min j ?l") (auto simp: add.commute)
  ultimately have "min j ?l \<in> set [1..<Suc (min ?l 3)]" "?P (min j ?l)" using j(1) by auto
  then obtain start where start: "find ?P [1..<Suc (min ?l 3)] = Some start"
    by (cases "find ?P [1..<Suc (min ?l 3)]") (auto simp: find_None_iff)
  from find_Some_member [OF start] have "start \<le> 3" "utf8_valid (drop (k + start) s)"
    by (auto simp: add.commute)
  with False start show ?thesis by (intro exI [of _ start]) (auto simp: render_tail_def add.commute)
qed

text \<open>
  Rendering the capture of a well-formed stream shows whole characters only: the head is a
  well-formed prefix of the stream that lost at most three bytes to a cut character, and the tail a
  well-formed suffix that lost at most three; no replacement character is ever put in.
\<close>

theorem rendering_shows_whole_characters:
  fixes limit bs
  defines "h \<equiv> limit div 2"
  defines "from \<equiv> h + ((length bs - h) - (limit - h))"
  assumes "utf8_valid bs"
  shows "\<exists>m k. render_head (hb_head (window limit bs)) = take m bs \<and> utf8_valid (take m bs)
      \<and> m \<le> h \<and> h \<le> m + 3
      \<and> render_tail (hb_tail (window limit bs)) = drop k bs \<and> utf8_valid (drop k bs)
      \<and> from \<le> k \<and> k \<le> from + 3"
proof -
  have parts: "hb_head (window limit bs) = take h bs" "hb_tail (window limit bs) = drop from bs"
    by (simp_all add: window_def last_n_def h_def from_def add.commute)
  obtain m where "m \<le> h" "h \<le> m + 3" "utf8_valid (take m bs)" "render_head (take h bs) = take m bs"
    using render_head_valid [OF assms(3), of h] by blast
  moreover obtain j where "j \<le> 3" "utf8_valid (drop (from + j) bs)" "render_tail (drop from bs) = drop (from + j) bs"
    using render_tail_valid [OF assms(3), of "from"] by blast
  ultimately show ?thesis unfolding parts
    by (intro exI [of _ m] exI [of _ "from + j"]) simp
qed

text \<open>The bytes of a line with one accented letter.\<close>

definition accented :: bytes where
  "accented = [CHR ''a'', CHR 0xC3, CHR 0xA9, CHR ''b'']"

lemma accented_valid: "utf8_valid accented"
  by (simp add: accented_def utf8_error.simps cont_ranges_def)

theorem rendering_shows_whole_characters_witness:
  "\<exists>m. render_head (hb_head (window 4 accented)) = take m accented \<and> utf8_valid (take m accented)"
  using rendering_shows_whole_characters [OF accented_valid, of 4] by blast

text \<open>
  A character across the two halves is cut from both: the line fits the buffer, nothing is counted as
  omitted, and still the letter is missing from the rendering, without any marker.
\<close>

lemma split_character_is_lost:
  "omitted_bytes (push_chunk (head_tail_new 4) accented) = 0
    \<and> render display (push_chunk (head_tail_new 4) accented) None = ''ab''"
proof -
  have b: "push_chunk (head_tail_new 4) accented = \<lparr>hb_limit = 4, hb_head = [CHR ''a'', CHR 0xC3],
      hb_tail = [CHR 0xA9, CHR ''b''], hb_omitted_bytes = 0\<rparr>"
    by (simp add: push_chunk_def head_tail_new_def accented_def)
  have "render_head [CHR ''a'', CHR 0xC3] = ''a''"
    by (simp add: render_head_def utf8_error.simps cont_ranges_def from_utf8_lossy.simps)
  moreover have "render_tail [CHR 0xA9, CHR ''b''] = ''b''"
    by (simp add: render_tail_def utf8_error.simps cont_ranges_def upt_rec)
  ultimately show ?thesis by (simp add: b render_def omitted_bytes_def)
qed

end
