(* ===== verification/Run_State.thy ===== *)
theory Run_State
  imports Plan_Store
begin

text \<open>
  The state of a run (\<open>crates/deadreckon-core/src/state.rs\<close>): the pipeline record with its phases, the
  ownership stamp of durable jobs, the summary of spend, the pointer to the current run and the
  lookup of runs by id. The transitions of the phases interpret \<open>event_machine\<close>. The directory walk
  is an argument: the regular files below the run-state root, in the order of the walk; clock and
  ids are arguments too. \<open>create_run\<close> itself calls the gate, the docs and the workspace capture; only
  the record it builds is modelled.
\<close>

section \<open>Phases and runs\<close>

definition STATE_VERSION :: u32 where "STATE_VERSION = 1"

datatype run_status = RunPending | RunPlanned | RunExecuting | RunCompleted | RunFailed | RunKilled

datatype provider_failure_disposition = RetryableFailure | FatalFailure

type_synonym phase_id = u16

datatype phase_status = PhasePending | PhasePlanned | PhaseExecuting | PhaseCompleted | PhaseFailed

record phase_state =
  ph_id :: phase_id
  ph_name :: string
  ph_status :: phase_status
  ph_plan_path :: "path option"
  ph_updated_at :: timestamp

datatype run_ownership_artifact =
    PlanTask string string u32 u32
  | PlanResult string
  | CampaignResult string
  | MergeRepair string string u32 string path string string
  | ParentResult

record run_ownership =
  ro_schema_version :: u32
  ro_job_id :: string
  ro_artifact :: run_ownership_artifact

record merge_repair_ownership =
  mr_root_artifact_id :: string
  mr_repair_id :: string
  mr_repair_round :: u32
  mr_run_id :: string
  mr_proof_dir :: path
  mr_repair_request_sha256 :: string
  mr_repair_plan_sha256 :: string

record pipeline_state =
  rs_version :: u32
  rs_goal :: string
  rs_task_key :: string
  rs_run_id :: string
  rs_scope :: string
  rs_status :: run_status
  rs_current_phase_id :: phase_id
  rs_started_at :: timestamp
  rs_updated_at :: timestamp
  rs_cwd :: path
  rs_run_root :: path
  rs_working_dir :: path
  rs_skill_name :: string
  rs_skill_path :: path
  rs_sandbox :: string
  rs_provider :: "string option"
  rs_ownership :: "run_ownership option"
  rs_max_spend_usd :: "f64 option"
  rs_max_wall_seconds :: "f64 option"
  rs_total_spend_usd :: f64
  rs_total_wall_seconds :: f64
  rs_turn :: u32
  rs_pause_reason :: "string option"
  rs_failure_reason :: "string option"
  rs_provider_failure :: "provider_failure_disposition option"
  rs_child_pids :: "u32 list"
  rs_killed_at :: "timestamp option"
  rs_promoted_library_dir :: "path option"
  rs_phases :: "phase_state list"

section \<open>Ownership\<close>

definition owned :: "string \<Rightarrow> run_ownership_artifact \<Rightarrow> run_ownership" where
  "owned job_id a = \<lparr>ro_schema_version = 1, ro_job_id = job_id, ro_artifact = a\<rparr>"

definition plan_task_ownership :: "string \<Rightarrow> string \<Rightarrow> string \<Rightarrow> u32 \<Rightarrow> u32 \<Rightarrow> run_ownership" where
  "plan_task_ownership job_id plan_id task_id task_index task_attempt =
    owned job_id (PlanTask plan_id task_id task_index task_attempt)"

definition plan_result_ownership :: "string \<Rightarrow> string \<Rightarrow> run_ownership" where
  "plan_result_ownership job_id plan_id = owned job_id (PlanResult plan_id)"

definition campaign_result_ownership :: "string \<Rightarrow> string \<Rightarrow> run_ownership" where
  "campaign_result_ownership job_id campaign_id = owned job_id (CampaignResult campaign_id)"

definition merge_repair_stamp :: "string \<Rightarrow> merge_repair_ownership \<Rightarrow> run_ownership" where
  "merge_repair_stamp job_id r =
    owned job_id (MergeRepair (mr_root_artifact_id r) (mr_repair_id r) (mr_repair_round r) (mr_run_id r)
      (mr_proof_dir r) (mr_repair_request_sha256 r) (mr_repair_plan_sha256 r))"

definition parent_result_ownership :: "string \<Rightarrow> run_ownership" where
  "parent_result_ownership job_id = owned job_id ParentResult"

definition ownership_is_complete :: "run_ownership \<Rightarrow> bool" where
  "ownership_is_complete w =
    (if ro_schema_version w \<noteq> 1 \<or> blank (ro_job_id w) then False
     else case ro_artifact w of
       PlanTask plan_id task_id _ task_attempt \<Rightarrow> \<not> blank plan_id \<and> \<not> blank task_id \<and> task_attempt > 0
     | PlanResult plan_id \<Rightarrow> \<not> blank plan_id
     | CampaignResult campaign_id \<Rightarrow> \<not> blank campaign_id
     | MergeRepair root_artifact_id repair_id repair_round run_id proof_dir request_sha plan_sha \<Rightarrow>
         \<not> blank root_artifact_id \<and> \<not> blank repair_id \<and> repair_round > 0 \<and> \<not> blank run_id
         \<and> is_absolute proof_dir \<and> starts_with request_sha ''sha256:'' \<and> starts_with plan_sha ''sha256:''
     | ParentResult \<Rightarrow> True)"

section \<open>Phases\<close>

definition state_path :: "pipeline_state \<Rightarrow> path" where
  "state_path s = join (rs_run_root s) ''state.json''"

definition default_phases :: "timestamp \<Rightarrow> phase_state list" where
  "default_phases now =
    map (\<lambda>(i, name). \<lparr>ph_id = i, ph_name = name, ph_status = PhasePending, ph_plan_path = None,
        ph_updated_at = now\<rparr>)
      [(0, ''init''), (10, ''plan''), (20, ''provider''), (30, ''sandbox''), (40, ''execute''),
       (50, ''verify''), (60, ''complete'')]"

text \<open>The first phase with the id, as \<open>iter_mut().find\<close> gives it.\<close>

primrec update_phase :: "phase_id \<Rightarrow> (phase_state \<Rightarrow> phase_state) \<Rightarrow> phase_state list \<Rightarrow> phase_state list option" where
  "update_phase i f [] = None"
| "update_phase i f (p # ps) =
    (if ph_id p = i then Some (f p # ps) else map_option (\<lambda>qs. p # qs) (update_phase i f ps))"

definition run_status_after :: "run_status \<Rightarrow> phase_id \<Rightarrow> phase_status \<Rightarrow> run_status" where
  "run_status_after current i status =
    (case status of
       PhaseExecuting \<Rightarrow> RunExecuting
     | PhaseFailed \<Rightarrow> RunFailed
     | PhaseCompleted \<Rightarrow> (if i = 60 then RunCompleted else current)
     | PhasePlanned \<Rightarrow> RunPlanned
     | PhasePending \<Rightarrow> current)"

definition set_phase_status ::
    "pipeline_state \<Rightarrow> phase_id \<Rightarrow> phase_status \<Rightarrow> timestamp \<Rightarrow> pipeline_state res" where
  "set_phase_status s i status now =
    (case update_phase i (\<lambda>p. p\<lparr>ph_status := status, ph_updated_at := now\<rparr>) (rs_phases s) of
       None \<Rightarrow> Inl (NotFound (''phase '' @ show_nat (unat i)))
     | Some phases \<Rightarrow> Inr (s\<lparr>rs_phases := phases, rs_current_phase_id := i, rs_updated_at := now,
         rs_status := run_status_after (rs_status s) i status\<rparr>))"

definition active_phase :: "pipeline_state \<Rightarrow> phase_state option" where
  "active_phase s = find (\<lambda>p. ph_id p = rs_current_phase_id s) (rs_phases s)"

section \<open>Files of a run\<close>

definition resolve_skill_path :: "path \<Rightarrow> path option \<Rightarrow> string \<Rightarrow> path io" where
  "resolve_skill_path home source_root skill_name =
    (let relative = join (join (components ''skills'') skill_name) ''SKILL.md'';
         user = join_path home relative
     in io_bind (fs_exists user) (\<lambda>there.
        if there then io_return user
        else case source_root of
          None \<Rightarrow> io_return user
        | Some checkout \<Rightarrow>
           (let repo = join_path checkout relative
            in io_bind (fs_exists repo) (\<lambda>there. io_return (if there then repo else user)))))"

datatype codebase_mode = Worktree | Copy | InPlace | Fresh

record codebase_record =
  cb_schema_version :: u32
  cb_mode :: codebase_mode
  cb_source_path :: "path option"
  cb_source_git_root :: "path option"
  cb_branch_name :: "string option"
  cb_base_ref :: "string option"
  cb_base_sha :: "string option"
  cb_parent_branch :: "string option"
  cb_worktree_path :: "path option"
  cb_dirty_files_seeded :: bool
  cb_head_was_detached :: bool
  cb_created_at :: timestamp
  cb_deadreckon_version :: string
  cb_doc_polish_hash :: "string option"

definition working_dir_for_codebase :: "path \<Rightarrow> codebase_record \<Rightarrow> path" where
  "working_dir_for_codebase root_dir c =
    (let working = join root_dir ''working'' in
     case cb_mode c of
       Worktree \<Rightarrow> unwrap_or (cb_worktree_path c) working
     | InPlace \<Rightarrow> unwrap_or (cb_source_path c) working
     | Copy \<Rightarrow> working
     | Fresh \<Rightarrow> working)"

record run_options =
  op_goal :: string
  op_cwd :: path
  op_sandbox :: string
  op_provider :: "string option"
  op_skill_name :: string
  op_max_spend_usd :: "f64 option"
  op_max_wall_seconds :: "f64 option"
  op_run_id :: "string option"
  op_codebase :: "codebase_record option"

text \<open>The record \<open>create_run\<close> builds, before its first phase is planned.\<close>

definition new_pipeline_state ::
    "run_options \<Rightarrow> string \<Rightarrow> string \<Rightarrow> path \<Rightarrow> path \<Rightarrow> path \<Rightarrow> run_ownership option \<Rightarrow> timestamp \<Rightarrow> pipeline_state" where
  "new_pipeline_state options scope run_id root_dir working_dir skill_path ownership now =
    \<lparr>rs_version = STATE_VERSION, rs_goal = op_goal options, rs_task_key = task_key (op_goal options),
     rs_run_id = run_id, rs_scope = scope, rs_status = RunPending, rs_current_phase_id = 0,
     rs_started_at = now, rs_updated_at = now, rs_cwd = op_cwd options, rs_run_root = root_dir,
     rs_working_dir = working_dir, rs_skill_name = op_skill_name options, rs_skill_path = skill_path,
     rs_sandbox = op_sandbox options, rs_provider = op_provider options, rs_ownership = ownership,
     rs_max_spend_usd = op_max_spend_usd options, rs_max_wall_seconds = op_max_wall_seconds options,
     rs_total_spend_usd = 0, rs_total_wall_seconds = 0, rs_turn = 0, rs_pause_reason = None,
     rs_failure_reason = None, rs_provider_failure = None, rs_child_pids = [], rs_killed_at = None,
     rs_promoted_library_dir = None, rs_phases = default_phases now\<rparr>"

definition save_state :: "pipeline_state codec \<Rightarrow> pipeline_state \<Rightarrow> unit io" where
  "save_state c s = atomic_write_json c (state_path s) s"

definition load_state :: "pipeline_state codec \<Rightarrow> path \<Rightarrow> pipeline_state io" where
  "load_state c p = io_bind (fs_read p) (\<lambda>raw. io_lift (parse_json c p raw))"

record current_run_pointer =
  cu_goal :: string
  cu_task_key :: string
  cu_run_id :: string
  cu_scope :: string
  cu_cwd :: path
  cu_working_dir :: path
  cu_state_path :: path
  cu_updated_at :: timestamp

definition write_current_pointer ::
    "current_run_pointer codec \<Rightarrow> path \<Rightarrow> pipeline_state \<Rightarrow> timestamp \<Rightarrow> unit io" where
  "write_current_pointer c home s now =
    atomic_write_json c (current_pointer_path home (rs_scope s) (rs_task_key s))
      \<lparr>cu_goal = rs_goal s, cu_task_key = rs_task_key s, cu_run_id = rs_run_id s, cu_scope = rs_scope s,
       cu_cwd = rs_cwd s, cu_working_dir = rs_working_dir s, cu_state_path = state_path s,
       cu_updated_at = now\<rparr>"

definition load_current_pointer ::
    "current_run_pointer codec \<Rightarrow> path \<Rightarrow> string \<Rightarrow> string \<Rightarrow> current_run_pointer io" where
  "load_current_pointer c home scope key =
    (let p = current_pointer_path home scope key in
     io_bind (fs_read p) (\<lambda>raw. io_lift (parse_json c p raw)))"

section \<open>Spend\<close>

record spend_record =
  sp_timestamp :: timestamp
  sp_turn :: u32
  sp_provider :: string
  sp_model :: string
  sp_input_tokens :: u64
  sp_output_tokens :: u64
  sp_cost_usd :: f64
  sp_total_cost_usd :: f64
  sp_cap_usd :: "f64 option"
  sp_subscription :: bool
  sp_estimated :: bool
  sp_wall_time_seconds :: "f64 option"
  sp_wall_time_cap_seconds :: "f64 option"
  sp_kind :: string

record spend_summary =
  ss_total_usd :: f64
  ss_input_tokens :: u64
  ss_output_tokens :: u64
  ss_wall_seconds :: f64
  ss_turns :: nat
  ss_subscription_turns :: nat
  ss_any_subscription_turn :: bool
  ss_any_estimated_turn :: bool

definition default_spend_summary :: spend_summary where
  "default_spend_summary = \<lparr>ss_total_usd = 0, ss_input_tokens = 0, ss_output_tokens = 0, ss_wall_seconds = 0,
    ss_turns = 0, ss_subscription_turns = 0, ss_any_subscription_turn = False, ss_any_estimated_turn = False\<rparr>"

definition spend_step :: "spend_summary \<Rightarrow> spend_record \<Rightarrow> spend_summary" where
  "spend_step t r =
    (if sp_kind r \<noteq> ''loop'' then t
     else t\<lparr>ss_total_usd := sp_total_cost_usd r,
       ss_input_tokens := saturating_add_u64 (ss_input_tokens t) (sp_input_tokens r),
       ss_output_tokens := saturating_add_u64 (ss_output_tokens t) (sp_output_tokens r),
       ss_wall_seconds := ss_wall_seconds t + unwrap_or (sp_wall_time_seconds r) 0,
       ss_turns := ss_turns t + 1,
       ss_subscription_turns := (if sp_subscription r then ss_subscription_turns t + 1 else ss_subscription_turns t),
       ss_any_subscription_turn := ss_any_subscription_turn t \<or> sp_subscription r,
       ss_any_estimated_turn := ss_any_estimated_turn t \<or> sp_estimated r\<rparr>)"

definition finish_spend :: "pipeline_state \<Rightarrow> spend_summary \<Rightarrow> spend_summary" where
  "finish_spend s t =
    (let t = t\<lparr>ss_wall_seconds := rs_total_wall_seconds s\<rparr>
     in if ss_total_usd t = 0 then t\<lparr>ss_total_usd := rs_total_spend_usd s\<rparr> else t)"

definition spend_summary_of :: "spend_record codec \<Rightarrow> pipeline_state \<Rightarrow> spend_summary io" where
  "spend_summary_of c s =
    (let p = join (rs_run_root s) ''spend.jsonl'' in
     io_bind (fs_read_optional p) (\<lambda>found.
     case found of
       None \<Rightarrow> io_return (default_spend_summary\<lparr>ss_total_usd := rs_total_spend_usd s,
         ss_wall_seconds := rs_total_wall_seconds s\<rparr>)
     | Some raw \<Rightarrow>
        io_bind (io_lift (map_res (parse_json c p) (filter (\<lambda>l. \<not> blank l) (str_lines raw)))) (\<lambda>records.
        io_return (finish_spend s (foldl spend_step default_spend_summary records)))))"

section \<open>Finding runs\<close>

text \<open>The id of the run a state file belongs to: the name of its directory.\<close>

definition candidate_run_id :: "path \<Rightarrow> string option" where
  "candidate_run_id p = Option.bind (path_parent p) file_name"

definition is_state_file :: "path \<Rightarrow> bool" where
  "is_state_file p \<longleftrightarrow> file_name p = Some ''state.json''"

fun find_in_walk :: "string \<Rightarrow> path list \<Rightarrow> (string \<times> path) list \<Rightarrow> path + (string \<times> path) list" where
  "find_in_walk run_id [] found = Inr found"
| "find_in_walk run_id (p # ps) found =
    (if \<not> is_state_file p then find_in_walk run_id ps found
     else case candidate_run_id p of
       None \<Rightarrow> find_in_walk run_id ps found
     | Some i \<Rightarrow>
        (if i = run_id then Inl p
         else if starts_with i run_id then find_in_walk run_id ps (found @ [(i, p)])
         else find_in_walk run_id ps found))"

definition find_run_state_path :: "bool \<Rightarrow> path list \<Rightarrow> string \<Rightarrow> path res" where
  "find_run_state_path root_exists walk run_id =
    (let run_id = trim run_id in
     if run_id = [] then Inl (InvalidInput RunIdEmpty)
     else if \<not> root_exists then Inl (NotFound (''run '' @ run_id))
     else case find_in_walk run_id walk [] of
       Inl p \<Rightarrow> Inr p
     | Inr found \<Rightarrow>
        (case found of
           [] \<Rightarrow> Inl (NotFound (''run '' @ run_id))
         | [(i, p)] \<Rightarrow> Inr p
         | _ \<Rightarrow> Inl (InvalidInput (AmbiguousRunId run_id (map fst found)))))"

definition load_run :: "pipeline_state codec \<Rightarrow> bool \<Rightarrow> path list \<Rightarrow> string \<Rightarrow> pipeline_state io" where
  "load_run c root_exists walk run_id =
    io_bind (io_lift (find_run_state_path root_exists walk run_id)) (\<lambda>p. load_state c p)"

record run_list_entry =
  rl_run_id :: string
  rl_scope :: string
  rl_goal :: string
  rl_status :: run_status
  rl_updated_at :: timestamp
  rl_state_path :: path

primrec list_in_walk ::
    "pipeline_state codec \<Rightarrow> string option \<Rightarrow> path list \<Rightarrow> run_list_entry list \<Rightarrow> run_list_entry list io" where
  "list_in_walk c scope_filter [] runs = io_return runs"
| "list_in_walk c scope_filter (p # ps) runs =
    (if \<not> is_state_file p then list_in_walk c scope_filter ps runs
     else io_bind (load_state c p) (\<lambda>s.
       if (case scope_filter of None \<Rightarrow> False | Some scope \<Rightarrow> scope \<noteq> rs_scope s) then
         list_in_walk c scope_filter ps runs
       else list_in_walk c scope_filter ps (runs @
         [\<lparr>rl_run_id = rs_run_id s, rl_scope = rs_scope s, rl_goal = rs_goal s, rl_status = rs_status s,
           rl_updated_at = rs_updated_at s, rl_state_path = p\<rparr>])))"

definition list_runs ::
    "pipeline_state codec \<Rightarrow> bool \<Rightarrow> path list \<Rightarrow> string option \<Rightarrow> run_list_entry list io" where
  "list_runs c root_exists walk scope_filter =
    (if \<not> root_exists then io_return []
     else io_bind (list_in_walk c scope_filter walk []) (\<lambda>runs.
       io_return (sort_key (\<lambda>r. - rl_updated_at r) runs)))"

section \<open>The phases of a run\<close>

lemma update_phase_Some:
  assumes "update_phase i f ps = Some qs" "\<And>p. ph_id (f p) = ph_id p"
  shows "map ph_id qs = map ph_id ps \<and> (\<exists>p. find (\<lambda>p. ph_id p = i) ps = Some p
    \<and> find (\<lambda>p. ph_id p = i) qs = Some (f p)) \<and> filter (\<lambda>p. ph_id p \<noteq> i) qs = filter (\<lambda>p. ph_id p \<noteq> i) ps"
  using assms(1)
proof (induction ps arbitrary: qs)
  case (Cons p ps)
  then show ?case by (cases "ph_id p = i") (auto simp: assms(2))
qed simp

lemma update_phase_None: "update_phase i f ps = None \<longleftrightarrow> i \<notin> ph_id ` set ps"
  by (induction ps) auto

definition phase_ids :: "phase_id list" where
  "phase_ids = [0, 10, 20, 30, 40, 50, 60]"

text \<open>The invariant of a run's phases: the fixed list of ids, the current one among them, and a completed
  run stands at its last phase, completed.\<close>

definition phases_ok :: "pipeline_state \<Rightarrow> bool" where
  "phases_ok s \<longleftrightarrow> map ph_id (rs_phases s) = phase_ids \<and> rs_current_phase_id s \<in> set phase_ids"

definition phase_step :: "pipeline_state \<Rightarrow> phase_id \<times> phase_status \<times> timestamp \<Rightarrow> pipeline_state res" where
  "phase_step s = (\<lambda>(i, status, now). set_phase_status s i status now)"

lemma set_phase_status_cases:
  assumes "phases_ok s"
  shows "set_phase_status s i status now = (if i \<in> set phase_ids then
      Inr (s\<lparr>rs_phases := the (update_phase i (\<lambda>p. p\<lparr>ph_status := status, ph_updated_at := now\<rparr>) (rs_phases s)),
        rs_current_phase_id := i, rs_updated_at := now, rs_status := run_status_after (rs_status s) i status\<rparr>)
      else Inl (NotFound (''phase '' @ show_nat (unat i))))"
proof -
  have "ph_id ` set (rs_phases s) = set phase_ids"
    using assms by (metis phases_ok_def list.set_map)
  then show ?thesis
    using update_phase_None [of i "\<lambda>p. p\<lparr>ph_status := status, ph_updated_at := now\<rparr>" "rs_phases s"]
    by (auto simp: set_phase_status_def split: option.splits)
qed

lemma set_phase_status_ok:
  assumes "set_phase_status s i status now = Inr s'"
  shows "map ph_id (rs_phases s') = map ph_id (rs_phases s)" "rs_current_phase_id s' = i"
    "rs_status s' = run_status_after (rs_status s) i status"
    "\<exists>p. find (\<lambda>p. ph_id p = i) (rs_phases s') = Some p \<and> ph_status p = status"
    "filter (\<lambda>p. ph_id p \<noteq> i) (rs_phases s') = filter (\<lambda>p. ph_id p \<noteq> i) (rs_phases s)"
    "i \<in> ph_id ` set (rs_phases s)"
proof -
  from assms obtain qs where
      qs: "update_phase i (\<lambda>p. p\<lparr>ph_status := status, ph_updated_at := now\<rparr>) (rs_phases s) = Some qs"
    and s': "s' = s\<lparr>rs_phases := qs, rs_current_phase_id := i, rs_updated_at := now,
        rs_status := run_status_after (rs_status s) i status\<rparr>"
    by (auto simp: set_phase_status_def split: option.splits)
  from update_phase_Some [OF qs] show "map ph_id (rs_phases s') = map ph_id (rs_phases s)"
      "\<exists>p. find (\<lambda>p. ph_id p = i) (rs_phases s') = Some p \<and> ph_status p = status"
      "filter (\<lambda>p. ph_id p \<noteq> i) (rs_phases s') = filter (\<lambda>p. ph_id p \<noteq> i) (rs_phases s)"
    by (auto simp: s')
  show "rs_current_phase_id s' = i" "rs_status s' = run_status_after (rs_status s) i status" by (simp_all add: s')
  show "i \<in> ph_id ` set (rs_phases s)" using qs update_phase_None by (metis option.distinct(1))
qed

interpretation run_phases: event_machine phase_step phases_ok
proof
  fix s x s'
  assume ok: "phases_ok s" and step: "phase_step s x = Inr s'"
  obtain i status now where x: "x = (i, status, now)" by (cases x)
  note facts = set_phase_status_ok [of s i status now s']
  have "i \<in> set phase_ids" using facts(6) step x ok by (metis phases_ok_def list.set_map phase_step_def case_prod_conv)
  with facts(1,2) step x ok show "phases_ok s'" by (simp add: phases_ok_def phase_step_def)
qed

lemma new_pipeline_state_ok: "phases_ok (new_pipeline_state options scope i rd wd sp ow now)"
  by (simp add: phases_ok_def new_pipeline_state_def default_phases_def phase_ids_def)

text \<open>
  C40: From its creation on, a run always has an active phase among its seven fixed phases: the one set
  last, with the status it was set to, all other phases as they were; the run is completed by that
  step exactly when the last phase completes, and a phase id outside the seven is refused.
\<close>

theorem run_always_has_its_active_phase:
  assumes "fold_res phase_step (new_pipeline_state options scope r rd wd sp ow t0) steps = Inr s"
  shows "(set_phase_status s i status now = Inr s' \<longrightarrow>
      (\<exists>p. active_phase s' = Some p \<and> ph_id p = i \<and> ph_status p = status)
      \<and> filter (\<lambda>p. ph_id p \<noteq> i) (rs_phases s') = filter (\<lambda>p. ph_id p \<noteq> i) (rs_phases s)
      \<and> (rs_status s' = RunCompleted \<longleftrightarrow> i = 60 \<and> status = PhaseCompleted
          \<or> rs_status s = RunCompleted \<and> status \<in> {PhasePending, PhaseCompleted}))
    \<and> ((\<exists>s'. set_phase_status s i status now = Inr s') \<longleftrightarrow> i \<in> set phase_ids)
    \<and> (\<exists>p. active_phase s = Some p)"
proof (intro conjI impI)
  have ok: "phases_ok s" by (rule run_phases.run_inv [OF new_pipeline_state_ok assms])
  then have "rs_current_phase_id s \<in> ph_id ` set (rs_phases s)" by (metis phases_ok_def list.set_map)
  then show "\<exists>p. active_phase s = Some p"
    by (cases "active_phase s") (auto simp: active_phase_def find_None_iff)
  show "(\<exists>s'. set_phase_status s i status now = Inr s') \<longleftrightarrow> i \<in> set phase_ids"
    by (simp add: set_phase_status_cases [OF ok])
  assume "set_phase_status s i status now = Inr s'"
  note facts = set_phase_status_ok [OF this]
  from facts(4) obtain p where p: "find (\<lambda>p. ph_id p = i) (rs_phases s') = Some p" "ph_status p = status" by blast
  with find_Some_member [OF p(1)] facts(2)
  show "\<exists>p. active_phase s' = Some p \<and> ph_id p = i \<and> ph_status p = status" by (simp add: active_phase_def)
  show "filter (\<lambda>p. ph_id p \<noteq> i) (rs_phases s') = filter (\<lambda>p. ph_id p \<noteq> i) (rs_phases s)" by (rule facts(5))
  show "rs_status s' = RunCompleted \<longleftrightarrow> i = 60 \<and> status = PhaseCompleted
      \<or> rs_status s = RunCompleted \<and> status \<in> {PhasePending, PhaseCompleted}"
    unfolding facts(3) by (cases status) (auto simp: run_status_after_def)
qed

definition sample_options :: run_options where
  "sample_options = \<lparr>op_goal = ''g'', op_cwd = [], op_sandbox = [], op_provider = None, op_skill_name = [],
    op_max_spend_usd = None, op_max_wall_seconds = None, op_run_id = None, op_codebase = None\<rparr>"

theorem run_always_has_its_active_phase_witness:
  "\<exists>s. fold_res phase_step (new_pipeline_state sample_options [] ''r'' [] [] [] None 0)
      [(0, PhasePlanned, 1), (60, PhaseCompleted, 2)] = Inr s \<and> (\<exists>p. active_phase s = Some p)"
proof -
  let ?s0 = "new_pipeline_state sample_options [] ''r'' [] [] [] None 0"
  have "\<exists>s. fold_res phase_step ?s0 [(0, PhasePlanned, 1), (60, PhaseCompleted, 2)] = Inr s"
    by (simp add: phase_step_def set_phase_status_def new_pipeline_state_def default_phases_def)
  then show ?thesis using run_always_has_its_active_phase [where i = 0 and status = PhasePending and now = 0] by blast
qed

section \<open>Lookup of runs\<close>

text \<open>The state files of the walk with the ids of their runs.\<close>

definition state_files :: "path list \<Rightarrow> (string \<times> path) list" where
  "state_files walk = List.map_filter (\<lambda>p. if is_state_file p then map_option (\<lambda>i. (i, p)) (candidate_run_id p)
    else None) walk"

lemma state_files_simps [simp]:
  "state_files [] = []"
  "state_files (p # ps) = (case if is_state_file p then candidate_run_id p else None of
     None \<Rightarrow> state_files ps | Some i \<Rightarrow> (i, p) # state_files ps)"
  by (simp_all add: state_files_def map_filter_simps split: option.splits)

lemma find_in_walk_spec:
  "find_in_walk r walk found =
    (case find (\<lambda>(i, p). i = r) (state_files walk) of
       Some (i, p) \<Rightarrow> Inl p
     | None \<Rightarrow> Inr (found @ filter (\<lambda>(i, p). starts_with i r) (state_files walk)))"
  by (induction walk arbitrary: found) (auto split: option.splits)

text \<open>
  Looking up a run by an id or a prefix returns the run with exactly that id if there is one,
  however many ids it is a prefix of; otherwise the only run whose id starts with it; a prefix of
  several is refused with all of them, and one of none is not found.
\<close>

theorem run_lookup_is_exact_or_unique:
  assumes "trim r \<noteq> []"
  shows "find_run_state_path True walk r =
    (case find (\<lambda>(i, p). i = trim r) (state_files walk) of
       Some (i, p) \<Rightarrow> Inr p
     | None \<Rightarrow>
        (case filter (\<lambda>(i, p). starts_with i (trim r)) (state_files walk) of
           [] \<Rightarrow> Inl (NotFound (''run '' @ trim r))
         | [(i, p)] \<Rightarrow> Inr p
         | several \<Rightarrow> Inl (InvalidInput (AmbiguousRunId (trim r) (map fst several)))))"
  using assms
  by (auto simp: find_run_state_path_def Let_def find_in_walk_spec split: option.splits list.splits prod.splits)

definition sample_walk :: "path list" where
  "sample_walk = [[RootDir, Normal ''ab1'', Normal ''state.json''], [RootDir, Normal ''ab'', Normal ''state.json'']]"

theorem run_lookup_is_exact_or_unique_witness:
  "find_run_state_path True sample_walk ''ab'' = Inr [RootDir, Normal ''ab'', Normal ''state.json'']
    \<and> find_run_state_path True sample_walk ''ab1'' = Inr [RootDir, Normal ''ab1'', Normal ''state.json'']"
proof -
  have t: "trim ''ab'' = ''ab''" "trim ''ab1'' = ''ab1''" by code_simp+
  have "state_files sample_walk = [(''ab1'', [RootDir, Normal ''ab1'', Normal ''state.json'']),
      (''ab'', [RootDir, Normal ''ab'', Normal ''state.json''])]"
    by (simp add: sample_walk_def is_state_file_def candidate_run_id_def file_name_def path_parent_def)
  then show ?thesis
    using run_lookup_is_exact_or_unique [of "''ab''" sample_walk] run_lookup_is_exact_or_unique [of "''ab1''" sample_walk] t
    by simp
qed

end
