(* ===== verification/Run_Lock.thy ===== *)
theory Run_Lock
  imports Boot_Identity Store
begin

text \<open>
  The lock of a task (\<open>crates/deadreckon-core/src/lock.rs\<close>). A lock is an advisory lock on an open file
  together with the state written into it, so the model keeps the file behind the path (an inode),
  the contents of every inode and which inodes are locked: removing the path does not end a lock on
  the inode. Acquiring runs as one operation, as nothing of it is visible before the advisory lock is
  taken; releasing is the two system calls it makes, so that another process may come in between.
  The answers of the process table and the codec are arguments.
\<close>

section \<open>Processes\<close>

datatype kill_answer = KillOk | KillNotPermitted | KillNoProcess | KillOther

record process_table =
  pt_linux_state :: "u32 \<Rightarrow> char option"
  pt_kill :: "u32 \<Rightarrow> kill_answer"

text \<open>The state letter of \<open>/proc/<pid>/stat\<close>: after the last parenthesis, the first word.\<close>

definition linux_process_state_from_stat :: "string \<Rightarrow> char option" where
  "linux_process_state_from_stat raw =
    (if CHR '')'' \<notin> set raw then None
     else case split_whitespace (rev (takeWhile (\<lambda>c. c \<noteq> CHR '')'') (rev raw))) of
       [] \<Rightarrow> None
     | w # _ \<Rightarrow> (case w of [] \<Rightarrow> None | c # _ \<Rightarrow> Some c))"

definition pid_is_alive_platform :: "process_table \<Rightarrow> u32 \<Rightarrow> bool" where
  "pid_is_alive_platform pt pid =
    (if pt_linux_state pt pid = Some CHR ''Z'' \<or> pt_linux_state pt pid = Some CHR ''X'' then False
     else case pt_kill pt pid of
       KillOk \<Rightarrow> True
     | KillNotPermitted \<Rightarrow> True
     | KillNoProcess \<Rightarrow> False
     | KillOther \<Rightarrow> False)"

definition pid_is_alive :: "process_table \<Rightarrow> u32 \<Rightarrow> bool" where
  "pid_is_alive pt pid = (if pid = 0 then False else pid_is_alive_platform pt pid)"

section \<open>Lock states\<close>

record lock_state =
  lk_task_key :: string
  lk_run_id :: string
  lk_scope :: string
  lk_phase :: string
  lk_pid :: u32
  lk_acquired_at :: timestamp
  lk_updated_at :: timestamp

record lock_status =
  lq_held :: bool
  lq_stale :: bool
  lq_alive :: bool
  lq_state :: "lock_state option"

definition lock_path :: "path \<Rightarrow> string \<Rightarrow> string \<Rightarrow> path" where
  "lock_path home scope key = join (locks_dir home) (scope @ ''--'' @ key @ ''.lock'')"

text \<open>\<open>signed_duration_since(..).to_std()\<close> in nanoseconds; a negative age fails and counts as zero.\<close>

definition age_of :: "timestamp \<Rightarrow> lock_state \<Rightarrow> duration" where
  "age_of now st = nat (now - lk_updated_at st)"

definition heartbeat_age_seconds :: "timestamp \<Rightarrow> lock_state \<Rightarrow> u64" where
  "heartbeat_age_seconds now st = of_nat (age_of now st div 1000000000)"

definition lock_is_stale :: "process_table \<Rightarrow> timestamp \<Rightarrow> lock_state \<Rightarrow> duration \<Rightarrow> bool" where
  "lock_is_stale pt now st stale_after \<longleftrightarrow> age_of now st > stale_after \<or> \<not> pid_is_alive pt (lk_pid st)"

section \<open>Files behind the lock path\<close>

type_synonym inode = nat

record lock_world =
  lw_path :: path
  lw_inode :: "inode option"
  lw_data :: "inode \<Rightarrow> bytes"
  lw_locked :: "inode \<Rightarrow> bool"
  lw_fresh :: inode

text \<open>\<open>OpenOptions::create\<close>: the file at the path, a new empty one if there is none.\<close>

definition open_lock_file :: "lock_world \<Rightarrow> inode \<times> lock_world" where
  "open_lock_file w =
    (case lw_inode w of
       Some i \<Rightarrow> (i, w)
     | None \<Rightarrow> (lw_fresh w, w\<lparr>lw_inode := Some (lw_fresh w), lw_data := (lw_data w)(lw_fresh w := []),
         lw_locked := (lw_locked w)(lw_fresh w := False), lw_fresh := Suc (lw_fresh w)\<rparr>))"

definition decode_lock_state :: "lock_state codec \<Rightarrow> path \<Rightarrow> bytes \<Rightarrow> lock_state option res" where
  "decode_lock_state c p data =
    (if data = [] then Inr None else res_bind (parse_json c p data) (\<lambda>st. Inr (Some st)))"

definition read_lock_state :: "lock_state codec \<Rightarrow> lock_world \<Rightarrow> lock_state option res" where
  "read_lock_state c w =
    (case lw_inode w of None \<Rightarrow> Inr None | Some i \<Rightarrow> decode_lock_state c (lw_path w) (lw_data w i))"

definition write_lock_state_to_file ::
    "lock_state codec \<Rightarrow> inode \<Rightarrow> lock_state \<Rightarrow> lock_world \<Rightarrow> unit res \<times> lock_world" where
  "write_lock_state_to_file c i st w =
    (case enc c st of
       None \<Rightarrow> (Inl (Json (lw_path w)), w\<lparr>lw_data := (lw_data w)(i := [])\<rparr>)
     | Some b \<Rightarrow> (Inr (), w\<lparr>lw_data := (lw_data w)(i := b @ [newline])\<rparr>))"

section \<open>Guards\<close>

record lock_guard =
  lg_inode :: inode
  lg_state :: lock_state
  lg_released :: bool

definition lock_held :: "timestamp \<Rightarrow> string \<Rightarrow> lock_state \<Rightarrow> dr_error" where
  "lock_held now key st = LockHeld key (lk_run_id st) (lk_phase st) (heartbeat_age_seconds now st)"

definition unlock :: "inode \<Rightarrow> lock_world \<Rightarrow> lock_world" where
  "unlock i w = w\<lparr>lw_locked := (lw_locked w)(i := False)\<rparr>"

definition acquire_lock ::
    "lock_state codec \<Rightarrow> process_table \<Rightarrow> u32 \<Rightarrow> string \<Rightarrow> string \<Rightarrow> string \<Rightarrow> string \<Rightarrow> timestamp
      \<Rightarrow> lock_world \<Rightarrow> lock_guard res \<times> lock_world" where
  "acquire_lock c pt pid key run_id scope phase now w =
    (let (i, w) = open_lock_file w in
     if lw_locked w i then
       (case read_lock_state c w of
          Inl e \<Rightarrow> (Inl e, w)
        | Inr (Some existing) \<Rightarrow> (Inl (lock_held now key existing), w)
        | Inr None \<Rightarrow> (Inl (Io (lw_path w) IoWouldBlock), w))
     else
       let w = w\<lparr>lw_locked := (lw_locked w)(i := True)\<rparr> in
       case decode_lock_state c (lw_path w) (lw_data w i) of
         Inl e \<Rightarrow> (Inl e, unlock i w)
       | Inr existing \<Rightarrow>
          (case (case existing of
               None \<Rightarrow> None
             | Some st \<Rightarrow> if lk_run_id st \<noteq> run_id \<and> pid_is_alive pt (lk_pid st) then Some st else None) of
             Some st \<Rightarrow> (Inl (lock_held now key st), unlock i w)
           | None \<Rightarrow>
              (let st = \<lparr>lk_task_key = key, lk_run_id = run_id, lk_scope = scope, lk_phase = phase,
                     lk_pid = pid, lk_acquired_at = now, lk_updated_at = now\<rparr>
               in case write_lock_state_to_file c i st w of
                 (Inl e, w) \<Rightarrow> (Inl e, unlock i w)
               | (Inr _, w) \<Rightarrow> (Inr \<lparr>lg_inode = i, lg_state = st, lg_released = False\<rparr>, w))))"

definition lock_heartbeat ::
    "lock_state codec \<Rightarrow> lock_guard \<Rightarrow> string \<Rightarrow> timestamp \<Rightarrow> lock_world \<Rightarrow> unit res \<times> lock_guard \<times> lock_world" where
  "lock_heartbeat c g phase now w =
    (let g = g\<lparr>lg_state := (lg_state g)\<lparr>lk_phase := phase, lk_updated_at := now\<rparr>\<rparr>;
         (r, w) = write_lock_state_to_file c (lg_inode g) (lg_state g) w
     in (r, g, w))"

text \<open>\<open>fs::remove_file\<close> of the lock path; a missing file is no error.\<close>

definition remove_lock_path :: "lock_world \<Rightarrow> lock_world" where
  "remove_lock_path w = w\<lparr>lw_inode := None\<rparr>"

text \<open>\<open>release_inner\<close>: unlock, then remove.\<close>

definition release_lock :: "lock_guard \<Rightarrow> lock_world \<Rightarrow> lock_guard \<times> lock_world" where
  "release_lock g w =
    (if lg_released g then (g, w)
     else (g\<lparr>lg_released := True\<rparr>, remove_lock_path (unlock (lg_inode g) w)))"

definition release_lock_file :: "lock_world \<Rightarrow> lock_world" where
  "release_lock_file w = remove_lock_path w"

definition lock_status_of ::
    "lock_state codec \<Rightarrow> process_table \<Rightarrow> timestamp \<Rightarrow> duration \<Rightarrow> lock_world \<Rightarrow> lock_status res" where
  "lock_status_of c pt now stale_after w =
    res_bind (read_lock_state c w) (\<lambda>found.
    case found of
      None \<Rightarrow> Inr \<lparr>lq_held = False, lq_stale = False, lq_alive = False, lq_state = None\<rparr>
    | Some st \<Rightarrow> Inr \<lparr>lq_held = True, lq_stale = lock_is_stale pt now st stale_after,
        lq_alive = pid_is_alive pt (lk_pid st), lq_state = Some st\<rparr>)"

section \<open>A live holder is never usurped\<close>

text \<open>The state a guard stands for: its inode is locked, at the path and holds its state.\<close>

definition holds :: "lock_state codec \<Rightarrow> lock_guard \<Rightarrow> lock_world \<Rightarrow> bool" where
  "holds c g w \<longleftrightarrow> lw_inode w = Some (lg_inode g) \<and> lw_locked w (lg_inode g)
    \<and> decode_lock_state c (lw_path w) (lw_data w (lg_inode g)) = Inr (Some (lg_state g))"

lemma decode_written: "document_ok c st \<Longrightarrow> enc c st = Some b \<Longrightarrow>
    decode_lock_state c p (b @ [newline]) = Inr (Some st)"
  by (simp add: decode_lock_state_def parse_json_def document_ok_def)

lemma acquire_cases:
  assumes "acquire_lock c pt pid key r scope phase now w = (Inr g, w')"
  shows "\<exists>b. enc c (lg_state g) = Some b \<and> lk_run_id (lg_state g) = r \<and> lk_pid (lg_state g) = pid
    \<and> lw_inode w' = Some (lg_inode g) \<and> lw_locked w' (lg_inode g) \<and> lw_data w' (lg_inode g) = b @ [newline]"
  using assms
  by (auto simp: acquire_lock_def open_lock_file_def write_lock_state_to_file_def Let_def
      split: option.splits if_splits sum.splits prod.splits)

lemma acquire_refused:
  assumes "lw_inode w = Some i" "decode_lock_state c (lw_path w) (lw_data w i) = Inr (Some st)"
    and "lw_locked w i \<or> lk_run_id st \<noteq> r \<and> pid_is_alive pt (lk_pid st)"
  shows "acquire_lock c pt pid key r scope phase now w = (Inl (lock_held now key st), w)"
  using assms
  by (auto simp: acquire_lock_def open_lock_file_def read_lock_state_def unlock_def Let_def fun_upd_idem)

text \<open>
  What may happen to a lock while nobody releases it or removes its file: attempts to take it, by any
  process of any run, at any time and with any answers of the process table, and heartbeats of the
  holder that succeed and whose state reads back.
\<close>

inductive contends :: "lock_state codec \<Rightarrow> lock_guard \<times> lock_world \<Rightarrow> lock_guard \<times> lock_world \<Rightarrow> bool"
  for c where
  attempt: "acquire_lock c pt pid key r scope phase now w = (answer, w') \<Longrightarrow> contends c (g, w) (g, w')"
| beat: "lock_heartbeat c g phase now w = (Inr (), g', w') \<Longrightarrow> document_ok c (lg_state g') \<Longrightarrow> contends c (g, w) (g', w')"

text \<open>Attempts of other runs, each made while the process \<open>holder\<close> of the run \<open>r\<close> is alive.\<close>

inductive others_attempt :: "lock_state codec \<Rightarrow> string \<Rightarrow> u32 \<Rightarrow> lock_world \<Rightarrow> lock_world \<Rightarrow> bool"
  for c r holder where
  other: "acquire_lock c pt pid key r' scope phase now w = (answer, w') \<Longrightarrow> r' \<noteq> r \<Longrightarrow> pid_is_alive pt holder
    \<Longrightarrow> others_attempt c r holder w w'"

inductive_cases contendsE: "contends c (g, w) (g', w')"
inductive_cases others_attemptE: "others_attempt c r holder w w'"

lemma heartbeat_keeps:
  assumes "lock_heartbeat c g phase now w = (Inr (), g', w')" "document_ok c (lg_state g')" "holds c g w"
  shows "holds c g' w' \<and> lg_inode g' = lg_inode g \<and> lk_run_id (lg_state g') = lk_run_id (lg_state g)
    \<and> lk_pid (lg_state g') = lk_pid (lg_state g)"
  using assms decode_written
  by (auto simp: lock_heartbeat_def write_lock_state_to_file_def holds_def Let_def split: option.splits)

lemma contention_keeps_holder:
  assumes "(contends c)\<^sup>*\<^sup>* (g, w) (g', w')" "holds c g w"
  shows "holds c g' w' \<and> lg_inode g' = lg_inode g \<and> lk_run_id (lg_state g') = lk_run_id (lg_state g)
    \<and> lk_pid (lg_state g') = lk_pid (lg_state g)"
  using assms(1)
proof (induction g' w' rule: rtranclp_induct2)
  case refl
  then show ?case using assms(2) by simp
next
  case (step g1 w1 g2 w2)
  from step.hyps(2) consider
      (attempt) pt pid key r scope phase now answer
        where "acquire_lock c pt pid key r scope phase now w1 = (answer, w2)" "g2 = g1"
    | (beat) phase now where "lock_heartbeat c g1 phase now w1 = (Inr (), g2, w2)" "document_ok c (lg_state g2)"
    by (auto elim: contendsE)
  then show ?case
  proof cases
    case attempt
    have "acquire_lock c pt pid key r scope phase now w1 = (Inl (lock_held now key (lg_state g1)), w1)"
      using step.IH by (intro acquire_refused) (auto simp: holds_def)
    with attempt step.IH show ?thesis by simp
  next
    case beat
    then show ?thesis using heartbeat_keeps [OF beat] step.IH by auto
  qed
qed

lemma others_keep_crashed_lock:
  assumes "(others_attempt c (lk_run_id st) (lk_pid st))\<^sup>*\<^sup>* w w'"
    and "lw_inode w = Some i" "decode_lock_state c (lw_path w) (lw_data w i) = Inr (Some st)"
  shows "w' = w"
  using assms(1)
proof (induction rule: rtranclp_induct)
  case (step w1 w2)
  from step.hyps(2) show ?case
    by (cases rule: others_attemptE) (use acquire_refused [OF assms(2,3)] step.IH in auto)
qed simp

text \<open>
  C37: From the moment a lock is taken, as long as nobody releases it or removes its file, no sequence of
  attempts and successful heartbeats displaces the holder: the guard stays at the path with its run and process,
  and every further attempt is refused with the holder's run and phase, whatever run asks, and changes
  nothing. After a crash of the holder that dropped the advisory lock, its state still refuses any
  sequence of attempts of other runs as long as its process lives, however old its heartbeat, and
  once the process is gone the lock is taken.
\<close>

theorem live_holder_is_never_usurped:
  assumes "acquire_lock c pt pid key r scope phase now w = (Inr g, w1)" "document_ok c (lg_state g)"
    and "(contends c)\<^sup>*\<^sup>* (g, w1) (g', w2)"
    and "(others_attempt c r pid)\<^sup>*\<^sup>* (unlock (lg_inode g') w2) w3"
  shows "holds c g' w2 \<and> lg_inode g' = lg_inode g \<and> lk_run_id (lg_state g') = r \<and> lk_pid (lg_state g') = pid
    \<and> acquire_lock c pt' pid' key' r' scope' phase' now' w2 = (Inl (lock_held now' key' (lg_state g')), w2)
    \<and> (r' \<noteq> r \<and> pid_is_alive pt' pid \<longrightarrow>
        acquire_lock c pt' pid' key' r' scope' phase' now' w3 = (Inl (lock_held now' key' (lg_state g')), w3))
    \<and> (\<not> pid_is_alive pt' pid \<and> enc c \<lparr>lk_task_key = key', lk_run_id = r', lk_scope = scope', lk_phase = phase',
          lk_pid = pid', lk_acquired_at = now', lk_updated_at = now'\<rparr> \<noteq> None \<longrightarrow>
        (\<exists>g'' w4. acquire_lock c pt' pid' key' r' scope' phase' now' w3 = (Inr g'', w4)))"
proof -
  let ?u = "unlock (lg_inode g') w2"
  obtain b where b: "enc c (lg_state g) = Some b" "lk_run_id (lg_state g) = r" "lk_pid (lg_state g) = pid"
      "lw_inode w1 = Some (lg_inode g)" "lw_locked w1 (lg_inode g)" "lw_data w1 (lg_inode g) = b @ [newline]"
    using acquire_cases [OF assms(1)] by blast
  have "holds c g w1" using b decode_written [OF assms(2) b(1)] by (simp add: holds_def)
  from contention_keeps_holder [OF assms(3) this] b(2,3)
  have kept: "holds c g' w2" "lg_inode g' = lg_inode g" "lk_run_id (lg_state g') = r" "lk_pid (lg_state g') = pid"
    by simp_all
  have u: "lw_inode ?u = Some (lg_inode g')" "\<not> lw_locked ?u (lg_inode g')"
      "decode_lock_state c (lw_path ?u) (lw_data ?u (lg_inode g')) = Inr (Some (lg_state g'))"
    using kept(1) by (simp_all add: unlock_def holds_def)
  have w3: "w3 = ?u"
    using others_keep_crashed_lock [OF _ u(1,3)] assms(4) kept(3,4) by simp
  show ?thesis
  proof (intro conjI impI)
    show "acquire_lock c pt' pid' key' r' scope' phase' now' w2 = (Inl (lock_held now' key' (lg_state g')), w2)"
      using kept(1) by (intro acquire_refused) (auto simp: holds_def)
    show "acquire_lock c pt' pid' key' r' scope' phase' now' w3 = (Inl (lock_held now' key' (lg_state g')), w3)"
      if "r' \<noteq> r \<and> pid_is_alive pt' pid"
      unfolding w3 using kept(3,4) that by (intro acquire_refused [OF u(1,3)]) auto
    show "\<exists>g'' w4. acquire_lock c pt' pid' key' r' scope' phase' now' w3 = (Inr g'', w4)"
      if "\<not> pid_is_alive pt' pid \<and> enc c \<lparr>lk_task_key = key', lk_run_id = r', lk_scope = scope', lk_phase = phase',
          lk_pid = pid', lk_acquired_at = now', lk_updated_at = now'\<rparr> \<noteq> None"
      unfolding w3 using u kept(4) that
      by (auto simp: acquire_lock_def open_lock_file_def write_lock_state_to_file_def Let_def)
  qed (use kept in simp_all)
qed

definition any_lock_codec :: "lock_state \<Rightarrow> lock_state codec" where
  "any_lock_codec st = \<lparr>enc = (\<lambda>_. Some ''S''), dec = (\<lambda>_. Some st)\<rparr>"

definition new_lock_world :: lock_world where
  "new_lock_world = \<lparr>lw_path = [RootDir], lw_inode = None, lw_data = (\<lambda>_. []), lw_locked = (\<lambda>_. False), lw_fresh = 0\<rparr>"

definition sample_lock :: "string \<Rightarrow> u32 \<Rightarrow> lock_state" where
  "sample_lock r pid = \<lparr>lk_task_key = ''k'', lk_run_id = r, lk_scope = ''s'', lk_phase = ''p'', lk_pid = pid,
    lk_acquired_at = 1, lk_updated_at = 1\<rparr>"

definition all_alive :: process_table where
  "all_alive = \<lparr>pt_linux_state = (\<lambda>_. None), pt_kill = (\<lambda>_. KillOk)\<rparr>"

text \<open>
  The run \<open>r\<close> takes the lock at time 1 and beats at time 5 in phase \<open>q\<close>; another run tries at time 9; the
  holder crashes, the other run tries again at time 20 and is refused, and takes the lock once the
  process is gone.
\<close>

definition two_lock_states :: "lock_state \<Rightarrow> lock_state \<Rightarrow> lock_state codec" where
  "two_lock_states a b =
    \<lparr>enc = (\<lambda>st. Some (if st = a then ''A'' else ''B'')),
     dec = (\<lambda>raw. if raw = ''A'' @ [newline] then Some a else if raw = ''B'' @ [newline] then Some b else None)\<rparr>"

definition beaten_lock :: lock_state where
  "beaten_lock = (sample_lock ''r'' 7)\<lparr>lk_phase := ''q'', lk_updated_at := 5\<rparr>"

definition none_alive :: process_table where
  "none_alive = \<lparr>pt_linux_state = (\<lambda>_. None), pt_kill = (\<lambda>_. KillNoProcess)\<rparr>"

definition sample_lock_codec :: "lock_state codec" where
  "sample_lock_codec = two_lock_states (sample_lock ''r'' 7) beaten_lock"

definition beaten_world :: lock_world where
  "beaten_world = new_lock_world
    \<lparr>lw_inode := Some 0, lw_data := (\<lambda>_. [])(0 := ''B'' @ [newline]), lw_locked := (\<lambda>_. False)(0 := True), lw_fresh := 1\<rparr>"

lemma sample_lock_documents:
  "document_ok sample_lock_codec (sample_lock ''r'' 7)" "document_ok sample_lock_codec beaten_lock"
  by (simp_all add: document_ok_def sample_lock_codec_def two_lock_states_def beaten_lock_def sample_lock_def)

theorem live_holder_is_never_usurped_witness:
  "(let g = \<lparr>lg_inode = 0, lg_state = beaten_lock, lg_released = False\<rparr> in
    holds sample_lock_codec g beaten_world
    \<and> acquire_lock sample_lock_codec none_alive 9 ''k'' ''x'' ''s'' ''p'' 9 beaten_world
      = (Inl (lock_held 9 ''k'' beaten_lock), beaten_world)
    \<and> acquire_lock sample_lock_codec all_alive 9 ''k'' ''x'' ''s'' ''p'' 20 (unlock 0 beaten_world)
      = (Inl (lock_held 20 ''k'' beaten_lock), unlock 0 beaten_world)
    \<and> (\<exists>g' w. acquire_lock sample_lock_codec none_alive 9 ''k'' ''x'' ''s'' ''p'' 30 (unlock 0 beaten_world) = (Inr g', w)))"
proof -
  let ?c = sample_lock_codec
  define g0 where "g0 = \<lparr>lg_inode = 0, lg_state = sample_lock ''r'' 7, lg_released = False\<rparr>"
  define g where "g = \<lparr>lg_inode = 0, lg_state = beaten_lock, lg_released = False\<rparr>"
  define w1 where "w1 = new_lock_world
    \<lparr>lw_inode := Some 0, lw_data := (\<lambda>_. [])(0 := ''A'' @ [newline]), lw_locked := (\<lambda>_. False)(0 := True), lw_fresh := 1\<rparr>"
  have ne: "beaten_lock \<noteq> sample_lock ''r'' 7" by (simp add: beaten_lock_def sample_lock_def)
  have taken: "acquire_lock ?c all_alive 7 ''k'' ''r'' ''s'' ''p'' 1 new_lock_world = (Inr g0, w1)"
    by (simp add: acquire_lock_def open_lock_file_def new_lock_world_def decode_lock_state_def Let_def g0_def w1_def
        write_lock_state_to_file_def sample_lock_codec_def two_lock_states_def sample_lock_def)
  have "lock_heartbeat ?c g0 ''q'' 5 w1 = (Inr (), g, beaten_world)"
    using ne by (simp add: lock_heartbeat_def write_lock_state_to_file_def sample_lock_codec_def two_lock_states_def Let_def
        g_def g0_def w1_def beaten_world_def flip: beaten_lock_def)
  then have beat: "contends ?c (g0, w1) (g, beaten_world)"
    by (rule contends.beat) (simp add: g_def sample_lock_documents)
  have asked: "acquire_lock ?c all_alive 9 ''k'' ''x'' ''s'' ''p'' now v = (Inl (lock_held now ''k'' beaten_lock), v)"
    if "v = beaten_world \<or> v = unlock 0 beaten_world" for v now
    using that by (intro acquire_refused [of v 0])
      (auto simp: beaten_world_def new_lock_world_def unlock_def decode_lock_state_def parse_json_def sample_lock_codec_def
        two_lock_states_def pid_is_alive_def pid_is_alive_platform_def all_alive_def beaten_lock_def sample_lock_def)
  then have "contends ?c (g, beaten_world) (g, beaten_world)" by (blast intro: contends.attempt)
  with beat have calm: "(contends ?c)\<^sup>*\<^sup>* (g0, w1) (g, beaten_world)" by (meson converse_rtranclp_into_rtranclp r_into_rtranclp)
  note usurped = live_holder_is_never_usurped [OF taken]
  have doc: "document_ok ?c (lg_state g0)" by (simp add: g0_def sample_lock_documents)
  have alive: "pid_is_alive all_alive 7" "\<not> pid_is_alive none_alive 7"
    by (simp_all add: pid_is_alive_def pid_is_alive_platform_def all_alive_def none_alive_def)
  have "others_attempt ?c ''r'' 7 (unlock 0 beaten_world) (unlock 0 beaten_world)"
    using asked alive(1) by (intro others_attempt.other) auto
  then have first: "(others_attempt ?c ''r'' 7)\<^sup>*\<^sup>* (unlock (lg_inode g) beaten_world) (unlock 0 beaten_world)"
    by (simp add: g_def)
  have "acquire_lock ?c all_alive 9 ''k'' ''x'' ''s'' ''p'' 20 (unlock 0 beaten_world)
      = (Inl (lock_held 20 ''k'' beaten_lock), unlock 0 beaten_world)"
    using usurped [OF doc calm first, of all_alive 9 "''k''" "''x''" "''s''" "''p''" 20] alive by (simp add: g_def)
  moreover have "\<exists>g' w. acquire_lock ?c none_alive 9 ''k'' ''x'' ''s'' ''p'' 30 (unlock 0 beaten_world) = (Inr g', w)"
    using usurped [OF doc calm first, of none_alive 9 "''k''" "''x''" "''s''" "''p''" 30] alive
    by (simp add: sample_lock_codec_def two_lock_states_def)
  ultimately show ?thesis
    using usurped [OF doc calm first, of none_alive 9 "''k''" "''x''" "''s''" "''p''" 9] by (simp add: g_def)
qed

section \<open>A release in two steps\<close>

text \<open>
  Unlocking and removing are two calls. A second process of the same run that opens the file in
  between takes the lock on an inode that then loses its path, and a third process creates a new file
  and takes its lock too: two guards of one task at the same time.
\<close>

lemma release_race_gives_two_holders:
  fixes w0
  defines "c \<equiv> any_lock_codec (sample_lock ''r'' 7)"
  defines "w0 \<equiv> snd (acquire_lock c all_alive 7 ''k'' ''r'' ''s'' ''p'' 1 new_lock_world)"
  defines "w1 \<equiv> unlock 0 w0"
  defines "w2 \<equiv> snd (acquire_lock c all_alive 8 ''k'' ''r'' ''s'' ''p'' 2 w1)"
  defines "w3 \<equiv> remove_lock_path w2"
  shows "\<exists>g1 g2 w4. fst (acquire_lock c all_alive 8 ''k'' ''r'' ''s'' ''p'' 2 w1) = Inr g1
    \<and> acquire_lock c all_alive 9 ''k'' ''other'' ''s'' ''p'' 3 w3 = (Inr g2, w4)
    \<and> lg_inode g1 \<noteq> lg_inode g2 \<and> lw_locked w4 (lg_inode g1) \<and> lw_locked w4 (lg_inode g2)"
  by (simp add: assms acquire_lock_def open_lock_file_def new_lock_world_def decode_lock_state_def parse_json_def
      write_lock_state_to_file_def any_lock_codec_def sample_lock_def unlock_def remove_lock_path_def Let_def)

end
