(* ===== verification/Artifact_Policy.thy ===== *)
theory Artifact_Policy
  imports Prelude
begin

text \<open>
  Which paths of a workspace belong to the result (\<open>crates/deadreckon-core/src/artifact_policy.rs\<close>):
  the classification of a path by its components and the predicates for delivery, recovery,
  checkpoints and promotion, with the facts that make them consistent. A path below a classified
  path keeps at least its restriction.
\<close>

section \<open>Classification\<close>

datatype workspace_path_class = Deliverable | EvidenceOnly | LifecycleMetadata | RuntimeOnly

definition EVIDENCE_ONLY_ROOTS :: "string list" where
  "EVIDENCE_ONLY_ROOTS = [''.specstory'']"

definition DISPOSABLE_RUNTIME_ROOTS :: "string list" where
  "DISPOSABLE_RUNTIME_ROOTS = [''target'', ''node_modules'', ''.build'', ''.next'']"

definition is_disposable_runtime_root :: "string \<Rightarrow> bool" where
  "is_disposable_runtime_root name \<longleftrightarrow> list_ex (\<lambda>root. name = root) DISPOSABLE_RUNTIME_ROOTS"

text \<open>The loop of \<open>classify_workspace_path\<close> with its two flags; a runtime root returns at once.\<close>

fun classify_components :: "path \<Rightarrow> bool \<Rightarrow> bool \<Rightarrow> workspace_path_class" where
  "classify_components [] evidence_only lifecycle_metadata =
    (if evidence_only then EvidenceOnly else if lifecycle_metadata then LifecycleMetadata else Deliverable)"
| "classify_components (Normal name # p) evidence_only lifecycle_metadata =
    (if name = ''.git'' \<or> is_disposable_runtime_root name then RuntimeOnly
     else classify_components p
       (evidence_only \<or> list_ex (\<lambda>root. name = root) EVIDENCE_ONLY_ROOTS)
       (lifecycle_metadata \<or> name = ''.deadreckon''))"
| "classify_components (_ # p) evidence_only lifecycle_metadata =
    classify_components p evidence_only lifecycle_metadata"

definition classify_workspace_path :: "path \<Rightarrow> workspace_path_class" where
  "classify_workspace_path p = classify_components p False False"

text \<open>The loop of \<open>runtime_output_root\<close> with the path built so far.\<close>

fun runtime_root_from :: "path \<Rightarrow> path \<Rightarrow> path option" where
  "runtime_root_from acc [] = None"
| "runtime_root_from acc (Normal name # p) =
    (if is_disposable_runtime_root name then Some (acc @ [Normal name])
     else runtime_root_from (acc @ [Normal name]) p)"
| "runtime_root_from acc (_ # p) = runtime_root_from acc p"

definition runtime_output_root :: "path \<Rightarrow> path option" where
  "runtime_output_root p = runtime_root_from [] p"

definition is_deliverable_workspace_path :: "path \<Rightarrow> bool" where
  "is_deliverable_workspace_path p \<longleftrightarrow> classify_workspace_path p = Deliverable"

definition is_recoverable_workspace_path :: "path \<Rightarrow> bool" where
  "is_recoverable_workspace_path p \<longleftrightarrow> runtime_output_root p = None"

definition is_checkpointable_workspace_path :: "path \<Rightarrow> bool" where
  "is_checkpointable_workspace_path p =
    (if Normal ''.deadreckon'' \<in> set p then False
     else classify_workspace_path p \<in> {Deliverable, EvidenceOnly})"

definition is_promotable_workspace_path :: "path \<Rightarrow> bool" where
  "is_promotable_workspace_path p =
    (case classify_workspace_path p of
       Deliverable \<Rightarrow> True
     | LifecycleMetadata \<Rightarrow> p \<noteq> [] \<and> hd p = Normal ''.deadreckon''
     | EvidenceOnly \<Rightarrow> False
     | RuntimeOnly \<Rightarrow> False)"

definition DELIVERY_GIT_EXCLUDE_PATHSPECS :: "string list" where
  "DELIVERY_GIT_EXCLUDE_PATHSPECS =
    ['':(glob,exclude)**/.specstory'', '':(glob,exclude)**/.specstory/**'',
     '':(glob,exclude)**/.deadreckon'', '':(glob,exclude)**/.deadreckon/**'',
     '':(glob,exclude)**/target'', '':(glob,exclude)**/target/**'',
     '':(glob,exclude)**/node_modules'', '':(glob,exclude)**/node_modules/**'',
     '':(glob,exclude)**/.build'', '':(glob,exclude)**/.build/**'',
     '':(glob,exclude)**/.next'', '':(glob,exclude)**/.next/**'']"

section \<open>The class as a condition on the components\<close>

abbreviation has_component :: "string \<Rightarrow> path \<Rightarrow> bool" where
  "has_component name p \<equiv> Normal name \<in> set p"

definition disposable :: "path \<Rightarrow> bool" where
  "disposable p \<longleftrightarrow> (\<exists>name. is_disposable_runtime_root name \<and> has_component name p)"

lemma disposable_simps [simp]:
  "\<not> disposable []"
  "disposable (c # p) \<longleftrightarrow> (case c of Normal name \<Rightarrow> is_disposable_runtime_root name | _ \<Rightarrow> False) \<or> disposable p"
  by (auto simp: disposable_def split: component.splits)

lemma classify_components_eq:
  "classify_components p ev lc =
    (if has_component ''.git'' p \<or> disposable p then RuntimeOnly
     else if ev \<or> has_component ''.specstory'' p then EvidenceOnly
     else if lc \<or> has_component ''.deadreckon'' p then LifecycleMetadata
     else Deliverable)"
  by (induction p ev lc rule: classify_components.induct) (auto simp: EVIDENCE_ONLY_ROOTS_def)

lemma classify_workspace_path_eq:
  "classify_workspace_path p =
    (if has_component ''.git'' p \<or> disposable p then RuntimeOnly
     else if has_component ''.specstory'' p then EvidenceOnly
     else if has_component ''.deadreckon'' p then LifecycleMetadata
     else Deliverable)"
  by (simp add: classify_workspace_path_def classify_components_eq)

lemma deliverable_iff:
  "is_deliverable_workspace_path p \<longleftrightarrow>
    \<not> has_component ''.git'' p \<and> \<not> disposable p \<and> \<not> has_component ''.specstory'' p
    \<and> \<not> has_component ''.deadreckon'' p"
  by (simp add: is_deliverable_workspace_path_def classify_workspace_path_eq)

lemma runtime_root_from_None: "runtime_root_from acc p = None \<longleftrightarrow> \<not> disposable p"
  by (induction acc p rule: runtime_root_from.induct) auto

lemma recoverable_iff: "is_recoverable_workspace_path p \<longleftrightarrow> \<not> disposable p"
  by (simp add: is_recoverable_workspace_path_def runtime_output_root_def runtime_root_from_None)

lemma disposable_append [simp]: "disposable (p @ q) \<longleftrightarrow> disposable p \<or> disposable q"
  by (induction p) (auto split: component.splits)

text \<open>A deliverable path is promoted, checkpointed and recovered; only delivery narrows it further.\<close>

lemma deliverable_paths_are_kept:
  assumes "is_deliverable_workspace_path p"
  shows "is_promotable_workspace_path p" "is_checkpointable_workspace_path p" "is_recoverable_workspace_path p"
  using assms
  by (auto simp: is_promotable_workspace_path_def is_checkpointable_workspace_path_def recoverable_iff
      is_deliverable_workspace_path_def classify_workspace_path_eq split: if_splits)

text \<open>Nothing below a path is deliverable unless the path is.\<close>

lemma deliverable_prefix: "is_deliverable_workspace_path (p @ q) \<Longrightarrow> is_deliverable_workspace_path p"
  by (simp add: deliverable_iff)

text \<open>The root found is a prefix of a plain path, ends in the only disposable name it has, and never is Git state.\<close>

lemma runtime_root_from_prefix:
  "list_all is_normal p \<Longrightarrow> runtime_root_from acc p = Some r \<Longrightarrow>
    \<exists>pre name rest. p = pre @ Normal name # rest \<and> r = acc @ pre @ [Normal name]
      \<and> is_disposable_runtime_root name \<and> \<not> disposable pre"
proof (induction acc p rule: runtime_root_from.induct)
  case (2 acc name p)
  show ?case
  proof (cases "is_disposable_runtime_root name")
    case True
    then show ?thesis using "2.prems" by (intro exI [of _ "[]"] exI [of _ name] exI [of _ p]) auto
  next
    case False
    then obtain pre name' rest where "p = pre @ Normal name' # rest" "r = (acc @ [Normal name]) @ pre @ [Normal name']"
        "is_disposable_runtime_root name'" "\<not> disposable pre"
      using 2 by (auto simp: is_normal_def)
    then show ?thesis using False by (intro exI [of _ "Normal name # pre"] exI [of _ name'] exI [of _ rest]) auto
  qed
qed (auto simp: is_normal_def)

end
