(* ===== verification/Workspace_View.thy ===== *)
theory Workspace_View
  imports Artifact_Policy Campaign Ordered_Map
begin

text \<open>
  What the tamper check sees of a working tree (\<open>crates/deadreckon-core/src/tamper.rs\<close> and the
  inventory of \<open>artifacts.rs\<close>): the order of paths, lexical normalisation, the inventory of files, and
  the conventions by which a file is a test and a command a test runner.
\<close>

section \<open>The order of paths\<close>

text \<open>The derived order of \<open>std::path::Component\<close>; paths compare component by component.\<close>

fun component_key :: "component \<Rightarrow> nat \<times> string" where
  "component_key RootDir = (0, [])"
| "component_key CurDir = (1, [])"
| "component_key ParentDir = (2, [])"
| "component_key (Normal s) = (3, s)"

lemma component_key_inj: "component_key a = component_key b \<Longrightarrow> a = b"
  by (cases a; cases b) auto

instantiation component :: linorder
begin

definition less_eq_component :: "component \<Rightarrow> component \<Rightarrow> bool" where
  "less_eq_component a b \<longleftrightarrow> component_key a \<le> component_key b"

definition less_component :: "component \<Rightarrow> component \<Rightarrow> bool" where
  "less_component a b \<longleftrightarrow> component_key a < component_key b"

instance
  by standard (auto simp: less_eq_component_def less_component_def intro: component_key_inj)

end

section \<open>Views of the file tree\<close>

text \<open>
  The answers of the operating system while a tree is inspected: whether a path exists and is a
  directory, the regular files \<open>WalkDir\<close> reports below it, its directory entries, the text of a file
  that can be read as UTF-8, and the lossy rendering of a path.
\<close>

record tree_view =
  tv_exists :: "path \<Rightarrow> bool"
  tv_is_dir :: "path \<Rightarrow> bool"
  tv_walk :: "path \<Rightarrow> path list"
  tv_read_dir :: "path \<Rightarrow> path list res"
  tv_text :: "path \<Rightarrow> string option"
  tv_show :: "path \<Rightarrow> string"

definition inventory_files :: "tree_view \<Rightarrow> path \<Rightarrow> path list" where
  "inventory_files tv root_dir = (if \<not> tv_exists tv root_dir then [] else sort (tv_walk tv root_dir))"

section \<open>Lexical normalisation\<close>

text \<open>\<open>PathBuf::pop\<close>: nothing happens when there is no parent.\<close>

definition path_pop :: "path \<Rightarrow> path" where
  "path_pop p = (case path_parent p of None \<Rightarrow> p | Some q \<Rightarrow> q)"

fun normalize_step :: "path \<Rightarrow> component \<Rightarrow> path" where
  "normalize_step out CurDir = out"
| "normalize_step out (Normal part) = out @ [Normal part]"
| "normalize_step out ParentDir = path_pop out"
| "normalize_step out RootDir = out"

definition normalize_relative :: "path \<Rightarrow> path" where
  "normalize_relative p = foldl normalize_step [] p"

fun lexical_step :: "path \<Rightarrow> component \<Rightarrow> path" where
  "lexical_step out CurDir = out"
| "lexical_step out ParentDir = path_pop out"
| "lexical_step out RootDir = [RootDir]"
| "lexical_step out (Normal part) = out @ [Normal part]"

definition lexical_normalize :: "path \<Rightarrow> path" where
  "lexical_normalize p = foldl lexical_step [] p"

definition working_relative_path :: "path \<Rightarrow> path \<Rightarrow> path option" where
  "working_relative_path working_dir p =
    (let normalized_working = lexical_normalize working_dir;
         normalized_path = lexical_normalize p in
     map_option normalize_relative
       (if is_absolute normalized_path then strip_path_prefix normalized_path normalized_working
        else Some normalized_path))"

definition ignored_relative :: "path \<Rightarrow> bool" where
  "ignored_relative p \<longleftrightarrow> \<not> is_deliverable_workspace_path p"

text \<open>\<open>str::replace\<close> of a non-empty pattern: every occurrence from the left.\<close>

function replace_all :: "string \<Rightarrow> string \<Rightarrow> string \<Rightarrow> string" where
  "replace_all pat new s =
    (if pat \<noteq> [] \<and> prefix pat s then new @ replace_all pat new (drop (length pat) s)
     else case s of [] \<Rightarrow> [] | c # cs \<Rightarrow> c # replace_all pat new cs)"
  by pat_completeness auto
termination
proof (relation "measure (\<lambda>(pat, new, s). length s)")
  fix pat s :: string assume "pat \<noteq> [] \<and> prefix pat s"
  then have "0 < length pat" "length pat \<le> length s" by (auto dest: prefix_length_le)
  then have "length s - length pat < length s" by linarith
  then show "((pat, new, drop (length pat) s), pat, new, s) \<in> measure (\<lambda>(pat, new, s). length s)" for new :: string
    by simp
qed auto

declare replace_all.simps [simp del]

definition rendered_path :: "tree_view \<Rightarrow> path \<Rightarrow> path \<Rightarrow> string \<Rightarrow> path" where
  "rendered_path tv working_dir base value =
    (let rendered = replace_all ''{working_dir}'' (tv_show tv working_dir) value;
         p = components rendered
     in lexical_normalize (if is_absolute p then p else join_path base p))"

definition rendered_relative :: "tree_view \<Rightarrow> path \<Rightarrow> path \<Rightarrow> string \<Rightarrow> path option" where
  "rendered_relative tv working_dir base value = working_relative_path working_dir (rendered_path tv working_dir base value)"

section \<open>Inventories and test files\<close>

text \<open>A \<open>BTreeSet\<close> of paths as the sorted list of its members.\<close>

definition btree_set :: "'a::linorder list \<Rightarrow> 'a list" where
  "btree_set xs = sort (remdups xs)"

definition relative_inventory :: "tree_view \<Rightarrow> path \<Rightarrow> path list" where
  "relative_inventory tv root_dir =
    btree_set (filter (\<lambda>p. p \<noteq> [] \<and> \<not> ignored_relative p)
      (map normalize_relative
        (List.map_filter (\<lambda>p. strip_path_prefix p root_dir) (inventory_files tv root_dir))))"

definition path_extension :: "path \<Rightarrow> string option" where
  "path_extension p =
    Option.bind (file_name p) (\<lambda>name.
      let after = rev (takeWhile (\<lambda>c. c \<noteq> CHR ''.'') (rev name));
          before = take (length name - length after - 1) name in
      if CHR ''.'' \<in> set name \<and> before \<noteq> [] then Some after else None)"

definition is_rust_test_file :: "tree_view \<Rightarrow> path \<Rightarrow> path \<Rightarrow> bool" where
  "is_rust_test_file tv working_dir relative =
    (if path_extension relative \<noteq> Some ''rs'' then False
     else if Normal ''tests'' \<in> set relative then True
     else if (case file_name relative of None \<Rightarrow> False | Some name \<Rightarrow> suffix ''_test.rs'' name) then True
     else
       let body = (case tv_text tv (join_path working_dir relative) of None \<Rightarrow> [] | Some t \<Rightarrow> t)
       in sublist ''#[test]'' body \<or> sublist ''#[cfg(test)]'' body)"

definition is_conventional_test_file :: "path \<Rightarrow> bool" where
  "is_conventional_test_file relative =
    (if list_ex (\<lambda>c. c = Normal ''tests'' \<or> c = Normal ''test'' \<or> c = Normal ''spec'') relative then True
     else case file_name relative of
       None \<Rightarrow> False
     | Some name \<Rightarrow>
         suffix ''_test.go'' name \<or> sublist ''.test.'' name \<or> sublist ''.spec.'' name
         \<or> suffix ''Test.java'' name \<or> suffix ''Test.kt'' name \<or> suffix ''_test.exs'' name
         \<or> suffix ''Test.cs'' name \<or> suffix ''Tests.cs'' name \<or> suffix ''_test.py'' name
         \<or> starts_with name ''test_'' \<and> suffix ''.py'' name)"

text \<open>The loop \<open>rust_test_files\<close> and \<open>conventional_test_files\<close> share, with the test that differs.\<close>

definition test_files :: "(path \<Rightarrow> bool) \<Rightarrow> tree_view \<Rightarrow> path \<Rightarrow> path list" where
  "test_files is_test tv working_dir =
    sort (filter (\<lambda>r. \<not> ignored_relative r \<and> is_test r)
      (List.map_filter (working_relative_path working_dir) (inventory_files tv working_dir)))"

definition rust_test_files :: "tree_view \<Rightarrow> path \<Rightarrow> path list" where
  "rust_test_files tv working_dir = test_files (is_rust_test_file tv working_dir) tv working_dir"

definition conventional_test_files :: "tree_view \<Rightarrow> path \<Rightarrow> path list" where
  "conventional_test_files tv working_dir = test_files is_conventional_test_file tv working_dir"

definition program_basename :: "string \<Rightarrow> string" where
  "program_basename token = last (split_on (CHR ''/'') token)"

definition has_window :: "string \<Rightarrow> string \<Rightarrow> string list \<Rightarrow> bool" where
  "has_window a b tokens \<longleftrightarrow> sublist [a, b] tokens"

definition shell_program_is_test_runner :: "string \<Rightarrow> bool" where
  "shell_program_is_test_runner command =
    (let raw = split_whitespace command;
         tokens = (case raw of a # b # rest \<Rightarrow> if a = ''bundle'' \<and> b = ''exec'' then rest else raw | _ \<Rightarrow> raw)
     in case tokens of
       [] \<Rightarrow> False
     | first # rest \<Rightarrow>
        (let program = program_basename first;
             sub = (case rest of [] \<Rightarrow> [] | s # _ \<Rightarrow> s)
         in if program \<in> {''pytest'', ''rspec'', ''phpunit'', ''jest'', ''vitest''} then True
            else if program \<in> {''go'', ''npm'', ''pnpm'', ''yarn'', ''bun'', ''deno'', ''mix'', ''dotnet'', ''gradle'',
                ''gradlew'', ''make'', ''just'', ''task'', ''composer''} then sub = ''test''
            else if program = ''rake'' then length tokens = 1 \<or> ''test'' \<in> set tokens
            else if program = ''mvn'' then ''test'' \<in> set tokens
            else if program \<in> {''python'', ''python3''} then has_window ''-m'' ''pytest'' tokens
            else False))"

text \<open>\<open>trim_matches\<close> with a set of characters.\<close>

definition trim_matches :: "char list \<Rightarrow> string \<Rightarrow> string" where
  "trim_matches cs s = rev (dropWhile (\<lambda>c. c \<in> set cs) (rev (dropWhile (\<lambda>c. c \<in> set cs) s)))"

definition shell_punctuation :: "char list" where
  "shell_punctuation = [CHR 0x27, CHR 0x22] @ ''()[]{};,&|''"

definition command_existing_paths :: "tree_view \<Rightarrow> string \<Rightarrow> path \<Rightarrow> path \<Rightarrow> path list" where
  "command_existing_paths tv command working_dir cwd =
    btree_set (filter (\<lambda>r. \<not> ignored_relative r)
      (List.map_filter (\<lambda>token.
          let token = trim_matches shell_punctuation token in
          if token = [] \<or> starts_with token ''-'' then None
          else let candidate = rendered_path tv working_dir cwd token in
            if tv_exists tv candidate then working_relative_path working_dir candidate else None)
        (split_whitespace command)))"

section \<open>Facts\<close>

lemma set_btree_set [simp]: "set (btree_set xs) = set xs"
  by (simp add: btree_set_def)

lemma lexical_normalize_append:
  "list_all is_normal q \<Longrightarrow> lexical_normalize (p @ q) = lexical_normalize p @ q"
proof (induction q rule: rev_induct)
  case (snoc c q)
  then show ?case
    by (cases c) (simp_all add: lexical_normalize_def is_normal_def flip: append_assoc)
qed simp

lemma normalize_relative_normal: "list_all is_normal q \<Longrightarrow> normalize_relative q = q"
proof (induction q rule: rev_induct)
  case (snoc c q)
  then show ?case by (cases c) (simp_all add: normalize_relative_def is_normal_def)
qed (simp add: normalize_relative_def)

lemma normalized_is_normal: "list_all is_normal (normalize_relative p)"
proof (induction p rule: rev_induct)
  case (snoc c p)
  then show ?case
    by (cases c) (auto simp: normalize_relative_def path_pop_def path_parent_def is_normal_def
        dest: in_set_butlastD simp flip: Ball_set split: if_splits)
qed (simp add: normalize_relative_def)

text \<open>An absolute tree stays absolute, and files below it are named relative to it.\<close>

lemma lexical_normalize_absolute:
  assumes "is_absolute p" shows "is_absolute (lexical_normalize p)"
proof -
  have "is_absolute (foldl lexical_step out q)" if "is_absolute out" for out q
    using that
  proof (induction q arbitrary: out)
    case (Cons c q)
    then obtain q' where "out = RootDir # q'" by (cases out) (auto simp: is_absolute_def)
    then have "is_absolute (lexical_step out c)"
      by (cases c; cases q') (auto simp: is_absolute_def path_pop_def path_parent_def)
    then show ?case using Cons.IH by simp
  qed simp
  moreover obtain q where "p = RootDir # q" using assms by (cases p) (auto simp: is_absolute_def)
  ultimately show ?thesis by (simp add: lexical_normalize_def is_absolute_def)
qed

lemma working_relative_below:
  assumes "is_absolute d" "list_all is_normal r"
  shows "working_relative_path d (d @ r) = Some r"
proof -
  have "lexical_normalize (d @ r) = lexical_normalize d @ r" using assms(2) by (rule lexical_normalize_append)
  moreover have "is_absolute (lexical_normalize d @ r)"
    using lexical_normalize_absolute [OF assms(1)] by (auto simp: is_absolute_def)
  ultimately show ?thesis
    using normalize_relative_normal [OF assms(2)]
    by (simp add: working_relative_path_def strip_path_prefix_def)
qed

text \<open>
  What \<open>WalkDir\<close> documents: the paths it reports are the directory followed by plain components.
\<close>

definition walk_ok :: "tree_view \<Rightarrow> path \<Rightarrow> bool" where
  "walk_ok tv d \<longleftrightarrow> list_all (\<lambda>p. prefix d p \<and> list_all is_normal (drop (length d) p)) (tv_walk tv d)"

definition holds_file :: "tree_view \<Rightarrow> path \<Rightarrow> path \<Rightarrow> bool" where
  "holds_file tv d r \<longleftrightarrow> tv_exists tv d \<and> d @ r \<in> set (tv_walk tv d)"

lemma set_map_filter_eq: "set (List.map_filter f xs) = {y. \<exists>x \<in> set xs. f x = Some y}"
  by (force simp: List.map_filter_def)

lemma set_inventory_files: "set (inventory_files tv d) = (if tv_exists tv d then set (tv_walk tv d) else {})"
  by (simp add: inventory_files_def)

lemma walk_relative:
  assumes "walk_ok tv d" "p \<in> set (tv_walk tv d)"
  shows "\<exists>q. strip_path_prefix p d = Some q \<and> p = d @ q \<and> normalize_relative q = q"
proof -
  have "prefix d p" "list_all is_normal (drop (length d) p)" using assms by (auto simp: walk_ok_def list_all_iff)
  then show ?thesis using normalize_relative_normal by (auto simp: strip_path_prefix_def prefix_def)
qed

lemma relative_inventory_iff:
  assumes "walk_ok tv d" "r \<noteq> []" "is_deliverable_workspace_path r"
  shows "r \<in> set (relative_inventory tv d) \<longleftrightarrow> holds_file tv d r"
proof -
  have stripped: "strip_path_prefix (d @ r) d = Some r" by (simp add: strip_path_prefix_def)
  have "r \<in> normalize_relative ` {q. \<exists>p \<in> set (tv_walk tv d). strip_path_prefix p d = Some q}
      \<longleftrightarrow> d @ r \<in> set (tv_walk tv d)" (is "?l \<longleftrightarrow> ?r")
  proof
    assume ?l
    then obtain p q where "p \<in> set (tv_walk tv d)" "strip_path_prefix p d = Some q" "r = normalize_relative q" by blast
    then show ?r using walk_relative [OF assms(1)] by fastforce
  next
    assume w: ?r
    then have "normalize_relative r = r" using walk_relative [OF assms(1)] by fastforce
    with w stripped show ?l by (intro image_eqI [of _ _ r]) auto
  qed
  then show ?thesis
    using assms(2,3) by (simp add: relative_inventory_def set_map_filter_eq set_inventory_files holds_file_def ignored_relative_def)
qed

lemma test_files_below:
  assumes "is_absolute d" "list_all is_normal r" "is_deliverable_workspace_path r" "holds_file tv d r" "is_test r"
  shows "r \<in> set (test_files is_test tv d)"
  using assms working_relative_below [OF assms(1,2)]
  by (auto simp: test_files_def holds_file_def set_inventory_files ignored_relative_def set_map_filter_eq)

end
