(* ===== verification/Tamper.thy ===== *)
theory Tamper
  imports Workspace_View
begin

text \<open>
  Whether an agent tampered with its own acceptance checks (\<open>crates/deadreckon-core/src/tamper.rs\<close>).
  The files a run touched come from its provenance rows and from a comparison with a baseline snapshot;
  every check covers some files; the verdict follows from covered files that were touched, from
  suppressed exit codes in the checks, and from edits of the acceptance file itself.
\<close>

section \<open>Data\<close>

datatype acceptance_check =
    CargoTest (ck_args: "string list") (ck_must_pass: bool)
  | FileExists (ck_path: string) (ck_must_pass: bool)
  | ContentMatch (ck_path: string) (ck_pattern: string) (ck_must_pass: bool)
  | BuildSuccess (ck_build_cwd: string) (ck_must_pass: bool)
  | Shell (ck_command: string) (ck_cwd: "string option") (ck_must_pass: bool)

datatype touched_change = TModified | TDeleted | TCreated

datatype coverage_classification = CTest | CTarget | CBuild | CUnknown

instantiation coverage_classification :: linorder
begin

fun coverage_rank :: "coverage_classification \<Rightarrow> nat" where
  "coverage_rank CTest = 0"
| "coverage_rank CTarget = 1"
| "coverage_rank CBuild = 2"
| "coverage_rank CUnknown = 3"

definition less_eq_coverage_classification :: "coverage_classification \<Rightarrow> coverage_classification \<Rightarrow> bool" where
  "less_eq_coverage_classification a b \<longleftrightarrow> coverage_rank a \<le> coverage_rank b"

definition less_coverage_classification :: "coverage_classification \<Rightarrow> coverage_classification \<Rightarrow> bool" where
  "less_coverage_classification a b \<longleftrightarrow> coverage_rank a < coverage_rank b"

instance
proof
  fix a b :: coverage_classification
  show "a \<le> b \<Longrightarrow> b \<le> a \<Longrightarrow> a = b"
    by (cases a; cases b) (auto simp: less_eq_coverage_classification_def)
qed (auto simp: less_eq_coverage_classification_def less_coverage_classification_def)

end

record suppression_finding =
  sf_check_kind :: string
  sf_command :: string
  sf_pattern :: string

record check_coverage_item =
  cc_path :: path
  cc_by_check :: string
  cc_classification :: coverage_classification
  cc_directory :: bool

record covered_file_touch =
  ct_path :: string
  ct_change :: touched_change
  ct_by_check :: string
  ct_classification :: coverage_classification

record acceptance_tamper =
  tm_schema_version :: u32
  tm_run_id :: string
  tm_evaluated_at :: timestamp
  tm_verdict :: acceptance_tamper_verdict
  tm_spec_modified :: bool
  tm_lint_findings :: "suppression_finding list"
  tm_covered_files_touched :: "covered_file_touch list"
  tm_caveats :: "string list"
  tm_refusal_reasons :: "string list"

record provenance_record =
  pv_timestamp :: timestamp
  pv_prompt_id :: string
  pv_model :: string
  pv_tool_call_id :: string
  pv_session_id :: string
  pv_files :: "path list"

record operator_sendback_record =
  sb_note :: string
  sb_parent_job_id :: string
  sb_new_job_id :: string
  sb_at :: timestamp

datatype provenance_entry = OperatorSendback operator_sendback_record | Turn provenance_record

section \<open>The record on disk\<close>

definition acceptance_tamper_path_for_run_root :: "path \<Rightarrow> path" where
  "acceptance_tamper_path_for_run_root run_dir = join (join run_dir ''proofs'') ''acceptance-tamper.json''"

definition read_acceptance_tamper_for_run_root ::
    "acceptance_tamper codec \<Rightarrow> path \<Rightarrow> acceptance_tamper option io" where
  "read_acceptance_tamper_for_run_root c run_dir =
    (let p = acceptance_tamper_path_for_run_root run_dir in
     io_bind (fs_exists p) (\<lambda>found.
     if \<not> found then io_return None
     else io_bind (fs_read p) (\<lambda>raw. io_bind (io_lift (parse_json c p raw)) (\<lambda>t. io_return (Some t)))))"

text \<open>\<open>fs::write\<close> truncates the file and writes the rendering without a final line feed.\<close>

definition fs_write :: "path \<Rightarrow> bytes \<Rightarrow> unit io" where
  "fs_write p b = (\<lambda>s. case write_fault s p of Some k \<Rightarrow> (Inl (Io p k), s) | None \<Rightarrow> (Inr (), put_file p b s))"

definition write_acceptance_tamper :: "acceptance_tamper codec \<Rightarrow> path \<Rightarrow> acceptance_tamper \<Rightarrow> unit io" where
  "write_acceptance_tamper c run_dir tamper =
    (let p = acceptance_tamper_path_for_run_root run_dir in
     io_bind (io_lift (ok_or (enc c tamper) (Json p))) (\<lambda>b. fs_write p b))"

section \<open>Baselines\<close>

definition tamper_baseline_path_for_run_root :: "path \<Rightarrow> path" where
  "tamper_baseline_path_for_run_root run_dir = join run_dir ''gate/baseline''"

definition write_tamper_baseline :: "tree_view \<Rightarrow> path \<Rightarrow> path \<Rightarrow> unit io" where
  "write_tamper_baseline tv run_dir snapshot =
    fs_write (tamper_baseline_path_for_run_root run_dir) (tv_show tv snapshot)"

definition snapshot_turn :: "path \<Rightarrow> u32 option" where
  "snapshot_turn p = Option.bind (file_name p) (\<lambda>name. Option.bind (strip_prefix name ''turn-'') parse_u32)"

definition earliest_snapshot_dir :: "tree_view \<Rightarrow> path \<Rightarrow> path option res" where
  "earliest_snapshot_dir tv run_dir =
    (let snapshots = join run_dir ''snapshots'' in
     if \<not> tv_is_dir tv snapshots then Inr None
     else res_bind (tv_read_dir tv snapshots) (\<lambda>entries.
       case sort_key fst (List.map_filter (\<lambda>p. map_option (\<lambda>turn. (turn, p)) (snapshot_turn p)) entries) of
         [] \<Rightarrow> Inr None
       | (turn, p) # _ \<Rightarrow> Inr (Some p)))"

definition baseline_snapshot_dir :: "tree_view \<Rightarrow> path \<Rightarrow> path option io" where
  "baseline_snapshot_dir tv run_dir =
    io_bind (fs_read_optional (tamper_baseline_path_for_run_root run_dir)) (\<lambda>found.
    case found of
      Some content \<Rightarrow>
        (let target = components (trim content) in
         if tv_is_dir tv target then io_return (Some target)
         else io_throw (InvalidInput (TamperBaselineGone target)))
    | None \<Rightarrow> io_lift (earliest_snapshot_dir tv run_dir))"

section \<open>Touched files\<close>

definition entry_files :: "provenance_entry \<Rightarrow> path list" where
  "entry_files e = (case e of OperatorSendback _ \<Rightarrow> [] | Turn r \<Rightarrow> pv_files r)"

definition provenance_files :: "provenance_entry codec \<Rightarrow> path \<Rightarrow> path list io" where
  "provenance_files c run_dir =
    (let p = join run_dir ''provenance.jsonl'' in
     io_bind (fs_exists p) (\<lambda>found.
     if \<not> found then io_return []
     else io_bind (fs_read p) (\<lambda>raw.
       io_bind (io_lift (map_res (parse_json c p) (filter (\<lambda>l. \<not> blank l) (str_lines raw)))) (\<lambda>entries.
       io_return (concat (map entry_files entries))))))"

definition spec_modified :: "provenance_entry codec \<Rightarrow> path \<Rightarrow> path \<Rightarrow> bool io" where
  "spec_modified c run_dir working_dir =
    (let run_spec = join run_dir ''acceptance.yaml'';
         project_spec = join (join working_dir ''.deadreckon'') ''acceptance.yaml'' in
     io_bind (provenance_files c run_dir) (\<lambda>fs.
     io_return (list_ex (\<lambda>p. p = run_spec \<or> p = project_spec
       \<or> suffix [Normal ''acceptance.yaml''] p \<and> Normal ''.deadreckon'' \<in> set p) fs)))"

type_synonym touched = "(path \<times> touched_change) list"

text \<open>One provenance file: its change follows from the two inventories.\<close>

definition touch_file :: "path \<Rightarrow> path list \<Rightarrow> path list \<Rightarrow> path \<Rightarrow> touched \<Rightarrow> touched" where
  "touch_file working_dir first_inventory final_inventory p touched =
    (case working_relative_path working_dir p of
       None \<Rightarrow> touched
     | Some relative \<Rightarrow>
        (if ignored_relative relative then touched
         else btree_map_insert relative
           (if relative \<notin> set final_inventory then TDeleted
            else if relative \<in> set first_inventory then TModified
            else TCreated) touched))"

definition touch_deleted :: "path \<Rightarrow> touched \<Rightarrow> touched" where
  "touch_deleted deleted touched =
    (if \<not> ignored_relative deleted then btree_map_insert deleted TDeleted touched else touched)"

definition touched_files :: "tree_view \<Rightarrow> provenance_entry codec \<Rightarrow> path \<Rightarrow> path \<Rightarrow> touched io" where
  "touched_files tv c run_dir working_dir =
    io_bind (baseline_snapshot_dir tv run_dir) (\<lambda>first_snapshot.
    let first_inventory = (case first_snapshot of Some snapshot \<Rightarrow> relative_inventory tv snapshot | None \<Rightarrow> []);
        final_inventory = relative_inventory tv working_dir in
    io_bind (provenance_files c run_dir) (\<lambda>fs.
    let touched = fold (touch_file working_dir first_inventory final_inventory) fs [] in
    io_return (fold touch_deleted (filter (\<lambda>p. p \<notin> set final_inventory) first_inventory) touched)))"

section \<open>Coverage\<close>

definition coverage_item :: "string \<Rightarrow> coverage_classification \<Rightarrow> bool \<Rightarrow> path \<Rightarrow> check_coverage_item" where
  "coverage_item by_check cls directory p =
    \<lparr>cc_path = p, cc_by_check = by_check, cc_classification = cls, cc_directory = directory\<rparr>"

definition coverage_of_check :: "tree_view \<Rightarrow> path \<Rightarrow> acceptance_check \<Rightarrow> check_coverage_item list" where
  "coverage_of_check tv working_dir check =
    (case check of
       FileExists p _ \<Rightarrow>
         (case rendered_relative tv working_dir working_dir p of
            Some r \<Rightarrow> [coverage_item ''file_exists'' CTarget False r] | None \<Rightarrow> [])
     | ContentMatch p _ _ \<Rightarrow>
         (case rendered_relative tv working_dir working_dir p of
            Some r \<Rightarrow> [coverage_item ''content_match'' CTarget False r] | None \<Rightarrow> [])
     | BuildSuccess cwd _ \<Rightarrow>
         (case rendered_relative tv working_dir working_dir cwd of
            Some r \<Rightarrow> [coverage_item ''build_success'' CBuild True r] | None \<Rightarrow> [])
     | CargoTest _ _ \<Rightarrow> map (coverage_item ''cargo_test'' CTest False) (rust_test_files tv working_dir)
     | Shell command cwd _ \<Rightarrow>
         (let cwd_path = (case cwd of Some cwd \<Rightarrow> rendered_path tv working_dir working_dir cwd | None \<Rightarrow> working_dir) in
          map (\<lambda>p. coverage_item ''shell'' (if is_rust_test_file tv working_dir p then CTest else CUnknown) False p)
            (command_existing_paths tv command working_dir cwd_path)
          @ (if shell_program_is_test_runner command then
               map (coverage_item ''shell'' CTest False) (conventional_test_files tv working_dir)
             else [])))"

definition sort_coverage :: "check_coverage_item list \<Rightarrow> check_coverage_item list" where
  "sort_coverage cs = remdups_adj (sort_key (\<lambda>c. (cc_path c, cc_by_check c, cc_classification c)) cs)"

definition check_coverage :: "tree_view \<Rightarrow> acceptance_check list \<Rightarrow> path \<Rightarrow> check_coverage_item list" where
  "check_coverage tv checks working_dir =
    sort_coverage (concat (map (coverage_of_check tv working_dir) checks))"

definition coverage_matches :: "check_coverage_item \<Rightarrow> path \<Rightarrow> bool" where
  "coverage_matches c touched =
    (if cc_directory c then
       cc_path c = [] \<or> cc_path c = [CurDir] \<or> touched = cc_path c \<or> prefix (cc_path c) touched
     else touched = cc_path c)"

definition covered_touches :: "tree_view \<Rightarrow> check_coverage_item list \<Rightarrow> touched \<Rightarrow> covered_file_touch list" where
  "covered_touches tv coverage touched =
    map snd (btree_of (concat (map (\<lambda>item.
      map (\<lambda>(p, change). ((p, cc_by_check item, cc_classification item),
          \<lparr>ct_path = tv_show tv p, ct_change = change, ct_by_check = cc_by_check item,
           ct_classification = cc_classification item\<rparr>))
        (filter (\<lambda>(p, change). coverage_matches item p) touched)) coverage)))"

section \<open>Suppressed checks\<close>

text \<open>Regular expressions of the source, with the backslash written as a tilde.\<close>

definition regex_text :: "string \<Rightarrow> string" where
  "regex_text s = map (\<lambda>c. if c = CHR ''~'' then CHR 0x5C else c) s"

definition suppression_rules :: "(string \<times> string) list" where
  "suppression_rules =
    [(''|| exit 0'', regex_text ''(?i)~|~|~s*exit~s+0~b''),
     (''|| true'', regex_text ''(?i)~|~|~s*true~b''),
     (''; true'', regex_text ''(?i);~s*true~b''),
     (''&& true'', regex_text ''(?i)&&~s*true~b''),
     (''| true'', regex_text ''(?i)(^|[^|])~|~s*true~b''),
     (''|| :'', regex_text ''(?i)~|~|~s*:(~s|$|[;&|])''),
     (''--no-verify'', regex_text ''(?i)(^|~s)--no-verify(~s|$)''),
     (''--exit-zero'', regex_text ''(?i)(^|~s)--exit-zero(~s|$)''),
     (''--passWithNoTests'', regex_text ''(?i)(^|~s)--passwithnotests(~s|$)''),
     (''trailing exit 0'', regex_text ''(?i)(^|[;&|]|~s)exit~s+0~s*$'')]"

text \<open>\<open>rx\<close> is the regex engine: no answer for an expression that does not compile.\<close>

definition lint_suppressions :: "(string \<Rightarrow> string \<Rightarrow> bool option) \<Rightarrow> string \<Rightarrow> string \<Rightarrow> suppression_finding list" where
  "lint_suppressions rx check_kind command =
    List.map_filter (\<lambda>(pattern, regex).
      if rx regex command = Some True then
        Some \<lparr>sf_check_kind = check_kind, sf_command = command, sf_pattern = pattern\<rparr>
      else None) suppression_rules"

definition lint_check :: "(string \<Rightarrow> string \<Rightarrow> bool option) \<Rightarrow> acceptance_check \<Rightarrow> suppression_finding list" where
  "lint_check rx check =
    (case check of
       Shell command _ _ \<Rightarrow> lint_suppressions rx ''shell'' command
     | CargoTest args _ \<Rightarrow> if args \<noteq> [] then lint_suppressions rx ''cargo_test'' (join_with '' '' args) else []
     | _ \<Rightarrow> [])"

definition lint_checks :: "(string \<Rightarrow> string \<Rightarrow> bool option) \<Rightarrow> acceptance_check list \<Rightarrow> suppression_finding list" where
  "lint_checks rx checks = concat (map (lint_check rx) checks)"

section \<open>The verdict\<close>

fun change_verb :: "touched_change \<Rightarrow> string" where
  "change_verb TModified = ''modified''"
| "change_verb TDeleted = ''deleted''"
| "change_verb TCreated = ''created''"

fun classification_label :: "coverage_classification \<Rightarrow> string" where
  "classification_label CTest = ''test''"
| "classification_label CTarget = ''target''"
| "classification_label CBuild = ''build''"
| "classification_label CUnknown = ''unknown''"

definition guarded_class :: "covered_file_touch \<Rightarrow> bool" where
  "guarded_class t \<longleftrightarrow> ct_classification t = CTest \<or> ct_classification t = CTarget"

definition classify ::
    "bool \<Rightarrow> suppression_finding list \<Rightarrow> covered_file_touch list
      \<Rightarrow> acceptance_tamper_verdict \<times> string list \<times> string list" where
  "classify modified lint_findings touches =
    (let refusal_reasons =
          (if modified then [''agent modified acceptance.yaml this run''] else [])
          @ map (\<lambda>f. ''suppression pattern '' @ [CHR 0x27] @ sf_pattern f @ [CHR 0x27] @ '' in ''
              @ sf_check_kind f @ '' check'') lint_findings
          @ map (\<lambda>t. ''agent deleted '' @ classification_label (ct_classification t) @ '' file '' @ ct_path t
              @ '' this run'') (filter (\<lambda>t. ct_change t = TDeleted \<and> guarded_class t) touches)
     in if refusal_reasons \<noteq> [] then (TamperRefuse, [], refusal_reasons)
        else
          let caveats = map (\<lambda>t. ''agent '' @ change_verb (ct_change t) @ '' ''
              @ classification_label (ct_classification t) @ '' file '' @ ct_path t @ '' this run'')
              (filter guarded_class touches)
          in if caveats \<noteq> [] then (TamperCaveat, caveats, []) else (TamperClean, [], []))"

definition is_cargo_test :: "acceptance_check \<Rightarrow> bool" where
  "is_cargo_test check = (case check of CargoTest _ _ \<Rightarrow> True | _ \<Rightarrow> False)"

definition is_runner_check :: "acceptance_check \<Rightarrow> bool" where
  "is_runner_check check = (case check of Shell command _ _ \<Rightarrow> shell_program_is_test_runner command | _ \<Rightarrow> False)"

text \<open>The tests of the baseline count as covered too, so that a deleted test is still seen.\<close>

definition baseline_coverage ::
    "tree_view \<Rightarrow> path \<Rightarrow> bool \<Rightarrow> string \<Rightarrow> (tree_view \<Rightarrow> path \<Rightarrow> path list) \<Rightarrow> check_coverage_item list io" where
  "baseline_coverage tv run_dir wanted by_check tests =
    (if \<not> wanted then io_return []
     else io_bind (baseline_snapshot_dir tv run_dir) (\<lambda>found.
       io_return (case found of
         None \<Rightarrow> []
       | Some snapshot \<Rightarrow> map (coverage_item by_check CTest False) (tests tv snapshot))))"

definition tamper_report ::
    "string \<Rightarrow> timestamp \<Rightarrow> bool \<Rightarrow> suppression_finding list \<Rightarrow> covered_file_touch list \<Rightarrow> acceptance_tamper" where
  "tamper_report run_id now modified findings touches =
    (let (verdict, caveats, reasons) = classify modified findings touches in
     \<lparr>tm_schema_version = 1, tm_run_id = run_id, tm_evaluated_at = now, tm_verdict = verdict,
      tm_spec_modified = modified, tm_lint_findings = findings, tm_covered_files_touched = touches,
      tm_caveats = caveats, tm_refusal_reasons = reasons\<rparr>)"

definition evaluate ::
    "tree_view \<Rightarrow> provenance_entry codec \<Rightarrow> (string \<Rightarrow> string \<Rightarrow> bool option) \<Rightarrow> timestamp
      \<Rightarrow> string \<Rightarrow> path \<Rightarrow> path \<Rightarrow> acceptance_check list \<Rightarrow> acceptance_tamper io" where
  "evaluate tv c rx now run_id run_dir working_dir checks =
    io_bind (touched_files tv c run_dir working_dir) (\<lambda>touched.
    io_bind (spec_modified c run_dir working_dir) (\<lambda>modified.
    let coverage = check_coverage tv checks working_dir in
    io_bind (baseline_coverage tv run_dir (list_ex is_cargo_test checks) ''cargo_test'' rust_test_files) (\<lambda>rust.
    io_bind (baseline_coverage tv run_dir (list_ex is_runner_check checks) ''shell'' conventional_test_files) (\<lambda>conventional.
    let coverage = sort_coverage (coverage @ rust @ conventional);
        touches = covered_touches tv coverage touched;
        findings = lint_checks rx checks in
    io_return (tamper_report run_id now modified findings touches)))))"

section \<open>What was deleted is seen\<close>

lemma sorted_touch_file: "keys_sorted m \<Longrightarrow> keys_sorted (touch_file wd ini fin p m)"
  by (simp add: touch_file_def btree_map_insert_sorted split: option.splits)

lemma sorted_touch_files: "keys_sorted m \<Longrightarrow> keys_sorted (fold (touch_file wd ini fin) ps m)"
  by (induction ps arbitrary: m) (simp_all add: sorted_touch_file)

lemma fold_touch_deleted:
  "keys_sorted m \<Longrightarrow> keys_sorted (fold touch_deleted ds m)
    \<and> map_of (fold touch_deleted ds m) = (\<lambda>p. if p \<in> set ds \<and> \<not> ignored_relative p then Some TDeleted else map_of m p)"
proof (induction ds arbitrary: m)
  case (Cons d ds)
  have "keys_sorted (touch_deleted d m)"
      "map_of (touch_deleted d m) = (\<lambda>p. if p = d \<and> \<not> ignored_relative p then Some TDeleted else map_of m p)"
    using Cons.prems by (auto simp: touch_deleted_def btree_map_insert_sorted btree_map_insert_map_of)
  then show ?case using Cons.IH [of "touch_deleted d m"] by (auto simp: fun_eq_iff)
qed simp

lemma readonly_baseline [intro!]: "readonly (baseline_snapshot_dir tv run_dir)"
  unfolding baseline_snapshot_dir_def Let_def by (intro readonly_bind allI) (auto split: option.splits)

lemma readonly_provenance [intro!]: "readonly (provenance_files c run_dir)"
  unfolding provenance_files_def Let_def by (intro readonly_bind allI) (auto intro!: readonly_bind)

lemma readonly_tamper_reads [intro!]:
  "readonly (spec_modified c run_dir wd)" "readonly (touched_files tv c run_dir wd)"
  "readonly (baseline_coverage tv run_dir wanted k tests)"
  unfolding spec_modified_def touched_files_def baseline_coverage_def Let_def by (auto intro!: readonly_bind)

lemma touched_files_deleted:
  assumes "touched_files tv c run_dir wd s = (Inr touched, s')"
    "baseline_snapshot_dir tv run_dir s = (Inr (Some snap), s)"
    "walk_ok tv snap" "walk_ok tv wd" "r \<noteq> []" "is_deliverable_workspace_path r"
    "holds_file tv snap r" "\<not> holds_file tv wd r"
  shows "keys_sorted touched \<and> (r, TDeleted) \<in> set touched"
proof -
  let ?ini = "relative_inventory tv snap" and ?fin = "relative_inventory tv wd"
  obtain ps where touched: "touched = fold touch_deleted (filter (\<lambda>p. p \<notin> set ?fin) ?ini) (fold (touch_file wd ?ini ?fin) ps [])"
    using assms(1,2) by (auto simp: touched_files_def Let_def result_simps)
  have base: "keys_sorted (fold (touch_file wd ?ini ?fin) ps [])" by (rule sorted_touch_files) simp
  have "r \<in> set ?ini" "r \<notin> set ?fin"
    using assms(5-8) relative_inventory_iff [OF assms(3)] relative_inventory_iff [OF assms(4)] by auto
  then have "map_of touched r = Some TDeleted"
    using fold_touch_deleted [OF base] assms(6) by (simp add: touched ignored_relative_def)
  then have "(r, TDeleted) \<in> set touched" by (rule map_of_SomeD)
  moreover have "keys_sorted touched" using fold_touch_deleted [OF base] by (simp add: touched)
  ultimately show ?thesis by simp
qed

lemma covered_touches_shows:
  assumes "item \<in> set coverage" "(p, change) \<in> set touched" "keys_sorted touched" "coverage_matches item p"
  shows "\<exists>t \<in> set (covered_touches tv coverage touched).
    ct_change t = change \<and> ct_classification t = cc_classification item"
proof -
  define kvs where "kvs = concat (map (\<lambda>item.
      map (\<lambda>(p, change). ((p, cc_by_check item, cc_classification item),
          \<lparr>ct_path = tv_show tv p, ct_change = change, ct_by_check = cc_by_check item,
           ct_classification = cc_classification item\<rparr>))
        (filter (\<lambda>(p, change). coverage_matches item p) touched)) coverage)"
  let ?k = "(p, cc_by_check item, cc_classification item)"
  have unique: "ct_change v = change \<and> ct_classification v = cc_classification item" if "(?k, v) \<in> set kvs" for v
  proof -
    from that obtain change' where "(p, change') \<in> set touched" "ct_change v = change'"
        "ct_classification v = cc_classification item"
      by (auto simp: kvs_def)
    moreover have "distinct (map fst touched)" using assms(3) by (simp add: strict_sorted_iff)
    ultimately show ?thesis using assms(2) eq_key_imp_eq_value by metis
  qed
  have "?k \<in> fst ` set (rev kvs)" using assms(1,2,4) by (force simp: kvs_def)
  then obtain v where "map_of (rev kvs) ?k = Some v" by (metis domD dom_map_of_conv_image_fst)
  then have "(?k, v) \<in> set (btree_of kvs)" by (simp add: map_of_SomeD flip: btree_of_map_of)
  then have "v \<in> set (covered_touches tv coverage touched)" "(?k, v) \<in> set kvs"
    using btree_of_values by (force simp: covered_touches_def kvs_def)+
  then show ?thesis using unique by blast
qed

lemma set_sort_coverage [simp]: "set (sort_coverage cs) = set cs"
  by (simp add: sort_coverage_def)

lemma classify_refuses:
  "fst (classify m fs ts) = TamperRefuse \<longleftrightarrow>
    m \<or> fs \<noteq> [] \<or> (\<exists>t \<in> set ts. ct_change t = TDeleted \<and> guarded_class t)"
  "fst (classify m fs ts) = TamperClean \<longleftrightarrow> \<not> m \<and> fs = [] \<and> \<not> (\<exists>t \<in> set ts. guarded_class t)"
  by (auto simp: classify_def Let_def filter_empty_conv)

lemma evaluate_cases:
  assumes "evaluate tv c rx now run_id run_dir wd checks s = (Inr t, s')"
  obtains touched rust conventional where
    "touched_files tv c run_dir wd s = (Inr touched, s)"
    "spec_modified c run_dir wd s = (Inr (tm_spec_modified t), s)"
    "baseline_coverage tv run_dir (list_ex is_cargo_test checks) ''cargo_test'' rust_test_files s = (Inr rust, s)"
    "baseline_coverage tv run_dir (list_ex is_runner_check checks) ''shell'' conventional_test_files s = (Inr conventional, s)"
    "tm_covered_files_touched t = covered_touches tv (sort_coverage (check_coverage tv checks wd @ rust @ conventional)) touched"
    "tm_lint_findings t = lint_checks rx checks" "s' = s"
    "classify (tm_spec_modified t) (tm_lint_findings t) (tm_covered_files_touched t)
      = (tm_verdict t, tm_caveats t, tm_refusal_reasons t)"
proof -
  from assms obtain touched s1 m s2 rust s3 conventional s4 where
      r: "touched_files tv c run_dir wd s = (Inr touched, s1)" "spec_modified c run_dir wd s1 = (Inr m, s2)"
      "baseline_coverage tv run_dir (list_ex is_cargo_test checks) ''cargo_test'' rust_test_files s2 = (Inr rust, s3)"
      "baseline_coverage tv run_dir (list_ex is_runner_check checks) ''shell'' conventional_test_files s3 = (Inr conventional, s4)"
    and t: "t = tamper_report run_id now m (lint_checks rx checks) (covered_touches tv (sort_coverage
        (check_coverage tv checks wd @ rust @ conventional)) touched)" "s' = s4"
    by (auto simp: evaluate_def Let_def result_simps)
  have "s1 = s" "s2 = s1" "s3 = s2" "s4 = s3"
    using r by (auto dest: readonlyD [rotated])
  with r t show thesis
    by (intro that [of touched rust conventional]) (auto simp: tamper_report_def Let_def split: prod.splits)
qed

text \<open>
  The verdict of the tamper check is refuse exactly when the agent modified the acceptance file, a
  check suppresses its exit code, or a covered test or target file was deleted; it is clean exactly when
  none of these holds and no covered test or target file was touched at all. A refusal names at least
  one reason, and judging changes nothing on disk.
\<close>

theorem tamper_verdict_is_exact:
  assumes "evaluate tv c rx now run_id run_dir wd checks s = (Inr t, s')"
  shows "(tm_verdict t = TamperRefuse \<longleftrightarrow> tm_spec_modified t \<or> lint_checks rx checks \<noteq> []
      \<or> (\<exists>touch \<in> set (tm_covered_files_touched t). ct_change touch = TDeleted \<and> guarded_class touch))
    \<and> (tm_verdict t = TamperClean \<longleftrightarrow> \<not> tm_spec_modified t \<and> lint_checks rx checks = []
      \<and> \<not> (\<exists>touch \<in> set (tm_covered_files_touched t). guarded_class touch))
    \<and> (tm_verdict t = TamperRefuse \<longleftrightarrow> tm_refusal_reasons t \<noteq> [])
    \<and> (tm_verdict t = TamperCaveat \<longleftrightarrow> tm_caveats t \<noteq> [])
    \<and> s' = s"
proof -
  from assms have cl: "classify (tm_spec_modified t) (tm_lint_findings t) (tm_covered_files_touched t)
      = (tm_verdict t, tm_caveats t, tm_refusal_reasons t)" and l: "tm_lint_findings t = lint_checks rx checks"
      and s: "s' = s" by (auto elim: evaluate_cases)
  have "(tm_verdict t = TamperRefuse \<longleftrightarrow> tm_refusal_reasons t \<noteq> []) \<and> (tm_verdict t = TamperCaveat \<longleftrightarrow> tm_caveats t \<noteq> [])"
    using cl by (auto simp: classify_def Let_def split: if_splits)
  then show ?thesis
    using classify_refuses [of "tm_spec_modified t" "tm_lint_findings t" "tm_covered_files_touched t"] cl l s by simp
qed

text \<open>
  C34: When the baseline snapshot is at an absolute path, a test of the baseline that is gone from the
  working tree is refused, whatever the provenance rows of the agent say, if a check covers it: a Rust test
  when some check runs the tests of the crate, a conventional test file when some check is a test
  runner. Below a relative home the deletion can go unseen (\<open>relative_snapshot_hides_deletion\<close>).
\<close>

theorem deleted_test_is_refused:
  assumes "evaluate tv c rx now run_id run_dir wd checks s = (Inr t, s')"
    "baseline_snapshot_dir tv run_dir s = (Inr (Some snap), s)"
    "is_absolute snap" "walk_ok tv snap" "walk_ok tv wd"
    "holds_file tv snap r" "\<not> holds_file tv wd r" "r \<noteq> []" "is_deliverable_workspace_path r"
    "list_ex is_cargo_test checks \<and> is_rust_test_file tv snap r
      \<or> list_ex is_runner_check checks \<and> is_conventional_test_file r"
  shows "tm_verdict t = TamperRefuse"
proof -
  from assms(1) obtain touched rust conventional where
    e: "touched_files tv c run_dir wd s = (Inr touched, s)"
    "baseline_coverage tv run_dir (list_ex is_cargo_test checks) ''cargo_test'' rust_test_files s = (Inr rust, s)"
    "baseline_coverage tv run_dir (list_ex is_runner_check checks) ''shell'' conventional_test_files s = (Inr conventional, s)"
    "tm_covered_files_touched t = covered_touches tv (sort_coverage (check_coverage tv checks wd @ rust @ conventional)) touched"
    "classify (tm_spec_modified t) (tm_lint_findings t) (tm_covered_files_touched t)
      = (tm_verdict t, tm_caveats t, tm_refusal_reasons t)"
    by (rule evaluate_cases)
  have normal: "list_all is_normal r" using assms(4,6) by (auto simp: walk_ok_def holds_file_def list_all_iff)
  have gone: "keys_sorted touched" "(r, TDeleted) \<in> set touched"
    using touched_files_deleted [OF e(1) assms(2,4,5,8,9,6,7)] by auto
  have "\<exists>k. coverage_item k CTest False r \<in> set (rust @ conventional)"
    using assms(10)
  proof
    assume "list_ex is_cargo_test checks \<and> is_rust_test_file tv snap r"
    then have "rust = map (coverage_item ''cargo_test'' CTest False) (rust_test_files tv snap)"
        "r \<in> set (rust_test_files tv snap)"
      using e(2) assms(2) test_files_below [OF assms(3) normal assms(9,6)]
      by (auto simp: baseline_coverage_def rust_test_files_def result_simps)
    then show ?thesis by auto
  next
    assume "list_ex is_runner_check checks \<and> is_conventional_test_file r"
    then have "conventional = map (coverage_item ''shell'' CTest False) (conventional_test_files tv snap)"
        "r \<in> set (conventional_test_files tv snap)"
      using e(3) assms(2) test_files_below [OF assms(3) normal assms(9,6)]
      by (auto simp: baseline_coverage_def conventional_test_files_def result_simps)
    then show ?thesis by auto
  qed
  then obtain k where "coverage_item k CTest False r
      \<in> set (sort_coverage (check_coverage tv checks wd @ rust @ conventional))" by auto
  from covered_touches_shows [OF this gone(2,1)] obtain touch where
      "touch \<in> set (tm_covered_files_touched t)" "ct_change touch = TDeleted" "ct_classification touch = CTest"
    by (auto simp: e(4) coverage_item_def coverage_matches_def)
  then show ?thesis
    using classify_refuses(1) [of "tm_spec_modified t" "tm_lint_findings t" "tm_covered_files_touched t"] e(5)
    by (auto simp: guarded_class_def)
qed

text \<open>
  When the recorded baseline of the first attempt is gone, the check reports it and judges nothing; it
  never falls back to a weaker baseline.
\<close>

theorem vanished_baseline_is_refused:
  assumes "read_fault s (tamper_baseline_path_for_run_root run_dir) = None"
    "files s (tamper_baseline_path_for_run_root run_dir) = Some content"
    "\<not> tv_is_dir tv (components (trim content))"
  shows "evaluate tv c rx now run_id run_dir wd checks s
    = (Inl (InvalidInput (TamperBaselineGone (components (trim content)))), s)"
proof -
  have "baseline_snapshot_dir tv run_dir s = (Inl (InvalidInput (TamperBaselineGone (components (trim content)))), s)"
    using assms by (simp add: baseline_snapshot_dir_def fs_read_optional_def fs_read_def io_bind_run Let_def)
  then show ?thesis by (simp add: evaluate_def touched_files_def io_bind_run)
qed

end
