(* ===== verification/Tamper_Examples.thy ===== *)
theory Tamper_Examples
  imports Tamper
begin

text \<open>
  The tamper properties at a small tree: one snapshot with one test, and a working tree that lost it.
  With a relative DeadReckon home the same deletion goes unseen.
\<close>

definition lost_test :: path where
  "lost_test = [Normal ''tests'', Normal ''a.rs'']"

definition tree_of :: "path \<Rightarrow> tree_view" where
  "tree_of snap = \<lparr>tv_exists = (\<lambda>_. True), tv_is_dir = (\<lambda>_. True),
    tv_walk = (\<lambda>d. if d = snap then [snap @ lost_test] else []), tv_read_dir = (\<lambda>_. Inr [snap]),
    tv_text = (\<lambda>_. None), tv_show = (\<lambda>_. ''p'')\<rparr>"

definition no_provenance :: "provenance_entry codec" where
  "no_provenance = \<lparr>enc = (\<lambda>_. None), dec = (\<lambda>_. None)\<rparr>"

definition never :: "string \<Rightarrow> string \<Rightarrow> bool option" where
  "never _ _ = Some False"

definition turn0 :: path where
  "turn0 = [RootDir, Normal ''h'', Normal ''turn-0'']"

definition relative_turn0 :: path where
  "relative_turn0 = [Normal ''h'', Normal ''turn-0'']"

definition judged :: "path \<Rightarrow> acceptance_tamper io" where
  "judged snap = evaluate (tree_of snap) no_provenance never 0 ''r'' [RootDir, Normal ''h''] [RootDir, Normal ''w'']
    [CargoTest [] True]"

lemma turn_0: "snapshot_turn turn0 = Some 0" "snapshot_turn relative_turn0 = Some 0"
  by (simp_all add: snapshot_turn_def turn0_def relative_turn0_def file_name_def strip_prefix_def parse_u32_def
      is_ascii_digit_def digits_value_def)

lemma tree_of_simps [simp]:
  "tv_exists (tree_of snap) = (\<lambda>_. True)" "tv_is_dir (tree_of snap) = (\<lambda>_. True)"
  "tv_walk (tree_of snap) = (\<lambda>d. if d = snap then [snap @ lost_test] else [])"
  "tv_read_dir (tree_of snap) = (\<lambda>_. Inr [snap])"
  by (simp_all add: tree_of_def)

lemma sample_baseline:
  assumes "snapshot_turn snap = Some 0"
  shows "baseline_snapshot_dir (tree_of snap) run_dir empty_fs = (Inr (Some snap), empty_fs)"
  using assms
  by (simp add: baseline_snapshot_dir_def fs_read_optional_def fs_read_def io_bind_run earliest_snapshot_dir_def
      List.map_filter_def Let_def)

lemma no_rows: "provenance_files c run_dir empty_fs = (Inr [], empty_fs)"
  by (simp add: provenance_files_def fs_exists_def io_bind_run Let_def)

lemma judged_returns:
  assumes "snapshot_turn snap = Some 0"
  shows "\<exists>t. judged snap empty_fs = (Inr t, empty_fs)"
  by (simp add: judged_def evaluate_def touched_files_def spec_modified_def baseline_coverage_def no_rows
      sample_baseline [OF assms] io_bind_run Let_def)

lemma lost_test_facts:
  "is_deliverable_workspace_path lost_test" "is_rust_test_file tv d lost_test" "list_all is_normal lost_test"
  by (simp add: deliverable_iff lost_test_def is_disposable_runtime_root_def DISPOSABLE_RUNTIME_ROOTS_def,
      simp add: is_rust_test_file_def lost_test_def path_extension_def file_name_def,
      simp add: lost_test_def is_normal_def)

theorem tamper_verdict_is_exact_witness:
  "\<exists>t. judged turn0 empty_fs = (Inr t, empty_fs)
    \<and> (tm_verdict t = TamperRefuse \<longleftrightarrow> tm_refusal_reasons t \<noteq> [])"
proof -
  obtain t where t: "judged turn0 empty_fs = (Inr t, empty_fs)" using judged_returns [OF turn_0(1)] by blast
  from tamper_verdict_is_exact [OF t [unfolded judged_def]] t show ?thesis by blast
qed

theorem deleted_test_is_refused_witness:
  "\<exists>t. judged turn0 empty_fs = (Inr t, empty_fs) \<and> tm_verdict t = TamperRefuse"
proof -
  obtain t where t: "judged turn0 empty_fs = (Inr t, empty_fs)" using judged_returns [OF turn_0(1)] by blast
  have "walk_ok (tree_of turn0) turn0" "walk_ok (tree_of turn0) [RootDir, Normal ''w'']"
    using lost_test_facts(3) by (simp_all add: walk_ok_def turn0_def)
  moreover have "holds_file (tree_of turn0) turn0 lost_test" "\<not> holds_file (tree_of turn0) [RootDir, Normal ''w''] lost_test"
    by (simp_all add: holds_file_def turn0_def)
  ultimately have "tm_verdict t = TamperRefuse"
    using deleted_test_is_refused [OF t [unfolded judged_def] sample_baseline [OF turn_0(1)], of lost_test] lost_test_facts
    by (simp add: is_absolute_def turn0_def lost_test_def is_cargo_test_def)
  with t show ?thesis by blast
qed

text \<open>
  A relative snapshot directory: the tests of the snapshot are then named with the directory in front,
  which no touched file matches, and the deletion of the same test is judged clean.
\<close>

lemma covered_touches_none:
  assumes "\<And>item p change. item \<in> set coverage \<Longrightarrow> (p, change) \<in> set touched \<Longrightarrow> \<not> coverage_matches item p"
  shows "covered_touches tv coverage touched = []"
proof -
  have "filter (\<lambda>(p, change). coverage_matches item p) touched = []" if "item \<in> set coverage" for item
    using assms [OF that] by (auto simp: filter_empty_conv)
  then have "concat (map (\<lambda>item. map (f item) (filter (\<lambda>(p, change). coverage_matches item p) touched)) coverage) = []"
    for f :: "check_coverage_item \<Rightarrow> path \<times> touched_change \<Rightarrow> (path \<times> string \<times> coverage_classification) \<times> covered_file_touch"
    by simp
  note none = this
  show ?thesis unfolding covered_touches_def none by (simp add: btree_of_def)
qed

lemma relative_tests:
  "set (rust_test_files (tree_of relative_turn0) relative_turn0) \<subseteq> {relative_turn0 @ lost_test}"
  "rust_test_files (tree_of relative_turn0) [RootDir, Normal ''w''] = []"
proof -
  have n: "list_all is_normal (relative_turn0 @ lost_test)"
    using lost_test_facts(3) by (simp add: relative_turn0_def is_normal_def)
  then have "lexical_normalize (relative_turn0 @ lost_test) = relative_turn0 @ lost_test"
    using lexical_normalize_append [of "relative_turn0 @ lost_test" "[]"] by (simp add: lexical_normalize_def)
  then have "working_relative_path relative_turn0 (relative_turn0 @ lost_test) = Some (relative_turn0 @ lost_test)"
    using normalize_relative_normal [OF n] by (simp add: working_relative_path_def Let_def is_absolute_def relative_turn0_def)
  then show "set (rust_test_files (tree_of relative_turn0) relative_turn0) \<subseteq> {relative_turn0 @ lost_test}"
    by (auto simp: rust_test_files_def test_files_def set_inventory_files set_map_filter_eq)
  show "rust_test_files (tree_of relative_turn0) [RootDir, Normal ''w''] = []"
    by (simp add: rust_test_files_def test_files_def inventory_files_def List.map_filter_def relative_turn0_def)
qed

lemma relative_inventories:
  "relative_inventory (tree_of relative_turn0) relative_turn0 = [lost_test]"
  "relative_inventory (tree_of relative_turn0) [RootDir, Normal ''w''] = []"
proof -
  have "lost_test \<noteq> []" by (simp add: lost_test_def)
  then show "relative_inventory (tree_of relative_turn0) relative_turn0 = [lost_test]"
    using lost_test_facts normalize_relative_normal [of lost_test]
    by (simp add: relative_inventory_def inventory_files_def List.map_filter_def strip_path_prefix_def
        btree_set_def ignored_relative_def)
  show "relative_inventory (tree_of relative_turn0) [RootDir, Normal ''w''] = []"
    by (simp add: relative_inventory_def inventory_files_def List.map_filter_def btree_set_def relative_turn0_def)
qed

lemma relative_snapshot_hides_deletion:
  "\<exists>t. judged relative_turn0 empty_fs = (Inr t, empty_fs) \<and> tm_verdict t = TamperClean"
proof -
  let ?tv = "tree_of relative_turn0" and ?wd = "[RootDir, Normal ''w'']" and ?run = "[RootDir, Normal ''h'']"
  obtain t where t: "judged relative_turn0 empty_fs = (Inr t, empty_fs)" using judged_returns [OF turn_0(2)] by blast
  from t [unfolded judged_def] obtain touched rust conventional where
    e: "touched_files ?tv no_provenance ?run ?wd empty_fs = (Inr touched, empty_fs)"
    "spec_modified no_provenance ?run ?wd empty_fs = (Inr (tm_spec_modified t), empty_fs)"
    "baseline_coverage ?tv ?run (list_ex is_cargo_test [CargoTest [] True]) ''cargo_test'' rust_test_files empty_fs
      = (Inr rust, empty_fs)"
    "baseline_coverage ?tv ?run (list_ex is_runner_check [CargoTest [] True]) ''shell'' conventional_test_files empty_fs
      = (Inr conventional, empty_fs)"
    "tm_covered_files_touched t
      = covered_touches ?tv (sort_coverage (check_coverage ?tv [CargoTest [] True] ?wd @ rust @ conventional)) touched"
    "tm_lint_findings t = lint_checks never [CargoTest [] True]"
    "classify (tm_spec_modified t) (tm_lint_findings t) (tm_covered_files_touched t)
      = (tm_verdict t, tm_caveats t, tm_refusal_reasons t)"
    by (rule evaluate_cases)
  have "fst ` set touched \<subseteq> {lost_test}"
    using e(1) sample_baseline [OF turn_0(2)] no_rows
    by (auto simp: touched_files_def io_bind_run Let_def relative_inventories touch_deleted_def split: if_splits)
  moreover have cov: "cc_path item = relative_turn0 @ lost_test \<and> \<not> cc_directory item"
    if "item \<in> set (check_coverage ?tv [CargoTest [] True] ?wd @ rust @ conventional)" for item
  proof -
    have "check_coverage ?tv [CargoTest [] True] ?wd = []"
      using relative_tests(2) by (simp add: check_coverage_def sort_coverage_def coverage_of_check_def)
    moreover have "conventional = []" using e(4) by (simp add: baseline_coverage_def is_runner_check_def)
    moreover have "rust = map (coverage_item ''cargo_test'' CTest False) (rust_test_files ?tv relative_turn0)"
      using e(3) sample_baseline [OF turn_0(2)] by (simp add: baseline_coverage_def io_bind_run is_cargo_test_def)
    ultimately obtain q where "item = coverage_item ''cargo_test'' CTest False q" "q \<in> set (rust_test_files ?tv relative_turn0)"
      using \<open>item \<in> _\<close> by auto
    moreover have "q = relative_turn0 @ lost_test" using calculation(2) relative_tests(1) by blast
    ultimately show ?thesis by (simp add: coverage_item_def)
  qed
  ultimately have "tm_covered_files_touched t = []"
    unfolding e(5)
    by (intro covered_touches_none notI) (force simp: coverage_matches_def relative_turn0_def lost_test_def)
  moreover have "\<not> tm_spec_modified t" "tm_lint_findings t = []"
    using e(2,6) no_rows by (auto simp: spec_modified_def io_bind_run Let_def lint_checks_def lint_check_def)
  ultimately show ?thesis
    using t classify_refuses(2) [of "tm_spec_modified t" "tm_lint_findings t" "tm_covered_files_touched t"] e(7) by auto
qed

theorem vanished_baseline_is_refused_witness:
  "evaluate ((tree_of turn0)\<lparr>tv_is_dir := (\<lambda>_. False)\<rparr>) no_provenance never 0 ''r'' [RootDir] [RootDir] []
      (put_file (tamper_baseline_path_for_run_root [RootDir]) ''/gone'' empty_fs)
    = (Inl (InvalidInput (TamperBaselineGone [RootDir, Normal ''gone''])),
       put_file (tamper_baseline_path_for_run_root [RootDir]) ''/gone'' empty_fs)"
proof -
  have "components (trim ''/gone'') = [RootDir, Normal ''gone'']" by code_simp
  then show ?thesis
    using vanished_baseline_is_refused [of "put_file (tamper_baseline_path_for_run_root [RootDir]) ''/gone'' empty_fs"
        "[RootDir]" "''/gone''" "(tree_of turn0)\<lparr>tv_is_dir := (\<lambda>_. False)\<rparr>"]
    by simp
qed

end
