(* ===== verification/Gate_Key.thy ===== *)
theory Gate_Key
  imports Boot_Identity Job_Log
begin

text \<open>
  The protected key of a run (\<open>crates/deadreckon-core/src/gate.rs\<close>): hexadecimal text, the file that
  holds the key, reading it with the checks on its type and permissions, and creating it. A key is
  written once and never replaced; a creator that loses the race uses the key of the winner.
\<close>

section \<open>Hexadecimal text\<close>

definition hex_encode :: "bytes \<Rightarrow> string" where
  "hex_encode bs = concat (map hex2 bs)"

definition hex_nibble :: "char \<Rightarrow> hex_fault + nat" where
  "hex_nibble c =
    (let n = (of_char c :: nat) in
     if 48 \<le> n \<and> n \<le> 57 then Inr (n - 48)
     else if 97 \<le> n \<and> n \<le> 102 then Inr (n - 97 + 10)
     else if 65 \<le> n \<and> n \<le> 70 then Inr (n - 65 + 10)
     else Inl (HexInvalidByte c))"

fun hex_pairs :: "string \<Rightarrow> hex_fault + bytes" where
  "hex_pairs (a # b # rest) =
    res_bind (hex_nibble a) (\<lambda>high.
    res_bind (hex_nibble b) (\<lambda>low.
    res_bind (hex_pairs rest) (\<lambda>bs. Inr (char_of (16 * high + low) # bs))))"
| "hex_pairs _ = Inr []"

definition hex_decode :: "string \<Rightarrow> hex_fault + bytes" where
  "hex_decode v = (if odd (length v) then Inl HexOddLength else hex_pairs v)"

section \<open>Where keys are\<close>

definition GATE_KEY_BYTES :: nat where "GATE_KEY_BYTES = 32"

definition gate_key_file_stem :: "string \<Rightarrow> string" where
  "gate_key_file_stem run_id = concat (map capture_byte run_id)"

definition gate_key_store :: "path \<Rightarrow> path" where
  "gate_key_store home = join home ''gate-keys''"

definition gate_key_path :: "path \<Rightarrow> string \<Rightarrow> path" where
  "gate_key_path home run_id = join (gate_key_store home) (gate_key_file_stem run_id @ ''.key'')"

definition gate_key_path_for_run_root :: "path \<Rightarrow> string \<Rightarrow> path res" where
  "gate_key_path_for_run_root run_dir run_id =
    res_bind (ok_or (Option.bind (Option.bind (Option.bind (path_parent run_dir) path_parent) path_parent) path_parent)
        (InvalidInput (GateKeyFault (KeyHomeUnknown run_dir)))) (\<lambda>home.
    Inr (gate_key_path home run_id))"

section \<open>Key text\<close>

definition key_error :: "gate_key_fault \<Rightarrow> dr_error" where
  "key_error f = InvalidInput (GateKeyFault f)"

definition key_text :: "string \<Rightarrow> key_text_fault + bytes" where
  "key_text value =
    (case hex_decode (trim value) of
       Inl f \<Rightarrow> Inl (KeyHex f)
     | Inr decoded \<Rightarrow> if length decoded \<noteq> GATE_KEY_BYTES then Inl (KeyLength (length decoded)) else Inr decoded)"

definition decode_gate_key :: "string \<Rightarrow> bytes res" where
  "decode_gate_key value = (case key_text value of Inl f \<Rightarrow> Inl (key_error (KeyText f)) | Inr k \<Rightarrow> Inr k)"

definition require_gate_key_length :: "bytes \<Rightarrow> unit res" where
  "require_gate_key_length key =
    (if length key \<noteq> GATE_KEY_BYTES then Inl (key_error (KeyText (KeyLength (length key)))) else Inr ())"

definition encode_gate_key :: "bytes \<Rightarrow> string res" where
  "encode_gate_key key = res_bind (require_gate_key_length key) (\<lambda>_. Inr (hex_encode key))"

section \<open>Reading\<close>

datatype file_kind = RegularFile | Directory | Symlink | SpecialFile

record metadata =
  md_kind :: file_kind
  md_mode :: u32

text \<open>\<open>symlink_metadata\<close> of a path, as the operating system answers it.\<close>

type_synonym meta_view = "path \<Rightarrow> io_error_kind + metadata"

definition others_may_access :: "metadata \<Rightarrow> bool" where
  "others_may_access m \<longleftrightarrow> and (md_mode m) 0x3F \<noteq> 0"

definition metadata_of :: "meta_view \<Rightarrow> path \<Rightarrow> string \<Rightarrow> metadata res" where
  "metadata_of mv p run_id =
    (case mv p of
       Inr m \<Rightarrow> Inr m
     | Inl k \<Rightarrow> if k = IoNotFound then Inl (key_error (KeyMissing run_id)) else Inl (Io p k))"

definition check_key_store :: "meta_view \<Rightarrow> path \<Rightarrow> string \<Rightarrow> unit res" where
  "check_key_store mv parent run_id =
    res_bind (metadata_of mv parent run_id) (\<lambda>m.
    if md_kind m \<noteq> Directory then Inl (key_error (KeyStoreNotDirectory parent))
    else if others_may_access m then Inl (key_error (KeyStoreShared parent))
    else Inr ())"

definition check_key_file :: "meta_view \<Rightarrow> path \<Rightarrow> string \<Rightarrow> unit res" where
  "check_key_file mv p run_id =
    res_bind (metadata_of mv p run_id) (\<lambda>m.
    if md_kind m \<noteq> RegularFile then Inl (key_error (KeyNotRegular run_id))
    else if others_may_access m then Inl (key_error (KeyShared run_id))
    else Inr ())"

definition read_gate_key_at_path :: "meta_view \<Rightarrow> path \<Rightarrow> string \<Rightarrow> bytes io" where
  "read_gate_key_at_path mv p run_id =
    io_bind (io_lift (ok_or (path_parent p) (key_error (KeyPathNoParent p)))) (\<lambda>parent.
    io_bind (io_lift (check_key_store mv parent run_id)) (\<lambda>_.
    io_bind (io_lift (check_key_file mv p run_id)) (\<lambda>_.
    io_bind (fs_read_optional p) (\<lambda>found.
    case found of
      None \<Rightarrow> io_throw (key_error (KeyMissing run_id))
    | Some raw \<Rightarrow>
       (case key_text raw of
          Inl f \<Rightarrow> io_throw (key_error (KeyUnreadable run_id f))
        | Inr key \<Rightarrow> io_return key)))))"

definition read_gate_key :: "meta_view \<Rightarrow> path \<Rightarrow> string \<Rightarrow> bytes io" where
  "read_gate_key mv home run_id = read_gate_key_at_path mv (gate_key_path home run_id) run_id"

definition read_gate_key_for_run_root :: "meta_view \<Rightarrow> path \<Rightarrow> string \<Rightarrow> bytes io" where
  "read_gate_key_for_run_root mv run_dir run_id =
    io_bind (io_lift (gate_key_path_for_run_root run_dir run_id)) (\<lambda>p. read_gate_key_at_path mv p run_id)"

section \<open>Creating\<close>

text \<open>
  The files together with their metadata, and the mode of a directory the process creates. The modes
  of the source are octal: 077, 700 and 600 are 0x3F, 0x1C0 and 0x180.
\<close>

record key_world =
  kw_fs :: fs
  kw_meta :: meta_view
  kw_new_dir_mode :: u32

type_synonym 'a key_io = "key_world \<Rightarrow> 'a res \<times> key_world"

definition set_mode :: "path \<Rightarrow> file_kind \<Rightarrow> u32 \<Rightarrow> key_world \<Rightarrow> key_world" where
  "set_mode p kind mode w = w\<lparr>kw_meta := (kw_meta w)(p := Inr \<lparr>md_kind = kind, md_mode = mode\<rparr>)\<rparr>"

definition ensure_private_gate_key_store :: "path \<Rightarrow> path key_io" where
  "ensure_private_gate_key_store home w =
    (let store = gate_key_store home;
         w = (if kw_meta w store = Inl IoNotFound then set_mode store Directory (kw_new_dir_mode w) w else w) in
     case kw_meta w store of
       Inl k \<Rightarrow> (Inl (Io store k), w)
     | Inr m \<Rightarrow>
        (if md_kind m \<noteq> Directory then (Inl (key_error (KeyStoreNotDirectory store)), w)
         else (Inr store, set_mode store Directory 0x1C0 w)))"

text \<open>\<open>create_new\<close> refuses a path that is there already; a failing write may leave a prefix.\<close>

definition write_gate_key :: "path \<Rightarrow> string \<Rightarrow> bytes \<Rightarrow> unit key_io" where
  "write_gate_key home run_id key w =
    (case require_gate_key_length key of
       Inl e \<Rightarrow> (Inl e, w)
     | Inr _ \<Rightarrow>
        (let p = gate_key_path home run_id in
         case ensure_private_gate_key_store home w of
           (Inl e, w) \<Rightarrow> (Inl e, w)
         | (Inr _, w) \<Rightarrow>
            (case (kw_meta w p, write_fault (kw_fs w) p) of
               (Inr _, _) \<Rightarrow> (Inl (Io p IoAlreadyExists), w)
             | (Inl k, Some k') \<Rightarrow> (Inl (Io p k'), w)
             | (Inl k, None) \<Rightarrow>
                if k \<noteq> IoNotFound then (Inl (Io p k), w)
                else
                (let w = set_mode p RegularFile 0x180 (w\<lparr>kw_fs := put_file p [] (kw_fs w)\<rparr>) in
                 case append_bytes p (hex_encode key) (kw_fs w) of
                   (Inl e, s) \<Rightarrow> (Inl e, w\<lparr>kw_fs := s\<rparr>)
                 | (Inr _, s) \<Rightarrow> (Inr (), set_mode p RegularFile 0x180 (w\<lparr>kw_fs := s\<rparr>))))))"

definition lift_key_read :: "(meta_view \<Rightarrow> 'a io) \<Rightarrow> 'a key_io" where
  "lift_key_read m w = (case m (kw_meta w) (kw_fs w) of (r, s) \<Rightarrow> (r, w\<lparr>kw_fs := s\<rparr>))"

text \<open>
  \<open>derived\<close> is the digest of three fresh UUIDs. Between the test for the key and its creation other
  processes may run: \<open>others\<close> is what they do.
\<close>

definition create_gate_key :: "path \<Rightarrow> string \<Rightarrow> bytes \<Rightarrow> (key_world \<Rightarrow> key_world) \<Rightarrow> bytes key_io" where
  "create_gate_key home run_id derived others w =
    (case ensure_private_gate_key_store home w of
       (Inl e, w) \<Rightarrow> (Inl e, w)
     | (Inr _, w) \<Rightarrow>
        (let p = gate_key_path home run_id in
         case kw_meta w p of
           Inr _ \<Rightarrow> lift_key_read (\<lambda>mv. read_gate_key_at_path mv p run_id) w
         | Inl k \<Rightarrow>
            (if k \<noteq> IoNotFound then (Inl (Io p k), w)
             else case write_gate_key home run_id derived (others w) of
               (Inr _, w) \<Rightarrow> (Inr derived, w)
             | (Inl (Io q IoAlreadyExists), w) \<Rightarrow> lift_key_read (\<lambda>mv. read_gate_key_at_path mv p run_id) w
             | (Inl e, w) \<Rightarrow> (Inl e, w))))"

section \<open>Hexadecimal text reads back\<close>

lemma hex_nibble_digit: "hex_nibble (hex_digit n) = Inr (n mod 16)"
proof -
  have "list_all (\<lambda>i. hex_nibble (''0123456789abcdef'' ! i) = Inr i) [0..<16]" by code_simp
  then show ?thesis by (simp add: hex_digit_def list_all_iff)
qed

lemma hex_pairs_byte: "hex_pairs (hex2 b @ rest) = res_bind (hex_pairs rest) (\<lambda>bs. Inr (b # bs))"
proof -
  have "(of_char b :: nat) < 256" by simp
  then have "16 * ((of_char b :: nat) div 16 mod 16) + (of_char b :: nat) mod 16 = of_char b"
    using mult_div_mod_eq [of 16 "of_char b :: nat"] by (simp add: less_mult_imp_div_less)
  then have "char_of (16 * ((of_char b :: nat) div 16 mod 16) + (of_char b :: nat) mod 16) = b" by simp
  then show ?thesis by (simp add: hex2_def hex_nibble_digit res_bind_def split: sum.splits)
qed

lemma hex_roundtrip: "hex_decode (hex_encode bs) = Inr bs"
proof -
  have "hex_pairs (hex_encode bs) = Inr bs"
    by (induction bs) (simp_all add: hex_encode_def hex_pairs_byte res_bind_def)
  moreover have "even (length (hex_encode bs))" by (induction bs) (simp_all add: hex_encode_def hex2_def)
  ultimately show ?thesis by (simp add: hex_decode_def)
qed

section \<open>The file of a run\<close>

lemma gate_key_path_eq: "gate_key_path home r = gate_key_store home @ [Normal (gate_key_file_stem r @ ''.key'')]"
proof -
  have "CHR ''/'' \<notin> set (gate_key_file_stem r)"
    using capture_byte_plain(2) by (fastforce simp: gate_key_file_stem_def)
  then have "plain (gate_key_file_stem r @ ''.key'')"
    by (cases "gate_key_file_stem r") (auto simp: plain_def)
  then show ?thesis by (simp add: gate_key_path_def join_plain)
qed

lemma gate_key_store_eq: "gate_key_store home = home @ [Normal ''gate-keys'']"
proof -
  have "plain ''gate-keys''" by (simp add: plain_def)
  then show ?thesis by (simp add: gate_key_store_def join_plain)
qed

lemma gate_key_path_inj: "gate_key_path home r = gate_key_path home r' \<longleftrightarrow> r = r'"
proof -
  have "gate_key_file_stem r = gate_key_file_stem r' \<Longrightarrow> r = r'"
    unfolding gate_key_file_stem_def using capture_decode_all by metis
  then show ?thesis by (auto simp: gate_key_path_eq)
qed

lemma gate_key_path_parent [simp]:
  "path_parent (gate_key_path home r) = Some (gate_key_store home)"
  "gate_key_path home r \<noteq> gate_key_store home" "gate_key_store home \<noteq> gate_key_path home r"
  by (auto simp: gate_key_path_eq gate_key_store_eq path_parent_def butlast_append)

lemma key_text_encoded: "length key = GATE_KEY_BYTES \<Longrightarrow> key_text (hex_encode key) = Inr key"
proof -
  assume len: "length key = GATE_KEY_BYTES"
  have g: "graphic (hex_digit n)" for n
  proof -
    have "list_all (\<lambda>i. graphic (''0123456789abcdef'' ! i)) [0..<16]" by code_simp
    then show ?thesis by (simp add: hex_digit_def list_all_iff)
  qed
  have all: "list_all graphic (hex_encode bs)" for bs
    by (induction bs) (simp_all add: hex_encode_def hex2_def g)
  obtain b bs where key: "key = b # bs" using len by (cases key) (auto simp: GATE_KEY_BYTES_def)
  then have "hex_encode key \<noteq> []" by (simp add: hex_encode_def hex2_def)
  then have "trim (hex_encode key) = hex_encode key"
    using all [of key] by (intro trim_graphic) (auto simp: list_all_iff)
  then show ?thesis using len by (simp add: key_text_def hex_roundtrip)
qed

section \<open>One key per run\<close>

definition private_key_file :: "path \<Rightarrow> string \<Rightarrow> key_world \<Rightarrow> bool" where
  "private_key_file home r w \<longleftrightarrow>
    kw_meta w (gate_key_store home) = Inr \<lparr>md_kind = Directory, md_mode = 0x1C0\<rparr>
    \<and> kw_meta w (gate_key_path home r) = Inr \<lparr>md_kind = RegularFile, md_mode = 0x180\<rparr>"

lemma ensure_cases:
  assumes "ensure_private_gate_key_store home w = (r, w')"
  shows "kw_fs w' = kw_fs w" "p \<noteq> gate_key_store home \<Longrightarrow> kw_meta w' p = kw_meta w p"
    "r = Inr q \<Longrightarrow> kw_meta w' (gate_key_store home) = Inr \<lparr>md_kind = Directory, md_mode = 0x1C0\<rparr>"
  using assms by (auto simp: ensure_private_gate_key_store_def set_mode_def Let_def split: sum.splits if_splits)

text \<open>What writing a key leaves, and that it replaces nothing.\<close>

lemma write_gate_key_cases:
  assumes "write_gate_key home r key w = (res, w')"
  shows "kw_meta w (gate_key_path home r) = Inr m \<Longrightarrow> kw_fs w' = kw_fs w"
    "q \<noteq> gate_key_path home r \<Longrightarrow> files (kw_fs w') q = files (kw_fs w) q"
    "res = Inr () \<Longrightarrow> private_key_file home r w' \<and> length key = GATE_KEY_BYTES
      \<and> files (kw_fs w') (gate_key_path home r) = Some (hex_encode key) \<and> read_fault (kw_fs w') = read_fault (kw_fs w)"
  using assms
  by (auto simp: write_gate_key_def require_gate_key_length_def Let_def append_bytes_def set_mode_def
      private_key_file_def ensure_cases(1,2) ensure_cases(3) [OF _ refl]
      split: sum.splits prod.splits option.splits if_splits)

lemma read_private_key:
  assumes "private_key_file home r w" "files (kw_fs w) (gate_key_path home r) = Some (hex_encode key)"
    "read_fault (kw_fs w) (gate_key_path home r) = None" "length key = GATE_KEY_BYTES"
  shows "read_gate_key (kw_meta w) home r (kw_fs w) = (Inr key, kw_fs w)"
  using assms
  by (simp add: read_gate_key_def read_gate_key_at_path_def private_key_file_def check_key_store_def check_key_file_def
      metadata_of_def others_may_access_def res_bind_def ok_or_def fs_read_optional_def fs_read_def io_bind_run
      key_text_encoded)

lemma readonly_read_gate_key [intro!]: "readonly (read_gate_key mv home r)"
  unfolding read_gate_key_def read_gate_key_at_path_def
  by (intro readonly_bind) (auto split: option.splits sum.splits)

lemma lift_key_read_Inr:
  assumes "lift_key_read (\<lambda>mv. read_gate_key mv home r) w = (Inr key, w')"
  shows "w' = w \<and> read_gate_key (kw_meta w) home r (kw_fs w) = (Inr key, kw_fs w)"
  using assms readonlyD [OF readonly_read_gate_key, of "kw_meta w" home r "kw_fs w"]
  by (auto simp: lift_key_read_def split: prod.splits)

lemma read_gate_key_Inr:
  assumes "read_gate_key mv home r s = (Inr key, s')"
  shows "length key = GATE_KEY_BYTES \<and> (\<exists>m m'. mv (gate_key_store home) = Inr m \<and> md_kind m = Directory
    \<and> \<not> others_may_access m \<and> mv (gate_key_path home r) = Inr m' \<and> md_kind m' = RegularFile \<and> \<not> others_may_access m')"
  using assms
  by (auto simp: read_gate_key_def read_gate_key_at_path_def check_key_store_def check_key_file_def metadata_of_def
      res_bind_def ok_or_def io_bind_run key_text_def
      split: sum.splits option.splits prod.splits if_splits)

text \<open>
  A created gate key is the one on disk, private to its user and 32 bytes long, whatever other
  processes do between the test for it and its creation; an existing key file is never changed, and no
  two runs share a key file.
\<close>

theorem gate_key_is_created_once:
  assumes "create_gate_key home r derived others w = (Inr key, w')"
    "read_fault (kw_fs (others (snd (ensure_private_gate_key_store home w)))) (gate_key_path home r) = None"
  shows "read_gate_key (kw_meta w') home r (kw_fs w') = (Inr key, kw_fs w')
    \<and> length key = GATE_KEY_BYTES
    \<and> (kw_meta w (gate_key_path home r) = Inr m \<longrightarrow> kw_fs w' = kw_fs w)
    \<and> (\<exists>m'. kw_meta w' (gate_key_path home r) = Inr m' \<and> md_kind m' = RegularFile \<and> \<not> others_may_access m')
    \<and> (gate_key_path home r = gate_key_path home r' \<longleftrightarrow> r = r')"
proof -
  let ?p = "gate_key_path home r"
  have read: "lift_key_read (\<lambda>mv. read_gate_key_at_path mv ?p r) = lift_key_read (\<lambda>mv. read_gate_key mv home r)"
    by (simp add: read_gate_key_def)
  obtain w1 where w1: "ensure_private_gate_key_store home w = (Inr (gate_key_store home), w1)"
    using assms(1)
    by (auto simp: create_gate_key_def ensure_private_gate_key_store_def Let_def split: sum.splits if_splits)
  have "read_gate_key (kw_meta w') home r (kw_fs w') = (Inr key, kw_fs w')
      \<and> (kw_meta w ?p = Inr m \<longrightarrow> kw_fs w' = kw_fs w)"
  proof (cases "kw_meta w1 ?p")
    case (Inr m1)
    then have "lift_key_read (\<lambda>mv. read_gate_key mv home r) w1 = (Inr key, w')"
      using assms(1) w1 read by (simp add: create_gate_key_def Let_def)
    then show ?thesis using lift_key_read_Inr ensure_cases(1) [OF w1] by metis
  next
    case (Inl k)
    then have fresh: "\<not> kw_meta w ?p = Inr m" using ensure_cases(2) [OF w1, of ?p] by auto
    obtain res w2 where wr: "write_gate_key home r derived (others w1) = (res, w2)" by force
    consider "res = Inr ()" "key = derived" "w' = w2" | "lift_key_read (\<lambda>mv. read_gate_key mv home r) w2 = (Inr key, w')"
    proof (cases res)
      case (Inl e)
      then have "(case e of Io q IoAlreadyExists \<Rightarrow> lift_key_read (\<lambda>mv. read_gate_key mv home r) w2 | _ \<Rightarrow> (Inl e, w2)) = (Inr key, w')"
        using assms(1) w1 \<open>kw_meta w1 ?p = Inl k\<close> wr read
        by (simp add: create_gate_key_def Let_def split: if_splits dr_error.splits io_error_kind.splits)
      then have "lift_key_read (\<lambda>mv. read_gate_key mv home r) w2 = (Inr key, w')"
        by (simp split: dr_error.splits io_error_kind.splits)
      then show ?thesis by (rule that(2))
    next
      case (Inr u)
      then show ?thesis
        using assms(1) w1 \<open>kw_meta w1 ?p = Inl k\<close> wr
        by (intro that(1)) (auto simp: create_gate_key_def Let_def split: if_splits)
    qed
    then show ?thesis
    proof cases
      case 1
      then show ?thesis using write_gate_key_cases(3) [OF wr] assms(2) w1 read_private_key fresh by auto
    next
      case 2
      then show ?thesis using lift_key_read_Inr fresh by metis
    qed
  qed
  then show ?thesis using read_gate_key_Inr gate_key_path_inj by blast
qed

definition no_keys :: key_world where
  "no_keys = \<lparr>kw_fs = empty_fs, kw_meta = (\<lambda>_. Inl IoNotFound), kw_new_dir_mode = 0x1ED\<rparr>"

theorem gate_key_is_created_once_witness:
  "\<exists>w. create_gate_key [RootDir] ''r'' (replicate 32 (CHR ''k'')) id no_keys = (Inr (replicate 32 (CHR ''k'')), w)
    \<and> read_gate_key (kw_meta w) [RootDir] ''r'' (kw_fs w) = (Inr (replicate 32 (CHR ''k'')), kw_fs w)"
proof -
  let ?key = "replicate 32 (CHR ''k'')"
  have e: "snd (ensure_private_gate_key_store [RootDir] no_keys) = set_mode (gate_key_store [RootDir]) Directory 0x1C0
      (set_mode (gate_key_store [RootDir]) Directory 0x1ED no_keys)"
    by (simp add: ensure_private_gate_key_store_def set_mode_def no_keys_def Let_def)
  obtain w where w: "create_gate_key [RootDir] ''r'' ?key id no_keys = (Inr ?key, w)"
    by (simp add: create_gate_key_def write_gate_key_def ensure_private_gate_key_store_def no_keys_def set_mode_def Let_def
        require_gate_key_length_def GATE_KEY_BYTES_def append_bytes_def)
  have "read_fault (kw_fs (id (snd (ensure_private_gate_key_store [RootDir] no_keys)))) (gate_key_path [RootDir] ''r'') = None"
    unfolding e by (simp add: set_mode_def no_keys_def)
  from gate_key_is_created_once [OF w this] w show ?thesis by blast
qed

end
