(* ===== verification/Delivery.thy ===== *)
theory Delivery
  imports Gate_Key Job_Lease Head_Tail
begin

text \<open>
  Authenticated Git delivery (\<open>crates/deadreckon-core/src/delivery.rs\<close>, its wire types in
  \<open>crates/deadreckon-protocol/src/job.rs\<close>). Before Git may change the checkout of the operator an
  intent is sealed with the protected key of the run; after the new revision is proved, a receipt is
  sealed that must match the intent in every field. Both files are written once. The lock of a job
  operation is a file that is never removed.
\<close>

section \<open>Wire types\<close>

record git_delivery_repository_identity =
  gr_worktree_root :: path
  gr_git_common_dir :: path

datatype git_delivery_strategy = Merge | Squash | CherryPick

record git_delivery_intent =
  di_schema_version :: job_schema_version
  di_job_id :: string
  di_run_id :: string
  di_prepared_at :: timestamp
  di_completion_receipt_sha256 :: string
  di_repository :: git_delivery_repository_identity
  di_target_ref :: string
  di_pre_revision :: string
  di_signed_source_revision :: string
  di_signed_result_revision :: string
  di_effective_policy_sha256 :: string
  di_strategy :: git_delivery_strategy
  di_signature :: string

record applied_git_delivery_receipt =
  da_schema_version :: job_schema_version
  da_job_id :: string
  da_run_id :: string
  da_issued_at :: timestamp
  da_delivery_intent_sha256 :: string
  da_completion_receipt_sha256 :: string
  da_repository :: git_delivery_repository_identity
  da_target_ref :: string
  da_pre_revision :: string
  da_applied_revision :: string
  da_signed_source_revision :: string
  da_signed_result_revision :: string
  da_effective_policy_sha256 :: string
  da_strategy :: git_delivery_strategy
  da_signature :: string

record validated_git_delivery_intent =
  vi_intent :: git_delivery_intent
  vi_sha256 :: string

record validated_applied_git_delivery_receipt =
  va_receipt :: applied_git_delivery_receipt
  va_sha256 :: string
  va_intent_sha256 :: string

section \<open>Parameters\<close>

text \<open>One answer of \<open>fstat\<close> or \<open>lstat\<close>, and the three taken around a read.\<close>

record file_identity =
  fi_kind :: file_kind
  fi_inode :: "nat \<times> nat"
  fi_len :: nat

record artifact_probe =
  ap_opened :: "io_error_kind + file_identity"
  ap_before :: "io_error_kind + file_identity"
  ap_after :: "io_error_kind + file_identity"

text \<open>
  The compact rendering that is signed, the digest and keyed hash of the \<open>sha2\<close> and \<open>hmac\<close> crates (no
  answer when a key is refused), canonical paths, the metadata of files, and running Git: its success,
  output and error output.
\<close>

record delivery_env =
  de_home :: path
  de_meta :: meta_view
  de_probe :: "fs \<Rightarrow> path \<Rightarrow> artifact_probe"
  de_canonicalize :: "path \<Rightarrow> io_error_kind + path"
  de_digest :: "bytes \<Rightarrow> bytes"
  de_hmac :: "bytes \<Rightarrow> bytes \<Rightarrow> bytes option"
  de_intent :: "git_delivery_intent codec"
  de_intent_compact :: "git_delivery_intent \<Rightarrow> bytes option"
  de_applied :: "applied_git_delivery_receipt codec"
  de_applied_compact :: "applied_git_delivery_receipt \<Rightarrow> bytes option"
  de_git :: "path \<Rightarrow> string list \<Rightarrow> (bool \<times> bytes \<times> bytes) res"

definition delivery_error :: "delivery_fault \<Rightarrow> dr_error" where
  "delivery_error f = InvalidInput (DeliveryFault f)"

section \<open>Shapes\<close>

definition require_nonempty :: "string \<Rightarrow> string \<Rightarrow> unit res" where
  "require_nonempty v label = (if blank v then Inl (delivery_error (DeliveryEmpty label)) else Inr ())"

definition is_ascii_hexdigit :: "char \<Rightarrow> bool" where
  "is_ascii_hexdigit c =
    (let n = (of_char c :: nat) in
     48 \<le> n \<and> n \<le> 57 \<or> 65 \<le> n \<and> n \<le> 70 \<or> 97 \<le> n \<and> n \<le> 102)"

definition require_digest :: "string \<Rightarrow> string \<Rightarrow> unit res" where
  "require_digest v label =
    (case strip_prefix v ''sha256:'' of
       None \<Rightarrow> Inl (delivery_error (DeliveryDigest label))
     | Some hex \<Rightarrow>
        if length hex = 64 \<and> list_all is_ascii_hexdigit hex then Inr ()
        else Inl (delivery_error (DeliveryDigest label)))"

definition require_revision :: "string \<Rightarrow> string \<Rightarrow> unit res" where
  "require_revision v label =
    (if (length v = 40 \<or> length v = 64) \<and> list_all is_ascii_hexdigit v then Inr ()
     else Inl (delivery_error (DeliveryRevision label)))"

definition validate_target_ref :: "string \<Rightarrow> unit res" where
  "validate_target_ref r =
    (if starts_with r ''refs/heads/'' \<and> length r > length ''refs/heads/'' then Inr ()
     else Inl (delivery_error (DeliveryTargetRef r)))"

definition validate_repository_path :: "delivery_env \<Rightarrow> string \<Rightarrow> path \<Rightarrow> unit res" where
  "validate_repository_path de label p =
    (if \<not> is_absolute p then Inl (delivery_error (RepositoryNotAbsolute label p))
     else case de_canonicalize de p of
       Inl k \<Rightarrow> Inl (Io p k)
     | Inr canonical \<Rightarrow>
        if canonical \<noteq> p then Inl (delivery_error (RepositoryNotCanonical label p canonical)) else Inr ())"

definition validate_repository :: "delivery_env \<Rightarrow> git_delivery_repository_identity \<Rightarrow> unit res" where
  "validate_repository de r =
    res_bind (validate_repository_path de ''worktree root'' (gr_worktree_root r)) (\<lambda>_.
    validate_repository_path de ''Git common directory'' (gr_git_common_dir r))"

definition validate_intent_shape :: "delivery_env \<Rightarrow> git_delivery_intent \<Rightarrow> unit res" where
  "validate_intent_shape de i =
    res_bind (require_nonempty (di_job_id i) ''Job ID'') (\<lambda>_.
    res_bind (require_nonempty (di_run_id i) ''run ID'') (\<lambda>_.
    res_bind (require_digest (di_completion_receipt_sha256 i) ''completion receipt'') (\<lambda>_.
    res_bind (validate_repository de (di_repository i)) (\<lambda>_.
    res_bind (validate_target_ref (di_target_ref i)) (\<lambda>_.
    res_bind (require_revision (di_pre_revision i) ''pre-delivery revision'') (\<lambda>_.
    res_bind (require_revision (di_signed_source_revision i) ''signed source revision'') (\<lambda>_.
    res_bind (require_revision (di_signed_result_revision i) ''signed result revision'') (\<lambda>_.
    require_digest (di_effective_policy_sha256 i) ''effective policy''))))))))"

definition validate_applied_shape :: "delivery_env \<Rightarrow> applied_git_delivery_receipt \<Rightarrow> unit res" where
  "validate_applied_shape de a =
    res_bind (require_nonempty (da_job_id a) ''Job ID'') (\<lambda>_.
    res_bind (require_nonempty (da_run_id a) ''run ID'') (\<lambda>_.
    res_bind (require_digest (da_delivery_intent_sha256 a) ''delivery intent'') (\<lambda>_.
    res_bind (require_digest (da_completion_receipt_sha256 a) ''completion receipt'') (\<lambda>_.
    res_bind (validate_repository de (da_repository a)) (\<lambda>_.
    res_bind (validate_target_ref (da_target_ref a)) (\<lambda>_.
    res_bind (require_revision (da_pre_revision a) ''pre-delivery revision'') (\<lambda>_.
    res_bind (require_revision (da_applied_revision a) ''applied revision'') (\<lambda>_.
    res_bind (require_revision (da_signed_source_revision a) ''signed source revision'') (\<lambda>_.
    res_bind (require_revision (da_signed_result_revision a) ''signed result revision'') (\<lambda>_.
    res_bind (require_digest (da_effective_policy_sha256 a) ''effective policy'') (\<lambda>_.
    if da_pre_revision a = da_applied_revision a then Inl (delivery_error AppliedNoOp) else Inr ())))))))))))"

definition validate_applied_binding ::
    "applied_git_delivery_receipt \<Rightarrow> git_delivery_intent \<Rightarrow> string \<Rightarrow> unit res" where
  "validate_applied_binding a i intent_sha256 =
    (if da_delivery_intent_sha256 a \<noteq> intent_sha256
        \<or> da_job_id a \<noteq> di_job_id i
        \<or> da_run_id a \<noteq> di_run_id i
        \<or> da_completion_receipt_sha256 a \<noteq> di_completion_receipt_sha256 i
        \<or> da_repository a \<noteq> di_repository i
        \<or> da_target_ref a \<noteq> di_target_ref i
        \<or> da_pre_revision a \<noteq> di_pre_revision i
        \<or> da_signed_source_revision a \<noteq> di_signed_source_revision i
        \<or> da_signed_result_revision a \<noteq> di_signed_result_revision i
        \<or> da_effective_policy_sha256 a \<noteq> di_effective_policy_sha256 i
        \<or> da_strategy a \<noteq> di_strategy i
     then Inl (delivery_error AppliedBinding) else Inr ())"

section \<open>Signatures\<close>

definition DELIVERY_INTENT_MAGIC :: bytes where
  "DELIVERY_INTENT_MAGIC = ''deadreckon.git-delivery-intent.v1'' @ [CHR 0x00]"

definition APPLIED_DELIVERY_MAGIC :: bytes where
  "APPLIED_DELIVERY_MAGIC = ''deadreckon.applied-git-delivery.v1'' @ [CHR 0x00]"

definition be_bytes8 :: "nat \<Rightarrow> bytes" where
  "be_bytes8 n = map (\<lambda>i. char_of (n div 256 ^ i mod 256)) [7, 6, 5, 4, 3, 2, 1, 0]"

definition canonical_bytes :: "bytes \<Rightarrow> bytes option \<Rightarrow> path \<Rightarrow> bytes res" where
  "canonical_bytes magic rendered p =
    res_bind (ok_or rendered (Json p)) (\<lambda>encoded.
    if length encoded \<ge> 2 ^ 64 then Inl (delivery_error AuthorityTooLarge)
    else Inr (magic @ be_bytes8 (length encoded) @ encoded))"

definition canonical_intent_bytes :: "delivery_env \<Rightarrow> git_delivery_intent \<Rightarrow> bytes res" where
  "canonical_intent_bytes de i =
    canonical_bytes DELIVERY_INTENT_MAGIC (de_intent_compact de (i\<lparr>di_signature := []\<rparr>)) (components ''delivery/intent.json'')"

definition canonical_applied_bytes :: "delivery_env \<Rightarrow> applied_git_delivery_receipt \<Rightarrow> bytes res" where
  "canonical_applied_bytes de a =
    canonical_bytes APPLIED_DELIVERY_MAGIC (de_applied_compact de (a\<lparr>da_signature := []\<rparr>))
      (components ''delivery/applied-receipt.json'')"

definition sign_bytes :: "delivery_env \<Rightarrow> bytes \<Rightarrow> bytes \<Rightarrow> string res" where
  "sign_bytes de bs key =
    (case de_hmac de key bs of None \<Rightarrow> Inl (delivery_error HmacKeyRefused) | Some mac \<Rightarrow> Inr (hex_encode mac))"

definition verify_bytes :: "delivery_env \<Rightarrow> bytes \<Rightarrow> string \<Rightarrow> bytes \<Rightarrow> string \<Rightarrow> unit res" where
  "verify_bytes de bs signature key label =
    (case hex_decode signature of
       Inl f \<Rightarrow> Inl (delivery_error (SignatureText label f))
     | Inr mac \<Rightarrow>
        (case de_hmac de key bs of
           None \<Rightarrow> Inl (delivery_error HmacKeyRefused)
         | Some expected \<Rightarrow> if expected = mac then Inr () else Inl (delivery_error (SignatureMismatch label))))"

definition sign_intent :: "delivery_env \<Rightarrow> git_delivery_intent \<Rightarrow> bytes \<Rightarrow> string res" where
  "sign_intent de i key = res_bind (canonical_intent_bytes de i) (\<lambda>bs. sign_bytes de bs key)"

definition verify_intent_signature :: "delivery_env \<Rightarrow> git_delivery_intent \<Rightarrow> bytes \<Rightarrow> unit res" where
  "verify_intent_signature de i key =
    res_bind (canonical_intent_bytes de i) (\<lambda>bs. verify_bytes de bs (di_signature i) key ''delivery intent'')"

definition sign_applied :: "delivery_env \<Rightarrow> applied_git_delivery_receipt \<Rightarrow> bytes \<Rightarrow> string res" where
  "sign_applied de a key = res_bind (canonical_applied_bytes de a) (\<lambda>bs. sign_bytes de bs key)"

definition verify_applied_signature :: "delivery_env \<Rightarrow> applied_git_delivery_receipt \<Rightarrow> bytes \<Rightarrow> unit res" where
  "verify_applied_signature de a key =
    res_bind (canonical_applied_bytes de a) (\<lambda>bs. verify_bytes de bs (da_signature a) key ''applied delivery receipt'')"

section \<open>Reading the sealed files\<close>

definition same_open_file :: "file_identity \<Rightarrow> file_identity \<Rightarrow> bool" where
  "same_open_file l r \<longleftrightarrow> fi_inode l = fi_inode r"

definition stat_result :: "path \<Rightarrow> io_error_kind + file_identity \<Rightarrow> file_identity res" where
  "stat_result p answer = (case answer of Inl k \<Rightarrow> Inl (Io p k) | Inr f \<Rightarrow> Inr f)"

definition check_artifact :: "path \<Rightarrow> artifact_probe \<Rightarrow> bytes \<Rightarrow> unit res" where
  "check_artifact p probe bs =
    res_bind (stat_result p (ap_opened probe)) (\<lambda>opened.
    res_bind (stat_result p (ap_before probe)) (\<lambda>before.
    if fi_kind opened \<noteq> RegularFile \<or> fi_kind before \<noteq> RegularFile then
      Inl (delivery_error (ArtifactNotRegular p))
    else if \<not> same_open_file opened before then Inl (delivery_error (ArtifactSwappedOpening p))
    else res_bind (stat_result p (ap_after probe)) (\<lambda>after.
      if fi_kind after \<noteq> RegularFile \<or> \<not> same_open_file opened after \<or> fi_len opened \<noteq> length bs then
        Inl (delivery_error (ArtifactSwappedReading p))
      else Inr ())))"

definition read_regular_artifact :: "delivery_env \<Rightarrow> path \<Rightarrow> bytes io" where
  "read_regular_artifact de p =
    io_bind (fs_read p) (\<lambda>bs s.
      (res_bind (check_artifact p (de_probe de s p) bs) (\<lambda>_. Inr bs), s))"

definition sha256_bytes :: "delivery_env \<Rightarrow> bytes \<Rightarrow> string" where
  "sha256_bytes de bs = ''sha256:'' @ hex_encode (de_digest de bs)"

definition gate_key_of :: "delivery_env \<Rightarrow> string \<Rightarrow> bytes io" where
  "gate_key_of de run_id = read_gate_key (de_meta de) (de_home de) run_id"

definition validate_git_delivery_intent_snapshot ::
    "delivery_env \<Rightarrow> string \<Rightarrow> validated_git_delivery_intent io" where
  "validate_git_delivery_intent_snapshot de job_id =
    (let p = job_delivery_intent (de_home de) job_id in
     io_bind (read_regular_artifact de p) (\<lambda>bs.
     io_bind (io_lift (parse_json (de_intent de) p bs)) (\<lambda>i.
     io_bind (io_when (di_job_id i \<noteq> job_id) (delivery_error (IntentNamesJob p (di_job_id i)))) (\<lambda>_.
     io_bind (io_lift (validate_intent_shape de i)) (\<lambda>_.
     io_bind (gate_key_of de (di_run_id i)) (\<lambda>key.
     io_bind (io_lift (verify_intent_signature de i key)) (\<lambda>_.
     io_return \<lparr>vi_intent = i, vi_sha256 = sha256_bytes de bs\<rparr>)))))))"

definition validate_git_delivery_intent :: "delivery_env \<Rightarrow> string \<Rightarrow> git_delivery_intent io" where
  "validate_git_delivery_intent de job_id =
    io_bind (validate_git_delivery_intent_snapshot de job_id) (\<lambda>v. io_return (vi_intent v))"

definition validate_applied_git_delivery_receipt_snapshot ::
    "delivery_env \<Rightarrow> string \<Rightarrow> validated_applied_git_delivery_receipt io" where
  "validate_applied_git_delivery_receipt_snapshot de job_id =
    (let p = job_applied_delivery_receipt (de_home de) job_id in
     io_bind (read_regular_artifact de p) (\<lambda>bs.
     io_bind (io_lift (parse_json (de_applied de) p bs)) (\<lambda>a.
     io_bind (io_when (da_job_id a \<noteq> job_id) (delivery_error (AppliedNamesJob p (da_job_id a)))) (\<lambda>_.
     io_bind (io_lift (validate_applied_shape de a)) (\<lambda>_.
     io_bind (gate_key_of de (da_run_id a)) (\<lambda>key.
     io_bind (io_lift (verify_applied_signature de a key)) (\<lambda>_.
     io_bind (validate_git_delivery_intent_snapshot de job_id) (\<lambda>v.
     io_bind (io_lift (validate_applied_binding a (vi_intent v) (vi_sha256 v))) (\<lambda>_.
     io_return \<lparr>va_receipt = a, va_sha256 = sha256_bytes de bs, va_intent_sha256 = vi_sha256 v\<rparr>)))))))))"

definition validate_applied_git_delivery_receipt :: "delivery_env \<Rightarrow> string \<Rightarrow> applied_git_delivery_receipt io" where
  "validate_applied_git_delivery_receipt de job_id =
    io_bind (validate_applied_git_delivery_receipt_snapshot de job_id) (\<lambda>v. io_return (va_receipt v))"

section \<open>Sealing\<close>

definition seal_git_delivery_intent :: "delivery_env \<Rightarrow> git_delivery_intent \<Rightarrow> git_delivery_intent io" where
  "seal_git_delivery_intent de i =
    io_bind (io_lift (validate_intent_shape de i)) (\<lambda>_.
    io_bind (io_when (di_signature i \<noteq> []) (delivery_error IntentSubmittedSigned)) (\<lambda>_.
    io_bind (gate_key_of de (di_run_id i)) (\<lambda>key.
    io_bind (io_lift (sign_intent de i key)) (\<lambda>signature.
    let sealed = i\<lparr>di_signature := signature\<rparr> in
    io_bind (persist_new_json (de_intent de) (job_delivery_intent (de_home de) (di_job_id sealed)) sealed) (\<lambda>created.
    if created then io_return sealed
    else io_bind (validate_git_delivery_intent_snapshot de (di_job_id sealed)) (\<lambda>existing.
      if vi_intent existing = sealed then io_return (vi_intent existing)
      else io_throw (delivery_error (IntentDiffers (di_job_id sealed)))))))))"

definition seal_applied_git_delivery_receipt ::
    "delivery_env \<Rightarrow> applied_git_delivery_receipt \<Rightarrow> applied_git_delivery_receipt io" where
  "seal_applied_git_delivery_receipt de a =
    io_bind (io_lift (validate_applied_shape de a)) (\<lambda>_.
    io_bind (io_when (da_signature a \<noteq> []) (delivery_error AppliedSubmittedSigned)) (\<lambda>_.
    io_bind (validate_git_delivery_intent_snapshot de (da_job_id a)) (\<lambda>v.
    io_bind (io_lift (validate_applied_binding a (vi_intent v) (vi_sha256 v))) (\<lambda>_.
    io_bind (gate_key_of de (da_run_id a)) (\<lambda>key.
    io_bind (io_lift (sign_applied de a key)) (\<lambda>signature.
    let sealed = a\<lparr>da_signature := signature\<rparr> in
    io_bind (persist_new_json (de_applied de) (job_applied_delivery_receipt (de_home de) (da_job_id sealed)) sealed) (\<lambda>created.
    if created then io_return sealed
    else io_bind (validate_applied_git_delivery_receipt_snapshot de (da_job_id sealed)) (\<lambda>existing.
      if va_receipt existing = sealed then io_return (va_receipt existing)
      else io_throw (delivery_error (AppliedDiffers (da_job_id sealed)))))))))))"

section \<open>The target\<close>

record git_delivery_target =
  gt_repository :: git_delivery_repository_identity
  gt_target_ref :: string
  gt_head_revision :: string

definition canonical_path :: "delivery_env \<Rightarrow> path \<Rightarrow> path res" where
  "canonical_path de p = (case de_canonicalize de p of Inl k \<Rightarrow> Inl (Io p k) | Inr c \<Rightarrow> Inr c)"

definition git_stdout :: "delivery_env \<Rightarrow> path \<Rightarrow> string list \<Rightarrow> string res" where
  "git_stdout de cwd args =
    res_bind (de_git de cwd args) (\<lambda>(success, stdout, stderr).
    if \<not> success then Inl (delivery_error (GitFailed args cwd))
    else let v = trim (from_utf8_lossy stdout) in
      if v = [] then Inl (delivery_error (GitEmptyValue args cwd)) else Inr v)"

definition inspect :: "delivery_env \<Rightarrow> path \<Rightarrow> git_delivery_target res" where
  "inspect de p =
    res_bind (canonical_path de p) (\<lambda>requested.
    res_bind (git_stdout de requested [''rev-parse'', ''--show-toplevel'']) (\<lambda>toplevel.
    res_bind (canonical_path de (components toplevel)) (\<lambda>worktree_root.
    if requested \<noteq> worktree_root then Inl (delivery_error (TargetNotWorktreeRoot requested worktree_root))
    else
      res_bind (git_stdout de worktree_root [''rev-parse'', ''--git-common-dir'']) (\<lambda>common.
      let common = components common;
          common = (if is_absolute common then common else join_path worktree_root common) in
      res_bind (canonical_path de common) (\<lambda>git_common_dir.
      res_bind (case git_stdout de worktree_root [''symbolic-ref'', ''-q'', ''HEAD''] of
          Inl _ \<Rightarrow> Inl (delivery_error TargetDetached) | Inr r \<Rightarrow> Inr r) (\<lambda>target_ref.
      if \<not> starts_with target_ref ''refs/heads/'' then Inl (delivery_error (DeliveryTargetRef target_ref))
      else
        res_bind (git_stdout de worktree_root [''rev-parse'', ''--verify'', ''HEAD^{commit}'']) (\<lambda>head_revision.
        Inr \<lparr>gt_repository = \<lparr>gr_worktree_root = worktree_root, gr_git_common_dir = git_common_dir\<rparr>,
          gt_target_ref = target_ref, gt_head_revision = head_revision\<rparr>)))))))"

section \<open>The operation lock\<close>

text \<open>
  The lock file of one job: present or not, what \<open>fstat\<close> and \<open>lstat\<close> say of it, whether some process
  holds its lock, and the failures of opening it. Nothing removes the file.
\<close>

record operation_lock =
  ol_present :: bool
  ol_opened :: "io_error_kind + file_identity"
  ol_linked :: "io_error_kind + file_identity"
  ol_held :: bool
  ol_open_fault :: "io_error_kind option"

type_synonym 'a lock_io = "operation_lock \<Rightarrow> 'a res \<times> operation_lock"

record job_operation_lock_guard =
  jg_job_id :: string

definition check_lock_file :: "path \<Rightarrow> operation_lock \<Rightarrow> unit res" where
  "check_lock_file p w =
    res_bind (stat_result p (ol_opened w)) (\<lambda>opened.
    res_bind (stat_result p (ol_linked w)) (\<lambda>linked.
    if fi_kind opened \<noteq> RegularFile \<or> fi_kind linked \<noteq> RegularFile \<or> \<not> same_open_file opened linked then
      Inl (delivery_error (OperationLockNotRegular p))
    else Inr ()))"

definition take_operation_lock :: "path \<Rightarrow> string \<Rightarrow> job_operation_lock_guard lock_io" where
  "take_operation_lock p job_id w =
    (case check_lock_file p w of
       Inl e \<Rightarrow> (Inl e, w)
     | Inr _ \<Rightarrow>
        if ol_held w then (Inl (InvalidInput (JobOperationActive job_id)), w)
        else (Inr \<lparr>jg_job_id = job_id\<rparr>, w\<lparr>ol_held := True\<rparr>))"

definition acquire_job_operation_lock :: "path \<Rightarrow> string \<Rightarrow> job_operation_lock_guard lock_io" where
  "acquire_job_operation_lock home job_id w =
    (case require_nonempty job_id ''Job ID'' of
       Inl e \<Rightarrow> (Inl e, w)
     | Inr _ \<Rightarrow>
        (case ol_open_fault w of
           Some k \<Rightarrow> (Inl (Io (job_operation_lock home job_id) k), w)
         | None \<Rightarrow> take_operation_lock (job_operation_lock home job_id) job_id (w\<lparr>ol_present := True\<rparr>)))"

definition probe_job_operation_lock :: "path \<Rightarrow> string \<Rightarrow> job_operation_lock_guard option lock_io" where
  "probe_job_operation_lock home job_id w =
    (case require_nonempty job_id ''Job ID'' of
       Inl e \<Rightarrow> (Inl e, w)
     | Inr _ \<Rightarrow>
        (case ol_open_fault w of
           Some k \<Rightarrow>
             if k = IoNotFound then (Inr None, w) else (Inl (Io (job_operation_lock home job_id) k), w)
         | None \<Rightarrow>
             if \<not> ol_present w then (Inr None, w)
             else (case take_operation_lock (job_operation_lock home job_id) job_id w of
                (Inl e, w) \<Rightarrow> (Inl e, w)
              | (Inr g, w) \<Rightarrow> (Inr (Some g), w))))"

definition drop_operation_lock :: "operation_lock \<Rightarrow> operation_lock" where
  "drop_operation_lock w = w\<lparr>ol_held := False\<rparr>"

section \<open>Signatures verify\<close>

lemma verify_signed:
  assumes "sign_bytes de bs key = Inr signature"
  shows "verify_bytes de bs signature key label = Inr ()"
  using assms by (auto simp: sign_bytes_def verify_bytes_def hex_roundtrip split: option.splits)

lemma verify_signed_intent:
  assumes "sign_intent de i key = Inr signature"
  shows "verify_intent_signature de (i\<lparr>di_signature := signature\<rparr>) key = Inr ()"
  using assms verify_signed
  by (auto simp: sign_intent_def verify_intent_signature_def canonical_intent_bytes_def res_bind_def split: sum.splits)

lemma verify_signed_applied:
  assumes "sign_applied de a key = Inr signature"
  shows "verify_applied_signature de (a\<lparr>da_signature := signature\<rparr>) key = Inr ()"
  using assms verify_signed
  by (auto simp: sign_applied_def verify_applied_signature_def canonical_applied_bytes_def res_bind_def split: sum.splits)

lemma verify_bytes_Inr:
  assumes "verify_bytes de bs signature key label = Inr ()"
  shows "\<exists>mac. de_hmac de key bs = Some mac \<and> hex_decode signature = Inr mac"
  using assms by (auto simp: verify_bytes_def split: sum.splits option.splits if_splits)

lemma shape_ignores_signature [simp]:
  "validate_intent_shape de (i\<lparr>di_signature := x\<rparr>) = validate_intent_shape de i"
  "validate_applied_shape de (a\<lparr>da_signature := x\<rparr>) = validate_applied_shape de a"
  "validate_applied_binding (a\<lparr>da_signature := x\<rparr>) i h = validate_applied_binding a i h"
  by (simp_all add: validate_intent_shape_def validate_applied_shape_def validate_applied_binding_def)

section \<open>What is read, and where\<close>

text \<open>No process swaps or replaces files while they are read: what is there is a regular file.\<close>

definition files_are_regular :: "delivery_env \<Rightarrow> bool" where
  "files_are_regular de \<longleftrightarrow> (\<forall>s p b. files s p = Some b \<longrightarrow> check_artifact p (de_probe de s p) b = Inr ())"

lemma readonly_artifact [intro!]: "readonly (read_regular_artifact de p)"
  unfolding read_regular_artifact_def by (rule readonly_bind [OF readonly_reads(1)]) (simp add: readonly_def)

lemma readonly_gate_key_of [intro!]: "readonly (gate_key_of de r)"
  unfolding gate_key_of_def by auto

lemma readonly_validate [intro!]:
  "readonly (validate_git_delivery_intent_snapshot de j)"
  "readonly (validate_applied_git_delivery_receipt_snapshot de j)"
  unfolding validate_git_delivery_intent_snapshot_def validate_applied_git_delivery_receipt_snapshot_def Let_def
  by (intro readonly_bind readonly_intros readonly_artifact readonly_gate_key_of)+

lemma read_regular_artifact_Inr:
  "read_regular_artifact de p s = (Inr bs, s') \<longleftrightarrow>
    s' = s \<and> read_fault s p = None \<and> files s p = Some bs \<and> check_artifact p (de_probe de s p) bs = Inr ()"
  by (auto simp: read_regular_artifact_def io_bind_run res_bind_def fs_read_def split: prod.splits sum.splits option.splits)

lemma gate_key_of_put:
  assumes "p \<noteq> gate_key_path (de_home de) r" "gate_key_of de r s = (Inr key, s)"
  shows "gate_key_of de r (put_file p b s) = (Inr key, put_file p b s)"
proof -
  have "fs_read_optional q (put_file p b s) = (fst (fs_read_optional q s), put_file p b s)" if "q \<noteq> p" for q
    using that by (simp add: fs_read_optional_def fs_read_def put_file_def split: option.splits io_error_kind.splits)
  with assms show ?thesis
    by (auto simp: gate_key_of_def read_gate_key_def read_gate_key_at_path_def io_bind_run
        split: prod.splits sum.splits option.splits)
qed

lemma intent_snapshot_Inr:
  "validate_git_delivery_intent_snapshot de j s = (Inr v, s') \<longleftrightarrow>
    s' = s \<and> (\<exists>bs i key. files s (job_delivery_intent (de_home de) j) = Some bs
      \<and> read_regular_artifact de (job_delivery_intent (de_home de) j) s = (Inr bs, s)
      \<and> dec (de_intent de) bs = Some i \<and> di_job_id i = j \<and> validate_intent_shape de i = Inr ()
      \<and> gate_key_of de (di_run_id i) s = (Inr key, s) \<and> verify_intent_signature de i key = Inr ()
      \<and> v = \<lparr>vi_intent = i, vi_sha256 = sha256_bytes de bs\<rparr>)" (is "?l \<longleftrightarrow> ?r")
proof
  assume l: ?l
  then obtain bs s1 i key s2 where r: "read_regular_artifact de (job_delivery_intent (de_home de) j) s = (Inr bs, s1)"
      "dec (de_intent de) bs = Some i" "di_job_id i = j" "validate_intent_shape de i = Inr ()"
      "gate_key_of de (di_run_id i) s1 = (Inr key, s2)" "verify_intent_signature de i key = Inr ()" "s' = s2"
      "v = \<lparr>vi_intent = i, vi_sha256 = sha256_bytes de bs\<rparr>"
    by (auto simp: validate_git_delivery_intent_snapshot_def Let_def result_simps parse_json_def ok_or_def
        split: option.splits if_splits)
  moreover have "s1 = s" "s2 = s1"
    using readonlyD [OF readonly_artifact r(1)] readonlyD [OF readonly_gate_key_of r(5)] by simp_all
  ultimately show ?r using read_regular_artifact_Inr by fastforce
next
  assume ?r
  then show ?l
    by (auto simp: validate_git_delivery_intent_snapshot_def Let_def io_bind_run parse_json_def ok_or_def)
qed

lemma sealed_paths:
  "\<exists>q. job_delivery_intent home j = q @ [Normal ''intent.json'']"
  "\<exists>q. job_applied_delivery_receipt home j = q @ [Normal ''applied-receipt.json'']"
proof -
  have "plain ''intent.json''" "plain ''applied-receipt.json''" by (simp_all add: plain_def)
  then show "\<exists>q. job_delivery_intent home j = q @ [Normal ''intent.json'']"
    "\<exists>q. job_applied_delivery_receipt home j = q @ [Normal ''applied-receipt.json'']"
    by (simp_all add: job_delivery_intent_def job_applied_delivery_receipt_def join_plain)
qed

lemma sealed_paths_differ:
  "job_delivery_intent home j \<noteq> gate_key_path home' r" "job_applied_delivery_receipt home j \<noteq> gate_key_path home' r"
  "job_delivery_intent home j \<noteq> job_applied_delivery_receipt home j'"
proof -
  have "stem @ ''.key'' \<noteq> ''intent.json''" "stem @ ''.key'' \<noteq> ''applied-receipt.json''" for stem
    using arg_cong [of "stem @ ''.key''" _ last] by fastforce+
  then show "job_delivery_intent home j \<noteq> gate_key_path home' r"
    "job_applied_delivery_receipt home j \<noteq> gate_key_path home' r"
    "job_delivery_intent home j \<noteq> job_applied_delivery_receipt home j'"
    using sealed_paths(1) [of home j] sealed_paths(2) [of home j] sealed_paths(2) [of home j']
    by (auto simp: gate_key_path_eq)
qed

section \<open>Sealed once\<close>

text \<open>\<open>persist_new_json\<close> either creates the file or changes nothing; it has rendered the value before.\<close>

lemma persist_new_json_cases:
  assumes "persist_new_json c p v s = (Inr created, s')"
  obtains b where "enc c v = Some b" "path_parent p \<noteq> None"
    "created \<longrightarrow> s' = put_file p (b @ [newline]) s \<and> files s p = None" "\<not> created \<longrightarrow> s' = s"
  using assms by (auto simp: persist_new_json_def split: option.splits if_splits)

lemma persist_taken: "enc c v = Some b \<Longrightarrow> path_parent p \<noteq> None \<Longrightarrow> files s p \<noteq> None \<Longrightarrow> persist_new_json c p v s = (Inr False, s)"
  by (auto simp: persist_new_json_def)

lemma seal_intent_cases:
  assumes "seal_git_delivery_intent de i s = (Inr sealed, s')"
  obtains key signature created where
    "validate_intent_shape de i = Inr ()" "di_signature i = []" "gate_key_of de (di_run_id i) s = (Inr key, s)"
    "sign_intent de i key = Inr signature"
    "persist_new_json (de_intent de) (job_delivery_intent (de_home de) (di_job_id i)) (i\<lparr>di_signature := signature\<rparr>) s
      = (Inr created, s')"
    "sealed = i\<lparr>di_signature := signature\<rparr>"
    "\<not> created \<longrightarrow> (\<exists>v. validate_git_delivery_intent_snapshot de (di_job_id i) s = (Inr v, s) \<and> vi_intent v = sealed)"
proof -
  from assms obtain key s1 signature created s2 where r:
      "validate_intent_shape de i = Inr ()" "di_signature i = []" "gate_key_of de (di_run_id i) s = (Inr key, s1)"
      "sign_intent de i key = Inr signature"
      "persist_new_json (de_intent de) (job_delivery_intent (de_home de) (di_job_id i)) (i\<lparr>di_signature := signature\<rparr>) s1
        = (Inr created, s2)"
    and rest: "(if created then io_return (i\<lparr>di_signature := signature\<rparr>)
        else io_bind (validate_git_delivery_intent_snapshot de (di_job_id i)) (\<lambda>existing.
          if vi_intent existing = i\<lparr>di_signature := signature\<rparr> then io_return (vi_intent existing)
          else io_throw (delivery_error (IntentDiffers (di_job_id i))))) s2 = (Inr sealed, s')"
    by (auto simp: seal_git_delivery_intent_def Let_def result_simps split: if_splits)
  have s1: "s1 = s" using readonlyD [OF readonly_gate_key_of r(3)] .
  show thesis
  proof (cases created)
    case True
    with rest r s1 show thesis by (intro that) auto
  next
    case False
    then have "s2 = s" using persist_new_json_cases [OF r(5)] s1 by metis
    with False rest obtain v s3 where "validate_git_delivery_intent_snapshot de (di_job_id i) s = (Inr v, s3)"
        "vi_intent v = i\<lparr>di_signature := signature\<rparr>" "sealed = vi_intent v" "s' = s3"
      by (auto simp: result_simps split: if_splits)
    moreover have "s3 = s" using readonlyD [OF readonly_validate(1) calculation(1)] .
    ultimately show thesis using r s1 \<open>s2 = s\<close> by (intro that) auto
  qed
qed

lemma seal_intent_reads_back:
  assumes "seal_git_delivery_intent de i s = (Inr sealed, s')"
    "document_ok (de_intent de) sealed" "files_are_regular de"
    "read_fault s (job_delivery_intent (de_home de) (di_job_id i)) = None"
  shows "\<exists>v. validate_git_delivery_intent_snapshot de (di_job_id i) s' = (Inr v, s') \<and> vi_intent v = sealed"
proof -
  let ?p = "job_delivery_intent (de_home de) (di_job_id i)"
  from assms(1) obtain key signature created where r:
    "validate_intent_shape de i = Inr ()" "gate_key_of de (di_run_id i) s = (Inr key, s)"
    "sign_intent de i key = Inr signature" "persist_new_json (de_intent de) ?p (i\<lparr>di_signature := signature\<rparr>) s = (Inr created, s')"
    "sealed = i\<lparr>di_signature := signature\<rparr>"
    "\<not> created \<longrightarrow> (\<exists>v. validate_git_delivery_intent_snapshot de (di_job_id i) s = (Inr v, s) \<and> vi_intent v = sealed)"
    by (rule seal_intent_cases)
  obtain b where b: "enc (de_intent de) sealed = Some b" "created \<longrightarrow> s' = put_file ?p (b @ [newline]) s" "\<not> created \<longrightarrow> s' = s"
    using persist_new_json_cases [OF r(4)] r(5) by metis
  show ?thesis
  proof (cases created)
    case True
    then have s': "s' = put_file ?p (b @ [newline]) s" using b(2) by simp
    have "gate_key_of de (di_run_id i) s' = (Inr key, s')"
      unfolding s' by (rule gate_key_of_put [OF sealed_paths_differ(1) r(2)])
    moreover have "dec (de_intent de) (b @ [newline]) = Some sealed" using assms(2) b(1) by (simp add: document_ok_def)
    moreover have "read_regular_artifact de ?p s' = (Inr (b @ [newline]), s')"
      using assms(3,4) by (simp add: read_regular_artifact_Inr files_are_regular_def s')
    ultimately show ?thesis
      using r(1,5) verify_signed_intent [OF r(3)] by (auto simp: intent_snapshot_Inr s')
  next
    case False
    then show ?thesis using r(6) b(3) by simp
  qed
qed

text \<open>
  C36: A sealed delivery intent carries a signature that verifies and is read back exactly as sealed;
  sealing the same intent again gives the same answer, and no different intent can be sealed for the
  job afterwards: whatever sealing returns, it is the first intent, and the disk keeps it.
\<close>

theorem sealed_intent_is_final:
  assumes "seal_git_delivery_intent de i s = (Inr sealed, s')"
    "document_ok (de_intent de) sealed" "files_are_regular de"
    "read_fault s (job_delivery_intent (de_home de) (di_job_id i)) = None"
  shows "validate_git_delivery_intent de (di_job_id i) s' = (Inr sealed, s')
    \<and> sealed = i\<lparr>di_signature := di_signature sealed\<rparr>
    \<and> seal_git_delivery_intent de i s' = (Inr sealed, s')
    \<and> (di_job_id i' = di_job_id i \<and> seal_git_delivery_intent de i' s' = (Inr x, s'') \<longrightarrow> x = sealed \<and> s'' = s')"
proof -
  let ?p = "job_delivery_intent (de_home de) (di_job_id i)"
  obtain v where v: "validate_git_delivery_intent_snapshot de (di_job_id i) s' = (Inr v, s')" "vi_intent v = sealed"
    using seal_intent_reads_back [OF assms] by blast
  then have there: "files s' ?p \<noteq> None" by (auto simp: intent_snapshot_Inr)
  from assms(1) obtain key signature created where r:
    "validate_intent_shape de i = Inr ()" "di_signature i = []" "gate_key_of de (di_run_id i) s = (Inr key, s)"
    "sign_intent de i key = Inr signature" "persist_new_json (de_intent de) ?p (i\<lparr>di_signature := signature\<rparr>) s = (Inr created, s')"
    "sealed = i\<lparr>di_signature := signature\<rparr>"
    by (rule seal_intent_cases)
  obtain b where b: "enc (de_intent de) sealed = Some b" "path_parent ?p \<noteq> None"
      "created \<longrightarrow> s' = put_file ?p (b @ [newline]) s" "\<not> created \<longrightarrow> s' = s"
    using persist_new_json_cases [OF r(5)] r(6) by metis
  have "gate_key_of de (di_run_id i) s' = (Inr key, s')"
    using b(3,4) r(3) gate_key_of_put [OF sealed_paths_differ(1) r(3)] by metis
  moreover have "persist_new_json (de_intent de) ?p sealed s' = (Inr False, s')" by (rule persist_taken [OF b(1,2) there])
  ultimately have again: "seal_git_delivery_intent de i s' = (Inr sealed, s')"
    using r(1,2,4,6) v by (simp add: seal_git_delivery_intent_def io_bind_run Let_def)
  have other: "x = sealed \<and> s'' = s'" if "di_job_id i' = di_job_id i" "seal_git_delivery_intent de i' s' = (Inr x, s'')"
  proof -
    from that(2) obtain key' signature' created' where o:
      "persist_new_json (de_intent de) (job_delivery_intent (de_home de) (di_job_id i')) (i'\<lparr>di_signature := signature'\<rparr>) s'
        = (Inr created', s'')"
      "\<not> created' \<longrightarrow> (\<exists>v. validate_git_delivery_intent_snapshot de (di_job_id i') s' = (Inr v, s') \<and> vi_intent v = x)"
      by (rule seal_intent_cases)
    have "\<not> created'" "s'' = s'" using persist_new_json_cases [OF o(1)] there that(1) by metis+
    then show ?thesis using o(2) v that(1) by auto
  qed
  show ?thesis
    using v r(6) again other by (auto simp: validate_git_delivery_intent_def io_bind_run)
qed

section \<open>Bound receipts\<close>

definition signed_by_run :: "delivery_env \<Rightarrow> fs \<Rightarrow> string \<Rightarrow> bytes res \<Rightarrow> string \<Rightarrow> bool" where
  "signed_by_run de s run_id message signature \<longleftrightarrow>
    (\<exists>key bs mac. gate_key_of de run_id s = (Inr key, s) \<and> message = Inr bs \<and> de_hmac de key bs = Some mac
      \<and> hex_decode signature = Inr mac)"

lemma intent_is_signed:
  assumes "validate_git_delivery_intent_snapshot de j s = (Inr v, s')"
  shows "signed_by_run de s (di_run_id (vi_intent v)) (canonical_intent_bytes de (vi_intent v)) (di_signature (vi_intent v))"
    "di_job_id (vi_intent v) = j" "\<exists>bs. files s (job_delivery_intent (de_home de) j) = Some bs \<and> vi_sha256 v = sha256_bytes de bs"
  using assms verify_bytes_Inr
  by (force simp: intent_snapshot_Inr verify_intent_signature_def signed_by_run_def result_simps)+

lemma applied_snapshot_cases:
  assumes "validate_applied_git_delivery_receipt_snapshot de j s = (Inr v, s')"
  obtains key vi where "s' = s" "da_job_id (va_receipt v) = j"
    "validate_applied_shape de (va_receipt v) = Inr ()" "gate_key_of de (da_run_id (va_receipt v)) s = (Inr key, s)"
    "verify_applied_signature de (va_receipt v) key = Inr ()"
    "validate_git_delivery_intent_snapshot de j s = (Inr vi, s)"
    "validate_applied_binding (va_receipt v) (vi_intent vi) (vi_sha256 vi) = Inr ()" "va_intent_sha256 v = vi_sha256 vi"
proof -
  from assms obtain bs s1 a key s2 vi s3 where r:
      "read_regular_artifact de (job_applied_delivery_receipt (de_home de) j) s = (Inr bs, s1)"
      "da_job_id a = j" "validate_applied_shape de a = Inr ()" "gate_key_of de (da_run_id a) s1 = (Inr key, s2)"
      "verify_applied_signature de a key = Inr ()" "validate_git_delivery_intent_snapshot de j s2 = (Inr vi, s3)"
      "validate_applied_binding a (vi_intent vi) (vi_sha256 vi) = Inr ()" "s' = s3"
      "v = \<lparr>va_receipt = a, va_sha256 = sha256_bytes de bs, va_intent_sha256 = vi_sha256 vi\<rparr>"
    by (auto simp: validate_applied_git_delivery_receipt_snapshot_def Let_def result_simps parse_json_def split: if_splits)
  moreover have "s1 = s" "s2 = s1" "s3 = s2"
    using readonlyD [OF readonly_artifact r(1)] readonlyD [OF readonly_gate_key_of r(4)]
      readonlyD [OF readonly_validate(1) r(6)] by simp_all
  ultimately show thesis by (intro that) auto
qed

text \<open>
  C35: An applied-delivery receipt that validates names the exact intent on disk by the digest of its
  bytes and agrees with it in every field, describes a change of revision, and both files carry the
  keyed hash of their contents under the protected key of their run.
\<close>

theorem applied_receipt_is_bound:
  assumes "validate_applied_git_delivery_receipt de j s = (Inr a, s')"
  shows "\<exists>v i bs. validate_git_delivery_intent_snapshot de j s = (Inr v, s) \<and> i = vi_intent v
    \<and> files s (job_delivery_intent (de_home de) j) = Some bs \<and> da_delivery_intent_sha256 a = sha256_bytes de bs
    \<and> da_job_id a = j \<and> da_run_id a = di_run_id i \<and> da_repository a = di_repository i
    \<and> da_target_ref a = di_target_ref i \<and> da_pre_revision a = di_pre_revision i
    \<and> da_signed_source_revision a = di_signed_source_revision i
    \<and> da_signed_result_revision a = di_signed_result_revision i
    \<and> da_completion_receipt_sha256 a = di_completion_receipt_sha256 i
    \<and> da_effective_policy_sha256 a = di_effective_policy_sha256 i \<and> da_strategy a = di_strategy i
    \<and> da_applied_revision a \<noteq> da_pre_revision a
    \<and> signed_by_run de s (di_run_id i) (canonical_intent_bytes de i) (di_signature i)
    \<and> signed_by_run de s (da_run_id a) (canonical_applied_bytes de a) (da_signature a)"
proof -
  from assms obtain v where "validate_applied_git_delivery_receipt_snapshot de j s = (Inr v, s')" and a: "a = va_receipt v"
    by (auto simp: validate_applied_git_delivery_receipt_def result_simps)
  from this(1) obtain key vi where r: "da_job_id a = j" "validate_applied_shape de a = Inr ()"
      "gate_key_of de (da_run_id a) s = (Inr key, s)" "verify_applied_signature de a key = Inr ()"
      "validate_git_delivery_intent_snapshot de j s = (Inr vi, s)"
      "validate_applied_binding a (vi_intent vi) (vi_sha256 vi) = Inr ()"
    unfolding a by (rule applied_snapshot_cases)
  have "signed_by_run de s (da_run_id a) (canonical_applied_bytes de a) (da_signature a)"
    using r(3,4) verify_bytes_Inr by (fastforce simp: verify_applied_signature_def signed_by_run_def result_simps)
  moreover have "da_applied_revision a \<noteq> da_pre_revision a"
    using r(2) by (auto simp: validate_applied_shape_def result_simps split: if_splits)
  moreover have "da_delivery_intent_sha256 a = vi_sha256 vi \<and> da_run_id a = di_run_id (vi_intent vi)
      \<and> da_repository a = di_repository (vi_intent vi)
      \<and> da_target_ref a = di_target_ref (vi_intent vi) \<and> da_pre_revision a = di_pre_revision (vi_intent vi)
      \<and> da_signed_source_revision a = di_signed_source_revision (vi_intent vi)
      \<and> da_signed_result_revision a = di_signed_result_revision (vi_intent vi)
      \<and> da_completion_receipt_sha256 a = di_completion_receipt_sha256 (vi_intent vi)
      \<and> da_effective_policy_sha256 a = di_effective_policy_sha256 (vi_intent vi) \<and> da_strategy a = di_strategy (vi_intent vi)"
    using r(6) by (auto simp: validate_applied_binding_def split: if_splits)
  ultimately show ?thesis using r(1,5) intent_is_signed [OF r(5)] by metis
qed

text \<open>
  The bytes signed for an intent are never the bytes signed for a receipt, and two intents are
  signed over the same bytes only when their renderings without signature are the same.
\<close>

theorem signed_bytes_are_unambiguous:
  assumes "canonical_intent_bytes de i = Inr bs"
  shows "canonical_applied_bytes de a \<noteq> Inr bs
    \<and> (canonical_intent_bytes de i' = Inr bs \<longleftrightarrow>
        de_intent_compact de (i'\<lparr>di_signature := []\<rparr>) = de_intent_compact de (i\<lparr>di_signature := []\<rparr>))"
proof -
  obtain e where e: "de_intent_compact de (i\<lparr>di_signature := []\<rparr>) = Some e" "length e < 2 ^ 64"
      "bs = DELIVERY_INTENT_MAGIC @ be_bytes8 (length e) @ e"
    using assms by (auto simp: canonical_intent_bytes_def canonical_bytes_def result_simps split: if_splits)
  have len: "length (be_bytes8 n) = 8" for n by (simp add: be_bytes8_def)
  have "canonical_intent_bytes de i' = Inr bs \<longleftrightarrow> de_intent_compact de (i'\<lparr>di_signature := []\<rparr>) = Some e"
    using e(2) by (cases "de_intent_compact de (i'\<lparr>di_signature := []\<rparr>)")
      (auto simp: canonical_intent_bytes_def canonical_bytes_def res_bind_def ok_or_def e(3) len)
  moreover have "bs \<noteq> APPLIED_DELIVERY_MAGIC @ rest" for rest
    by (simp add: e(3) DELIVERY_INTENT_MAGIC_def APPLIED_DELIVERY_MAGIC_def)
  ultimately show ?thesis
    using e(1) by (auto simp: canonical_applied_bytes_def canonical_bytes_def result_simps split: if_splits)
qed

section \<open>One operation at a time\<close>

text \<open>
  While one operation holds the lock of a job, every other one and every preview is refused; the file
  stays, so the next operation locks the same inode.
\<close>

lemma operation_lock_is_exclusive:
  assumes "acquire_job_operation_lock home j w = (Inr g, w')"
  shows "ol_held w' \<and> ol_present w'
    \<and> acquire_job_operation_lock home j w' = (Inl (InvalidInput (JobOperationActive j)), w')
    \<and> probe_job_operation_lock home j w' = (Inl (InvalidInput (JobOperationActive j)), w')
    \<and> fst (acquire_job_operation_lock home j (drop_operation_lock w')) = Inr g"
  using assms
  by (auto simp: acquire_job_operation_lock_def probe_job_operation_lock_def take_operation_lock_def check_lock_file_def stat_result_def
      require_nonempty_def drop_operation_lock_def res_bind_def split: sum.splits option.splits if_splits)

lemma probe_creates_nothing: "ol_present (snd (probe_job_operation_lock home j w)) = ol_present w"
  by (auto simp: probe_job_operation_lock_def take_operation_lock_def split: sum.splits option.splits if_splits prod.splits)

end
