(* ===== verification/Delivery_Examples.thy ===== *)
theory Delivery_Examples
  imports Delivery
begin

text \<open>The delivery properties at one run with its key, its intent and its receipt.\<close>

definition zeros :: "nat \<Rightarrow> string" where
  "zeros n = replicate n (CHR ''0'')"

definition zero_digest :: string where
  "zero_digest = ''sha256:'' @ zeros 64"

definition sample_repository :: git_delivery_repository_identity where
  "sample_repository = \<lparr>gr_worktree_root = [RootDir], gr_git_common_dir = [RootDir]\<rparr>"

definition sample_intent :: "string \<Rightarrow> git_delivery_intent" where
  "sample_intent signature = \<lparr>di_schema_version = CURRENT, di_job_id = ''j'', di_run_id = ''r'', di_prepared_at = 0,
    di_completion_receipt_sha256 = zero_digest, di_repository = sample_repository, di_target_ref = ''refs/heads/main'',
    di_pre_revision = zeros 40, di_signed_source_revision = zeros 40, di_signed_result_revision = zeros 40,
    di_effective_policy_sha256 = zero_digest, di_strategy = Merge, di_signature = signature\<rparr>"

definition sample_applied :: "string \<Rightarrow> applied_git_delivery_receipt" where
  "sample_applied signature = \<lparr>da_schema_version = CURRENT, da_job_id = ''j'', da_run_id = ''r'', da_issued_at = 0,
    da_delivery_intent_sha256 = zero_digest, da_completion_receipt_sha256 = zero_digest,
    da_repository = sample_repository, da_target_ref = ''refs/heads/main'', da_pre_revision = zeros 40,
    da_applied_revision = zeros 64, da_signed_source_revision = zeros 40, da_signed_result_revision = zeros 40,
    da_effective_policy_sha256 = zero_digest, da_strategy = Merge, da_signature = signature\<rparr>"

definition sample_mac :: string where
  "sample_mac = hex_encode ''mac''"

definition regular_probe :: "fs \<Rightarrow> path \<Rightarrow> artifact_probe" where
  "regular_probe s p =
    (let f = \<lparr>fi_kind = RegularFile, fi_inode = (0, 0), fi_len = (case files s p of None \<Rightarrow> 0 | Some b \<Rightarrow> length b)\<rparr>
     in \<lparr>ap_opened = Inr f, ap_before = Inr f, ap_after = Inr f\<rparr>)"

definition sample_env :: delivery_env where
  "sample_env = \<lparr>de_home = [RootDir],
    de_meta = (\<lambda>p. Inr (if p = gate_key_store [RootDir] then \<lparr>md_kind = Directory, md_mode = 0x1C0\<rparr>
      else \<lparr>md_kind = RegularFile, md_mode = 0x180\<rparr>)),
    de_probe = regular_probe, de_canonicalize = Inr, de_digest = (\<lambda>_. replicate 32 (CHR 0x00)),
    de_hmac = (\<lambda>_ _. Some ''mac''),
    de_intent = \<lparr>enc = (\<lambda>_. Some ''I''), dec = (\<lambda>_. Some (sample_intent sample_mac))\<rparr>,
    de_intent_compact = (\<lambda>_. Some ''c''),
    de_applied = \<lparr>enc = (\<lambda>_. Some ''A''), dec = (\<lambda>_. Some (sample_applied sample_mac))\<rparr>,
    de_applied_compact = (\<lambda>_. Some ''c''), de_git = (\<lambda>_ _. Inr (True, [], []))\<rparr>"

definition keyed_fs :: fs where
  "keyed_fs = put_file (gate_key_path [RootDir] ''r'') (hex_encode (replicate 32 (CHR ''k''))) empty_fs"

definition delivered_fs :: fs where
  "delivered_fs = put_file (job_applied_delivery_receipt [RootDir] ''j'') ''A''
    (put_file (job_delivery_intent [RootDir] ''j'') ''I'' keyed_fs)"

lemma zero_bytes: "hex_encode (replicate 32 (CHR 0x00)) = zeros 64"
  by code_simp

lemma sample_env_simps [simp]:
  "de_home sample_env = [RootDir]" "de_probe sample_env = regular_probe"
  "enc (de_intent sample_env) x = Some ''I''" "dec (de_intent sample_env) y = Some (sample_intent sample_mac)"
  "dec (de_applied sample_env) y = Some (sample_applied sample_mac)"
  "de_intent_compact sample_env x = Some ''c''" "de_applied_compact sample_env a = Some ''c''"
  "de_hmac sample_env k b = Some ''mac''" "sha256_bytes sample_env b = zero_digest"
  by (simp_all add: sample_env_def sha256_bytes_def zero_digest_def zero_bytes)

lemma regular: "files_are_regular sample_env"
  by (auto simp: files_are_regular_def check_artifact_def regular_probe_def stat_result_def same_open_file_def
      res_bind_def Let_def)

lemma zero_shapes:
  "require_digest zero_digest label = Inr ()" "require_revision (zeros 40) label = Inr ()"
  "require_revision (zeros 64) label = Inr ()" "validate_repository sample_env sample_repository = Inr ()"
  "validate_target_ref ''refs/heads/main'' = Inr ()" "require_nonempty ''j'' label = Inr ()"
  "require_nonempty ''r'' label = Inr ()" "zeros 40 \<noteq> zeros 64"
proof -
  have d: "list_all is_ascii_hexdigit (zeros n)" "length (zeros n) = n" for n
    by (auto simp: zeros_def list_all_iff is_ascii_hexdigit_def)
  show "require_digest zero_digest label = Inr ()"
    by (simp add: require_digest_def zero_digest_def strip_prefix_def d)
  show "require_revision (zeros 40) label = Inr ()" "require_revision (zeros 64) label = Inr ()"
    by (simp_all add: require_revision_def d)
  show "zeros 40 \<noteq> zeros 64" using d(2) [of 40] d(2) [of 64] by auto
  show "validate_repository sample_env sample_repository = Inr ()"
    by (simp add: validate_repository_def validate_repository_path_def sample_repository_def is_absolute_def
        sample_env_def res_bind_def)
  have "\<not> blank ''j''" "\<not> blank ''r''" by code_simp+
  then show "require_nonempty ''j'' label = Inr ()" "require_nonempty ''r'' label = Inr ()"
    by (simp_all add: require_nonempty_def)
  show "validate_target_ref ''refs/heads/main'' = Inr ()"
    by (simp add: validate_target_ref_def starts_with_def)
qed

lemma sample_shapes:
  "validate_intent_shape sample_env (sample_intent x) = Inr ()"
  "validate_applied_shape sample_env (sample_applied x) = Inr ()"
  by (simp_all add: validate_intent_shape_def validate_applied_shape_def sample_intent_def sample_applied_def
      zero_shapes res_bind_def)

lemma sample_key:
  assumes "read_fault s (gate_key_path [RootDir] ''r'') = None"
    "files s (gate_key_path [RootDir] ''r'') = Some (hex_encode (replicate 32 (CHR ''k'')))"
  shows "gate_key_of sample_env ''r'' s = (Inr (replicate 32 (CHR ''k'')), s)"
proof -
  have "key_text (hex_encode (replicate 32 (CHR ''k''))) = Inr (replicate 32 (CHR ''k''))"
    by (rule key_text_encoded) (simp add: GATE_KEY_BYTES_def)
  then show ?thesis
    using assms
    by (simp add: gate_key_of_def read_gate_key_def read_gate_key_at_path_def sample_env_def check_key_store_def
        check_key_file_def metadata_of_def others_may_access_def res_bind_def ok_or_def fs_read_optional_def fs_read_def
        io_bind_run)
qed

lemma keyed_files:
  "gate_key_of sample_env ''r'' keyed_fs = (Inr (replicate 32 (CHR ''k'')), keyed_fs)"
  "gate_key_of sample_env ''r'' delivered_fs = (Inr (replicate 32 (CHR ''k'')), delivered_fs)"
  using sealed_paths_differ(1,2) [of "[RootDir]" "''j''" "[RootDir]" "''r''"]
  by (auto intro!: sample_key simp: keyed_fs_def delivered_fs_def)

lemma sample_signature:
  "sign_intent sample_env (sample_intent x) key = Inr sample_mac"
  "verify_intent_signature sample_env (sample_intent sample_mac) key = Inr ()"
  "verify_applied_signature sample_env (sample_applied sample_mac) key = Inr ()"
  using hex_roundtrip [of "''mac''"]
  by (simp_all add: sign_intent_def verify_intent_signature_def verify_applied_signature_def canonical_intent_bytes_def
      canonical_applied_bytes_def canonical_bytes_def sign_bytes_def verify_bytes_def res_bind_def ok_or_def sample_mac_def
      sample_intent_def sample_applied_def)

theorem sealed_intent_is_final_witness:
  "\<exists>s'. seal_git_delivery_intent sample_env (sample_intent []) keyed_fs = (Inr (sample_intent sample_mac), s')
    \<and> validate_git_delivery_intent sample_env ''j'' s' = (Inr (sample_intent sample_mac), s')"
proof -
  let ?p = "job_delivery_intent [RootDir] ''j''"
  have "path_parent ?p \<noteq> None" using sealed_paths(1) [of "[RootDir]" "''j''"] by (auto simp: path_parent_def)
  then have "\<exists>s'. persist_new_json (de_intent sample_env) ?p (sample_intent sample_mac) keyed_fs = (Inr True, s')"
    using sealed_paths_differ(1) [of "[RootDir]" "''j''" "[RootDir]" "''r''"]
    by (auto simp: persist_new_json_def keyed_fs_def)
  then obtain s' where p: "persist_new_json (de_intent sample_env) ?p (sample_intent sample_mac) keyed_fs = (Inr True, s')" ..
  have f: "di_signature (sample_intent []) = []" "di_run_id (sample_intent x) = ''r''" "di_job_id (sample_intent x) = ''j''"
      "(sample_intent [])\<lparr>di_signature := x\<rparr> = sample_intent x" for x
    by (simp_all add: sample_intent_def)
  have sealed: "seal_git_delivery_intent sample_env (sample_intent []) keyed_fs = (Inr (sample_intent sample_mac), s')"
    using p by (simp add: seal_git_delivery_intent_def io_bind_run sample_shapes f keyed_files sample_signature Let_def)
  have "document_ok (de_intent sample_env) (sample_intent sample_mac)" by (simp add: document_ok_def)
  moreover have "read_fault keyed_fs (job_delivery_intent (de_home sample_env) (di_job_id (sample_intent []))) = None"
    by (simp add: keyed_fs_def)
  ultimately have "validate_git_delivery_intent sample_env ''j'' s' = (Inr (sample_intent sample_mac), s')"
    using sealed_intent_is_final [OF sealed _ regular] f by simp
  with sealed show ?thesis by blast
qed

lemma sample_snapshot:
  "validate_git_delivery_intent_snapshot sample_env ''j'' delivered_fs
    = (Inr \<lparr>vi_intent = sample_intent sample_mac, vi_sha256 = zero_digest\<rparr>, delivered_fs)"
proof -
  have f: "files delivered_fs (job_delivery_intent [RootDir] ''j'') = Some ''I''"
      "read_fault delivered_fs (job_delivery_intent [RootDir] ''j'') = None"
    using sealed_paths_differ(3) [of "[RootDir]" "''j''" "''j''"] by (simp_all add: delivered_fs_def keyed_fs_def)
  then have "check_artifact (job_delivery_intent [RootDir] ''j'')
      (regular_probe delivered_fs (job_delivery_intent [RootDir] ''j'')) ''I'' = Inr ()"
    using regular by (simp add: files_are_regular_def)
  moreover have "di_job_id (sample_intent x) = ''j''" "di_run_id (sample_intent x) = ''r''" for x
    by (simp_all add: sample_intent_def)
  ultimately show ?thesis
    using f by (simp add: intent_snapshot_Inr read_regular_artifact_Inr sample_shapes sample_signature keyed_files)
qed

theorem applied_receipt_is_bound_witness:
  "validate_applied_git_delivery_receipt sample_env ''j'' delivered_fs = (Inr (sample_applied sample_mac), delivered_fs)
    \<and> da_delivery_intent_sha256 (sample_applied sample_mac) = zero_digest
    \<and> (\<exists>v. validate_git_delivery_intent_snapshot sample_env ''j'' delivered_fs = (Inr v, delivered_fs))"
proof -
  let ?p = "job_applied_delivery_receipt [RootDir] ''j''"
  have "files delivered_fs ?p = Some ''A''" "read_fault delivered_fs ?p = None"
    by (simp_all add: delivered_fs_def keyed_fs_def)
  then have "read_regular_artifact sample_env ?p delivered_fs = (Inr ''A'', delivered_fs)"
    using regular by (simp add: read_regular_artifact_Inr files_are_regular_def)
  moreover have "da_job_id (sample_applied x) = ''j''" "da_run_id (sample_applied x) = ''r''"
      "da_delivery_intent_sha256 (sample_applied x) = zero_digest"
      "validate_applied_binding (sample_applied x) (sample_intent y) zero_digest = Inr ()" for x y
    by (simp_all add: sample_applied_def sample_intent_def validate_applied_binding_def)
  ultimately have v: "validate_applied_git_delivery_receipt sample_env ''j'' delivered_fs
      = (Inr (sample_applied sample_mac), delivered_fs)"
    by (simp add: validate_applied_git_delivery_receipt_def validate_applied_git_delivery_receipt_snapshot_def Let_def
        io_bind_run parse_json_def ok_or_def sample_shapes sample_signature keyed_files sample_snapshot)
  from applied_receipt_is_bound [OF v] v show ?thesis by (auto simp: sample_applied_def)
qed

theorem signed_bytes_are_unambiguous_witness:
  "\<exists>bs. canonical_intent_bytes sample_env (sample_intent []) = Inr bs
    \<and> canonical_applied_bytes sample_env (sample_applied []) \<noteq> Inr bs"
proof -
  obtain bs where b: "canonical_intent_bytes sample_env (sample_intent []) = Inr bs"
    by (simp add: canonical_intent_bytes_def canonical_bytes_def res_bind_def ok_or_def)
  from signed_bytes_are_unambiguous [OF this] b show ?thesis by blast
qed

end
