(* ===== verification/Project_Kind.thy ===== *)
theory Project_Kind
  imports Tamper Head_Tail
begin

text \<open>
  The default contract of a project (\<open>crates/deadreckon-core/src/acceptance_defaults.rs\<close>): which kind a
  working directory is, from the files in it, and the checks compiled for the kind. Detection looks only
  at the file tree and always answers. \<open>js\<close> is \<open>serde_json::from_str\<close>.
\<close>

section \<open>Kinds\<close>

datatype package_manager = Npm | Pnpm | Yarn | Bun

datatype build_tool = Maven | Gradle | GradleWrapper

datatype ruby_runner_kind = Rspec | Minitest | Rake

datatype php_runner = Composer | Phpunit

datatype script_runner = Make | Just | TaskRunner

datatype project_kind =
    Rust
  | Node package_manager
  | Deno
  | Go
  | Python
  | Elixir
  | Dotnet
  | Jvm build_tool
  | Ruby ruby_runner_kind
  | Php php_runner
  | ScriptRunner script_runner
  | UnknownKind

section \<open>Sentinels\<close>

definition to_str :: "string \<Rightarrow> string option" where
  "to_str s = (if utf8_error 0 s = None then Some s else None)"

abbreviation here :: "tree_view \<Rightarrow> path \<Rightarrow> string \<Rightarrow> bool" where
  "here tv working_dir name \<equiv> tv_exists tv (join working_dir name)"

definition scripts_test :: "json \<Rightarrow> json option" where
  "scripts_test v = Option.bind (json_get v ''scripts'') (\<lambda>scripts. json_get scripts ''test'')"

definition package_json_has_test_script :: "tree_view \<Rightarrow> (string \<Rightarrow> json option) \<Rightarrow> path \<Rightarrow> bool" where
  "package_json_has_test_script tv js working_dir =
    (case Option.bind (tv_text tv (join working_dir ''package.json'')) js of
       None \<Rightarrow> False
     | Some v \<Rightarrow>
        (case Option.bind (scripts_test v) as_str of Some test \<Rightarrow> \<not> blank test | None \<Rightarrow> False))"

definition node_package_manager :: "tree_view \<Rightarrow> path \<Rightarrow> package_manager" where
  "node_package_manager tv working_dir =
    (if here tv working_dir ''bun.lockb'' then Bun
     else if here tv working_dir ''pnpm-lock.yaml'' then Pnpm
     else if here tv working_dir ''yarn.lock'' then Yarn
     else Npm)"

definition python_project :: "tree_view \<Rightarrow> path \<Rightarrow> bool" where
  "python_project tv working_dir \<longleftrightarrow>
    here tv working_dir ''pyproject.toml'' \<or> here tv working_dir ''setup.py'' \<or> here tv working_dir ''setup.cfg''"

definition is_python_test_file :: "string \<Rightarrow> bool" where
  "is_python_test_file name \<longleftrightarrow> suffix ''.py'' name \<and> (starts_with name ''test_'' \<or> suffix ''_test.py'' name)"

definition python_has_visible_tests :: "tree_view \<Rightarrow> path \<Rightarrow> bool" where
  "python_has_visible_tests tv working_dir =
    (if tv_is_dir tv (join working_dir ''tests'') then True
     else case tv_read_dir tv working_dir of
       Inl _ \<Rightarrow> False
     | Inr entries \<Rightarrow>
         list_ex (\<lambda>p. case Option.bind (file_name p) to_str of Some name \<Rightarrow> is_python_test_file name | None \<Rightarrow> False)
           entries)"

definition ruby_runner :: "tree_view \<Rightarrow> path \<Rightarrow> ruby_runner_kind" where
  "ruby_runner tv working_dir =
    (let has_rspec = tv_is_dir tv (join working_dir ''spec'')
      \<and> (case tv_text tv (join working_dir ''Gemfile.lock'') of Some lock \<Rightarrow> sublist ''rspec'' lock | None \<Rightarrow> False)
     in if has_rspec then Rspec else Rake)"

definition composer_has_test_script :: "tree_view \<Rightarrow> (string \<Rightarrow> json option) \<Rightarrow> path \<Rightarrow> bool" where
  "composer_has_test_script tv js working_dir =
    (case Option.bind (tv_text tv (join working_dir ''composer.json'')) js of
       None \<Rightarrow> False
     | Some v \<Rightarrow> (case scripts_test v of Some test \<Rightarrow> test \<noteq> Null | None \<Rightarrow> False))"

definition has_dotnet_project :: "tree_view \<Rightarrow> path \<Rightarrow> bool" where
  "has_dotnet_project tv working_dir =
    (case tv_read_dir tv working_dir of
       Inl _ \<Rightarrow> False
     | Inr entries \<Rightarrow>
         list_ex (\<lambda>p. case Option.bind (path_extension p) to_str of
           Some ext \<Rightarrow> ext \<in> {''csproj'', ''fsproj'', ''sln''} | None \<Rightarrow> False) entries)"

section \<open>Script runners\<close>

definition indented :: "string \<Rightarrow> bool" where
  "indented line \<longleftrightarrow> line \<noteq> [] \<and> (hd line = CHR '' '' \<or> hd line = CHR 0x09)"

definition has_make_target :: "string \<Rightarrow> string \<Rightarrow> bool" where
  "has_make_target body target =
    (let head = target @ '':'' in
     list_ex (\<lambda>line.
       let trimmed = trim_end line in
       trimmed = rev (dropWhile (\<lambda>c. c = CHR '':'') (rev head))
         \<or> starts_with trimmed head \<and> \<not> indented line \<and> CHR ''='' \<notin> set line)
       (str_lines body))"

definition has_just_recipe :: "string \<Rightarrow> string \<Rightarrow> bool" where
  "has_just_recipe body recipe =
    list_ex (\<lambda>line. \<not> indented line
      \<and> (case before_first (CHR '':'') line of Some name \<Rightarrow> trim name = recipe | None \<Rightarrow> False))
      (str_lines body)"

definition has_task :: "string \<Rightarrow> string \<Rightarrow> bool" where
  "has_task body task =
    (let head = ''  '' @ task @ '':'' in
     list_ex (\<lambda>line. let trimmed = trim_end line in trimmed = head \<or> starts_with trimmed (head @ '' ''))
       (str_lines body))"

definition runner_file :: "tree_view \<Rightarrow> path \<Rightarrow> (string \<Rightarrow> string \<Rightarrow> bool) \<Rightarrow> string list \<Rightarrow> bool" where
  "runner_file tv working_dir has names =
    list_ex (\<lambda>name. case tv_text tv (join working_dir name) of Some body \<Rightarrow> has body ''test'' | None \<Rightarrow> False) names"

definition detect_script_runner :: "tree_view \<Rightarrow> path \<Rightarrow> script_runner option" where
  "detect_script_runner tv working_dir =
    (if runner_file tv working_dir has_make_target [''Makefile'', ''makefile'', ''GNUmakefile''] then Some Make
     else if runner_file tv working_dir has_just_recipe [''justfile'', ''Justfile''] then Some Just
     else if runner_file tv working_dir has_task [''Taskfile.yml'', ''Taskfile.yaml''] then Some TaskRunner
     else None)"

section \<open>Detection\<close>

definition detect_project_kind :: "tree_view \<Rightarrow> (string \<Rightarrow> json option) \<Rightarrow> path \<Rightarrow> project_kind" where
  "detect_project_kind tv js wd =
    (if here tv wd ''Cargo.toml'' then Rust
     else if here tv wd ''package.json'' \<and> package_json_has_test_script tv js wd then Node (node_package_manager tv wd)
     else if here tv wd ''deno.json'' \<or> here tv wd ''deno.jsonc'' then Deno
     else if here tv wd ''go.mod'' then Go
     else if python_project tv wd \<and> python_has_visible_tests tv wd then Python
     else if here tv wd ''mix.exs'' then Elixir
     else if has_dotnet_project tv wd then Dotnet
     else if here tv wd ''pom.xml'' then Jvm Maven
     else if here tv wd ''build.gradle'' \<or> here tv wd ''build.gradle.kts'' then
       Jvm (if here tv wd ''gradlew'' then GradleWrapper else Gradle)
     else if here tv wd ''Gemfile'' \<or> here tv wd ''Rakefile'' \<or> tv_is_dir tv (join wd ''spec'') then
       Ruby (ruby_runner tv wd)
     else if here tv wd ''composer.json'' \<and> composer_has_test_script tv js wd then Php Composer
     else if here tv wd ''phpunit.xml'' \<or> here tv wd ''phpunit.xml.dist'' then Php Phpunit
     else case detect_script_runner tv wd of
       Some runner \<Rightarrow> ScriptRunner runner
     | None \<Rightarrow> UnknownKind)"

section \<open>Commands and checks\<close>

fun package_manager_program :: "package_manager \<Rightarrow> string" where
  "package_manager_program Npm = ''npm''"
| "package_manager_program Pnpm = ''pnpm''"
| "package_manager_program Yarn = ''yarn''"
| "package_manager_program Bun = ''bun''"

fun ruby_command :: "ruby_runner_kind \<Rightarrow> tree_view \<Rightarrow> path \<Rightarrow> string" where
  "ruby_command Rspec tv wd = ''bundle exec rspec''"
| "ruby_command Minitest tv wd = ''bundle exec rake test''"
| "ruby_command Rake tv wd =
    (let has_test_task =
      (case tv_text tv (join wd ''Rakefile'') of
         Some body \<Rightarrow> sublist '':test'' body \<or> sublist ([CHR 0x22] @ ''test'' @ [CHR 0x22]) body
       | None \<Rightarrow> False)
     in if has_test_task then ''bundle exec rake test'' else ''bundle exec rake'')"

fun test_command_for :: "project_kind \<Rightarrow> tree_view \<Rightarrow> path \<Rightarrow> string option" where
  "test_command_for Rust tv wd = None"
| "test_command_for UnknownKind tv wd = None"
| "test_command_for (Node pm) tv wd = Some (package_manager_program pm @ '' test'')"
| "test_command_for Deno tv wd = Some ''deno test -A''"
| "test_command_for Go tv wd = Some ''go test ./...''"
| "test_command_for Python tv wd = Some ''python -m pytest -q''"
| "test_command_for Elixir tv wd = Some ''mix test''"
| "test_command_for Dotnet tv wd = Some ''dotnet test''"
| "test_command_for (Jvm Maven) tv wd = Some ''mvn -q test''"
| "test_command_for (Jvm Gradle) tv wd = Some ''gradle test''"
| "test_command_for (Jvm GradleWrapper) tv wd = Some ''./gradlew test''"
| "test_command_for (Ruby runner) tv wd = Some (ruby_command runner tv wd)"
| "test_command_for (Php Composer) tv wd = Some ''composer test''"
| "test_command_for (Php Phpunit) tv wd =
    Some (if here tv wd ''vendor/bin/phpunit'' then ''vendor/bin/phpunit'' else ''phpunit'')"
| "test_command_for (ScriptRunner Make) tv wd = Some ''make test''"
| "test_command_for (ScriptRunner Just) tv wd = Some ''just test''"
| "test_command_for (ScriptRunner TaskRunner) tv wd = Some ''task test''"

definition default_command_for :: "project_kind \<Rightarrow> tree_view \<Rightarrow> path \<Rightarrow> string option" where
  "default_command_for kind tv wd = (if kind = Rust then Some ''cargo test'' else test_command_for kind tv wd)"

definition default_checks_for :: "project_kind \<Rightarrow> tree_view \<Rightarrow> path \<Rightarrow> acceptance_check list" where
  "default_checks_for kind tv wd =
    (if kind = Rust then [CargoTest [] True]
     else case test_command_for kind tv wd of
       None \<Rightarrow> [FileExists ''{working_dir}'' True]
     | Some command \<Rightarrow> [Shell command (Some (tv_show tv wd)) True])"

definition detection_caveat :: "project_kind \<Rightarrow> string option" where
  "detection_caveat kind = (if kind = UnknownKind then Some ''no test contract detected'' else None)"

fun kind_label :: "project_kind \<Rightarrow> string" where
  "kind_label Rust = ''rust''"
| "kind_label (Node pm) = ''node ('' @ package_manager_program pm @ '')''"
| "kind_label Deno = ''deno''"
| "kind_label Go = ''go''"
| "kind_label Python = ''python''"
| "kind_label Elixir = ''elixir''"
| "kind_label Dotnet = ''dotnet''"
| "kind_label (Jvm Maven) = ''jvm (maven)''"
| "kind_label (Jvm Gradle) = ''jvm (gradle)''"
| "kind_label (Jvm GradleWrapper) = ''jvm (gradle wrapper)''"
| "kind_label (Ruby _) = ''ruby''"
| "kind_label (Php _) = ''php''"
| "kind_label (ScriptRunner Make) = ''script-runner (make)''"
| "kind_label (ScriptRunner Just) = ''script-runner (just)''"
| "kind_label (ScriptRunner TaskRunner) = ''script-runner (task)''"
| "kind_label UnknownKind = ''unknown''"

section \<open>Default contracts are guarded\<close>

text \<open>Every command a kind can compile to; each is a test runner to the tamper check.\<close>

definition default_commands :: "string list" where
  "default_commands =
    map (\<lambda>pm. package_manager_program pm @ '' test'') [Npm, Pnpm, Yarn, Bun]
    @ [''deno test -A'', ''go test ./...'', ''python -m pytest -q'', ''mix test'', ''dotnet test'', ''mvn -q test'',
       ''gradle test'', ''./gradlew test'', ''bundle exec rspec'', ''bundle exec rake test'', ''bundle exec rake'',
       ''composer test'', ''vendor/bin/phpunit'', ''phpunit'', ''make test'', ''just test'', ''task test'']"

lemma default_commands_are_runners: "list_all shell_program_is_test_runner default_commands"
  by code_simp

lemma test_command_listed:
  assumes "test_command_for kind tv wd = Some command"
  shows "command \<in> set default_commands"
proof -
  have fixed: "list_all (\<lambda>c. c \<in> set default_commands) (drop 4 default_commands)"
    by (auto simp: list_all_iff dest: in_set_dropD)
  have "package_manager_program pm @ '' test'' \<in> set default_commands" for pm
    by (cases pm) (simp_all add: default_commands_def)
  moreover have "ruby_command runner tv wd \<in> set default_commands" for runner
    by (cases runner) (simp_all add: default_commands_def Let_def)
  ultimately show ?thesis
    using assms fixed [unfolded default_commands_def [THEN arg_cong [of _ _ "drop 4"]]]
    by (cases "(kind, tv, wd)" rule: test_command_for.cases) (auto split: if_splits)
qed

lemma test_command_none: "test_command_for kind tv wd = None \<longleftrightarrow> kind = Rust \<or> kind = UnknownKind"
  by (cases "(kind, tv, wd)" rule: test_command_for.cases) auto

text \<open>
  The default contract of a project is one required check. For every detected kind it is a check the
  tamper guard treats as running tests, so that deleting a test of the baseline is refused; only an
  undetected project gets the check that its working directory exists, with a caveat.
\<close>

theorem default_contract_is_guarded:
  "\<exists>check. default_checks_for (detect_project_kind tv js wd) tv wd = [check] \<and> ck_must_pass check
    \<and> (if detect_project_kind tv js wd = UnknownKind
       then check = FileExists ''{working_dir}'' True \<and> detection_caveat (detect_project_kind tv js wd) \<noteq> None
       else (is_cargo_test check \<or> is_runner_check check) \<and> detection_caveat (detect_project_kind tv js wd) = None
         \<and> default_command_for (detect_project_kind tv js wd) tv wd \<noteq> None)"
proof -
  define kind where "kind = detect_project_kind tv js wd"
  consider "kind = Rust" | "kind = UnknownKind" | command where "kind \<noteq> Rust" "kind \<noteq> UnknownKind" "test_command_for kind tv wd = Some command"
    using test_command_none [of kind tv wd] by (cases "test_command_for kind tv wd") auto
  then show ?thesis
    unfolding kind_def [symmetric]
  proof cases
    case (3 command)
    then have "shell_program_is_test_runner command"
      using test_command_listed default_commands_are_runners by (auto simp: list_all_iff)
    with 3 show "\<exists>check. default_checks_for kind tv wd = [check] \<and> ck_must_pass check
      \<and> (if kind = UnknownKind then check = FileExists ''{working_dir}'' True \<and> detection_caveat kind \<noteq> None
         else (is_cargo_test check \<or> is_runner_check check) \<and> detection_caveat kind = None
           \<and> default_command_for kind tv wd \<noteq> None)"
      by (simp add: default_checks_for_def detection_caveat_def default_command_for_def is_runner_check_def)
  qed (simp_all add: default_checks_for_def detection_caveat_def default_command_for_def is_cargo_test_def)
qed

text \<open>A line that is only the word \<open>test\<close>, with no colon, counts as a target of a makefile.\<close>

lemma bare_word_is_make_target: "has_make_target ''test'' ''test''"
  by code_simp

end
