(* ===== verification/Acceptance_Contract.thy ===== *)
theory Acceptance_Contract
  imports Project_Kind Gate_Key
begin

text \<open>
  The acceptance contract of a run (\<open>crates/deadreckon-core/src/gate.rs\<close> and \<open>validate_strict_contract\<close>
  in \<open>completion.rs\<close>): the checks a YAML document declares in its historical spellings, the network
  authority it asks for and the one its commands need, the generated default contract, and the rules a
  contract must meet before a durable job may start. The YAML parser and the derived deserializers are
  parameters.
\<close>

section \<open>Network authority\<close>

datatype acceptance_network_access = NetDeny | NetLoopback | NetFull

fun network_str :: "acceptance_network_access \<Rightarrow> string" where
  "network_str NetDeny = ''deny''"
| "network_str NetLoopback = ''loopback''"
| "network_str NetFull = ''full''"

fun allows :: "acceptance_network_access \<Rightarrow> acceptance_network_access \<Rightarrow> bool" where
  "allows NetFull _ = True"
| "allows NetLoopback required = (required = NetLoopback \<or> required = NetDeny)"
| "allows NetDeny required = (required = NetDeny)"

fun network_combine :: "acceptance_network_access \<Rightarrow> acceptance_network_access \<Rightarrow> acceptance_network_access" where
  "network_combine NetFull _ = NetFull"
| "network_combine _ NetFull = NetFull"
| "network_combine NetLoopback _ = NetLoopback"
| "network_combine _ NetLoopback = NetLoopback"
| "network_combine NetDeny NetDeny = NetDeny"

record acceptance_capabilities =
  ac_network :: acceptance_network_access

definition default_capabilities :: acceptance_capabilities where
  "default_capabilities = \<lparr>ac_network = NetDeny\<rparr>"

text \<open>The amounts of authority in order: \<open>allows\<close> is this order and \<open>combine\<close> its maximum.\<close>

instantiation acceptance_network_access :: linorder
begin

fun network_rank :: "acceptance_network_access \<Rightarrow> nat" where
  "network_rank NetDeny = 0"
| "network_rank NetLoopback = 1"
| "network_rank NetFull = 2"

definition less_eq_acceptance_network_access :: "acceptance_network_access \<Rightarrow> acceptance_network_access \<Rightarrow> bool" where
  "less_eq_acceptance_network_access a b \<longleftrightarrow> network_rank a \<le> network_rank b"

definition less_acceptance_network_access :: "acceptance_network_access \<Rightarrow> acceptance_network_access \<Rightarrow> bool" where
  "less_acceptance_network_access a b \<longleftrightarrow> network_rank a < network_rank b"

instance
proof
  fix a b :: acceptance_network_access
  show "a \<le> b \<Longrightarrow> b \<le> a \<Longrightarrow> a = b"
    by (cases a; cases b) (auto simp: less_eq_acceptance_network_access_def)
qed (auto simp: less_eq_acceptance_network_access_def less_acceptance_network_access_def)

end

lemma allows_iff: "allows granted required \<longleftrightarrow> required \<le> granted"
  by (cases granted; cases required) (simp_all add: less_eq_acceptance_network_access_def)

lemma network_combine_max: "network_combine a b = max a b"
  by (cases a; cases b) (simp_all add: max_def less_eq_acceptance_network_access_def)

lemma NetDeny_least [simp]: "NetDeny \<le> a"
  by (cases a) (simp_all add: less_eq_acceptance_network_access_def)

section \<open>What a command needs\<close>

text \<open>\<open>str::split\<close> at any of a set of characters, each given by its bytes.\<close>

function split_seps :: "string list \<Rightarrow> string \<Rightarrow> string \<Rightarrow> string list" where
  "split_seps seps acc s =
    (case leading seps s of
       Some w \<Rightarrow> rev acc # split_seps seps [] (drop (length w) s)
     | None \<Rightarrow> (case s of [] \<Rightarrow> [rev acc] | c # cs \<Rightarrow> split_seps seps (c # acc) cs))"
  by pat_completeness auto
termination
  by (relation "measure (\<lambda>(seps, acc, s). length s)") (auto dest: leading_shorter)

declare split_seps.simps [simp del]

definition dependency_installs :: "string list" where
  "dependency_installs =
    [''npm ci'', ''npm install'', ''pnpm install'', ''pnpm fetch'', ''yarn install'', ''bun install'', ''pip install'',
     ''pip3 install'', ''uv sync'', ''poetry install'', ''bundle install'', ''cargo fetch'', ''cargo install'',
     ''go mod download'', ''dotnet restore'', ''npx --yes'', ''playwright install'']"

definition network_operations :: "string list" where
  "network_operations =
    [''curl '', ''wget '', ''urlsession'', ''socket.'', ''socket('', ''socket_'', ''tcpstream'', ''tcplistener'',
     ''http.server'', ''playwright'', ''cypress'', ''preview --host'', ''serve --host'']"

definition mentions :: "string list \<Rightarrow> string \<Rightarrow> bool" where
  "mentions needles text \<longleftrightarrow> list_ex (\<lambda>needle. sublist needle text) needles"

definition remote_url :: "string \<Rightarrow> bool" where
  "remote_url token \<longleftrightarrow> (starts_with token ''http://'' \<or> starts_with token ''https://'')
    \<and> \<not> sublist ''127.0.0.1'' token \<and> \<not> sublist ''localhost'' token \<and> \<not> sublist ''[::1]'' token"

definition infer_acceptance_network_access :: "string \<Rightarrow> acceptance_network_access" where
  "infer_acceptance_network_access text =
    (let lower = to_ascii_lowercase text in
     if mentions dependency_installs lower then NetFull
     else
       let loopback = mentions [''127.0.0.1'', ''localhost'', ''::1'', ''[::1]''] lower;
           explicit_remote_url = list_ex remote_url
             (split_seps (white_space @ [[CHR 0x27], [CHR 0x22], '')'', ''('', '','']) [] lower)
       in if explicit_remote_url then NetFull
          else if loopback \<and> mentions network_operations lower then NetLoopback
          else NetDeny)"

definition check_network :: "acceptance_check \<Rightarrow> acceptance_network_access" where
  "check_network check =
    (case check of
       Shell command _ _ \<Rightarrow> infer_acceptance_network_access command
     | CargoTest args _ \<Rightarrow> infer_acceptance_network_access (join_with '' '' args)
     | _ \<Rightarrow> NetDeny)"

section \<open>Documents\<close>

text \<open>\<open>serde_yaml::Value\<close>; its accessors look through tags.\<close>

datatype yaml =
    YNull
  | YBool bool
  | YNumber json_number
  | YString string
  | YSequence "yaml list"
  | YMapping "(yaml \<times> yaml) list"
  | YTagged string yaml

fun untag :: "yaml \<Rightarrow> yaml" where
  "untag (YTagged _ v) = untag v"
| "untag v = v"

definition yaml_string :: "yaml \<Rightarrow> string option" where
  "yaml_string v = (case untag v of YString s \<Rightarrow> Some s | _ \<Rightarrow> None)"

definition as_mapping :: "yaml \<Rightarrow> (yaml \<times> yaml) list option" where
  "as_mapping v = (case untag v of YMapping m \<Rightarrow> Some m | _ \<Rightarrow> None)"

definition yaml_get :: "yaml \<Rightarrow> string \<Rightarrow> yaml option" where
  "yaml_get v key = Option.bind (as_mapping v) (\<lambda>m. map_of m (YString key))"

definition yaml_seq :: "yaml option \<Rightarrow> yaml list" where
  "yaml_seq v = (case v of Some (YSequence vs) \<Rightarrow> vs | Some w \<Rightarrow> [w] | None \<Rightarrow> [])"

definition single_key_mapping :: "yaml \<Rightarrow> (string \<times> yaml) option" where
  "single_key_mapping v =
    Option.bind (as_mapping v) (\<lambda>m.
      case m of [(key, body)] \<Rightarrow> map_option (\<lambda>k. (k, body)) (yaml_string key) | _ \<Rightarrow> None)"

section \<open>The environment\<close>

text \<open>
  What the gate calls outside the repository: metadata of files, the digest and the keyed hash (no
  answer when a key is refused), JSON text, the YAML parser, the derived deserializers of one check and of
  the capabilities, and the rendering of a generated contract.
\<close>

record gate_env =
  gv_meta :: meta_view
  gv_digest :: "bytes \<Rightarrow> bytes"
  gv_hmac :: "bytes \<Rightarrow> (bytes \<Rightarrow> bytes) option"
  gv_json_text :: "string \<Rightarrow> json option"
  gv_yaml :: "string \<Rightarrow> yaml option"
  gv_yaml_check :: "yaml \<Rightarrow> acceptance_check option"
  gv_yaml_capabilities :: "yaml \<Rightarrow> acceptance_capabilities option"
  gv_yaml_spec :: "acceptance_check list \<Rightarrow> string option"

definition contract_error :: "contract_fault \<Rightarrow> dr_error" where
  "contract_error f = InvalidInput (ContractFault f)"

definition sha256_text :: "'z gate_env_scheme \<Rightarrow> string \<Rightarrow> string" where
  "sha256_text gv text = ''sha256:'' @ hex_encode (gv_digest gv text)"

section \<open>Checks\<close>

fun set_must_pass :: "bool \<Rightarrow> acceptance_check \<Rightarrow> acceptance_check" where
  "set_must_pass v (CargoTest args _) = CargoTest args v"
| "set_must_pass v (FileExists p _) = FileExists p v"
| "set_must_pass v (ContentMatch p pattern _) = ContentMatch p pattern v"
| "set_must_pass v (BuildSuccess cwd _) = BuildSuccess cwd v"
| "set_must_pass v (Shell command cwd _) = Shell command cwd v"

definition check_is_required :: "acceptance_check \<Rightarrow> bool" where
  "check_is_required check = ck_must_pass check"

definition or_field :: "yaml \<Rightarrow> string \<Rightarrow> string option" where
  "or_field v key = (case yaml_string v of Some s \<Rightarrow> Some s | None \<Rightarrow> Option.bind (yaml_get v key) yaml_string)"

definition parse_file_exists_check :: "yaml \<Rightarrow> bool \<Rightarrow> acceptance_check res" where
  "parse_file_exists_check v must_pass =
    res_bind (ok_or (or_field v ''path'') (contract_error FileExistsNeedsPath)) (\<lambda>p. Inr (FileExists p must_pass))"

definition parse_content_match_check :: "yaml \<Rightarrow> bool \<Rightarrow> acceptance_check res" where
  "parse_content_match_check v must_pass =
    res_bind (ok_or (Option.bind (yaml_get v ''path'') yaml_string) (contract_error ContentMatchNeedsPath)) (\<lambda>p.
    res_bind (ok_or (Option.bind (yaml_get v ''pattern'') yaml_string) (contract_error ContentMatchNeedsPattern))
      (\<lambda>pattern. Inr (ContentMatch p pattern must_pass)))"

definition parse_build_success_check :: "yaml \<Rightarrow> bool \<Rightarrow> acceptance_check" where
  "parse_build_success_check v must_pass =
    BuildSuccess (case or_field v ''cwd'' of Some cwd \<Rightarrow> cwd | None \<Rightarrow> ''{working_dir}'') must_pass"

definition parse_shell_check :: "yaml \<Rightarrow> bool \<Rightarrow> acceptance_check res" where
  "parse_shell_check v must_pass =
    res_bind (ok_or (or_field v ''command'') (contract_error ShellNeedsCommand)) (\<lambda>command.
    Inr (Shell command (Option.bind (yaml_get v ''cwd'') yaml_string) must_pass))"

definition parse_named_check :: "string \<Rightarrow> yaml \<Rightarrow> bool \<Rightarrow> acceptance_check res" where
  "parse_named_check kind body must_pass =
    (if kind = ''file-exists'' \<or> kind = ''file_exists'' then parse_file_exists_check body must_pass
     else if kind = ''content-match'' \<or> kind = ''content_match'' then parse_content_match_check body must_pass
     else if kind = ''build-success'' \<or> kind = ''build_success'' then Inr (parse_build_success_check body must_pass)
     else if kind = ''shell'' \<or> kind = ''test'' then parse_shell_check body must_pass
     else if kind = ''cargo-test'' \<or> kind = ''cargo_test'' then
       Inr (CargoTest (case yaml_string body of Some arg \<Rightarrow> [arg] | None \<Rightarrow> []) must_pass)
     else Inl (contract_error (ContractCheckKind kind)))"

definition parse_check_value :: "'z gate_env_scheme \<Rightarrow> yaml \<Rightarrow> bool option \<Rightarrow> acceptance_check res" where
  "parse_check_value gv v force_must_pass =
    (case gv_yaml_check gv v of
       Some check \<Rightarrow> Inr (case force_must_pass of Some b \<Rightarrow> set_must_pass b check | None \<Rightarrow> check)
     | None \<Rightarrow>
        (let must_pass = (case force_must_pass of Some b \<Rightarrow> b | None \<Rightarrow> True) in
         case yaml_string v of
           Some command \<Rightarrow> Inr (Shell command None must_pass)
         | None \<Rightarrow>
            (case single_key_mapping v of
               None \<Rightarrow> Inl (contract_error ContractCheckShape)
             | Some (kind, body) \<Rightarrow> parse_named_check kind body must_pass)))"

text \<open>The seven lists of a document in the order of the code, each with the parser of its items.\<close>

definition check_sections :: "'z gate_env_scheme \<Rightarrow> (string \<times> (yaml \<Rightarrow> acceptance_check res)) list" where
  "check_sections gv =
    [(''checks'', \<lambda>item. parse_check_value gv item None),
     (''required'', \<lambda>item. parse_check_value gv item (Some True)),
     (''optional'', \<lambda>item. parse_check_value gv item (Some False)),
     (''tests'', \<lambda>item. parse_shell_check item True),
     (''file-exists'', \<lambda>item. parse_file_exists_check item True),
     (''content-match'', \<lambda>item. parse_content_match_check item True),
     (''build-success'', \<lambda>item. Inr (parse_build_success_check item True))]"

definition parse_acceptance_checks :: "'z gate_env_scheme \<Rightarrow> string \<Rightarrow> acceptance_check list res" where
  "parse_acceptance_checks gv raw =
    res_bind (ok_or (gv_yaml gv raw) (contract_error ContractYaml)) (\<lambda>root.
    fold_res (\<lambda>checks (key, parse). res_bind (map_res parse (yaml_seq (yaml_get root key))) (\<lambda>cs. Inr (checks @ cs)))
      [] (check_sections gv))"

definition acceptance_checks_from_yaml :: "'z gate_env_scheme \<Rightarrow> string \<Rightarrow> acceptance_check list res" where
  "acceptance_checks_from_yaml gv raw = parse_acceptance_checks gv raw"

definition acceptance_capabilities_from_yaml :: "'z gate_env_scheme \<Rightarrow> string \<Rightarrow> acceptance_capabilities res" where
  "acceptance_capabilities_from_yaml gv raw =
    res_bind (ok_or (gv_yaml gv raw) (contract_error ContractYaml)) (\<lambda>root.
    case yaml_get root ''capabilities'' of
      None \<Rightarrow> Inr default_capabilities
    | Some v \<Rightarrow> ok_or (gv_yaml_capabilities gv v) (contract_error CapabilitiesMalformed))"

definition required_acceptance_network_access_from_yaml ::
    "'z gate_env_scheme \<Rightarrow> string \<Rightarrow> acceptance_network_access res" where
  "required_acceptance_network_access_from_yaml gv raw =
    res_bind (acceptance_checks_from_yaml gv raw) (\<lambda>checks.
    Inr (foldl (\<lambda>required check. network_combine required (check_network check)) NetDeny checks))"

section \<open>The contract of a run\<close>

definition acceptance_spec_path_for_run_root :: "path \<Rightarrow> path" where
  "acceptance_spec_path_for_run_root run_dir = join run_dir ''acceptance.yaml''"

definition write_generated_spec ::
    "'z gate_env_scheme \<Rightarrow> path \<Rightarrow> project_kind \<Rightarrow> acceptance_check list \<Rightarrow> unit io" where
  "write_generated_spec gv p kind checks =
    io_bind (io_lift (ok_or (gv_yaml_spec gv checks) (contract_error ContractUnrenderable))) (\<lambda>body.
    fs_write p (''# generated by deadreckon detect: '' @ kind_label kind @ [newline] @ body))"

definition compiled_acceptance_checks ::
    "'z gate_env_scheme \<Rightarrow> tree_view \<Rightarrow> path \<Rightarrow> path \<Rightarrow> acceptance_check list io" where
  "compiled_acceptance_checks gv tv run_dir working_dir =
    (let p = acceptance_spec_path_for_run_root run_dir in
     io_bind (fs_exists p) (\<lambda>found.
     if found then io_bind (fs_read p) (\<lambda>raw. io_lift (parse_acceptance_checks gv raw))
     else
       let kind = detect_project_kind tv (gv_json_text gv) working_dir;
           checks = default_checks_for kind tv working_dir in
       io_bind (write_generated_spec gv p kind checks) (\<lambda>_. io_return checks)))"

definition approved_acceptance_contract :: "'z gate_env_scheme \<Rightarrow> path \<Rightarrow> (acceptance_check list \<times> string) io" where
  "approved_acceptance_contract gv run_dir =
    (let p = acceptance_spec_path_for_run_root run_dir in
     io_bind (io_lift (case gv_meta gv p of
         Inl k \<Rightarrow> if k = IoNotFound then Inl (contract_error (ContractMissing p)) else Inl (Io p k)
       | Inr m \<Rightarrow> if md_kind m \<noteq> RegularFile then Inl (contract_error (ContractNotRegular p)) else Inr ())) (\<lambda>_.
     io_bind (fs_read p) (\<lambda>raw.
     io_bind (io_lift (parse_acceptance_checks gv raw)) (\<lambda>checks.
     io_return (checks, sha256_text gv raw)))))"

section \<open>Strict contracts\<close>

definition only_working_directory :: "acceptance_check \<Rightarrow> bool" where
  "only_working_directory check = (case check of FileExists p _ \<Rightarrow> trim p = ''{working_dir}'' | _ \<Rightarrow> False)"

definition strict_contract_checks :: "'z gate_env_scheme \<Rightarrow> string \<Rightarrow> string \<Rightarrow> unit res" where
  "strict_contract_checks gv raw job_id =
    res_bind (acceptance_checks_from_yaml gv raw) (\<lambda>checks.
    if checks = [] then Inl (contract_error (NoChecks job_id))
    else
      let required = filter check_is_required checks in
      if required = [] then Inl (contract_error (NoRequiredChecks job_id))
      else if list_all only_working_directory required then Inl (contract_error (OnlyWorkingDirectory job_id))
      else
        res_bind (acceptance_capabilities_from_yaml gv raw) (\<lambda>capabilities.
        res_bind (required_acceptance_network_access_from_yaml gv raw) (\<lambda>required_network.
        if \<not> allows (ac_network capabilities) required_network then
          Inl (contract_error (NetworkUndeclared job_id (network_str required_network) (network_str (ac_network capabilities))))
        else Inr ())))"

definition validate_strict_contract :: "'z gate_env_scheme \<Rightarrow> path \<Rightarrow> string \<Rightarrow> unit io" where
  "validate_strict_contract gv p job_id =
    io_bind (fs_read p) (\<lambda>raw. io_lift (strict_contract_checks gv raw job_id))"

section \<open>What a strict contract promises\<close>

lemma foldl_combine:
  "foldl (\<lambda>required check. network_combine required (check_network check)) n checks \<le> granted
    \<longleftrightarrow> n \<le> granted \<and> (\<forall>check \<in> set checks. check_network check \<le> granted)"
  by (induction checks arbitrary: n) (auto simp: network_combine_max)

lemma strict_contract_checks_iff:
  "strict_contract_checks gv raw j = Inr () \<longleftrightarrow>
    (\<exists>checks capabilities. parse_acceptance_checks gv raw = Inr checks
      \<and> acceptance_capabilities_from_yaml gv raw = Inr capabilities
      \<and> (\<exists>check \<in> set checks. ck_must_pass check \<and> \<not> only_working_directory check)
      \<and> (\<forall>check \<in> set checks. check_network check \<le> ac_network capabilities))"
proof (cases "parse_acceptance_checks gv raw")
  case (Inr checks)
  then show ?thesis
    by (cases "acceptance_capabilities_from_yaml gv raw")
      (auto simp: strict_contract_checks_def acceptance_checks_from_yaml_def required_acceptance_network_access_from_yaml_def
        allows_iff foldl_combine check_is_required_def filter_empty_conv list_all_iff Let_def)
qed (simp add: strict_contract_checks_def acceptance_checks_from_yaml_def)

text \<open>
  C33: A contract is admitted for a durable job exactly when its document parses, its capabilities are
  well formed, some required check proves more than the existence of the working directory, and no
  command of any check needs more network than the document declares.
\<close>

theorem strict_contract_iff:
  "validate_strict_contract gv p j s = (Inr (), s') \<longleftrightarrow>
    s' = s \<and> (\<exists>raw checks capabilities. read_fault s p = None \<and> files s p = Some raw
      \<and> parse_acceptance_checks gv raw = Inr checks \<and> acceptance_capabilities_from_yaml gv raw = Inr capabilities
      \<and> (\<exists>check \<in> set checks. ck_must_pass check \<and> \<not> only_working_directory check)
      \<and> (\<forall>check \<in> set checks. check_network check \<le> ac_network capabilities))"
  by (auto simp: validate_strict_contract_def strict_contract_checks_iff result_simps)

text \<open>No default command needs the network, and the check of an undetected project is not strict.\<close>

lemma default_commands_offline: "list_all (\<lambda>command. infer_acceptance_network_access command = NetDeny) default_commands"
  by code_simp

lemma default_checks_offline: "check \<in> set (default_checks_for kind tv wd) \<Longrightarrow> check_network check = NetDeny"
proof -
  have "infer_acceptance_network_access [] = NetDeny" by code_simp
  then show "check \<in> set (default_checks_for kind tv wd) \<Longrightarrow> check_network check = NetDeny"
    using default_commands_offline test_command_listed [of kind tv wd]
    by (auto simp: default_checks_for_def check_network_def list_all_iff split: option.splits if_splits)
qed

lemma trim_working_dir: "trim ''{working_dir}'' = ''{working_dir}''"
  by code_simp

text \<open>
  When no contract was written by the operator, the generated one admits a durable job exactly when
  the kind of the project was detected: the fallback for an unknown project, that its working directory
  exists, is refused.
\<close>

theorem generated_contract_is_strict_iff_detected:
  assumes "read_fault s p = None" "files s p = Some raw"
    "parse_acceptance_checks gv raw = Inr (default_checks_for (detect_project_kind tv js wd) tv wd)"
    "acceptance_capabilities_from_yaml gv raw = Inr default_capabilities"
  shows "validate_strict_contract gv p j s = (Inr (), s) \<longleftrightarrow> detect_project_kind tv js wd \<noteq> UnknownKind"
proof -
  let ?kind = "detect_project_kind tv js wd"
  have "(\<exists>check \<in> set (default_checks_for ?kind tv wd). ck_must_pass check \<and> \<not> only_working_directory check) \<longleftrightarrow> ?kind \<noteq> UnknownKind"
    using trim_working_dir test_command_none [of ?kind tv wd]
    by (auto simp: default_checks_for_def only_working_directory_def split: option.splits)
  then show ?thesis
    using assms default_checks_offline [of _ ?kind tv wd] by (simp add: strict_contract_iff)
qed

end
