(* ===== verification/Acceptance_Marker.thy ===== *)
theory Acceptance_Marker
  imports Acceptance_Contract
begin

text \<open>
  The signed marker of a passed gate (\<open>crates/deadreckon-core/src/gate.rs\<close>): the bytes that are signed,
  its keyed hash, writing and validating it, the reset before an attempt and the counts read from it. The
  signed bytes are a sequence of length-prefixed fields, read back by a parser, so two markers with the
  same signed bytes agree in everything the signature covers.
\<close>

section \<open>Data\<close>

datatype acceptance_proof_kind = NativeGate | SyntheticController | DerivedRollup | LegacyUnknownProof

fun canonical_name :: "acceptance_proof_kind \<Rightarrow> string" where
  "canonical_name NativeGate = ''native_gate''"
| "canonical_name SyntheticController = ''synthetic_controller''"
| "canonical_name DerivedRollup = ''derived_rollup''"
| "canonical_name LegacyUnknownProof = ''legacy_unknown''"

datatype acceptance_signature_strength = HmacSha256 | LegacyWeak

record acceptance_containment =
  cn_contained :: bool
  cn_sandbox_backend :: string

definition contained_in :: "string \<Rightarrow> acceptance_containment" where
  "contained_in backend = \<lparr>cn_contained = True, cn_sandbox_backend = backend\<rparr>"

definition uncontained_in :: "string \<Rightarrow> acceptance_containment" where
  "uncontained_in backend = \<lparr>cn_contained = False, cn_sandbox_backend = backend\<rparr>"

record marker_signing_identity =
  si_issuer :: string
  si_proof_kind :: acceptance_proof_kind

record acceptance_check_result =
  rk_kind :: string
  rk_passed :: bool
  rk_must_pass :: bool
  rk_detail :: string
  rk_command :: "string option"
  rk_cwd :: "path option"
  rk_duration_ms :: "u64 option"
  rk_stdout :: "string option"
  rk_stderr :: "string option"

record acceptance_marker =
  mk_schema_version :: u32
  mk_run_id :: string
  mk_status :: string
  mk_produced_by :: string
  mk_issuer :: string
  mk_proof_kind :: acceptance_proof_kind
  mk_checked_at :: timestamp
  mk_working_dir :: path
  mk_contained :: bool
  mk_sandbox_backend :: string
  mk_signature :: string
  mk_check_count :: nat
  mk_checks :: "acceptance_check_result list"

definition signature_strength :: "acceptance_marker \<Rightarrow> acceptance_signature_strength" where
  "signature_strength m = (if mk_schema_version m \<ge> 2 then HmacSha256 else LegacyWeak)"

definition is_native_gate_proof :: "acceptance_marker \<Rightarrow> bool" where
  "is_native_gate_proof m \<longleftrightarrow>
    mk_schema_version m \<ge> 2 \<and> mk_proof_kind m = NativeGate \<and> mk_issuer m = ''dr-gate''"

text \<open>The environment of the marker: renderings of results, times and paths, and the old hash of the
  nonce, the fields below, the tamper record and the roll-up; a missing file hashes as no file.\<close>

type_synonym legacy_marker_fields =
  "u32 \<times> string \<times> string \<times> string \<times> string \<times> path \<times> nat \<times> acceptance_check_result list"

record marker_env = gate_env +
  mv_marker :: "acceptance_marker codec"
  mv_result :: "acceptance_check_result \<Rightarrow> bytes option"
  mv_rfc3339 :: "timestamp \<Rightarrow> string"
  mv_lossy :: "path \<Rightarrow> string"
  mv_legacy_hash :: "string \<Rightarrow> legacy_marker_fields \<Rightarrow> bytes option \<Rightarrow> bytes option \<Rightarrow> string"

definition marker_error :: "marker_fault \<Rightarrow> dr_error" where
  "marker_error f = InvalidInput (MarkerFault f)"

section \<open>Where the evidence is\<close>

definition marker_path_for_run_root :: "path \<Rightarrow> path" where
  "marker_path_for_run_root run_dir = join (join run_dir ''proofs'') ''turn-acceptance.json''"

definition acceptance_progress_path_for_run_root :: "path \<Rightarrow> path" where
  "acceptance_progress_path_for_run_root run_dir = join (join run_dir ''proofs'') ''acceptance-progress.jsonl''"

definition parent_repair_manifest_path_for_run_root :: "path \<Rightarrow> path" where
  "parent_repair_manifest_path_for_run_root run_dir = join run_dir ''proofs/parent-repair.json''"

definition parent_repair_candidate_path_for_run_root :: "path \<Rightarrow> path" where
  "parent_repair_candidate_path_for_run_root run_dir = join run_dir ''proofs/parent-repair-candidate.json''"

definition gate_nonce_path_for_run_root :: "path \<Rightarrow> path" where
  "gate_nonce_path_for_run_root run_dir = join run_dir ''gate/nonce''"

definition projection_manifest_path_for_run_root :: "path \<Rightarrow> path" where
  "projection_manifest_path_for_run_root run_dir = join (join run_dir ''result-projection'') ''manifest.json''"

section \<open>Signed bytes\<close>

definition be_bytes4 :: "nat \<Rightarrow> bytes" where
  "be_bytes4 n = map (\<lambda>i. char_of (n div 256 ^ i mod 256)) [3, 2, 1, 0]"

definition sized_bytes :: "bytes \<Rightarrow> bytes res" where
  "sized_bytes v =
    (if length v \<ge> 2 ^ 32 then Inl (marker_error MarkerFieldTooLarge) else Inr (be_bytes4 (length v) @ v))"

definition append_sized_bytes :: "bytes \<Rightarrow> bytes \<Rightarrow> bytes res" where
  "append_sized_bytes output v = res_bind (sized_bytes v) (\<lambda>b. Inr (output @ b))"

definition append_canonical_field :: "bytes \<Rightarrow> string \<times> bytes \<Rightarrow> bytes res" where
  "append_canonical_field output field =
    res_bind (append_sized_bytes output (fst field)) (\<lambda>output. append_sized_bytes output (snd field))"

definition read_optional_bound_bytes :: "path \<Rightarrow> bytes io" where
  "read_optional_bound_bytes p = fs_read_or [] p"

text \<open>The files a marker binds beside itself.\<close>

record bound_evidence =
  be_tamper :: bytes
  be_campaign_rollup :: bytes
  be_result_projection :: bytes
  be_parent_repair :: bytes
  be_parent_repair_candidate :: bytes

type_synonym parent_repair_bound_bytes = "bytes option \<times> bytes option"

definition default_bytes :: "bytes option \<Rightarrow> bytes" where
  "default_bytes b = (case b of None \<Rightarrow> [] | Some x \<Rightarrow> x)"

definition read_parent_repair :: "path \<Rightarrow> parent_repair_bound_bytes option \<Rightarrow> (bytes \<times> bytes) io" where
  "read_parent_repair run_dir override =
    (case override of
       Some (manifest, candidate) \<Rightarrow> io_return (default_bytes manifest, default_bytes candidate)
     | None \<Rightarrow>
        io_bind (read_optional_bound_bytes (parent_repair_manifest_path_for_run_root run_dir)) (\<lambda>manifest.
        io_bind (read_optional_bound_bytes (parent_repair_candidate_path_for_run_root run_dir)) (\<lambda>candidate.
        io_return (manifest, candidate))))"

definition read_bound_evidence :: "path \<Rightarrow> parent_repair_bound_bytes option \<Rightarrow> bound_evidence io" where
  "read_bound_evidence run_dir override =
    io_bind (read_optional_bound_bytes (acceptance_tamper_path_for_run_root run_dir)) (\<lambda>tamper.
    io_bind (read_optional_bound_bytes (rollup_path_at_run_root run_dir)) (\<lambda>rollup.
    io_bind (read_optional_bound_bytes (projection_manifest_path_for_run_root run_dir)) (\<lambda>projection.
    io_bind (read_parent_repair run_dir override) (\<lambda>(manifest, candidate).
    io_return \<lparr>be_tamper = tamper, be_campaign_rollup = rollup, be_result_projection = projection,
      be_parent_repair = manifest, be_parent_repair_candidate = candidate\<rparr>))))"

definition canonical_checks :: "'z marker_env_scheme \<Rightarrow> path \<Rightarrow> acceptance_check_result list \<Rightarrow> bytes res" where
  "canonical_checks mv run_dir checks =
    fold_res (\<lambda>bs check.
      res_bind (ok_or (mv_result mv check) (Json (marker_path_for_run_root run_dir))) (\<lambda>b. append_sized_bytes bs b))
      [] checks"

definition optional_field :: "string \<Rightarrow> bytes \<Rightarrow> (string \<times> bytes) list" where
  "optional_field name v = (if v = [] then [] else [(name, v)])"

definition canonical_fields ::
    "'z marker_env_scheme \<Rightarrow> acceptance_marker \<Rightarrow> bytes \<Rightarrow> bound_evidence \<Rightarrow> (string \<times> bytes) list" where
  "canonical_fields mv m checks e =
    [(''schema_version'', show_nat (unat (mk_schema_version m))),
     (''run_id'', mk_run_id m),
     (''status'', mk_status m),
     (''produced_by'', mk_produced_by m),
     (''issuer'', mk_issuer m),
     (''proof_kind'', canonical_name (mk_proof_kind m)),
     (''checked_at'', mv_rfc3339 mv (mk_checked_at m)),
     (''working_dir'', mv_lossy mv (mk_working_dir m)),
     (''contained'', if mk_contained m then ''true'' else ''false''),
     (''sandbox_backend'', mk_sandbox_backend m),
     (''check_count'', show_nat (mk_check_count m)),
     (''checks'', checks),
     (''tamper'', be_tamper e),
     (''campaign_rollup'', be_campaign_rollup e)]
    @ optional_field ''parent_repair'' (be_parent_repair e)
    @ optional_field ''parent_repair_candidate'' (be_parent_repair_candidate e)
    @ optional_field ''result_projection'' (be_result_projection e)"

definition V2_CANONICAL_MAGIC :: bytes where
  "V2_CANONICAL_MAGIC = ''deadreckon.acceptance-marker.v2'' @ [CHR 0x00]"

definition canonical_marker_message ::
    "'z marker_env_scheme \<Rightarrow> path \<Rightarrow> acceptance_marker \<Rightarrow> bound_evidence \<Rightarrow> bytes res" where
  "canonical_marker_message mv run_dir m e =
    res_bind (canonical_checks mv run_dir (mk_checks m)) (\<lambda>checks.
    fold_res append_canonical_field V2_CANONICAL_MAGIC (canonical_fields mv m checks e))"

definition canonical_marker_bytes_with_parent_repair ::
    "'z marker_env_scheme \<Rightarrow> path \<Rightarrow> acceptance_marker \<Rightarrow> parent_repair_bound_bytes option \<Rightarrow> bytes io" where
  "canonical_marker_bytes_with_parent_repair mv run_dir m override =
    io_bind (io_when (mk_schema_version m \<noteq> 2) (marker_error (MarkerCanonicalSchema (mk_schema_version m)))) (\<lambda>_.
    io_bind (read_bound_evidence run_dir override) (\<lambda>e.
    io_lift (canonical_marker_message mv run_dir m e)))"

definition canonical_marker_bytes :: "'z marker_env_scheme \<Rightarrow> path \<Rightarrow> acceptance_marker \<Rightarrow> bytes io" where
  "canonical_marker_bytes mv run_dir m = canonical_marker_bytes_with_parent_repair mv run_dir m None"

section \<open>Signatures\<close>

definition marker_hmac :: "'z marker_env_scheme \<Rightarrow> bytes \<Rightarrow> (bytes \<Rightarrow> bytes) res" where
  "marker_hmac mv key = ok_or (gv_hmac mv key) (marker_error MarkerHmacRefused)"

definition v2_marker_signature :: "'z marker_env_scheme \<Rightarrow> path \<Rightarrow> acceptance_marker \<Rightarrow> bytes \<Rightarrow> string io" where
  "v2_marker_signature mv run_dir m key =
    io_bind (io_lift (require_gate_key_length key)) (\<lambda>_.
    io_bind (io_lift (marker_hmac mv key)) (\<lambda>mac.
    io_bind (canonical_marker_bytes mv run_dir m) (\<lambda>message.
    io_return (hex_encode (mac message)))))"

definition verify_v2_marker_signature_with_parent_repair ::
    "'z marker_env_scheme \<Rightarrow> path \<Rightarrow> acceptance_marker \<Rightarrow> bytes \<Rightarrow> parent_repair_bound_bytes option \<Rightarrow> unit io" where
  "verify_v2_marker_signature_with_parent_repair mv run_dir m key override =
    io_bind (io_lift (require_gate_key_length key)) (\<lambda>_.
    io_bind (io_lift (case hex_decode (mk_signature m) of
        Inl f \<Rightarrow> Inl (marker_error (MarkerSignatureText f)) | Inr b \<Rightarrow> Inr b)) (\<lambda>signature.
    io_bind (io_lift (marker_hmac mv key)) (\<lambda>mac.
    io_bind (canonical_marker_bytes_with_parent_repair mv run_dir m override) (\<lambda>message.
    io_when (mac message \<noteq> signature) (marker_error MarkerForged)))))"

definition verify_v2_marker_signature :: "'z marker_env_scheme \<Rightarrow> path \<Rightarrow> acceptance_marker \<Rightarrow> bytes \<Rightarrow> unit io" where
  "verify_v2_marker_signature mv run_dir m key = verify_v2_marker_signature_with_parent_repair mv run_dir m key None"

text \<open>Markers of the first schema carry a hash of the standard library over the nonce of the run.\<close>

definition legacy_marker_signature :: "'z marker_env_scheme \<Rightarrow> path \<Rightarrow> acceptance_marker \<Rightarrow> string io" where
  "legacy_marker_signature mv run_dir m =
    io_bind (fs_read (gate_nonce_path_for_run_root run_dir)) (\<lambda>nonce.
    io_bind (fs_read_optional (acceptance_tamper_path_for_run_root run_dir)) (\<lambda>tamper.
    io_bind (fs_read_optional (rollup_path_at_run_root run_dir)) (\<lambda>rollup.
    io_return (mv_legacy_hash mv (trim nonce)
      (mk_schema_version m, mk_run_id m, mk_status m, mk_produced_by m, mv_rfc3339 mv (mk_checked_at m),
       mk_working_dir m, mk_check_count m, mk_checks m) tamper rollup))))"

definition validate_legacy_marker_signature :: "'z marker_env_scheme \<Rightarrow> path \<Rightarrow> acceptance_marker \<Rightarrow> unit io" where
  "validate_legacy_marker_signature mv run_dir m =
    io_bind (io_when (mk_produced_by m \<noteq> ''dr-gate'') (marker_error MarkerLegacyProducer)) (\<lambda>_.
    io_bind (legacy_marker_signature mv run_dir m) (\<lambda>expected.
    io_when (mk_signature m \<noteq> expected) (marker_error MarkerForged)))"

section \<open>Validating\<close>

definition validate_marker_signature ::
    "'z marker_env_scheme \<Rightarrow> path \<Rightarrow> string \<Rightarrow> acceptance_marker \<Rightarrow> parent_repair_bound_bytes option \<Rightarrow> unit io" where
  "validate_marker_signature mv run_dir run_id m override =
    (if mk_schema_version m = 1 then validate_legacy_marker_signature mv run_dir m
     else if mk_schema_version m = 2 then
       io_bind (read_gate_key_for_run_root (gv_meta mv) run_dir run_id) (\<lambda>key.
       verify_v2_marker_signature_with_parent_repair mv run_dir m key override)
     else io_throw (marker_error (MarkerSchema (mk_schema_version m))))"

definition validate_acceptance_marker_inner ::
    "'z marker_env_scheme \<Rightarrow> path \<Rightarrow> string \<Rightarrow> parent_repair_bound_bytes option \<Rightarrow> acceptance_marker io" where
  "validate_acceptance_marker_inner mv run_dir run_id override =
    (let p = marker_path_for_run_root run_dir in
     io_bind (fs_read p) (\<lambda>raw.
     io_bind (io_lift (parse_json (mv_marker mv) p raw)) (\<lambda>m.
     io_bind (io_when (mk_run_id m \<noteq> run_id) (marker_error (MarkerRunId (mk_run_id m) run_id))) (\<lambda>_.
     io_bind (io_when (mk_status m \<noteq> ''pass'') (marker_error MarkerNotPass)) (\<lambda>_.
     io_bind (validate_marker_signature mv run_dir run_id m override) (\<lambda>_.
     io_return m))))))"

definition validate_acceptance_marker :: "'z marker_env_scheme \<Rightarrow> path \<Rightarrow> string \<Rightarrow> acceptance_marker io" where
  "validate_acceptance_marker mv run_dir run_id = validate_acceptance_marker_inner mv run_dir run_id None"

definition validate_acceptance_marker_with_parent_repair_bytes ::
    "'z marker_env_scheme \<Rightarrow> path \<Rightarrow> string \<Rightarrow> bytes option \<Rightarrow> bytes option \<Rightarrow> acceptance_marker io" where
  "validate_acceptance_marker_with_parent_repair_bytes mv run_dir run_id manifest candidate =
    validate_acceptance_marker_inner mv run_dir run_id (Some (manifest, candidate))"

section \<open>Writing\<close>

definition write_acceptance_marker_with_context_and_key ::
    "'z marker_env_scheme \<Rightarrow> timestamp \<Rightarrow> path \<Rightarrow> string \<Rightarrow> path \<Rightarrow> acceptance_check_result list \<Rightarrow> bytes
      \<Rightarrow> marker_signing_identity \<Rightarrow> acceptance_containment \<Rightarrow> acceptance_marker io" where
  "write_acceptance_marker_with_context_and_key mv now run_dir run_id working_dir checks key identity containment =
    io_bind (io_lift (require_gate_key_length key)) (\<lambda>_.
    io_bind (create_dir_all (join run_dir ''proofs'')) (\<lambda>_.
    let m = \<lparr>mk_schema_version = 2, mk_run_id = run_id, mk_status = ''pass'', mk_produced_by = si_issuer identity,
        mk_issuer = si_issuer identity, mk_proof_kind = si_proof_kind identity, mk_checked_at = now,
        mk_working_dir = working_dir, mk_contained = cn_contained containment,
        mk_sandbox_backend = cn_sandbox_backend containment, mk_signature = [],
        mk_check_count = length checks, mk_checks = checks\<rparr> in
    io_bind (v2_marker_signature mv run_dir m key) (\<lambda>signature.
    let m = m\<lparr>mk_signature := signature\<rparr> in
    io_bind (io_lift (ok_or (enc (mv_marker mv) m) (Json (marker_path_for_run_root run_dir)))) (\<lambda>b.
    io_bind (fs_write (marker_path_for_run_root run_dir) b) (\<lambda>_.
    io_return m)))))"

definition write_acceptance_marker_with_results ::
    "'z marker_env_scheme \<Rightarrow> timestamp \<Rightarrow> path \<Rightarrow> string \<Rightarrow> path \<Rightarrow> acceptance_check_result list \<Rightarrow> acceptance_marker io" where
  "write_acceptance_marker_with_results mv now run_dir run_id working_dir checks =
    io_bind (read_gate_key_for_run_root (gv_meta mv) run_dir run_id) (\<lambda>key.
    write_acceptance_marker_with_context_and_key mv now run_dir run_id working_dir checks key
      \<lparr>si_issuer = ''deadreckon-controller'', si_proof_kind = SyntheticController\<rparr> (uncontained_in ''synthetic''))"

definition legacy_result :: "nat \<Rightarrow> acceptance_check_result" where
  "legacy_result idx =
    \<lparr>rk_kind = ''legacy'', rk_passed = True, rk_must_pass = True, rk_detail = ''legacy check '' @ show_nat (idx + 1),
     rk_command = None, rk_cwd = None, rk_duration_ms = None, rk_stdout = None, rk_stderr = None\<rparr>"

definition write_acceptance_marker ::
    "'z marker_env_scheme \<Rightarrow> timestamp \<Rightarrow> path \<Rightarrow> string \<Rightarrow> path \<Rightarrow> nat \<Rightarrow> acceptance_marker io" where
  "write_acceptance_marker mv now run_dir run_id working_dir check_count =
    write_acceptance_marker_with_results mv now run_dir run_id working_dir (map legacy_result [0..<check_count])"

definition write_native_acceptance_marker_with_results_and_key ::
    "'z marker_env_scheme \<Rightarrow> timestamp \<Rightarrow> path \<Rightarrow> string \<Rightarrow> path \<Rightarrow> acceptance_check_result list \<Rightarrow> bytes
      \<Rightarrow> acceptance_containment \<Rightarrow> acceptance_marker io" where
  "write_native_acceptance_marker_with_results_and_key mv now run_dir run_id working_dir checks key containment =
    write_acceptance_marker_with_context_and_key mv now run_dir run_id working_dir checks key
      \<lparr>si_issuer = ''dr-gate'', si_proof_kind = NativeGate\<rparr> containment"

section \<open>Attempts\<close>

text \<open>
  \<open>fs::remove_file\<close>: when it answers that there is no such file, there is none, whoever removed it; for
  the reset that is no error.
\<close>

definition unlink :: "path \<Rightarrow> fs \<Rightarrow> fs" where
  "unlink p s = s\<lparr>files := (files s)(p := None)\<rparr>"

definition fs_remove :: "path \<Rightarrow> unit io" where
  "fs_remove p = (\<lambda>s. case write_fault s p of
     Some k \<Rightarrow> (Inl (Io p k), if k = IoNotFound then unlink p s else s)
   | None \<Rightarrow> if files s p = None then (Inl (Io p IoNotFound), s) else (Inr (), unlink p s))"

definition fs_remove_if_present :: "path \<Rightarrow> unit io" where
  "fs_remove_if_present p = (\<lambda>s. case fs_remove p s of
     (Inl (Io q IoNotFound), s') \<Rightarrow> (Inr (), s')
   | r \<Rightarrow> r)"

definition clear_stale_gate_attempt_evidence :: "path \<Rightarrow> unit io" where
  "clear_stale_gate_attempt_evidence run_dir =
    io_bind (fs_remove_if_present (marker_path_for_run_root run_dir)) (\<lambda>_.
    fs_remove_if_present (acceptance_progress_path_for_run_root run_dir))"

definition u32_of_count :: "nat \<Rightarrow> u32 option" where
  "u32_of_count n = (if n < 2 ^ 32 then Some (of_nat n) else None)"

definition attempt_counts :: "acceptance_marker \<Rightarrow> u32 \<times> u32" where
  "attempt_counts m =
    (let n_total = (case u32_of_count (length (mk_checks m)) of Some n \<Rightarrow> n | None \<Rightarrow> - 1);
         n_passed = (case u32_of_count (length (filter rk_passed (mk_checks m))) of
           Some n \<Rightarrow> min n n_total | None \<Rightarrow> n_total)
     in (n_passed, n_total))"

text \<open>Every failure on the way gives no counts (\<open>.ok()?\<close>).\<close>

definition last_gate_attempt_counts :: "'z marker_env_scheme \<Rightarrow> path \<Rightarrow> string \<Rightarrow> fs \<Rightarrow> (u32 \<times> u32) option" where
  "last_gate_attempt_counts mv run_dir run_id s =
    (case (io_bind (fs_read (marker_path_for_run_root run_dir)) (\<lambda>raw.
       io_bind (io_lift (parse_json (mv_marker mv) (marker_path_for_run_root run_dir) raw)) (\<lambda>m.
       if mk_run_id m \<noteq> run_id \<or> mk_checks m = [] \<or> mk_check_count m \<noteq> length (mk_checks m) then io_return None
       else
         io_bind (read_gate_key_for_run_root (gv_meta mv) run_dir run_id) (\<lambda>key.
         io_bind (verify_v2_marker_signature mv run_dir m key) (\<lambda>_.
         io_return (Some (attempt_counts m))))))) s of
       (Inr counts, _) \<Rightarrow> counts
     | (Inl _, _) \<Rightarrow> None)"

definition validate_signing_containment :: "acceptance_containment \<Rightarrow> unit res" where
  "validate_signing_containment c =
    (let backend = cn_sandbox_backend c;
         coherent = (if cn_contained c then backend \<in> {''sandbox-exec'', ''bwrap'', ''docker''} else backend = ''none'')
     in if coherent then Inr () else Inl (marker_error (ContainmentIncoherent (cn_contained c) backend)))"

section \<open>Signed bytes read back\<close>

definition sized :: "bytes \<Rightarrow> bytes" where
  "sized v = be_bytes4 (length v) @ v"

definition fits :: "bytes \<Rightarrow> bool" where
  "fits v \<longleftrightarrow> length v < 2 ^ 32"

lemma be_bytes4_length [simp]: "length (be_bytes4 n) = 4"
  by (simp add: be_bytes4_def)

lemma be_bytes4_inj:
  assumes "be_bytes4 n = be_bytes4 m" "n < 2 ^ 32" "m < 2 ^ 32"
  shows "n = m"
proof -
  have eq: "n div 256 ^ i mod 256 = m div 256 ^ i mod 256" if "i \<in> {0, 1, 2, 3}" for i
  proof -
    have "i \<in> set [3, 2, 1, 0]" using that by auto
    moreover have "\<forall>i \<in> set [3, 2, 1, 0]. (char_of (n div 256 ^ i mod 256) :: char) = char_of (m div 256 ^ i mod 256)"
      using assms(1) unfolding be_bytes4_def map_eq_conv .
    ultimately have "(char_of (n div 256 ^ i mod 256) :: char) = char_of (m div 256 ^ i mod 256)" by blast
    then show ?thesis by (metis mod_mod_trivial of_char_of)
  qed
  have split: "k = 256 * (k div 256) + k mod 256" for k :: nat by simp
  have "n div 256 div 256 div 256 = m div 256 div 256 div 256"
    using eq [of 3] assms(2,3) by (simp add: div_mult2_eq [symmetric])
  then have "n div 256 div 256 = m div 256 div 256"
    using eq [of 2] split [of "n div 256 div 256"] split [of "m div 256 div 256"] by (simp add: div_mult2_eq [symmetric])
  then have "n div 256 = m div 256"
    using eq [of 1] split [of "n div 256"] split [of "m div 256"] by simp
  then show ?thesis using eq [of 0] split [of n] split [of m] by simp
qed

lemma sized_append_inj:
  assumes "sized v @ r = sized w @ r'" "fits v" "fits w"
  shows "v = w \<and> r = r'"
proof -
  have "be_bytes4 (length v) = be_bytes4 (length w)" "v @ r = w @ r'"
    using assms(1) by (auto simp: sized_def)
  moreover have "length v = length w" using be_bytes4_inj calculation(1) assms(2,3) by (simp add: fits_def)
  ultimately show ?thesis by simp
qed

lemma sized_concat_inj:
  "concat (map sized vs) = concat (map sized ws) \<Longrightarrow> list_all fits vs \<Longrightarrow> list_all fits ws \<Longrightarrow> vs = ws"
proof (induction vs arbitrary: ws)
  case Nil
  then show ?case by (cases ws) (auto simp: sized_def be_bytes4_def)
next
  case (Cons v vs)
  then obtain w ws' where ws: "ws = w # ws'" by (cases ws) (auto simp: sized_def be_bytes4_def)
  with Cons.prems have "v = w \<and> concat (map sized vs) = concat (map sized ws')"
    by (intro sized_append_inj) auto
  with Cons ws show ?case by simp
qed

lemma sized_bytes_Inr_iff [result_simps]: "sized_bytes v = Inr b \<longleftrightarrow> fits v \<and> b = sized v"
  by (auto simp: sized_bytes_def sized_def fits_def)

lemma append_field_Inr_iff:
  "append_canonical_field out field = Inr out' \<longleftrightarrow>
    fits (fst field) \<and> fits (snd field) \<and> out' = out @ sized (fst field) @ sized (snd field)"
  by (auto simp: append_canonical_field_def append_sized_bytes_def result_simps)

text \<open>Names and values of the fields in one list.\<close>

definition flat_fields :: "(string \<times> bytes) list \<Rightarrow> bytes list" where
  "flat_fields nvs = concat (map (\<lambda>(n, v). [n, v]) nvs)"

lemma flat_fields_simps [simp]:
  "flat_fields [] = []" "flat_fields (f # fs) = fst f # snd f # flat_fields fs"
  by (simp_all add: flat_fields_def case_prod_beta)

lemma flat_fields_inj: "flat_fields fs = flat_fields gs \<Longrightarrow> fs = gs"
proof (induction fs arbitrary: gs)
  case Nil then show ?case by (cases gs) auto
next
  case (Cons f fs) then show ?case by (cases gs) (auto simp: prod_eq_iff)
qed

lemma fields_message:
  "fold_res append_canonical_field out nvs = Inr out' \<longleftrightarrow>
    list_all fits (flat_fields nvs) \<and> out' = out @ concat (map sized (flat_fields nvs))"
  by (induction nvs arbitrary: out) (auto simp: append_field_Inr_iff res_bind_Inr_iff)

lemma canonical_checks_eq:
  assumes "fold_res (\<lambda>bs check. res_bind (ok_or (f check) x) (\<lambda>b. append_sized_bytes bs b)) out checks = Inr bs"
  shows "\<exists>rs. map f checks = map Some rs \<and> list_all fits rs \<and> bs = out @ concat (map sized rs)"
  using assms
proof (induction checks arbitrary: out)
  case (Cons c cs)
  from Cons.prems obtain r where r: "f c = Some r" "fits r"
      "fold_res (\<lambda>bs check. res_bind (ok_or (f check) x) (\<lambda>b. append_sized_bytes bs b)) (out @ sized r) cs = Inr bs"
    by (auto simp: append_sized_bytes_def result_simps)
  from Cons.IH [OF r(3)] obtain rs where "map f cs = map Some rs" "list_all fits rs" "bs = (out @ sized r) @ concat (map sized rs)"
    by blast
  with r show ?case by (intro exI [of _ "r # rs"]) simp
qed simp

lemma canonical_checks_inj:
  assumes "canonical_checks mv rd cs = Inr bs" "canonical_checks mv rd' cs' = Inr bs"
  shows "map (mv_result mv) cs = map (mv_result mv) cs'"
proof -
  obtain rs rs' where "map (mv_result mv) cs = map Some rs" "list_all fits rs" "bs = concat (map sized rs)"
      "map (mv_result mv) cs' = map Some rs'" "list_all fits rs'" "bs = concat (map sized rs')"
    using canonical_checks_eq [OF assms(1) [unfolded canonical_checks_def]]
      canonical_checks_eq [OF assms(2) [unfolded canonical_checks_def]] by auto
  moreover from this have "rs = rs'" using sized_concat_inj by metis
  ultimately show ?thesis by simp
qed

lemma canonical_name_inj: "canonical_name k = canonical_name k' \<longleftrightarrow> k = k'"
  by (cases k; cases k') simp_all

lemma show_nat_eq_iff: "show_nat m = show_nat n \<longleftrightarrow> m = n"
  using show_nat_inj by blast

text \<open>What two markers with their evidence share when the signature covers the same bytes.\<close>

definition same_signed_facts :: "'z marker_env_scheme \<Rightarrow> acceptance_marker \<Rightarrow> acceptance_marker \<Rightarrow> bool" where
  "same_signed_facts mv m m' \<longleftrightarrow>
    mk_schema_version m = mk_schema_version m' \<and> mk_run_id m = mk_run_id m' \<and> mk_status m = mk_status m'
    \<and> mk_produced_by m = mk_produced_by m' \<and> mk_issuer m = mk_issuer m' \<and> mk_proof_kind m = mk_proof_kind m'
    \<and> mv_rfc3339 mv (mk_checked_at m) = mv_rfc3339 mv (mk_checked_at m')
    \<and> mv_lossy mv (mk_working_dir m) = mv_lossy mv (mk_working_dir m')
    \<and> mk_contained m = mk_contained m' \<and> mk_sandbox_backend m = mk_sandbox_backend m'
    \<and> mk_check_count m = mk_check_count m'
    \<and> map (mv_result mv) (mk_checks m) = map (mv_result mv) (mk_checks m')"

lemma canonical_message_cases:
  assumes "canonical_marker_message mv rd m e = Inr bs"
  obtains checks where "canonical_checks mv rd (mk_checks m) = Inr checks"
    "list_all fits (flat_fields (canonical_fields mv m checks e))"
    "bs = V2_CANONICAL_MAGIC @ concat (map sized (flat_fields (canonical_fields mv m checks e)))"
  using assms by (auto simp: canonical_marker_message_def res_bind_Inr_iff fields_message)

lemma same_message_same_facts:
  assumes "canonical_marker_message mv rd m e = Inr bs" "canonical_marker_message mv rd' m' e' = Inr bs"
  shows "same_signed_facts mv m m' \<and> e = e'"
proof -
  obtain cs where c: "canonical_checks mv rd (mk_checks m) = Inr cs"
      "list_all fits (flat_fields (canonical_fields mv m cs e))"
      "bs = V2_CANONICAL_MAGIC @ concat (map sized (flat_fields (canonical_fields mv m cs e)))"
    using assms(1) by (rule canonical_message_cases)
  obtain cs' where c': "canonical_checks mv rd' (mk_checks m') = Inr cs'"
      "list_all fits (flat_fields (canonical_fields mv m' cs' e'))"
      "bs = V2_CANONICAL_MAGIC @ concat (map sized (flat_fields (canonical_fields mv m' cs' e')))"
    using assms(2) by (rule canonical_message_cases)
  have "canonical_fields mv m cs e = canonical_fields mv m' cs' e'"
    using c(2,3) c'(2,3) sized_concat_inj flat_fields_inj by simp
  then have f: "unat (mk_schema_version m) = unat (mk_schema_version m')" "mk_run_id m = mk_run_id m'"
      "mk_status m = mk_status m'" "mk_produced_by m = mk_produced_by m'" "mk_issuer m = mk_issuer m'"
      "mk_proof_kind m = mk_proof_kind m'" "mv_rfc3339 mv (mk_checked_at m) = mv_rfc3339 mv (mk_checked_at m')"
      "mv_lossy mv (mk_working_dir m) = mv_lossy mv (mk_working_dir m')" "mk_contained m = mk_contained m'"
      "mk_sandbox_backend m = mk_sandbox_backend m'" "mk_check_count m = mk_check_count m'" "cs = cs'"
      "be_tamper e = be_tamper e'" "be_campaign_rollup e = be_campaign_rollup e'"
    and opt: "optional_field ''parent_repair'' (be_parent_repair e)
        @ optional_field ''parent_repair_candidate'' (be_parent_repair_candidate e)
        @ optional_field ''result_projection'' (be_result_projection e)
      = optional_field ''parent_repair'' (be_parent_repair e')
        @ optional_field ''parent_repair_candidate'' (be_parent_repair_candidate e')
        @ optional_field ''result_projection'' (be_result_projection e')"
    by (auto simp: canonical_fields_def canonical_name_inj show_nat_eq_iff split: if_splits)
  have "be_parent_repair e = be_parent_repair e' \<and> be_parent_repair_candidate e = be_parent_repair_candidate e'
      \<and> be_result_projection e = be_result_projection e'"
    using opt by (simp add: optional_field_def split: if_splits)
  then have "e = e'" using f(13,14) by (intro bound_evidence.equality) simp_all
  moreover have "map (mv_result mv) (mk_checks m) = map (mv_result mv) (mk_checks m')"
    using canonical_checks_inj c(1) c'(1) f(12) by metis
  ultimately show ?thesis using f by (simp add: same_signed_facts_def word_unat_eq_iff)
qed

text \<open>
  The bytes a marker signature covers are unambiguous: when two markers are signed over the same
  bytes they agree in every field and in every rendered check result, and the tamper record, the campaign
  roll-up, the result projection and the parent repair files bound beside them are the same.
\<close>

theorem signed_marker_bytes_are_unambiguous:
  assumes "canonical_marker_message mv rd m e = Inr bs" "canonical_marker_message mv rd' m' e' = Inr bs"
  shows "same_signed_facts mv m m' \<and> e = e'"
  using assms by (rule same_message_same_facts)

end
