(* ===== verification/Marker_Evidence.thy ===== *)
theory Marker_Evidence
  imports Acceptance_Marker
begin

text \<open>
  What a marker is worth: a written marker validates, a validated one vouches for the files bound beside
  it, and after the reset before an attempt there is no evidence at all. The frame lemmas say which reads
  do not see a write; they serve the theories of the other sealed documents too.
\<close>

section \<open>Reads that do not see a write\<close>

definition blind :: "path \<Rightarrow> 'a io \<Rightarrow> bool" where
  "blind p m \<longleftrightarrow> (\<forall>s b. m (put_file p b s) = (fst (m s), put_file p b s))"

lemma blindD: "blind p m \<Longrightarrow> m (put_file p b s) = (fst (m s), put_file p b s)"
  by (simp add: blind_def)

lemma blind_run: "blind p m \<Longrightarrow> m s = (r, s) \<Longrightarrow> m (put_file p b s) = (r, put_file p b s)"
  by (simp add: blind_def)

lemma blind_simple [intro!]:
  "blind p (io_return a)" "blind p (io_throw e)" "blind p (io_lift r)" "blind p (io_when c e)"
  by (simp_all add: blind_def)

lemma blind_reads:
  assumes "q \<noteq> p"
  shows "blind p (fs_read q)" "blind p (fs_read_or d q)" "blind p (fs_read_optional q)" "blind p (fs_exists q)"
  using assms
  by (simp_all add: blind_def fs_read_def fs_read_or_def fs_read_optional_def fs_exists_def
      split: option.splits io_error_kind.splits)

lemma blind_bind:
  assumes "blind p m" "readonly m" "\<And>a. blind p (f a)"
  shows "blind p (io_bind m f)"
  unfolding blind_def
proof (intro allI)
  fix s b
  obtain r where r: "m s = (r, s)" using assms(2) by (cases "m s") (auto dest: readonlyD)
  then have "m (put_file p b s) = (r, put_file p b s)" using blind_run [OF assms(1)] by simp
  with r show "io_bind m f (put_file p b s) = (fst (io_bind m f s), put_file p b s)"
    using assms(3) by (cases r) (simp_all add: io_bind_run blind_def)
qed

section \<open>The files of the evidence\<close>

text \<open>The name of the last component tells the files of a run apart.\<close>

definition named :: "string \<Rightarrow> path \<Rightarrow> bool" where
  "named name p \<longleftrightarrow> (\<exists>q. p = q @ [Normal name])"

lemma named_differ: "named a p \<Longrightarrow> named b q \<Longrightarrow> a \<noteq> b \<Longrightarrow> p \<noteq> q"
  by (auto simp: named_def)

lemma named_join: "plain name \<Longrightarrow> named name (join p name)"
  by (auto simp: named_def join_plain)

lemma named_join_two:
  assumes "components name = [Normal a, Normal b]"
  shows "named b (join p name)"
  using assms by (cases "p = []") (auto simp: named_def join_def join_path_def)

lemma evidence_names:
  "named ''turn-acceptance.json'' (marker_path_for_run_root rd)"
  "named ''acceptance-progress.jsonl'' (acceptance_progress_path_for_run_root rd)"
  "named ''acceptance-tamper.json'' (acceptance_tamper_path_for_run_root rd)"
  "named ''campaign-rollup.json'' (rollup_path_at_run_root rd)"
  "named ''manifest.json'' (projection_manifest_path_for_run_root rd)"
  "named ''parent-repair.json'' (parent_repair_manifest_path_for_run_root rd)"
  "named ''parent-repair-candidate.json'' (parent_repair_candidate_path_for_run_root rd)"
  "named (gate_key_file_stem r @ ''.key'') (gate_key_path home r)"
proof -
  have "components ''proofs/parent-repair.json'' = [Normal ''proofs'', Normal ''parent-repair.json'']"
    "components ''proofs/parent-repair-candidate.json'' = [Normal ''proofs'', Normal ''parent-repair-candidate.json'']"
    by code_simp+
  then show "named ''parent-repair.json'' (parent_repair_manifest_path_for_run_root rd)"
    "named ''parent-repair-candidate.json'' (parent_repair_candidate_path_for_run_root rd)"
    by (simp_all add: named_join_two parent_repair_manifest_path_for_run_root_def parent_repair_candidate_path_for_run_root_def)
  show "named (gate_key_file_stem r @ ''.key'') (gate_key_path home r)"
    by (simp add: named_def gate_key_path_eq)
qed (simp_all add: named_join plain_def marker_path_for_run_root_def acceptance_progress_path_for_run_root_def
    acceptance_tamper_path_for_run_root_def rollup_path_at_run_root_def projection_manifest_path_for_run_root_def)

lemma key_name_differs: "c \<noteq> CHR ''y'' \<Longrightarrow> stem @ ''.key'' \<noteq> name @ [c]"
  using arg_cong [of "stem @ ''.key''" _ last] by fastforce

lemma marker_path_not_key: "gate_key_path home r \<noteq> marker_path_for_run_root rd"
proof (rule named_differ [OF evidence_names(8,1)])
  show "gate_key_file_stem r @ ''.key'' \<noteq> ''turn-acceptance.json''"
    using key_name_differs [of "CHR ''n''" _ "''turn-acceptance.jso''"] by simp
qed

lemma readonly_read_parent_repair [intro!]: "readonly (read_parent_repair rd ov)"
  unfolding read_parent_repair_def by (auto split: option.splits simp: read_optional_bound_bytes_def intro!: readonly_bind)

lemma readonly_read_bound_evidence [intro!]: "readonly (read_bound_evidence rd ov)"
  unfolding read_bound_evidence_def read_optional_bound_bytes_def
  by (intro readonly_bind readonly_reads readonly_read_parent_repair) (auto split: prod.splits)

lemma readonly_canonical [intro!]: "readonly (canonical_marker_bytes_with_parent_repair mv rd m ov)"
  unfolding canonical_marker_bytes_with_parent_repair_def by (intro readonly_bind) auto

lemma readonly_read_key_for_run_root [intro!]: "readonly (read_gate_key_for_run_root meta rd r)"
  unfolding read_gate_key_for_run_root_def read_gate_key_at_path_def
  by (intro readonly_bind readonly_intros readonly_reads) (auto split: option.splits sum.splits)

lemma blind_read_bound_evidence: "blind (marker_path_for_run_root rd) (read_bound_evidence rd ov)"
proof -
  have ne: "q \<noteq> marker_path_for_run_root rd" if "named n q" "n \<noteq> ''turn-acceptance.json''" for n q
    using named_differ [OF that(1) evidence_names(1) that(2)] .
  show ?thesis
    unfolding read_bound_evidence_def read_parent_repair_def read_optional_bound_bytes_def
    by (intro blind_bind blind_reads readonly_reads ne [OF evidence_names(3)] ne [OF evidence_names(4)]
        ne [OF evidence_names(5)])
      (auto split: option.splits prod.splits intro!: blind_bind blind_reads readonly_bind ne [OF evidence_names(6)]
        ne [OF evidence_names(7)])
qed

lemma blind_canonical: "blind (marker_path_for_run_root rd) (canonical_marker_bytes_with_parent_repair mv rd m ov)"
  unfolding canonical_marker_bytes_with_parent_repair_def
  by (intro blind_bind blind_read_bound_evidence) auto

lemma io_bind_lift_Inr [simp]: "io_bind (io_lift (Inr a)) f = f a"
  by (simp add: fun_eq_iff io_bind_run)

lemma blind_read_key_for_run_root: "blind (marker_path_for_run_root rd') (read_gate_key_for_run_root meta rd r)"
proof (cases "gate_key_path_for_run_root rd r")
  case (Inl e)
  then show ?thesis by (simp add: read_gate_key_for_run_root_def blind_def io_bind_run)
next
  case (Inr p)
  then have p: "p \<noteq> marker_path_for_run_root rd'"
    using marker_path_not_key by (auto simp: gate_key_path_for_run_root_def result_simps)
  have "blind (marker_path_for_run_root rd') (read_gate_key_at_path meta p r)"
    unfolding read_gate_key_at_path_def
    by (intro blind_bind blind_reads p readonly_reads) (auto split: option.splits sum.splits)
  then show ?thesis using Inr by (simp add: read_gate_key_for_run_root_def)
qed

section \<open>A written marker validates\<close>

definition reads_back :: "'a codec \<Rightarrow> 'a \<Rightarrow> bool" where
  "reads_back c v \<longleftrightarrow> (\<forall>b. enc c v = Some b \<longrightarrow> dec c b = Some v)"

lemma fs_write_Inr_iff [result_simps]:
  "fs_write p b s = (Inr u, s') \<longleftrightarrow> write_fault s p = None \<and> s' = put_file p b s"
  by (auto simp: fs_write_def split: option.splits)

lemma create_dir_all_Inr_iff [result_simps]: "create_dir_all p s = (Inr u, s') \<longleftrightarrow> write_fault s p = None \<and> s' = s"
  by (auto simp: create_dir_all_def split: option.splits)

lemma message_ignores_signature [simp]:
  "canonical_marker_message mv rd (m\<lparr>mk_signature := x\<rparr>) e = canonical_marker_message mv rd m e"
  by (simp add: canonical_marker_message_def canonical_fields_def)

lemma canonical_ignores_signature [simp]:
  "canonical_marker_bytes_with_parent_repair mv rd (m\<lparr>mk_signature := x\<rparr>) ov
    = canonical_marker_bytes_with_parent_repair mv rd m ov"
  by (simp add: canonical_marker_bytes_with_parent_repair_def)

lemma v2_signature_cases:
  assumes "v2_marker_signature mv rd m key s = (Inr signature, s')"
  obtains message mac where "length key = GATE_KEY_BYTES" "canonical_marker_bytes mv rd m s = (Inr message, s)"
    "gv_hmac mv key = Some mac" "signature = hex_encode (mac message)" "s' = s"
proof -
  from assms obtain message s1 mac where r: "length key = GATE_KEY_BYTES" "canonical_marker_bytes mv rd m s = (Inr message, s1)"
      "gv_hmac mv key = Some mac" "signature = hex_encode (mac message)" "s' = s1"
    by (auto simp: v2_marker_signature_def require_gate_key_length_def marker_hmac_def result_simps split: if_splits)
  moreover have "s1 = s" using readonlyD [OF readonly_canonical] r(2) by (simp add: canonical_marker_bytes_def)
  ultimately show thesis by (intro that [of message mac]) auto
qed

lemma written_marker_cases:
  assumes "write_acceptance_marker_with_context_and_key mv now rd rid wd checks key identity c s = (Inr m, s')"
  obtains message mac b where "canonical_marker_bytes mv rd m s = (Inr message, s)" "length key = GATE_KEY_BYTES"
    "gv_hmac mv key = Some mac" "mk_signature m = hex_encode (mac message)" "enc (mv_marker mv) m = Some b"
    "s' = put_file (marker_path_for_run_root rd) b s"
    "mk_schema_version m = 2" "mk_run_id m = rid" "mk_status m = ''pass''" "mk_issuer m = si_issuer identity"
    "mk_proof_kind m = si_proof_kind identity" "mk_checks m = checks" "mk_check_count m = length checks"
    "mk_working_dir m = wd" "mk_contained m = cn_contained c" "mk_sandbox_backend m = cn_sandbox_backend c"
proof -
  define m0 where "m0 = \<lparr>mk_schema_version = 2, mk_run_id = rid, mk_status = ''pass'', mk_produced_by = si_issuer identity,
    mk_issuer = si_issuer identity, mk_proof_kind = si_proof_kind identity, mk_checked_at = now,
    mk_working_dir = wd, mk_contained = cn_contained c, mk_sandbox_backend = cn_sandbox_backend c, mk_signature = [],
    mk_check_count = length checks, mk_checks = checks\<rparr>"
  from assms obtain signature s1 b where r: "v2_marker_signature mv rd m0 key s = (Inr signature, s1)"
      "m = m0\<lparr>mk_signature := signature\<rparr>" "enc (mv_marker mv) m = Some b" "s' = put_file (marker_path_for_run_root rd) b s1"
    unfolding m0_def by (auto simp: write_acceptance_marker_with_context_and_key_def Let_def result_simps)
  from r(1) obtain message mac where "length key = GATE_KEY_BYTES" "canonical_marker_bytes mv rd m0 s = (Inr message, s)"
      "gv_hmac mv key = Some mac" "signature = hex_encode (mac message)" "s1 = s"
    by (rule v2_signature_cases)
  moreover have "canonical_marker_bytes mv rd m s = canonical_marker_bytes mv rd m0 s"
    using r(2) by (simp add: canonical_marker_bytes_def)
  moreover have "mk_signature m = signature" using r(2) by simp
  ultimately show thesis
    using r(2-4) by (intro that [of message mac b]) (simp_all add: m0_def)
qed

text \<open>
  C22: A marker the gate signs is read back as written and validates under the protected key of the run;
  it is a native proof, records the results and the containment it was given, and nothing else on disk
  has changed.
\<close>

theorem signed_marker_validates:
  assumes "write_native_acceptance_marker_with_results_and_key mv now rd rid wd checks key c s = (Inr m, s')"
    "read_gate_key_for_run_root (gv_meta mv) rd rid s = (Inr key, s)" "reads_back (mv_marker mv) m"
    "read_fault s (marker_path_for_run_root rd) = None"
  shows "validate_acceptance_marker mv rd rid s' = (Inr m, s') \<and> is_native_gate_proof m \<and> mk_run_id m = rid
    \<and> mk_checks m = checks \<and> mk_check_count m = length checks
    \<and> mk_contained m = cn_contained c \<and> mk_sandbox_backend m = cn_sandbox_backend c
    \<and> changes_only {marker_path_for_run_root rd} s s'"
proof -
  let ?p = "marker_path_for_run_root rd"
  from assms(1) obtain message mac b where w: "canonical_marker_bytes mv rd m s = (Inr message, s)" "length key = GATE_KEY_BYTES"
    "gv_hmac mv key = Some mac" "mk_signature m = hex_encode (mac message)" "enc (mv_marker mv) m = Some b" "s' = put_file ?p b s"
    "mk_schema_version m = 2" "mk_run_id m = rid" "mk_status m = ''pass''" "mk_issuer m = ''dr-gate''"
    "mk_proof_kind m = NativeGate" "mk_checks m = checks" "mk_check_count m = length checks"
    "mk_contained m = cn_contained c" "mk_sandbox_backend m = cn_sandbox_backend c"
    unfolding write_native_acceptance_marker_with_results_and_key_def by (rule written_marker_cases) auto
  have key: "read_gate_key_for_run_root (gv_meta mv) rd rid s' = (Inr key, s')"
    unfolding w(6) by (rule blind_run [OF blind_read_key_for_run_root assms(2)])
  have "canonical_marker_bytes_with_parent_repair mv rd m None s' = (Inr message, s')"
    unfolding w(6) using w(1) by (intro blind_run [OF blind_canonical]) (simp add: canonical_marker_bytes_def)
  then have "verify_v2_marker_signature_with_parent_repair mv rd m key None s' = (Inr (), s')"
    using w(2-4) by (simp add: verify_v2_marker_signature_with_parent_repair_def require_gate_key_length_def
        hex_roundtrip marker_hmac_def io_bind_run)
  then have "validate_marker_signature mv rd rid m None s' = (Inr (), s')"
    using key w(7) by (simp add: validate_marker_signature_def io_bind_run)
  moreover have "fs_read ?p s' = (Inr b, s')" using assms(4) by (simp add: w(6) fs_read_def)
  moreover have "dec (mv_marker mv) b = Some m" using assms(3) w(5) by (simp add: reads_back_def)
  ultimately have "validate_acceptance_marker mv rd rid s' = (Inr m, s')"
    using w(8,9) by (simp add: validate_acceptance_marker_def validate_acceptance_marker_inner_def Let_def
        parse_json_def io_bind_run)
  then show ?thesis using w by (simp add: is_native_gate_proof_def changes_only_put_file)
qed

section \<open>A validated marker vouches for its evidence\<close>

text \<open>
  The one event that would let two signatures agree without the signed facts agreeing: the texts
  signed for these two markers and their evidence differ and the keyed hash, under this key, gives both
  the same value.
\<close>

definition signed_texts_collide ::
    "'z marker_env_scheme \<Rightarrow> path \<Rightarrow> bytes \<Rightarrow> acceptance_marker \<Rightarrow> bound_evidence \<Rightarrow> acceptance_marker \<Rightarrow> bound_evidence \<Rightarrow> bool"
  where
  "signed_texts_collide mv rd key m e m' e' \<longleftrightarrow>
    (\<exists>message message' mac. canonical_marker_message mv rd m e = Inr message
      \<and> canonical_marker_message mv rd m' e' = Inr message' \<and> gv_hmac mv key = Some mac
      \<and> message \<noteq> message' \<and> mac message = mac message')"

lemma validated_marker_cases:
  assumes "validate_acceptance_marker_inner mv rd rid ov s = (Inr m, s')"
  obtains raw where "files s (marker_path_for_run_root rd) = Some raw" "dec (mv_marker mv) raw = Some m"
    "mk_run_id m = rid" "mk_status m = ''pass''" "validate_marker_signature mv rd rid m ov s = (Inr (), s')"
  using assms
  by (auto simp: validate_acceptance_marker_inner_def Let_def parse_json_def result_simps split: if_splits)

lemma verified_marker_cases:
  assumes "verify_v2_marker_signature_with_parent_repair mv rd m key ov s = (Inr (), s')"
  obtains e message mac where "read_bound_evidence rd ov s = (Inr e, s)" "canonical_marker_message mv rd m e = Inr message"
    "gv_hmac mv key = Some mac" "hex_decode (mk_signature m) = Inr (mac message)" "s' = s" "mk_schema_version m = 2"
proof -
  from assms obtain message s1 mac where r: "canonical_marker_bytes_with_parent_repair mv rd m ov s = (Inr message, s1)"
      "gv_hmac mv key = Some mac" "hex_decode (mk_signature m) = Inr (mac message)" "s' = s1"
    by (auto simp: verify_v2_marker_signature_with_parent_repair_def require_gate_key_length_def marker_hmac_def result_simps
        split: if_splits sum.splits)
  have s1: "s1 = s" by (rule readonlyD [OF readonly_canonical r(1)])
  from r(1) obtain e s2 where e: "read_bound_evidence rd ov s = (Inr e, s2)" "canonical_marker_message mv rd m e = Inr message"
      "mk_schema_version m = 2"
    by (auto simp: canonical_marker_bytes_with_parent_repair_def result_simps split: if_splits)
  have "s2 = s" by (rule readonlyD [OF readonly_read_bound_evidence e(1)])
  with r s1 e show thesis by (intro that [of e message mac]) auto
qed

lemma validated_v2_cases:
  assumes "validate_acceptance_marker_inner mv rd rid ov s = (Inr m, s')" "mk_schema_version m = 2"
    "read_gate_key_for_run_root (gv_meta mv) rd rid s = (Inr key, s)"
  obtains e message mac where "read_bound_evidence rd ov s = (Inr e, s)" "canonical_marker_message mv rd m e = Inr message"
    "gv_hmac mv key = Some mac" "hex_decode (mk_signature m) = Inr (mac message)" "s' = s"
proof -
  from assms(1) have "validate_marker_signature mv rd rid m ov s = (Inr (), s')" by (rule validated_marker_cases)
  then have "verify_v2_marker_signature_with_parent_repair mv rd m key ov s = (Inr (), s')"
    using assms(2,3) by (simp add: validate_marker_signature_def io_bind_run)
  then show thesis by (rule verified_marker_cases) (rule that)
qed

text \<open>
  C20: When two markers with the same signature validate under one key, at whatever times, they agree in
  every signed fact and the files bound beside them have not changed between the two: the tamper record,
  the campaign roll-up, the result projection and the parent repair. The only alternative is that the
  two texts signed for them differ and the keyed hash maps these two texts to the same value.
\<close>

theorem marker_vouches_for_its_evidence:
  assumes "validate_acceptance_marker_inner mv rd rid ov s = (Inr m, s')" "mk_schema_version m = 2"
    "read_gate_key_for_run_root (gv_meta mv) rd rid s = (Inr key, s)"
    "validate_acceptance_marker_inner mv rd rid ov' t = (Inr m', t')" "mk_schema_version m' = 2"
    "read_gate_key_for_run_root (gv_meta mv) rd rid t = (Inr key, t)"
    "mk_signature m' = mk_signature m"
  shows "\<exists>e e'. read_bound_evidence rd ov s = (Inr e, s) \<and> read_bound_evidence rd ov' t = (Inr e', t)
    \<and> (same_signed_facts mv m m' \<and> e = e' \<or> signed_texts_collide mv rd key m e m' e')"
proof -
  obtain e message mac where e: "read_bound_evidence rd ov s = (Inr e, s)" "canonical_marker_message mv rd m e = Inr message"
      "gv_hmac mv key = Some mac" "hex_decode (mk_signature m) = Inr (mac message)"
    using assms(1-3) by (rule validated_v2_cases)
  obtain e' message' mac' where e': "read_bound_evidence rd ov' t = (Inr e', t)" "canonical_marker_message mv rd m' e' = Inr message'"
      "gv_hmac mv key = Some mac'" "hex_decode (mk_signature m') = Inr (mac' message')"
    using assms(4-6) by (rule validated_v2_cases)
  have "same_signed_facts mv m m' \<and> e = e' \<or> signed_texts_collide mv rd key m e m' e'"
  proof (cases "message = message'")
    case True
    then show ?thesis using same_message_same_facts [OF e(2)] e'(2) by blast
  next
    case False
    then show ?thesis using e(2-4) e'(2-4) assms(7) by (simp add: signed_texts_collide_def)
  qed
  with e(1) e'(1) show ?thesis by blast
qed

section \<open>The reset before an attempt\<close>

lemma fs_remove_if_present_Inr:
  assumes "fs_remove_if_present p s = (Inr u, s')"
  shows "files s' p = None" "q \<noteq> p \<Longrightarrow> files s' q = files s q" "same_faults s s'"
  using assms
  by (auto simp: fs_remove_if_present_def fs_remove_def unlink_def same_faults_def
      split: option.splits io_error_kind.splits if_splits)

text \<open>
  After the reset before an attempt no marker validates and no counts are reported, whatever marker an
  earlier attempt left; the reset removes that marker and the progress rows and touches nothing else.
\<close>

theorem reset_leaves_no_evidence:
  assumes "clear_stale_gate_attempt_evidence rd s = (Inr (), s')"
  shows "(\<exists>k. validate_acceptance_marker_inner mv rd rid ov s' = (Inl (Io (marker_path_for_run_root rd) k), s'))
    \<and> last_gate_attempt_counts mv rd rid s' = None
    \<and> changes_only {marker_path_for_run_root rd, acceptance_progress_path_for_run_root rd} s s'"
proof -
  let ?p = "marker_path_for_run_root rd" and ?q = "acceptance_progress_path_for_run_root rd"
  obtain s1 where r: "fs_remove_if_present ?p s = (Inr (), s1)" "fs_remove_if_present ?q s1 = (Inr (), s')"
    using assms by (auto simp: clear_stale_gate_attempt_evidence_def result_simps)
  have "?q \<noteq> ?p" by (rule named_differ [OF evidence_names(2,1)]) simp
  then have gone: "files s' ?p = None" using fs_remove_if_present_Inr(1) [OF r(1)] fs_remove_if_present_Inr(2) [OF r(2)] by metis
  then have "\<exists>k. fs_read ?p s' = (Inl (Io ?p k), s')" by (cases "read_fault s' ?p") (simp_all add: fs_read_def)
  then obtain k where "fs_read ?p s' = (Inl (Io ?p k), s')" ..
  moreover have "changes_only {?p, ?q} s s'"
    using fs_remove_if_present_Inr(2,3) [OF r(1)] fs_remove_if_present_Inr(2,3) [OF r(2)]
    by (auto simp: changes_only_def intro: same_faults_trans)
  ultimately show ?thesis
    by (auto simp: validate_acceptance_marker_inner_def last_gate_attempt_counts_def Let_def io_bind_run)
qed

text \<open>Counts come from a verified marker only, and never pass the total.\<close>

lemma attempt_counts_bounded: "fst (attempt_counts m) \<le> snd (attempt_counts m)"
  by (simp add: attempt_counts_def Let_def split: option.splits)

lemma readonly_verify [intro!]: "readonly (verify_v2_marker_signature_with_parent_repair mv rd m key ov)"
  unfolding verify_v2_marker_signature_with_parent_repair_def
  by (intro readonly_bind readonly_canonical) (rule readonly_intros)+

lemma last_counts_verified:
  assumes "last_gate_attempt_counts mv rd rid s = Some counts"
  shows "\<exists>raw m key. files s (marker_path_for_run_root rd) = Some raw \<and> dec (mv_marker mv) raw = Some m
    \<and> mk_run_id m = rid \<and> read_gate_key_for_run_root (gv_meta mv) rd rid s = (Inr key, s)
    \<and> verify_v2_marker_signature mv rd m key s = (Inr (), s) \<and> counts = attempt_counts m"
proof -
  from assms obtain s' where "io_bind (fs_read (marker_path_for_run_root rd)) (\<lambda>raw.
       io_bind (io_lift (parse_json (mv_marker mv) (marker_path_for_run_root rd) raw)) (\<lambda>m.
       if mk_run_id m \<noteq> rid \<or> mk_checks m = [] \<or> mk_check_count m \<noteq> length (mk_checks m) then io_return None
       else
         io_bind (read_gate_key_for_run_root (gv_meta mv) rd rid) (\<lambda>key.
         io_bind (verify_v2_marker_signature mv rd m key) (\<lambda>_.
         io_return (Some (attempt_counts m)))))) s = (Inr (Some counts), s')"
    unfolding last_gate_attempt_counts_def by (auto split: prod.splits sum.splits)
  then obtain raw m key s1 where "files s (marker_path_for_run_root rd) = Some raw" "dec (mv_marker mv) raw = Some m"
      "mk_run_id m = rid" "read_gate_key_for_run_root (gv_meta mv) rd rid s = (Inr key, s1)"
      "verify_v2_marker_signature mv rd m key s1 = (Inr (), s')" "counts = attempt_counts m"
    by (auto simp: result_simps parse_json_def split: if_splits)
  moreover from this have "s1 = s" "s' = s1"
    using readonlyD [OF readonly_read_key_for_run_root] readonlyD [OF readonly_verify]
    unfolding verify_v2_marker_signature_def by blast+
  ultimately show ?thesis by blast
qed

end
