(* ===== verification/Gate_Evaluation.thy ===== *)
theory Gate_Evaluation
  imports Marker_Evidence
begin

text \<open>
  The gate (\<open>crates/deadreckon-core/src/gate.rs\<close>): running the checks of a contract without any key,
  validating what such a run reports against the approved contract and the present files, and signing it.
  A check may change anything in the world; what it prints and how it exits is a parameter.
\<close>

section \<open>The world of the gate\<close>

record gate_world =
  gw_fs :: fs
  gw_tree :: tree_view

type_synonym 'a gate_io = "(gate_world, 'a) act"

text \<open>A computation on the files, with the tree as it is now.\<close>

definition gw_io :: "(tree_view \<Rightarrow> 'a io) \<Rightarrow> 'a gate_io" where
  "gw_io m = (\<lambda>w. case m (gw_tree w) (gw_fs w) of (r, s) \<Rightarrow> (r, w\<lparr>gw_fs := s\<rparr>))"

lemma gw_io_Inr_iff [result_simps]:
  "gw_io m w = (Inr a, w') \<longleftrightarrow> (\<exists>s. m (gw_tree w) (gw_fs w) = (Inr a, s) \<and> w' = w\<lparr>gw_fs := s\<rparr>)"
  by (auto simp: gw_io_def split: prod.splits)

lemma same_world [simp]: "w\<lparr>gw_fs := gw_fs w\<rparr> = (w :: gate_world)"
  by simp

section \<open>Commands\<close>

record child_command =
  cmd_program :: string
  cmd_args :: "string list"
  cmd_dir :: path
  cmd_env_removed :: "string list"

record child_output =
  co_success :: bool
  co_status :: string
  co_stdout :: bytes
  co_stderr :: bytes
  co_duration_ms :: u64

record acceptance_progress_entry =
  pe_checked_at :: timestamp
  pe_status :: string
  pe_index :: nat
  pe_total :: nat
  pe_result :: "acceptance_check_result option"

record gate_evaluation =
  gx_schema_version :: u32
  gx_run_id :: string
  gx_working_dir :: path
  gx_contract_sha256 :: string
  gx_gate_evaluator_sha256 :: "string option"
  gx_results :: "acceptance_check_result list"
  gx_tamper :: acceptance_tamper

text \<open>
  What the gate needs beyond the marker: canonical paths, running a command in the world, the debug
  rendering of a string, the regex engine, and the renderings of rows.
\<close>

record evaluation_env = marker_env +
  xv_canonicalize :: "path \<Rightarrow> io_error_kind + path"
  xv_run :: "child_command \<Rightarrow> gate_world \<Rightarrow> (io_error_kind + child_output) \<times> gate_world"
  xv_debug :: "string \<Rightarrow> string"
  xv_regex :: "string \<Rightarrow> string \<Rightarrow> bool option"
  xv_provenance :: "provenance_entry codec"
  xv_tamper :: "acceptance_tamper codec"
  xv_progress :: "acceptance_progress_entry codec"

definition gate_check_command :: "string \<Rightarrow> string list \<Rightarrow> path \<Rightarrow> child_command" where
  "gate_check_command program args dir =
    \<lparr>cmd_program = program, cmd_args = args, cmd_dir = dir,
     cmd_env_removed = [''DEADRECKON_GATE_KEY'', ''DEADRECKON_GATE_CONTAINED'', ''DEADRECKON_GATE_SANDBOX_BACKEND'']\<rparr>"

definition run_command :: "'z evaluation_env_scheme \<Rightarrow> path \<Rightarrow> child_command \<Rightarrow> child_output gate_io" where
  "run_command xv blamed command w =
    (case xv_run xv command w of (Inl k, w') \<Rightarrow> (Inl (Io blamed k), w') | (Inr out, w') \<Rightarrow> (Inr out, w'))"

text \<open>Whole characters that start before the limit.\<close>

function take_chars :: "nat \<Rightarrow> nat \<Rightarrow> string \<Rightarrow> string" where
  "take_chars off limit s =
    (if s = [] \<or> off \<ge> limit then []
     else case utf8_next s of
       Scalar n \<Rightarrow> take n s @ take_chars (off + n) limit (drop n s)
     | _ \<Rightarrow> [])"
  by pat_completeness auto
termination
  by (relation "measure (\<lambda>(off, limit, s). length s)") (auto dest: utf8_next_pos)

declare take_chars.simps [simp del]

definition truncation_note :: string where
  "truncation_note = [newline] @ ''... output truncated ...''"

definition clip_text :: "string \<Rightarrow> nat \<Rightarrow> string" where
  "clip_text text limit = (if length text \<le> limit then text else take_chars 0 limit text @ truncation_note)"

definition clipped_output :: "bytes \<Rightarrow> string option" where
  "clipped_output bs =
    (let text = trim (from_utf8_lossy bs) in if text = [] then None else Some (clip_text text 4096))"

definition format_command :: "string \<Rightarrow> string list \<Rightarrow> string" where
  "format_command base args = (if args = [] then base else base @ '' '' @ join_with '' '' args)"

definition render_template_string :: "'z marker_env_scheme \<Rightarrow> path \<Rightarrow> string \<Rightarrow> string" where
  "render_template_string mv working_dir value = replace_all ''{working_dir}'' (mv_lossy mv working_dir) value"

definition render_template :: "'z marker_env_scheme \<Rightarrow> path \<Rightarrow> string \<Rightarrow> path" where
  "render_template mv working_dir value = components (render_template_string mv working_dir value)"

fun bool_str :: "bool \<Rightarrow> string" where
  "bool_str True = ''true''"
| "bool_str False = ''false''"

definition success_suffix :: "bool \<Rightarrow> string" where
  "success_suffix b = ''; success='' @ bool_str b"

section \<open>Checks\<close>

definition process_result ::
    "string \<Rightarrow> bool \<Rightarrow> string \<Rightarrow> string \<Rightarrow> path \<Rightarrow> child_output \<Rightarrow> acceptance_check_result" where
  "process_result kind must_pass what command cwd out =
    \<lparr>rk_kind = kind, rk_passed = co_success out, rk_must_pass = must_pass,
     rk_detail = what @ '' exited with '' @ co_status out @ success_suffix (co_success out),
     rk_command = Some command, rk_cwd = Some cwd, rk_duration_ms = Some (co_duration_ms out),
     rk_stdout = clipped_output (co_stdout out), rk_stderr = clipped_output (co_stderr out)\<rparr>"

definition file_result :: "string \<Rightarrow> bool \<Rightarrow> bool \<Rightarrow> string \<Rightarrow> acceptance_check_result" where
  "file_result kind passed must_pass detail =
    \<lparr>rk_kind = kind, rk_passed = passed, rk_must_pass = must_pass, rk_detail = detail, rk_command = None,
     rk_cwd = None, rk_duration_ms = None, rk_stdout = None, rk_stderr = None\<rparr>"

definition content_matches :: "'z evaluation_env_scheme \<Rightarrow> tree_view \<Rightarrow> path \<Rightarrow> string \<Rightarrow> bool" where
  "content_matches xv tv p pattern =
    (let body = (case tv_text tv p of None \<Rightarrow> [] | Some t \<Rightarrow> t) in
     case xv_regex xv pattern body of Some matched \<Rightarrow> matched | None \<Rightarrow> sublist pattern body)"

definition shell_cwd :: "'z marker_env_scheme \<Rightarrow> path \<Rightarrow> string option \<Rightarrow> path" where
  "shell_cwd mv working_dir cwd = (case cwd of Some c \<Rightarrow> render_template mv working_dir c | None \<Rightarrow> working_dir)"

definition evaluate_check :: "'z evaluation_env_scheme \<Rightarrow> path \<Rightarrow> acceptance_check \<Rightarrow> acceptance_check_result gate_io" where
  "evaluate_check xv working_dir check w =
    (case check of
       CargoTest args must_pass \<Rightarrow>
         act_bind (run_command xv (join working_dir ''Cargo.toml'') (gate_check_command ''cargo'' (''test'' # args) working_dir))
           (\<lambda>out. act_return (process_result ''cargo_test'' must_pass ''cargo test'' (format_command ''cargo test'' args)
             working_dir out)) w
     | FileExists value must_pass \<Rightarrow>
         (let p = render_template xv working_dir value; found = tv_exists (gw_tree w) p in
          act_return (file_result ''file_exists'' found must_pass
            (mv_lossy xv p @ (if found then '' exists'' else '' is missing''))) w)
     | ContentMatch value pattern must_pass \<Rightarrow>
         (let p = render_template xv working_dir value; matched = content_matches xv (gw_tree w) p pattern in
          act_return (file_result ''content_match'' matched must_pass
            (mv_lossy xv p @ (if matched then '' matches '' else '' does not match '') @ xv_debug xv pattern)) w)
     | BuildSuccess value must_pass \<Rightarrow>
         (let cwd = render_template xv working_dir value in
          act_bind (run_command xv (join cwd ''Cargo.toml'') (gate_check_command ''cargo'' [''build''] cwd))
            (\<lambda>out. act_return (process_result ''build_success'' must_pass (''cargo build in '' @ mv_lossy xv cwd)
              ''cargo build'' cwd out)) w)
     | Shell command value must_pass \<Rightarrow>
         (let cwd = shell_cwd xv working_dir value in
          act_bind (run_command xv cwd
              (gate_check_command ''sh'' [''-c'', render_template_string xv working_dir command] cwd))
            (\<lambda>out. act_return (process_result ''shell'' must_pass
              (''shell '' @ xv_debug xv command @ '' in '' @ mv_lossy xv cwd) command cwd out)) w))"

section \<open>Progress\<close>

text \<open>\<open>clk k\<close> is the clock at the \<open>k\<close>-th row of an attempt.\<close>

definition progress_row ::
    "timestamp \<Rightarrow> string \<Rightarrow> nat \<Rightarrow> nat \<Rightarrow> acceptance_check_result option \<Rightarrow> acceptance_progress_entry" where
  "progress_row now status index n_total result =
    \<lparr>pe_checked_at = now, pe_status = status, pe_index = index, pe_total = n_total, pe_result = result\<rparr>"

definition emit_acceptance_progress ::
    "'z evaluation_env_scheme \<Rightarrow> path option \<Rightarrow> acceptance_progress_entry \<Rightarrow> unit gate_io" where
  "emit_acceptance_progress xv progress_path row =
    (case progress_path of None \<Rightarrow> act_return () | Some p \<Rightarrow> gw_io (\<lambda>_. append_json_line (xv_progress xv) p row))"

definition emit_advisory_acceptance_progress ::
    "'z evaluation_env_scheme \<Rightarrow> path option \<Rightarrow> acceptance_progress_entry \<Rightarrow> unit gate_io" where
  "emit_advisory_acceptance_progress xv progress_path row w = (Inr (), snd (emit_acceptance_progress xv progress_path row w))"

definition verdict_label :: "bool \<Rightarrow> string" where
  "verdict_label passed = (if passed then ''passed'' else ''failed'')"

definition required_failed :: "acceptance_check_result list \<Rightarrow> bool" where
  "required_failed results \<longleftrightarrow> list_ex (\<lambda>r. rk_must_pass r \<and> \<not> rk_passed r) results"

text \<open>The loop both evaluators share; they differ in what a failing row does.\<close>

fun evaluate_each ::
    "'z evaluation_env_scheme \<Rightarrow> (nat \<Rightarrow> timestamp) \<Rightarrow> (acceptance_progress_entry \<Rightarrow> unit gate_io) \<Rightarrow> path \<Rightarrow> nat \<Rightarrow> nat
      \<Rightarrow> acceptance_check list \<Rightarrow> acceptance_check_result list gate_io" where
  "evaluate_each xv clk emit working_dir n_total index [] = act_return []"
| "evaluate_each xv clk emit working_dir n_total index (check # checks) =
    act_bind (emit (progress_row (clk (2 * index - 1)) ''running'' index n_total None)) (\<lambda>_.
    act_bind (evaluate_check xv working_dir check) (\<lambda>result.
    act_bind (emit (progress_row (clk (2 * index)) (verdict_label (rk_passed result)) index n_total (Some result))) (\<lambda>_.
    act_bind (evaluate_each xv clk emit working_dir n_total (index + 1) checks) (\<lambda>results.
    act_return (result # results)))))"

definition evaluate_all ::
    "'z evaluation_env_scheme \<Rightarrow> (nat \<Rightarrow> timestamp) \<Rightarrow> (acceptance_progress_entry \<Rightarrow> unit gate_io) \<Rightarrow> path
      \<Rightarrow> acceptance_check list \<Rightarrow> acceptance_check_result list gate_io" where
  "evaluate_all xv clk emit working_dir checks =
    (let n_total = length checks in
     act_bind (emit (progress_row (clk 0) ''started'' 0 n_total None)) (\<lambda>_.
     act_bind (evaluate_each xv clk emit working_dir n_total 1 checks) (\<lambda>results.
     act_bind (emit (progress_row (clk (2 * n_total + 1)) (verdict_label (\<not> required_failed results)) n_total n_total None)) (\<lambda>_.
     act_return results))))"

section \<open>Keyless evaluation\<close>

definition GATE_EVALUATION_SCHEMA_VERSION :: u32 where "GATE_EVALUATION_SCHEMA_VERSION = 1"

definition canonical_working_dir :: "'z evaluation_env_scheme \<Rightarrow> path \<Rightarrow> path res" where
  "canonical_working_dir xv working_dir =
    (case xv_canonicalize xv working_dir of Inl k \<Rightarrow> Inl (Io working_dir k) | Inr p \<Rightarrow> Inr p)"

definition evaluate_gate_with_identity_inner ::
    "'z evaluation_env_scheme \<Rightarrow> (nat \<Rightarrow> timestamp) \<Rightarrow> timestamp \<Rightarrow> string \<Rightarrow> path \<Rightarrow> path \<Rightarrow> string option \<Rightarrow> path option
      \<Rightarrow> gate_evaluation gate_io" where
  "evaluate_gate_with_identity_inner xv clk now run_id run_dir working_dir evaluator progress_path =
    act_bind (act_lift (canonical_working_dir xv working_dir)) (\<lambda>canonical.
    act_bind (gw_io (\<lambda>_. approved_acceptance_contract xv run_dir)) (\<lambda>(checks, contract_sha256).
    act_bind (evaluate_all xv clk (emit_advisory_acceptance_progress xv progress_path) working_dir checks) (\<lambda>results.
    act_bind (gw_io (\<lambda>tv. evaluate tv (xv_provenance xv) (xv_regex xv) now run_id run_dir working_dir checks)) (\<lambda>tamper.
    act_return \<lparr>gx_schema_version = GATE_EVALUATION_SCHEMA_VERSION, gx_run_id = run_id, gx_working_dir = canonical,
      gx_contract_sha256 = contract_sha256, gx_gate_evaluator_sha256 = evaluator, gx_results = results,
      gx_tamper = tamper\<rparr>))))"

definition evaluate_gate_with_identity where
  "evaluate_gate_with_identity xv clk now run_id run_dir working_dir evaluator =
    evaluate_gate_with_identity_inner xv clk now run_id run_dir working_dir evaluator None"

definition evaluate_gate where
  "evaluate_gate xv clk now run_id run_dir working_dir =
    evaluate_gate_with_identity xv clk now run_id run_dir working_dir None"

definition evaluate_gate_with_identity_and_progress where
  "evaluate_gate_with_identity_and_progress xv clk now run_id run_dir working_dir evaluator w =
    (let p = acceptance_progress_path_for_run_root run_dir;
         w = snd (gw_io (\<lambda>_. fs_remove p) w)
     in evaluate_gate_with_identity_inner xv clk now run_id run_dir working_dir evaluator (Some p) w)"

section \<open>Validation\<close>

type_synonym 'a bound = "binding_fault + 'a"

text \<open>What the approved check says a result must look like: kind, requirement, command, directory, and
  whether it ran a process.\<close>

definition expected_binding ::
    "'z marker_env_scheme \<Rightarrow> path \<Rightarrow> acceptance_check \<Rightarrow> string \<times> bool \<times> string option \<times> path option \<times> bool" where
  "expected_binding mv working_dir check =
    (case check of
       CargoTest args must_pass \<Rightarrow> (''cargo_test'', must_pass, Some (format_command ''cargo test'' args), Some working_dir, True)
     | FileExists _ must_pass \<Rightarrow> (''file_exists'', must_pass, None, None, False)
     | ContentMatch _ _ must_pass \<Rightarrow> (''content_match'', must_pass, None, None, False)
     | BuildSuccess cwd must_pass \<Rightarrow>
         (''build_success'', must_pass, Some ''cargo build'', Some (render_template mv working_dir cwd), True)
     | Shell command cwd must_pass \<Rightarrow> (''shell'', must_pass, Some command, Some (shell_cwd mv working_dir cwd), True))"

definition validate_recomputed ::
    "'z evaluation_env_scheme \<Rightarrow> tree_view \<Rightarrow> path \<Rightarrow> acceptance_check \<Rightarrow> acceptance_check_result \<Rightarrow> unit bound" where
  "validate_recomputed xv tv working_dir check r =
    (case check of
       FileExists value _ \<Rightarrow>
         (let found = tv_exists tv (render_template xv working_dir value) in
          ensure (rk_passed r = found) (BindExists (rk_passed r) found))
     | ContentMatch value pattern _ \<Rightarrow>
         (let matched = content_matches xv tv (render_template xv working_dir value) pattern in
          ensure (rk_passed r = matched) (BindMatch (rk_passed r) matched))
     | _ \<Rightarrow> Inr ())"

definition validate_process_fields :: "bool \<Rightarrow> acceptance_check_result \<Rightarrow> unit bound" where
  "validate_process_fields process_check r =
    (if process_check then
       res_bind (ensure (rk_duration_ms r \<noteq> None) BindNoDuration) (\<lambda>_.
       ensure (suffix (success_suffix (rk_passed r)) (rk_detail r)) (BindDetailSuffix (success_suffix (rk_passed r))))
     else ensure (rk_duration_ms r = None \<and> rk_stdout r = None \<and> rk_stderr r = None) BindProcessOutput)"

definition validate_result_binding ::
    "'z evaluation_env_scheme \<Rightarrow> tree_view \<Rightarrow> path \<Rightarrow> acceptance_check \<Rightarrow> acceptance_check_result \<Rightarrow> unit bound" where
  "validate_result_binding xv tv working_dir check r =
    (let (kind, must_pass, command, cwd, process_check) = expected_binding xv working_dir check in
     res_bind (ensure (rk_kind r = kind) (BindKind (rk_kind r) kind)) (\<lambda>_.
     res_bind (ensure (rk_must_pass r = must_pass) (BindMustPass (rk_must_pass r) must_pass)) (\<lambda>_.
     res_bind (ensure (rk_command r = command) (BindCommand (rk_command r) command)) (\<lambda>_.
     res_bind (ensure (rk_cwd r = cwd) (BindCwd (rk_cwd r) cwd)) (\<lambda>_.
     res_bind (ensure (\<not> blank (rk_detail r)) BindDetailEmpty) (\<lambda>_.
     res_bind (validate_process_fields process_check r) (\<lambda>_.
     validate_recomputed xv tv working_dir check r)))))))"

definition same_tamper_facts :: "acceptance_tamper \<Rightarrow> acceptance_tamper \<Rightarrow> bool" where
  "same_tamper_facts l r \<longleftrightarrow>
    tm_schema_version l = tm_schema_version r \<and> tm_run_id l = tm_run_id r \<and> tm_verdict l = tm_verdict r
    \<and> tm_spec_modified l = tm_spec_modified r \<and> tm_lint_findings l = tm_lint_findings r
    \<and> tm_covered_files_touched l = tm_covered_files_touched r \<and> tm_caveats l = tm_caveats r
    \<and> tm_refusal_reasons l = tm_refusal_reasons r"

definition invalid_gate_evaluation :: "evaluation_fault \<Rightarrow> dr_error" where
  "invalid_gate_evaluation f = InvalidInput (EvaluationFault f)"

text \<open>The loop over checks and results, numbered from one.\<close>

fun validate_bindings ::
    "'z evaluation_env_scheme \<Rightarrow> tree_view \<Rightarrow> path \<Rightarrow> nat \<Rightarrow> (acceptance_check \<times> acceptance_check_result) list \<Rightarrow> unit res" where
  "validate_bindings xv tv working_dir index [] = Inr ()"
| "validate_bindings xv tv working_dir index ((check, r) # rest) =
    (case validate_result_binding xv tv working_dir check r of
       Inl f \<Rightarrow> Inl (invalid_gate_evaluation (EvalResult index f))
     | Inr _ \<Rightarrow> validate_bindings xv tv working_dir (index + 1) rest)"

definition validated_gate_evaluation_checks ::
    "'z evaluation_env_scheme \<Rightarrow> timestamp \<Rightarrow> string \<Rightarrow> path \<Rightarrow> path \<Rightarrow> gate_evaluation \<Rightarrow> acceptance_check list gate_io" where
  "validated_gate_evaluation_checks xv now run_id run_dir working_dir ev =
    act_bind (act_lift (ensure (gx_schema_version ev = GATE_EVALUATION_SCHEMA_VERSION)
      (invalid_gate_evaluation (EvalSchema (gx_schema_version ev))))) (\<lambda>_.
    act_bind (act_lift (ensure (gx_run_id ev = run_id) (invalid_gate_evaluation (EvalRunId (gx_run_id ev) run_id)))) (\<lambda>_.
    act_bind (act_lift (canonical_working_dir xv working_dir)) (\<lambda>canonical.
    act_bind (act_lift (ensure (gx_working_dir ev = canonical)
      (invalid_gate_evaluation (EvalWorkingDir (gx_working_dir ev) canonical)))) (\<lambda>_.
    act_bind (gw_io (\<lambda>_. approved_acceptance_contract xv run_dir)) (\<lambda>(checks, contract_sha256).
    act_bind (act_lift (ensure (gx_contract_sha256 ev = contract_sha256)
      (invalid_gate_evaluation (EvalContract (gx_contract_sha256 ev) contract_sha256)))) (\<lambda>_.
    act_bind (act_lift (ensure (length (gx_results ev) = length checks)
      (invalid_gate_evaluation (EvalResultCount (length (gx_results ev)) (length checks))))) (\<lambda>_.
    act_bind (\<lambda>w. (validate_bindings xv (gw_tree w) working_dir 1 (zip checks (gx_results ev)), w)) (\<lambda>_.
    act_bind (act_lift (ensure (tm_schema_version (gx_tamper ev) = 1)
      (invalid_gate_evaluation (EvalTamperSchema (tm_schema_version (gx_tamper ev)))))) (\<lambda>_.
    act_bind (act_lift (ensure (tm_run_id (gx_tamper ev) = run_id)
      (invalid_gate_evaluation (EvalTamperRun (tm_run_id (gx_tamper ev)) run_id)))) (\<lambda>_.
    act_bind (gw_io (\<lambda>tv. evaluate tv (xv_provenance xv) (xv_regex xv) now run_id run_dir working_dir checks)) (\<lambda>recomputed.
    act_bind (act_lift (ensure (same_tamper_facts (gx_tamper ev) recomputed) (invalid_gate_evaluation EvalTamperFacts))) (\<lambda>_.
    act_return checks))))))))))))"

definition ensure_gate_evaluation_accepted :: "gate_evaluation \<Rightarrow> unit res" where
  "ensure_gate_evaluation_accepted ev =
    (if tm_verdict (gx_tamper ev) = TamperRefuse then Inl (InvalidInput (AcceptanceRefused (tm_refusal_reasons (gx_tamper ev))))
     else case find (\<lambda>r. rk_must_pass r \<and> \<not> rk_passed r) (gx_results ev) of
       Some failed \<Rightarrow> Inl (InvalidInput (AcceptanceCheckFailed (rk_detail failed)))
     | None \<Rightarrow> Inr ())"

definition validate_gate_evaluation where
  "validate_gate_evaluation xv now run_id run_dir working_dir ev =
    act_bind (validated_gate_evaluation_checks xv now run_id run_dir working_dir ev) (\<lambda>_.
    act_lift (ensure_gate_evaluation_accepted ev))"

definition validate_gate_evaluation_integrity where
  "validate_gate_evaluation_integrity xv now run_id run_dir working_dir ev =
    act_bind (validated_gate_evaluation_checks xv now run_id run_dir working_dir ev) (\<lambda>_. act_return ())"

section \<open>Signing\<close>

definition reconstructed_rows ::
    "(nat \<Rightarrow> timestamp) \<Rightarrow> acceptance_check_result list \<Rightarrow> acceptance_progress_entry list" where
  "reconstructed_rows clk results =
    (let n_total = length results in
     progress_row (clk 0) ''started'' 0 n_total None
     # concat (map (\<lambda>(i, r). [progress_row (clk (2 * i + 1)) ''running'' (i + 1) n_total None,
           progress_row (clk (2 * i + 2)) (verdict_label (rk_passed r)) (i + 1) n_total (Some r)])
         (enumerate 0 results))
     @ [progress_row (clk (2 * n_total + 1)) (verdict_label (\<not> required_failed results)) n_total n_total None])"

definition write_reconstructed_acceptance_progress ::
    "'z evaluation_env_scheme \<Rightarrow> (nat \<Rightarrow> timestamp) \<Rightarrow> path \<Rightarrow> acceptance_check_result list \<Rightarrow> unit io" where
  "write_reconstructed_acceptance_progress xv clk run_dir results =
    (let p = acceptance_progress_path_for_run_root run_dir in
     io_bind (case path_parent p of Some parent \<Rightarrow> create_dir_all parent | None \<Rightarrow> io_return ()) (\<lambda>_.
     io_bind (io_lift (map_res (\<lambda>row. ok_or (enc (xv_progress xv) row) (Json p)) (reconstructed_rows clk results))) (\<lambda>rows.
     fs_write p (concat (map (\<lambda>row. row @ [newline]) rows)))))"

definition sign_gate_evaluation_with_key ::
    "'z evaluation_env_scheme \<Rightarrow> (nat \<Rightarrow> timestamp) \<Rightarrow> timestamp \<Rightarrow> path \<Rightarrow> string \<Rightarrow> path \<Rightarrow> gate_evaluation \<Rightarrow> bytes
      \<Rightarrow> acceptance_containment \<Rightarrow> acceptance_marker gate_io" where
  "sign_gate_evaluation_with_key xv clk now run_dir run_id working_dir ev key containment =
    act_bind (act_lift (require_gate_key_length key)) (\<lambda>_.
    act_bind (act_lift (validate_signing_containment containment)) (\<lambda>_.
    act_bind (validated_gate_evaluation_checks xv now run_id run_dir working_dir ev) (\<lambda>checks.
    act_bind (gw_io (\<lambda>_. write_acceptance_tamper (xv_tamper xv) run_dir (gx_tamper ev))) (\<lambda>_.
    act_bind (gw_io (\<lambda>_. write_reconstructed_acceptance_progress xv clk run_dir (gx_results ev))) (\<lambda>_.
    act_bind (act_lift (ensure_gate_evaluation_accepted ev)) (\<lambda>_.
    gw_io (\<lambda>_. write_native_acceptance_marker_with_results_and_key xv now run_dir run_id (gx_working_dir ev)
      (gx_results ev) key containment)))))))"

definition run_acceptance_gate_and_write_marker where
  "run_acceptance_gate_and_write_marker xv clk now run_dir run_id working_dir =
    act_bind (gw_io (\<lambda>tv. compiled_acceptance_checks xv tv run_dir working_dir)) (\<lambda>_.
    act_bind (gw_io (\<lambda>_. clear_stale_gate_attempt_evidence run_dir)) (\<lambda>_.
    act_bind (evaluate_gate xv clk now run_id run_dir working_dir) (\<lambda>ev.
    act_bind (gw_io (\<lambda>_. read_gate_key_for_run_root (gv_meta xv) run_dir run_id)) (\<lambda>key.
    sign_gate_evaluation_with_key xv clk now run_dir run_id working_dir ev key (uncontained_in ''none'')))))"

section \<open>Evaluation without signing\<close>

definition default_acceptance_checks :: "'z evaluation_env_scheme \<Rightarrow> tree_view \<Rightarrow> path \<Rightarrow> acceptance_check list" where
  "default_acceptance_checks xv tv working_dir =
    default_checks_for (detect_project_kind tv (gv_json_text xv) working_dir) tv working_dir"

fun evaluate_plain :: "'z evaluation_env_scheme \<Rightarrow> path \<Rightarrow> acceptance_check list \<Rightarrow> acceptance_check_result list gate_io" where
  "evaluate_plain xv working_dir [] = act_return []"
| "evaluate_plain xv working_dir (check # checks) =
    act_bind (evaluate_check xv working_dir check) (\<lambda>r.
    act_bind (evaluate_plain xv working_dir checks) (\<lambda>rs. act_return (r # rs)))"

definition evaluate_default_acceptance :: "'z evaluation_env_scheme \<Rightarrow> path \<Rightarrow> acceptance_check_result list gate_io" where
  "evaluate_default_acceptance xv working_dir w =
    evaluate_plain xv working_dir (default_acceptance_checks xv (gw_tree w) working_dir) w"

definition evaluate_default_acceptance_with_progress where
  "evaluate_default_acceptance_with_progress xv clk working_dir progress_path =
    (let emit = emit_acceptance_progress xv progress_path in
     act_bind (emit (progress_row (clk 0) ''started'' 0 1 None)) (\<lambda>_.
     act_bind (emit (progress_row (clk 1) ''running'' 1 1 None)) (\<lambda>_.
     act_bind (evaluate_default_acceptance xv working_dir) (\<lambda>results.
     act_bind (case results of
         [] \<Rightarrow> act_return ()
       | r # _ \<Rightarrow> emit (progress_row (clk 2) (verdict_label (rk_passed r)) 1 1 (Some r))) (\<lambda>_.
     act_bind (emit (progress_row (clk 3) (verdict_label (\<not> required_failed results)) 1 1 None)) (\<lambda>_.
     act_return results))))))"

definition evaluate_acceptance_checks_inner where
  "evaluate_acceptance_checks_inner xv clk run_dir working_dir progress_path =
    (let p = acceptance_spec_path_for_run_root run_dir in
     act_bind (gw_io (\<lambda>_. fs_exists p)) (\<lambda>found.
     if \<not> found then evaluate_default_acceptance_with_progress xv clk working_dir progress_path
     else
       act_bind (gw_io (\<lambda>_. fs_read p)) (\<lambda>raw.
       act_bind (act_lift (parse_acceptance_checks xv raw)) (\<lambda>checks.
       evaluate_all xv clk (emit_acceptance_progress xv progress_path) working_dir checks))))"

definition evaluate_acceptance_checks where
  "evaluate_acceptance_checks xv clk run_dir working_dir =
    evaluate_acceptance_checks_inner xv clk run_dir working_dir None"

definition evaluate_acceptance_checks_with_progress where
  "evaluate_acceptance_checks_with_progress xv clk run_dir working_dir =
    (let p = acceptance_progress_path_for_run_root run_dir in
     act_bind (gw_io (\<lambda>_. fs_remove_if_present p)) (\<lambda>_.
     evaluate_acceptance_checks_inner xv clk run_dir working_dir (Some p)))"

definition evaluate_acceptance where
  "evaluate_acceptance xv clk run_dir working_dir =
    act_bind (evaluate_acceptance_checks xv clk run_dir working_dir) (\<lambda>results.
    case find (\<lambda>r. rk_must_pass r \<and> \<not> rk_passed r) results of
      Some failed \<Rightarrow> act_lift (Inl (InvalidInput (AcceptanceCheckFailed (rk_detail failed))))
    | None \<Rightarrow> act_return results)"

end
