(* ===== verification/Gate_Proof.thy ===== *)
theory Gate_Proof
  imports Gate_Evaluation
begin

text \<open>
  What the gate's evaluation and signature promise: a signed evaluation answers every approved check, an
  honest evaluation of an unchanged world validates, and the progress rows rebuilt at signing are the rows
  the live evaluation writes.
\<close>

section \<open>Text that is not blank\<close>

lemma strip_front_keeps:
  "\<forall>w \<in> set ws. c \<notin> set w \<Longrightarrow> c \<in> set s \<Longrightarrow> c \<in> set (strip_front ws s)"
proof (induction ws s rule: strip_front.induct)
  case (1 ws s)
  show ?case
  proof (cases "leading ws s")
    case None
    then show ?thesis using 1 by (simp add: strip_front.simps [of ws s])
  next
    case (Some w)
    then have "w \<in> set ws" "prefix w s" by (auto simp: leading_def find_Some_iff)
    then have "c \<in> set (drop (length w) s)" using 1 by (auto simp: prefix_def)
    then show ?thesis using 1 Some by (simp add: strip_front.simps [of ws s])
  qed
qed

lemma graphic_not_blank:
  assumes "c \<in> set s" "graphic c"
  shows "\<not> blank s"
proof -
  have "list_all (\<lambda>w. \<not> list_ex graphic w) white_space" by code_simp
  then have "\<forall>w \<in> set white_space. c \<notin> set w" "\<forall>w \<in> set (map rev white_space). c \<notin> set w"
    using assms(2) by (auto simp: list_all_iff list_ex_iff)
  then have "c \<in> set (trim s)"
    using strip_front_keeps assms(1) by (simp add: trim_def trim_start_def trim_end_def)
  then show ?thesis by (auto simp: blank_def)
qed

section \<open>What a result must say\<close>

definition result_answers :: "'z evaluation_env_scheme \<Rightarrow> tree_view \<Rightarrow> path \<Rightarrow> acceptance_check \<Rightarrow> acceptance_check_result \<Rightarrow> bool" where
  "result_answers xv tv working_dir check r \<longleftrightarrow>
    (rk_kind r, rk_must_pass r, rk_command r, rk_cwd r)
      = (case expected_binding xv working_dir check of (kind, must, command, cwd, _) \<Rightarrow> (kind, must, command, cwd))
    \<and> \<not> blank (rk_detail r)
    \<and> (if snd (snd (snd (snd (expected_binding xv working_dir check))))
       then rk_duration_ms r \<noteq> None \<and> suffix (success_suffix (rk_passed r)) (rk_detail r)
       else rk_duration_ms r = None \<and> rk_stdout r = None \<and> rk_stderr r = None)
    \<and> (case check of
         FileExists value _ \<Rightarrow> rk_passed r \<longleftrightarrow> tv_exists tv (render_template xv working_dir value)
       | ContentMatch value pattern _ \<Rightarrow>
           rk_passed r \<longleftrightarrow> content_matches xv tv (render_template xv working_dir value) pattern
       | _ \<Rightarrow> True)"

lemma binding_iff: "validate_result_binding xv tv wd check r = Inr () \<longleftrightarrow> result_answers xv tv wd check r"
  by (cases check)
    (auto simp: validate_result_binding_def result_answers_def expected_binding_def validate_recomputed_def
      validate_process_fields_def result_simps Let_def)

lemma bindings_iff:
  "length checks = length rs \<Longrightarrow>
    validate_bindings xv tv wd i (zip checks rs) = Inr () \<longleftrightarrow> list_all2 (result_answers xv tv wd) checks rs"
  by (induction checks rs arbitrary: i rule: list_induct2)
    (auto simp: binding_iff [symmetric] split: sum.splits)

lemma answers_must_pass: "result_answers xv tv wd check r \<Longrightarrow> rk_must_pass r = ck_must_pass check"
  by (cases check) (auto simp: result_answers_def expected_binding_def)

lemma readonly_approved [intro!]: "readonly (approved_acceptance_contract gv rd)"
  unfolding approved_acceptance_contract_def Let_def by (intro readonly_bind readonly_reads) (rule readonly_intros)+

lemma gw_io_readonly:
  assumes "\<And>a s s'. m (gw_tree w) s = (Inr a, s') \<Longrightarrow> s' = s"
  shows "gw_io m w = (Inr a, w') \<longleftrightarrow> m (gw_tree w) (gw_fs w) = (Inr a, gw_fs w) \<and> w' = w"
  using assms by (fastforce simp: gw_io_Inr_iff)

lemma gate_reads:
  "gw_io (\<lambda>_. approved_acceptance_contract gv rd) w = (Inr a, w')
    \<longleftrightarrow> approved_acceptance_contract gv rd (gw_fs w) = (Inr a, gw_fs w) \<and> w' = w"
  "gw_io (\<lambda>tv. evaluate tv c rx n i r d cs) w = (Inr t, w')
    \<longleftrightarrow> evaluate (gw_tree w) c rx n i r d cs (gw_fs w) = (Inr t, gw_fs w) \<and> w' = w"
  by (rule gw_io_readonly, erule readonlyD [OF readonly_approved], rule gw_io_readonly, erule evaluate_cases)

text \<open>The rule that carries the proofs about validation.\<close>

lemma validated_checks_iff:
  "validated_gate_evaluation_checks xv now rid rd wd ev w = (Inr checks, w') \<longleftrightarrow>
    w' = w \<and> gx_schema_version ev = 1 \<and> gx_run_id ev = rid \<and> xv_canonicalize xv wd = Inr (gx_working_dir ev)
    \<and> approved_acceptance_contract xv rd (gw_fs w) = (Inr (checks, gx_contract_sha256 ev), gw_fs w)
    \<and> list_all2 (result_answers xv (gw_tree w) wd) checks (gx_results ev)
    \<and> tm_schema_version (gx_tamper ev) = 1 \<and> tm_run_id (gx_tamper ev) = rid
    \<and> (\<exists>t. evaluate (gw_tree w) (xv_provenance xv) (xv_regex xv) now rid rd wd checks (gw_fs w) = (Inr t, gw_fs w)
        \<and> same_tamper_facts (gx_tamper ev) t)"
proof -
  have canonical: "canonical_working_dir xv wd = Inr p \<longleftrightarrow> xv_canonicalize xv wd = Inr p" for p
    by (simp add: canonical_working_dir_def split: sum.splits)
  have bound: "length (gx_results ev) = length cs \<and> validate_bindings xv (gw_tree w) wd 1 (zip cs (gx_results ev)) = Inr ()
      \<longleftrightarrow> list_all2 (result_answers xv (gw_tree w) wd) cs (gx_results ev)" for cs
    using bindings_iff [of cs "gx_results ev"] list_all2_lengthD by metis
  show ?thesis
    unfolding validated_gate_evaluation_checks_def GATE_EVALUATION_SCHEMA_VERSION_def bound [symmetric]
    by (auto simp: result_simps canonical gate_reads simp del: gw_io_Inr_iff One_nat_def)
qed

text \<open>
  C19: What the gate signs was accepted: the approved contract of the run is the one the evaluation names
  by digest, the results answer its checks one by one, no required check failed, every check on files
  comes out the same on the files present at signing, the tamper verdict is the one recomputed there and
  is no refusal, and the claim of containment is coherent. The marker is a native proof with exactly these
  results in the canonical working directory.
\<close>

theorem signed_evaluation_was_accepted:
  assumes "sign_gate_evaluation_with_key xv clk now rd rid wd ev key c w = (Inr m, w')"
  shows "\<exists>checks t. approved_acceptance_contract xv rd (gw_fs w) = (Inr (checks, gx_contract_sha256 ev), gw_fs w)
    \<and> list_all2 (result_answers xv (gw_tree w) wd) checks (gx_results ev)
    \<and> list_all2 (\<lambda>check r. ck_must_pass check \<longrightarrow> rk_passed r) checks (gx_results ev)
    \<and> evaluate (gw_tree w) (xv_provenance xv) (xv_regex xv) now rid rd wd checks (gw_fs w) = (Inr t, gw_fs w)
    \<and> same_tamper_facts (gx_tamper ev) t \<and> tm_verdict t \<noteq> TamperRefuse
    \<and> (if cn_contained c then cn_sandbox_backend c \<in> {''sandbox-exec'', ''bwrap'', ''docker''}
       else cn_sandbox_backend c = ''none'')
    \<and> is_native_gate_proof m \<and> mk_run_id m = rid \<and> mk_checks m = gx_results ev
    \<and> xv_canonicalize xv wd = Inr (mk_working_dir m) \<and> mk_contained m = cn_contained c"
proof -
  from assms obtain checks s1 s2 where r: "validate_signing_containment c = Inr ()"
      "validated_gate_evaluation_checks xv now rid rd wd ev w = (Inr checks, w)"
      "ensure_gate_evaluation_accepted ev = Inr ()"
      "write_native_acceptance_marker_with_results_and_key xv now rd rid (gx_working_dir ev) (gx_results ev) key c s1 = (Inr m, s2)"
    by (auto simp: sign_gate_evaluation_with_key_def result_simps dest: validated_checks_iff [THEN iffD1, THEN conjunct1])
  note v = r(2) [unfolded validated_checks_iff]
  from r(4) have m: "mk_schema_version m = 2" "mk_run_id m = rid" "mk_issuer m = ''dr-gate''" "mk_proof_kind m = NativeGate"
      "mk_checks m = gx_results ev" "mk_working_dir m = gx_working_dir ev" "mk_contained m = cn_contained c"
    unfolding write_native_acceptance_marker_with_results_and_key_def by (rule written_marker_cases; simp)+
  have acc: "tm_verdict (gx_tamper ev) \<noteq> TamperRefuse" "\<forall>r \<in> set (gx_results ev). rk_must_pass r \<longrightarrow> rk_passed r"
    using r(3) by (auto simp: ensure_gate_evaluation_accepted_def find_None_iff split: if_splits option.splits)
  moreover have "list_all2 (\<lambda>check r. ck_must_pass check \<longrightarrow> rk_passed r) checks (gx_results ev)"
    using v acc(2) answers_must_pass by (fastforce simp: list_all2_conv_all_nth)
  moreover have "tm_verdict t = tm_verdict (gx_tamper ev)" if "same_tamper_facts (gx_tamper ev) t" for t
    using that by (simp add: same_tamper_facts_def)
  ultimately show ?thesis
    using v m r(1) by (fastforce simp: validate_signing_containment_def is_native_gate_proof_def Let_def split: if_splits)
qed

section \<open>Honest evaluations\<close>

text \<open>Commands that change nothing the gate looks at.\<close>

definition commands_only_look :: "'z evaluation_env_scheme \<Rightarrow> bool" where
  "commands_only_look xv \<longleftrightarrow> (\<forall>command w. snd (xv_run xv command w) = w)"

lemma run_command_Inr:
  "commands_only_look xv \<Longrightarrow> run_command xv p command w = (Inr out, w') \<Longrightarrow> w' = w"
  by (auto simp: run_command_def commands_only_look_def split: prod.splits sum.splits) (metis snd_conv)

lemma process_result_answers:
  assumes "expected_binding xv wd check = (kind, must, Some command, Some cwd, True)"
    "\<And>p m. check \<noteq> FileExists p m" "\<And>p q m. check \<noteq> ContentMatch p q m"
  shows "result_answers xv tv wd check (process_result kind must what command cwd out)"
proof -
  have "\<not> blank (rk_detail (process_result kind must what command cwd out))"
    by (rule graphic_not_blank [of "CHR ''x''"]) (simp_all add: process_result_def graphic_def)
  then show ?thesis
    using assms by (auto simp: result_answers_def process_result_def suffix_def split: acceptance_check.split)
qed

lemma file_result_answers:
  assumes "expected_binding xv wd check = (kind, must, None, None, False)" "c \<in> set detail" "graphic c"
    "case check of
         FileExists value _ \<Rightarrow> found = tv_exists tv (render_template xv wd value)
       | ContentMatch value pattern _ \<Rightarrow> found = content_matches xv tv (render_template xv wd value) pattern
       | _ \<Rightarrow> True"
  shows "result_answers xv tv wd check (file_result kind found must detail)"
  using assms graphic_not_blank [OF assms(2,3)]
  by (auto simp: result_answers_def file_result_def split: acceptance_check.splits)

lemma evaluated_check_answers:
  assumes "commands_only_look xv" "evaluate_check xv wd check w = (Inr r, w')"
  shows "w' = w \<and> result_answers xv (gw_tree w) wd check r"
proof (cases check)
  case (FileExists p m)
  have "graphic (CHR ''s'')" by (simp add: graphic_def)
  then show ?thesis using assms(2) FileExists
    by (auto simp: evaluate_check_def Let_def expected_binding_def
        intro!: file_result_answers [where c = "CHR ''s''"])
next
  case (ContentMatch p q m)
  have "graphic (CHR ''m'')" by (simp add: graphic_def)
  then show ?thesis using assms(2) ContentMatch
    by (auto simp: evaluate_check_def Let_def expected_binding_def
        intro!: file_result_answers [where c = "CHR ''m''"])
qed (use assms(2) in \<open>auto simp: evaluate_check_def Let_def result_simps expected_binding_def
  dest!: run_command_Inr [OF assms(1)] intro!: process_result_answers\<close>)

lemma evaluated_all_answer:
  assumes "commands_only_look xv" "\<And>row w. emit row w = (Inr (), w)"
  shows "evaluate_each xv clk emit wd n i checks w = (Inr rs, w')
    \<Longrightarrow> w' = w \<and> list_all2 (result_answers xv (gw_tree w) wd) checks rs"
proof (induction checks arbitrary: i rs)
  case (Cons check checks)
  then show ?case
    by (auto simp: result_simps assms(2) dest!: evaluated_check_answers [OF assms(1)])
qed simp

lemma evaluate_at_another_time:
  assumes "evaluate tv c rx now rid rd wd cs s = (Inr t, s')"
  shows "\<exists>t'. evaluate tv c rx now' rid rd wd cs s = (Inr t', s) \<and> same_tamper_facts t t'
    \<and> tm_schema_version t = 1 \<and> tm_run_id t = rid"
proof -
  from assms obtain touched s1 m s2 rust s3 conventional s4 where
      r: "touched_files tv c rd wd s = (Inr touched, s1)" "spec_modified c rd wd s1 = (Inr m, s2)"
      "baseline_coverage tv rd (list_ex is_cargo_test cs) ''cargo_test'' rust_test_files s2 = (Inr rust, s3)"
      "baseline_coverage tv rd (list_ex is_runner_check cs) ''shell'' conventional_test_files s3 = (Inr conventional, s4)"
      "t = tamper_report rid now m (lint_checks rx cs) (covered_touches tv (sort_coverage (check_coverage tv cs wd @ rust @ conventional)) touched)"
    by (auto simp: evaluate_def result_simps Let_def)
  moreover have "s4 = s" using r readonlyD readonly_tamper_reads by metis
  ultimately show ?thesis
    by (auto simp: evaluate_def result_simps Let_def same_tamper_facts_def tamper_report_def split: prod.splits)
qed

text \<open>
  C21: An honest evaluation validates: when the commands of the checks change nothing, the evaluation the
  gate reports passes the whole validation at any later time of the same world, and it is accepted
  exactly when the tamper verdict is no refusal and no required check failed.
\<close>

theorem honest_evaluation_validates:
  assumes "commands_only_look xv" "evaluate_gate_with_identity xv clk now rid rd wd evaluator w = (Inr ev, w')"
  shows "w' = w \<and> validate_gate_evaluation_integrity xv now' rid rd wd ev w = (Inr (), w)
    \<and> (validate_gate_evaluation xv now' rid rd wd ev w = (Inr (), w)
        \<longleftrightarrow> tm_verdict (gx_tamper ev) \<noteq> TamperRefuse \<and> \<not> required_failed (gx_results ev))"
proof -
  have canonical: "canonical_working_dir xv wd = Inr p \<longleftrightarrow> xv_canonicalize xv wd = Inr p" for p
    by (simp add: canonical_working_dir_def split: sum.splits)
  have emit: "emit_advisory_acceptance_progress xv None row u = (Inr (), u)" for row u
    by (simp add: emit_advisory_acceptance_progress_def emit_acceptance_progress_def)
  from assms(2) obtain checks w1 where r: "xv_canonicalize xv wd = Inr (gx_working_dir ev)"
      "approved_acceptance_contract xv rd (gw_fs w) = (Inr (checks, gx_contract_sha256 ev), gw_fs w)"
      "evaluate_each xv clk (emit_advisory_acceptance_progress xv None) wd (length checks) 1 checks w = (Inr (gx_results ev), w1)"
      "evaluate (gw_tree w1) (xv_provenance xv) (xv_regex xv) now rid rd wd checks (gw_fs w1) = (Inr (gx_tamper ev), gw_fs w1)"
      "gx_schema_version ev = 1" "gx_run_id ev = rid" "w' = w1"
    by (auto simp: evaluate_gate_with_identity_def evaluate_gate_with_identity_inner_def evaluate_all_def result_simps
        canonical gate_reads emit Let_def GATE_EVALUATION_SCHEMA_VERSION_def simp del: gw_io_Inr_iff split: prod.splits)
  have w1: "w1 = w" "list_all2 (result_answers xv (gw_tree w) wd) checks (gx_results ev)"
    using evaluated_all_answer [OF assms(1) emit r(3)] by simp_all
  then have v: "validated_gate_evaluation_checks xv now' rid rd wd ev w = (Inr checks, w)"
    using r evaluate_at_another_time [of "gw_tree w" _ _ now rid rd wd checks "gw_fs w"]
    unfolding validated_checks_iff by blast
  have "ensure_gate_evaluation_accepted ev = Inr ()
      \<longleftrightarrow> tm_verdict (gx_tamper ev) \<noteq> TamperRefuse \<and> \<not> required_failed (gx_results ev)"
    by (auto simp: ensure_gate_evaluation_accepted_def required_failed_def find_None_iff list_ex_iff find_Some_iff
        split: option.splits)
  with v w1 r(7) show ?thesis
    by (simp add: validate_gate_evaluation_integrity_def validate_gate_evaluation_def)
qed

section \<open>Progress rows\<close>

definition text_at :: "path \<Rightarrow> gate_world \<Rightarrow> bytes" where
  "text_at p w = (case files (gw_fs w) p of None \<Rightarrow> [] | Some x \<Rightarrow> x)"

definition rows_text :: "'z evaluation_env_scheme \<Rightarrow> acceptance_progress_entry list \<Rightarrow> bytes" where
  "rows_text xv rows = concat (map (\<lambda>row. the (enc (xv_progress xv) row) @ [newline]) rows)"

lemma rows_text_simps [simp]:
  "rows_text xv [] = []" "rows_text xv (row # rows) = the (enc (xv_progress xv) row) @ [newline] @ rows_text xv rows"
  "rows_text xv (rows @ rows') = rows_text xv rows @ rows_text xv rows'"
  by (simp_all add: rows_text_def)

text \<open>Commands that leave a file alone.\<close>

definition commands_leave :: "'z evaluation_env_scheme \<Rightarrow> path \<Rightarrow> bool" where
  "commands_leave xv p \<longleftrightarrow> (\<forall>command w. text_at p (snd (xv_run xv command w)) = text_at p w)"

lemma run_command_leaves:
  "commands_leave xv p \<Longrightarrow> run_command xv blamed command w = (Inr out, w') \<Longrightarrow> text_at p w' = text_at p w"
  by (auto simp: run_command_def commands_leave_def split: prod.splits sum.splits) (metis snd_conv)

lemma evaluate_check_leaves:
  assumes "commands_leave xv p" "evaluate_check xv wd check w = (Inr r, w')"
  shows "text_at p w' = text_at p w"
  using assms(2) by (cases check) (auto simp: evaluate_check_def Let_def result_simps dest: run_command_leaves [OF assms(1)])

lemma emitted_row:
  "emit_acceptance_progress xv (Some p) row w = (Inr (), w') \<Longrightarrow> text_at p w' = text_at p w @ rows_text xv [row]"
  by (auto simp: emit_acceptance_progress_def append_json_line_def append_row_def append_bytes_def result_simps text_at_def
      Let_def split: option.splits)

definition check_rows :: "(nat \<Rightarrow> timestamp) \<Rightarrow> nat \<Rightarrow> nat \<Rightarrow> acceptance_check_result list \<Rightarrow> acceptance_progress_entry list" where
  "check_rows clk n i rs =
    concat (map (\<lambda>(i, r). [progress_row (clk (2 * i + 1)) ''running'' (i + 1) n None,
      progress_row (clk (2 * i + 2)) (verdict_label (rk_passed r)) (i + 1) n (Some r)]) (enumerate i rs))"

lemma evaluate_each_rows:
  assumes "commands_leave xv p"
  shows "evaluate_each xv clk (emit_acceptance_progress xv (Some p)) wd n (Suc i) checks w = (Inr rs, w')
    \<Longrightarrow> length rs = length checks \<and> text_at p w' = text_at p w @ rows_text xv (check_rows clk n i rs)"
proof (induction checks arbitrary: i rs w)
  case (Cons check checks)
  from Cons.prems obtain r rest w1 w2 w3 where s:
      "emit_acceptance_progress xv (Some p) (progress_row (clk (2 * i + 1)) ''running'' (i + 1) n None) w = (Inr (), w1)"
      "evaluate_check xv wd check w1 = (Inr r, w2)"
      "emit_acceptance_progress xv (Some p) (progress_row (clk (2 * i + 2)) (verdict_label (rk_passed r)) (i + 1) n (Some r)) w2
        = (Inr (), w3)"
      "evaluate_each xv clk (emit_acceptance_progress xv (Some p)) wd n (Suc (Suc i)) checks w3 = (Inr rest, w')"
      "rs = r # rest"
    by (auto simp: result_simps)
  note IH = Cons.IH [OF s(4)]
  show ?case
    using IH s(5) emitted_row [OF s(1)] evaluate_check_leaves [OF assms s(2)] emitted_row [OF s(3)]
    by (simp add: check_rows_def)
qed (simp add: check_rows_def)

lemma reconstructed_eq:
  "reconstructed_rows clk rs =
    progress_row (clk 0) ''started'' 0 (length rs) None # check_rows clk (length rs) 0 rs
    @ [progress_row (clk (2 * length rs + 1)) (verdict_label (\<not> required_failed rs)) (length rs) (length rs) None]"
  by (simp add: reconstructed_rows_def check_rows_def Let_def)

lemma encoded_rows:
  "map_res (\<lambda>row. ok_or (enc c row) e) rows = Inr bs \<Longrightarrow> bs = map (\<lambda>row. the (enc c row)) rows"
  by (induction rows arbitrary: bs) (auto simp: result_simps)

text \<open>
  The progress file the signer rebuilds from the results is, on the same clock, byte for byte the file
  a live evaluation with those results appended row by row, when the commands of the checks leave that
  file alone.
\<close>

theorem rebuilt_progress_is_live_progress:
  assumes "evaluate_all xv clk (emit_acceptance_progress xv (Some (acceptance_progress_path_for_run_root rd))) wd checks w
      = (Inr rs, w')"
    "commands_leave xv (acceptance_progress_path_for_run_root rd)"
    "files (gw_fs w) (acceptance_progress_path_for_run_root rd) = None"
    "write_reconstructed_acceptance_progress xv clk rd rs s = (Inr (), s')"
  shows "files s' (acceptance_progress_path_for_run_root rd) = files (gw_fs w') (acceptance_progress_path_for_run_root rd)"
proof -
  let ?p = "acceptance_progress_path_for_run_root rd" and ?n = "length checks"
  from assms(1) obtain w1 w2 where s:
      "emit_acceptance_progress xv (Some ?p) (progress_row (clk 0) ''started'' 0 ?n None) w = (Inr (), w1)"
      "evaluate_each xv clk (emit_acceptance_progress xv (Some ?p)) wd ?n (Suc 0) checks w1 = (Inr rs, w2)"
      "emit_acceptance_progress xv (Some ?p) (progress_row (clk (2 * ?n + 1)) (verdict_label (\<not> required_failed rs)) ?n ?n None) w2
        = (Inr (), w')"
    by (auto simp: evaluate_all_def result_simps Let_def)
  have "text_at ?p w' = rows_text xv (reconstructed_rows clk rs)"
    using emitted_row [OF s(1)] evaluate_each_rows [OF assms(2) s(2)] emitted_row [OF s(3)] assms(3)
    by (simp add: reconstructed_eq text_at_def)
  moreover have "files (gw_fs w') ?p \<noteq> None"
    using s(3) by (auto simp: emit_acceptance_progress_def append_json_line_def append_row_def append_bytes_def
        result_simps Let_def split: option.splits)
  moreover have "files s' ?p = Some (rows_text xv (reconstructed_rows clk rs))"
    using assms(4) by (auto simp: write_reconstructed_acceptance_progress_def result_simps Let_def rows_text_def comp_def
        dest!: encoded_rows split: option.splits)
  ultimately show ?thesis by (auto simp: text_at_def split: option.splits)
qed

end
