(* ===== verification/Acceptance_Examples.thy ===== *)
theory Acceptance_Examples
  imports Gate_Proof Tamper_Examples Delivery_Examples
begin

text \<open>
  The acceptance properties at one run: a contract with one required check on a file, a protected key, and
  a tree in which the file is there. The keyed hash of the example returns its message, so it has no
  collisions.
\<close>

definition run_root :: path where
  "run_root = [RootDir, Normal ''a'', Normal ''b'', Normal ''c'', Normal ''r'']"

definition sample_check :: acceptance_check where
  "sample_check = FileExists ''Cargo.toml'' True"

definition sample_result :: acceptance_check_result where
  "sample_result = file_result ''file_exists'' True True ''p exists''"

definition sample_marker :: "string \<Rightarrow> acceptance_marker" where
  "sample_marker signature = \<lparr>mk_schema_version = 2, mk_run_id = ''r'', mk_status = ''pass'', mk_produced_by = ''dr-gate'',
    mk_issuer = ''dr-gate'', mk_proof_kind = NativeGate, mk_checked_at = 0, mk_working_dir = [RootDir], mk_contained = True,
    mk_sandbox_backend = ''bwrap'', mk_signature = signature, mk_check_count = 1, mk_checks = [sample_result]\<rparr>"

definition example_env :: "acceptance_check \<Rightarrow> evaluation_env" where
  "example_env check =
    \<lparr>gv_meta = (\<lambda>p. Inr (if p = gate_key_store [RootDir] then \<lparr>md_kind = Directory, md_mode = 0x1C0\<rparr>
       else \<lparr>md_kind = RegularFile, md_mode = 0x180\<rparr>)),
     gv_digest = (\<lambda>_. ''d''), gv_hmac = (\<lambda>_. Some (\<lambda>message. message)), gv_json_text = (\<lambda>_. None),
     gv_yaml = (\<lambda>_. Some (YMapping [(YString ''checks'', YSequence [YNull])])), gv_yaml_check = (\<lambda>_. Some check),
     gv_yaml_capabilities = (\<lambda>_. None), gv_yaml_spec = (\<lambda>_. None),
     mv_marker = \<lparr>enc = (\<lambda>m. Some (mk_signature m)), dec = (\<lambda>b. Some (sample_marker b))\<rparr>,
     mv_result = (\<lambda>_. Some ''R''), mv_rfc3339 = (\<lambda>_. ''now''), mv_lossy = (\<lambda>_. ''p''),
     mv_legacy_hash = (\<lambda>_ _ _ _. []),
     xv_canonicalize = Inr, xv_run = (\<lambda>_ w. (Inl IoNotFound, w)), xv_debug = (\<lambda>s. s), xv_regex = (\<lambda>_ _. Some False),
     xv_provenance = no_provenance, xv_tamper = \<lparr>enc = (\<lambda>_. Some ''T''), dec = (\<lambda>_. None)\<rparr>,
     xv_progress = \<lparr>enc = (\<lambda>_. Some ''P''), dec = (\<lambda>_. None)\<rparr>\<rparr>"

lemma example_env_simps [simp]:
  "gv_hmac (example_env check) key = Some (\<lambda>message. message)" "gv_yaml_check (example_env check) y = Some check"
  "gv_yaml (example_env check) raw = Some (YMapping [(YString ''checks'', YSequence [YNull])])"
  "gv_digest (example_env check) b = ''d''"
  "mv_marker (example_env check) = \<lparr>enc = (\<lambda>m. Some (mk_signature m)), dec = (\<lambda>b. Some (sample_marker b))\<rparr>"
  "mv_result (example_env check) r = Some ''R''" "mv_rfc3339 (example_env check) t = ''now''"
  "mv_lossy (example_env check) p = ''p''" "xv_canonicalize (example_env check) p = Inr p"
  "xv_run (example_env check) command w = (Inl IoNotFound, w)" "xv_provenance (example_env check) = no_provenance"
  "enc (xv_tamper (example_env check)) report = Some ''T''" "enc (xv_progress (example_env check)) row = Some ''P''"
  by (simp_all add: example_env_def)

definition example_fs :: fs where
  "example_fs = put_file (acceptance_spec_path_for_run_root run_root) ''checks'' keyed_fs"

definition example_tree :: tree_view where
  "example_tree = \<lparr>tv_exists = (\<lambda>_. True), tv_is_dir = (\<lambda>_. False), tv_walk = (\<lambda>_. []), tv_read_dir = (\<lambda>_. Inr []),
    tv_text = (\<lambda>_. None), tv_show = (\<lambda>_. ''p'')\<rparr>"

lemma example_contract:
  "parse_acceptance_checks (example_env check) raw = Inr [check]"
  "acceptance_capabilities_from_yaml (example_env check) raw = Inr default_capabilities"
  by (simp_all add: parse_acceptance_checks_def check_sections_def parse_check_value_def yaml_get_def as_mapping_def
      yaml_seq_def acceptance_capabilities_from_yaml_def res_bind_def ok_or_def)

lemma example_files:
  "files example_fs (acceptance_spec_path_for_run_root run_root) = Some ''checks''"
  "named n p \<Longrightarrow> n \<noteq> ''acceptance.yaml'' \<Longrightarrow> last n \<noteq> CHR ''y'' \<Longrightarrow> n \<noteq> [] \<Longrightarrow> files example_fs p = None"
  "read_fault example_fs p = None" "write_fault example_fs p = None" "append_fault example_fs p = None"
proof -
  assume n: "named n p" "n \<noteq> ''acceptance.yaml''" "last n \<noteq> CHR ''y''" "n \<noteq> []"
  have "named ''acceptance.yaml'' (acceptance_spec_path_for_run_root run_root)"
    by (simp add: acceptance_spec_path_for_run_root_def named_join plain_def)
  then have "p \<noteq> acceptance_spec_path_for_run_root run_root" using n named_differ by blast
  moreover have "p \<noteq> gate_key_path [RootDir] ''r''"
    using named_differ [OF n(1) evidence_names(8)] n(3,4) by fastforce
  ultimately show "files example_fs p = None" by (simp add: example_fs_def keyed_fs_def)
qed (simp_all add: example_fs_def keyed_fs_def)

lemma example_key:
  "read_gate_key_for_run_root (gv_meta (example_env check)) run_root ''r'' example_fs
    = (Inr (replicate 32 (CHR ''k'')), example_fs)"
proof -
  have "named ''acceptance.yaml'' (acceptance_spec_path_for_run_root run_root)"
    by (simp add: acceptance_spec_path_for_run_root_def named_join plain_def)
  then have "acceptance_spec_path_for_run_root run_root \<noteq> gate_key_path [RootDir] ''r''"
    using named_differ [OF _ evidence_names(8) [of "''r''" "[RootDir]"]] by fastforce
  moreover have "gate_key_path_for_run_root run_root ''r'' = Inr (gate_key_path [RootDir] ''r'')"
    by (simp add: gate_key_path_for_run_root_def run_root_def path_parent_def res_bind_def ok_or_def)
  moreover have "key_text (hex_encode (replicate 32 (CHR ''k''))) = Inr (replicate 32 (CHR ''k''))"
    by (rule key_text_encoded) (simp add: GATE_KEY_BYTES_def)
  ultimately show ?thesis
    by (simp add: read_gate_key_for_run_root_def read_gate_key_at_path_def check_key_store_def example_env_def
        check_key_file_def metadata_of_def others_may_access_def res_bind_def ok_or_def fs_read_optional_def fs_read_def
        io_bind_run example_fs_def keyed_fs_def)
qed

theorem strict_contract_iff_witness:
  "validate_strict_contract (example_env sample_check) (acceptance_spec_path_for_run_root run_root) ''j'' example_fs
    = (Inr (), example_fs)"
proof -
  have "\<not> only_working_directory sample_check" "check_network sample_check = NetDeny" "ck_must_pass sample_check"
    unfolding sample_check_def only_working_directory_def check_network_def by code_simp+
  then show ?thesis
    using strict_contract_iff [of "example_env sample_check" "acceptance_spec_path_for_run_root run_root" "''j''" example_fs example_fs]
    by (auto simp: example_files example_contract)
qed

theorem generated_contract_is_strict_iff_detected_witness:
  "\<not> validate_strict_contract (example_env (FileExists ''{working_dir}'' True)) (acceptance_spec_path_for_run_root run_root)
      ''j'' example_fs = (Inr (), example_fs)
   \<and> validate_strict_contract (example_env (CargoTest [] True)) (acceptance_spec_path_for_run_root run_root)
      ''j'' example_fs = (Inr (), example_fs)"
proof -
  let ?nothing = "example_tree\<lparr>tv_exists := \<lambda>_. False\<rparr>" and ?wd = "[RootDir]"
  have u: "detect_project_kind ?nothing (\<lambda>_. None) ?wd = UnknownKind"
    by (simp add: detect_project_kind_def example_tree_def python_project_def has_dotnet_project_def
        detect_script_runner_def runner_file_def)
  have r: "detect_project_kind example_tree (\<lambda>_. None) ?wd = Rust"
    by (simp add: detect_project_kind_def example_tree_def)
  show ?thesis
    using generated_contract_is_strict_iff_detected [of example_fs "acceptance_spec_path_for_run_root run_root" "''checks''"
        "example_env (FileExists ''{working_dir}'' True)" ?nothing "\<lambda>_. None" ?wd "''j''"]
      generated_contract_is_strict_iff_detected [of example_fs "acceptance_spec_path_for_run_root run_root" "''checks''"
        "example_env (CargoTest [] True)" example_tree "\<lambda>_. None" ?wd "''j''"]
    by (simp add: example_files example_contract u r default_checks_for_def)
qed

section \<open>The marker\<close>

definition small :: "fs \<Rightarrow> bool" where
  "small s \<longleftrightarrow> (\<forall>p. read_fault s p = None \<and> write_fault s p = None \<and> pred_option fits (files s p))"

lemma small_put_file: "small s \<Longrightarrow> fits b \<Longrightarrow> small (put_file p b s)"
  by (simp add: small_def)

lemma small_example: "small example_fs"
proof -
  have "length (hex_encode (replicate 32 (CHR ''k''))) = 64" by code_simp
  then show ?thesis by (simp add: small_def example_fs_def keyed_fs_def fits_def)
qed

lemma small_read: "small s \<Longrightarrow> \<exists>b. read_optional_bound_bytes p s = (Inr b, s) \<and> fits b"
  by (cases "files s p")
    (auto simp: small_def read_optional_bound_bytes_def fs_read_or_def fs_read_def fits_def dest: spec [of _ p])

definition evidence_fits :: "bound_evidence \<Rightarrow> bool" where
  "evidence_fits e \<longleftrightarrow> fits (be_tamper e) \<and> fits (be_campaign_rollup e) \<and> fits (be_result_projection e)
    \<and> fits (be_parent_repair e) \<and> fits (be_parent_repair_candidate e)"

lemma small_evidence:
  assumes "small s"
  shows "\<exists>e. read_bound_evidence run_root None s = (Inr e, s) \<and> evidence_fits e"
proof -
  obtain f where f: "\<And>p. read_optional_bound_bytes p s = (Inr (f p), s) \<and> fits (f p)"
    using small_read [OF assms] by metis
  then show ?thesis
    by (simp add: read_bound_evidence_def read_parent_repair_def io_bind_run evidence_fits_def)
qed

lemma example_message:
  assumes "evidence_fits e"
  shows "\<exists>message. canonical_marker_message (example_env check) run_root (sample_marker x) e = Inr message"
proof -
  have "canonical_checks (example_env check) run_root [sample_result] = Inr (sized ''R'')"
    by (simp add: canonical_checks_def append_sized_bytes_def sized_bytes_def sized_def res_bind_def ok_or_def)
  moreover have "show_nat 2 = ''2''" "show_nat 1 = ''1''" by code_simp+
  then have "list_all fits (flat_fields (canonical_fields (example_env check) (sample_marker x) (sized ''R'') e))"
    using assms by (simp add: canonical_fields_def sample_marker_def optional_field_def fits_def sized_def evidence_fits_def)
  then have "\<exists>message. fold_res append_canonical_field V2_CANONICAL_MAGIC
      (canonical_fields (example_env check) (sample_marker x) (sized ''R'') e) = Inr message"
    unfolding fields_message by blast
  moreover have "mk_checks (sample_marker x) = [sample_result]" by (simp add: sample_marker_def)
  ultimately show ?thesis by (simp add: canonical_marker_message_def res_bind_def)
qed

lemma example_written:
  assumes "small s"
  shows "\<exists>x s'. write_native_acceptance_marker_with_results_and_key (example_env check) 0 run_root ''r'' [RootDir]
      [sample_result] (replicate 32 (CHR ''k'')) (contained_in ''bwrap'') s = (Inr (sample_marker x), s')"
proof -
  obtain e where e: "read_bound_evidence run_root None s = (Inr e, s)" "evidence_fits e" using small_evidence [OF assms] by blast
  obtain message where m: "canonical_marker_message (example_env check) run_root (sample_marker []) e = Inr message"
    using example_message [OF e(2)] by blast
  have "canonical_marker_bytes (example_env check) run_root (sample_marker []) s = (Inr message, s)"
    using e m by (simp add: canonical_marker_bytes_def canonical_marker_bytes_with_parent_repair_def io_bind_run sample_marker_def)
  then have v: "v2_marker_signature (example_env check) run_root (sample_marker []) (replicate 32 (CHR ''k'')) s
      = (Inr (hex_encode message), s)"
    by (simp add: v2_marker_signature_def require_gate_key_length_def GATE_KEY_BYTES_def io_bind_run marker_hmac_def ok_or_def)
  have "\<lparr>mk_schema_version = 2, mk_run_id = ''r'', mk_status = ''pass'', mk_produced_by = ''dr-gate'',
        mk_issuer = ''dr-gate'', mk_proof_kind = NativeGate, mk_checked_at = 0, mk_working_dir = [RootDir],
        mk_contained = True, mk_sandbox_backend = ''bwrap'', mk_signature = [], mk_check_count = 1,
        mk_checks = [sample_result]\<rparr> = sample_marker []"
    "(sample_marker [])\<lparr>mk_signature := hex_encode message\<rparr> = sample_marker (hex_encode message)"
    by (simp_all add: sample_marker_def)
  moreover have "write_fault s p = None" for p using assms by (simp add: small_def)
  ultimately show ?thesis
    using v by (intro exI [of _ "hex_encode message"]) (simp add: write_native_acceptance_marker_with_results_and_key_def
        write_acceptance_marker_with_context_and_key_def contained_in_def require_gate_key_length_def GATE_KEY_BYTES_def
        create_dir_all_def fs_write_def ok_or_def io_bind_run Let_def)
qed

lemma example_reads_back: "reads_back (mv_marker (example_env check)) (sample_marker x)"
  by (simp add: reads_back_def) (simp add: sample_marker_def)

lemma example_validates:
  obtains x s' where
    "write_native_acceptance_marker_with_results_and_key (example_env sample_check) 0 run_root ''r'' [RootDir]
      [sample_result] (replicate 32 (CHR ''k'')) (contained_in ''bwrap'') example_fs = (Inr (sample_marker x), s')"
  using example_written [OF small_example] by blast

theorem signed_marker_validates_witness:
  "\<exists>x s'. validate_acceptance_marker (example_env sample_check) run_root ''r'' s' = (Inr (sample_marker x), s')"
proof -
  obtain x s' where "write_native_acceptance_marker_with_results_and_key (example_env sample_check) 0 run_root ''r'' [RootDir]
      [sample_result] (replicate 32 (CHR ''k'')) (contained_in ''bwrap'') example_fs = (Inr (sample_marker x), s')"
    by (rule example_validates)
  from signed_marker_validates [OF this example_key example_reads_back example_files(3)] show ?thesis by blast
qed

theorem signed_marker_bytes_are_unambiguous_witness:
  "same_signed_facts (example_env sample_check) (sample_marker ''x'') (sample_marker ''y'')"
proof -
  have s: "sample_marker x = (sample_marker [])\<lparr>mk_signature := x\<rparr>" for x by (simp add: sample_marker_def)
  obtain e where "evidence_fits e" using small_evidence [OF small_example] by blast
  then obtain b where "canonical_marker_message (example_env sample_check) run_root (sample_marker []) e = Inr b"
    using example_message by blast
  then have "canonical_marker_message (example_env sample_check) run_root (sample_marker x) e = Inr b" for x
    by (subst s) simp
  then show ?thesis using signed_marker_bytes_are_unambiguous by blast
qed

text \<open>One file of markers, read twice.\<close>

lemma example_marker_file_at:
  assumes e: "read_bound_evidence run_root None b = (Inr e, b)"
    and m: "canonical_marker_message (example_env sample_check) run_root (sample_marker []) e = Inr message"
    and k: "read_gate_key_for_run_root (gv_meta (example_env sample_check)) run_root ''r'' b = (Inr (replicate 32 (CHR ''k'')), b)"
    and ok: "read_fault b (marker_path_for_run_root run_root) = None"
  defines "s \<equiv> put_file (marker_path_for_run_root run_root) (hex_encode message) b"
  shows "validate_acceptance_marker_inner (example_env sample_check) run_root ''r'' None s =
    (Inr (sample_marker (hex_encode message)), s)"
proof -
  have sm: "sample_marker x = (sample_marker [])\<lparr>mk_signature := x\<rparr>" for x by (simp add: sample_marker_def)
  have "canonical_marker_message (example_env sample_check) run_root (sample_marker x) e = Inr message" for x
    by (subst sm) (simp add: m)
  moreover have v2: "mk_schema_version (sample_marker x) = 2" for x by (simp add: sample_marker_def)
  ultimately have c: "canonical_marker_bytes_with_parent_repair (example_env sample_check) run_root (sample_marker x) None b
      = (Inr message, b)" for x
    using e by (simp add: canonical_marker_bytes_with_parent_repair_def io_bind_run)
  have v: "verify_v2_marker_signature_with_parent_repair (example_env sample_check) run_root (sample_marker (hex_encode message))
      (replicate 32 (CHR ''k'')) None s = (Inr (), s)"
    using blind_run [OF blind_canonical c]
    by (simp add: s_def verify_v2_marker_signature_with_parent_repair_def require_gate_key_length_def GATE_KEY_BYTES_def
        io_bind_run marker_hmac_def ok_or_def hex_roundtrip) (simp add: sample_marker_def hex_roundtrip)
  have k: "read_gate_key_for_run_root (gv_meta (example_env sample_check)) run_root ''r'' s = (Inr (replicate 32 (CHR ''k'')), s)"
    unfolding s_def by (rule blind_run [OF blind_read_key_for_run_root k])
  have m: "mk_schema_version (sample_marker y) = 2" "mk_run_id (sample_marker y) = ''r''" "mk_status (sample_marker y) = ''pass''" for y
    by (simp_all add: sample_marker_def)
  have "fs_read (marker_path_for_run_root run_root) s = (Inr (hex_encode message), s)"
    using ok by (simp add: s_def fs_read_def)
  then show ?thesis
    by (simp add: validate_acceptance_marker_inner_def Let_def parse_json_def ok_or_def io_bind_run m
        validate_marker_signature_def k v)
qed

lemma example_marker_file:
  obtains x where "validate_acceptance_marker_inner (example_env sample_check) run_root ''r'' None
      (put_file (marker_path_for_run_root run_root) x example_fs)
    = (Inr (sample_marker x), put_file (marker_path_for_run_root run_root) x example_fs)"
proof -
  obtain e where e: "read_bound_evidence run_root None example_fs = (Inr e, example_fs)" "evidence_fits e"
    using small_evidence [OF small_example] by blast
  obtain message where "canonical_marker_message (example_env sample_check) run_root (sample_marker []) e = Inr message"
    using example_message [OF e(2)] by blast
  from example_marker_file_at [OF e(1) this example_key example_files(3)] show thesis by (rule that)
qed

text \<open>
  The same marker in three states of the run: beside the evidence it was written with; with new progress
  rows, which it does not bind, where it validates again and vouches for the same evidence; and with
  a tamper record that was not there, where it no longer validates.
\<close>

lemma example_key_after:
  assumes "named n p" "last n \<noteq> CHR ''y''" "n \<noteq> []"
  shows "read_gate_key_for_run_root (gv_meta (example_env check)) run_root ''r'' (put_file p b example_fs)
    = (Inr (replicate 32 (CHR ''k'')), put_file p b example_fs)"
proof -
  have ne: "gate_key_path [RootDir] ''r'' \<noteq> p"
    using named_differ [OF assms(1) evidence_names(8)] assms(2,3) by fastforce
  have "gate_key_path_for_run_root run_root ''r'' = Inr (gate_key_path [RootDir] ''r'')"
    by (simp add: gate_key_path_for_run_root_def run_root_def path_parent_def res_bind_def ok_or_def)
  moreover have "blind p (read_gate_key_at_path (gv_meta (example_env check)) (gate_key_path [RootDir] ''r'') ''r'')"
    unfolding read_gate_key_at_path_def
    by (intro blind_bind blind_reads ne readonly_reads) (auto split: option.splits sum.splits)
  ultimately have "blind p (read_gate_key_for_run_root (gv_meta (example_env check)) run_root ''r'')"
    by (simp add: read_gate_key_for_run_root_def)
  from blind_run [OF this example_key] show ?thesis .
qed

lemma marker_mac_exact: "\<not> signed_texts_collide (example_env check) rd key m e m' e'"
  by (simp add: signed_texts_collide_def)

theorem marker_vouches_for_its_evidence_witness:
  "\<exists>x e. (let p = marker_path_for_run_root run_root; s = put_file p x example_fs;
        t = put_file p x (put_file (acceptance_progress_path_for_run_root run_root) ''new'' example_fs);
        u = put_file p x (put_file (acceptance_tamper_path_for_run_root run_root) ''new'' example_fs) in
      read_bound_evidence run_root None s = (Inr e, s) \<and> read_bound_evidence run_root None t = (Inr e, t)
      \<and> validate_acceptance_marker_inner (example_env sample_check) run_root ''r'' None s = (Inr (sample_marker x), s)
      \<and> validate_acceptance_marker_inner (example_env sample_check) run_root ''r'' None t = (Inr (sample_marker x), t)
      \<and> (\<forall>u'. validate_acceptance_marker_inner (example_env sample_check) run_root ''r'' None u \<noteq> (Inr (sample_marker x), u')))"
proof -
  let ?p = "marker_path_for_run_root run_root" and ?k = "replicate 32 (CHR ''k'')" and ?env = "example_env sample_check"
  define bt where "bt = put_file (acceptance_progress_path_for_run_root run_root) ''new'' example_fs"
  define bu where "bu = put_file (acceptance_tamper_path_for_run_root run_root) ''new'' example_fs"
  obtain e where e: "read_bound_evidence run_root None example_fs = (Inr e, example_fs)" "evidence_fits e"
    using small_evidence [OF small_example] by blast
  obtain message where m: "canonical_marker_message ?env run_root (sample_marker []) e = Inr message"
    using example_message [OF e(2)] by blast
  define x where "x = hex_encode message"
  have key: "read_gate_key_for_run_root (gv_meta ?env) run_root ''r'' bt = (Inr ?k, bt)"
      "read_gate_key_for_run_root (gv_meta ?env) run_root ''r'' bu = (Inr ?k, bu)"
    unfolding bt_def bu_def by (rule example_key_after [OF evidence_names(2)] example_key_after [OF evidence_names(3)]; simp)+
  have ne: "q \<noteq> acceptance_progress_path_for_run_root run_root" if "named n q" "n \<noteq> ''acceptance-progress.jsonl''" for n q
    using named_differ [OF that(1) evidence_names(2) that(2)] .
  have "blind (acceptance_progress_path_for_run_root run_root) (read_bound_evidence run_root None)"
    unfolding read_bound_evidence_def read_parent_repair_def read_optional_bound_bytes_def
    by (intro blind_bind blind_reads readonly_reads ne [OF evidence_names(3)] ne [OF evidence_names(4)]
        ne [OF evidence_names(5)])
      (auto split: option.splits prod.splits intro!: blind_bind blind_reads readonly_bind ne [OF evidence_names(6)]
        ne [OF evidence_names(7)])
  from blind_run [OF this e(1)] have et: "read_bound_evidence run_root None bt = (Inr e, bt)" by (simp add: bt_def)
  have vs: "validate_acceptance_marker_inner ?env run_root ''r'' None (put_file ?p x example_fs)
      = (Inr (sample_marker x), put_file ?p x example_fs)"
    unfolding x_def by (rule example_marker_file_at [OF e(1) m example_key example_files(3)])
  have vt: "validate_acceptance_marker_inner ?env run_root ''r'' None (put_file ?p x bt)
      = (Inr (sample_marker x), put_file ?p x bt)"
    unfolding x_def using example_files(3) by (intro example_marker_file_at [OF et m key(1)]) (simp add: bt_def)
  have v2: "mk_schema_version (sample_marker x) = 2" by (simp add: sample_marker_def)
  note vouches = marker_vouches_for_its_evidence [OF vs v2 blind_run [OF blind_read_key_for_run_root example_key] _ v2
      blind_run [OF blind_read_key_for_run_root] refl]
  have same: "read_bound_evidence run_root None (put_file ?p x example_fs) = (Inr e, put_file ?p x example_fs)"
    by (rule blind_run [OF blind_read_bound_evidence e(1)])
  with vouches [OF vt key(1)] have "read_bound_evidence run_root None (put_file ?p x bt) = (Inr e, put_file ?p x bt)"
    by (simp add: marker_mac_exact)
  moreover have "validate_acceptance_marker_inner ?env run_root ''r'' None (put_file ?p x bu) \<noteq> (Inr (sample_marker x), u')" for u'
  proof
    assume "validate_acceptance_marker_inner ?env run_root ''r'' None (put_file ?p x bu) = (Inr (sample_marker x), u')"
    from vouches [OF this key(2)] same
    have eu: "read_bound_evidence run_root None (put_file ?p x bu) = (Inr e, put_file ?p x bu)"
      by (simp add: marker_mac_exact)
    have "?p \<noteq> acceptance_tamper_path_for_run_root run_root"
      by (rule named_differ [OF evidence_names(1,3)]) simp
    then have "be_tamper e = ''new''"
      using eu by (auto simp: read_bound_evidence_def read_optional_bound_bytes_def fs_read_or_def fs_read_def bu_def
          example_files result_simps)
    moreover have "be_tamper e = []"
      using e(1) example_files(2) [OF evidence_names(3)]
      by (auto simp: read_bound_evidence_def read_optional_bound_bytes_def fs_read_or_def fs_read_def
          example_files result_simps)
    ultimately show False by simp
  qed
  ultimately show ?thesis
    using same vs vt unfolding Let_def bt_def bu_def by blast
qed

theorem reset_leaves_no_evidence_witness:
  "\<exists>x s s'. validate_acceptance_marker_inner (example_env sample_check) run_root ''r'' None s = (Inr (sample_marker x), s)
    \<and> clear_stale_gate_attempt_evidence run_root s = (Inr (), s')
    \<and> last_gate_attempt_counts (example_env sample_check) run_root ''r'' s' = None"
proof -
  obtain x where v: "validate_acceptance_marker_inner (example_env sample_check) run_root ''r'' None
      (put_file (marker_path_for_run_root run_root) x example_fs)
    = (Inr (sample_marker x), put_file (marker_path_for_run_root run_root) x example_fs)"
    by (rule example_marker_file)
  have "files example_fs (acceptance_progress_path_for_run_root run_root) = None"
    using example_files(2) [OF evidence_names(2)] by simp
  moreover have "acceptance_progress_path_for_run_root run_root \<noteq> marker_path_for_run_root run_root"
    by (rule named_differ [OF evidence_names(2,1)]) simp
  ultimately have "\<exists>s'. clear_stale_gate_attempt_evidence run_root (put_file (marker_path_for_run_root run_root) x example_fs)
      = (Inr (), s')"
    by (simp add: clear_stale_gate_attempt_evidence_def fs_remove_if_present_def fs_remove_def example_files io_bind_run
        unlink_def)
  then obtain s' where c: "clear_stale_gate_attempt_evidence run_root
      (put_file (marker_path_for_run_root run_root) x example_fs) = (Inr (), s')" ..
  then show ?thesis using v reset_leaves_no_evidence [OF c, of "example_env sample_check" "''r''"] by blast
qed

section \<open>The gate\<close>

definition example_world :: gate_world where
  "example_world = \<lparr>gw_fs = example_fs, gw_tree = example_tree\<rparr>"

lemma example_commands: "commands_only_look (example_env check)" "commands_leave (example_env check) p"
  by (simp_all add: commands_only_look_def commands_leave_def)

lemma example_approved:
  "approved_acceptance_contract (example_env check) run_root example_fs = (Inr ([check], ''sha256:'' @ hex_encode ''d''), example_fs)"
proof -
  have "gv_meta (example_env check) (acceptance_spec_path_for_run_root run_root) = Inr \<lparr>md_kind = RegularFile, md_mode = 0x180\<rparr>"
    by (simp add: example_env_def acceptance_spec_path_for_run_root_def run_root_def gate_key_store_def join_plain plain_def)
  then show ?thesis
    by (simp add: approved_acceptance_contract_def example_contract fs_read_def example_files io_bind_run Let_def sha256_text_def)
qed

lemma example_tamper:
  "\<exists>t. evaluate example_tree no_provenance rx now ''r'' run_root [RootDir] [sample_check] example_fs = (Inr t, example_fs)
    \<and> tm_verdict t = TamperClean"
proof -
  have "components ''gate/baseline'' = [Normal ''gate'', Normal ''baseline'']" by code_simp
  then have "named ''baseline'' (tamper_baseline_path_for_run_root run_root)"
    by (simp add: tamper_baseline_path_for_run_root_def named_join_two)
  then have n: "files example_fs (tamper_baseline_path_for_run_root run_root) = None"
    "files example_fs (join run_root ''provenance.jsonl'') = None"
    using example_files(2) [of "''baseline''"] example_files(2) [of "''provenance.jsonl''"]
    by (simp_all add: named_join plain_def)
  then have b: "baseline_snapshot_dir example_tree run_root example_fs = (Inr None, example_fs)"
      "provenance_files no_provenance run_root example_fs = (Inr [], example_fs)"
    by (simp_all add: baseline_snapshot_dir_def fs_read_optional_def fs_read_def example_files earliest_snapshot_dir_def
        example_tree_def provenance_files_def fs_exists_def io_bind_run Let_def)
  have "covered_touches example_tree coverage [] = []" for coverage
    by (rule covered_touches_none) simp
  moreover have "lint_checks rx [sample_check] = []"
    by (simp add: lint_checks_def lint_check_def sample_check_def)
  ultimately have "tm_verdict (tamper_report ''r'' now False (lint_checks rx [sample_check])
      (covered_touches example_tree coverage [])) = TamperClean" for coverage
    by (simp add: tamper_report_def classify_def)
  then show ?thesis
    by (simp add: evaluate_def touched_files_def spec_modified_def baseline_coverage_def b io_bind_run Let_def)
qed

lemma example_tree_exists [simp]: "tv_exists example_tree p"
  by (simp add: example_tree_def)

lemma example_world_simps [simp]: "gw_fs example_world = example_fs" "gw_tree example_world = example_tree"
  by (simp_all add: example_world_def)

lemma example_checked:
  "evaluate_check (example_env sample_check) [RootDir] sample_check w
    = (if tv_exists (gw_tree w) (render_template (example_env sample_check) [RootDir] ''Cargo.toml'')
       then (Inr sample_result, w) else evaluate_check (example_env sample_check) [RootDir] sample_check w)"
  by (simp add: evaluate_check_def sample_check_def sample_result_def Let_def)

definition example_evaluation :: "acceptance_tamper \<Rightarrow> gate_evaluation" where
  "example_evaluation t = \<lparr>gx_schema_version = 1, gx_run_id = ''r'', gx_working_dir = [RootDir],
    gx_contract_sha256 = ''sha256:'' @ hex_encode ''d'', gx_gate_evaluator_sha256 = None, gx_results = [sample_result],
    gx_tamper = t\<rparr>"

lemma example_evaluated:
  obtains t where "evaluate_gate_with_identity (example_env sample_check) clk 0 ''r'' run_root [RootDir] None example_world
      = (Inr (example_evaluation t), example_world)" "tm_verdict t = TamperClean"
    "evaluate example_tree no_provenance (xv_regex (example_env sample_check)) 0 ''r'' run_root [RootDir] [sample_check] example_fs
      = (Inr t, example_fs)"
proof -
  let ?xv = "example_env sample_check"
  obtain t where t: "evaluate example_tree no_provenance (xv_regex ?xv) 0 ''r'' run_root [RootDir] [sample_check] example_fs
      = (Inr t, example_fs)" "tm_verdict t = TamperClean"
    using example_tamper by blast
  have c: "evaluate_check ?xv [RootDir] sample_check example_world = (Inr sample_result, example_world)"
    by (subst example_checked) simp
  have emit: "emit_advisory_acceptance_progress ?xv None row u = (Inr (), u)" for row u
    by (simp add: emit_advisory_acceptance_progress_def emit_acceptance_progress_def)
  have "evaluate_all ?xv clk (emit_advisory_acceptance_progress ?xv None) [RootDir] [sample_check] example_world
      = (Inr [sample_result], example_world)"
    by (simp add: evaluate_all_def act_bind_def emit c Let_def)
  moreover have "gw_io (\<lambda>_. approved_acceptance_contract ?xv run_root) example_world
      = (Inr ([sample_check], ''sha256:'' @ hex_encode ''d''), example_world)"
    using example_approved by (simp add: gate_reads)
  moreover have "gw_io (\<lambda>tv. evaluate tv (xv_provenance ?xv) (xv_regex ?xv) 0 ''r'' run_root [RootDir] [sample_check]) example_world
      = (Inr t, example_world)"
    using t(1) by (simp add: gate_reads)
  ultimately have "evaluate_gate_with_identity ?xv clk 0 ''r'' run_root [RootDir] None example_world
      = (Inr (example_evaluation t), example_world)"
    by (simp add: evaluate_gate_with_identity_def evaluate_gate_with_identity_inner_def canonical_working_dir_def act_bind_def
        GATE_EVALUATION_SCHEMA_VERSION_def example_evaluation_def)
  with t show thesis by (intro that)
qed

theorem honest_evaluation_validates_witness:
  "\<exists>ev. evaluate_gate_with_identity (example_env sample_check) (\<lambda>_. 0) 0 ''r'' run_root [RootDir] None example_world
      = (Inr ev, example_world)
    \<and> validate_gate_evaluation (example_env sample_check) 7 ''r'' run_root [RootDir] ev example_world = (Inr (), example_world)"
proof -
  obtain t where t: "evaluate_gate_with_identity (example_env sample_check) (\<lambda>_. 0) 0 ''r'' run_root [RootDir] None example_world
      = (Inr (example_evaluation t), example_world)" "tm_verdict t = TamperClean"
    by (rule example_evaluated)
  have "\<not> required_failed (gx_results (example_evaluation t))" "gx_tamper (example_evaluation t) = t"
    by (simp_all add: required_failed_def example_evaluation_def sample_result_def file_result_def)
  then show ?thesis using honest_evaluation_validates [OF example_commands(1) t(1), of 7] t by auto
qed

lemma example_signed:
  "\<exists>t m w'. sign_gate_evaluation_with_key (example_env sample_check) (\<lambda>_. 0) 0 run_root ''r'' [RootDir]
      (example_evaluation t) (replicate 32 (CHR ''k'')) (contained_in ''bwrap'') example_world = (Inr m, w')"
proof -
  let ?xv = "example_env sample_check"
  obtain t where t: "evaluate_gate_with_identity ?xv (\<lambda>_. 0) 0 ''r'' run_root [RootDir] None example_world
      = (Inr (example_evaluation t), example_world)" "tm_verdict t = TamperClean"
    by (rule example_evaluated)
  have v: "validated_gate_evaluation_checks ?xv 0 ''r'' run_root [RootDir] (example_evaluation t) example_world
      = (Inr [sample_check], example_world)"
  proof -
    obtain cs where cs: "validated_gate_evaluation_checks ?xv 0 ''r'' run_root [RootDir] (example_evaluation t) example_world
        = (Inr cs, example_world)"
      using honest_evaluation_validates [OF example_commands(1) t(1), of 0]
      by (auto simp: validate_gate_evaluation_integrity_def result_simps simp del: gw_io_Inr_iff)
    moreover have "cs = [sample_check]" using cs example_approved unfolding validated_checks_iff by simp
    ultimately show ?thesis by simp
  qed
  have f: "gx_results (example_evaluation t) = [sample_result]" "gx_tamper (example_evaluation t) = t"
      "gx_working_dir (example_evaluation t) = [RootDir]"
    by (simp_all add: example_evaluation_def)
  have rows: "replicate 4 ''P'' = [''P'', ''P'', ''P'', ''P'']" by (simp add: numeral_eq_Suc)
  define s1 where "s1 = put_file (acceptance_tamper_path_for_run_root run_root) ''T'' example_fs"
  define s2 where "s2 = put_file (acceptance_progress_path_for_run_root run_root)
    (concat (map (\<lambda>row. row @ [newline]) (replicate 4 ''P''))) s1"
  have "small s2"
    unfolding s2_def s1_def by (intro small_put_file small_example) (simp_all add: fits_def length_concat sum_list_replicate)
  then obtain x s3 where w: "write_native_acceptance_marker_with_results_and_key ?xv 0 run_root ''r'' [RootDir]
      [sample_result] (replicate 32 (CHR ''k'')) (contained_in ''bwrap'') s2 = (Inr (sample_marker x), s3)"
    using example_written by blast
  have "write_acceptance_tamper (xv_tamper ?xv) run_root t example_fs = (Inr (), s1)"
    by (simp add: write_acceptance_tamper_def fs_write_def example_files s1_def io_bind_run Let_def ok_or_def)
  moreover have "write_reconstructed_acceptance_progress ?xv (\<lambda>_. 0) run_root [sample_result] s1 = (Inr (), s2)"
    by (simp add: write_reconstructed_acceptance_progress_def reconstructed_rows_def fs_write_def create_dir_all_def
        s1_def s2_def example_files io_bind_run Let_def ok_or_def res_bind_def rows split: option.splits)
  moreover have "ensure_gate_evaluation_accepted (example_evaluation t) = Inr ()"
    by (simp add: ensure_gate_evaluation_accepted_def f t(2) sample_result_def file_result_def)
  ultimately have "sign_gate_evaluation_with_key ?xv (\<lambda>_. 0) 0 run_root ''r'' [RootDir] (example_evaluation t)
      (replicate 32 (CHR ''k'')) (contained_in ''bwrap'') example_world
    = (Inr (sample_marker x), example_world\<lparr>gw_fs := s3\<rparr>)"
    using w by (simp add: sign_gate_evaluation_with_key_def require_gate_key_length_def GATE_KEY_BYTES_def
        validate_signing_containment_def contained_in_def Let_def act_bind_def v f gw_io_def)
  then show ?thesis by blast
qed

theorem signed_evaluation_was_accepted_witness:
  "\<exists>t m w'. sign_gate_evaluation_with_key (example_env sample_check) (\<lambda>_. 0) 0 run_root ''r'' [RootDir]
      (example_evaluation t) (replicate 32 (CHR ''k'')) (contained_in ''bwrap'') example_world = (Inr m, w')
    \<and> is_native_gate_proof m \<and> mk_checks m = [sample_result]"
proof -
  obtain t m w' where s: "sign_gate_evaluation_with_key (example_env sample_check) (\<lambda>_. 0) 0 run_root ''r'' [RootDir]
      (example_evaluation t) (replicate 32 (CHR ''k'')) (contained_in ''bwrap'') example_world = (Inr m, w')"
    using example_signed by blast
  moreover have "gx_results (example_evaluation t) = [sample_result]" by (simp add: example_evaluation_def)
  ultimately show ?thesis using signed_evaluation_was_accepted [OF s] by metis
qed

theorem rebuilt_progress_is_live_progress_witness:
  "\<exists>w' s'. evaluate_all (example_env sample_check) (\<lambda>_. 0)
      (emit_acceptance_progress (example_env sample_check) (Some (acceptance_progress_path_for_run_root run_root)))
      [RootDir] [sample_check] example_world = (Inr [sample_result], w')
    \<and> write_reconstructed_acceptance_progress (example_env sample_check) (\<lambda>_. 0) run_root [sample_result] empty_fs = (Inr (), s')
    \<and> files s' (acceptance_progress_path_for_run_root run_root)
      = files (gw_fs w') (acceptance_progress_path_for_run_root run_root)"
proof -
  let ?xv = "example_env sample_check" and ?p = "acceptance_progress_path_for_run_root run_root"
  have p: "path_parent ?p \<noteq> None" "files example_fs ?p = None"
    using example_files(2) [OF evidence_names(2)] evidence_names(2) [of run_root]
    by (auto simp: path_parent_def named_def)
  have emit: "\<exists>w'. emit_acceptance_progress ?xv (Some ?p) row w = (Inr (), w') \<and> gw_tree w' = gw_tree w
      \<and> append_fault (gw_fs w') = append_fault (gw_fs w)" if "append_fault (gw_fs w) ?p = None" for row w
    using p(1) that
    by (auto simp: emit_acceptance_progress_def gw_io_def append_json_line_def append_row_def append_bytes_def ok_or_def
        io_bind_run Let_def)
  have f: "append_fault (gw_fs example_world) ?p = None" by (simp add: example_files)
  obtain w1 where w1: "emit_acceptance_progress ?xv (Some ?p) (progress_row 0 ''started'' 0 1 None) example_world = (Inr (), w1)"
      "gw_tree w1 = example_tree" "append_fault (gw_fs w1) ?p = None"
    using emit [OF f] f by fastforce
  obtain w2 where w2: "emit_acceptance_progress ?xv (Some ?p) (progress_row 0 ''running'' 1 1 None) w1 = (Inr (), w2)"
      "gw_tree w2 = example_tree" "append_fault (gw_fs w2) ?p = None"
    using emit [OF w1(3)] w1 by fastforce
  obtain w3 where w3: "emit_acceptance_progress ?xv (Some ?p) (progress_row 0 ''passed'' 1 1 (Some sample_result)) w2 = (Inr (), w3)"
      "append_fault (gw_fs w3) ?p = None"
    using emit [OF w2(3)] w2 by fastforce
  obtain w4 where w4: "emit_acceptance_progress ?xv (Some ?p) (progress_row 0 ''passed'' 1 1 None) w3 = (Inr (), w4)"
    using emit [OF w3(2)] by fastforce
  have c: "evaluate_check ?xv [RootDir] sample_check w2 = (Inr sample_result, w2)"
    by (subst example_checked) (simp add: w2(2))
  have l: "verdict_label (rk_passed sample_result) = ''passed''" "\<not> required_failed [sample_result]"
    by (simp_all add: verdict_label_def required_failed_def sample_result_def file_result_def)
  have e: "evaluate_all ?xv (\<lambda>_. 0) (emit_acceptance_progress ?xv (Some ?p)) [RootDir] [sample_check] example_world
      = (Inr [sample_result], w4)"
    using w1(1) w2(1) w3(1) w4 c l by (simp add: evaluate_all_def act_bind_def Let_def verdict_label_def)
  have "\<exists>s'. write_reconstructed_acceptance_progress ?xv (\<lambda>_. 0) run_root [sample_result] empty_fs = (Inr (), s')"
    by (simp add: write_reconstructed_acceptance_progress_def reconstructed_rows_def fs_write_def create_dir_all_def
        io_bind_run Let_def ok_or_def res_bind_def split: option.splits)
  then obtain s' where s': "write_reconstructed_acceptance_progress ?xv (\<lambda>_. 0) run_root [sample_result] empty_fs = (Inr (), s')" ..
  show ?thesis
    using rebuilt_progress_is_live_progress [OF e example_commands(2) _ s'] e s' p(2) by auto
qed

end
