(* ===== verification/Capture_Policy.thy ===== *)
theory Capture_Policy
  imports Acceptance_Contract Delivery Run_State
begin

text \<open>
  The frozen policy of a workspace capture (\<open>crates/deadreckon-core/src/workspace_capture.rs\<close>): the
  ignore rules, the tracked paths and the budgets a run was admitted with, the encoding of its paths, the
  checks a stored policy must pass before a strict capture trusts it, and reading and writing it.
\<close>

section \<open>Data\<close>

datatype encoded_workspace_path = Utf8 string | UnixBytesHex string

datatype frozen_ignore_kind = GlobalGit | GitExclude | Gitignore | IgnoreFile

datatype generated_output_source = CargoMetadata | SwiftPackage | Bazel | CmakeCache | Gradle

record frozen_ignore_source =
  ig_kind :: frozen_ignore_kind
  ig_base :: encoded_workspace_path
  ig_origin :: string
  ig_lines :: "string list"

record generated_output_root =
  go_path :: encoded_workspace_path
  go_source :: generated_output_source

record capture_budgets =
  cb_max_files :: u64
  cb_max_total_bytes :: u64
  cb_max_file_bytes :: u64
  cb_max_traversal_millis :: u64
  cb_suspicious_files :: u64
  cb_suspicious_bytes :: u64
  cb_suspicious_generated_percent :: u8

definition default_budgets :: capture_budgets where
  "default_budgets =
    \<lparr>cb_max_files = 100000, cb_max_total_bytes = 512 * 1024 * 1024, cb_max_file_bytes = 128 * 1024 * 1024,
     cb_max_traversal_millis = 10000, cb_suspicious_files = 2000, cb_suspicious_bytes = 128 * 1024 * 1024,
     cb_suspicious_generated_percent = 60\<rparr>"

record frozen_git_hydration =
  fh_schema_version :: u32
  fh_frozen_at :: timestamp
  fh_repository :: bool
  fh_tracked_paths :: "encoded_workspace_path list"
  fh_head :: "string option"
  fh_index_sha256 :: "string option"

record workspace_capture_policy =
  wp_schema_version :: u32
  wp_frozen_at :: timestamp
  wp_ignores :: "frozen_ignore_source list"
  wp_frozen_git_hydration :: "frozen_git_hydration option"
  wp_frozen_tracked_paths :: "encoded_workspace_path list"
  wp_output_roots :: "generated_output_root list"
  wp_budgets :: capture_budgets
  wp_warnings :: "string list"
  wp_frozen_git_head :: "string option"
  wp_frozen_git_index_sha256 :: "string option"

definition WORKSPACE_CAPTURE_POLICY_VERSION :: u32 where "WORKSPACE_CAPTURE_POLICY_VERSION = 1"

definition FROZEN_GIT_HYDRATION_VERSION :: u32 where "FROZEN_GIT_HYDRATION_VERSION = 1"

definition capture_error :: "capture_fault \<Rightarrow> dr_error" where
  "capture_error f = InvalidInput (CaptureFault f)"

section \<open>Paths as bytes\<close>

text \<open>\<open>Path::as_os_str().as_bytes()\<close> of a path given by its components.\<close>

fun component_bytes :: "component \<Rightarrow> bytes" where
  "component_bytes RootDir = []"
| "component_bytes CurDir = ''.''"
| "component_bytes ParentDir = ''..''"
| "component_bytes (Normal s) = s"

definition path_bytes :: "path \<Rightarrow> bytes" where
  "path_bytes p = (if p = [RootDir] then ''/'' else join_with ''/'' (map component_bytes p))"

definition from_path :: "path \<Rightarrow> encoded_workspace_path" where
  "from_path p = (let b = path_bytes p in if utf8_error 0 b = None then Utf8 b else UnixBytesHex (hex_encode b))"

text \<open>\<open>u8::from_str_radix\<close> of two characters; it accepts a sign.\<close>

definition radix_pair :: "char \<Rightarrow> char \<Rightarrow> char option" where
  "radix_pair a b =
    (case (if a = CHR ''+'' then Inr 0 else hex_nibble a, hex_nibble b) of
       (Inr high, Inr low) \<Rightarrow> Some (char_of (16 * high + low))
     | _ \<Rightarrow> None)"

fun radix_pairs :: "string \<Rightarrow> bytes option" where
  "radix_pairs (a # b # rest) =
    Option.bind (radix_pair a b) (\<lambda>c. Option.bind (radix_pairs rest) (\<lambda>cs. Some (c # cs)))"
| "radix_pairs _ = Some []"

definition path_hex_decode :: "string \<Rightarrow> bytes res" where
  "path_hex_decode v =
    (if odd (length v) then Inl (capture_error EncodedPathOdd)
     else ok_or (radix_pairs v) (capture_error EncodedPathInvalid))"

fun to_path_buf :: "encoded_workspace_path \<Rightarrow> path res" where
  "to_path_buf (Utf8 v) = Inr (components v)"
| "to_path_buf (UnixBytesHex v) = res_bind (path_hex_decode v) (\<lambda>b. Inr (components b))"

definition path_depth :: "path \<Rightarrow> nat" where
  "path_depth p = length (filter is_normal p)"

definition path_depth_encoded :: "encoded_workspace_path \<Rightarrow> nat" where
  "path_depth_encoded e = (case to_path_buf e of Inl _ \<Rightarrow> 0 | Inr p \<Rightarrow> path_depth p)"

definition is_git_control_path :: "path \<Rightarrow> bool" where
  "is_git_control_path p \<longleftrightarrow> p \<noteq> [] \<and> hd p = Normal ''.git''"

section \<open>The frozen Git observation\<close>

definition is_hex_digest :: "string \<Rightarrow> nat \<Rightarrow> bool" where
  "is_hex_digest v n \<longleftrightarrow> length v = n \<and> list_all is_ascii_hexdigit v"

definition is_prefixed_sha256 :: "string \<Rightarrow> bool" where
  "is_prefixed_sha256 v = (case strip_prefix v ''sha256:'' of None \<Rightarrow> False | Some digest \<Rightarrow> is_hex_digest digest 64)"

definition unsafe_tracked_path :: "path \<Rightarrow> bool" where
  "unsafe_tracked_path p \<longleftrightarrow> p = [] \<or> list_ex (\<lambda>c. \<not> is_normal c) p \<or> is_git_control_path p"

definition tracked_step :: "path list \<Rightarrow> encoded_workspace_path \<Rightarrow> path list res" where
  "tracked_step seen e =
    res_bind (to_path_buf e) (\<lambda>p.
    if unsafe_tracked_path p then Inl (capture_error (HydrationUnsafePath p))
    else if p \<in> set seen then Inl (capture_error (HydrationDuplicatePath p))
    else Inr (p # seen))"

definition validate_frozen_git_hydration :: "frozen_git_hydration \<Rightarrow> unit res" where
  "validate_frozen_git_hydration h =
    (if fh_schema_version h \<noteq> FROZEN_GIT_HYDRATION_VERSION then
       Inl (capture_error (HydrationVersion (fh_schema_version h)))
     else if \<not> fh_repository h then
       ensure (fh_tracked_paths h = [] \<and> fh_head h = None \<and> fh_index_sha256 h = None)
         (capture_error HydrationNotRepository)
     else
       res_bind (ok_or (fh_index_sha256 h) (capture_error HydrationNoIndex)) (\<lambda>index.
       res_bind (ensure (is_prefixed_sha256 index) (capture_error HydrationIndexForm)) (\<lambda>_.
       res_bind (ensure (case fh_head h of None \<Rightarrow> True | Some head \<Rightarrow> is_hex_digest head 40 \<or> is_hex_digest head 64)
         (capture_error HydrationHeadForm)) (\<lambda>_.
       res_bind (fold_res tracked_step [] (fh_tracked_paths h)) (\<lambda>_. Inr ())))))"

definition require_frozen_git_hydration :: "workspace_capture_policy \<Rightarrow> frozen_git_hydration res" where
  "require_frozen_git_hydration policy =
    res_bind (ok_or (wp_frozen_git_hydration policy) (capture_error HydrationMissing)) (\<lambda>h.
    res_bind (validate_frozen_git_hydration h) (\<lambda>_.
    if wp_frozen_tracked_paths policy \<noteq> fh_tracked_paths h \<or> wp_frozen_git_head policy \<noteq> fh_head h
      \<or> wp_frozen_git_index_sha256 policy \<noteq> fh_index_sha256 h
    then Inl (capture_error HydrationDisagrees) else Inr h))"

text \<open>\<open>BTreeSet<PathBuf>\<close> as a sorted list without repetitions.\<close>

definition decode_paths :: "encoded_workspace_path list \<Rightarrow> path list res" where
  "decode_paths es = res_bind (map_res to_path_buf es) (\<lambda>ps. Inr (btree_set ps))"

definition decode_output_roots :: "generated_output_root list \<Rightarrow> path list res" where
  "decode_output_roots outputs = decode_paths (map go_path outputs)"

text \<open>The proper, non-empty prefixes of a path: its parent and so on, up to the root.\<close>

definition parent_directories :: "path \<Rightarrow> path list" where
  "parent_directories p = filter (\<lambda>q. q \<noteq> [] \<and> q \<noteq> p) (prefixes p)"

definition tracked_parent_directories :: "path list \<Rightarrow> path list" where
  "tracked_parent_directories tracked = btree_set (concat (map parent_directories tracked))"

section \<open>The file of a run\<close>

definition workspace_capture_policy_path :: "path \<Rightarrow> path" where
  "workspace_capture_policy_path run_dir = join run_dir ''workspace-capture-policy.json''"

definition write_workspace_capture_policy ::
    "workspace_capture_policy codec \<Rightarrow> path \<Rightarrow> workspace_capture_policy \<Rightarrow> unit io" where
  "write_workspace_capture_policy codec run_dir policy =
    atomic_write_json codec (workspace_capture_policy_path run_dir) policy"

text \<open>A policy of before the explicit record gets the record its legacy fields describe.\<close>

definition legacy_hydration :: "workspace_capture_policy \<Rightarrow> frozen_git_hydration" where
  "legacy_hydration policy =
    \<lparr>fh_schema_version = FROZEN_GIT_HYDRATION_VERSION, fh_frozen_at = wp_frozen_at policy,
     fh_repository = (wp_frozen_git_index_sha256 policy \<noteq> None \<or> wp_frozen_git_head policy \<noteq> None
       \<or> wp_frozen_tracked_paths policy \<noteq> []),
     fh_tracked_paths = wp_frozen_tracked_paths policy, fh_head = wp_frozen_git_head policy,
     fh_index_sha256 = wp_frozen_git_index_sha256 policy\<rparr>"

definition with_hydration :: "workspace_capture_policy \<Rightarrow> workspace_capture_policy" where
  "with_hydration policy =
    (case wp_frozen_git_hydration policy of
       Some _ \<Rightarrow> policy
     | None \<Rightarrow> policy\<lparr>wp_frozen_git_hydration := Some (legacy_hydration policy)\<rparr>)"

definition read_workspace_capture_policy ::
    "workspace_capture_policy codec \<Rightarrow> path \<Rightarrow> workspace_capture_policy io" where
  "read_workspace_capture_policy codec run_dir =
    (let p = workspace_capture_policy_path run_dir in
     io_bind (fs_read p) (\<lambda>raw.
     io_bind (io_lift (parse_json codec p raw)) (\<lambda>policy.
     io_bind (io_when (wp_schema_version policy \<noteq> WORKSPACE_CAPTURE_POLICY_VERSION)
       (capture_error (CapturePolicyVersion (wp_schema_version policy) p))) (\<lambda>_.
     io_bind (io_lift (require_frozen_git_hydration (with_hydration policy))) (\<lambda>_.
     io_return (with_hydration policy))))))"

text \<open>Unlike reading where a policy may be made, this never makes one from a workspace an agent has touched.\<close>

definition require_workspace_capture_policy ::
    "workspace_capture_policy codec \<Rightarrow> pipeline_state \<Rightarrow> workspace_capture_policy io" where
  "require_workspace_capture_policy codec st =
    (let p = workspace_capture_policy_path (rs_run_root st) in
     io_bind (fs_exists p) (\<lambda>found.
     io_bind (io_when (\<not> found) (capture_error (CapturePolicyMissing p))) (\<lambda>_.
     io_bind (read_workspace_capture_policy codec (rs_run_root st)) (\<lambda>policy.
     io_bind (io_lift (require_frozen_git_hydration policy)) (\<lambda>_.
     io_return policy)))))"

section \<open>Encoded paths read back\<close>

text \<open>A path of names as Git and a directory walk report it below a root.\<close>

definition plain_path :: "path \<Rightarrow> bool" where
  "plain_path p \<longleftrightarrow> list_all (\<lambda>c. case c of Normal s \<Rightarrow> plain s | _ \<Rightarrow> False) p"

lemma plain_path_simps [simp]:
  "plain_path []" "plain_path (c # p) \<longleftrightarrow> (case c of Normal s \<Rightarrow> plain s | _ \<Rightarrow> False) \<and> plain_path p"
  by (simp_all add: plain_path_def)

lemma plain_path_append [simp]: "plain_path (p @ q) \<longleftrightarrow> plain_path p \<and> plain_path q"
  by (simp add: plain_path_def)

lemma plain_path_names: "plain_path p \<Longrightarrow> p = map Normal (map component_bytes p)"
  by (induction p) (auto split: component.splits)

lemma plain_path_plain: "plain_path p \<Longrightarrow> \<forall>w \<in> set (map component_bytes p). plain w"
  by (induction p) (auto split: component.splits)

lemma plain_start: "plain w \<Longrightarrow> w \<noteq> [] \<and> hd w \<noteq> CHR ''/'' \<and> w \<noteq> ''.''"
  unfolding plain_def by (metis hd_in_set)

lemma components_join_names:
  assumes "\<forall>w \<in> set ws. plain w"
  shows "components (join_with ''/'' ws) = map Normal ws"
proof (cases ws)
  case Nil
  then show ?thesis by (simp add: components_def)
next
  case (Cons w vs)
  have w: "w \<noteq> []" "hd w \<noteq> CHR ''/''" "w \<noteq> ''.''"
    using assms plain_start [of w] Cons by simp_all
  have "split_on (CHR ''/'') (join_with ''/'' ws) = ws"
  proof (rule split_on_join)
    show "ws \<noteq> []" using Cons by simp
    show "\<forall>w \<in> set ws. CHR ''/'' \<notin> set w" using assms unfolding plain_def by blast
  qed
  moreover have "join_with ''/'' ws \<noteq> []" "hd (join_with ''/'' ws) \<noteq> CHR ''/''"
    using w unfolding Cons by simp_all
  moreover have "filter (\<lambda>w. w \<noteq> []) ws = ws" "filter (\<lambda>w. w \<noteq> ''.'') ws = ws"
    using assms unfolding plain_def by (intro filter_True; blast)+
  moreover have "hd ws \<noteq> ''.''" using w Cons by simp
  moreover have "map component_of ws = map Normal ws"
    using assms unfolding plain_def by (intro map_cong refl) (simp add: component_of_def)
  ultimately show ?thesis by (simp add: components_def Let_def del: map_eq_conv)
qed

lemma components_path_bytes:
  assumes "plain_path p"
  shows "components (path_bytes p) = p"
proof -
  have "path_bytes p = join_with ''/'' (map component_bytes p)"
    using assms by (auto simp: path_bytes_def)
  then show ?thesis
    using components_join_names [OF plain_path_plain [OF assms]] plain_path_names [OF assms] by simp
qed

lemma path_bytes_inj: "plain_path p \<Longrightarrow> plain_path q \<Longrightarrow> path_bytes p = path_bytes q \<Longrightarrow> p = q"
  by (metis components_path_bytes)

lemma radix_pairs_encode: "radix_pairs (hex_encode bs) = Some bs"
proof (induction bs)
  case (Cons b bs)
  have digit: "hex_digit n \<noteq> CHR ''+''" for n
  proof -
    have "list_all (\<lambda>i. ''0123456789abcdef'' ! i \<noteq> CHR ''+'') [0..<16]" by code_simp
    then show ?thesis by (simp add: hex_digit_def list_all_iff)
  qed
  have "16 * ((of_char b :: nat) div 16 mod 16) + (of_char b :: nat) mod 16 = of_char b"
    using mult_div_mod_eq [of 16 "of_char b :: nat"] by (simp add: less_mult_imp_div_less)
  then have "radix_pair (hex_digit (of_char b div 16)) (hex_digit (of_char b)) = Some b"
    by (simp add: radix_pair_def digit hex_nibble_digit)
  then show ?case using Cons by (simp add: hex_encode_def hex2_def)
qed (simp add: hex_encode_def)

theorem encoded_path_reads_back:
  assumes "plain_path p"
  shows "to_path_buf (from_path p) = Inr p"
proof -
  have "even (length (hex_encode bs))" for bs by (induction bs) (simp_all add: hex_encode_def hex2_def)
  then show ?thesis
    by (simp add: from_path_def Let_def path_hex_decode_def radix_pairs_encode components_path_bytes assms)
qed

lemma encoded_paths_read_back:
  "list_all plain_path ps \<Longrightarrow> map_res to_path_buf (map from_path ps) = Inr ps"
  by (induction ps) (simp_all add: encoded_path_reads_back)

section \<open>What a trusted policy guarantees\<close>

lemma btree_set_members [simp]: "set (btree_set xs) = set xs"
  by (simp add: btree_set_def)

lemma btree_set_id: "sorted xs \<Longrightarrow> distinct xs \<Longrightarrow> btree_set xs = xs"
  by (simp add: btree_set_def distinct_remdups_id sorted_sort_id)

lemma tracked_step_iff:
  "tracked_step seen e = Inr seen' \<longleftrightarrow>
    (\<exists>p. to_path_buf e = Inr p \<and> \<not> unsafe_tracked_path p \<and> p \<notin> set seen \<and> seen' = p # seen)"
  by (auto simp: tracked_step_def result_simps)

lemma tracked_fold:
  "fold_res tracked_step seen es = Inr seen' \<Longrightarrow>
    \<exists>ps. map_res to_path_buf es = Inr ps \<and> seen' = rev ps @ seen \<and> distinct ps \<and> set ps \<inter> set seen = {}
      \<and> (\<forall>p \<in> set ps. \<not> unsafe_tracked_path p)"
proof (induction es arbitrary: seen)
  case (Cons e es)
  then obtain p where p: "to_path_buf e = Inr p" "\<not> unsafe_tracked_path p" "p \<notin> set seen"
      "fold_res tracked_step (p # seen) es = Inr seen'"
    using tracked_step_iff by (auto simp: res_bind_Inr_iff)
  from Cons.IH [OF p(4)] obtain ps where "map_res to_path_buf es = Inr ps" "seen' = rev ps @ p # seen" "distinct ps"
      "set ps \<inter> set (p # seen) = {}" "\<forall>p \<in> set ps. \<not> unsafe_tracked_path p"
    by blast
  with p show ?case by auto
qed simp

lemma required_hydration:
  assumes "require_frozen_git_hydration policy = Inr h"
  shows "wp_frozen_git_hydration policy = Some h" "validate_frozen_git_hydration h = Inr ()"
    "wp_frozen_tracked_paths policy = fh_tracked_paths h" "wp_frozen_git_head policy = fh_head h"
    "wp_frozen_git_index_sha256 policy = fh_index_sha256 h"
  using assms by (auto simp: require_frozen_git_hydration_def result_simps split: if_splits)

text \<open>The tracked paths of a trusted record are relative names outside Git's own files, each once; a plain
  directory has none.\<close>

lemma trusted_tracked_paths:
  assumes "require_frozen_git_hydration policy = Inr h"
  shows "\<exists>ps. decode_paths (fh_tracked_paths h) = Inr (btree_set ps) \<and> distinct ps
    \<and> (\<forall>p \<in> set ps. \<not> unsafe_tracked_path p) \<and> (\<not> fh_repository h \<longrightarrow> ps = [])"
proof -
  have v: "validate_frozen_git_hydration h = Inr ()" using required_hydration [OF assms] by simp
  show ?thesis
  proof (cases "fh_repository h")
    case False
    then show ?thesis using v
      by (auto simp: validate_frozen_git_hydration_def decode_paths_def result_simps split: if_splits intro: exI [of _ "[]"])
  next
    case True
    then obtain seen where "fold_res tracked_step [] (fh_tracked_paths h) = Inr seen"
      using v by (auto simp: validate_frozen_git_hydration_def result_simps split: if_splits)
    from tracked_fold [OF this] show ?thesis using True by (auto simp: decode_paths_def)
  qed
qed

lemma readonly_policy_reads [intro!]:
  "readonly (read_workspace_capture_policy codec run_dir)" "readonly (require_workspace_capture_policy codec st)"
proof -
  show r: "readonly (read_workspace_capture_policy codec run_dir)" for run_dir
    unfolding read_workspace_capture_policy_def Let_def
    by (intro readonly_bind) ((rule readonly_intros readonly_reads)+)?
  show "readonly (require_workspace_capture_policy codec st)"
    unfolding require_workspace_capture_policy_def Let_def
    by (intro readonly_bind) ((rule readonly_intros readonly_reads r)+)?
qed

lemma required_policy:
  assumes "require_workspace_capture_policy codec st s = (Inr policy, s')"
  shows "s' = s" "\<exists>h. require_frozen_git_hydration policy = Inr h"
    "wp_schema_version policy = WORKSPACE_CAPTURE_POLICY_VERSION"
  using assms readonlyD [OF readonly_policy_reads(2) assms]
  by (auto simp: require_workspace_capture_policy_def read_workspace_capture_policy_def result_simps Let_def
      with_hydration_def fs_exists_def split: if_splits option.splits)

end
