(* ===== verification/Disk.thy ===== *)
theory Disk
  imports Capture_Policy
begin

text \<open>
  The world a workspace capture works in: the tree of files, links and directories beside the control
  files, the clock and the cancellation flag, and the work boundary of \<open>crates/deadreckon-core/src/git.rs\<close>
  that interrupts local work. A node is what \<open>lstat\<close> reports at a path; paths through a linked directory
  are not aliased. Every look at the clock is a step of it.
\<close>

section \<open>Nodes\<close>

datatype disk_node = FileNode bytes nat | LinkNode bytes | DirNode | OtherNode u64

text \<open>
  The tree is a list, in the order a directory stream reports it; \<open>space\<close> is how long a file may get before
  the device is full.
\<close>

record disk =
  tree :: "(path \<times> disk_node) list"
  lstat_fault :: "path \<Rightarrow> io_error_kind option"
  open_fault :: "path \<Rightarrow> io_error_kind option"
  change_fault :: "path \<Rightarrow> io_error_kind option"
  space :: "path \<Rightarrow> nat option"
  dir_len :: "path \<Rightarrow> u64"

definition nodes :: "disk \<Rightarrow> path \<Rightarrow> disk_node option" where
  "nodes d = map_of (tree d)"

record work_boundary =
  wb_work_expires_at :: nat
  wb_operation :: string

record capture_world =
  cw_fs :: fs
  cw_disk :: disk
  cw_clock :: nat
  cw_scopes :: "work_boundary list"

type_synonym 'a cap = "(capture_world, 'a) act"

definition cap_io :: "'a io \<Rightarrow> 'a cap" where
  "cap_io m = (\<lambda>w. case m (cw_fs w) of (r, s) \<Rightarrow> (r, w\<lparr>cw_fs := s\<rparr>))"

definition on_disk :: "(disk \<Rightarrow> 'a res) \<Rightarrow> 'a cap" where
  "on_disk f = (\<lambda>w. (f (cw_disk w), w))"

definition change_disk :: "(disk \<Rightarrow> dr_error + disk) \<Rightarrow> unit cap" where
  "change_disk f = (\<lambda>w. case f (cw_disk w) of Inl e \<Rightarrow> (Inl e, w) | Inr d \<Rightarrow> (Inr (), w\<lparr>cw_disk := d\<rparr>))"

text \<open>A failure whose path is not attached, for the arms that look at its kind.\<close>

definition lstat_kind :: "disk \<Rightarrow> path \<Rightarrow> io_error_kind + disk_node" where
  "lstat_kind d p =
    (case lstat_fault d p of
       Some k \<Rightarrow> Inl k
     | None \<Rightarrow> (case nodes d p of None \<Rightarrow> Inl IoNotFound | Some n \<Rightarrow> Inr n))"

definition lstat :: "path \<Rightarrow> disk \<Rightarrow> disk_node res" where
  "lstat p d = (case lstat_kind d p of Inl k \<Rightarrow> Inl (Io p k) | Inr n \<Rightarrow> Inr n)"

text \<open>\<open>stat\<close>: links of the last component are followed, at most forty of them.\<close>

fun follow_links :: "nat \<Rightarrow> disk \<Rightarrow> path \<Rightarrow> disk_node option" where
  "follow_links 0 d p = None"
| "follow_links (Suc n) d p =
    (case lstat_kind d p of
       Inl _ \<Rightarrow> None
     | Inr (LinkNode target) \<Rightarrow>
        follow_links n d (lexical_normalize (join_path (path_pop p) (components target)))
     | Inr node \<Rightarrow> Some node)"

definition stat_node :: "disk \<Rightarrow> path \<Rightarrow> disk_node option" where
  "stat_node d p = follow_links 41 d p"

definition is_file :: "disk \<Rightarrow> path \<Rightarrow> bool" where
  "is_file d p = (case stat_node d p of Some (FileNode _ _) \<Rightarrow> True | _ \<Rightarrow> False)"

definition is_dir :: "disk \<Rightarrow> path \<Rightarrow> bool" where
  "is_dir d p \<longleftrightarrow> stat_node d p = Some DirNode"

definition node_exists :: "disk \<Rightarrow> path \<Rightarrow> bool" where
  "node_exists d p \<longleftrightarrow> stat_node d p \<noteq> None"

definition read_kind :: "disk \<Rightarrow> path \<Rightarrow> io_error_kind + bytes" where
  "read_kind d p =
    (case open_fault d p of
       Some k \<Rightarrow> Inl k
     | None \<Rightarrow> (case stat_node d p of
         Some (FileNode b _) \<Rightarrow> Inr b
       | None \<Rightarrow> Inl IoNotFound
       | _ \<Rightarrow> Inl IoOther))"

definition read_node :: "path \<Rightarrow> disk \<Rightarrow> bytes res" where
  "read_node p d = (case read_kind d p of Inl k \<Rightarrow> Inl (Io p k) | Inr b \<Rightarrow> Inr b)"

definition read_to_string_kind :: "disk \<Rightarrow> path \<Rightarrow> io_error_kind + string" where
  "read_to_string_kind d p =
    res_bind (read_kind d p) (\<lambda>b. if utf8_error 0 b = None then Inr b else Inl IoOther)"

definition read_link :: "path \<Rightarrow> disk \<Rightarrow> bytes res" where
  "read_link p d =
    (case open_fault d p of
       Some k \<Rightarrow> Inl (Io p k)
     | None \<Rightarrow> (case nodes d p of
         Some (LinkNode target) \<Rightarrow> Inr target
       | None \<Rightarrow> Inl (Io p IoNotFound)
       | _ \<Rightarrow> Inl (Io p IoOther)))"

definition node_len :: "disk \<Rightarrow> path \<Rightarrow> disk_node \<Rightarrow> u64" where
  "node_len d p n =
    (case n of FileNode b _ \<Rightarrow> of_nat (length b) | LinkNode t \<Rightarrow> of_nat (length t)
     | DirNode \<Rightarrow> dir_len d p | OtherNode l \<Rightarrow> l)"

text \<open>Permission bits; Linux gives every link all of them.\<close>

definition node_mode :: "disk_node \<Rightarrow> nat" where
  "node_mode n = (case n of FileNode _ m \<Rightarrow> m | _ \<Rightarrow> 511)"

definition executable_mode :: "nat \<Rightarrow> bool" where
  "executable_mode m \<longleftrightarrow> semiring_bit_operations_class.and m 73 \<noteq> (0 :: nat)"

section \<open>Parameters\<close>

datatype entry_type = TDir | TFile | TSymlink | TOther

record walk_entry =
  we_path :: path
  we_type :: "entry_type option"

text \<open>
  What a directory walk of the \<open>ignore\<close> crate does, in order: it hands out an entry, refuses one with
  everything below it because the filter said so, or reports a failure.
\<close>

datatype walk_event = Yielded walk_entry | Rejected walk_entry | WalkFailed

text \<open>What became of a program that was started, waited for and killed when it took too long.\<close>

datatype child_outcome = NotStarted io_error_kind | TimedOut | Exited bool bytes

datatype ignore_match = MatchNone | MatchIgnore | MatchWhitelist

record git_output =
  gt_success :: bool
  gt_stdout :: bytes
  gt_stderr :: bytes

text \<open>
  The parameters: whether cancellation is requested and the time (nanoseconds) at each look, the walk, the
  matcher of the ignore rules of one file and whether it takes a line, Git and the ecosystem queries, which
  only read, the JSON parser, canonical paths, the environment, renderings, and the format of the policy.
\<close>

record capture_env = gate_env +
  cv_cancelled :: "nat \<Rightarrow> bool"
  cv_now :: "nat \<Rightarrow> nat"
  cv_wall :: "nat \<Rightarrow> timestamp"
  cv_walk :: "disk \<Rightarrow> path \<Rightarrow> (walk_entry \<Rightarrow> bool) \<Rightarrow> walk_event list"
  cv_line_ok :: "path \<Rightarrow> string \<Rightarrow> bool"
  cv_matcher :: "path \<Rightarrow> string list \<Rightarrow> (path \<Rightarrow> bool \<Rightarrow> ignore_match) option"
  cv_git :: "capture_world \<Rightarrow> path \<Rightarrow> string list \<Rightarrow> git_output res"
  cv_query :: "disk \<Rightarrow> path \<Rightarrow> string \<Rightarrow> string list \<Rightarrow> child_outcome"
  cv_json :: "bytes \<Rightarrow> json option"
  cv_canonicalize :: "path \<Rightarrow> path option"
  cv_xdg_config_home :: "string option"
  cv_home_var :: "string option"
  cv_show :: "path \<Rightarrow> string"
  cv_io_text :: "io_error_kind \<Rightarrow> string"
  cv_error_text :: "dr_error \<Rightarrow> string"
  cv_policy :: "workspace_capture_policy codec"
  cv_policy_compact :: "workspace_capture_policy \<Rightarrow> bytes option"

definition capture_sha256 :: "'z gate_env_scheme \<Rightarrow> bytes \<Rightarrow> string" where
  "capture_sha256 gv bs = ''sha256:'' @ hex_encode (gv_digest gv bs)"

section \<open>Time and the work boundary\<close>

definition read_clock :: "'z capture_env_scheme \<Rightarrow> nat cap" where
  "read_clock cv = (\<lambda>w. (Inr (cv_now cv (cw_clock w)), w\<lparr>cw_clock := Suc (cw_clock w)\<rparr>))"

definition utc_now :: "'z capture_env_scheme \<Rightarrow> timestamp cap" where
  "utc_now cv = (\<lambda>w. (Inr (cv_wall cv (cw_clock w)), w\<lparr>cw_clock := Suc (cw_clock w)\<rparr>))"

definition cancellation_requested :: "'z capture_env_scheme \<Rightarrow> bool cap" where
  "cancellation_requested cv = (\<lambda>w. (Inr (cv_cancelled cv (cw_clock w)), w\<lparr>cw_clock := Suc (cw_clock w)\<rparr>))"

definition millis :: "u64 \<Rightarrow> nat" where
  "millis n = unat n * 1000000"

definition boundary_error :: "work_boundary \<Rightarrow> process_boundary_kind \<Rightarrow> string \<Rightarrow> dr_error" where
  "boundary_error b kind detail = ProcessBoundary kind (wb_operation b) None detail"

definition check_boundary :: "'z capture_env_scheme \<Rightarrow> work_boundary \<Rightarrow> unit cap" where
  "check_boundary cv b =
    act_bind (cancellation_requested cv) (\<lambda>cancelled.
    if cancelled then act_lift (Inl (boundary_error b process_boundary_kind.Cancelled ''cancellation was requested''))
    else act_bind (read_clock cv) (\<lambda>now.
      if wb_work_expires_at b \<le> now
      then act_lift (Inl (boundary_error b WorkExpired ''the approved work cutoff was reached''))
      else act_return ()))"

definition check_optional :: "'z capture_env_scheme \<Rightarrow> work_boundary option \<Rightarrow> unit cap" where
  "check_optional cv boundary = (case boundary of None \<Rightarrow> act_return () | Some b \<Rightarrow> check_boundary cv b)"

definition inherited_work_boundary :: "capture_world \<Rightarrow> work_boundary option" where
  "inherited_work_boundary w = (case cw_scopes w of [] \<Rightarrow> None | b # _ \<Rightarrow> Some b)"

text \<open>The scope is pushed for the work alone; after work that succeeded the boundary is checked again.\<close>

definition in_scope :: "work_boundary \<Rightarrow> 'a cap \<Rightarrow> 'a cap" where
  "in_scope scope work = (\<lambda>w. case work (w\<lparr>cw_scopes := scope # cw_scopes w\<rparr>) of
     (r, w') \<Rightarrow> (r, w'\<lparr>cw_scopes := tl (cw_scopes w')\<rparr>))"

definition with_git_command_scope :: "'z capture_env_scheme \<Rightarrow> work_boundary \<Rightarrow> 'a cap \<Rightarrow> 'a cap" where
  "with_git_command_scope cv scope work =
    act_bind (check_boundary cv scope) (\<lambda>_.
    act_bind (in_scope scope work) (\<lambda>a.
    act_bind (check_boundary cv scope) (\<lambda>_.
    act_return a)))"

section \<open>Computations that change nothing but the clock\<close>

definition looks :: "'a cap \<Rightarrow> bool" where
  "looks m \<longleftrightarrow> (\<forall>w. cw_fs (snd (m w)) = cw_fs w \<and> cw_disk (snd (m w)) = cw_disk w
    \<and> cw_scopes (snd (m w)) = cw_scopes w)"

lemma looksD:
  assumes "looks m" "m w = (r, w')"
  shows "cw_fs w' = cw_fs w" "cw_disk w' = cw_disk w" "cw_scopes w' = cw_scopes w"
  using assms unfolding looks_def by (metis snd_conv)+

lemma looks_intros [intro!]:
  "looks (act_return a)" "looks (act_lift r)" "looks (on_disk f)" "looks (read_clock cv)" "looks (utc_now cv)"
  "looks (cancellation_requested cv)"
  by (simp_all add: looks_def on_disk_def read_clock_def utc_now_def cancellation_requested_def)

lemma looks_pair [intro!]: "looks (Pair r)"
  by (simp add: looks_def)

lemma looks_bind [intro]:
  assumes "looks m" "\<And>a. looks (f a)"
  shows "looks (act_bind m f)"
  unfolding looks_def
proof
  fix w
  obtain r w' where m: "m w = (r, w')" by (cases "m w")
  show "cw_fs (snd (act_bind m f w)) = cw_fs w \<and> cw_disk (snd (act_bind m f w)) = cw_disk w
    \<and> cw_scopes (snd (act_bind m f w)) = cw_scopes w"
    using looksD [OF assms(1) m] assms(2) by (cases r) (auto simp: act_bind_def m looks_def)
qed

lemma looks_cap_io: "readonly m \<Longrightarrow> looks (cap_io m)"
  by (auto simp: looks_def cap_io_def readonly_def split: prod.splits) (metis snd_conv)

lemma looks_check_optional [intro!]: "looks (check_optional cv b)"
proof -
  have "looks (check_boundary cv b)" for b
    unfolding check_boundary_def by (auto intro!: looks_bind)
  then show ?thesis by (auto simp: check_optional_def split: option.splits)
qed

lemma on_disk_Inr_iff [result_simps]: "on_disk f w = (Inr a, w') \<longleftrightarrow> f (cw_disk w) = Inr a \<and> w' = w"
  by (auto simp: on_disk_def)

lemma change_disk_Inr_iff [result_simps]:
  "change_disk f w = (Inr u, w') \<longleftrightarrow> (\<exists>d. f (cw_disk w) = Inr d \<and> w' = w\<lparr>cw_disk := d\<rparr>)"
  by (auto simp: change_disk_def split: sum.splits)

lemma cap_io_Inr_iff [result_simps]:
  "cap_io m w = (Inr a, w') \<longleftrightarrow> (\<exists>s. m (cw_fs w) = (Inr a, s) \<and> w' = w\<lparr>cw_fs := s\<rparr>)"
  by (auto simp: cap_io_def split: prod.splits)

text \<open>Work inside a scope never outlives it: a result means the boundary was open before and after.\<close>

lemma scoped_work_is_bounded:
  assumes "with_git_command_scope cv scope work w = (Inr a, w')"
  shows "\<exists>w1 w2. check_boundary cv scope w = (Inr (), w1)
    \<and> work (w1\<lparr>cw_scopes := scope # cw_scopes w1\<rparr>) = (Inr a, w2)
    \<and> check_boundary cv scope (w2\<lparr>cw_scopes := tl (cw_scopes w2)\<rparr>) = (Inr (), w')"
proof -
  obtain w1 w3 where "check_boundary cv scope w = (Inr (), w1)" "in_scope scope work w1 = (Inr a, w3)"
      "check_boundary cv scope w3 = (Inr (), w')"
    using assms by (auto simp: with_git_command_scope_def act_bind_Inr_iff)
  then show ?thesis by (auto simp: in_scope_def split: prod.splits)
qed

lemma check_boundary_open:
  "check_boundary cv b w = (Inr (), w') \<longleftrightarrow>
    \<not> cv_cancelled cv (cw_clock w) \<and> cv_now cv (Suc (cw_clock w)) < wb_work_expires_at b
    \<and> w' = w\<lparr>cw_clock := cw_clock w + 2\<rparr>"
  by (auto simp: check_boundary_def act_bind_def cancellation_requested_def read_clock_def)

end
