(* ===== verification/Workspace_Capture.thy ===== *)
theory Workspace_Capture
  imports Disk
begin

text \<open>
  The bounded traversal of a workspace (\<open>crates/deadreckon-core/src/workspace_capture.rs\<close>): which entries
  a projection admits, what is left out and why, the budgets of a capture, the removal of subtrees that
  look generated, and the manifest that says whether the capture is complete.
\<close>

section \<open>Data\<close>

datatype capture_projection =
  SourceView | RecoverableView | CheckpointView | DeliverableView | PromotableView | ResultCandidate | WorkspaceGuard

datatype capture_purpose =
    ForSourceHydration
  | ForTurnSnapshot
  | ForFlightCheckpoint
  | ForWorkingInventory
  | ForDeliverableIndex
  | ForPromotionCandidate
  | ForResultCandidate
  | ForWorkspaceGuard

datatype capture_entry_kind = CapturedFile | CapturedLink

record capture_entry =
  ce_relative :: path
  ce_source :: path
  ce_kind :: capture_entry_kind
  ce_size :: u64
  ce_tracked :: bool

datatype capture_omission_reason =
    FrozenIgnore
  | GeneratedOutput
  | SuspiciousGeneratedSubtree
  | OversizeFile
  | FileBudget
  | ByteBudget
  | TraversalDeadline
  | UnsupportedEntry
  | IoFailure

fun reason_label :: "capture_omission_reason \<Rightarrow> string" where
  "reason_label FrozenIgnore = ''frozen ignore''"
| "reason_label GeneratedOutput = ''generated output''"
| "reason_label SuspiciousGeneratedSubtree = ''suspicious generated subtree''"
| "reason_label OversizeFile = ''oversize file''"
| "reason_label FileBudget = ''file budget''"
| "reason_label ByteBudget = ''byte budget''"
| "reason_label TraversalDeadline = ''traversal deadline''"
| "reason_label UnsupportedEntry = ''unsupported entry''"
| "reason_label IoFailure = ''I/O error''"

fun makes_partial :: "capture_omission_reason \<Rightarrow> bool" where
  "makes_partial FrozenIgnore = False"
| "makes_partial GeneratedOutput = False"
| "makes_partial _ = True"

record capture_omission =
  om_path :: path
  om_reason :: capture_omission_reason
  om_file_count :: u64
  om_total_bytes :: u64
  om_metadata_sha256 :: "string option"
  om_summary_partial :: bool

record git_hydration_state =
  gh_head :: "string option"
  gh_index_sha256 :: "string option"
  gh_tracked_files :: u64

record capture_materialization =
  mt_regular_files :: u64
  mt_symbolic_links :: u64
  mt_materialized_bytes :: u64
  mt_new_blobs :: u64
  mt_reused_blobs :: u64
  mt_hardlinks :: u64
  mt_copy_fallbacks :: u64

record workspace_capture_manifest =
  wm_schema_version :: u32
  wm_policy_sha256 :: string
  wm_purpose :: capture_purpose
  wm_started_at :: timestamp
  wm_completed_at :: timestamp
  wm_partial :: bool
  wm_included_files :: u64
  wm_included_bytes :: u64
  wm_tracked_files :: u64
  wm_omissions :: "capture_omission list"
  wm_omissions_truncated :: u64
  wm_git :: "git_hydration_state option"
  wm_materialization :: "capture_materialization option"

record workspace_capture_plan =
  pl_entries :: "capture_entry list"
  pl_manifest :: workspace_capture_manifest

definition MAX_RECORDED_OMISSIONS :: nat where "MAX_RECORDED_OMISSIONS = 256"

definition more_label :: "nat \<Rightarrow> string" where
  "more_label n = show_nat n @ '' more''"

definition omission_summary :: "'z capture_env_scheme \<Rightarrow> workspace_capture_manifest \<Rightarrow> string" where
  "omission_summary cv m =
    (let shown = map (\<lambda>x. cv_show cv (om_path x) @ '' ('' @ reason_label (om_reason x) @ '')'') (take 3 (wm_omissions m));
         labels = (if length (wm_omissions m) > 3 \<or> wm_omissions_truncated m > 0
           then shown @ [more_label (length (wm_omissions m) - 3 + unat (wm_omissions_truncated m))] else shown)
     in if labels = [] then ''capture policy reported an unspecified omission'' else join_with '', '' labels)"

definition require_complete :: "'z capture_env_scheme \<Rightarrow> workspace_capture_plan \<Rightarrow> string \<Rightarrow> unit res" where
  "require_complete cv plan operation =
    (if wm_partial (pl_manifest plan) then Inl (capture_error (CapturePartial operation (omission_summary cv (pl_manifest plan))))
     else Inr ())"

section \<open>Ignore rules\<close>

record compiled_ignore_source =
  ci_kind :: frozen_ignore_kind
  ci_depth :: nat
  ci_scope_root :: path
  ci_matcher :: "path \<Rightarrow> bool \<Rightarrow> ignore_match"

fun ignore_precedence :: "frozen_ignore_kind \<Rightarrow> nat" where
  "ignore_precedence GlobalGit = 0"
| "ignore_precedence GitExclude = 1"
| "ignore_precedence Gitignore = 2"
| "ignore_precedence IgnoreFile = 3"

definition compile_source ::
    "'z capture_env_scheme \<Rightarrow> path \<Rightarrow> frozen_ignore_source \<Rightarrow> compiled_ignore_source res" where
  "compile_source cv root_dir source =
    res_bind (to_path_buf (ig_base source)) (\<lambda>base.
    let scope_root = join_path root_dir base in
    res_bind (case find (\<lambda>(i, line). \<not> cv_line_ok cv scope_root line) (enumerate 0 (ig_lines source)) of
        Some (i, _) \<Rightarrow> Inl (capture_error (IgnoreRuleInvalid (ig_origin source) (i + 1)))
      | None \<Rightarrow> Inr ()) (\<lambda>_.
    res_bind (ok_or (cv_matcher cv scope_root (ig_lines source)) (capture_error (IgnoreSourceInvalid (ig_origin source)))) (\<lambda>matcher.
    Inr \<lparr>ci_kind = ig_kind source, ci_depth = path_depth base, ci_scope_root = scope_root, ci_matcher = matcher\<rparr>)))"

definition compile_ignores ::
    "'z capture_env_scheme \<Rightarrow> path \<Rightarrow> frozen_ignore_source list \<Rightarrow> compiled_ignore_source list res" where
  "compile_ignores cv root_dir sources =
    res_bind (map_res (compile_source cv root_dir) sources) (\<lambda>compiled.
    Inr (sort_key (\<lambda>c. (ignore_precedence (ci_kind c), ci_depth c)) compiled))"

definition ignore_step :: "path \<Rightarrow> bool \<Rightarrow> bool \<Rightarrow> compiled_ignore_source \<Rightarrow> bool" where
  "ignore_step p dir ignored source =
    (if \<not> prefix (ci_scope_root source) p then ignored
     else case ci_matcher source p dir of MatchIgnore \<Rightarrow> True | MatchWhitelist \<Rightarrow> False | MatchNone \<Rightarrow> ignored)"

definition frozen_ignored :: "compiled_ignore_source list \<Rightarrow> path \<Rightarrow> bool \<Rightarrow> bool" where
  "frozen_ignored sources p dir = foldl (ignore_step p dir) False sources"

section \<open>The filter\<close>

record traversal_context =
  tc_root :: path
  tc_projection :: capture_projection
  tc_ignores :: "compiled_ignore_source list"
  tc_tracked :: "path list"
  tc_tracked_directories :: "path list"
  tc_output_roots :: "path list"

definition projection_boundary_allows :: "capture_projection \<Rightarrow> path \<Rightarrow> bool \<Rightarrow> bool" where
  "projection_boundary_allows projection relative tracked_or_parent =
    (let class = classify_workspace_path relative; below_output = runtime_output_root relative \<noteq> None in
     case projection of
       SourceView \<Rightarrow> if class = RuntimeOnly then tracked_or_parent \<and> below_output else True
     | RecoverableView \<Rightarrow> is_recoverable_workspace_path relative \<or> tracked_or_parent
     | CheckpointView \<Rightarrow> is_checkpointable_workspace_path relative
         \<or> tracked_or_parent \<and> class \<noteq> EvidenceOnly \<and> Normal ''.deadreckon'' \<notin> set relative
     | DeliverableView \<Rightarrow> is_deliverable_workspace_path relative
         \<or> tracked_or_parent \<and> class = RuntimeOnly \<and> below_output
     | PromotableView \<Rightarrow> is_promotable_workspace_path relative
         \<or> tracked_or_parent \<and> class = RuntimeOnly \<and> below_output
     | ResultCandidate \<Rightarrow> (case class of
           EvidenceOnly \<Rightarrow> False
         | LifecycleMetadata \<Rightarrow> tracked_or_parent
         | Deliverable \<Rightarrow> True
         | RuntimeOnly \<Rightarrow> True)
     | WorkspaceGuard \<Rightarrow> class \<noteq> RuntimeOnly \<or> tracked_or_parent \<and> below_output)"

definition ignore_protected_capture_path :: "capture_projection \<Rightarrow> path \<Rightarrow> bool" where
  "ignore_protected_capture_path projection relative =
    (case (projection, classify_workspace_path relative) of
       (RecoverableView, LifecycleMetadata) \<Rightarrow> True
     | (PromotableView, LifecycleMetadata) \<Rightarrow> True
     | (ResultCandidate, LifecycleMetadata) \<Rightarrow> True
     | (WorkspaceGuard, EvidenceOnly) \<Rightarrow> True
     | (WorkspaceGuard, LifecycleMetadata) \<Rightarrow> True
     | _ \<Rightarrow> False)"

definition is_result_candidate_tracked_path :: "path \<Rightarrow> bool" where
  "is_result_candidate_tracked_path p \<longleftrightarrow> classify_workspace_path p \<noteq> EvidenceOnly"

text \<open>What the filter says: take it, leave it out for a recorded reason, or leave it out silently.\<close>

datatype filter_verdict = Admit | Prune capture_omission_reason | Hide

definition entry_relative :: "path \<Rightarrow> walk_entry \<Rightarrow> path" where
  "entry_relative root_dir e =
    (case strip_path_prefix (we_path e) root_dir of Some r \<Rightarrow> r | None \<Rightarrow> we_path e)"

definition filter_capture_entry :: "traversal_context \<Rightarrow> walk_entry \<Rightarrow> filter_verdict" where
  "filter_capture_entry tc e =
    (let relative = entry_relative (tc_root tc) e in
     if relative = [] then Admit
     else
       let dir = (we_type e = Some TDir);
           tracked = relative \<in> set (tc_tracked tc);
           tracked_descendant = dir \<and> relative \<in> set (tc_tracked_directories tc)
       in
       if is_git_control_path relative then
         (if tc_projection tc = RecoverableView \<and> \<not> dir \<and> length relative = 1 then Admit else Hide)
       else if \<not> projection_boundary_allows (tc_projection tc) relative (tracked \<or> tracked_descendant) then
         Prune GeneratedOutput
       else if tracked \<or> tracked_descendant then Admit
       else if tc_projection tc \<noteq> ResultCandidate
         \<and> (list_ex (\<lambda>output. prefix output relative) (tc_output_roots tc) \<or> runtime_output_root relative \<noteq> None) then
         Prune GeneratedOutput
       else if tc_projection tc = ResultCandidate \<and> \<not> dir
         \<and> file_name relative \<in> {Some ''.gitignore'', Some ''.ignore''} then Admit
       else if frozen_ignored (tc_ignores tc) (we_path e) dir
         \<and> \<not> ignore_protected_capture_path (tc_projection tc) relative then Prune FrozenIgnore
       else Admit)"

definition admits :: "traversal_context \<Rightarrow> walk_entry \<Rightarrow> bool" where
  "admits tc e \<longleftrightarrow> filter_capture_entry tc e = Admit"

type_synonym prune_ledger = "(path \<times> capture_omission_reason) list"

definition record_pruned :: "path \<Rightarrow> capture_omission_reason \<Rightarrow> prune_ledger \<Rightarrow> prune_ledger" where
  "record_pruned relative reason pruned =
    (if list_ex (\<lambda>(p, _). prefix p relative) pruned then pruned else btree_map_insert relative reason pruned)"

definition note_rejected :: "traversal_context \<Rightarrow> walk_entry \<Rightarrow> prune_ledger \<Rightarrow> prune_ledger" where
  "note_rejected tc e pruned =
    (case filter_capture_entry tc e of
       Prune reason \<Rightarrow> record_pruned (entry_relative (tc_root tc) e) reason pruned
     | _ \<Rightarrow> pruned)"

section \<open>Subtrees that look generated\<close>

definition saturating_mul_u64 :: "u64 \<Rightarrow> u64 \<Rightarrow> u64" where
  "saturating_mul_u64 a b = (if unat a * unat b < 2 ^ 64 then a * b else - 1)"

definition le_bytes8 :: "u64 \<Rightarrow> bytes" where
  "le_bytes8 n = rev (be_bytes8 (unat n))"

definition metadata_digest_bytes :: "path \<Rightarrow> u64 \<Rightarrow> bytes" where
  "metadata_digest_bytes p len = path_bytes p @ [CHR 0x00] @ le_bytes8 len @ [CHR 0x00]"

definition generated_extensions :: "string list" where
  "generated_extensions =
    [''a'', ''app'', ''beam'', ''class'', ''d'', ''dll'', ''dylib'', ''exe'', ''jar'', ''o'', ''obj'', ''pdb'',
     ''pyc'', ''rlib'', ''rmeta'', ''so'', ''swiftdeps'', ''swiftmodule'', ''wasm'']"

definition looks_generated :: "path \<Rightarrow> disk_node \<Rightarrow> bool" where
  "looks_generated p node \<longleftrightarrow>
    (case path_extension p of
       None \<Rightarrow> False
     | Some extension \<Rightarrow> to_ascii_lowercase extension \<in> set generated_extensions)
    \<or> executable_mode (node_mode node)"

text \<open>What is counted of the files below a directory; the hash is taken of the collected bytes.\<close>

record subtree_accumulator =
  sa_file_count :: u64
  sa_total_bytes :: u64
  sa_generated_files :: u64
  sa_hashed :: bytes

record subtree_summary =
  su_file_count :: u64
  su_total_bytes :: u64
  su_metadata_sha256 :: string
  su_partial :: bool

definition empty_accumulator :: subtree_accumulator where
  "empty_accumulator = \<lparr>sa_file_count = 0, sa_total_bytes = 0, sa_generated_files = 0, sa_hashed = []\<rparr>"

type_synonym subtree_stats = "(path \<times> subtree_accumulator) list"

definition accumulate :: "path \<Rightarrow> u64 \<Rightarrow> disk_node \<Rightarrow> subtree_accumulator \<Rightarrow> subtree_accumulator" where
  "accumulate relative len node a =
    a\<lparr>sa_file_count := saturating_add_u64 (sa_file_count a) 1,
      sa_total_bytes := saturating_add_u64 (sa_total_bytes a) len,
      sa_generated_files := (if looks_generated relative node then saturating_add_u64 (sa_generated_files a) 1
        else sa_generated_files a),
      sa_hashed := sa_hashed a @ metadata_digest_bytes relative len\<rparr>"

text \<open>\<open>Path::ancestors\<close> of a relative parent: itself, its parent and so on; the nearest three that are not empty.\<close>

definition near_ancestors :: "path \<Rightarrow> path list" where
  "near_ancestors relative =
    (case path_parent relative of
       None \<Rightarrow> []
     | Some parent \<Rightarrow> take 3 (filter (\<lambda>p. p \<noteq> []) (rev (prefixes parent))))"

definition stats_at :: "subtree_stats \<Rightarrow> path \<Rightarrow> subtree_accumulator" where
  "stats_at stats p = (case map_of stats p of None \<Rightarrow> empty_accumulator | Some a \<Rightarrow> a)"

definition update_subtree_stats :: "path \<Rightarrow> u64 \<Rightarrow> disk_node \<Rightarrow> subtree_stats \<Rightarrow> subtree_stats" where
  "update_subtree_stats relative len node stats =
    foldl (\<lambda>m p. btree_map_insert p (accumulate relative len node (stats_at m p)) m) stats (near_ancestors relative)"

definition suspicious_accumulator :: "capture_budgets \<Rightarrow> subtree_accumulator \<Rightarrow> bool" where
  "suspicious_accumulator budgets a \<longleftrightarrow>
    cb_suspicious_files budgets \<le> sa_file_count a
    \<and> cb_suspicious_bytes budgets \<le> sa_total_bytes a
    \<and> saturating_mul_u64 (sa_file_count a) (ucast (cb_suspicious_generated_percent budgets))
        \<le> saturating_mul_u64 (sa_generated_files a) 100"

definition summary_of :: "'z gate_env_scheme \<Rightarrow> subtree_accumulator \<Rightarrow> subtree_summary" where
  "summary_of gv a =
    \<lparr>su_file_count = sa_file_count a, su_total_bytes = sa_total_bytes a,
     su_metadata_sha256 = capture_sha256 gv (sa_hashed a), su_partial = False\<rparr>"

definition select_suspicious ::
    "'z gate_env_scheme \<Rightarrow> (path \<times> subtree_summary) list \<Rightarrow> path \<times> subtree_accumulator \<Rightarrow> (path \<times> subtree_summary) list" where
  "select_suspicious gv selected candidate =
    (if list_ex (\<lambda>(chosen, _). prefix (fst candidate) chosen) selected then selected
     else btree_map_insert (fst candidate) (summary_of gv (snd candidate)) selected)"

text \<open>The deepest candidates first; a directory above a chosen one is not chosen.\<close>

definition suspicious_subtrees ::
    "'z gate_env_scheme \<Rightarrow> subtree_stats \<Rightarrow> capture_budgets \<Rightarrow> (path \<times> subtree_summary) list" where
  "suspicious_subtrees gv stats budgets =
    foldl (select_suspicious gv) []
      (sort_key (\<lambda>(p, _). - int (path_depth p)) (filter (\<lambda>(_, a). suspicious_accumulator budgets a) stats))"

section \<open>What a left-out subtree holds\<close>

record subtree_scan =
  sn_files :: u64
  sn_bytes :: u64
  sn_hashed :: bytes
  sn_partial :: bool

definition scan_entry :: "disk \<Rightarrow> path \<Rightarrow> walk_entry \<Rightarrow> subtree_scan \<Rightarrow> subtree_scan" where
  "scan_entry d root_dir e scan =
    (case we_type e of
       None \<Rightarrow> scan\<lparr>sn_partial := True\<rparr>
     | Some t \<Rightarrow>
        if t \<notin> {TFile, TSymlink} then scan
        else (case lstat_kind d (we_path e) of
            Inl _ \<Rightarrow> scan\<lparr>sn_partial := True\<rparr>
          | Inr node \<Rightarrow>
             let len = node_len d (we_path e) node in
             scan\<lparr>sn_files := saturating_add_u64 (sn_files scan) 1,
               sn_bytes := saturating_add_u64 (sn_bytes scan) len,
               sn_hashed := sn_hashed scan @ metadata_digest_bytes (entry_relative root_dir e) len\<rparr>))"

text \<open>At most 50000 files, two seconds, and the deadline of the capture.\<close>

fun summarize_loop ::
    "'z capture_env_scheme \<Rightarrow> path \<Rightarrow> nat \<Rightarrow> nat \<Rightarrow> walk_event list \<Rightarrow> subtree_scan \<Rightarrow> subtree_scan cap" where
  "summarize_loop cv root_dir deadline started [] scan = act_return scan"
| "summarize_loop cv root_dir deadline started (Rejected e # events) scan =
    summarize_loop cv root_dir deadline started events scan"
| "summarize_loop cv root_dir deadline started (event # events) scan =
    act_bind (read_clock cv) (\<lambda>now.
    if deadline \<le> now \<or> 50000 \<le> sn_files scan then act_return (scan\<lparr>sn_partial := True\<rparr>)
    else act_bind (read_clock cv) (\<lambda>now.
    if millis 2000 < now - started then act_return (scan\<lparr>sn_partial := True\<rparr>)
    else act_bind (on_disk (\<lambda>d. Inr (case event of
        Yielded e \<Rightarrow> scan_entry d root_dir e scan
      | _ \<Rightarrow> scan\<lparr>sn_partial := True\<rparr>))) (\<lambda>scan.
    summarize_loop cv root_dir deadline started events scan)))"

definition summarize_omitted_subtree ::
    "'z capture_env_scheme \<Rightarrow> path \<Rightarrow> path \<Rightarrow> nat \<Rightarrow> subtree_summary cap" where
  "summarize_omitted_subtree cv root_dir relative deadline =
    (let absolute = join_path root_dir relative in
     act_bind (read_clock cv) (\<lambda>started.
     act_bind (on_disk (\<lambda>d. Inr (node_exists d absolute, cv_walk cv d absolute (\<lambda>_. True)))) (\<lambda>(found, events).
     if \<not> found then
       act_return \<lparr>su_file_count = 0, su_total_bytes = 0, su_metadata_sha256 = capture_sha256 cv [], su_partial = False\<rparr>
     else
       act_bind (summarize_loop cv root_dir deadline started events
         \<lparr>sn_files = 0, sn_bytes = 0, sn_hashed = [], sn_partial = False\<rparr>) (\<lambda>scan.
       act_return \<lparr>su_file_count = sn_files scan, su_total_bytes = sn_bytes scan,
         su_metadata_sha256 = capture_sha256 cv (sn_hashed scan), su_partial = sn_partial scan\<rparr>))))"

section \<open>The traversal\<close>

record capture_loop =
  cl_entries :: "capture_entry list"
  cl_omissions :: "capture_omission list"
  cl_truncated :: u64
  cl_files :: u64
  cl_bytes :: u64
  cl_stats :: subtree_stats
  cl_pruned :: prune_ledger
  cl_stopped :: bool

definition capture_start :: capture_loop where
  "capture_start =
    \<lparr>cl_entries = [], cl_omissions = [], cl_truncated = 0, cl_files = 0, cl_bytes = 0, cl_stats = [],
     cl_pruned = [], cl_stopped = False\<rparr>"

definition push_omission :: "capture_omission \<Rightarrow> capture_loop \<Rightarrow> capture_loop" where
  "push_omission omission st =
    (if length (cl_omissions st) < MAX_RECORDED_OMISSIONS then st\<lparr>cl_omissions := cl_omissions st @ [omission]\<rparr>
     else st\<lparr>cl_truncated := saturating_add_u64 (cl_truncated st) 1\<rparr>)"

definition omitted :: "path \<Rightarrow> capture_omission_reason \<Rightarrow> u64 \<Rightarrow> u64 \<Rightarrow> bool \<Rightarrow> capture_omission" where
  "omitted p reason n len part =
    \<lparr>om_path = p, om_reason = reason, om_file_count = n, om_total_bytes = len,
     om_metadata_sha256 = None, om_summary_partial = part\<rparr>"

text \<open>The kind and size of what is at a path, or nothing for an entry that cannot be captured.\<close>

definition leaf_of_node :: "disk \<Rightarrow> path \<Rightarrow> disk_node \<Rightarrow> (capture_entry_kind \<times> u64) option res" where
  "leaf_of_node d p node =
    (case node of
       FileNode _ _ \<Rightarrow> Inr (Some (CapturedFile, node_len d p node))
     | LinkNode _ \<Rightarrow> res_bind (read_link p d) (\<lambda>target. Inr (Some (CapturedLink, of_nat (length target))))
     | _ \<Rightarrow> Inr None)"

definition admit_leaf ::
    "capture_budgets \<Rightarrow> path list \<Rightarrow> path \<Rightarrow> path \<Rightarrow> disk_node \<Rightarrow> capture_entry_kind \<Rightarrow> u64 \<Rightarrow> capture_loop \<Rightarrow> capture_loop" where
  "admit_leaf budgets tracked p relative node kind len st =
    (let st = st\<lparr>cl_files := saturating_add_u64 (cl_files st) 1,
           cl_bytes := saturating_add_u64 (cl_bytes st) len,
           cl_stats := update_subtree_stats relative len node (cl_stats st)\<rparr>
     in
     if cb_max_file_bytes budgets < len then push_omission (omitted relative OversizeFile 1 len False) st
     else if cb_max_files budgets < cl_files st then
       (push_omission (omitted relative FileBudget (cl_files st) (cl_bytes st) True) st)\<lparr>cl_stopped := True\<rparr>
     else if cb_max_total_bytes budgets < cl_bytes st then
       (push_omission (omitted relative ByteBudget (cl_files st) (cl_bytes st) True) st)\<lparr>cl_stopped := True\<rparr>
     else st\<lparr>cl_entries := cl_entries st @
       [\<lparr>ce_relative = relative, ce_source = p, ce_kind = kind, ce_size = len, ce_tracked = relative \<in> set tracked\<rparr>]\<rparr>)"

definition capture_item ::
    "capture_budgets \<Rightarrow> traversal_context \<Rightarrow> walk_entry \<Rightarrow> capture_loop \<Rightarrow> disk \<Rightarrow> capture_loop res" where
  "capture_item budgets tc e st d =
    res_bind (ok_or (strip_path_prefix (we_path e) (tc_root tc)) (capture_error (CapturePathPrefix (we_path e) (tc_root tc))))
    (\<lambda>relative.
    if relative = [] \<or> we_type e = Some TDir then Inr st
    else case lstat_kind d (we_path e) of
      Inl k \<Rightarrow> Inr (if k = IoNotFound then st else push_omission (omitted relative IoFailure 1 0 True) st)
    | Inr node \<Rightarrow>
       res_bind (leaf_of_node d (we_path e) node) (\<lambda>leaf.
       Inr (case leaf of
           None \<Rightarrow> push_omission (omitted relative UnsupportedEntry 1 (node_len d (we_path e) node) True) st
         | Some (kind, len) \<Rightarrow> admit_leaf budgets (tc_tracked tc) (we_path e) relative node kind len st)))"

fun traverse ::
    "'z capture_env_scheme \<Rightarrow> work_boundary option \<Rightarrow> capture_budgets \<Rightarrow> nat \<Rightarrow> traversal_context \<Rightarrow> walk_event list
      \<Rightarrow> capture_loop \<Rightarrow> capture_loop cap" where
  "traverse cv boundary budgets started tc [] st = act_return st"
| "traverse cv boundary budgets started tc (Rejected e # events) st =
    traverse cv boundary budgets started tc events (st\<lparr>cl_pruned := note_rejected tc e (cl_pruned st)\<rparr>)"
| "traverse cv boundary budgets started tc (event # events) st =
    act_bind (check_optional cv boundary) (\<lambda>_.
    act_bind (read_clock cv) (\<lambda>now.
    if millis (cb_max_traversal_millis budgets) < now - started then
      act_return ((push_omission (omitted [CurDir] TraversalDeadline (cl_files st) (cl_bytes st) True) st)\<lparr>cl_stopped := True\<rparr>)
    else act_bind (on_disk (\<lambda>d. case event of
        Yielded e \<Rightarrow> capture_item budgets tc e st d
      | _ \<Rightarrow> Inr (push_omission (omitted [CurDir] IoFailure 0 0 True) st))) (\<lambda>st.
    if cl_stopped st then act_return st
    else traverse cv boundary budgets started tc events st)))"

fun summarize_pruned ::
    "'z capture_env_scheme \<Rightarrow> work_boundary option \<Rightarrow> path \<Rightarrow> nat \<Rightarrow> prune_ledger \<Rightarrow> capture_loop \<Rightarrow> capture_loop cap" where
  "summarize_pruned cv boundary root_dir deadline [] st = act_return st"
| "summarize_pruned cv boundary root_dir deadline ((p, reason) # pruned) st =
    act_bind (check_optional cv boundary) (\<lambda>_.
    act_bind (summarize_omitted_subtree cv root_dir p deadline) (\<lambda>summary.
    summarize_pruned cv boundary root_dir deadline pruned
      (push_omission \<lparr>om_path = p, om_reason = reason, om_file_count = su_file_count summary,
         om_total_bytes = su_total_bytes summary, om_metadata_sha256 = Some (su_metadata_sha256 summary),
         om_summary_partial = su_partial summary\<rparr> st)))"

section \<open>The capture\<close>

definition suspicious_omission :: "path \<times> subtree_summary \<Rightarrow> capture_omission" where
  "suspicious_omission found =
    \<lparr>om_path = fst found, om_reason = SuspiciousGeneratedSubtree, om_file_count = su_file_count (snd found),
     om_total_bytes = su_total_bytes (snd found), om_metadata_sha256 = Some (su_metadata_sha256 (snd found)),
     om_summary_partial = False\<rparr>"

definition outside_suspicious :: "(path \<times> subtree_summary) list \<Rightarrow> capture_entry \<Rightarrow> bool" where
  "outside_suspicious suspicious e \<longleftrightarrow>
    ce_tracked e \<or> \<not> list_ex (\<lambda>(below, _). prefix below (ce_relative e)) suspicious"

definition drop_suspicious :: "'z gate_env_scheme \<Rightarrow> capture_budgets \<Rightarrow> capture_loop \<Rightarrow> capture_loop" where
  "drop_suspicious gv budgets st =
    (if cl_stopped st then st
     else
       let suspicious = suspicious_subtrees gv (cl_stats st) budgets in
       foldl (\<lambda>st found. push_omission (suspicious_omission found) st)
         (st\<lparr>cl_entries := filter (outside_suspicious suspicious) (cl_entries st)\<rparr>) suspicious)"

definition WORKSPACE_CAPTURE_MANIFEST_VERSION :: u32 where "WORKSPACE_CAPTURE_MANIFEST_VERSION = 1"

text \<open>The record a capture takes its tracked paths from: an explicit one is required and checked when strict.\<close>

definition explicit_hydration :: "bool \<Rightarrow> workspace_capture_policy \<Rightarrow> frozen_git_hydration option res" where
  "explicit_hydration strict policy =
    res_bind (if strict then res_bind (require_frozen_git_hydration policy) (\<lambda>h. Inr (Some h))
      else Inr (wp_frozen_git_hydration policy)) (\<lambda>hydration.
    res_bind (case hydration of None \<Rightarrow> Inr () | Some h \<Rightarrow> validate_frozen_git_hydration h) (\<lambda>_.
    Inr hydration))"

definition traversal_context_of ::
    "'z capture_env_scheme \<Rightarrow> path \<Rightarrow> workspace_capture_policy \<Rightarrow> capture_projection \<Rightarrow> bool
      \<Rightarrow> (string \<times> frozen_git_hydration option \<times> traversal_context) res" where
  "traversal_context_of cv root_dir policy projection strict =
    res_bind (ok_or (cv_policy_compact cv policy) (capture_error CapturePolicyRendering)) (\<lambda>encoded.
    res_bind (explicit_hydration strict policy) (\<lambda>hydration.
    res_bind (decode_paths (case hydration of None \<Rightarrow> wp_frozen_tracked_paths policy | Some h \<Rightarrow> fh_tracked_paths h)) (\<lambda>tracked.
    res_bind (decode_output_roots (wp_output_roots policy)) (\<lambda>output_roots.
    res_bind (compile_ignores cv root_dir (wp_ignores policy)) (\<lambda>ignores.
    Inr (capture_sha256 cv encoded, hydration,
      \<lparr>tc_root = root_dir, tc_projection = projection, tc_ignores = ignores, tc_tracked = tracked,
       tc_tracked_directories = tracked_parent_directories tracked, tc_output_roots = output_roots\<rparr>))))))"

definition hydration_state ::
    "workspace_capture_policy \<Rightarrow> frozen_git_hydration option \<Rightarrow> path list \<Rightarrow> git_hydration_state option" where
  "hydration_state policy hydration tracked =
    (let (repository, head, index) = (case hydration of
         None \<Rightarrow> (tracked \<noteq> [] \<or> wp_frozen_git_head policy \<noteq> None \<or> wp_frozen_git_index_sha256 policy \<noteq> None,
           wp_frozen_git_head policy, wp_frozen_git_index_sha256 policy)
       | Some h \<Rightarrow> (fh_repository h, fh_head h, fh_index_sha256 h))
     in if repository then Some \<lparr>gh_head = head, gh_index_sha256 = index, gh_tracked_files = of_nat (length tracked)\<rparr>
        else None)"

definition plan_of ::
    "workspace_capture_policy \<Rightarrow> frozen_git_hydration option \<Rightarrow> path list \<Rightarrow> string \<Rightarrow> capture_purpose \<Rightarrow> timestamp
      \<Rightarrow> timestamp \<Rightarrow> capture_loop \<Rightarrow> workspace_capture_plan" where
  "plan_of policy hydration tracked digest purpose started_at completed_at st =
    (let entries = sort_key ce_relative (cl_entries st) in
     \<lparr>pl_entries = entries,
      pl_manifest =
        \<lparr>wm_schema_version = WORKSPACE_CAPTURE_MANIFEST_VERSION, wm_policy_sha256 = digest, wm_purpose = purpose,
         wm_started_at = started_at, wm_completed_at = completed_at,
         wm_partial = list_ex (\<lambda>x. makes_partial (om_reason x)) (cl_omissions st),
         wm_included_files = of_nat (length entries), wm_included_bytes = sum_list (map ce_size entries),
         wm_tracked_files = of_nat (length (filter ce_tracked entries)),
         wm_omissions = cl_omissions st, wm_omissions_truncated = cl_truncated st,
         wm_git = hydration_state policy hydration tracked, wm_materialization = None\<rparr>\<rparr>)"

definition capture_within ::
    "'z capture_env_scheme \<Rightarrow> work_boundary option \<Rightarrow> path \<Rightarrow> workspace_capture_policy \<Rightarrow> capture_projection
      \<Rightarrow> capture_purpose \<Rightarrow> bool \<Rightarrow> workspace_capture_plan cap" where
  "capture_within cv boundary root_dir policy projection purpose strict =
    act_bind (check_optional cv boundary) (\<lambda>_.
    act_bind (utc_now cv) (\<lambda>started_at.
    act_bind (read_clock cv) (\<lambda>started.
    act_bind (act_lift (traversal_context_of cv root_dir policy projection strict)) (\<lambda>(digest, hydration, tc).
    act_bind (on_disk (\<lambda>d. Inr (cv_walk cv d root_dir (admits tc)))) (\<lambda>events.
    act_bind (traverse cv boundary (wp_budgets policy) started tc events capture_start) (\<lambda>st.
    act_bind (summarize_pruned cv boundary root_dir (started + millis (cb_max_traversal_millis (wp_budgets policy)))
      (cl_pruned st) st) (\<lambda>st.
    act_bind (check_optional cv boundary) (\<lambda>_.
    act_bind (utc_now cv) (\<lambda>completed_at.
    act_return (plan_of policy hydration (tc_tracked tc) digest purpose started_at completed_at
      (drop_suspicious cv (wp_budgets policy) st)))))))))))"

definition capture_workspace_inner ::
    "'z capture_env_scheme \<Rightarrow> path \<Rightarrow> workspace_capture_policy \<Rightarrow> capture_projection \<Rightarrow> capture_purpose \<Rightarrow> bool
      \<Rightarrow> work_boundary option \<Rightarrow> workspace_capture_plan cap" where
  "capture_workspace_inner cv root_dir policy projection purpose strict boundary = (\<lambda>w.
    capture_within cv (case boundary of Some b \<Rightarrow> Some b | None \<Rightarrow> inherited_work_boundary w)
      root_dir policy projection purpose strict w)"

definition capture_workspace where
  "capture_workspace cv root_dir policy projection purpose =
    capture_workspace_inner cv root_dir policy projection purpose False None"

definition capture_workspace_strict where
  "capture_workspace_strict cv root_dir policy projection purpose =
    capture_workspace_inner cv root_dir policy projection purpose True None"

definition capture_workspace_strict_bounded where
  "capture_workspace_strict_bounded cv root_dir policy projection purpose boundary =
    capture_workspace_inner cv root_dir policy projection purpose True (Some boundary)"

end
