(* ===== verification/Policy_Freeze.thy ===== *)
theory Policy_Freeze
  imports Workspace_Capture
begin

text \<open>
  Freezing a capture policy (\<open>crates/deadreckon-core/src/workspace_capture.rs\<close>): the Git observation, the
  ignore files and ecosystem markers a bounded walk finds, the output directories they name, and the two
  moments a policy is made: at admission, from everything the host says, and after the agent, from the
  admitted observation and the project's own ignore files alone.
\<close>

section \<open>Order of ignore kinds\<close>

fun kind_index :: "frozen_ignore_kind \<Rightarrow> nat" where
  "kind_index GlobalGit = 0"
| "kind_index GitExclude = 1"
| "kind_index Gitignore = 2"
| "kind_index IgnoreFile = 3"

instantiation frozen_ignore_kind :: linorder
begin

definition less_eq_frozen_ignore_kind :: "frozen_ignore_kind \<Rightarrow> frozen_ignore_kind \<Rightarrow> bool" where
  "less_eq_frozen_ignore_kind a b \<longleftrightarrow> kind_index a \<le> kind_index b"

definition less_frozen_ignore_kind :: "frozen_ignore_kind \<Rightarrow> frozen_ignore_kind \<Rightarrow> bool" where
  "less_frozen_ignore_kind a b \<longleftrightarrow> kind_index a < kind_index b"

instance
proof
  fix a b :: frozen_ignore_kind
  assume "a \<le> b" "b \<le> a"
  then show "a = b" by (cases a; cases b) (simp_all add: less_eq_frozen_ignore_kind_def)
qed (auto simp: less_eq_frozen_ignore_kind_def less_frozen_ignore_kind_def)

end

section \<open>Git\<close>

definition successful :: "git_output res \<Rightarrow> bytes option" where
  "successful r = (case r of Inl _ \<Rightarrow> None | Inr out \<Rightarrow> if gt_success out then Some (gt_stdout out) else None)"

definition git_repository_detected :: "'z capture_env_scheme \<Rightarrow> path \<Rightarrow> bool cap" where
  "git_repository_detected cv root_dir = (\<lambda>w.
    (res_bind (cv_git cv w root_dir [''rev-parse'', ''--is-inside-work-tree'']) (\<lambda>out.
     if gt_success out then Inr (trim (from_utf8_lossy (gt_stdout out)) = ''true'')
     else case lstat_kind (cw_disk w) (join root_dir ''.git'') of
         Inr _ \<Rightarrow> Inl (capture_error (HydrationUnreadable (join root_dir ''.git'') (trim (from_utf8_lossy (gt_stderr out)))))
       | Inl _ \<Rightarrow> Inr False), w))"

definition raw_git_path :: "bytes \<Rightarrow> path" where
  "raw_git_path raw = components raw"

definition git_tracked_paths :: "'z capture_env_scheme \<Rightarrow> path \<Rightarrow> path list cap" where
  "git_tracked_paths cv root_dir = (\<lambda>w.
    (res_bind (cv_git cv w root_dir [''ls-files'', ''-z'', ''--cached'', ''--'']) (\<lambda>out.
     if \<not> gt_success out then
       Inl (capture_error (TrackedPathsUnreadable root_dir (trim (from_utf8_lossy (gt_stderr out)))))
     else Inr (btree_set (map raw_git_path (filter (\<lambda>raw. raw \<noteq> []) (split_on (CHR 0x00) (gt_stdout out)))))), w))"

definition non_blank :: "bytes \<Rightarrow> string option" where
  "non_blank raw = (let value = trim (from_utf8_lossy raw) in if value = [] then None else Some value)"

definition git_hydration_identity :: "'z capture_env_scheme \<Rightarrow> path \<Rightarrow> (string option \<times> string option) cap" where
  "git_hydration_identity cv root_dir = (\<lambda>w.
    (Inr (Option.bind (successful (cv_git cv w root_dir [''rev-parse'', ''--verify'', ''HEAD''])) non_blank,
      map_option (capture_sha256 cv) (successful (cv_git cv w root_dir [''ls-files'', ''--stage'', ''-z'', ''--'']))), w))"

definition freeze_git_hydration :: "'z capture_env_scheme \<Rightarrow> path \<Rightarrow> frozen_git_hydration cap" where
  "freeze_git_hydration cv root_dir =
    act_bind (utc_now cv) (\<lambda>frozen_at.
    act_bind (git_repository_detected cv root_dir) (\<lambda>repository.
    if \<not> repository then
      act_return \<lparr>fh_schema_version = FROZEN_GIT_HYDRATION_VERSION, fh_frozen_at = frozen_at, fh_repository = False,
        fh_tracked_paths = [], fh_head = None, fh_index_sha256 = None\<rparr>
    else
      act_bind (git_tracked_paths cv root_dir) (\<lambda>tracked.
      act_bind (git_hydration_identity cv root_dir) (\<lambda>(head, index).
      let hydration = \<lparr>fh_schema_version = FROZEN_GIT_HYDRATION_VERSION, fh_frozen_at = frozen_at, fh_repository = True,
        fh_tracked_paths = map from_path tracked, fh_head = head, fh_index_sha256 = index\<rparr>
      in
      act_bind (act_lift (validate_frozen_git_hydration hydration)) (\<lambda>_.
      act_return hydration)))))"

section \<open>Ignore files and markers\<close>

record policy_discovery =
  pd_ignores :: "frozen_ignore_source list"
  pd_markers :: "path list"
  pd_warnings :: "string list"

definition warn :: "string \<Rightarrow> policy_discovery \<Rightarrow> policy_discovery" where
  "warn text found = found\<lparr>pd_warnings := pd_warnings found @ [text]\<rparr>"

definition frozen_ignore_file ::
    "'z capture_env_scheme \<Rightarrow> disk \<Rightarrow> path \<Rightarrow> path \<Rightarrow> frozen_ignore_kind \<Rightarrow> policy_discovery \<Rightarrow> policy_discovery" where
  "frozen_ignore_file cv d root_dir relative kind found =
    (case read_to_string_kind d (join_path root_dir relative) of
       Inl k \<Rightarrow> warn (''could not freeze ignore file '' @ cv_show cv relative @ '': '' @ cv_io_text cv k) found
     | Inr raw \<Rightarrow> found\<lparr>pd_ignores := pd_ignores found @
        [\<lparr>ig_kind = kind, ig_base = from_path (case path_parent relative of None \<Rightarrow> [] | Some parent \<Rightarrow> parent),
          ig_origin = cv_show cv relative, ig_lines = str_lines raw\<rparr>]\<rparr>)"

definition ignore_file_kind :: "string \<Rightarrow> frozen_ignore_kind option" where
  "ignore_file_kind name =
    (if name = ''.gitignore'' then Some Gitignore else if name = ''.ignore'' then Some IgnoreFile else None)"

definition is_ecosystem_marker :: "string \<Rightarrow> bool" where
  "is_ecosystem_marker name \<longleftrightarrow> name \<in> {''Cargo.toml'', ''Package.swift'', ''MODULE.bazel'', ''WORKSPACE'',
    ''WORKSPACE.bazel'', ''CMakeCache.txt'', ''build.gradle'', ''build.gradle.kts''}"

definition discovery_admits :: "path \<Rightarrow> walk_entry \<Rightarrow> bool" where
  "discovery_admits root_dir e \<longleftrightarrow>
    (let relative = entry_relative root_dir e in
     relative = [] \<or> \<not> is_git_control_path relative \<and> runtime_output_root relative = None)"

definition discover_item ::
    "'z capture_env_scheme \<Rightarrow> path \<Rightarrow> walk_entry \<Rightarrow> policy_discovery \<Rightarrow> disk \<Rightarrow> policy_discovery" where
  "discover_item cv root_dir e found d =
    (if we_type e \<noteq> Some TFile then found
     else case strip_path_prefix (we_path e) root_dir of
         None \<Rightarrow> found
       | Some relative \<Rightarrow>
          let name = (case file_name (we_path e) of None \<Rightarrow> [] | Some name \<Rightarrow> name) in
          if ignore_file_kind name \<noteq> None \<and> length relative = 1 then found
          else
            let found = (case ignore_file_kind name of
                None \<Rightarrow> found
              | Some kind \<Rightarrow> frozen_ignore_file cv d root_dir relative kind found)
            in if is_ecosystem_marker name then found\<lparr>pd_markers := pd_markers found @ [relative]\<rparr> else found)"

text \<open>At most 100000 entries and three seconds.\<close>

fun discovery_loop ::
    "'z capture_env_scheme \<Rightarrow> path \<Rightarrow> nat \<Rightarrow> nat \<Rightarrow> walk_event list \<Rightarrow> policy_discovery \<Rightarrow> policy_discovery cap" where
  "discovery_loop cv root_dir started seen [] found = act_return found"
| "discovery_loop cv root_dir started seen (Rejected e # events) found =
    discovery_loop cv root_dir started seen events found"
| "discovery_loop cv root_dir started seen (event # events) found =
    (let stop = act_return (warn ''ignore/ecosystem discovery reached its bounded scan limit; root and Git-level rules remain frozen'' found)
     in
     if 100000 \<le> seen then stop
     else act_bind (read_clock cv) (\<lambda>now.
       if millis 3000 < now - started then stop
       else act_bind (on_disk (\<lambda>d. Inr (case event of Yielded e \<Rightarrow> discover_item cv root_dir e found d | _ \<Rightarrow> found))) (\<lambda>found.
         discovery_loop cv root_dir started (Suc seen) events found)))"

definition root_ignores :: "'z capture_env_scheme \<Rightarrow> path \<Rightarrow> disk \<Rightarrow> policy_discovery" where
  "root_ignores cv root_dir d =
    foldl (\<lambda>found (name, kind).
        if is_file d (join root_dir name) then frozen_ignore_file cv d root_dir (components name) kind found else found)
      \<lparr>pd_ignores = [], pd_markers = [], pd_warnings = []\<rparr>
      [(''.gitignore'', Gitignore), (''.ignore'', IgnoreFile)]"

definition settle_discovery :: "policy_discovery \<Rightarrow> policy_discovery" where
  "settle_discovery found = found
    \<lparr>pd_ignores := sort_key (\<lambda>s. (ig_kind s, path_depth_encoded (ig_base s), ig_origin s)) (pd_ignores found),
     pd_markers := btree_set (pd_markers found)\<rparr>"

definition discover_policy_inputs :: "'z capture_env_scheme \<Rightarrow> path \<Rightarrow> policy_discovery cap" where
  "discover_policy_inputs cv root_dir =
    act_bind (read_clock cv) (\<lambda>started.
    act_bind (on_disk (\<lambda>d. Inr (is_dir d root_dir, root_ignores cv root_dir d, cv_walk cv d root_dir (discovery_admits root_dir))))
      (\<lambda>(directory, found, events).
    if \<not> directory then act_return \<lparr>pd_ignores = [], pd_markers = [], pd_warnings = []\<rparr>
    else act_bind (discovery_loop cv root_dir started 0 events found) (\<lambda>found.
      act_return (settle_discovery found))))"

text \<open>The rules outside the workspace: of this clone, and of the user.\<close>

definition git_config_path :: "'z capture_env_scheme \<Rightarrow> capture_world \<Rightarrow> path \<Rightarrow> string list \<Rightarrow> path option" where
  "git_config_path cv w root_dir args =
    map_option (\<lambda>value. let p = components value in if is_absolute p then p else join_path root_dir p)
      (Option.bind (successful (cv_git cv w root_dir args)) non_blank)"

definition global_gitignore_path :: "'z capture_env_scheme \<Rightarrow> capture_world \<Rightarrow> path \<Rightarrow> path option" where
  "global_gitignore_path cv w root_dir =
    (case git_config_path cv w root_dir [''config'', ''--path'', ''--get'', ''core.excludesFile''] of
       Some p \<Rightarrow> Some p
     | None \<Rightarrow> (case cv_xdg_config_home cv of
         Some (c # xdg) \<Rightarrow> Some (join (components (c # xdg)) ''git/ignore'')
       | _ \<Rightarrow> map_option (\<lambda>home. join (components home) ''.config/git/ignore'') (cv_home_var cv)))"

definition frozen_external_ignore_file ::
    "'z capture_env_scheme \<Rightarrow> disk \<Rightarrow> path option \<Rightarrow> frozen_ignore_kind \<Rightarrow> string \<Rightarrow> policy_discovery \<Rightarrow> policy_discovery" where
  "frozen_external_ignore_file cv d found_at kind origin found =
    (case found_at of
       None \<Rightarrow> found
     | Some p \<Rightarrow>
        if \<not> is_file d p then found
        else (case read_to_string_kind d p of
            Inl k \<Rightarrow> warn (''could not freeze '' @ origin @ '' '' @ cv_show cv p @ '': '' @ cv_io_text cv k) found
          | Inr raw \<Rightarrow> found\<lparr>pd_ignores := pd_ignores found @
             [\<lparr>ig_kind = kind, ig_base = from_path [], ig_origin = origin @ '': '' @ cv_show cv p, ig_lines = str_lines raw\<rparr>]\<rparr>))"

definition freeze_git_exclude_sources :: "'z capture_env_scheme \<Rightarrow> path \<Rightarrow> policy_discovery \<Rightarrow> policy_discovery cap" where
  "freeze_git_exclude_sources cv root_dir found = (\<lambda>w.
    (Inr (frozen_external_ignore_file cv (cw_disk w) (global_gitignore_path cv w root_dir) GlobalGit ''global Git excludes''
      (frozen_external_ignore_file cv (cw_disk w)
        (git_config_path cv w root_dir [''rev-parse'', ''--git-path'', ''info/exclude'']) GitExclude ''git info/exclude'' found)), w))"

section \<open>Output directories\<close>

definition max_query_bytes :: nat where "max_query_bytes = 2 * 1024 * 1024"

definition bounded_command_stdout :: "'z capture_env_scheme \<Rightarrow> disk \<Rightarrow> path \<Rightarrow> string \<Rightarrow> string list \<Rightarrow> bytes option res" where
  "bounded_command_stdout cv d cwd program args =
    (case cv_query cv d cwd program args of
       NotStarted k \<Rightarrow> if k = IoNotFound then Inr None else Inl (Io (components program) k)
     | TimedOut \<Rightarrow> Inr None
     | Exited ok out \<Rightarrow> Inr (if \<not> ok \<or> max_query_bytes < length out then None else Some out))"

definition output_path_relative_to_root :: "'z capture_env_scheme \<Rightarrow> path \<Rightarrow> path \<Rightarrow> path \<Rightarrow> path option" where
  "output_path_relative_to_root cv root_dir project_root p =
    (let absolute = (if is_absolute p then p else join_path project_root p) in
     Option.bind (case strip_path_prefix absolute root_dir of
         Some r \<Rightarrow> Some r
       | None \<Rightarrow> Option.bind (cv_canonicalize cv root_dir) (strip_path_prefix absolute))
       (\<lambda>relative. if relative = [] then None else Some relative))"

definition bazel_output_path :: "'z capture_env_scheme \<Rightarrow> disk \<Rightarrow> path \<Rightarrow> path option res" where
  "bazel_output_path cv d root_dir =
    res_bind (bounded_command_stdout cv d root_dir ''bazel'' [''info'', ''output_path'']) (\<lambda>raw.
    Inr (map_option components (Option.bind raw non_blank)))"

definition cargo_metadata_target_directory :: "'z capture_env_scheme \<Rightarrow> disk \<Rightarrow> path \<Rightarrow> path option res" where
  "cargo_metadata_target_directory cv d root_dir =
    (if \<not> is_file d (join root_dir ''Cargo.toml'') then Inr None
     else
       res_bind (bounded_command_stdout cv d root_dir ''cargo''
         [''metadata'', ''--format-version'', ''1'', ''--no-deps'', ''--offline'']) (\<lambda>raw.
       case raw of
         None \<Rightarrow> Inr None
       | Some raw \<Rightarrow>
          res_bind (ok_or (cv_json cv raw) (capture_error CargoMetadataInvalid)) (\<lambda>value.
          Inr (map_option components (Option.bind (json_get value ''target_directory'') as_str)))))"

type_synonym output_roots = "(path \<times> generated_output_source) list"

definition marker_name :: "path \<Rightarrow> string" where
  "marker_name marker = (case file_name marker of None \<Rightarrow> [] | Some name \<Rightarrow> name)"

definition marker_outputs :: "path \<Rightarrow> output_roots" where
  "marker_outputs marker =
    (let parent = (case path_parent marker of None \<Rightarrow> [] | Some p \<Rightarrow> p); name = marker_name marker in
     if name = ''Package.swift'' then [(join parent ''.build'', SwiftPackage)]
     else if name \<in> {''MODULE.bazel'', ''WORKSPACE'', ''WORKSPACE.bazel''} then
       map (\<lambda>out. (join parent out, Bazel)) [''bazel-bin'', ''bazel-out'', ''bazel-testlogs'']
     else if name = ''CMakeCache.txt'' \<and> parent \<noteq> [] then [(parent, CmakeCache)]
     else if name \<in> {''build.gradle'', ''build.gradle.kts''} then
       [(join parent ''build'', Gradle), (join parent ''.gradle'', Gradle)]
     else [])"

definition marker_roots :: "string set \<Rightarrow> path list \<Rightarrow> path list" where
  "marker_roots names markers =
    btree_set (List.map_filter path_parent (filter (\<lambda>m. marker_name m \<in> names) markers))"

definition add_outputs :: "output_roots \<Rightarrow> output_roots \<Rightarrow> output_roots" where
  "add_outputs found roots = foldl (\<lambda>m (p, source). btree_map_insert p source m) roots found"

definition bazel_step :: "'z capture_env_scheme \<Rightarrow> disk \<Rightarrow> path \<Rightarrow> output_roots \<Rightarrow> path \<Rightarrow> output_roots" where
  "bazel_step cv d root_dir roots bazel_root =
    (case bazel_output_path cv d (join_path root_dir bazel_root) of
       Inr (Some p) \<Rightarrow> (case output_path_relative_to_root cv root_dir (join_path root_dir bazel_root) p of
           Some relative \<Rightarrow> btree_map_insert relative Bazel roots
         | None \<Rightarrow> roots)
     | _ \<Rightarrow> roots)"

definition cargo_step ::
    "'z capture_env_scheme \<Rightarrow> disk \<Rightarrow> path \<Rightarrow> output_roots \<times> string list \<Rightarrow> path \<Rightarrow> output_roots \<times> string list" where
  "cargo_step cv d root_dir acc cargo_root =
    (let (roots, warnings) = acc; project_root = join_path root_dir cargo_root in
     case cargo_metadata_target_directory cv d project_root of
       Inr (Some p) \<Rightarrow> (case output_path_relative_to_root cv root_dir project_root p of
           Some relative \<Rightarrow> (btree_map_insert relative CargoMetadata roots, warnings)
         | None \<Rightarrow> (roots, warnings))
     | Inr None \<Rightarrow> (roots, warnings)
     | Inl e \<Rightarrow> (roots, warnings @
        [''cargo metadata output discovery skipped for '' @ cv_show cv project_root @ '': '' @ cv_error_text cv e]))"

definition discover_output_roots ::
    "'z capture_env_scheme \<Rightarrow> disk \<Rightarrow> path \<Rightarrow> path list \<Rightarrow> string list \<Rightarrow> generated_output_root list \<times> string list" where
  "discover_output_roots cv d root_dir markers warnings =
    (let named = foldl (\<lambda>roots m. add_outputs (marker_outputs m) roots) [] markers;
         bazel = foldl (bazel_step cv d root_dir) named
           (marker_roots {''MODULE.bazel'', ''WORKSPACE'', ''WORKSPACE.bazel''} markers);
         (roots, warnings) = foldl (cargo_step cv d root_dir) (bazel, warnings) (marker_roots {''Cargo.toml''} markers)
     in (map (\<lambda>(p, source). \<lparr>go_path = from_path p, go_source = source\<rparr>) roots, warnings))"

section \<open>Policies\<close>

definition freeze_workspace_capture_policy :: "'z capture_env_scheme \<Rightarrow> path \<Rightarrow> workspace_capture_policy cap" where
  "freeze_workspace_capture_policy cv root_dir =
    act_bind (utc_now cv) (\<lambda>frozen_at.
    act_bind (freeze_git_hydration cv root_dir) (\<lambda>hydration.
    act_bind (discover_policy_inputs cv root_dir) (\<lambda>found.
    act_bind (freeze_git_exclude_sources cv root_dir found) (\<lambda>found.
    act_bind (on_disk (\<lambda>d. Inr (discover_output_roots cv d root_dir (pd_markers found) (pd_warnings found)))) (\<lambda>(outputs, warnings).
    act_return
      \<lparr>wp_schema_version = WORKSPACE_CAPTURE_POLICY_VERSION, wp_frozen_at = frozen_at, wp_ignores = pd_ignores found,
       wp_frozen_git_hydration = Some hydration, wp_frozen_tracked_paths = fh_tracked_paths hydration,
       wp_output_roots = outputs, wp_budgets = default_budgets, wp_warnings = warnings,
       wp_frozen_git_head = fh_head hydration, wp_frozen_git_index_sha256 = fh_index_sha256 hydration\<rparr>)))))"

definition freeze_result_projection_policy ::
    "'z capture_env_scheme \<Rightarrow> path \<Rightarrow> workspace_capture_policy \<Rightarrow> workspace_capture_policy cap" where
  "freeze_result_projection_policy cv root_dir admission =
    act_bind (act_lift (require_frozen_git_hydration admission)) (\<lambda>hydration.
    act_bind (discover_policy_inputs cv root_dir) (\<lambda>found.
    act_bind (utc_now cv) (\<lambda>frozen_at.
    act_return
      \<lparr>wp_schema_version = WORKSPACE_CAPTURE_POLICY_VERSION, wp_frozen_at = frozen_at, wp_ignores = pd_ignores found,
       wp_frozen_git_hydration = Some hydration, wp_frozen_tracked_paths = fh_tracked_paths hydration,
       wp_output_roots = [], wp_budgets = wp_budgets admission, wp_warnings = pd_warnings found,
       wp_frozen_git_head = fh_head hydration, wp_frozen_git_index_sha256 = fh_index_sha256 hydration\<rparr>)))"

definition ensure_workspace_capture_policy ::
    "'z capture_env_scheme \<Rightarrow> pipeline_state \<Rightarrow> workspace_capture_policy cap" where
  "ensure_workspace_capture_policy cv st =
    (let p = workspace_capture_policy_path (rs_run_root st) in
     act_bind (cap_io (fs_exists p)) (\<lambda>found.
     if found then cap_io (read_workspace_capture_policy (cv_policy cv) (rs_run_root st))
     else if rs_turn st \<noteq> 0 \<or> rs_status st \<notin> {RunPending, RunPlanned} then
       act_lift (Inl (capture_error (CapturePolicyLost p)))
     else
       act_bind (freeze_workspace_capture_policy cv (rs_working_dir st)) (\<lambda>policy.
       act_bind (cap_io (write_workspace_capture_policy (cv_policy cv) (rs_run_root st) policy)) (\<lambda>_.
       act_return policy))))"

end
