(* ===== verification/Policy_Guarantees.thy ===== *)
theory Policy_Guarantees
  imports Policy_Freeze
begin

text \<open>
  What freezing a policy guarantees: a frozen policy passes the checks of a strict capture, the policy a run
  ensured is the one it later requires, a run that has begun never gets a new one, and the policy of a
  result rests on the admitted observation and the project's own ignore files alone.
\<close>

section \<open>Looking only\<close>

lemma looks_readers [intro!]: "looks (\<lambda>w. (f w, w))"
  by (simp add: looks_def)

lemma looks_git [intro!]:
  "looks (git_repository_detected cv root_dir)" "looks (git_tracked_paths cv root_dir)"
  "looks (git_hydration_identity cv root_dir)" "looks (freeze_git_exclude_sources cv root_dir found)"
  unfolding git_repository_detected_def git_tracked_paths_def git_hydration_identity_def freeze_git_exclude_sources_def
  by (rule looks_readers)+

lemma looks_discovery_loop [intro!]: "looks (discovery_loop cv root_dir started seen events found)"
  by (induction cv root_dir started seen events found rule: discovery_loop.induct) (auto intro!: looks_bind simp: Let_def)

lemma looks_freeze [intro!]:
  "looks (discover_policy_inputs cv root_dir)" "looks (freeze_git_hydration cv root_dir)"
  "looks (freeze_workspace_capture_policy cv root_dir)" "looks (freeze_result_projection_policy cv root_dir admission)"
proof -
  show inputs: "looks (discover_policy_inputs cv root_dir)" for root_dir
    unfolding discover_policy_inputs_def by (auto intro!: looks_bind)
  show git: "looks (freeze_git_hydration cv root_dir)" for root_dir
    unfolding freeze_git_hydration_def Let_def by (auto intro!: looks_bind)
  show "looks (freeze_workspace_capture_policy cv root_dir)" "looks (freeze_result_projection_policy cv root_dir admission)"
    unfolding freeze_workspace_capture_policy_def freeze_result_projection_policy_def
    using inputs git by (auto intro!: looks_bind)
qed

section \<open>A frozen policy is trusted\<close>

lemma frozen_hydration_valid:
  assumes "freeze_git_hydration cv root_dir w = (Inr h, w')"
  shows "validate_frozen_git_hydration h = Inr ()"
proof -
  obtain frozen_at repository w1 where run: "(if \<not> repository then
      act_return \<lparr>fh_schema_version = FROZEN_GIT_HYDRATION_VERSION, fh_frozen_at = frozen_at, fh_repository = False,
        fh_tracked_paths = [], fh_head = None, fh_index_sha256 = None\<rparr>
    else
      act_bind (git_tracked_paths cv root_dir) (\<lambda>tracked.
      act_bind (git_hydration_identity cv root_dir) (\<lambda>(head, index).
      let hydration = \<lparr>fh_schema_version = FROZEN_GIT_HYDRATION_VERSION, fh_frozen_at = frozen_at, fh_repository = True,
        fh_tracked_paths = map from_path tracked, fh_head = head, fh_index_sha256 = index\<rparr>
      in
      act_bind (act_lift (validate_frozen_git_hydration hydration)) (\<lambda>_.
      act_return hydration)))) w1 = (Inr h, w')"
    using assms unfolding freeze_git_hydration_def by (elim act_bindE) blast
  show ?thesis
  proof (cases repository)
    case False
    then show ?thesis using run by (auto simp: validate_frozen_git_hydration_def)
  next
    case True
    then show ?thesis using run by (auto simp: Let_def act_bind_Inr_iff split: prod.splits)
  qed
qed

lemma frozen_policy_is_trusted:
  assumes "freeze_workspace_capture_policy cv root_dir w = (Inr policy, w')"
  shows "\<exists>h. require_frozen_git_hydration policy = Inr h \<and> wp_frozen_git_hydration policy = Some h"
    "wp_schema_version policy = WORKSPACE_CAPTURE_POLICY_VERSION"
proof -
  obtain h w1 w2 where h: "freeze_git_hydration cv root_dir w1 = (Inr h, w2)"
      and policy: "wp_frozen_git_hydration policy = Some h" "wp_frozen_tracked_paths policy = fh_tracked_paths h"
        "wp_frozen_git_head policy = fh_head h" "wp_frozen_git_index_sha256 policy = fh_index_sha256 h"
        "wp_schema_version policy = WORKSPACE_CAPTURE_POLICY_VERSION"
    using assms unfolding freeze_workspace_capture_policy_def
    by (elim act_bindE) (auto simp: act_bind_Inr_iff split: prod.splits)
  then show "\<exists>h. require_frozen_git_hydration policy = Inr h \<and> wp_frozen_git_hydration policy = Some h"
      "wp_schema_version policy = WORKSPACE_CAPTURE_POLICY_VERSION"
    using frozen_hydration_valid [OF h] by (simp_all add: require_frozen_git_hydration_def)
qed

section \<open>Ensured, then required\<close>

lemma read_policy_cases:
  assumes "read_workspace_capture_policy codec run_dir s = (Inr policy, s')"
  shows "s' = s" "\<exists>h. require_frozen_git_hydration policy = Inr h"
    "read_fault s (workspace_capture_policy_path run_dir) = None" "files s (workspace_capture_policy_path run_dir) \<noteq> None"
  using assms readonlyD [OF readonly_policy_reads(1) assms]
  by (auto simp: read_workspace_capture_policy_def result_simps Let_def fs_read_def split: option.splits)

lemma kept_policy:
  assumes "ensure_workspace_capture_policy cv st w = (Inr policy, w')"
    and "read_fault (cw_fs w) (workspace_capture_policy_path (rs_run_root st)) = None"
    and "files (cw_fs w) (workspace_capture_policy_path (rs_run_root st)) \<noteq> None"
  shows "read_workspace_capture_policy (cv_policy cv) (rs_run_root st) (cw_fs w) = (Inr policy, cw_fs w) \<and> w' = w"
proof -
  have "cap_io (read_workspace_capture_policy (cv_policy cv) (rs_run_root st)) w = (Inr policy, w')"
    using assms by (auto simp: ensure_workspace_capture_policy_def Let_def act_bind_def cap_io_def fs_exists_def)
  then have "read_workspace_capture_policy (cv_policy cv) (rs_run_root st) (cw_fs w) = (Inr policy, cw_fs w')"
      "w' = w\<lparr>cw_fs := cw_fs w'\<rparr>"
    by (auto simp: cap_io_def split: prod.splits)
  then show ?thesis using read_policy_cases(1) by fastforce
qed

lemma new_policy:
  assumes "ensure_workspace_capture_policy cv st w = (Inr policy, w')"
    and "files (cw_fs w) (workspace_capture_policy_path (rs_run_root st)) = None"
  obtains w1 b where "rs_turn st = 0" "rs_status st \<in> {RunPending, RunPlanned}"
    "freeze_workspace_capture_policy cv (rs_working_dir st) w = (Inr policy, w1)" "enc (cv_policy cv) policy = Some b"
    "cw_fs w' = put_file (workspace_capture_policy_path (rs_run_root st)) (b @ [newline]) (cw_fs w)" "cw_disk w' = cw_disk w"
proof -
  obtain w1 where begun: "rs_turn st = 0" "rs_status st \<in> {RunPending, RunPlanned}"
      and freeze: "freeze_workspace_capture_policy cv (rs_working_dir st) w = (Inr policy, w1)"
      and stored: "cap_io (write_workspace_capture_policy (cv_policy cv) (rs_run_root st) policy) w1 = (Inr (), w')"
    using assms
    by (auto simp: ensure_workspace_capture_policy_def Let_def act_bind_Inr_iff cap_io_def fs_exists_def split: if_splits)
  have fs: "cw_fs w1 = cw_fs w" "cw_disk w1 = cw_disk w" using looksD [OF looks_freeze(3) freeze] by simp_all
  then show ?thesis using begun freeze stored that
    by (auto simp: cap_io_def write_workspace_capture_policy_def result_simps split: prod.splits)
qed

text \<open>
  C27: The policy a run makes sure of is the one every later strict operation requires. A policy that is on
  disk is never replaced: it is read and returned as it is, and nothing changes. Only a run that has not
  begun gets a new one, frozen now from its working directory, which is written, reads back and passes the
  checks; nothing else is written.
\<close>

theorem ensured_policy_is_required:
  assumes run: "ensure_workspace_capture_policy cv st w = (Inr policy, w')"
    and codec: "document_ok (cv_policy cv) policy"
    and readable: "read_fault (cw_fs w) (workspace_capture_policy_path (rs_run_root st)) = None"
  shows "(if files (cw_fs w) (workspace_capture_policy_path (rs_run_root st)) \<noteq> None
      then read_workspace_capture_policy (cv_policy cv) (rs_run_root st) (cw_fs w) = (Inr policy, cw_fs w) \<and> w' = w
      else rs_turn st = 0 \<and> rs_status st \<in> {RunPending, RunPlanned}
        \<and> (\<exists>w1. freeze_workspace_capture_policy cv (rs_working_dir st) w = (Inr policy, w1))
        \<and> changes_only {workspace_capture_policy_path (rs_run_root st)} (cw_fs w) (cw_fs w'))
    \<and> require_workspace_capture_policy (cv_policy cv) st (cw_fs w') = (Inr policy, cw_fs w')
    \<and> (\<exists>h. require_frozen_git_hydration policy = Inr h) \<and> cw_disk w' = cw_disk w"
proof -
  let ?p = "workspace_capture_policy_path (rs_run_root st)"
  have required: "require_workspace_capture_policy (cv_policy cv) st s = (Inr policy, s)"
    if "read_workspace_capture_policy (cv_policy cv) (rs_run_root st) s = (Inr policy, s)" for s
    using read_policy_cases [OF that] that
    by (auto simp: require_workspace_capture_policy_def fs_exists_def Let_def)
  show ?thesis
  proof (cases "files (cw_fs w) ?p = None")
    case False
    from kept_policy [OF run readable this]
    have kept: "read_workspace_capture_policy (cv_policy cv) (rs_run_root st) (cw_fs w) = (Inr policy, cw_fs w)" "w' = w"
      by simp_all
    then show ?thesis using False required [OF kept(1)] read_policy_cases(2) [OF kept(1)] by simp
  next
    case True
    from run this obtain w1 b where begun: "rs_turn st = 0" "rs_status st \<in> {RunPending, RunPlanned}"
        and freeze: "freeze_workspace_capture_policy cv (rs_working_dir st) w = (Inr policy, w1)"
        and b: "enc (cv_policy cv) policy = Some b" "cw_fs w' = put_file ?p (b @ [newline]) (cw_fs w)"
          "cw_disk w' = cw_disk w"
      by (rule new_policy)
    obtain h where h: "require_frozen_git_hydration policy = Inr h" "wp_frozen_git_hydration policy = Some h"
      using frozen_policy_is_trusted(1) [OF freeze] by blast
    have "with_hydration policy = policy" using h(2) by (simp add: with_hydration_def)
    then have "read_workspace_capture_policy (cv_policy cv) (rs_run_root st) (cw_fs w') = (Inr policy, cw_fs w')"
      using b h frozen_policy_is_trusted(2) [OF freeze] readable codec
      by (simp add: read_workspace_capture_policy_def Let_def fs_read_def parse_json_def document_ok_def)
    moreover have "changes_only {?p} (cw_fs w) (cw_fs w')" using b(2) by (simp add: changes_only_put_file)
    ultimately show ?thesis using True begun freeze required h(1) b(3) by auto
  qed
qed

text \<open>A run that has begun gets no new policy, and Git is not asked again.\<close>

lemma started_run_keeps_its_policy:
  assumes "rs_turn st \<noteq> 0 \<or> rs_status st \<notin> {RunPending, RunPlanned}"
  shows "ensure_workspace_capture_policy cv st w =
    (if fst (fs_exists (workspace_capture_policy_path (rs_run_root st)) (cw_fs w)) = Inr True
     then cap_io (read_workspace_capture_policy (cv_policy cv) (rs_run_root st)) w
     else (Inl (capture_error (CapturePolicyLost (workspace_capture_policy_path (rs_run_root st)))), w))"
  using assms by (auto simp: ensure_workspace_capture_policy_def Let_def act_bind_def cap_io_def fs_exists_def)

section \<open>The policy of a result\<close>

abbreviation elsewhere ::
    "capture_env \<Rightarrow> (capture_world \<Rightarrow> path \<Rightarrow> string list \<Rightarrow> git_output res) \<Rightarrow> (disk \<Rightarrow> path \<Rightarrow> string \<Rightarrow> string list \<Rightarrow> child_outcome)
      \<Rightarrow> string option \<Rightarrow> string option \<Rightarrow> capture_env" where
  "elsewhere cv git query xdg home \<equiv>
    cv\<lparr>cv_git := git, cv_query := query, cv_xdg_config_home := xdg, cv_home_var := home\<rparr>"

lemma ignore_file_elsewhere:
  "frozen_ignore_file (elsewhere cv git query xdg home) d root_dir relative kind found =
    frozen_ignore_file cv d root_dir relative kind found"
  by (simp add: frozen_ignore_file_def split: sum.splits)

lemma discover_item_elsewhere:
  "discover_item (elsewhere cv git query xdg home) root_dir e found d = discover_item cv root_dir e found d"
  by (simp add: discover_item_def ignore_file_elsewhere cong: option.case_cong if_cong)

lemma discovery_loop_elsewhere:
  "discovery_loop (elsewhere cv git query xdg home) root_dir started seen events found =
    discovery_loop cv root_dir started seen events found"
  by (induction cv root_dir started seen events found rule: discovery_loop.induct)
    (simp_all add: read_clock_def discover_item_elsewhere act_bind_def on_disk_def Let_def cong: if_cong)

lemma discovery_elsewhere:
  "discover_policy_inputs (elsewhere cv git query xdg home) root_dir = discover_policy_inputs cv root_dir"
  by (simp add: discover_policy_inputs_def discovery_loop_elsewhere root_ignores_def ignore_file_elsewhere read_clock_def cong: if_cong)

text \<open>
  A rule of the project: the lines of an ignore file at \<open>relative\<close>, either in the root of the workspace or
  an ordinary file the walk below that root came to. In the root \<open>is_file\<close> and the read follow links.
\<close>

definition project_rule :: "'z capture_env_scheme \<Rightarrow> disk \<Rightarrow> path \<Rightarrow> frozen_ignore_source \<Rightarrow> bool" where
  "project_rule cv d root_dir s \<longleftrightarrow>
    (\<exists>relative name kind raw. file_name (root_dir @ relative) = Some name \<and> ignore_file_kind name = Some kind
      \<and> (length relative = 1 \<and> is_file d (join_path root_dir relative)
        \<or> (\<exists>e. Yielded e \<in> set (cv_walk cv d root_dir (discovery_admits root_dir)) \<and> we_type e = Some TFile
            \<and> we_path e = root_dir @ relative))
      \<and> read_to_string_kind d (join_path root_dir relative) = Inr raw
      \<and> s = \<lparr>ig_kind = kind, ig_base = from_path (case path_parent relative of None \<Rightarrow> [] | Some parent \<Rightarrow> parent),
          ig_origin = cv_show cv relative, ig_lines = str_lines raw\<rparr>)"

lemma root_rules_are_the_projects:
  assumes "s \<in> set (pd_ignores (root_ignores cv root_dir d))"
  shows "project_rule cv d root_dir s"
proof -
  have names: "components ''.gitignore'' = [Normal ''.gitignore'']" "components ''.ignore'' = [Normal ''.ignore'']"
    by code_simp+
  have j: "join_path root_dir [Normal n] = join root_dir n" if "components n = [Normal n]" for n
    using that by (simp add: join_def)
  have "project_rule cv d root_dir s"
    if "is_file d (join root_dir n)" "ignore_file_kind n = Some kind" "components n = [Normal n]"
      "read_to_string_kind d (join root_dir n) = Inr raw"
      "s = \<lparr>ig_kind = kind, ig_base = from_path (case path_parent [Normal n] of None \<Rightarrow> [] | Some parent \<Rightarrow> parent),
          ig_origin = cv_show cv [Normal n], ig_lines = str_lines raw\<rparr>" for n kind raw
    unfolding project_rule_def
    using that j [OF that(3)] by (intro exI [of _ "[Normal n]"] exI [of _ n] exI [of _ kind] exI [of _ raw]) (simp add: file_name_def)
  from this [of "''.gitignore''" Gitignore] this [of "''.ignore''" IgnoreFile] assms show ?thesis
    by (auto simp: root_ignores_def frozen_ignore_file_def warn_def names j ignore_file_kind_def split: sum.splits if_splits)
qed

lemma discovered_item_is_the_projects:
  assumes "s \<in> set (pd_ignores (discover_item cv root_dir e found d))" "s \<notin> set (pd_ignores found)"
    and "Yielded e \<in> set (cv_walk cv d root_dir (discovery_admits root_dir))"
  shows "project_rule cv d root_dir s"
proof -
  from assms(1,2) obtain relative kind where r: "we_type e = Some TFile" "strip_path_prefix (we_path e) root_dir = Some relative"
      "ignore_file_kind (case file_name (we_path e) of None \<Rightarrow> [] | Some name \<Rightarrow> name) = Some kind"
      "s \<in> set (pd_ignores (frozen_ignore_file cv d root_dir relative kind found))"
    by (auto simp: discover_item_def Let_def split: option.splits if_splits)
  have p: "we_path e = root_dir @ relative"
    using r(2) by (auto simp: strip_path_prefix_def prefix_def split: if_splits)
  obtain name where name: "file_name (root_dir @ relative) = Some name" "ignore_file_kind name = Some kind"
    using r(3) p by (auto simp: ignore_file_kind_def split: option.splits if_splits)
  obtain raw where "read_to_string_kind d (join_path root_dir relative) = Inr raw"
      "s = \<lparr>ig_kind = kind, ig_base = from_path (case path_parent relative of None \<Rightarrow> [] | Some parent \<Rightarrow> parent),
          ig_origin = cv_show cv relative, ig_lines = str_lines raw\<rparr>"
    using r(4) assms(2) by (auto simp: frozen_ignore_file_def warn_def split: sum.splits)
  then show ?thesis unfolding project_rule_def using name assms(3) r(1) p by blast
qed

lemma discovered_rules_loop:
  assumes "discovery_loop cv root_dir started seen events found w = (Inr found', w')"
    and "\<forall>e. Yielded e \<in> set events \<longrightarrow> Yielded e \<in> set (cv_walk cv (cw_disk w) root_dir (discovery_admits root_dir))"
    and "\<forall>s \<in> set (pd_ignores found). project_rule cv (cw_disk w) root_dir s"
  shows "\<forall>s \<in> set (pd_ignores found'). project_rule cv (cw_disk w) root_dir s"
  using assms
proof (induction events arbitrary: seen found w)
  case (Cons event events)
  let ?w = "w\<lparr>cw_clock := Suc (cw_clock w)\<rparr>"
  show ?case
  proof (cases "\<exists>e. event = Rejected e")
    case True
    then show ?thesis using Cons.prems by (auto intro: Cons.IH [rule_format])
  next
    case False
    let ?found = "case event of Yielded e \<Rightarrow> discover_item cv root_dir e found (cw_disk w) | _ \<Rightarrow> found"
    have "pd_ignores found' = pd_ignores found
        \<or> discovery_loop cv root_dir started (Suc seen) events ?found ?w = (Inr found', w')"
      using Cons.prems(1) False
      by (cases event) (auto simp: act_bind_Inr_iff on_disk_Inr_iff read_clock_def warn_def Let_def split: if_splits)
    moreover have "\<forall>s \<in> set (pd_ignores ?found). project_rule cv (cw_disk ?w) root_dir s"
    proof
      fix s assume s: "s \<in> set (pd_ignores ?found)"
      show "project_rule cv (cw_disk ?w) root_dir s"
      proof (cases "s \<in> set (pd_ignores found)")
        case True
        then show ?thesis using Cons.prems(3) by simp
      next
        case False
        with s obtain e where "event = Yielded e" and e: "s \<in> set (pd_ignores (discover_item cv root_dir e found (cw_disk w)))"
          by (cases event) auto
        then have "Yielded e \<in> set (event # events)" by simp
        with Cons.prems(2) have "Yielded e \<in> set (cv_walk cv (cw_disk w) root_dir (discovery_admits root_dir))" by blast
        from discovered_item_is_the_projects [OF e False this] have "project_rule cv (cw_disk w) root_dir s" .
        then show ?thesis by simp
      qed
    qed
    ultimately show ?thesis
      using Cons.prems(2,3) Cons.IH [of "Suc seen" ?found ?w] by auto
  qed
qed simp

lemma discovered_rules_are_the_projects:
  assumes "discover_policy_inputs cv root_dir w = (Inr found, w')"
  shows "\<forall>s \<in> set (pd_ignores found). project_rule cv (cw_disk w) root_dir s"
proof -
  let ?w = "w\<lparr>cw_clock := Suc (cw_clock w)\<rparr>"
  have "pd_ignores found = [] \<or> (\<exists>started found' t1.
      discovery_loop cv root_dir started 0 (cv_walk cv (cw_disk w) root_dir (discovery_admits root_dir))
        (root_ignores cv root_dir (cw_disk w)) ?w = (Inr found', t1) \<and> found = settle_discovery found')"
    using assms unfolding discover_policy_inputs_def
    by (auto simp: act_bind_Inr_iff on_disk_Inr_iff read_clock_def split: if_splits)
  then show ?thesis
    using discovered_rules_loop [of cv root_dir _ 0 "cv_walk cv (cw_disk w) root_dir (discovery_admits root_dir)"
        "root_ignores cv root_dir (cw_disk w)" ?w] root_rules_are_the_projects
    by (fastforce simp: settle_discovery_def)
qed

text \<open>
  C28: The policy of a result trusts the admitted Git observation, has the admitted budgets and no
  output directories, and takes its ignore rules from the project's own files alone: every rule set is the
  content of a \<open>.gitignore\<close> or \<open>.ignore\<close> in the root of the workspace or of an ordinary file of that name the
  walk below the root found, based at the directory of that file. Another answer of Git, of the ecosystem
  commands or of the user's environment gives the same policy. One of the two files in the root may be a
  link, which is followed; below the root links are not read.
\<close>

theorem result_policy_ignores_the_host:
  assumes "freeze_result_projection_policy cv root_dir admission w = (Inr policy, w')"
  shows "freeze_result_projection_policy (elsewhere cv git query xdg home) root_dir admission w = (Inr policy, w')
    \<and> require_frozen_git_hydration policy = require_frozen_git_hydration admission
    \<and> wp_budgets policy = wp_budgets admission \<and> wp_output_roots policy = []
    \<and> (\<forall>s \<in> set (wp_ignores policy). project_rule cv (cw_disk w) root_dir s)"
proof -
  obtain h found frozen_at w1 w2 where h: "require_frozen_git_hydration admission = Inr h"
      and found: "discover_policy_inputs cv root_dir w = (Inr found, w1)"
      and policy: "policy =
        \<lparr>wp_schema_version = WORKSPACE_CAPTURE_POLICY_VERSION, wp_frozen_at = frozen_at, wp_ignores = pd_ignores found,
         wp_frozen_git_hydration = Some h, wp_frozen_tracked_paths = fh_tracked_paths h,
         wp_output_roots = [], wp_budgets = wp_budgets admission, wp_warnings = pd_warnings found,
         wp_frozen_git_head = fh_head h, wp_frozen_git_index_sha256 = fh_index_sha256 h\<rparr>"
    using assms by (auto simp: freeze_result_projection_policy_def act_bind_Inr_iff)
  have "freeze_result_projection_policy (elsewhere cv git query xdg home) root_dir admission w =
      freeze_result_projection_policy cv root_dir admission w"
    by (simp add: freeze_result_projection_policy_def discovery_elsewhere utc_now_def)
  then show ?thesis using assms h discovered_rules_are_the_projects [OF found] required_hydration(2) [OF h]
    by (simp add: policy require_frozen_git_hydration_def)
qed

end
