(* ===== verification/Capture_Proof.thy ===== *)
theory Capture_Proof
  imports Workspace_Capture
begin

text \<open>
  What a capture promises: it changes nothing, stays within its budgets, admits only what its projection
  allows, and when it is complete it holds every entry the walk found, with every refusal reported.
\<close>

section \<open>A capture only looks\<close>

lemma looks_traverse: "looks (traverse cv boundary budgets started tc events st)"
  by (induction cv boundary budgets started tc events st rule: traverse.induct) (auto intro!: looks_bind)

lemma looks_summarize: "looks (summarize_omitted_subtree cv root_dir p deadline)"
proof -
  have "looks (summarize_loop cv root_dir deadline started events scan)" for started events scan
    by (induction cv root_dir deadline started events scan rule: summarize_loop.induct) (auto intro!: looks_bind)
  then show ?thesis
    by (auto simp: summarize_omitted_subtree_def Let_def split: prod.splits intro!: looks_bind)
qed

lemma looks_summarize_pruned: "looks (summarize_pruned cv boundary root_dir deadline pruned st)"
  by (induction cv boundary root_dir deadline pruned st rule: summarize_pruned.induct)
    (auto intro!: looks_bind looks_summarize)

lemma looks_capture [intro!]: "looks (capture_within cv boundary root_dir policy projection purpose strict)"
  by (auto simp: capture_within_def split: prod.splits
      intro!: looks_bind looks_traverse looks_summarize_pruned)

lemma looks_capture_workspace [intro!]:
  "looks (capture_workspace_inner cv root_dir policy projection purpose strict boundary)"
  unfolding looks_def capture_workspace_inner_def by (metis looks_capture looks_def)

text \<open>The stages of a capture that returns.\<close>

lemma capture_stages:
  assumes "capture_within cv boundary root_dir policy projection purpose strict w = (Inr plan, w')"
  obtains digest hydration tc st st2 started t1 t2 w1 w2 w3
  where "traversal_context_of cv root_dir policy projection strict = Inr (digest, hydration, tc)"
    "cw_disk w1 = cw_disk w"
    "traverse cv boundary (wp_budgets policy) started tc (cv_walk cv (cw_disk w) root_dir (admits tc)) capture_start w1
      = (Inr st, w2)"
    "summarize_pruned cv boundary root_dir (started + millis (cb_max_traversal_millis (wp_budgets policy)))
      (cl_pruned st) st w2 = (Inr st2, w3)"
    "plan = plan_of policy hydration (tc_tracked tc) digest purpose t1 t2 (drop_suspicious cv (wp_budgets policy) st2)"
proof -
  note run = assms [unfolded capture_within_def]
  from run obtain w1 w2 w3 w4 t1 started x where a:
      "check_optional cv boundary w = (Inr (), w1)" "utc_now cv w1 = (Inr t1, w2)" "read_clock cv w2 = (Inr started, w3)"
      "act_lift (traversal_context_of cv root_dir policy projection strict) w3 = (Inr x, w4)"
      and rest: "(case x of (digest, hydration, tc) \<Rightarrow>
        act_bind (on_disk (\<lambda>d. Inr (cv_walk cv d root_dir (admits tc)))) (\<lambda>events.
        act_bind (traverse cv boundary (wp_budgets policy) started tc events capture_start) (\<lambda>st.
        act_bind (summarize_pruned cv boundary root_dir (started + millis (cb_max_traversal_millis (wp_budgets policy)))
          (cl_pruned st) st) (\<lambda>st.
        act_bind (check_optional cv boundary) (\<lambda>_.
        act_bind (utc_now cv) (\<lambda>completed_at.
        act_return (plan_of policy hydration (tc_tracked tc) digest purpose t1 completed_at
          (drop_suspicious cv (wp_budgets policy) st)))))))) w4 = (Inr plan, w')"
    by (elim act_bindE) (auto simp del: act_run)
  obtain digest hydration tc where x: "x = (digest, hydration, tc)" by (cases x)
  have d: "cw_disk w4 = cw_disk w"
    using looksD(2) [OF looks_check_optional a(1)] looksD(2) [OF looks_intros(5) a(2)] looksD(2) [OF looks_intros(4) a(3)] a(4)
    by simp
  from rest obtain events st w5 st2 w6 w7 w8 t2 where
      "on_disk (\<lambda>d. Inr (cv_walk cv d root_dir (admits tc))) w4 = (Inr events, w5)"
      "traverse cv boundary (wp_budgets policy) started tc events capture_start w5 = (Inr st, w6)"
      "summarize_pruned cv boundary root_dir (started + millis (cb_max_traversal_millis (wp_budgets policy)))
          (cl_pruned st) st w6 = (Inr st2, w7)"
      "act_return (plan_of policy hydration (tc_tracked tc) digest purpose t1 t2
          (drop_suspicious cv (wp_budgets policy) st2)) w8 = (Inr plan, w')"
    unfolding x prod.case by (elim act_bindE) (simp del: act_run)
  moreover have "traversal_context_of cv root_dir policy projection strict = Inr (digest, hydration, tc)"
    using a(4) x by simp
  ultimately show ?thesis using that d by (auto simp: on_disk_Inr_iff)
qed

section \<open>Stepping through the traversal\<close>

text \<open>Whatever every step of the loop keeps, the traversal keeps.\<close>

abbreviation timed_out :: "capture_loop \<Rightarrow> capture_loop" where
  "timed_out st \<equiv> (push_omission (omitted [CurDir] TraversalDeadline (cl_files st) (cl_bytes st) True) st)\<lparr>cl_stopped := True\<rparr>"

abbreviation walk_failed :: "capture_loop \<Rightarrow> capture_loop" where
  "walk_failed st \<equiv> push_omission (omitted [CurDir] IoFailure 0 0 True) st"

definition event_step :: "capture_budgets \<Rightarrow> traversal_context \<Rightarrow> walk_event \<Rightarrow> capture_loop \<Rightarrow> disk \<Rightarrow> capture_loop res" where
  "event_step budgets tc event st = (\<lambda>d. case event of
     Yielded e \<Rightarrow> capture_item budgets tc e st d
   | _ \<Rightarrow> Inr (walk_failed st))"

lemma traverse_step:
  assumes "traverse cv boundary budgets started tc (event # events) st w = (Inr st', w')"
  shows "(\<exists>e. event = Rejected e
      \<and> traverse cv boundary budgets started tc events (st\<lparr>cl_pruned := note_rejected tc e (cl_pruned st)\<rparr>) w = (Inr st', w'))
    \<or> st' = timed_out st
    \<or> (\<exists>st1 w1. cw_disk w1 = cw_disk w
      \<and> ((\<exists>e. event = Yielded e \<and> capture_item budgets tc e st (cw_disk w) = Inr st1)
        \<or> event = WalkFailed \<and> st1 = walk_failed st)
      \<and> (if cl_stopped st1 then st' = st1
         else traverse cv boundary budgets started tc events st1 w1 = (Inr st', w')))"
proof (cases "\<exists>e. event = Rejected e")
  case True
  then show ?thesis using assms by auto
next
  case False
  have eq: "traverse cv boundary budgets started tc (event # events) st =
    act_bind (check_optional cv boundary) (\<lambda>_. act_bind (read_clock cv) (\<lambda>now.
    (if millis (cb_max_traversal_millis budgets) < now - started then act_return (timed_out st)
     else act_bind (on_disk (event_step budgets tc event st)) (\<lambda>st.
      if cl_stopped st then act_return st else traverse cv boundary budgets started tc events st))))"
    using False by (cases event) (simp_all add: event_step_def cong: if_cong)
  obtain w1 now w2 where w: "check_optional cv boundary w = (Inr (), w1)" "read_clock cv w1 = (Inr now, w2)"
      "(if millis (cb_max_traversal_millis budgets) < now - started then act_return (timed_out st)
       else act_bind (on_disk (event_step budgets tc event st)) (\<lambda>st.
        if cl_stopped st then act_return st else traverse cv boundary budgets started tc events st)) w2 = (Inr st', w')"
    using assms unfolding eq by (elim act_bindE) auto
  have d: "cw_disk w2 = cw_disk w"
    using looksD(2) [OF looks_check_optional w(1)] looksD(2) [OF looks_intros(4) w(2)] by simp
  show ?thesis
  proof (cases "millis (cb_max_traversal_millis budgets) < now - started")
    case True
    then show ?thesis using w(3) by auto
  next
    case late: False
    then obtain st1 where st1: "event_step budgets tc event st (cw_disk w) = Inr st1"
        "(if cl_stopped st1 then act_return st1 else traverse cv boundary budgets started tc events st1) w2 = (Inr st', w')"
      using w(3) d by (auto simp: act_bind_Inr_iff on_disk_Inr_iff)
    have "(\<exists>e. event = Yielded e \<and> capture_item budgets tc e st (cw_disk w) = Inr st1)
        \<or> event = WalkFailed \<and> st1 = walk_failed st"
      using st1(1) False by (cases event) (auto simp: event_step_def)
    moreover have "if cl_stopped st1 then st' = st1
        else traverse cv boundary budgets started tc events st1 w2 = (Inr st', w')"
      using st1(2) by (cases "cl_stopped st1") auto
    ultimately show ?thesis using d by blast
  qed
qed

text \<open>Whatever every step of the loop keeps, the traversal keeps.\<close>

lemma traverse_invariant:
  assumes run: "traverse cv boundary budgets started tc events st w = (Inr st', w')" "P st"
    and rejected: "\<And>e st. Rejected e \<in> set events \<Longrightarrow> P st \<Longrightarrow> P (st\<lparr>cl_pruned := note_rejected tc e (cl_pruned st)\<rparr>)"
    and item: "\<And>e st st'. Yielded e \<in> set events \<Longrightarrow> P st \<Longrightarrow> capture_item budgets tc e st (cw_disk w) = Inr st' \<Longrightarrow> P st'"
    and failed: "\<And>st. P st \<Longrightarrow> P (walk_failed st)"
    and late: "\<And>st. P st \<Longrightarrow> P (timed_out st)"
  shows "P st'"
proof -
  have "traverse cv boundary budgets started tc evs st v = (Inr st', w') \<Longrightarrow> P st \<Longrightarrow> cw_disk v = cw_disk w
      \<Longrightarrow> set evs \<subseteq> set events \<Longrightarrow> P st'" for evs st v
  proof (induction evs arbitrary: st v)
    case Nil
    then show ?case by simp
  next
    case (Cons event evs)
    from traverse_step [OF Cons.prems(1)] show ?case
    proof (elim disjE exE conjE)
      fix e
      assume "event = Rejected e" "traverse cv boundary budgets started tc evs (st\<lparr>cl_pruned := note_rejected tc e (cl_pruned st)\<rparr>) v = (Inr st', w')"
      moreover from this(1) have "P (st\<lparr>cl_pruned := note_rejected tc e (cl_pruned st)\<rparr>)"
        using rejected Cons.prems(2,4) by simp
      ultimately show "P st'" using Cons by simp
    next
      assume "st' = timed_out st"
      then show "P st'" using late Cons.prems(2) by simp
    next
      fix st1 w1 e
      assume a: "cw_disk w1 = cw_disk v" "event = Yielded e" "capture_item budgets tc e st (cw_disk v) = Inr st1"
        "if cl_stopped st1 then st' = st1 else traverse cv boundary budgets started tc evs st1 w1 = (Inr st', w')"
      have "P st1" using item [of e st st1] a(2,3) Cons.prems by simp
      then show "P st'" using a(1,4) Cons.IH [of st1 w1] Cons.prems(3,4) by (cases "cl_stopped st1") auto
    next
      fix st1 w1
      assume a: "cw_disk w1 = cw_disk v" "st1 = walk_failed st"
        "if cl_stopped st1 then st' = st1 else traverse cv boundary budgets started tc evs st1 w1 = (Inr st', w')"
      have "P st1" using failed a(2) Cons.prems by simp
      then show "P st'" using a(1,3) Cons.IH [of st1 w1] Cons.prems(3,4) by (cases "cl_stopped st1") auto
    qed
  qed
  from this [OF run] show ?thesis by simp
qed

section \<open>What a step adds\<close>

lemma push_omission_simps [simp]:
  "cl_entries (push_omission x st) = cl_entries st" "cl_files (push_omission x st) = cl_files st"
  "cl_bytes (push_omission x st) = cl_bytes st" "cl_stats (push_omission x st) = cl_stats st"
  "cl_pruned (push_omission x st) = cl_pruned st" "cl_stopped (push_omission x st) = cl_stopped st"
  "cl_omissions (push_omission x st) \<noteq> []"
  by (auto simp: push_omission_def MAX_RECORDED_OMISSIONS_def)

lemma push_omission_keeps: "x \<in> set (cl_omissions st) \<Longrightarrow> x \<in> set (cl_omissions (push_omission y st))"
  by (simp add: push_omission_def)

definition leaf_present :: "disk \<Rightarrow> path \<Rightarrow> walk_entry \<Rightarrow> bool" where
  "leaf_present d root_dir e \<longleftrightarrow>
    entry_relative root_dir e \<noteq> [] \<and> we_type e \<noteq> Some TDir \<and> lstat_kind d (we_path e) \<noteq> Inl IoNotFound"

definition entry_of :: "traversal_context \<Rightarrow> walk_entry \<Rightarrow> capture_entry_kind \<Rightarrow> u64 \<Rightarrow> capture_entry" where
  "entry_of tc e kind len =
    \<lparr>ce_relative = entry_relative (tc_root tc) e, ce_source = we_path e, ce_kind = kind, ce_size = len,
     ce_tracked = entry_relative (tc_root tc) e \<in> set (tc_tracked tc)\<rparr>"

text \<open>A step either leaves the entries alone or adds the one entry, within every budget.\<close>

lemma capture_item_cases:
  assumes "capture_item budgets tc e st d = Inr st'"
  shows "cl_pruned st' = cl_pruned st"
    and "cl_entries st' = cl_entries st \<and> (leaf_present d (tc_root tc) e \<longrightarrow> cl_omissions st' \<noteq> [])
        \<and> (st' = st \<or> (\<exists>x. st' = push_omission x st) \<or>
            (\<exists>len. cl_files st' = saturating_add_u64 (cl_files st) 1 \<and> cl_bytes st' = saturating_add_u64 (cl_bytes st) len))
      \<or> (\<exists>kind len. cl_entries st' = cl_entries st @ [entry_of tc e kind len] \<and> cl_omissions st' = cl_omissions st
        \<and> we_type e \<noteq> Some TDir \<and> entry_relative (tc_root tc) e \<noteq> []
        \<and> cl_stopped st' = cl_stopped st
        \<and> cl_files st' = saturating_add_u64 (cl_files st) 1 \<and> cl_bytes st' = saturating_add_u64 (cl_bytes st) len
        \<and> len \<le> cb_max_file_bytes budgets \<and> cl_files st' \<le> cb_max_files budgets \<and> cl_bytes st' \<le> cb_max_total_bytes budgets)"
    and "cl_stopped st' \<longrightarrow> cl_stopped st \<or> cl_omissions st' \<noteq> []"
    and "cl_omissions st \<noteq> [] \<longrightarrow> cl_omissions st' \<noteq> []"
    and "list_all (\<lambda>x. makes_partial (om_reason x)) (cl_omissions st) \<longrightarrow>
      list_all (\<lambda>x. makes_partial (om_reason x)) (cl_omissions st')"
proof -
  obtain relative where relative: "strip_path_prefix (we_path e) (tc_root tc) = Some relative"
    using assms by (auto simp: capture_item_def result_simps)
  then have rel: "entry_relative (tc_root tc) e = relative" by (simp add: entry_relative_def)
  define counted where "counted node len = st\<lparr>cl_files := saturating_add_u64 (cl_files st) 1,
      cl_bytes := saturating_add_u64 (cl_bytes st) len,
      cl_stats := update_subtree_stats relative len node (cl_stats st)\<rparr>" for node len
  consider (skip) "st' = st" "\<not> leaf_present d (tc_root tc) e"
    | (omit) x where "st' = push_omission x st" "makes_partial (om_reason x)"
    | (leaf) node kind len where
        "st' = admit_leaf budgets (tc_tracked tc) (we_path e) relative node kind len st"
        "we_type e \<noteq> Some TDir" "relative \<noteq> []"
    using assms relative rel
    by (cases "lstat_kind d (we_path e)")
      (auto simp: capture_item_def leaf_present_def result_simps omitted_def split: if_splits option.splits prod.splits)
  note cases = this
  have leaf: "admit_leaf budgets (tc_tracked tc) (we_path e) relative node kind len st =
      (if cb_max_file_bytes budgets < len then push_omission (omitted relative OversizeFile 1 len False) (counted node len)
       else if cb_max_files budgets < cl_files (counted node len) then
         (push_omission (omitted relative FileBudget (cl_files (counted node len)) (cl_bytes (counted node len)) True)
           (counted node len))\<lparr>cl_stopped := True\<rparr>
       else if cb_max_total_bytes budgets < cl_bytes (counted node len) then
         (push_omission (omitted relative ByteBudget (cl_files (counted node len)) (cl_bytes (counted node len)) True)
           (counted node len))\<lparr>cl_stopped := True\<rparr>
       else (counted node len)\<lparr>cl_entries := cl_entries st @ [entry_of tc e kind len]\<rparr>)" for node kind len
    by (simp add: admit_leaf_def counted_def Let_def entry_of_def rel)
  have counted: "cl_entries (counted node len) = cl_entries st" "cl_omissions (counted node len) = cl_omissions st"
      "cl_stopped (counted node len) = cl_stopped st" "cl_pruned (counted node len) = cl_pruned st"
      "cl_files (counted node len) = saturating_add_u64 (cl_files st) 1"
      "cl_bytes (counted node len) = saturating_add_u64 (cl_bytes st) len" for node len
    by (simp_all add: counted_def)
  show "cl_pruned st' = cl_pruned st" by (cases rule: cases) (auto simp: leaf counted)
  show "cl_entries st' = cl_entries st \<and> (leaf_present d (tc_root tc) e \<longrightarrow> cl_omissions st' \<noteq> [])
        \<and> (st' = st \<or> (\<exists>x. st' = push_omission x st) \<or>
            (\<exists>len. cl_files st' = saturating_add_u64 (cl_files st) 1 \<and> cl_bytes st' = saturating_add_u64 (cl_bytes st) len))
      \<or> (\<exists>kind len. cl_entries st' = cl_entries st @ [entry_of tc e kind len] \<and> cl_omissions st' = cl_omissions st
        \<and> we_type e \<noteq> Some TDir \<and> entry_relative (tc_root tc) e \<noteq> []
        \<and> cl_stopped st' = cl_stopped st
        \<and> cl_files st' = saturating_add_u64 (cl_files st) 1 \<and> cl_bytes st' = saturating_add_u64 (cl_bytes st) len
        \<and> len \<le> cb_max_file_bytes budgets \<and> cl_files st' \<le> cb_max_files budgets \<and> cl_bytes st' \<le> cb_max_total_bytes budgets)"
    by (cases rule: cases) (auto simp: leaf counted not_less rel)
  show "cl_stopped st' \<longrightarrow> cl_stopped st \<or> cl_omissions st' \<noteq> []"
    by (cases rule: cases) (auto simp: leaf counted)
  show "cl_omissions st \<noteq> [] \<longrightarrow> cl_omissions st' \<noteq> []"
    by (cases rule: cases) (auto simp: leaf counted)
  show "list_all (\<lambda>x. makes_partial (om_reason x)) (cl_omissions st) \<longrightarrow>
      list_all (\<lambda>x. makes_partial (om_reason x)) (cl_omissions st')"
    by (cases rule: cases) (auto simp: leaf counted push_omission_def omitted_def)
qed

section \<open>Where entries come from\<close>

text \<open>Every entry is a walked leaf, with its relative path and whether it is tracked.\<close>

definition from_walk :: "traversal_context \<Rightarrow> walk_event list \<Rightarrow> capture_entry \<Rightarrow> bool" where
  "from_walk tc events x \<longleftrightarrow>
    (\<exists>e kind len. Yielded e \<in> set events \<and> x = entry_of tc e kind len
      \<and> we_type e \<noteq> Some TDir \<and> entry_relative (tc_root tc) e \<noteq> [])"

lemma traverse_entries:
  assumes "traverse cv boundary budgets started tc events capture_start w = (Inr st', w')"
  shows "list_all (\<lambda>x. from_walk tc events x \<and> ce_size x \<le> cb_max_file_bytes budgets) (cl_entries st')"
  using assms
proof (rule traverse_invariant)
  show "list_all (\<lambda>x. from_walk tc events x \<and> ce_size x \<le> cb_max_file_bytes budgets) (cl_entries capture_start)"
    by (simp add: capture_start_def)
next
  fix e st st'
  assume "Yielded e \<in> set events"
    "list_all (\<lambda>x. from_walk tc events x \<and> ce_size x \<le> cb_max_file_bytes budgets) (cl_entries st)"
    "capture_item budgets tc e st (cw_disk w) = Inr st'"
  then show "list_all (\<lambda>x. from_walk tc events x \<and> ce_size x \<le> cb_max_file_bytes budgets) (cl_entries st')"
    using capture_item_cases(2) [of budgets tc e st "cw_disk w" st']
    by (auto simp: from_walk_def entry_of_def)
qed simp_all

section \<open>Budgets\<close>

lemma saturating_below:
  assumes "saturating_add_u64 a b < - 1"
  shows "unat (saturating_add_u64 a b) = unat a + unat b" "a < - 1"
proof -
  have m: "unat (- 1 :: u64) = 2 ^ 64 - 1" by (simp add: unsigned_minus_1_eq_mask mask_eq_exp_minus_1)
  have "unat (saturating_add_u64 a b) < 2 ^ 64 - 1" using assms by (simp add: word_less_nat_alt m)
  then show "unat (saturating_add_u64 a b) = unat a + unat b" by (simp add: unat_saturating_add_u64)
  then show "a < - 1" using \<open>unat (saturating_add_u64 a b) < 2 ^ 64 - 1\<close> by (simp add: word_less_nat_alt m)
qed

lemma u64_below: "unat (a :: u64) < 2 ^ 64"
  using unsigned_less [of a] by simp

lemma saturating_grows: "a \<le> saturating_add_u64 a b"
  using u64_below [of a] by (simp add: word_le_nat_alt unat_saturating_add_u64)

text \<open>The sums of the entries are below the limits, and below the counters as long as these count.\<close>

definition within_budget :: "capture_budgets \<Rightarrow> capture_loop \<Rightarrow> bool" where
  "within_budget budgets st \<longleftrightarrow>
    length (cl_entries st) \<le> unat (cb_max_files budgets)
    \<and> (\<Sum>x\<leftarrow>cl_entries st. unat (ce_size x)) \<le> unat (cb_max_total_bytes budgets)
    \<and> (cl_files st < - 1 \<longrightarrow> length (cl_entries st) \<le> unat (cl_files st))
    \<and> (cl_bytes st < - 1 \<longrightarrow> (\<Sum>x\<leftarrow>cl_entries st. unat (ce_size x)) \<le> unat (cl_bytes st))"

lemma within_budget_count:
  assumes "within_budget budgets st" "cl_entries st' = cl_entries st"
    "cl_files st \<le> cl_files st'" "cl_bytes st \<le> cl_bytes st'"
  shows "within_budget budgets st'"
proof -
  have "cl_files st < - 1" if "cl_files st' < - 1" using assms(3) that by (rule le_less_trans)
  moreover have "cl_bytes st < - 1" if "cl_bytes st' < - 1" using assms(4) that by (rule le_less_trans)
  moreover have "unat (cl_files st) \<le> unat (cl_files st')" "unat (cl_bytes st) \<le> unat (cl_bytes st')"
    using assms(3,4) by (simp_all add: word_le_nat_alt)
  ultimately show ?thesis using assms(1,2) unfolding within_budget_def by fastforce
qed

lemma within_budget_add:
  assumes st: "within_budget budgets st" and limits: "cb_max_files budgets < - 1" "cb_max_total_bytes budgets < - 1"
    and st': "cl_entries st' = cl_entries st @ [x]"
      "cl_files st' = saturating_add_u64 (cl_files st) 1" "cl_bytes st' = saturating_add_u64 (cl_bytes st) (ce_size x)"
      "cl_files st' \<le> cb_max_files budgets" "cl_bytes st' \<le> cb_max_total_bytes budgets"
  shows "within_budget budgets st'"
proof -
  have f: "unat (cl_files st') = unat (cl_files st) + 1" "cl_files st < - 1"
    using saturating_below [of "cl_files st" 1] st'(2,4) limits(1) by (auto dest: le_less_trans)
  have b: "unat (cl_bytes st') = unat (cl_bytes st) + unat (ce_size x)" "cl_bytes st < - 1"
    using saturating_below [of "cl_bytes st" "ce_size x"] st'(3,5) limits(2) by (auto dest: le_less_trans)
  have "length (cl_entries st') \<le> unat (cl_files st')" "(\<Sum>x\<leftarrow>cl_entries st'. unat (ce_size x)) \<le> unat (cl_bytes st')"
    using st f b by (simp_all add: within_budget_def st'(1))
  then show ?thesis using st'(4,5) by (auto simp: within_budget_def word_le_nat_alt)
qed

lemma traverse_within_budget:
  assumes "traverse cv boundary budgets started tc events capture_start w = (Inr st', w')"
    and limits: "cb_max_files budgets < - 1" "cb_max_total_bytes budgets < - 1"
  shows "within_budget budgets st'"
  using assms(1)
proof (rule traverse_invariant)
  show "within_budget budgets capture_start" by (simp add: within_budget_def capture_start_def)
next
  fix e st st'
  assume st: "within_budget budgets st" and item: "capture_item budgets tc e st (cw_disk w) = Inr st'"
  from capture_item_cases(2) [OF item] show "within_budget budgets st'"
  proof (elim disjE exE conjE)
    assume "st' = st" then show ?thesis using st by simp
  next
    fix x assume "st' = push_omission x st"
    then show ?thesis using st by (simp add: within_budget_def)
  next
    fix len
    assume "cl_entries st' = cl_entries st" "cl_files st' = saturating_add_u64 (cl_files st) 1"
      "cl_bytes st' = saturating_add_u64 (cl_bytes st) len"
    then show ?thesis using st by (intro within_budget_count [OF st]) (simp_all add: saturating_grows)
  next
    fix kind len
    assume "cl_entries st' = cl_entries st @ [entry_of tc e kind len]" "cl_files st' = saturating_add_u64 (cl_files st) 1"
      "cl_bytes st' = saturating_add_u64 (cl_bytes st) len" "cl_files st' \<le> cb_max_files budgets"
      "cl_bytes st' \<le> cb_max_total_bytes budgets"
    then show ?thesis
      using within_budget_add [OF st limits, of st' "entry_of tc e kind len"] by (simp add: entry_of_def)
  qed
qed (simp_all add: within_budget_def)

section \<open>Nothing is lost in the traversal\<close>

definition ledger_covers :: "prune_ledger \<Rightarrow> path \<Rightarrow> bool" where
  "ledger_covers pruned p \<longleftrightarrow> (\<exists>q \<in> set (map fst pruned). prefix q p)"

lemma record_pruned_covers:
  "ledger_covers (record_pruned p reason pruned) p"
  "ledger_covers pruned q \<Longrightarrow> ledger_covers (record_pruned p reason pruned) q"
proof -
  have "list_ex (\<lambda>(q, _). prefix q p) pruned \<longleftrightarrow> ledger_covers pruned p"
    by (force simp: ledger_covers_def list_ex_iff)
  then show "ledger_covers (record_pruned p reason pruned) p"
    "ledger_covers pruned q \<Longrightarrow> ledger_covers (record_pruned p reason pruned) q"
    unfolding record_pruned_def ledger_covers_def using btree_map_insert_keys [of p reason pruned]
    by (auto simp del: set_map)
qed

definition benign :: "capture_omission_reason \<Rightarrow> bool" where
  "benign reason \<longleftrightarrow> reason \<in> {FrozenIgnore, GeneratedOutput}"

lemma benign_iff: "benign reason \<longleftrightarrow> \<not> makes_partial reason"
  by (cases reason) (simp_all add: benign_def)

lemma filter_reasons: "filter_capture_entry tc e = Prune reason \<Longrightarrow> benign reason"
  by (auto simp: filter_capture_entry_def benign_def Let_def split: if_splits)

lemma note_rejected_covers:
  "filter_capture_entry tc e = Prune reason \<Longrightarrow> ledger_covers (note_rejected tc e pruned) (entry_relative (tc_root tc) e)"
  "ledger_covers pruned q \<Longrightarrow> ledger_covers (note_rejected tc e pruned) q"
  by (auto simp: note_rejected_def record_pruned_covers split: filter_verdict.splits)

lemma btree_insert_set: "set (btree_map_insert k v m) \<subseteq> insert (k, v) (set m)"
  by (induction k v m rule: btree_map_insert.induct) auto

lemma note_rejected_benign:
  assumes "\<forall>(p, reason) \<in> set pruned. benign reason"
  shows "\<forall>(p, reason) \<in> set (note_rejected tc e pruned). benign reason"
proof (cases "\<exists>reason. filter_capture_entry tc e = Prune reason")
  case True
  then obtain reason where reason: "filter_capture_entry tc e = Prune reason" "benign reason"
    using filter_reasons by blast
  have "set (note_rejected tc e pruned) \<subseteq> insert (entry_relative (tc_root tc) e, reason) (set pruned)"
    using btree_insert_set [of "entry_relative (tc_root tc) e" reason pruned]
    by (auto simp: note_rejected_def record_pruned_def reason(1))
  then show ?thesis using assms reason(2) by fastforce
next
  case False
  then show ?thesis using assms by (auto simp: note_rejected_def split: filter_verdict.splits)
qed

lemma traverse_ledger_benign:
  assumes "traverse cv boundary budgets started tc events capture_start w = (Inr st', w')"
  shows "\<forall>(p, reason) \<in> set (cl_pruned st'). benign reason"
  using assms
proof (rule traverse_invariant)
  show "\<forall>(p, reason) \<in> set (cl_pruned capture_start). benign reason" by (simp add: capture_start_def)
next
  fix e st
  assume "\<forall>(p, reason) \<in> set (cl_pruned st). benign reason"
  then show "\<forall>(p, reason) \<in> set (cl_pruned (st\<lparr>cl_pruned := note_rejected tc e (cl_pruned st)\<rparr>)). benign reason"
    using note_rejected_benign by simp
next
  fix e st st'
  assume "\<forall>(p, reason) \<in> set (cl_pruned st). benign reason" "capture_item budgets tc e st (cw_disk w) = Inr st'"
  then show "\<forall>(p, reason) \<in> set (cl_pruned st'). benign reason" using capture_item_cases(1) by metis
qed simp_all

text \<open>
  Unless an omission was recorded, every event was handled: the walk reported no failure, every leaf that
  is there has its entry, and every refusal that has a reason is covered by the ledger.
\<close>

lemma traverse_covers:
  assumes "traverse cv boundary budgets started tc events st w = (Inr st', w')" "cl_omissions st' = []"
    "\<not> cl_stopped st"
  shows "cl_omissions st = [] \<and> set (cl_entries st) \<subseteq> set (cl_entries st')
    \<and> (\<forall>q. ledger_covers (cl_pruned st) q \<longrightarrow> ledger_covers (cl_pruned st') q)
    \<and> \<not> cl_stopped st'
    \<and> WalkFailed \<notin> set events
    \<and> (\<forall>e. Yielded e \<in> set events \<longrightarrow> leaf_present (cw_disk w) (tc_root tc) e \<longrightarrow>
        (\<exists>kind len. entry_of tc e kind len \<in> set (cl_entries st')))
    \<and> (\<forall>e reason. Rejected e \<in> set events \<longrightarrow> filter_capture_entry tc e = Prune reason \<longrightarrow>
        ledger_covers (cl_pruned st') (entry_relative (tc_root tc) e))"
  using assms
proof (induction events arbitrary: st w)
  case Nil
  then show ?case by simp
next
  case (Cons event events)
  from traverse_step [OF Cons.prems(1)] show ?case
  proof (elim disjE exE conjE)
    fix e
    assume e: "event = Rejected e"
      "traverse cv boundary budgets started tc events (st\<lparr>cl_pruned := note_rejected tc e (cl_pruned st)\<rparr>) w = (Inr st', w')"
    have run: "\<not> cl_stopped (st\<lparr>cl_pruned := note_rejected tc e (cl_pruned st)\<rparr>)" using Cons.prems(3) by simp
    from Cons.IH [OF e(2) Cons.prems(2) run] show ?thesis
      using note_rejected_covers(1) [of tc e] note_rejected_covers(2) [of "cl_pruned st" _ tc e] e(1) by auto
  next
    assume "st' = timed_out st"
    then show ?thesis using Cons.prems(2) by simp
  next
    fix st1 w1 e
    assume e: "cw_disk w1 = cw_disk w" "event = Yielded e" "capture_item budgets tc e st (cw_disk w) = Inr st1"
      "if cl_stopped st1 then st' = st1 else traverse cv boundary budgets started tc events st1 w1 = (Inr st', w')"
    note item = capture_item_cases [OF e(3)]
    show ?thesis
    proof (cases "cl_stopped st1")
      case True
      then show ?thesis using e(4) item(3) Cons.prems(2,3) by simp
    next
      case False
      with e(4) have "traverse cv boundary budgets started tc events st1 w1 = (Inr st', w')" by simp
      note ih = Cons.IH [OF this Cons.prems(2) False]
      then have none: "cl_omissions st1 = []" by blast
      have mine: "\<exists>kind len. entry_of tc e kind len \<in> set (cl_entries st')" if "leaf_present (cw_disk w) (tc_root tc) e"
        using item(2) none ih that by fastforce
      have kept: "set (cl_entries st) \<subseteq> set (cl_entries st')" using item(2) ih by fastforce
      have others: "\<exists>kind len. entry_of tc e' kind len \<in> set (cl_entries st')"
        if "Yielded e' \<in> set (event # events)" "leaf_present (cw_disk w) (tc_root tc) e'" for e'
        using that mine ih e(1,2) by (cases "e' = e") auto
      show ?thesis using item(1,4) none ih e(1,2) kept others by simp
    qed
  next
    fix st1 w1
    assume "st1 = walk_failed st"
      "if cl_stopped st1 then st' = st1 else traverse cv boundary budgets started tc events st1 w1 = (Inr st', w')"
    then show ?thesis using Cons.IH [of st1 w1] Cons.prems(2) by (cases "cl_stopped st1") auto
  qed
qed

lemma traverse_omissions_partial:
  assumes "traverse cv boundary budgets started tc events capture_start w = (Inr st', w')"
  shows "list_all (\<lambda>x. makes_partial (om_reason x)) (cl_omissions st')"
  using assms
proof (rule traverse_invariant)
  show "list_all (\<lambda>x. makes_partial (om_reason x)) (cl_omissions capture_start)" by (simp add: capture_start_def)
next
  fix e st st'
  assume "list_all (\<lambda>x. makes_partial (om_reason x)) (cl_omissions st)" "capture_item budgets tc e st (cw_disk w) = Inr st'"
  then show "list_all (\<lambda>x. makes_partial (om_reason x)) (cl_omissions st')" using capture_item_cases(5) by blast
qed (simp_all add: push_omission_def omitted_def)

section \<open>After the traversal\<close>

definition push_all :: "capture_omission list \<Rightarrow> capture_loop \<Rightarrow> capture_loop" where
  "push_all xs st = foldl (\<lambda>st x. push_omission x st) st xs"

lemma push_all_simps [simp]:
  "push_all [] st = st" "push_all (x # xs) st = push_all xs (push_omission x st)"
  by (simp_all add: push_all_def)

lemma push_all_keeps [simp]:
  "cl_entries (push_all xs st) = cl_entries st" "cl_stats (push_all xs st) = cl_stats st"
  "cl_stopped (push_all xs st) = cl_stopped st" "cl_files (push_all xs st) = cl_files st"
  "cl_bytes (push_all xs st) = cl_bytes st" "cl_pruned (push_all xs st) = cl_pruned st"
  by (induction xs arbitrary: st) simp_all

lemma push_all_member: "x \<in> set (cl_omissions st) \<Longrightarrow> x \<in> set (cl_omissions (push_all ys st))"
  by (induction ys arbitrary: st) (auto intro: push_omission_keeps)

lemma truncated_positive: "saturating_add_u64 a 1 \<noteq> 0"
  using unat_saturating_add_u64 [of a 1] by (auto simp: unat_eq_0 [symmetric])

text \<open>Only the first 256 omissions are recorded; when none is counted as truncated, all of them are.\<close>

lemma push_all_records:
  "length (cl_omissions st) \<le> MAX_RECORDED_OMISSIONS \<Longrightarrow>
    cl_omissions (push_all xs st) = take MAX_RECORDED_OMISSIONS (cl_omissions st @ xs)"
  by (induction xs arbitrary: st) (auto simp: push_omission_def take_Cons' not_less split: if_splits)

lemma push_all_untruncated:
  "cl_truncated (push_all xs st) = 0 \<Longrightarrow> cl_omissions (push_all xs st) = cl_omissions st @ xs \<and> cl_truncated st = 0"
proof (induction xs arbitrary: st)
  case (Cons x xs)
  then have "cl_omissions (push_all (x # xs) st) = cl_omissions (push_omission x st) @ xs" "cl_truncated (push_omission x st) = 0"
    by auto
  then show ?case using truncated_positive [of "cl_truncated st"] by (auto simp: push_omission_def split: if_splits)
qed simp

lemma summarize_pruned_pushes:
  assumes "summarize_pruned cv boundary root_dir deadline pruned st w = (Inr st', w')"
  shows "\<exists>xs. st' = push_all xs st \<and> map (\<lambda>x. (om_path x, om_reason x)) xs = pruned"
  using assms
proof (induction pruned arbitrary: st w)
  case Nil
  then show ?case by (auto intro: exI [of _ "[]"])
next
  case (Cons entry pruned)
  obtain p reason where entry: "entry = (p, reason)" by force
  from Cons.prems obtain w1 summary w2 x where
      "summarize_pruned cv boundary root_dir deadline pruned (push_omission x st) w2 = (Inr st', w')"
      "om_path x = p" "om_reason x = reason"
    unfolding entry summarize_pruned.simps by (elim act_bindE) force
  with Cons.IH obtain xs where "st' = push_all (x # xs) st" "map (\<lambda>x. (om_path x, om_reason x)) xs = pruned"
    by auto
  then show ?case using \<open>om_path x = p\<close> \<open>om_reason x = reason\<close> entry by (intro exI [of _ "x # xs"]) simp
qed

lemma drop_suspicious_eq:
  "drop_suspicious gv budgets st =
    (if cl_stopped st then st
     else push_all (map suspicious_omission (suspicious_subtrees gv (cl_stats st) budgets))
       (st\<lparr>cl_entries := filter (outside_suspicious (suspicious_subtrees gv (cl_stats st) budgets)) (cl_entries st)\<rparr>))"
  by (simp add: drop_suspicious_def push_all_def Let_def foldl_map)

text \<open>The entries of a plan are entries of the traversal; only an untracked one can be dropped again.\<close>

lemma drop_suspicious_entries:
  "set (cl_entries (drop_suspicious gv budgets st)) \<subseteq> set (cl_entries st)"
  "x \<in> set (cl_entries st) \<Longrightarrow> ce_tracked x \<Longrightarrow> x \<in> set (cl_entries (drop_suspicious gv budgets st))"
  by (auto simp: drop_suspicious_eq outside_suspicious_def)

lemma traversal_context_root:
  assumes "traversal_context_of cv root_dir policy projection strict = Inr (digest, hydration, tc)"
  shows "tc_root tc = root_dir" "tc_projection tc = projection"
  using assms by (auto simp: traversal_context_of_def result_simps)

end
