(* ===== verification/Capture_Guarantees.thy ===== *)
theory Capture_Guarantees
  imports Capture_Proof
begin

text \<open>
  The guarantees of a strict capture: complete means that nothing the walk found is missing without a
  report, the projection of a result keeps provider evidence and run state out and tracked files in, and
  the plan stays within the budgets of its policy.
\<close>

section \<open>Walks\<close>

text \<open>
  What the \<open>ignore\<close> crate documents of a filtered walk: it hands out only what the filter takes, and an
  entry is left out only if the filter refused it or a directory above it.
\<close>

definition walk_filters :: "'z capture_env_scheme \<Rightarrow> disk \<Rightarrow> path \<Rightarrow> bool" where
  "walk_filters cv d root_dir \<longleftrightarrow> (\<forall>f e. Yielded e \<in> set (cv_walk cv d root_dir f) \<longrightarrow> f e)"

definition below_root :: "path \<Rightarrow> walk_entry \<Rightarrow> bool" where
  "below_root root_dir e \<longleftrightarrow> prefix root_dir (we_path e)"

definition walk_descends :: "'z capture_env_scheme \<Rightarrow> disk \<Rightarrow> path \<Rightarrow> bool" where
  "walk_descends cv d root_dir \<longleftrightarrow>
    (let every = cv_walk cv d root_dir (\<lambda>_. True) in
     (\<forall>e. Yielded e \<in> set every \<longrightarrow> below_root root_dir e)
     \<and> (\<forall>e e'. Yielded e \<in> set every \<longrightarrow> Yielded e' \<in> set every \<longrightarrow> strict_prefix (we_path e') (we_path e)
          \<longrightarrow> we_type e' = Some TDir)
     \<and> (\<forall>f e. Yielded e \<in> set every \<longrightarrow> f e
          \<longrightarrow> (\<forall>e'. Yielded e' \<in> set every \<longrightarrow> strict_prefix (we_path e') (we_path e) \<longrightarrow> f e')
          \<longrightarrow> Yielded e \<in> set (cv_walk cv d root_dir f)))"

lemma below_root_relative: "below_root root_dir e \<Longrightarrow> we_path e = root_dir @ entry_relative root_dir e"
  by (auto simp: below_root_def entry_relative_def strip_path_prefix_def prefix_def)

section \<open>Stages of a strict capture\<close>

lemma strict_capture_stages:
  assumes "capture_workspace_strict cv root_dir policy projection purpose w = (Inr plan, w')"
  obtains digest hydration tc st xs
  where "traversal_context_of cv root_dir policy projection True = Inr (digest, hydration, tc)"
    "tc_root tc = root_dir" "tc_projection tc = projection"
    "\<exists>boundary started w1 w2. cw_disk w1 = cw_disk w
      \<and> traverse cv boundary (wp_budgets policy) started tc (cv_walk cv (cw_disk w) root_dir (admits tc)) capture_start w1
        = (Inr st, w2)"
    "map (\<lambda>x. (om_path x, om_reason x)) xs = cl_pruned st"
    "set (pl_entries plan) = set (cl_entries (drop_suspicious cv (wp_budgets policy) (push_all xs st)))"
    "mset (pl_entries plan) \<subseteq># mset (cl_entries st)"
    "wm_omissions (pl_manifest plan) = cl_omissions (drop_suspicious cv (wp_budgets policy) (push_all xs st))"
    "wm_omissions_truncated (pl_manifest plan) = cl_truncated (drop_suspicious cv (wp_budgets policy) (push_all xs st))"
    "wm_partial (pl_manifest plan) =
      list_ex (\<lambda>x. makes_partial (om_reason x)) (cl_omissions (drop_suspicious cv (wp_budgets policy) (push_all xs st)))"
    "wm_included_files (pl_manifest plan) = of_nat (length (pl_entries plan))"
    "wm_included_bytes (pl_manifest plan) = sum_list (map ce_size (pl_entries plan))"
proof -
  obtain boundary where "capture_within cv boundary root_dir policy projection purpose True w = (Inr plan, w')"
    using assms by (simp add: capture_workspace_strict_def capture_workspace_inner_def)
  then obtain digest hydration tc st st2 started t1 t2 w1 w2 w3 where
      tc: "traversal_context_of cv root_dir policy projection True = Inr (digest, hydration, tc)"
      and d: "cw_disk w1 = cw_disk w"
      and run: "traverse cv boundary (wp_budgets policy) started tc (cv_walk cv (cw_disk w) root_dir (admits tc)) capture_start w1
        = (Inr st, w2)"
      and pruned: "summarize_pruned cv boundary root_dir (started + millis (cb_max_traversal_millis (wp_budgets policy)))
        (cl_pruned st) st w2 = (Inr st2, w3)"
      and plan: "plan = plan_of policy hydration (tc_tracked tc) digest purpose t1 t2 (drop_suspicious cv (wp_budgets policy) st2)"
    by (rule capture_stages)
  obtain xs where st2: "st2 = push_all xs st" and xs: "map (\<lambda>x. (om_path x, om_reason x)) xs = cl_pruned st"
    using summarize_pruned_pushes [OF pruned] by blast
  have "mset (pl_entries plan) = mset (cl_entries (drop_suspicious cv (wp_budgets policy) (push_all xs st)))"
    by (simp add: plan plan_of_def st2 Let_def)
  moreover have "mset (cl_entries (drop_suspicious cv (wp_budgets policy) (push_all xs st))) \<subseteq># mset (cl_entries st)"
    by (simp add: drop_suspicious_eq multiset_filter_subset)
  ultimately have sub: "mset (pl_entries plan) \<subseteq># mset (cl_entries st)" by simp
  show ?thesis
    by (rule that [OF tc traversal_context_root [OF tc] _ xs _ sub])
      (use d run in blast, simp_all add: plan plan_of_def st2 Let_def)
qed

section \<open>Complete captures\<close>

lemma complete_traversal_omits_nothing:
  assumes t: "traverse cv boundary budgets started tc events capture_start w1 = (Inr st, w2)"
    and complete: "\<not> list_ex (\<lambda>x. makes_partial (om_reason x)) (cl_omissions (drop_suspicious gv budgets (push_all xs st)))"
  shows "cl_omissions st = []"
proof (rule ccontr)
  assume "cl_omissions st \<noteq> []"
  then obtain x where "x \<in> set (cl_omissions st)" "makes_partial (om_reason x)"
    using traverse_omissions_partial [OF t] by (cases "cl_omissions st") auto
  then have "x \<in> set (cl_omissions (drop_suspicious gv budgets (push_all xs st)))"
    by (auto simp: drop_suspicious_eq intro!: push_all_member)
  then show False using complete \<open>makes_partial (om_reason x)\<close> by (auto simp: list_ex_iff)
qed

text \<open>A complete capture pushed every omission it met and dropped nothing after the traversal.\<close>

lemma complete_capture_facts:
  assumes run: "capture_workspace_strict cv root_dir policy projection purpose w = (Inr plan, w')"
    and complete: "\<not> wm_partial (pl_manifest plan)" "wm_omissions_truncated (pl_manifest plan) = 0"
  obtains digest hydration tc st xs boundary started w1 w2
  where "traversal_context_of cv root_dir policy projection True = Inr (digest, hydration, tc)" "tc_root tc = root_dir"
    "cw_disk w1 = cw_disk w"
    "traverse cv boundary (wp_budgets policy) started tc (cv_walk cv (cw_disk w) root_dir (admits tc)) capture_start w1
      = (Inr st, w2)"
    "map (\<lambda>x. (om_path x, om_reason x)) xs = cl_pruned st"
    "cl_omissions st = []" "set xs \<subseteq> set (wm_omissions (pl_manifest plan))" "set (pl_entries plan) = set (cl_entries st)"
proof -
  from run obtain digest hydration tc st xs boundary started w1 w2 where
      a: "traversal_context_of cv root_dir policy projection True = Inr (digest, hydration, tc)" "tc_root tc = root_dir"
        "cw_disk w1 = cw_disk w"
      and t: "traverse cv boundary (wp_budgets policy) started tc (cv_walk cv (cw_disk w) root_dir (admits tc)) capture_start w1
        = (Inr st, w2)"
      and xs: "map (\<lambda>x. (om_path x, om_reason x)) xs = cl_pruned st"
      and end_state: "set (pl_entries plan) = set (cl_entries (drop_suspicious cv (wp_budgets policy) (push_all xs st)))"
        "wm_omissions (pl_manifest plan) = cl_omissions (drop_suspicious cv (wp_budgets policy) (push_all xs st))"
        "wm_omissions_truncated (pl_manifest plan) = cl_truncated (drop_suspicious cv (wp_budgets policy) (push_all xs st))"
        "wm_partial (pl_manifest plan) =
          list_ex (\<lambda>x. makes_partial (om_reason x)) (cl_omissions (drop_suspicious cv (wp_budgets policy) (push_all xs st)))"
    by (rule strict_capture_stages) blast
  define suspicious where "suspicious = suspicious_subtrees cv (cl_stats st) (wp_budgets policy)"
  have recorded: "cl_omissions st @ xs @ (if cl_stopped st then [] else map suspicious_omission suspicious)
      = wm_omissions (pl_manifest plan)"
    using push_all_untruncated [of xs st] complete(2) end_state(2,3)
      push_all_untruncated [of "map suspicious_omission suspicious"
        "(push_all xs st)\<lparr>cl_entries := filter (outside_suspicious suspicious) (cl_entries st)\<rparr>"]
    by (auto simp: drop_suspicious_eq suspicious_def split: if_splits)
  have none: "\<forall>x \<in> set (wm_omissions (pl_manifest plan)). \<not> makes_partial (om_reason x)"
    using complete(1) end_state(2,4) by (auto simp: list_ex_iff)
  have empty: "cl_omissions st = []"
    using complete_traversal_omits_nothing [OF t] complete(1) end_state(4) by simp
  moreover from traverse_covers [OF t this] have "\<not> cl_stopped st" by (simp add: capture_start_def)
  moreover from this have "suspicious = []"
    using none recorded [symmetric] by (cases suspicious) (auto simp: suspicious_omission_def)
  ultimately have "set (pl_entries plan) = set (cl_entries st)"
    using end_state(1) by (simp add: drop_suspicious_eq suspicious_def outside_suspicious_def)
  moreover have "set xs \<subseteq> set (wm_omissions (pl_manifest plan))" by (auto simp flip: recorded)
  ultimately show ?thesis using that [OF a t xs empty] by blast
qed

lemma hidden_is_git_control:
  "filter_capture_entry tc e = Hide \<Longrightarrow> is_git_control_path (entry_relative (tc_root tc) e)"
  by (auto simp: filter_capture_entry_def Let_def split: if_splits)

text \<open>
  C23: A strict capture that is complete and counts nothing as truncated holds every leaf the walk found,
  the walk reported no failure, and every entry of the plan was walked. What the filter refused is
  accounted for by its verdict: an entry refused for a reason lies under a recorded omission of a harmless
  kind, and the only entries left out without a record are those of Git's control directory.
\<close>

theorem complete_capture_is_exact:
  assumes run: "capture_workspace_strict cv root_dir policy projection purpose w = (Inr plan, w')"
    and complete: "\<not> wm_partial (pl_manifest plan)" "wm_omissions_truncated (pl_manifest plan) = 0"
  shows "\<exists>digest hydration tc. traversal_context_of cv root_dir policy projection True = Inr (digest, hydration, tc)
    \<and> (let events = cv_walk cv (cw_disk w) root_dir (admits tc) in
       WalkFailed \<notin> set events
       \<and> (\<forall>e. Yielded e \<in> set events \<longrightarrow> leaf_present (cw_disk w) root_dir e \<longrightarrow>
            (\<exists>x \<in> set (pl_entries plan). ce_relative x = entry_relative root_dir e \<and> ce_source x = we_path e))
       \<and> (\<forall>e. Rejected e \<in> set events \<longrightarrow>
            (case filter_capture_entry tc e of
               Admit \<Rightarrow> True
             | Prune reason \<Rightarrow>
                 \<exists>x \<in> set (wm_omissions (pl_manifest plan)). prefix (om_path x) (entry_relative root_dir e) \<and> benign (om_reason x)
             | Hide \<Rightarrow> is_git_control_path (entry_relative root_dir e)))
       \<and> (\<forall>x \<in> set (pl_entries plan). from_walk tc events x))"
proof -
  obtain digest hydration tc st xs boundary started w1 w2 where
      tc: "traversal_context_of cv root_dir policy projection True = Inr (digest, hydration, tc)" "tc_root tc = root_dir"
      and d: "cw_disk w1 = cw_disk w"
      and t: "traverse cv boundary (wp_budgets policy) started tc (cv_walk cv (cw_disk w) root_dir (admits tc)) capture_start w1
        = (Inr st, w2)"
      and xs: "map (\<lambda>x. (om_path x, om_reason x)) xs = cl_pruned st" "set xs \<subseteq> set (wm_omissions (pl_manifest plan))"
      and empty: "cl_omissions st = []" and same: "set (pl_entries plan) = set (cl_entries st)"
    by (rule complete_capture_facts [OF assms]) blast
  have start: "\<not> cl_stopped capture_start" by (simp add: capture_start_def)
  note covers = traverse_covers [OF t empty]
  let ?events = "cv_walk cv (cw_disk w) root_dir (admits tc)"
  have leaves: "\<exists>x \<in> set (pl_entries plan). ce_relative x = entry_relative root_dir e \<and> ce_source x = we_path e"
    if e: "Yielded e \<in> set ?events" "leaf_present (cw_disk w) root_dir e" for e
  proof -
    obtain kind len where "entry_of tc e kind len \<in> set (pl_entries plan)"
      using covers start e d tc(2) same by auto
    then show ?thesis by (rule bexI [rotated]) (simp add: entry_of_def tc(2))
  qed
  have refused: "\<exists>x \<in> set (wm_omissions (pl_manifest plan)). prefix (om_path x) (entry_relative root_dir e) \<and> benign (om_reason x)"
    if e: "Rejected e \<in> set ?events" "filter_capture_entry tc e = Prune reason" for e reason
  proof -
    have "ledger_covers (cl_pruned st) (entry_relative root_dir e)" using covers start e tc(2) by auto
    then obtain x where "x \<in> set xs" "prefix (om_path x) (entry_relative root_dir e)"
      unfolding ledger_covers_def xs(1) [symmetric] by auto
    moreover from this(1) have "benign (om_reason x)"
      using traverse_ledger_benign [OF t] unfolding xs(1) [symmetric] by auto
    ultimately show ?thesis using xs(2) by blast
  qed
  have accounted: "case filter_capture_entry tc e of
      Admit \<Rightarrow> True
    | Prune reason \<Rightarrow>
        \<exists>x \<in> set (wm_omissions (pl_manifest plan)). prefix (om_path x) (entry_relative root_dir e) \<and> benign (om_reason x)
    | Hide \<Rightarrow> is_git_control_path (entry_relative root_dir e)" if "Rejected e \<in> set ?events" for e
    using refused [OF that] hidden_is_git_control [of tc e] tc(2) by (cases "filter_capture_entry tc e") simp_all
  have walked: "from_walk tc ?events x" if "x \<in> set (pl_entries plan)" for x
    using traverse_entries [OF t] same that by (auto simp: list_all_iff)
  have "WalkFailed \<notin> set ?events" using covers start by simp
  then show ?thesis using tc(1) leaves accounted walked unfolding Let_def by blast
qed

section \<open>The result of a run\<close>

lemma captured_entry_was_admitted:
  assumes run: "capture_workspace_strict cv root_dir policy projection purpose w = (Inr plan, w')"
    and walk: "walk_filters cv (cw_disk w) root_dir" and x: "x \<in> set (pl_entries plan)"
  shows "\<exists>digest hydration tc e. traversal_context_of cv root_dir policy projection True = Inr (digest, hydration, tc)
    \<and> filter_capture_entry tc e = Admit \<and> entry_relative (tc_root tc) e = ce_relative x \<and> tc_projection tc = projection
    \<and> (ce_tracked x \<longleftrightarrow> ce_relative x \<in> set (tc_tracked tc)) \<and> we_path e = ce_source x
    \<and> we_type e \<noteq> Some TDir \<and> ce_relative x \<noteq> []"
proof -
  from run obtain digest hydration tc st xs boundary started w1 w2 where
      tc: "traversal_context_of cv root_dir policy projection True = Inr (digest, hydration, tc)" "tc_projection tc = projection"
      and t: "traverse cv boundary (wp_budgets policy) started tc (cv_walk cv (cw_disk w) root_dir (admits tc)) capture_start w1
          = (Inr st, w2)"
      and sub: "mset (pl_entries plan) \<subseteq># mset (cl_entries st)"
    by (rule strict_capture_stages) blast
  have "x \<in> set (cl_entries st)" using x sub set_mset_mono by fastforce
  then have "from_walk tc (cv_walk cv (cw_disk w) root_dir (admits tc)) x"
    using traverse_entries [OF t] by (auto simp: list_all_iff)
  then obtain e kind len where e: "Yielded e \<in> set (cv_walk cv (cw_disk w) root_dir (admits tc))" "x = entry_of tc e kind len"
      "we_type e \<noteq> Some TDir" "entry_relative (tc_root tc) e \<noteq> []"
    by (auto simp: from_walk_def)
  then have "admits tc e" using walk by (auto simp: walk_filters_def)
  then show ?thesis using tc e(2-)
    by (intro exI [of _ digest] exI [of _ hydration] exI [of _ tc] exI [of _ e]) (simp add: admits_def entry_of_def)
qed

text \<open>
  C24: Whatever its ignore rules, a strict capture of a result holds no provider evidence and nothing of
  Git's own directory, and of the run's lifecycle files only those the job was admitted with as tracked
  files; without a repository there are none of these.
\<close>

theorem result_capture_is_operator_output:
  assumes run: "capture_workspace_strict cv root_dir policy ResultCandidate purpose w = (Inr plan, w')"
    and walk: "walk_filters cv (cw_disk w) root_dir"
  shows "\<forall>x \<in> set (pl_entries plan).
    classify_workspace_path (ce_relative x) \<noteq> EvidenceOnly
    \<and> \<not> is_git_control_path (ce_relative x)
    \<and> (classify_workspace_path (ce_relative x) = LifecycleMetadata \<longrightarrow> ce_tracked x)
    \<and> (ce_tracked x \<longrightarrow> (\<exists>h ps. require_frozen_git_hydration policy = Inr h \<and> fh_repository h
        \<and> map_res to_path_buf (fh_tracked_paths h) = Inr ps \<and> ce_relative x \<in> set ps))"
proof
  fix x assume x: "x \<in> set (pl_entries plan)"
  from captured_entry_was_admitted [OF run walk x] obtain digest hydration tc e where
      tc: "traversal_context_of cv root_dir policy ResultCandidate True = Inr (digest, hydration, tc)"
      and e: "filter_capture_entry tc e = Admit" "entry_relative (tc_root tc) e = ce_relative x"
        "tc_projection tc = ResultCandidate" "we_type e \<noteq> Some TDir" "ce_relative x \<noteq> []"
      and tracked: "ce_tracked x \<longleftrightarrow> ce_relative x \<in> set (tc_tracked tc)"
    by blast
  have git: "\<not> is_git_control_path (ce_relative x)"
    using e by (auto simp: filter_capture_entry_def Let_def split: if_splits)
  have allowed: "projection_boundary_allows ResultCandidate (ce_relative x) (ce_relative x \<in> set (tc_tracked tc))"
    using e git by (auto simp: filter_capture_entry_def Let_def split: if_splits)
  have "\<exists>h ps. require_frozen_git_hydration policy = Inr h \<and> fh_repository h
      \<and> map_res to_path_buf (fh_tracked_paths h) = Inr ps \<and> ce_relative x \<in> set ps" if "ce_tracked x"
  proof -
    obtain h where h: "require_frozen_git_hydration policy = Inr h" "hydration = Some h"
        "decode_paths (fh_tracked_paths h) = Inr (tc_tracked tc)"
      using tc by (auto simp: traversal_context_of_def explicit_hydration_def result_simps)
    obtain ps where ps: "map_res to_path_buf (fh_tracked_paths h) = Inr ps" "tc_tracked tc = btree_set ps"
      using h(3) by (auto simp: decode_paths_def result_simps)
    have "fh_repository h"
      using trusted_tracked_paths [OF h(1)] h(3) that tracked by (auto simp: btree_set_def)
    then show ?thesis using h(1) ps that tracked by auto
  qed
  then show "classify_workspace_path (ce_relative x) \<noteq> EvidenceOnly
    \<and> \<not> is_git_control_path (ce_relative x)
    \<and> (classify_workspace_path (ce_relative x) = LifecycleMetadata \<longrightarrow> ce_tracked x)
    \<and> (ce_tracked x \<longrightarrow> (\<exists>h ps. require_frozen_git_hydration policy = Inr h \<and> fh_repository h
        \<and> map_res to_path_buf (fh_tracked_paths h) = Inr ps \<and> ce_relative x \<in> set ps))"
    using git allowed tracked
    by (auto simp: projection_boundary_allows_def Let_def split: workspace_path_class.splits)
qed

text \<open>A tracked path outside evidence passes the filter, and so does every directory above it.\<close>

lemma tracked_path_is_admitted:
  assumes "tc_projection tc = ResultCandidate" "relative \<in> set (tc_tracked tc)"
    "entry_relative (tc_root tc) e = relative" "\<not> has_component ''.specstory'' relative" "\<not> is_git_control_path relative"
  shows "filter_capture_entry tc e = Admit"
  using assms
  by (auto simp: filter_capture_entry_def Let_def projection_boundary_allows_def classify_workspace_path_eq)

lemma tracked_parent_is_admitted:
  assumes "tc_projection tc = ResultCandidate" "relative \<in> set (tc_tracked tc)"
    "tc_tracked_directories tc = tracked_parent_directories (tc_tracked tc)"
    "\<not> has_component ''.specstory'' relative" "\<not> is_git_control_path relative"
    and e: "strict_prefix (entry_relative (tc_root tc) e) relative" "we_type e = Some TDir"
  shows "filter_capture_entry tc e = Admit"
proof (cases "entry_relative (tc_root tc) e = []")
  case True
  then show ?thesis by (simp add: filter_capture_entry_def Let_def)
next
  case False
  obtain rest where rest: "relative = entry_relative (tc_root tc) e @ rest" using e(1) by (auto simp: strict_prefix_def prefix_def)
  have "entry_relative (tc_root tc) e \<in> set (tc_tracked_directories tc)"
    using assms(2,3) e(1) False
    by (auto simp: tracked_parent_directories_def parent_directories_def strict_prefix_def)
  moreover have "\<not> is_git_control_path (entry_relative (tc_root tc) e)"
    using assms(5) False rest by (auto simp: is_git_control_path_def)
  moreover have "\<not> has_component ''.specstory'' (entry_relative (tc_root tc) e)" using assms(4) rest by auto
  ultimately show ?thesis using assms(1) e(2)
    by (auto simp: filter_capture_entry_def Let_def projection_boundary_allows_def classify_workspace_path_eq)
qed

text \<open>
  C25: No ignore rule, generated-output rule or suspicion takes a tracked file out of a result: a file the
  run was admitted with as tracked, outside the evidence directory, that is there when a capture of the
  result completes, has its entry.
\<close>

theorem tracked_files_reach_the_result:
  assumes run: "capture_workspace_strict cv root_dir policy ResultCandidate purpose w = (Inr plan, w')"
    and complete: "\<not> wm_partial (pl_manifest plan)"
    and walk: "walk_descends cv (cw_disk w) root_dir"
    and hydration: "require_frozen_git_hydration policy = Inr h" "map_res to_path_buf (fh_tracked_paths h) = Inr ps"
    and tracked: "relative \<in> set ps" "\<not> has_component ''.specstory'' relative"
    and leaf: "Yielded e \<in> set (cv_walk cv (cw_disk w) root_dir (\<lambda>_. True))" "we_path e = root_dir @ relative"
      "leaf_present (cw_disk w) root_dir e"
  shows "\<exists>x \<in> set (pl_entries plan). ce_relative x = relative \<and> ce_tracked x"
proof -
  from run obtain digest hydration' tc st xs boundary started w1 w2 where
      tc: "traversal_context_of cv root_dir policy ResultCandidate True = Inr (digest, hydration', tc)" "tc_root tc = root_dir"
        "tc_projection tc = ResultCandidate"
      and d: "cw_disk w1 = cw_disk w"
      and t: "traverse cv boundary (wp_budgets policy) started tc (cv_walk cv (cw_disk w) root_dir (admits tc)) capture_start w1
          = (Inr st, w2)"
      and entries: "set (pl_entries plan) = set (cl_entries (drop_suspicious cv (wp_budgets policy) (push_all xs st)))"
      and part: "wm_partial (pl_manifest plan) =
        list_ex (\<lambda>x. makes_partial (om_reason x)) (cl_omissions (drop_suspicious cv (wp_budgets policy) (push_all xs st)))"
    by (rule strict_capture_stages) blast
  have ps: "tc_tracked tc = btree_set ps" "tc_tracked_directories tc = tracked_parent_directories (tc_tracked tc)"
    using tc(1) hydration by (auto simp: traversal_context_of_def explicit_hydration_def decode_paths_def result_simps)
  obtain qs where qs: "decode_paths (fh_tracked_paths h) = Inr (btree_set qs)" "\<forall>p \<in> set qs. \<not> unsafe_tracked_path p"
    using trusted_tracked_paths [OF hydration(1)] by blast
  then have "set qs = set ps" using hydration(2) by (auto simp: decode_paths_def) (metis btree_set_members)+
  then have safe: "\<not> is_git_control_path relative" using qs(2) tracked(1) by (auto simp: unsafe_tracked_path_def)
  have rel: "entry_relative root_dir e = relative"
    using leaf(2) by (simp add: entry_relative_def strip_path_prefix_def)
  have member: "relative \<in> set (tc_tracked tc)" using ps tracked(1) by simp
  have "admits tc e" unfolding admits_def
    using tracked_path_is_admitted [OF tc(3) member _ tracked(2) safe, of e] rel tc(2) by simp
  moreover have "admits tc e'" if e': "Yielded e' \<in> set (cv_walk cv (cw_disk w) root_dir (\<lambda>_. True))"
      "strict_prefix (we_path e') (we_path e)" for e'
  proof -
    have "below_root root_dir e'" "we_type e' = Some TDir"
      using walk e' leaf(1) by (auto simp: walk_descends_def Let_def)
    moreover from this(1) have "strict_prefix (entry_relative root_dir e') relative"
      using below_root_relative [of root_dir e'] e'(2) leaf(2) by (auto simp: strict_prefix_def)
    ultimately show ?thesis unfolding admits_def
      using tracked_parent_is_admitted [OF tc(3) member ps(2) tracked(2) safe, of e'] tc(2) by simp
  qed
  ultimately have yielded: "Yielded e \<in> set (cv_walk cv (cw_disk w) root_dir (admits tc))"
    using walk leaf(1) unfolding walk_descends_def Let_def by blast
  have "cl_omissions st = []" using complete_traversal_omits_nothing [OF t] complete part by simp
  note covers = traverse_covers [OF t this]
  have "\<not> cl_stopped capture_start" by (simp add: capture_start_def)
  then obtain kind len where "entry_of tc e kind len \<in> set (cl_entries st)"
    using covers yielded leaf(3) d tc(2) by auto
  moreover have "ce_tracked (entry_of tc e kind len)" "ce_relative (entry_of tc e kind len) = relative"
    using member rel tc(2) by (simp_all add: entry_of_def)
  ultimately show ?thesis
    using drop_suspicious_entries(2) [of "entry_of tc e kind len" "push_all xs st"] entries by auto
qed

text \<open>
  C26: A capture that returns holds at most the number of files and of bytes its policy allows, no file
  above the limit of one file, and its manifest counts exactly that.
\<close>

theorem capture_respects_budgets:
  assumes run: "capture_workspace_strict cv root_dir policy projection purpose w = (Inr plan, w')"
    and limits: "cb_max_files (wp_budgets policy) < - 1" "cb_max_total_bytes (wp_budgets policy) < - 1"
  shows "unat (wm_included_files (pl_manifest plan)) = length (pl_entries plan)
    \<and> length (pl_entries plan) \<le> unat (cb_max_files (wp_budgets policy))
    \<and> unat (wm_included_bytes (pl_manifest plan)) = (\<Sum>x\<leftarrow>pl_entries plan. unat (ce_size x))
    \<and> (\<Sum>x\<leftarrow>pl_entries plan. unat (ce_size x)) \<le> unat (cb_max_total_bytes (wp_budgets policy))
    \<and> (\<forall>x \<in> set (pl_entries plan). ce_size x \<le> cb_max_file_bytes (wp_budgets policy))"
proof -
  from run obtain digest hydration tc st xs boundary started w1 w2 where
      t: "traverse cv boundary (wp_budgets policy) started tc (cv_walk cv (cw_disk w) root_dir (admits tc)) capture_start w1
          = (Inr st, w2)"
      and sub: "mset (pl_entries plan) \<subseteq># mset (cl_entries st)"
      and counts: "wm_included_files (pl_manifest plan) = of_nat (length (pl_entries plan))"
        "wm_included_bytes (pl_manifest plan) = sum_list (map ce_size (pl_entries plan))"
    by (rule strict_capture_stages) blast
  have budget: "within_budget (wp_budgets policy) st" using traverse_within_budget [OF t limits] .
  have sums: "(\<Sum>x\<leftarrow>pl_entries plan. unat (ce_size x)) \<le> (\<Sum>x\<leftarrow>cl_entries st. unat (ce_size x))"
  proof -
    have "image_mset (\<lambda>x. unat (ce_size x)) (mset (pl_entries plan)) \<subseteq># image_mset (\<lambda>x. unat (ce_size x)) (mset (cl_entries st))"
      using sub by (rule image_mset_subseteq_mono)
    then have "sum_mset (image_mset (\<lambda>x. unat (ce_size x)) (mset (pl_entries plan)))
        \<le> sum_mset (image_mset (\<lambda>x. unat (ce_size x)) (mset (cl_entries st)))"
      by (metis le_add1 subset_mset.le_iff_add sum_mset.union)
    then show ?thesis by (simp add: sum_mset_sum_list flip: mset_map)
  qed
  have bytes: "(\<Sum>x\<leftarrow>pl_entries plan. unat (ce_size x)) \<le> unat (cb_max_total_bytes (wp_budgets policy))"
    using sums budget by (simp add: within_budget_def)
  have "size (mset (pl_entries plan)) \<le> size (mset (cl_entries st))" using sub by (rule size_mset_mono)
  then have files: "length (pl_entries plan) \<le> unat (cb_max_files (wp_budgets policy))"
    using budget by (simp add: within_budget_def)
  have "length (pl_entries plan) < 2 ^ 64"
    using files u64_below [of "cb_max_files (wp_budgets policy)"] by simp
  then have count: "unat (wm_included_files (pl_manifest plan)) = length (pl_entries plan)"
    by (simp add: counts unsigned_of_nat take_bit_nat_eq_self)
  have "unat (sum_list (map ce_size es)) = (\<Sum>x\<leftarrow>es. unat (ce_size x))"
    if "(\<Sum>x\<leftarrow>es. unat (ce_size x)) < 2 ^ 64" for es
    using that by (induction es) (simp_all add: unat_word_ariths)
  moreover have "(\<Sum>x\<leftarrow>pl_entries plan. unat (ce_size x)) < 2 ^ 64"
    using bytes u64_below [of "cb_max_total_bytes (wp_budgets policy)"] by simp
  ultimately have sum: "unat (wm_included_bytes (pl_manifest plan)) = (\<Sum>x\<leftarrow>pl_entries plan. unat (ce_size x))"
    by (simp add: counts)
  have "\<forall>x \<in> set (pl_entries plan). ce_size x \<le> cb_max_file_bytes (wp_budgets policy)"
    using traverse_entries [OF t] set_mset_mono [OF sub] by (auto simp: list_all_iff)
  with count files sum bytes show ?thesis by blast
qed

section \<open>A drop that is not reported\<close>

text \<open>
  The manifest is partial when a recorded omission makes it so. Once 256 omissions of pruned directories
  are recorded, a subtree dropped as suspicious is only counted, and its files are missing from a capture
  that \<open>require_complete\<close> takes.
\<close>

lemma full_ledger_hides_drops:
  assumes "length (cl_omissions st) = MAX_RECORDED_OMISSIONS"
  shows "cl_omissions (drop_suspicious gv budgets st) = cl_omissions st"
proof -
  have "cl_omissions (push_all xs t) = cl_omissions t" if "length (cl_omissions t) = MAX_RECORDED_OMISSIONS" for xs t
    using push_all_records [of t xs] that by simp
  then show ?thesis using assms by (simp add: drop_suspicious_eq)
qed

lemma unreported_drop_is_accepted:
  assumes "length (cl_omissions st) = MAX_RECORDED_OMISSIONS" "list_all (\<lambda>x. benign (om_reason x)) (cl_omissions st)"
  shows "require_complete cv (plan_of policy hydration tracked digest purpose t1 t2 (drop_suspicious gv budgets st)) operation
    = Inr ()"
  using assms by (auto simp: require_complete_def plan_of_def Let_def full_ledger_hides_drops benign_iff list_all_iff list_ex_iff)

end
