(* ===== verification/Capture_Examples.thy ===== *)
theory Capture_Examples
  imports Capture_Guarantees Acceptance_Examples
begin

text \<open>
  The capture properties at one small workspace: a source file, a log the rules ignore, Git's directory, a
  tracked file and an untracked one of the run's own directory.
\<close>

section \<open>A walk over a list of entries\<close>

definition listed_walk :: "walk_entry list \<Rightarrow> path \<Rightarrow> (walk_entry \<Rightarrow> bool) \<Rightarrow> walk_event list" where
  "listed_walk es below f =
    concat (map (\<lambda>e.
      if \<not> prefix below (we_path e) \<or> list_ex (\<lambda>d. strict_prefix (we_path d) (we_path e) \<and> prefix below (we_path d) \<and> \<not> f d) es
      then [] else [if f e then Yielded e else Rejected e]) es)"

lemma listed_walk_yields:
  "Yielded e \<in> set (listed_walk es below f) \<longleftrightarrow>
    e \<in> set es \<and> prefix below (we_path e) \<and> f e
    \<and> (\<forall>d \<in> set es. strict_prefix (we_path d) (we_path e) \<longrightarrow> prefix below (we_path d) \<longrightarrow> f d)"
  by (auto simp: listed_walk_def list_ex_iff split: if_splits)

definition sample_dir :: path where "sample_dir = [RootDir, Normal ''w'']"

definition at_sample :: "string list \<Rightarrow> entry_type \<Rightarrow> walk_entry" where
  "at_sample names t = \<lparr>we_path = sample_dir @ map Normal names, we_type = Some t\<rparr>"

definition sample_entries :: "walk_entry list" where
  "sample_entries =
    [at_sample [] TDir, at_sample [''.git''] TDir, at_sample [''a.txt''] TFile, at_sample [''debug.log''] TFile,
     at_sample [''.deadreckon''] TDir, at_sample [''.deadreckon'', ''plan.yaml''] TFile,
     at_sample [''.deadreckon'', ''state.json''] TFile]"

definition sample_disk :: disk where
  "sample_disk = \<lparr>tree = map (\<lambda>e. (we_path e, if we_type e = Some TFile then FileNode ''x'' 420 else DirNode)) sample_entries,
    lstat_fault = (\<lambda>_. None), open_fault = (\<lambda>_. None), change_fault = (\<lambda>_. None),
    space = (\<lambda>_. None), dir_len = (\<lambda>_. 0)\<rparr>"

definition sample_world :: capture_world where
  "sample_world = \<lparr>cw_fs = empty_fs, cw_disk = sample_disk, cw_clock = 0, cw_scopes = []\<rparr>"

definition sample_env :: capture_env where
  "sample_env = gate_env.extend (gate_env.truncate (example_env sample_check))
    \<lparr>cv_cancelled = (\<lambda>_. False), cv_now = (\<lambda>_. 0), cv_wall = (\<lambda>_. 0), cv_walk = (\<lambda>_. listed_walk sample_entries),
     cv_line_ok = (\<lambda>_ _. True),
     cv_matcher = (\<lambda>_ _. Some (\<lambda>p _. if last p = Normal ''debug.log'' then MatchIgnore else MatchNone)),
     cv_git = (\<lambda>_ _ _. Inr \<lparr>gt_success = False, gt_stdout = [], gt_stderr = []\<rparr>), cv_query = (\<lambda>_ _ _ _. NotStarted IoNotFound), cv_json = (\<lambda>_. None),
     cv_canonicalize = Some, cv_xdg_config_home = None, cv_home_var = None, cv_show = path_bytes,
     cv_io_text = (\<lambda>_. ''error''), cv_error_text = (\<lambda>_. ''error''),
     cv_policy = \<lparr>enc = (\<lambda>_. Some ''P''), dec = (\<lambda>_. None)\<rparr>, cv_policy_compact = (\<lambda>_. Some ''P'')\<rparr>"

definition sample_index :: string where "sample_index = ''sha256:'' @ replicate 64 (CHR ''0'')"

definition sample_hydration :: frozen_git_hydration where
  "sample_hydration = \<lparr>fh_schema_version = 1, fh_frozen_at = 0, fh_repository = True,
    fh_tracked_paths = [Utf8 ''.deadreckon/plan.yaml''], fh_head = None, fh_index_sha256 = Some sample_index\<rparr>"

definition sample_policy :: workspace_capture_policy where
  "sample_policy = \<lparr>wp_schema_version = 1, wp_frozen_at = 0,
    wp_ignores = [\<lparr>ig_kind = Gitignore, ig_base = Utf8 [], ig_origin = ''.gitignore'', ig_lines = [''debug.log'']\<rparr>],
    wp_frozen_git_hydration = Some sample_hydration, wp_frozen_tracked_paths = [Utf8 ''.deadreckon/plan.yaml''],
    wp_output_roots = [], wp_budgets = default_budgets, wp_warnings = [], wp_frozen_git_head = None,
    wp_frozen_git_index_sha256 = Some sample_index\<rparr>"

definition plan_path :: path where "plan_path = [Normal ''.deadreckon'', Normal ''plan.yaml'']"

definition sample_context :: traversal_context where
  "sample_context = \<lparr>tc_root = sample_dir, tc_projection = ResultCandidate,
    tc_ignores = [\<lparr>ci_kind = Gitignore, ci_depth = 0, ci_scope_root = sample_dir,
      ci_matcher = (\<lambda>p _. if last p = Normal ''debug.log'' then MatchIgnore else MatchNone)\<rparr>],
    tc_tracked = [plan_path], tc_tracked_directories = [[Normal ''.deadreckon'']], tc_output_roots = []\<rparr>"

lemma capture_env_simps [simp]:
  "cv_cancelled sample_env k = False" "cv_now sample_env k = 0" "cv_wall sample_env k = 0"
  "cv_walk sample_env d = listed_walk sample_entries" "cv_line_ok sample_env p l = True"
  "cv_matcher sample_env p ls = Some (\<lambda>p _. if last p = Normal ''debug.log'' then MatchIgnore else MatchNone)"
  "cv_policy_compact sample_env policy = Some ''P''" "gv_digest sample_env b = ''d''"
  by (simp_all add: sample_env_def gate_env.defs example_env_def)

lemma sample_tracked: "components ''.deadreckon/plan.yaml'' = plan_path"
  unfolding plan_path_def by code_simp

lemma sample_hydration_ok: "require_frozen_git_hydration sample_policy = Inr sample_hydration"
proof -
  have "is_prefixed_sha256 sample_index" unfolding sample_index_def by code_simp
  moreover have "\<not> unsafe_tracked_path plan_path" unfolding plan_path_def by code_simp
  ultimately show ?thesis
    by (simp add: require_frozen_git_hydration_def sample_policy_def validate_frozen_git_hydration_def sample_hydration_def
        FROZEN_GIT_HYDRATION_VERSION_def tracked_step_def sample_tracked)
qed

lemma sample_context_of:
  "traversal_context_of sample_env sample_dir sample_policy ResultCandidate True
    = Inr (capture_sha256 sample_env ''P'', Some sample_hydration, sample_context)"
proof -
  have t: "tracked_parent_directories [plan_path] = [[Normal ''.deadreckon'']]" unfolding plan_path_def by code_simp
  have v: "validate_frozen_git_hydration sample_hydration = Inr ()"
    using required_hydration(2) [OF sample_hydration_ok] .
  have b: "btree_set [plan_path] = [plan_path]" by (simp add: btree_set_def)
  have j: "join_path sample_dir [] = sample_dir" by (simp add: join_path_def)
  have c: "components [] = []" by (simp add: components_def)
  show ?thesis
    by (simp add: traversal_context_of_def explicit_hydration_def sample_hydration_ok v decode_paths_def decode_output_roots_def
        compile_ignores_def compile_source_def sample_context_def)
      (simp add: sample_policy_def sample_hydration_def sample_tracked t b j c path_depth_def decode_paths_def btree_set_def
        compile_source_def)
qed


section \<open>The walk\<close>

lemma sample_verdicts:
  "map (filter_capture_entry sample_context) sample_entries =
    [Admit, Hide, Admit, Prune FrozenIgnore, Admit, Admit, Prune GeneratedOutput]"
  by code_simp

lemma sample_walk:
  "listed_walk sample_entries sample_dir (admits sample_context) =
    [Yielded (at_sample [] TDir), Rejected (at_sample [''.git''] TDir), Yielded (at_sample [''a.txt''] TFile),
     Rejected (at_sample [''debug.log''] TFile), Yielded (at_sample [''.deadreckon''] TDir),
     Yielded (at_sample [''.deadreckon'', ''plan.yaml''] TFile), Rejected (at_sample [''.deadreckon'', ''state.json''] TFile)]"
  by code_simp

lemma sample_whole_walk:
  "listed_walk sample_entries sample_dir (\<lambda>_. True) = map Yielded sample_entries"
  by code_simp


section \<open>The capture\<close>

lemma sample_yield:
  "capture_item default_budgets sample_context e st (cw_disk w) = Inr st' \<Longrightarrow> \<not> cl_stopped st' \<Longrightarrow>
    traverse sample_env None default_budgets 0 sample_context (Yielded e # events) st w =
    traverse sample_env None default_budgets 0 sample_context events st' (w\<lparr>cw_clock := Suc (cw_clock w)\<rparr>)"
  by (simp add: act_bind_def check_optional_def read_clock_def on_disk_def)

lemma sample_relative:
  "strip_path_prefix (sample_dir @ p) (tc_root sample_context) = Some p"
  "we_path (at_sample names t) = sample_dir @ map Normal names" "we_type (at_sample names t) = Some t" "tc_tracked sample_context = [plan_path]"
  by (simp_all add: at_sample_def strip_path_prefix_def sample_context_def)

lemma sample_directory: "capture_item default_budgets sample_context (at_sample names TDir) st d = Inr st"
  by (simp add: capture_item_def sample_relative)

abbreviation found_at :: "string list \<Rightarrow> bool \<Rightarrow> capture_entry" where
  "found_at names tracked \<equiv>
    \<lparr>ce_relative = map Normal names, ce_source = sample_dir @ map Normal names, ce_kind = CapturedFile, ce_size = 1,
     ce_tracked = tracked\<rparr>"

lemma sample_leaf:
  assumes "lstat_kind sample_disk (we_path (at_sample names TFile)) = Inr (FileNode ''x'' 420)" "names \<noteq> []"
    "cl_files st \<in> {0, 1}" "cl_bytes st \<in> {0, 1}"
  shows "capture_item default_budgets sample_context (at_sample names TFile) st sample_disk =
    Inr (st\<lparr>cl_files := cl_files st + 1, cl_bytes := cl_bytes st + 1,
      cl_stats := update_subtree_stats (map Normal names) 1 (FileNode ''x'' 420) (cl_stats st),
      cl_entries := cl_entries st @ [found_at names (map Normal names = plan_path)]\<rparr>)"
  using assms
  by (auto simp: capture_item_def sample_relative leaf_of_node_def admit_leaf_def default_budgets_def node_len_def
      saturating_add_u64_def Let_def)

lemma sample_files:
  "lstat_kind sample_disk (we_path (at_sample [''a.txt''] TFile)) = Inr (FileNode ''x'' 420)"
  "lstat_kind sample_disk (we_path (at_sample [''.deadreckon'', ''plan.yaml''] TFile)) = Inr (FileNode ''x'' 420)"
  by code_simp+

lemma sample_rejected:
  "note_rejected sample_context (at_sample [''.git''] TDir) [] = []"
  "note_rejected sample_context (at_sample [''debug.log''] TFile) [] = [([Normal ''debug.log''], FrozenIgnore)]"
  "note_rejected sample_context (at_sample [''.deadreckon'', ''state.json''] TFile) [([Normal ''debug.log''], FrozenIgnore)]
    = [([Normal ''.deadreckon'', Normal ''state.json''], GeneratedOutput), ([Normal ''debug.log''], FrozenIgnore)]"
  by code_simp+

definition sample_stats :: subtree_stats where
  "sample_stats =
    update_subtree_stats [Normal ''.deadreckon'', Normal ''plan.yaml''] 1 (FileNode ''x'' 420)
      (update_subtree_stats [Normal ''a.txt''] 1 (FileNode ''x'' 420) [])"

definition sample_loop :: capture_loop where
  "sample_loop = capture_start
    \<lparr>cl_entries := [found_at [''a.txt''] False, found_at [''.deadreckon'', ''plan.yaml''] True],
     cl_files := 2, cl_bytes := 2, cl_stats := sample_stats,
     cl_pruned := [([Normal ''.deadreckon'', Normal ''state.json''], GeneratedOutput), ([Normal ''debug.log''], FrozenIgnore)]\<rparr>"

lemma sample_traversal:
  assumes "cw_disk w = sample_disk"
  shows "traverse sample_env None default_budgets 0 sample_context
      (listed_walk sample_entries sample_dir (admits sample_context)) capture_start w
    = (Inr sample_loop, w\<lparr>cw_clock := cw_clock w + 4\<rparr>)"
  using assms
  by (simp del: traverse.simps(3,4) add: sample_walk sample_yield sample_directory sample_leaf [OF sample_files(1)] sample_leaf [OF sample_files(2)]
      sample_rejected capture_start_def plan_path_def sample_loop_def sample_stats_def)


text \<open>Nothing in the summary of what was left out can fail, whatever it finds.\<close>

lemma summarize_loop_returns: "\<exists>scan' w'. summarize_loop cv root_dir deadline started events scan w = (Inr scan', w')"
proof (induction events arbitrary: scan w)
  case (Cons event events)
  then show ?case
    by (cases event) (auto simp: act_bind_def read_clock_def on_disk_def)
qed simp

lemma summary_returns: "\<exists>summary w'. summarize_omitted_subtree cv root_dir p deadline w = (Inr summary, w')"
proof -
  obtain scan w' where "summarize_loop cv root_dir deadline (cv_now cv (cw_clock w))
      (cv_walk cv (cw_disk w) (join_path root_dir p) (\<lambda>_. True)) \<lparr>sn_files = 0, sn_bytes = 0, sn_hashed = [], sn_partial = False\<rparr>
      (w\<lparr>cw_clock := Suc (cw_clock w)\<rparr>) = (Inr scan, w')"
    using summarize_loop_returns by blast
  then show ?thesis
    by (simp add: summarize_omitted_subtree_def act_bind_def read_clock_def on_disk_def Let_def)
qed

lemma summaries_return: "\<exists>st' w'. summarize_pruned cv None root_dir deadline pruned st w = (Inr st', w')"
proof (induction pruned arbitrary: st w)
  case (Cons entry pruned)
  obtain p reason where "entry = (p, reason)" by force
  moreover obtain summary w1 where "summarize_omitted_subtree cv root_dir p deadline w = (Inr summary, w1)"
    using summary_returns by blast
  ultimately show ?case using Cons.IH by (simp add: check_optional_def)
qed simp

lemma sample_not_suspicious: "suspicious_subtrees sample_env sample_stats default_budgets = []"
  by (simp add: suspicious_subtrees_def sample_stats_def update_subtree_stats_def near_ancestors_def path_parent_def
      stats_at_def accumulate_def empty_accumulator_def suspicious_accumulator_def default_budgets_def
      saturating_add_u64_def word_le_def)

lemma sample_capture:
  "\<exists>plan w'. capture_workspace_strict sample_env sample_dir sample_policy ResultCandidate ForResultCandidate sample_world
      = (Inr plan, w')
    \<and> pl_entries plan = [found_at [''.deadreckon'', ''plan.yaml''] True, found_at [''a.txt''] False]
    \<and> \<not> wm_partial (pl_manifest plan) \<and> wm_omissions_truncated (pl_manifest plan) = 0"
proof -
  obtain st w1 where st: "summarize_pruned sample_env None sample_dir (millis 10000) (cl_pruned sample_loop) sample_loop
      (sample_world\<lparr>cw_clock := 6\<rparr>) = (Inr st, w1)"
    using summaries_return by blast
  from summarize_pruned_pushes [OF this] obtain x y where "st = push_all [x, y] sample_loop"
      "om_reason x = GeneratedOutput" "om_reason y = FrozenIgnore"
    by (auto simp: sample_loop_def)
  then have parts: "cl_entries st = cl_entries sample_loop" "\<not> cl_stopped st" "cl_stats st = sample_stats" "cl_truncated st = 0"
      "\<not> list_ex (\<lambda>x. makes_partial (om_reason x)) (cl_omissions st)"
    by (simp_all add: sample_loop_def capture_start_def push_omission_def MAX_RECORDED_OMISSIONS_def)
  have world: "inherited_work_boundary sample_world = None" "cw_disk sample_world = sample_disk" "cw_clock sample_world = 0"
    by (simp_all add: sample_world_def inherited_work_boundary_def)
  have budgets: "wp_budgets sample_policy = default_budgets" "cb_max_traversal_millis default_budgets = 10000"
    by (simp_all add: sample_policy_def default_budgets_def)
  have steps: "check_optional sample_env None w = (Inr (), w)"
      "read_clock sample_env w = (Inr 0, w\<lparr>cw_clock := Suc (cw_clock w)\<rparr>)"
      "utc_now sample_env w = (Inr 0, w\<lparr>cw_clock := Suc (cw_clock w)\<rparr>)"
      "on_disk f w = (f (cw_disk w), w)" for w and f :: "disk \<Rightarrow> walk_event list res"
    by (simp_all add: check_optional_def read_clock_def utc_now_def on_disk_def)
  have "capture_within sample_env None sample_dir sample_policy ResultCandidate ForResultCandidate True sample_world
    = (Inr (plan_of sample_policy (Some sample_hydration) [plan_path] (capture_sha256 sample_env ''P'') ForResultCandidate 0 0
        (drop_suspicious sample_env default_budgets st)), w1\<lparr>cw_clock := Suc (cw_clock w1)\<rparr>)"
    by (simp add: capture_within_def steps sample_context_of world budgets sample_traversal st del: traverse.simps) 
      (simp add: sample_context_def)
  moreover have "drop_suspicious sample_env default_budgets st = st"
    using parts by (simp add: drop_suspicious_eq sample_not_suspicious outside_suspicious_def)
  moreover have "\<not> Normal ''a.txt'' < Normal ''.deadreckon''" by code_simp
  ultimately show ?thesis using parts world
    by (simp add: capture_workspace_strict_def capture_workspace_inner_def plan_of_def sample_loop_def)
qed


section \<open>The guarantees at the sample\<close>

lemma sample_walk_filters: "walk_filters sample_env (cw_disk sample_world) sample_dir"
  by (simp add: walk_filters_def listed_walk_yields)

lemma sample_walk_descends: "walk_descends sample_env (cw_disk sample_world) sample_dir"
proof -
  have "list_all (\<lambda>e. list_all (\<lambda>e'. strict_prefix (we_path e') (we_path e) \<longrightarrow> we_type e' = Some TDir) sample_entries)
      sample_entries" by code_simp
  moreover have "list_all (below_root sample_dir) sample_entries" by code_simp
  ultimately show ?thesis
    by (auto simp: walk_descends_def Let_def list_all_iff listed_walk_yields below_root_def)
qed

text \<open>The ignored log is refused under a recorded omission; the source file is in the plan.\<close>

theorem complete_capture_is_exact_witness:
  "\<exists>plan w'. capture_workspace_strict sample_env sample_dir sample_policy ResultCandidate ForResultCandidate sample_world
      = (Inr plan, w')
    \<and> (\<exists>x \<in> set (pl_entries plan). ce_relative x = [Normal ''a.txt''])
    \<and> (\<exists>x \<in> set (wm_omissions (pl_manifest plan)). prefix (om_path x) [Normal ''debug.log''] \<and> benign (om_reason x))
    \<and> (\<forall>x \<in> set (pl_entries plan). from_walk sample_context (listed_walk sample_entries sample_dir (admits sample_context)) x)"
proof -
  obtain plan w' where run: "capture_workspace_strict sample_env sample_dir sample_policy ResultCandidate ForResultCandidate
      sample_world = (Inr plan, w')"
      "\<not> wm_partial (pl_manifest plan)" "wm_omissions_truncated (pl_manifest plan) = 0"
    using sample_capture by blast
  let ?events = "listed_walk sample_entries sample_dir (admits sample_context)"
  have leaf: "Yielded (at_sample [''a.txt''] TFile) \<in> set ?events"
      "leaf_present (cw_disk sample_world) sample_dir (at_sample [''a.txt''] TFile)"
    using sample_files(1)
    by (simp_all add: sample_walk leaf_present_def sample_world_def at_sample_def entry_relative_def strip_path_prefix_def)
  have log: "Rejected (at_sample [''debug.log''] TFile) \<in> set ?events"
      "filter_capture_entry sample_context (at_sample [''debug.log''] TFile) = Prune FrozenIgnore"
    using sample_verdicts by (simp add: sample_walk, simp add: sample_entries_def)
  have names: "entry_relative sample_dir (at_sample names t) = map Normal names" for names t
    by (simp add: at_sample_def entry_relative_def strip_path_prefix_def)
  have exact: "(\<forall>e. Yielded e \<in> set ?events \<longrightarrow> leaf_present (cw_disk sample_world) sample_dir e \<longrightarrow>
        (\<exists>x \<in> set (pl_entries plan). ce_relative x = entry_relative sample_dir e \<and> ce_source x = we_path e))
      \<and> (\<forall>e. Rejected e \<in> set ?events \<longrightarrow>
          (case filter_capture_entry sample_context e of
             Admit \<Rightarrow> True
           | Prune reason \<Rightarrow>
               \<exists>x \<in> set (wm_omissions (pl_manifest plan)). prefix (om_path x) (entry_relative sample_dir e) \<and> benign (om_reason x)
           | Hide \<Rightarrow> is_git_control_path (entry_relative sample_dir e)))
      \<and> (\<forall>x \<in> set (pl_entries plan). from_walk sample_context ?events x)"
    using complete_capture_is_exact [OF run] unfolding sample_context_of Let_def by (auto simp: names)
  have "\<exists>x \<in> set (pl_entries plan). ce_relative x = [Normal ''a.txt'']"
    using exact [THEN conjunct1, rule_format, OF leaf] by (auto simp: names)
  moreover have "\<exists>x \<in> set (wm_omissions (pl_manifest plan)). prefix (om_path x) [Normal ''debug.log''] \<and> benign (om_reason x)"
    using exact [THEN conjunct2, THEN conjunct1, rule_format, OF log(1)] log(2) names [of "[''debug.log'']" TFile] by simp
  ultimately show ?thesis using run(1) exact by blast
qed

theorem result_capture_is_operator_output_witness:
  "\<exists>plan w'. capture_workspace_strict sample_env sample_dir sample_policy ResultCandidate ForResultCandidate sample_world
      = (Inr plan, w')
    \<and> (\<exists>x \<in> set (pl_entries plan). ce_tracked x)
    \<and> (\<forall>x \<in> set (pl_entries plan). \<not> is_git_control_path (ce_relative x))"
  using sample_capture result_capture_is_operator_output [OF _ sample_walk_filters] by fastforce

theorem tracked_files_reach_the_result_witness:
  "\<exists>plan w'. capture_workspace_strict sample_env sample_dir sample_policy ResultCandidate ForResultCandidate sample_world
      = (Inr plan, w')
    \<and> (\<exists>x \<in> set (pl_entries plan). ce_relative x = plan_path \<and> ce_tracked x)"
proof -
  obtain plan w' where run: "capture_workspace_strict sample_env sample_dir sample_policy ResultCandidate ForResultCandidate
      sample_world = (Inr plan, w')" "\<not> wm_partial (pl_manifest plan)"
    using sample_capture by blast
  have "map_res to_path_buf (fh_tracked_paths sample_hydration) = Inr [plan_path]"
    by (simp add: sample_hydration_def sample_tracked)
  moreover have "\<not> has_component ''.specstory'' plan_path" unfolding plan_path_def by code_simp
  moreover have "Yielded (at_sample [''.deadreckon'', ''plan.yaml''] TFile)
      \<in> set (cv_walk sample_env (cw_disk sample_world) sample_dir (\<lambda>_. True))"
    by (simp add: sample_whole_walk) (simp add: sample_entries_def)
  moreover have "we_path (at_sample [''.deadreckon'', ''plan.yaml''] TFile) = sample_dir @ plan_path"
    by (simp add: sample_relative plan_path_def)
  moreover have "leaf_present (cw_disk sample_world) sample_dir (at_sample [''.deadreckon'', ''plan.yaml''] TFile)"
    using sample_files(2) by (simp add: leaf_present_def sample_world_def at_sample_def entry_relative_def strip_path_prefix_def)
  ultimately have "\<exists>x \<in> set (pl_entries plan). ce_relative x = plan_path \<and> ce_tracked x"
    using tracked_files_reach_the_result [OF run sample_walk_descends sample_hydration_ok] by simp
  then show ?thesis using run(1) by blast
qed

theorem capture_respects_budgets_witness:
  "\<exists>plan w'. capture_workspace_strict sample_env sample_dir sample_policy ResultCandidate ForResultCandidate sample_world
      = (Inr plan, w') \<and> unat (wm_included_files (pl_manifest plan)) = 2"
proof -
  obtain plan w' where run: "capture_workspace_strict sample_env sample_dir sample_policy ResultCandidate ForResultCandidate
      sample_world = (Inr plan, w')" "length (pl_entries plan) = 2"
    using sample_capture by force
  moreover have "cb_max_files (wp_budgets sample_policy) < - 1" "cb_max_total_bytes (wp_budgets sample_policy) < - 1"
    by (simp_all add: sample_policy_def default_budgets_def word_less_nat_alt unsigned_minus_1_eq_mask mask_eq_exp_minus_1)
  ultimately show ?thesis using capture_respects_budgets [OF run(1)] by auto
qed

section \<open>A tracked path the result does not hold\<close>

text \<open>
  A tracked path below a runtime root of an evidence directory counts as belonging to the result, and the
  walk does not descend to it.
\<close>

lemma runtime_below_evidence_is_pruned:
  "is_result_candidate_tracked_path [Normal ''.specstory'', Normal ''target'', Normal ''x'']
    \<and> filter_capture_entry (sample_context\<lparr>tc_tracked := [[Normal ''.specstory'', Normal ''target'', Normal ''x'']],
          tc_tracked_directories := [[Normal ''.specstory''], [Normal ''.specstory'', Normal ''target'']]\<rparr>)
        (at_sample [''.specstory''] TDir) = Prune GeneratedOutput"
  by code_simp

end
