(* ===== verification/Policy_Examples.thy ===== *)
theory Policy_Examples
  imports Policy_Guarantees Capture_Examples
begin

text \<open>Freezing the policy of a plain directory with one ignore file, at admission and for the result.\<close>

definition plain_entries :: "walk_entry list" where
  "plain_entries = [at_sample [] TDir, at_sample [''.gitignore''] TFile, at_sample [''a.txt''] TFile]"

definition plain_disk :: disk where
  "plain_disk = sample_disk
    \<lparr>tree := [(sample_dir, DirNode), (sample_dir @ [Normal ''.gitignore''], FileNode ''debug.log'' 420),
       (sample_dir @ [Normal ''a.txt''], FileNode ''x'' 420)]\<rparr>"

definition plain_world :: capture_world where
  "plain_world = \<lparr>cw_fs = empty_fs, cw_disk = plain_disk, cw_clock = 0, cw_scopes = []\<rparr>"

definition plain_hydration :: frozen_git_hydration where
  "plain_hydration = \<lparr>fh_schema_version = 1, fh_frozen_at = 0, fh_repository = False, fh_tracked_paths = [],
    fh_head = None, fh_index_sha256 = None\<rparr>"

definition plain_policy :: workspace_capture_policy where
  "plain_policy = \<lparr>wp_schema_version = 1, wp_frozen_at = 0,
    wp_ignores = [\<lparr>ig_kind = Gitignore, ig_base = Utf8 [], ig_origin = ''.gitignore'', ig_lines = [''debug.log'']\<rparr>],
    wp_frozen_git_hydration = Some plain_hydration, wp_frozen_tracked_paths = [], wp_output_roots = [],
    wp_budgets = default_budgets, wp_warnings = [], wp_frozen_git_head = None, wp_frozen_git_index_sha256 = None\<rparr>"

definition plain_env :: capture_env where
  "plain_env = sample_env\<lparr>cv_walk := (\<lambda>_. listed_walk plain_entries),
    cv_policy := \<lparr>enc = (\<lambda>_. Some ''P''), dec = (\<lambda>_. Some plain_policy)\<rparr>\<rparr>"

lemma plain_inputs:
  "is_dir plain_disk sample_dir"
  "root_ignores plain_env sample_dir plain_disk = \<lparr>pd_ignores = wp_ignores plain_policy, pd_markers = [], pd_warnings = []\<rparr>"
  "listed_walk plain_entries sample_dir (discovery_admits sample_dir) = map Yielded plain_entries"
  by code_simp+

lemma plain_items:
  assumes "e \<in> set plain_entries"
  shows "discover_item plain_env sample_dir e found plain_disk = found"
proof -
  have "\<not> is_ecosystem_marker ''a.txt''" "ignore_file_kind ''a.txt'' = None" "ignore_file_kind ''.gitignore'' \<noteq> None"
    by code_simp+
  then show ?thesis using assms
    by (auto simp: plain_entries_def discover_item_def at_sample_def strip_path_prefix_def file_name_def Let_def)
qed

lemma plain_env_simps [simp]:
  "cv_now plain_env k = 0" "cv_wall plain_env k = 0" "cv_walk plain_env d = listed_walk plain_entries"
  by (simp_all add: plain_env_def)

lemma plain_loop:
  assumes "cw_disk w = plain_disk" "set es \<subseteq> set plain_entries" "seen + length es \<le> 100000"
  shows "discovery_loop plain_env sample_dir 0 seen (map Yielded es) found w
    = (Inr found, w\<lparr>cw_clock := cw_clock w + length es\<rparr>)"
  using assms
proof (induction es arbitrary: seen w)
  case (Cons e es)
  then have "\<not> 100000 \<le> seen" "discover_item plain_env sample_dir e found plain_disk = found"
    using plain_items by auto
  then show ?case using Cons by (simp add: act_bind_def read_clock_def on_disk_def Let_def)
qed simp

lemma plain_discovered:
  assumes "cw_disk w = plain_disk"
  shows "discover_policy_inputs plain_env sample_dir w =
    (Inr \<lparr>pd_ignores = wp_ignores plain_policy, pd_markers = [], pd_warnings = []\<rparr>, w\<lparr>cw_clock := cw_clock w + 4\<rparr>)"
proof -
  have three: "length plain_entries = 3" by (simp add: plain_entries_def)
  have loop: "discovery_loop plain_env sample_dir 0 0 (map Yielded plain_entries) found v
      = (Inr found, v\<lparr>cw_clock := cw_clock v + 3\<rparr>)" if "cw_disk v = plain_disk" for found v
    using plain_loop [OF that, of plain_entries 0] three by simp
  have "sort_key f (wp_ignores plain_policy) = wp_ignores plain_policy" for f :: "frozen_ignore_source \<Rightarrow> frozen_ignore_kind \<times> nat \<times> string"
    by (simp add: plain_policy_def)
  then show ?thesis using assms
    by (simp add: discover_policy_inputs_def act_bind_def read_clock_def on_disk_def plain_inputs loop settle_discovery_def
        btree_set_def)
qed

lemma plain_git:
  assumes "cw_disk w = plain_disk"
  shows "freeze_git_hydration plain_env sample_dir w = (Inr plain_hydration, w\<lparr>cw_clock := Suc (cw_clock w)\<rparr>)"
    "freeze_git_exclude_sources plain_env sample_dir found w = (Inr found, w)"
proof -
  have "lstat_kind plain_disk (join sample_dir ''.git'') = Inl IoNotFound" by code_simp
  moreover have "cv_git plain_env w r args = Inr \<lparr>gt_success = False, gt_stdout = [], gt_stderr = []\<rparr>" for w r args
    by (simp add: plain_env_def sample_env_def gate_env.defs)
  moreover have "cv_xdg_config_home plain_env = None" "cv_home_var plain_env = None"
    by (simp_all add: plain_env_def sample_env_def gate_env.defs)
  ultimately show "freeze_git_hydration plain_env sample_dir w = (Inr plain_hydration, w\<lparr>cw_clock := Suc (cw_clock w)\<rparr>)"
      "freeze_git_exclude_sources plain_env sample_dir found w = (Inr found, w)"
    using assms
    by (simp_all add: freeze_git_hydration_def utc_now_def act_bind_def git_repository_detected_def plain_hydration_def
        FROZEN_GIT_HYDRATION_VERSION_def freeze_git_exclude_sources_def frozen_external_ignore_file_def
        global_gitignore_path_def git_config_path_def successful_def)
qed

definition plain_run :: pipeline_state where
  "plain_run = new_pipeline_state
    \<lparr>op_goal = ''g'', op_cwd = sample_dir, op_sandbox = [], op_provider = None, op_skill_name = [], op_max_spend_usd = None,
     op_max_wall_seconds = None, op_run_id = None, op_codebase = None\<rparr>
    ''s'' ''r'' [RootDir, Normal ''r''] sample_dir [] None 0"

lemma plain_ensured:
  "\<exists>w'. ensure_workspace_capture_policy plain_env plain_run plain_world = (Inr plain_policy, w')"
proof -
  have "discover_output_roots plain_env d sample_dir [] [] = ([], [])" for d
    by (simp add: discover_output_roots_def marker_roots_def btree_set_def map_filter_simps)
  moreover have "cv_policy plain_env = \<lparr>enc = (\<lambda>_. Some ''P''), dec = (\<lambda>_. Some plain_policy)\<rparr>" by (simp add: plain_env_def)
  moreover have "path_parent (workspace_capture_policy_path [RootDir, Normal ''r'']) \<noteq> None" by code_simp
  ultimately show ?thesis
    by (simp add: ensure_workspace_capture_policy_def plain_run_def new_pipeline_state_def plain_world_def cap_io_def
        fs_exists_def Let_def freeze_workspace_capture_policy_def utc_now_def act_bind_def plain_git plain_discovered on_disk_def
        write_workspace_capture_policy_def atomic_write_json_def WORKSPACE_CAPTURE_POLICY_VERSION_def)
      (auto simp: plain_policy_def plain_hydration_def split: option.splits)
qed


section \<open>The guarantees\<close>

text \<open>
  A run that begins freezes its policy; a run that has begun, beside a policy with other warnings, is
  given that policy and leaves everything as it is.
\<close>

definition older_policy :: workspace_capture_policy where
  "older_policy = plain_policy\<lparr>wp_warnings := [''older'']\<rparr>"

definition older_env :: capture_env where
  "older_env = plain_env\<lparr>cv_policy := \<lparr>enc = (\<lambda>_. Some ''P''), dec = (\<lambda>_. Some older_policy)\<rparr>\<rparr>"

definition older_world :: capture_world where
  "older_world = plain_world\<lparr>cw_fs := put_file (workspace_capture_policy_path [RootDir, Normal ''r'']) ''P'' empty_fs\<rparr>"

lemma plain_hydration_required:
  "require_frozen_git_hydration plain_policy = Inr plain_hydration"
  "require_frozen_git_hydration older_policy = Inr plain_hydration"
  by (simp_all add: require_frozen_git_hydration_def older_policy_def plain_policy_def validate_frozen_git_hydration_def
      plain_hydration_def FROZEN_GIT_HYDRATION_VERSION_def)

lemma older_kept:
  "ensure_workspace_capture_policy older_env (plain_run\<lparr>rs_turn := 5\<rparr>) older_world = (Inr older_policy, older_world)"
proof -
  have "with_hydration older_policy = older_policy"
    by (simp add: with_hydration_def older_policy_def plain_policy_def)
  moreover have "wp_schema_version older_policy = WORKSPACE_CAPTURE_POLICY_VERSION"
    by (simp add: older_policy_def plain_policy_def WORKSPACE_CAPTURE_POLICY_VERSION_def)
  moreover have "rs_run_root plain_run = [RootDir, Normal ''r'']" by (simp add: plain_run_def new_pipeline_state_def)
  ultimately show ?thesis
    by (simp add: ensure_workspace_capture_policy_def act_bind_def cap_io_def fs_exists_def Let_def older_env_def
        older_world_def plain_world_def read_workspace_capture_policy_def fs_read_def parse_json_def plain_hydration_required)
qed

theorem ensured_policy_is_required_witness:
  "(\<exists>w'. ensure_workspace_capture_policy plain_env plain_run plain_world = (Inr plain_policy, w')
      \<and> require_workspace_capture_policy (cv_policy plain_env) plain_run (cw_fs w') = (Inr plain_policy, cw_fs w')
      \<and> changes_only {workspace_capture_policy_path [RootDir, Normal ''r'']} (cw_fs plain_world) (cw_fs w'))
   \<and> read_workspace_capture_policy (cv_policy older_env) [RootDir, Normal ''r''] (cw_fs older_world)
      = (Inr older_policy, cw_fs older_world)"
proof -
  have root: "rs_run_root (plain_run\<lparr>rs_turn := 5\<rparr>) = [RootDir, Normal ''r'']" "rs_run_root plain_run = [RootDir, Normal ''r'']"
    by (simp_all add: plain_run_def new_pipeline_state_def)
  have codec: "document_ok (cv_policy plain_env) plain_policy" "document_ok (cv_policy older_env) older_policy"
    by (simp_all add: document_ok_def plain_env_def older_env_def)
  have fs: "read_fault (cw_fs plain_world) p = None" "files (cw_fs plain_world) p = None"
      "read_fault (cw_fs older_world) p = None"
      "files (cw_fs older_world) (workspace_capture_policy_path [RootDir, Normal ''r'']) \<noteq> None" for p
    by (simp_all add: plain_world_def older_world_def)
  obtain w' where run: "ensure_workspace_capture_policy plain_env plain_run plain_world = (Inr plain_policy, w')"
    using plain_ensured by blast
  show ?thesis
    using ensured_policy_is_required [OF run codec(1) fs(1)] ensured_policy_is_required [OF older_kept codec(2) fs(3)]
      fs(2,4) run unfolding root by auto
qed

theorem result_policy_ignores_the_host_witness:
  "\<exists>policy w'. freeze_result_projection_policy (elsewhere plain_env (\<lambda>_ _ _. Inl (Io [] IoOther)) (\<lambda>_ _ _ _. TimedOut) (Some ''x'') None)
      sample_dir plain_policy plain_world = (Inr policy, w')
    \<and> wp_output_roots policy = [] \<and> wp_ignores policy \<noteq> []
    \<and> (\<forall>s \<in> set (wp_ignores policy). project_rule plain_env plain_disk sample_dir s)"
proof -
  obtain policy w' where run: "freeze_result_projection_policy plain_env sample_dir plain_policy plain_world = (Inr policy, w')"
      and "wp_ignores policy = wp_ignores plain_policy"
    using plain_hydration_required(1)
    by (simp add: freeze_result_projection_policy_def act_bind_def plain_discovered plain_world_def utc_now_def)
  moreover have "wp_ignores plain_policy \<noteq> []" "cw_disk plain_world = plain_disk"
    by (simp_all add: plain_policy_def plain_world_def)
  ultimately show ?thesis using result_policy_ignores_the_host [OF run] by fastforce
qed

section \<open>A linked ignore file in the root\<close>

text \<open>
  The root's own \<open>.gitignore\<close> is read through a link: when the agent makes it a link to a file outside
  the workspace, the rules of that file become the rules of the result.
\<close>

definition linked_disk :: disk where
  "linked_disk = plain_disk
    \<lparr>tree := [(sample_dir, DirNode), (sample_dir @ [Normal ''.gitignore''], LinkNode ''/o/rules''),
       ([RootDir, Normal ''o'', Normal ''rules''], FileNode ''a.txt'' 420)]\<rparr>"

theorem linked_root_ignore_is_followed:
  "pd_ignores (root_ignores plain_env sample_dir linked_disk) =
    [\<lparr>ig_kind = Gitignore, ig_base = Utf8 [], ig_origin = ''.gitignore'', ig_lines = [''a.txt'']\<rparr>]"
  by code_simp

end
