(* ===== verification/Artifact_Index.thy ===== *)
theory Artifact_Index
  imports Workspace_Capture Policy_Freeze
begin

text \<open>
  The file indexes of \<open>crates/deadreckon-core/src/flight.rs\<close>: what a capture selected, by path, with the
  digests of contents and link targets; the receipt-grade index binds kinds and permissions too, and its tree
  hash is taken over an unambiguous text.
\<close>

section \<open>Identities\<close>

definition bytes_identity :: "bytes \<Rightarrow> bytes" where
  "bytes_identity b = le_bytes8 (of_nat (length b)) @ b"

definition update_path_identity :: "path \<Rightarrow> bytes" where
  "update_path_identity p = bytes_identity (path_bytes p)"

definition sha256_path_identity :: "'z gate_env_scheme \<Rightarrow> bytes \<Rightarrow> string" where
  "sha256_path_identity gv target = capture_sha256 gv (bytes_identity target)"

definition path_identity_len :: "bytes \<Rightarrow> u64" where
  "path_identity_len target = of_nat (length target)"

definition sha256_file :: "'z gate_env_scheme \<Rightarrow> path \<Rightarrow> disk \<Rightarrow> string res" where
  "sha256_file gv p d = res_bind (read_node p d) (\<lambda>b. Inr (capture_sha256 gv b))"

section \<open>The artifact index\<close>

datatype artifact_file_kind = RegularArtifact | ExecutableArtifact | LinkArtifact

record artifact_file_fingerprint =
  af_kind :: artifact_file_kind
  af_hash :: string
  af_size :: u64

type_synonym artifact_file_index = "(path \<times> artifact_file_fingerprint) list"

definition regular_file_kind :: "disk_node \<Rightarrow> artifact_file_kind" where
  "regular_file_kind metadata = (if executable_mode (node_mode metadata) then ExecutableArtifact else RegularArtifact)"

definition artifact_fingerprint :: "'z gate_env_scheme \<Rightarrow> disk \<Rightarrow> capture_entry \<Rightarrow> artifact_file_fingerprint res" where
  "artifact_fingerprint gv d e =
    res_bind (lstat (ce_source e) d) (\<lambda>metadata.
    case ce_kind e of
      CapturedFile \<Rightarrow>
        res_bind (sha256_file gv (ce_source e) d) (\<lambda>hash.
        Inr \<lparr>af_kind = regular_file_kind metadata, af_hash = hash, af_size = node_len d (ce_source e) metadata\<rparr>)
    | CapturedLink \<Rightarrow>
        res_bind (read_link (ce_source e) d) (\<lambda>target.
        Inr \<lparr>af_kind = LinkArtifact, af_hash = sha256_path_identity gv target, af_size = path_identity_len target\<rparr>))"

definition artifact_index_step ::
    "'z gate_env_scheme \<Rightarrow> disk \<Rightarrow> artifact_file_index \<Rightarrow> capture_entry \<Rightarrow> artifact_file_index res" where
  "artifact_index_step gv d index e =
    res_bind (artifact_fingerprint gv d e) (\<lambda>fingerprint. Inr (btree_map_insert (ce_relative e) fingerprint index))"

definition artifact_file_index_from_capture :: "'z capture_env_scheme \<Rightarrow> workspace_capture_plan \<Rightarrow> artifact_file_index cap" where
  "artifact_file_index_from_capture cv plan =
    act_bind (act_lift (require_complete cv plan ''verified artifact index'')) (\<lambda>_.
    on_disk (\<lambda>d. fold_res (artifact_index_step cv d) [] (pl_entries plan)))"

fun artifact_kind_label :: "artifact_file_kind \<Rightarrow> bytes" where
  "artifact_kind_label RegularArtifact = ''regular''"
| "artifact_kind_label ExecutableArtifact = ''executable''"
| "artifact_kind_label LinkArtifact = ''symlink''"

definition artifact_entry_text :: "path \<times> artifact_file_fingerprint \<Rightarrow> bytes" where
  "artifact_entry_text entry =
    (let (p, f) = entry in
     update_path_identity p @ [CHR 0x00] @ artifact_kind_label (af_kind f) @ [CHR 0x00] @ le_bytes8 (af_size f) @ [CHR 0x00]
       @ af_hash f @ [CHR 0x00])"

definition artifact_tree_text :: "artifact_file_index \<Rightarrow> bytes" where
  "artifact_tree_text index = ''deadreckon-deliverable-tree-v2'' @ [CHR 0x00] @ concat (map artifact_entry_text index)"

definition artifact_tree_hash :: "'z gate_env_scheme \<Rightarrow> artifact_file_index \<Rightarrow> string" where
  "artifact_tree_hash gv index = capture_sha256 gv (artifact_tree_text index)"

section \<open>Building it\<close>

definition build_artifact_file_index ::
    "'z capture_env_scheme \<Rightarrow> path \<Rightarrow> workspace_capture_policy \<Rightarrow> capture_projection \<Rightarrow> capture_purpose \<Rightarrow> artifact_file_index cap" where
  "build_artifact_file_index cv root_dir policy projection purpose =
    act_bind (capture_workspace cv root_dir policy projection purpose) (artifact_file_index_from_capture cv)"

definition build_strict_index ::
    "'z capture_env_scheme \<Rightarrow> path \<Rightarrow> workspace_capture_policy \<Rightarrow> capture_projection \<Rightarrow> capture_purpose \<Rightarrow> artifact_file_index cap" where
  "build_strict_index cv root_dir policy projection purpose =
    act_bind (capture_workspace_strict cv root_dir policy projection purpose) (artifact_file_index_from_capture cv)"

definition build_deliverable_file_index :: "'z capture_env_scheme \<Rightarrow> path \<Rightarrow> artifact_file_index cap" where
  "build_deliverable_file_index cv root_dir =
    act_bind (freeze_workspace_capture_policy cv root_dir) (\<lambda>policy.
    build_artifact_file_index cv root_dir policy DeliverableView ForDeliverableIndex)"

definition build_deliverable_file_index_for_state :: "'z capture_env_scheme \<Rightarrow> pipeline_state \<Rightarrow> artifact_file_index cap" where
  "build_deliverable_file_index_for_state cv st =
    act_bind (cap_io (require_workspace_capture_policy (cv_policy cv) st)) (\<lambda>policy.
    build_strict_index cv (rs_working_dir st) policy DeliverableView ForDeliverableIndex)"

definition build_workspace_guard_file_index :: "'z capture_env_scheme \<Rightarrow> path \<Rightarrow> artifact_file_index cap" where
  "build_workspace_guard_file_index cv root_dir =
    act_bind (freeze_workspace_capture_policy cv root_dir) (\<lambda>policy.
    build_artifact_file_index cv root_dir policy WorkspaceGuard ForWorkspaceGuard)"

definition build_workspace_guard_file_index_with_policy ::
    "'z capture_env_scheme \<Rightarrow> path \<Rightarrow> workspace_capture_policy \<Rightarrow> artifact_file_index cap" where
  "build_workspace_guard_file_index_with_policy cv root_dir policy =
    build_strict_index cv root_dir policy WorkspaceGuard ForWorkspaceGuard"

definition build_workspace_guard_file_index_for_state :: "'z capture_env_scheme \<Rightarrow> pipeline_state \<Rightarrow> artifact_file_index cap" where
  "build_workspace_guard_file_index_for_state cv st =
    act_bind (cap_io (require_workspace_capture_policy (cv_policy cv) st)) (\<lambda>policy.
    build_workspace_guard_file_index_with_policy cv (rs_working_dir st) policy)"

definition build_promotable_file_index_with_policy ::
    "'z capture_env_scheme \<Rightarrow> path \<Rightarrow> workspace_capture_policy \<Rightarrow> artifact_file_index cap" where
  "build_promotable_file_index_with_policy cv root_dir policy =
    build_strict_index cv root_dir policy PromotableView ForPromotionCandidate"

section \<open>The working index\<close>

record file_fingerprint =
  ff_hash :: string
  ff_size :: u64

record working_file_index =
  wi_files :: "(path \<times> file_fingerprint) list"
  wi_capture :: "workspace_capture_manifest option"

definition working_fingerprint :: "'z gate_env_scheme \<Rightarrow> disk \<Rightarrow> capture_entry \<Rightarrow> file_fingerprint res" where
  "working_fingerprint gv d e =
    (case ce_kind e of
       CapturedFile \<Rightarrow> res_bind (sha256_file gv (ce_source e) d) (\<lambda>hash. Inr \<lparr>ff_hash = hash, ff_size = ce_size e\<rparr>)
     | CapturedLink \<Rightarrow>
        res_bind (read_link (ce_source e) d) (\<lambda>target.
        Inr \<lparr>ff_hash = sha256_path_identity gv target, ff_size = path_identity_len target\<rparr>))"

definition fingerprint_working_capture ::
    "'z gate_env_scheme \<Rightarrow> workspace_capture_plan \<Rightarrow> disk \<Rightarrow> (path \<times> file_fingerprint) list res" where
  "fingerprint_working_capture gv plan d =
    fold_res (\<lambda>files e. res_bind (working_fingerprint gv d e) (\<lambda>f. Inr (btree_map_insert (ce_relative e) f files)))
      [] (pl_entries plan)"

definition index_working_capture :: "'z capture_env_scheme \<Rightarrow> workspace_capture_plan \<Rightarrow> working_file_index cap" where
  "index_working_capture cv plan =
    act_bind (on_disk (fingerprint_working_capture cv plan)) (\<lambda>files.
    act_return \<lparr>wi_files = files, wi_capture = Some (pl_manifest plan)\<rparr>)"

definition build_working_file_index_with_policy ::
    "'z capture_env_scheme \<Rightarrow> path \<Rightarrow> workspace_capture_policy \<Rightarrow> working_file_index cap" where
  "build_working_file_index_with_policy cv root_dir policy =
    act_bind (capture_workspace cv root_dir policy CheckpointView ForFlightCheckpoint) (index_working_capture cv)"

definition build_working_file_index :: "'z capture_env_scheme \<Rightarrow> path \<Rightarrow> working_file_index cap" where
  "build_working_file_index cv root_dir =
    act_bind (freeze_workspace_capture_policy cv root_dir) (build_working_file_index_with_policy cv root_dir)"

definition build_working_file_index_for_state :: "'z capture_env_scheme \<Rightarrow> pipeline_state \<Rightarrow> working_file_index cap" where
  "build_working_file_index_for_state cv st =
    act_bind (cap_io (require_workspace_capture_policy (cv_policy cv) st)) (\<lambda>policy.
    act_bind (capture_workspace_strict cv (rs_working_dir st) policy CheckpointView ForFlightCheckpoint)
      (index_working_capture cv))"

text \<open>The JSON text of a reason is its name in quotes.\<close>

fun reason_json :: "capture_omission_reason \<Rightarrow> bytes" where
  "reason_json FrozenIgnore = ''\"frozen_ignore\"''"
| "reason_json GeneratedOutput = ''\"generated_output\"''"
| "reason_json SuspiciousGeneratedSubtree = ''\"suspicious_generated_subtree\"''"
| "reason_json OversizeFile = ''\"oversize_file\"''"
| "reason_json FileBudget = ''\"file_budget\"''"
| "reason_json ByteBudget = ''\"byte_budget\"''"
| "reason_json TraversalDeadline = ''\"traversal_deadline\"''"
| "reason_json UnsupportedEntry = ''\"unsupported_entry\"''"
| "reason_json IoFailure = ''\"io_error\"''"

definition omission_text :: "capture_omission \<Rightarrow> bytes" where
  "omission_text x =
    update_path_identity (om_path x) @ reason_json (om_reason x) @ le_bytes8 (om_file_count x) @ le_bytes8 (om_total_bytes x)
      @ (case om_metadata_sha256 x of None \<Rightarrow> [] | Some digest \<Rightarrow> digest)"

definition working_tree_text :: "working_file_index \<Rightarrow> bytes" where
  "working_tree_text index =
    ''deadreckon-working-tree-v2'' @ [CHR 0x00]
      @ concat (map (\<lambda>(p, f). update_path_identity p @ [CHR 0x00] @ ff_hash f @ [CHR 0x00]) (wi_files index))
      @ (case wi_capture index of
           None \<Rightarrow> []
         | Some m \<Rightarrow> wm_policy_sha256 m @ [if wm_partial m then CHR 0x01 else CHR 0x00]
             @ concat (map omission_text (wm_omissions m)))"

definition working_tree_hash :: "'z gate_env_scheme \<Rightarrow> working_file_index \<Rightarrow> string" where
  "working_tree_hash gv index = capture_sha256 gv (working_tree_text index)"

section \<open>The text of an index determines it\<close>

lemma le_bytes8_length [simp]: "length (le_bytes8 n) = 8"
  by (simp add: le_bytes8_def be_bytes8_def)

lemma le_bytes8_inj:
  assumes "le_bytes8 m = le_bytes8 n"
  shows "m = n"
proof -
  have digit: "unat m div 256 ^ i mod 256 = unat n div 256 ^ i mod 256" if "i < 8" for i
  proof -
    have "i \<in> set [7, 6, 5, 4, 3, 2, 1, 0]" using that by auto
    moreover have "\<forall>i \<in> set [7, 6, 5, 4, 3, 2, 1, 0].
        (char_of (unat m div 256 ^ i mod 256) :: char) = char_of (unat n div 256 ^ i mod 256)"
      using assms unfolding le_bytes8_def be_bytes8_def rev_is_rev_conv map_eq_conv .
    ultimately have "(char_of (unat m div 256 ^ i mod 256) :: char) = char_of (unat n div 256 ^ i mod 256)" by blast
    then show ?thesis by (metis mod_mod_trivial of_char_of)
  qed
  have "bit m k = bit n k" if k: "k < 64" for k
  proof -
    have nth: "bit v k = bit (unat v div 256 ^ (k div 8) mod 256) (k mod 8)" for v :: u64
    proof -
      have idx: "8 * (k div 8) + k mod 8 = k" "k mod 8 < 8" by simp_all
      have "unat v div 256 ^ (k div 8) mod 256 = take_bit 8 (drop_bit (8 * (k div 8)) (unat v))"
        by (simp add: take_bit_eq_mod drop_bit_eq_div power_mult)
      then show ?thesis by (simp only: bit_take_bit_iff bit_drop_bit_eq o_def idx bit_unsigned_iff possible_bit_word k) (use k idx in simp)
    qed
    have "k div 8 < 8" using k by simp
    show ?thesis unfolding nth digit [OF \<open>k div 8 < 8\<close>] ..
  qed
  then show ?thesis by (intro bit_word_eqI) simp
qed

definition indexable :: "path \<times> artifact_file_fingerprint \<Rightarrow> bool" where
  "indexable entry \<longleftrightarrow> plain_path (fst entry) \<and> length (path_bytes (fst entry)) < 2 ^ 64 \<and> CHR 0x00 \<notin> set (af_hash (snd entry))"

lemma until_nul:
  assumes "xs @ CHR 0x00 # r = ys @ CHR 0x00 # r'" "CHR 0x00 \<notin> set xs" "CHR 0x00 \<notin> set ys"
  shows "xs = ys \<and> r = r'"
  using assms
proof (induction xs arbitrary: ys)
  case Nil
  then show ?case by (cases ys) auto
next
  case (Cons x xs)
  then show ?case by (cases ys) auto
qed

lemma kind_label_no_nul: "CHR 0x00 \<notin> set (artifact_kind_label k)"
  by (cases k) simp_all

lemma kind_label_inj: "artifact_kind_label k = artifact_kind_label k' \<Longrightarrow> k = k'"
  by (cases k; cases k') simp_all

lemma bytes_identity_inj:
  assumes "bytes_identity b @ r = bytes_identity b' @ r'" "length b < 2 ^ 64" "length b' < 2 ^ 64"
  shows "b = b' \<and> r = r'"
proof -
  have "le_bytes8 (of_nat (length b)) = le_bytes8 (of_nat (length b'))" "b @ r = b' @ r'"
    using assms(1) by (simp_all add: bytes_identity_def)
  moreover have "of_nat (length b) = (of_nat (length b') :: u64) \<Longrightarrow> length b = length b'"
    using assms(2,3) by (simp add: word_of_nat_eq_iff take_bit_nat_eq_self)
  ultimately show ?thesis using le_bytes8_inj by (metis append_eq_append_conv)
qed

lemma artifact_entry_inj:
  assumes "artifact_entry_text e @ r = artifact_entry_text e' @ r'" "indexable e" "indexable e'"
  shows "e = e' \<and> r = r'"
proof -
  obtain p f p' f' where e: "e = (p, f)" "e' = (p', f')" by (cases e; cases e') auto
  have path: "path_bytes p = path_bytes p'"
    and rest: "artifact_kind_label (af_kind f) @ CHR 0x00 # le_bytes8 (af_size f) @ CHR 0x00 # af_hash f @ CHR 0x00 # r
      = artifact_kind_label (af_kind f') @ CHR 0x00 # le_bytes8 (af_size f') @ CHR 0x00 # af_hash f' @ CHR 0x00 # r'"
    using assms bytes_identity_inj [of "path_bytes p" _ "path_bytes p'"]
    by (auto simp: e artifact_entry_text_def update_path_identity_def indexable_def)
  from until_nul [OF rest kind_label_no_nul kind_label_no_nul]
  have kind: "af_kind f = af_kind f'"
    and sized: "le_bytes8 (af_size f) @ CHR 0x00 # af_hash f @ CHR 0x00 # r = le_bytes8 (af_size f') @ CHR 0x00 # af_hash f' @ CHR 0x00 # r'"
    using kind_label_inj by blast+
  from sized have len: "af_size f = af_size f'" and hash: "af_hash f @ CHR 0x00 # r = af_hash f' @ CHR 0x00 # r'"
    using le_bytes8_inj by simp_all
  from until_nul [OF hash] assms(2,3) have "af_hash f = af_hash f'" "r = r'" by (auto simp: e indexable_def)
  moreover have "p = p'" using path assms(2,3) path_bytes_inj by (simp add: e indexable_def)
  ultimately show ?thesis using kind len by (simp add: e)
qed

lemma artifact_tree_text_inj:
  assumes "artifact_tree_text m = artifact_tree_text n" "list_all indexable m" "list_all indexable n"
  shows "m = n"
proof -
  have "concat (map artifact_entry_text m) = concat (map artifact_entry_text n)"
    using assms(1) by (simp add: artifact_tree_text_def)
  moreover have no_empty: "artifact_entry_text e \<noteq> []" for e
    by (cases e) (simp add: artifact_entry_text_def)
  ultimately show ?thesis using assms(2,3)
  proof (induction m arbitrary: n)
    case Nil
    then show ?case by (cases n) (auto simp: no_empty)
  next
    case (Cons e m)
    then obtain e' n' where n: "n = e' # n'" by (cases n) (auto simp: no_empty)
    then have "e = e' \<and> concat (map artifact_entry_text m) = concat (map artifact_entry_text n')"
      using Cons.prems artifact_entry_inj [of e "concat (map artifact_entry_text m)" e'] by simp
    then show ?case using Cons n by simp
  qed
qed

end
