(* ===== verification/Disk_Change.thy ===== *)
theory Disk_Change
  imports Disk
begin

text \<open>
  Changes of the tree, as the standard library makes them: directories, files written piece by piece, links,
  permissions, removal and renaming, with the failure the system would report. A path is taken as it is;
  only the last component is followed where the system follows it.
\<close>

section \<open>Nodes\<close>

definition set_node :: "path \<Rightarrow> disk_node \<Rightarrow> disk \<Rightarrow> disk" where
  "set_node p n d = d\<lparr>tree := AList.update p n (tree d)\<rparr>"

definition del_node :: "path \<Rightarrow> disk \<Rightarrow> disk" where
  "del_node p d = d\<lparr>tree := AList.delete p (tree d)\<rparr>"

definition parent_is_dir :: "disk \<Rightarrow> path \<Rightarrow> bool" where
  "parent_is_dir d p = (case path_parent p of None \<Rightarrow> True | Some q \<Rightarrow> q = [] \<or> nodes d q = Some DirNode)"

text \<open>A new name: the system refuses a fault, a name that is taken and a parent that is no directory.\<close>

definition new_node :: "path \<Rightarrow> disk_node \<Rightarrow> disk \<Rightarrow> io_error_kind + disk" where
  "new_node p n d =
    (case change_fault d p of
       Some k \<Rightarrow> Inl k
     | None \<Rightarrow>
        if nodes d p \<noteq> None then Inl IoAlreadyExists
        else if \<not> parent_is_dir d p then Inl IoNotFound
        else Inr (set_node p n d))"

definition at_path :: "path \<Rightarrow> io_error_kind + 'a \<Rightarrow> 'a res" where
  "at_path p r = (case r of Inl k \<Rightarrow> Inl (Io p k) | Inr a \<Rightarrow> Inr a)"

definition create_dir :: "path \<Rightarrow> disk \<Rightarrow> io_error_kind + disk" where
  "create_dir p = new_node p DirNode"

definition dir_step :: "disk \<Rightarrow> path \<Rightarrow> io_error_kind + disk" where
  "dir_step d p = (if is_dir d p then Inr d else create_dir p d)"

definition create_dirs :: "path \<Rightarrow> disk \<Rightarrow> io_error_kind + disk" where
  "create_dirs p d = fold_res dir_step d (filter (\<lambda>q. q \<noteq> []) (prefixes p))"

definition symlink :: "bytes \<Rightarrow> path \<Rightarrow> disk \<Rightarrow> io_error_kind + disk" where
  "symlink target p = new_node p (LinkNode target)"

text \<open>A hard link shows the same node under a second name; later writes through one of them are not modelled.\<close>

definition hard_link :: "path \<Rightarrow> path \<Rightarrow> disk \<Rightarrow> io_error_kind + disk" where
  "hard_link p q d = (case nodes d p of None \<Rightarrow> Inl IoNotFound | Some DirNode \<Rightarrow> Inl IoPermissionDenied | Some n \<Rightarrow> new_node q n d)"

definition remove_file :: "path \<Rightarrow> disk \<Rightarrow> io_error_kind + disk" where
  "remove_file p d =
    (case change_fault d p of
       Some k \<Rightarrow> Inl k
     | None \<Rightarrow> (case nodes d p of
         None \<Rightarrow> Inl IoNotFound
       | Some DirNode \<Rightarrow> Inl IoOther
       | Some _ \<Rightarrow> Inr (del_node p d)))"

definition children :: "disk \<Rightarrow> path \<Rightarrow> path list" where
  "children d p = remdups (filter (\<lambda>q. q \<noteq> [] \<and> butlast q = p) (map fst (tree d)))"

definition read_dir :: "path \<Rightarrow> disk \<Rightarrow> path list res" where
  "read_dir p d =
    (case open_fault d p of
       Some k \<Rightarrow> Inl (Io p k)
     | None \<Rightarrow> (case stat_node d p of
         Some DirNode \<Rightarrow> Inr (children d p)
       | None \<Rightarrow> Inl (Io p IoNotFound)
       | Some _ \<Rightarrow> Inl (Io p IoOther)))"

definition remove_dir :: "path \<Rightarrow> disk \<Rightarrow> io_error_kind + disk" where
  "remove_dir p d =
    (case change_fault d p of
       Some k \<Rightarrow> Inl k
     | None \<Rightarrow> (case nodes d p of
         Some DirNode \<Rightarrow> if children d p = [] then Inr (del_node p d) else Inl IoOther
       | None \<Rightarrow> Inl IoNotFound
       | Some _ \<Rightarrow> Inl IoOther))"

section \<open>Files\<close>

text \<open>Where opening a path for writing ends up: links of the last component are followed.\<close>

fun resolve_links :: "nat \<Rightarrow> disk \<Rightarrow> path \<Rightarrow> path option" where
  "resolve_links 0 d p = None"
| "resolve_links (Suc n) d p =
    (case nodes d p of
       Some (LinkNode target) \<Rightarrow> resolve_links n d (lexical_normalize (join_path (path_pop p) (components target)))
     | _ \<Rightarrow> Some p)"

text \<open>\<open>File::create\<close>: an existing file is truncated, a new one has the default permissions 0644.\<close>

definition create_file :: "path \<Rightarrow> disk \<Rightarrow> io_error_kind + (path \<times> disk)" where
  "create_file p d =
    (case resolve_links 41 d p of
       None \<Rightarrow> Inl IoOther
     | Some q \<Rightarrow>
        (case change_fault d q of
           Some k \<Rightarrow> Inl k
         | None \<Rightarrow> (case nodes d q of
             None \<Rightarrow> if parent_is_dir d q then Inr (q, set_node q (FileNode [] 420) d) else Inl IoNotFound
           | Some (FileNode _ m) \<Rightarrow> Inr (q, set_node q (FileNode [] m) d)
           | Some _ \<Rightarrow> Inl IoOther)))"

text \<open>A write at the end of an open file: what fits is written, then the device is full.\<close>

definition append_to_file :: "path \<Rightarrow> bytes \<Rightarrow> disk \<Rightarrow> bool \<times> disk" where
  "append_to_file q b d =
    (case nodes d q of
       Some (FileNode old m) \<Rightarrow>
         let room = (case space d q of None \<Rightarrow> length b | Some n \<Rightarrow> n - length old) in
         (length b \<le> room, set_node q (FileNode (old @ take room b) m) d)
     | _ \<Rightarrow> (False, d))"

definition set_permissions :: "path \<Rightarrow> nat \<Rightarrow> disk \<Rightarrow> io_error_kind + disk" where
  "set_permissions p m d =
    (case resolve_links 41 d p of
       None \<Rightarrow> Inl IoOther
     | Some q \<Rightarrow> (case nodes d q of
         None \<Rightarrow> Inl IoNotFound
       | Some (FileNode b _) \<Rightarrow> Inr (set_node q (FileNode b m) d)
       | Some _ \<Rightarrow> Inr d))"

text \<open>\<open>fs::rename\<close> of a directory onto a name that is free or an empty directory.\<close>

definition moved :: "path \<Rightarrow> path \<Rightarrow> path \<times> disk_node \<Rightarrow> path \<times> disk_node" where
  "moved p q = (\<lambda>(x, n). (if prefix p x then q @ drop (length p) x else x, n))"

definition rename_dir :: "path \<Rightarrow> path \<Rightarrow> disk \<Rightarrow> io_error_kind + disk" where
  "rename_dir p q d =
    (case change_fault d p of
       Some k \<Rightarrow> Inl k
     | None \<Rightarrow>
        if nodes d p \<noteq> Some DirNode then Inl IoNotFound
        else if nodes d q \<noteq> None \<and> (nodes d q \<noteq> Some DirNode \<or> children d q \<noteq> []) then Inl IoOther
        else if \<not> parent_is_dir d q \<or> strict_prefix p q then Inl IoOther
        else let d = del_node q d in Inr (d\<lparr>tree := map (moved p q) (tree d)\<rparr>))"

section \<open>Steps of a computation\<close>

definition try_change :: "path \<Rightarrow> (disk \<Rightarrow> io_error_kind + disk) \<Rightarrow> unit cap" where
  "try_change p f = change_disk (\<lambda>d. at_path p (f d))"

definition open_for_writing :: "path \<Rightarrow> path cap" where
  "open_for_writing p = (\<lambda>w. case create_file p (cw_disk w) of
     Inl k \<Rightarrow> (Inl (Io p k), w)
   | Inr (q, d) \<Rightarrow> (Inr q, w\<lparr>cw_disk := d\<rparr>))"

definition write_all :: "path \<Rightarrow> path \<Rightarrow> bytes \<Rightarrow> unit cap" where
  "write_all p q b = (\<lambda>w. case append_to_file q b (cw_disk w) of
     (ok, d) \<Rightarrow> (if ok then Inr () else Inl (Io p IoOther), w\<lparr>cw_disk := d\<rparr>))"

text \<open>A temporary file, readable by its owner alone, renamed over what has the name.\<close>

definition persist_file :: "path \<Rightarrow> bytes \<Rightarrow> disk \<Rightarrow> io_error_kind + disk" where
  "persist_file p b d =
    (case change_fault d p of
       Some k \<Rightarrow> Inl k
     | None \<Rightarrow>
        if nodes d p = Some DirNode then Inl IoOther
        else if \<not> parent_is_dir d p then Inl IoNotFound
        else Inr (set_node p (FileNode b 384) d))"

definition tree_write_json :: "'a codec \<Rightarrow> path \<Rightarrow> 'a \<Rightarrow> unit cap" where
  "tree_write_json c p v =
    (case path_parent p of
       None \<Rightarrow> act_lift (Inl (InvalidInput (PathHasNoParent p)))
     | Some parent \<Rightarrow>
        act_bind (try_change parent (create_dirs parent)) (\<lambda>_.
        case enc c v of
          None \<Rightarrow> act_lift (Inl (Json p))
        | Some b \<Rightarrow> try_change p (persist_file p (b @ [newline]))))"

definition tree_read_json :: "'a codec \<Rightarrow> path \<Rightarrow> 'a cap" where
  "tree_read_json c p = act_bind (on_disk (read_node p)) (\<lambda>raw. act_lift (parse_json c p raw))"

text \<open>A \<open>for\<close> loop that stops at the first failure.\<close>

fun for_each :: "('a \<Rightarrow> unit cap) \<Rightarrow> 'a list \<Rightarrow> unit cap" where
  "for_each body [] = act_return ()"
| "for_each body (x # xs) = act_bind (body x) (\<lambda>_. for_each body xs)"

text \<open>
  Removing a tree: the entries of a directory first, each directory after what it holds. The recursion
  goes down the directories of the disk; its fuel is their number, which no chain of them exceeds.
\<close>

definition remove_child :: "(path \<Rightarrow> unit cap) \<Rightarrow> path \<Rightarrow> unit cap" where
  "remove_child remove_sub p =
    act_bind (on_disk (lstat p)) (\<lambda>node.
    if node = DirNode then remove_sub p else try_change p (remove_file p))"

fun remove_tree :: "unit cap \<Rightarrow> nat \<Rightarrow> path \<Rightarrow> unit cap" where
  "remove_tree check 0 p = act_lift (Inl (Io p IoOther))"
| "remove_tree check (Suc n) p =
    act_bind check (\<lambda>_.
    act_bind (on_disk (read_dir p)) (\<lambda>entries.
    act_bind (for_each (\<lambda>q. act_bind check (\<lambda>_. remove_child (remove_tree check n) q)) entries) (\<lambda>_.
    act_bind check (\<lambda>_.
    try_change p (remove_dir p)))))"

definition tree_fuel :: "capture_world \<Rightarrow> nat" where
  "tree_fuel w = Suc (length (tree (cw_disk w)))"

definition remove_whole_tree :: "unit cap \<Rightarrow> path \<Rightarrow> unit cap" where
  "remove_whole_tree check p = (\<lambda>w. remove_tree check (tree_fuel w) p w)"

text \<open>\<open>fs::remove_dir_all\<close> does the same without looking at a boundary, and reports the path it was given.\<close>

definition with_path :: "path \<Rightarrow> 'a cap \<Rightarrow> 'a cap" where
  "with_path p m = (\<lambda>w. case m w of (Inl (Io _ k), w') \<Rightarrow> (Inl (Io p k), w') | r \<Rightarrow> r)"

definition remove_dir_all :: "path \<Rightarrow> unit cap" where
  "remove_dir_all p = with_path p (remove_whole_tree (act_return ()) p)"

end
