(* ===== verification/Materialize.thy ===== *)
theory Materialize
  imports Workspace_Capture Disk_Change
begin

text \<open>
  Materializing a capture (\<open>crates/deadreckon-core/src/workspace_capture.rs\<close>): the selected leaves are
  copied below a destination whose directories are real, directly or through a store of whole files named
  by their content and permissions; and the removal of a captured tree.
\<close>

section \<open>Copying\<close>

text \<open>A file is read in pieces of 64 KiB, and the boundary is looked at before each.\<close>

function chunked :: "bytes \<Rightarrow> bytes list" where
  "chunked b = (if b = [] then [] else take 65536 b # chunked (drop 65536 b))"
  by auto
termination by (relation "measure length") auto

declare chunked.simps [simp del]

lemma chunked_code [code]:
  "chunked b = (if b = [] then [] else if int (length b) \<le> 65536 then [b] else take 65536 b # chunked (drop 65536 b))"
  by (subst chunked.simps) (simp add: chunked.simps [of "[]"])

definition copy_regular_file :: "'z capture_env_scheme \<Rightarrow> work_boundary option \<Rightarrow> path \<Rightarrow> path \<Rightarrow> u64 cap" where
  "copy_regular_file cv boundary source target =
    act_bind (on_disk (read_node source)) (\<lambda>content.
    act_bind (open_for_writing target) (\<lambda>opened.
    act_bind (for_each (\<lambda>chunk. act_bind (check_optional cv boundary) (\<lambda>_. write_all target opened chunk)) (chunked content)) (\<lambda>_.
    act_bind (check_optional cv boundary) (\<lambda>_.
    act_bind (check_optional cv boundary) (\<lambda>_.
    act_return (of_nat (length content)))))))"

definition octal_digit :: "nat \<Rightarrow> char" where
  "octal_digit n = char_of (48 + n mod 8)"

definition permission_identity :: "disk_node \<Rightarrow> string" where
  "permission_identity node =
    (let m = node_mode node mod 4096 in
     ''mode-'' @ map octal_digit [m div 512, m div 64, m div 8, m])"

section \<open>The destination\<close>

definition ensure_materialization_root :: "path \<Rightarrow> unit cap" where
  "ensure_materialization_root p = (\<lambda>w.
    (case lstat_kind (cw_disk w) p of
       Inr DirNode \<Rightarrow> act_return ()
     | Inr _ \<Rightarrow> act_lift (Inl (capture_error (CaptureRootNotDirectory p)))
     | Inl k \<Rightarrow> if k = IoNotFound then try_change p (create_dirs p) else act_lift (Inl (Io p k))) w)"

fun ensure_hierarchy :: "path \<Rightarrow> path \<Rightarrow> path \<Rightarrow> unit cap" where
  "ensure_hierarchy relative current [] = act_return ()"
| "ensure_hierarchy relative current (Normal name # rest) =
    (let next = current @ [Normal name] in
     act_bind (\<lambda>w.
       (case lstat_kind (cw_disk w) next of
          Inr DirNode \<Rightarrow> act_return ()
        | Inr _ \<Rightarrow> act_lift (Inl (capture_error (CaptureHierarchyNotDirectory next)))
        | Inl k \<Rightarrow> if k = IoNotFound then try_change next (create_dir next) else act_lift (Inl (Io next k))) w) (\<lambda>_.
     ensure_hierarchy relative next rest))"
| "ensure_hierarchy relative current (_ # rest) = act_lift (Inl (capture_error (CaptureUnsafePath relative)))"

definition ensure_materialization_parent :: "path \<Rightarrow> path \<Rightarrow> unit cap" where
  "ensure_materialization_parent root_dir relative =
    (case path_parent relative of None \<Rightarrow> act_return () | Some parent \<Rightarrow> ensure_hierarchy relative root_dir parent)"

definition remove_materialization_target :: "path \<Rightarrow> unit cap" where
  "remove_materialization_target p = (\<lambda>w.
    (case lstat_kind (cw_disk w) p of
       Inr DirNode \<Rightarrow> remove_dir_all p
     | Inr _ \<Rightarrow> try_change p (remove_file p)
     | Inl k \<Rightarrow> if k = IoNotFound then act_return () else act_lift (Inl (Io p k))) w)"

section \<open>The blob store\<close>

definition no_materialization :: capture_materialization where
  "no_materialization = \<lparr>mt_regular_files = 0, mt_symbolic_links = 0, mt_materialized_bytes = 0, mt_new_blobs = 0,
    mt_reused_blobs = 0, mt_hardlinks = 0, mt_copy_fallbacks = 0\<rparr>"

definition add_materialization :: "capture_materialization \<Rightarrow> capture_materialization \<Rightarrow> capture_materialization" where
  "add_materialization a b =
    \<lparr>mt_regular_files = saturating_add_u64 (mt_regular_files a) (mt_regular_files b),
     mt_symbolic_links = saturating_add_u64 (mt_symbolic_links a) (mt_symbolic_links b),
     mt_materialized_bytes = saturating_add_u64 (mt_materialized_bytes a) (mt_materialized_bytes b),
     mt_new_blobs = saturating_add_u64 (mt_new_blobs a) (mt_new_blobs b),
     mt_reused_blobs = saturating_add_u64 (mt_reused_blobs a) (mt_reused_blobs b),
     mt_hardlinks = saturating_add_u64 (mt_hardlinks a) (mt_hardlinks b),
     mt_copy_fallbacks = saturating_add_u64 (mt_copy_fallbacks a) (mt_copy_fallbacks b)\<rparr>"

text \<open>
  A finished temporary file of the store becomes the blob of its name, unless there is one; then only the
  length is compared. The temporary file itself, gone in the end, is not a node of the model.
\<close>

definition settle_blob :: "path \<Rightarrow> bytes \<Rightarrow> nat \<Rightarrow> bool cap" where
  "settle_blob blob content mode = (\<lambda>w.
    if is_file (cw_disk w) blob then
      act_bind (on_disk (lstat blob)) (\<lambda>node.
      act_bind (on_disk (\<lambda>d. Inr (node_len d blob node))) (\<lambda>len.
      if len \<noteq> of_nat (length content) then act_lift (Inl (capture_error (BlobCorrupt blob))) else act_return True)) w
    else (case new_node blob (FileNode content mode) (cw_disk w) of
        Inr d \<Rightarrow> (Inr False, w\<lparr>cw_disk := d\<rparr>)
      | Inl k \<Rightarrow> (if k = IoAlreadyExists then Inr True else Inl (Io blob k), w)))"

definition try_hard_link :: "path \<Rightarrow> path \<Rightarrow> bool cap" where
  "try_hard_link blob target = (\<lambda>w.
    case hard_link blob target (cw_disk w) of Inr d \<Rightarrow> (Inr True, w\<lparr>cw_disk := d\<rparr>) | Inl _ \<Rightarrow> (Inr False, w))"

definition read_checked :: "'z capture_env_scheme \<Rightarrow> work_boundary option \<Rightarrow> path \<Rightarrow> path \<Rightarrow> bytes cap" where
  "read_checked cv boundary source blob_dir =
    act_bind (on_disk (read_node source)) (\<lambda>content.
    act_bind (on_disk (\<lambda>d. case change_fault d blob_dir of Some k \<Rightarrow> Inl (Io blob_dir k) | None \<Rightarrow> Inr ())) (\<lambda>_.
    act_bind (for_each (\<lambda>_. check_optional cv boundary) (chunked content)) (\<lambda>_.
    act_bind (check_optional cv boundary) (\<lambda>_.
    act_return content))))"

definition materialize_regular_file_from_blob ::
    "'z capture_env_scheme \<Rightarrow> work_boundary option \<Rightarrow> capture_entry \<Rightarrow> path \<Rightarrow> path \<Rightarrow> capture_materialization
      \<Rightarrow> capture_materialization cap" where
  "materialize_regular_file_from_blob cv boundary e target blob_root stats =
    act_bind (on_disk (lstat (ce_source e))) (\<lambda>metadata.
    let blob_dir = join blob_root ''sha256'' @ [Normal (permission_identity metadata)] in
    act_bind (try_change blob_dir (create_dirs blob_dir)) (\<lambda>_.
    act_bind (read_checked cv boundary (ce_source e) blob_dir) (\<lambda>content.
    if of_nat (length content) \<noteq> ce_size e then
      act_lift (Inl (capture_error (CaptureSizeChanged (ce_relative e) (ce_size e) (of_nat (length content)))))
    else
      let blob = blob_dir @ [Normal (hex_encode (gv_digest cv content))] in
      act_bind (settle_blob blob content (node_mode metadata)) (\<lambda>reused.
      let stats = (if reused then stats\<lparr>mt_reused_blobs := 1\<rparr> else stats\<lparr>mt_new_blobs := 1\<rparr>) in
      act_bind (try_hard_link blob target) (\<lambda>linked.
      if linked then act_return (stats\<lparr>mt_hardlinks := 1\<rparr>)
      else
        act_bind (copy_regular_file cv boundary blob target) (\<lambda>_.
        act_bind (try_change target (set_permissions target (node_mode metadata))) (\<lambda>_.
        act_return (stats\<lparr>mt_copy_fallbacks := 1\<rparr>))))))))"

section \<open>Entries and plans\<close>

definition materialize_capture_entry ::
    "'z capture_env_scheme \<Rightarrow> work_boundary option \<Rightarrow> path \<Rightarrow> path option \<Rightarrow> capture_entry \<Rightarrow> capture_materialization cap" where
  "materialize_capture_entry cv boundary destination blob_root e =
    act_bind (check_optional cv boundary) (\<lambda>_.
    let target = join_path destination (ce_relative e) in
    act_bind (ensure_materialization_parent destination (ce_relative e)) (\<lambda>_.
    act_bind (remove_materialization_target target) (\<lambda>_.
    case ce_kind e of
      CapturedFile \<Rightarrow>
        let stats = no_materialization\<lparr>mt_regular_files := 1, mt_materialized_bytes := ce_size e\<rparr> in
        (case blob_root of
           Some store \<Rightarrow> materialize_regular_file_from_blob cv boundary e target store stats
         | None \<Rightarrow>
            act_bind (on_disk (lstat (ce_source e))) (\<lambda>metadata.
            act_bind (copy_regular_file cv boundary (ce_source e) target) (\<lambda>_.
            act_bind (try_change target (set_permissions target (node_mode metadata))) (\<lambda>_.
            act_return stats))))
    | CapturedLink \<Rightarrow>
        act_bind (on_disk (read_link (ce_source e))) (\<lambda>points_to.
        act_bind (try_change target (symlink points_to target)) (\<lambda>_.
        act_return (no_materialization\<lparr>mt_symbolic_links := 1, mt_materialized_bytes := ce_size e\<rparr>))))))"

fun materialize_entries ::
    "'z capture_env_scheme \<Rightarrow> work_boundary option \<Rightarrow> path \<Rightarrow> path option \<Rightarrow> capture_entry list \<Rightarrow> capture_materialization
      \<Rightarrow> capture_materialization cap" where
  "materialize_entries cv boundary destination blob_root [] stats = act_return stats"
| "materialize_entries cv boundary destination blob_root (e # es) stats =
    act_bind (check_optional cv boundary) (\<lambda>_.
    act_bind (materialize_capture_entry cv boundary destination blob_root e) (\<lambda>entry_stats.
    materialize_entries cv boundary destination blob_root es (add_materialization stats entry_stats)))"

definition materialize_within ::
    "'z capture_env_scheme \<Rightarrow> work_boundary option \<Rightarrow> workspace_capture_plan \<Rightarrow> path \<Rightarrow> path option
      \<Rightarrow> capture_materialization cap" where
  "materialize_within cv boundary plan destination blob_root =
    act_bind (check_optional cv boundary) (\<lambda>_.
    act_bind (ensure_materialization_root destination) (\<lambda>_.
    act_bind (case blob_root of None \<Rightarrow> act_return () | Some store \<Rightarrow> ensure_materialization_root store) (\<lambda>_.
    act_bind (materialize_entries cv boundary destination blob_root (pl_entries plan) no_materialization) (\<lambda>stats.
    act_bind (check_optional cv boundary) (\<lambda>_.
    act_return stats)))))"

definition materialize_capture_plan :: "'z capture_env_scheme \<Rightarrow> workspace_capture_plan \<Rightarrow> path \<Rightarrow> unit cap" where
  "materialize_capture_plan cv plan destination = (\<lambda>w.
    act_bind (materialize_within cv (inherited_work_boundary w) plan destination None) (\<lambda>_. act_return ()) w)"

definition materialize_capture_plan_bounded ::
    "'z capture_env_scheme \<Rightarrow> workspace_capture_plan \<Rightarrow> path \<Rightarrow> work_boundary \<Rightarrow> unit cap" where
  "materialize_capture_plan_bounded cv plan destination boundary =
    act_bind (materialize_within cv (Some boundary) plan destination None) (\<lambda>_. act_return ())"

definition materialize_capture_plan_with_blob_store ::
    "'z capture_env_scheme \<Rightarrow> workspace_capture_plan \<Rightarrow> path \<Rightarrow> path \<Rightarrow> capture_materialization cap" where
  "materialize_capture_plan_with_blob_store cv plan destination blob_root = (\<lambda>w.
    materialize_within cv (inherited_work_boundary w) plan destination (Some blob_root) w)"

definition materialize_capture_plan_with_blob_store_bounded ::
    "'z capture_env_scheme \<Rightarrow> workspace_capture_plan \<Rightarrow> path \<Rightarrow> path \<Rightarrow> work_boundary \<Rightarrow> capture_materialization cap" where
  "materialize_capture_plan_with_blob_store_bounded cv plan destination blob_root boundary =
    materialize_within cv (Some boundary) plan destination (Some blob_root)"

definition materialize_capture_entry_with_blob_store ::
    "'z capture_env_scheme \<Rightarrow> path \<Rightarrow> capture_entry_kind \<Rightarrow> u64 \<Rightarrow> path \<Rightarrow> path \<Rightarrow> path \<Rightarrow> capture_materialization cap" where
  "materialize_capture_entry_with_blob_store cv source kind len destination relative blob_root = (\<lambda>w.
    (let boundary = inherited_work_boundary w in
     act_bind (check_optional cv boundary) (\<lambda>_.
     act_bind (ensure_materialization_root destination) (\<lambda>_.
     act_bind (ensure_materialization_root blob_root) (\<lambda>_.
     materialize_capture_entry cv boundary destination (Some blob_root)
       \<lparr>ce_relative = relative, ce_source = source, ce_kind = kind, ce_size = len, ce_tracked = False\<rparr>)))) w)"

section \<open>Removal and manifests\<close>

definition remove_captured_directory_tree :: "'z capture_env_scheme \<Rightarrow> path \<Rightarrow> unit cap" where
  "remove_captured_directory_tree cv p = (\<lambda>w.
    (case lstat_kind (cw_disk w) p of
       Inl k \<Rightarrow> if k = IoNotFound then act_return () else act_lift (Inl (Io p k))
     | Inr node \<Rightarrow>
        if node \<noteq> DirNode then act_lift (Inl (capture_error (RemovalNotDirectory p)))
        else remove_whole_tree (check_optional cv (inherited_work_boundary w)) p) w)"

definition write_capture_manifest :: "workspace_capture_manifest codec \<Rightarrow> path \<Rightarrow> workspace_capture_manifest \<Rightarrow> unit cap" where
  "write_capture_manifest codec p manifest = tree_write_json codec p manifest"

definition read_capture_manifest :: "workspace_capture_manifest codec \<Rightarrow> path \<Rightarrow> workspace_capture_manifest cap" where
  "read_capture_manifest codec p = tree_read_json codec p"

end
