(* ===== verification/Result_Projection.thy ===== *)
theory Result_Projection
  imports Artifact_Index Materialize
begin

text \<open>
  The controller-sealed result of a run (\<open>crates/deadreckon-core/src/result_projection.rs\<close>): the activation of a
  job, the sealing of a candidate copied from the working tree, and the checks of every later use. Records are
  control files; the candidate and every copy of it are trees of the disk.
\<close>

section \<open>Records\<close>

definition RESULT_PROJECTION_SCHEMA_VERSION :: u32 where "RESULT_PROJECTION_SCHEMA_VERSION = 1"

record result_projection_activation =
  ra_schema_version :: u32
  ra_job_id :: string

record result_projection_manifest =
  rp_schema_version :: u32
  rp_run_id :: string
  rp_sealed_at :: timestamp
  rp_source_working_dir :: path
  rp_admission_policy_sha256 :: string
  rp_projection_policy_sha256 :: string
  rp_tree_sha256 :: string
  rp_included_files :: u64
  rp_included_bytes :: u64
  rp_omissions :: "capture_omission list"
  rp_omissions_truncated :: u64

record sealed_result_projection =
  sp_manifest :: result_projection_manifest
  sp_policy :: workspace_capture_policy
  sp_candidate :: path

record projection_env = capture_env +
  jv_activation :: "result_projection_activation codec"
  jv_manifest :: "result_projection_manifest codec"

definition projection_error :: "projection_fault \<Rightarrow> dr_error" where
  "projection_error f = InvalidInput (ProjectionFault f)"

section \<open>Activation\<close>

definition result_projection_activation_path :: "path \<Rightarrow> string \<Rightarrow> path" where
  "result_projection_activation_path home job_id = join (job_dir home job_id) ''result-projection-activation.json''"

definition activate_result_projection :: "result_projection_activation codec \<Rightarrow> path \<Rightarrow> string \<Rightarrow> unit io" where
  "activate_result_projection codec home job_id =
    (let p = result_projection_activation_path home job_id;
         activation = \<lparr>ra_schema_version = RESULT_PROJECTION_SCHEMA_VERSION, ra_job_id = job_id\<rparr>
     in
     io_bind (fs_exists p) (\<lambda>found.
     if found then
       io_bind (fs_read p) (\<lambda>raw.
       io_bind (io_lift (parse_json codec p raw)) (\<lambda>existing.
       if existing = activation then io_return ()
       else io_throw (projection_error (ActivationConflict p job_id))))
     else atomic_write_json codec p activation))"

definition result_projection_required :: "result_projection_activation codec \<Rightarrow> path \<Rightarrow> string \<Rightarrow> bool io" where
  "result_projection_required codec home job_id =
    (let p = result_projection_activation_path home job_id in
     io_bind (fs_read_optional p) (\<lambda>raw.
     case raw of
       None \<Rightarrow> io_return False
     | Some raw \<Rightarrow>
        io_bind (io_lift (parse_json codec p raw)) (\<lambda>activation.
        if ra_schema_version activation \<noteq> RESULT_PROJECTION_SCHEMA_VERSION \<or> ra_job_id activation \<noteq> job_id
        then io_throw (projection_error (ActivationUnsupported p))
        else io_return True)))"

section \<open>Places\<close>

definition result_projection_dir :: "pipeline_state \<Rightarrow> path" where
  "result_projection_dir st = join (rs_run_root st) ''result-projection''"

definition result_projection_policy_path :: "pipeline_state \<Rightarrow> path" where
  "result_projection_policy_path st = join (result_projection_dir st) ''policy.json''"

definition result_projection_manifest_path :: "pipeline_state \<Rightarrow> path" where
  "result_projection_manifest_path st = join (result_projection_dir st) ''manifest.json''"

definition result_projection_candidate_path :: "pipeline_state \<Rightarrow> path" where
  "result_projection_candidate_path st = join (result_projection_dir st) ''candidate''"

definition result_projection_evaluation_path :: "pipeline_state \<Rightarrow> path" where
  "result_projection_evaluation_path st = join (result_projection_dir st) ''evaluation''"

definition result_projection_exists :: "pipeline_state \<Rightarrow> capture_world \<Rightarrow> bool" where
  "result_projection_exists st w \<longleftrightarrow>
    (\<forall>p \<in> {result_projection_manifest_path st, result_projection_policy_path st}.
       read_fault (cw_fs w) p = None \<and> files (cw_fs w) p \<noteq> None)
    \<and> is_dir (cw_disk w) (result_projection_candidate_path st)"

section \<open>Helpers\<close>

definition index_with_policy :: "'z capture_env_scheme \<Rightarrow> path \<Rightarrow> workspace_capture_policy \<Rightarrow> artifact_file_index cap" where
  "index_with_policy cv root_dir policy =
    act_bind (capture_workspace_strict cv root_dir policy ResultCandidate ForResultCandidate)
      (artifact_file_index_from_capture cv)"

definition policy_digest :: "'z capture_env_scheme \<Rightarrow> workspace_capture_policy \<Rightarrow> string res" where
  "policy_digest cv policy =
    res_bind (ok_or (cv_policy_compact cv policy) (projection_error ProjectionPolicyRendering)) (\<lambda>raw.
    Inr (sha256_text cv raw))"

definition require_same_index :: "pipeline_state \<Rightarrow> artifact_file_index \<Rightarrow> artifact_file_index \<Rightarrow> string \<Rightarrow> unit res" where
  "require_same_index st expected actual operation =
    (if expected = actual then Inr () else Inl (projection_error (ProjectionBytesChanged (rs_run_id st) operation)))"

definition remove_controller_tree :: "'z capture_env_scheme \<Rightarrow> path \<Rightarrow> unit cap" where
  "remove_controller_tree cv p = (\<lambda>w.
    (case lstat_kind (cw_disk w) p of
       Inr DirNode \<Rightarrow> remove_captured_directory_tree cv p
     | Inr _ \<Rightarrow> act_lift (Inl (projection_error (ProjectionNotDirectory p)))
     | Inl k \<Rightarrow> if k = IoNotFound then act_return () else act_lift (Inl (Io p k))) w)"

definition included_bytes :: "artifact_file_index \<Rightarrow> u64" where
  "included_bytes index = sum_list (map (\<lambda>(_, f). af_size f) index)"

section \<open>Loading and validating\<close>

definition load_result_projection :: "'z projection_env_scheme \<Rightarrow> pipeline_state \<Rightarrow> sealed_result_projection io" where
  "load_result_projection jv st =
    (let manifest_path = result_projection_manifest_path st; policy_path = result_projection_policy_path st in
     io_bind (fs_read manifest_path) (\<lambda>manifest_raw.
     io_bind (io_lift (parse_json (jv_manifest jv) manifest_path manifest_raw)) (\<lambda>manifest.
     if rp_schema_version manifest \<noteq> RESULT_PROJECTION_SCHEMA_VERSION \<or> rp_run_id manifest \<noteq> rs_run_id st then
       io_throw (projection_error (ProjectionManifestIdentity (rs_run_id st)))
     else
       io_bind (fs_read policy_path) (\<lambda>policy_raw.
       io_bind (io_lift (parse_json (cv_policy jv) policy_path policy_raw)) (\<lambda>policy.
       io_bind (io_lift (policy_digest jv policy)) (\<lambda>actual_policy_sha256.
       if actual_policy_sha256 \<noteq> rp_projection_policy_sha256 manifest then
         io_throw (projection_error (ProjectionPolicyChanged (rs_run_id st)))
       else
         io_bind (require_workspace_capture_policy (cv_policy jv) st) (\<lambda>admission.
         io_bind (io_lift (policy_digest jv admission)) (\<lambda>admission_sha256.
         if admission_sha256 \<noteq> rp_admission_policy_sha256 manifest then
           io_throw (projection_error (ProjectionAdmissionChanged (rs_run_id st)))
         else io_return \<lparr>sp_manifest = manifest, sp_policy = policy, sp_candidate = result_projection_candidate_path st\<rparr>))))))))"

definition validate_result_projection_at ::
    "'z projection_env_scheme \<Rightarrow> pipeline_state \<Rightarrow> path \<Rightarrow> result_projection_manifest cap" where
  "validate_result_projection_at jv st root_dir =
    act_bind (cap_io (load_result_projection jv st)) (\<lambda>projection.
    act_bind (index_with_policy jv root_dir (sp_policy projection)) (\<lambda>index.
    if artifact_tree_hash jv index \<noteq> rp_tree_sha256 (sp_manifest projection)
        \<or> of_nat (length index) \<noteq> rp_included_files (sp_manifest projection)
        \<or> included_bytes index \<noteq> rp_included_bytes (sp_manifest projection) then
      act_lift (Inl (projection_error (ProjectionTreeMismatch (rs_run_id st) root_dir)))
    else act_return (sp_manifest projection)))"

section \<open>Sealing\<close>

definition seal_result_projection :: "'z projection_env_scheme \<Rightarrow> pipeline_state \<Rightarrow> result_projection_manifest cap" where
  "seal_result_projection jv st =
    act_bind (cap_io (require_workspace_capture_policy (cv_policy jv) st)) (\<lambda>admission.
    act_bind (freeze_result_projection_policy jv (rs_working_dir st) admission) (\<lambda>policy.
    act_bind (capture_workspace_strict jv (rs_working_dir st) policy ResultCandidate ForResultCandidate) (\<lambda>source_capture.
    act_bind (act_lift (require_complete jv source_capture ''result projection'')) (\<lambda>_.
    act_bind (artifact_file_index_from_capture jv source_capture) (\<lambda>source_index.
    let root_dir = result_projection_dir st in
    act_bind (try_change root_dir (create_dirs root_dir)) (\<lambda>_.
    let preparing = join root_dir ''.candidate-preparing'' in
    act_bind (remove_controller_tree jv preparing) (\<lambda>_.
    act_bind (materialize_capture_plan jv source_capture preparing) (\<lambda>_.
    act_bind (index_with_policy jv preparing policy) (\<lambda>copied_index.
    act_bind (act_lift (require_same_index st source_index copied_index ''candidate materialization'')) (\<lambda>_.
    let candidate = result_projection_candidate_path st in
    act_bind (remove_controller_tree jv candidate) (\<lambda>_.
    act_bind (try_change preparing (rename_dir preparing candidate)) (\<lambda>_.
    act_bind (act_lift (policy_digest jv admission)) (\<lambda>admission_sha256.
    act_bind (act_lift (policy_digest jv policy)) (\<lambda>projection_sha256.
    act_bind (utc_now jv) (\<lambda>sealed_at.
    let manifest =
      \<lparr>rp_schema_version = RESULT_PROJECTION_SCHEMA_VERSION, rp_run_id = rs_run_id st, rp_sealed_at = sealed_at,
       rp_source_working_dir = rs_working_dir st, rp_admission_policy_sha256 = admission_sha256,
       rp_projection_policy_sha256 = projection_sha256, rp_tree_sha256 = artifact_tree_hash jv source_index,
       rp_included_files = of_nat (length source_index), rp_included_bytes = included_bytes source_index,
       rp_omissions = wm_omissions (pl_manifest source_capture),
       rp_omissions_truncated = wm_omissions_truncated (pl_manifest source_capture)\<rparr>
    in
    act_bind (cap_io (atomic_write_json (cv_policy jv) (result_projection_policy_path st) policy)) (\<lambda>_.
    act_bind (cap_io (atomic_write_json (jv_manifest jv) (result_projection_manifest_path st) manifest)) (\<lambda>_.
    act_bind (validate_result_projection_at jv st candidate) (\<lambda>_.
    act_return manifest))))))))))))))))))"

section \<open>Uses\<close>

definition materialize_result_projection ::
    "'z projection_env_scheme \<Rightarrow> pipeline_state \<Rightarrow> path \<Rightarrow> result_projection_manifest cap" where
  "materialize_result_projection jv st destination =
    act_bind (cap_io (load_result_projection jv st)) (\<lambda>projection.
    act_bind (validate_result_projection_at jv st (sp_candidate projection)) (\<lambda>_.
    act_bind (capture_workspace_strict jv (sp_candidate projection) (sp_policy projection) ResultCandidate ForResultCandidate) (\<lambda>capture.
    act_bind (act_lift (require_complete jv capture ''sealed result materialization'')) (\<lambda>_.
    act_bind (remove_controller_tree jv destination) (\<lambda>_.
    act_bind (materialize_capture_plan jv capture destination) (\<lambda>_.
    validate_result_projection_at jv st destination))))))"

definition result_projection_sha256 :: "'z capture_env_scheme \<Rightarrow> pipeline_state \<Rightarrow> string io" where
  "result_projection_sha256 cv st =
    (let p = result_projection_manifest_path st in
     io_bind (fs_read p) (\<lambda>raw.
     io_bind (io_lift (if utf8_error 0 raw = None then Inr () else Inl (Io p IoOther))) (\<lambda>_.
     io_return (sha256_text cv raw))))"

definition result_projection_index_at :: "'z projection_env_scheme \<Rightarrow> pipeline_state \<Rightarrow> path \<Rightarrow> artifact_file_index cap" where
  "result_projection_index_at jv st root_dir =
    act_bind (cap_io (load_result_projection jv st)) (\<lambda>projection.
    index_with_policy jv root_dir (sp_policy projection))"

definition clear_result_projection_evaluation :: "'z capture_env_scheme \<Rightarrow> pipeline_state \<Rightarrow> unit cap" where
  "clear_result_projection_evaluation cv st = remove_controller_tree cv (result_projection_evaluation_path st)"

end
