(* ===== verification/Materialize_Proof.thy ===== *)
theory Materialize_Proof
  imports Materialize Capture_Guarantees
begin

text \<open>
  What materializing does to the tree: each entry lands at its place with the content, the permissions or
  the link target of its source, directories appear only above entries, and nothing else changes.
\<close>

section \<open>Nodes after a change\<close>

lemma nodes_set_node [simp]: "nodes (set_node p n d) = (nodes d)(p \<mapsto> n)"
  by (simp add: nodes_def set_node_def update_conv')

lemma nodes_del_node [simp]: "nodes (del_node p d) = (nodes d)(p := None)"
  by (simp add: nodes_def del_node_def delete_conv')

text \<open>No change of the tree touches the failures the system would report.\<close>

definition same_system :: "disk \<Rightarrow> disk \<Rightarrow> bool" where
  "same_system d d' \<longleftrightarrow> lstat_fault d' = lstat_fault d \<and> open_fault d' = open_fault d
    \<and> change_fault d' = change_fault d \<and> space d' = space d \<and> dir_len d' = dir_len d"

lemma same_system_simps [simp]:
  "same_system d d" "same_system d (set_node p n d') = same_system d d'" "same_system d (del_node p d') = same_system d d'"
  by (simp_all add: same_system_def set_node_def del_node_def)

lemma same_system_trans: "same_system a b \<Longrightarrow> same_system b c \<Longrightarrow> same_system a c"
  by (simp add: same_system_def)

definition on_tree_only :: "'a cap \<Rightarrow> bool" where
  "on_tree_only m \<longleftrightarrow> (\<forall>w. cw_fs (snd (m w)) = cw_fs w \<and> cw_scopes (snd (m w)) = cw_scopes w
    \<and> same_system (cw_disk w) (cw_disk (snd (m w))))"

lemma on_tree_onlyD:
  assumes "on_tree_only m" "m w = (r, w')"
  shows "cw_fs w' = cw_fs w" "cw_scopes w' = cw_scopes w" "same_system (cw_disk w) (cw_disk w')"
  using assms unfolding on_tree_only_def by (metis snd_conv)+

lemma on_tree_only_looks: "looks m \<Longrightarrow> on_tree_only m"
  by (simp add: looks_def on_tree_only_def)

lemma on_tree_only_bind [intro]:
  assumes "on_tree_only m" "\<And>a. on_tree_only (f a)"
  shows "on_tree_only (act_bind m f)"
  unfolding on_tree_only_def
proof
  fix w
  obtain r w' where m: "m w = (r, w')" by (cases "m w")
  show "cw_fs (snd (act_bind m f w)) = cw_fs w \<and> cw_scopes (snd (act_bind m f w)) = cw_scopes w
    \<and> same_system (cw_disk w) (cw_disk (snd (act_bind m f w)))"
  proof (cases r)
    case (Inl e)
    then show ?thesis using on_tree_onlyD [OF assms(1) m] by (simp add: act_bind_def m)
  next
    case (Inr a)
    then have "act_bind m f w = f a w'" by (simp add: act_bind_def m)
    then show ?thesis using on_tree_onlyD [OF assms(1) m] assms(2) [of a] same_system_trans
      unfolding on_tree_only_def by metis
  qed
qed

lemma new_node_Inr_iff:
  "new_node p n d = Inr d' \<longleftrightarrow>
    change_fault d p = None \<and> nodes d p = None \<and> parent_is_dir d p \<and> d' = set_node p n d"
  by (auto simp: new_node_def split: option.splits if_splits)

lemma remove_file_Inr_iff:
  "remove_file p d = Inr d' \<longleftrightarrow>
    change_fault d p = None \<and> (\<exists>n. nodes d p = Some n \<and> n \<noteq> DirNode) \<and> d' = del_node p d"
  by (auto simp: remove_file_def split: option.splits disk_node.splits)

lemma create_file_Inr:
  assumes "create_file p d = Inr (q, d')" "nodes d p = None"
  shows "q = p" "d' = set_node p (FileNode [] 420) d"
proof -
  have "resolve_links 41 d p = Some p" using assms(2) by (simp add: eval_nat_numeral)
  then show "q = p" "d' = set_node p (FileNode [] 420) d"
    using assms by (auto simp: create_file_def split: option.splits if_splits)
qed

lemma try_change_Inr_iff:
  "try_change p f w = (Inr u, w') \<longleftrightarrow> (\<exists>d. f (cw_disk w) = Inr d \<and> w' = w\<lparr>cw_disk := d\<rparr>)"
  by (auto simp: try_change_def change_disk_def at_path_def split: sum.splits)

lemma on_tree_only_try_change:
  assumes "\<And>d d'. f d = Inr d' \<Longrightarrow> same_system d d'"
  shows "on_tree_only (try_change p f)"
  using assms by (auto simp: on_tree_only_def try_change_def change_disk_def at_path_def split: sum.splits)

lemma same_system_changes:
  "create_dir p d = Inr d' \<Longrightarrow> same_system d d'" "symlink t p d = Inr d' \<Longrightarrow> same_system d d'"
  "remove_file p d = Inr d' \<Longrightarrow> same_system d d'" "remove_dir p d = Inr d' \<Longrightarrow> same_system d d'"
  "set_permissions p m d = Inr d' \<Longrightarrow> same_system d d'" "create_file p d = Inr (q, d') \<Longrightarrow> same_system d d'"
  "append_to_file p b d = (ok, d') \<Longrightarrow> same_system d d'"
  by (auto simp: create_dir_def symlink_def new_node_Inr_iff remove_file_Inr_iff remove_dir_def set_permissions_def
      create_file_def append_to_file_def Let_def split: option.splits disk_node.splits if_splits)

lemma same_system_create_dirs: "create_dirs p d = Inr d' \<Longrightarrow> same_system d d'"
proof -
  have "fold_res dir_step d ps = Inr d' \<Longrightarrow> same_system d d'" for ps d
  proof (induction ps arbitrary: d)
    case (Cons q ps)
    then obtain d1 where "dir_step d q = Inr d1" "fold_res dir_step d1 ps = Inr d'" by (auto simp: res_bind_Inr_iff)
    moreover from this(1) have "same_system d d1"
      using same_system_changes(1) [of q d d1] by (auto simp: dir_step_def [of d q] split: if_splits)
    ultimately show ?case using Cons.IH [of d1] same_system_trans by blast
  qed simp
  then show "create_dirs p d = Inr d' \<Longrightarrow> same_system d d'" by (simp add: create_dirs_def)
qed

lemma on_tree_only_changes [intro!]:
  "on_tree_only (try_change p (create_dir p))" "on_tree_only (try_change p (create_dirs p))"
  "on_tree_only (try_change p (symlink t p))" "on_tree_only (try_change p (remove_file p))"
  "on_tree_only (try_change p (remove_dir p))" "on_tree_only (try_change p (set_permissions p m))"
  by (rule on_tree_only_try_change, erule same_system_changes same_system_create_dirs)+

lemma on_tree_only_hierarchy [intro!]: "on_tree_only (ensure_hierarchy relative current rest)"
proof (induction relative current rest rule: ensure_hierarchy.induct)
  case (2 relative current name rest)
  have "on_tree_only (\<lambda>w. (case lstat_kind (cw_disk w) p of
          Inr DirNode \<Rightarrow> act_return ()
        | Inr _ \<Rightarrow> act_lift (Inl e)
        | Inl k \<Rightarrow> if k = IoNotFound then try_change p (create_dir p) else act_lift (Inl (Io p k))) w)" for p e
    using on_tree_only_changes(1) [of p]
    by (auto simp: on_tree_only_def split: sum.splits disk_node.splits)
  then show ?case using 2 by (auto simp: Let_def)
qed (auto intro: on_tree_only_looks)

lemma on_tree_only_for_each [intro]: "(\<And>x. on_tree_only (body x)) \<Longrightarrow> on_tree_only (for_each body xs)"
  by (induction xs) (auto intro: on_tree_only_looks)

lemma on_tree_only_world: "(\<And>w. on_tree_only (m w)) \<Longrightarrow> on_tree_only (\<lambda>w. m w w)"
  by (simp add: on_tree_only_def)

lemma on_tree_only_check [intro!]: "on_tree_only (check_optional cv boundary)"
  by (rule on_tree_only_looks) auto

lemma on_tree_only_simple [intro!]:
  "on_tree_only (act_return a)" "on_tree_only (act_lift r)" "on_tree_only (on_disk f)" "on_tree_only (Pair r)"
  by (auto intro!: on_tree_only_looks)

lemma on_tree_only_with_path [intro]: "on_tree_only m \<Longrightarrow> on_tree_only (with_path p m)"
proof -
  have "snd (with_path p m w) = snd (m w)" for w
    by (simp add: with_path_def split: prod.splits sum.splits dr_error.splits)
  then show "on_tree_only m \<Longrightarrow> on_tree_only (with_path p m)" by (simp add: on_tree_only_def)
qed

lemma on_tree_only_remove_tree [intro]:
  assumes "on_tree_only check"
  shows "on_tree_only (remove_tree check n p)"
  using assms
  by (induction n arbitrary: p)
    (auto intro!: on_tree_only_bind on_tree_only_for_each simp: remove_child_def)

lemma on_tree_only_removal [intro!]:
  "on_tree_only (remove_dir_all p)" "on_tree_only (remove_materialization_target p)"
  "on_tree_only (ensure_materialization_root p)" "on_tree_only (remove_captured_directory_tree cv p)"
proof -
  have whole: "on_tree_only (remove_whole_tree check p)" if "on_tree_only check" for check p
    unfolding remove_whole_tree_def by (rule on_tree_only_world [of "\<lambda>w. remove_tree check (tree_fuel w) p"])
      (rule on_tree_only_remove_tree [OF that])
  show all: "on_tree_only (remove_dir_all p)" for p
    unfolding remove_dir_all_def by (intro on_tree_only_with_path whole) auto
  show "on_tree_only (remove_materialization_target p)" "on_tree_only (ensure_materialization_root p)"
    using all [of p] on_tree_only_changes(2,4) [of p] unfolding on_tree_only_def remove_materialization_target_def ensure_materialization_root_def
    by (auto split: sum.splits disk_node.splits)
  show "on_tree_only (remove_captured_directory_tree cv p)"
    using whole [OF on_tree_only_check, of cv _ p] unfolding on_tree_only_def remove_captured_directory_tree_def
    by (auto split: sum.splits)
qed

lemma on_tree_only_writing [intro!]:
  "on_tree_only (open_for_writing p)" "on_tree_only (write_all p q b)" "on_tree_only (settle_blob blob content mode)"
  "on_tree_only (try_hard_link blob target)"
proof -
  show "on_tree_only (open_for_writing p)"
    using same_system_changes(6) by (auto simp: on_tree_only_def open_for_writing_def split: sum.splits)
  show "on_tree_only (write_all p q b)"
    using same_system_changes(7) by (auto simp: on_tree_only_def write_all_def split: prod.splits)
  show "on_tree_only (settle_blob blob content mode)"
    by (auto simp: on_tree_only_def settle_blob_def act_bind_def on_disk_def new_node_Inr_iff split: sum.splits)
  show "on_tree_only (try_hard_link blob target)"
    by (auto simp: on_tree_only_def try_hard_link_def hard_link_def new_node_Inr_iff
        split: sum.splits option.splits disk_node.splits)
qed

lemma on_tree_only_entry [intro!]: "on_tree_only (materialize_capture_entry cv boundary destination blob_root e)"
proof -
  have copy: "on_tree_only (copy_regular_file cv boundary source target)" for source target
    unfolding copy_regular_file_def by (auto intro!: on_tree_only_bind on_tree_only_for_each)
  moreover have "on_tree_only (read_checked cv boundary source dir)" for source dir
    unfolding read_checked_def by (auto intro!: on_tree_only_bind on_tree_only_for_each)
  ultimately show ?thesis
    unfolding materialize_capture_entry_def materialize_regular_file_from_blob_def Let_def ensure_materialization_parent_def
    by (auto intro!: on_tree_only_bind 
        split: capture_entry_kind.splits option.splits)
qed

section \<open>Writing a file\<close>

lemma concat_chunked [simp]: "concat (chunked b) = b"
  by (induction b rule: chunked.induct) (subst chunked.simps, auto)

lemma written_chunks:
  assumes "for_each (\<lambda>chunk. act_bind (check_optional cv boundary) (\<lambda>_. write_all p q chunk)) chunks w = (Inr u, w')"
    "nodes (cw_disk w) q = Some (FileNode old m)"
  shows "nodes (cw_disk w') = (nodes (cw_disk w))(q \<mapsto> FileNode (old @ concat chunks) m)"
  using assms
proof (induction chunks arbitrary: w old)
  case Nil
  then show ?case by (auto simp: fun_upd_idem)
next
  case (Cons chunk chunks)
  obtain w1 w2 where w: "check_optional cv boundary w = (Inr (), w1)" "write_all p q chunk w1 = (Inr (), w2)"
      "for_each (\<lambda>chunk. act_bind (check_optional cv boundary) (\<lambda>_. write_all p q chunk)) chunks w2 = (Inr u, w')"
    using Cons.prems(1) by (auto simp: act_bind_Inr_iff)
  have "cw_disk w1 = cw_disk w" using looksD(2) [OF looks_check_optional w(1)] .
  then have "nodes (cw_disk w2) = (nodes (cw_disk w))(q \<mapsto> FileNode (old @ chunk) m)"
    using w(2) Cons.prems(2) by (auto simp: write_all_def append_to_file_def Let_def split: prod.splits if_splits option.splits)
  then show ?case using Cons.IH [OF w(3), of "old @ chunk"] by (auto simp: fun_eq_iff)
qed

lemma copied_file:
  assumes "copy_regular_file cv boundary source target w = (Inr n, w')" "nodes (cw_disk w) target = None"
  obtains content where "read_node source (cw_disk w) = Inr content"
    "nodes (cw_disk w') = (nodes (cw_disk w))(target \<mapsto> FileNode content 420)"
proof -
  from assms(1) obtain content opened w1 w2 w3 w4 w5 w6 where
      r: "on_disk (read_node source) w = (Inr content, w1)" "open_for_writing target w1 = (Inr opened, w2)"
        "for_each (\<lambda>chunk. act_bind (check_optional cv boundary) (\<lambda>_. write_all target opened chunk)) (chunked content) w2 = (Inr (), w3)"
        "check_optional cv boundary w3 = (Inr (), w4)" "check_optional cv boundary w4 = (Inr (), w5)" "w' = w5"
    unfolding copy_regular_file_def by (elim act_bindE) (auto simp: unit_eq)
  have "w1 = w" "read_node source (cw_disk w) = Inr content" using r(1) by (auto simp: on_disk_Inr_iff)
  moreover obtain d where "create_file target (cw_disk w1) = Inr (opened, d)" "w2 = w1\<lparr>cw_disk := d\<rparr>"
    using r(2) by (auto simp: open_for_writing_def split: sum.splits)
  ultimately have "opened = target" "nodes (cw_disk w2) = (nodes (cw_disk w))(target \<mapsto> FileNode [] 420)"
    using create_file_Inr [of target "cw_disk w1" opened d] assms(2) by simp_all
  then have "nodes (cw_disk w3) = (nodes (cw_disk w))(target \<mapsto> FileNode content 420)"
    using written_chunks [OF r(3), of "[]" 420] by simp
  moreover have "cw_disk w' = cw_disk w3"
    using looksD(2) [OF looks_check_optional r(4)] looksD(2) [OF looks_check_optional r(5)] r(6) by simp
  ultimately show ?thesis using that \<open>read_node source (cw_disk w) = Inr content\<close> by simp
qed

section \<open>Placing an entry\<close>

text \<open>The tree after an entry: its node at its place, and directories above it where there was nothing.\<close>

definition placed :: "path \<Rightarrow> path \<Rightarrow> disk_node \<Rightarrow> (path \<Rightarrow> disk_node option) \<Rightarrow> path \<Rightarrow> disk_node option" where
  "placed destination relative n t = (\<lambda>q.
    if q = destination @ relative then Some n
    else if strict_prefix destination q \<and> strict_prefix q (destination @ relative) \<and> t q = None then Some DirNode
    else t q)"

lemma hierarchy_made:
  assumes "ensure_hierarchy relative current rest w = (Inr u, w')"
  shows "nodes (cw_disk w') = (\<lambda>q.
    if strict_prefix current q \<and> prefix q (current @ rest) \<and> nodes (cw_disk w) q = None then Some DirNode
    else nodes (cw_disk w) q)"
  using assms
proof (induction rest arbitrary: current w)
  case Nil
  then show ?case by (auto simp: fun_eq_iff strict_prefix_def prefix_order.antisym)
next
  case (Cons c rest)
  from Cons.prems obtain name where c: "c = Normal name" by (cases c) auto
  define next_dir where "next_dir = current @ [Normal name]"
  obtain w1 where w1: "(case lstat_kind (cw_disk w) next_dir of
          Inr DirNode \<Rightarrow> act_return ()
        | Inr _ \<Rightarrow> act_lift (Inl (capture_error (CaptureHierarchyNotDirectory next_dir)))
        | Inl k \<Rightarrow> if k = IoNotFound then try_change next_dir (create_dir next_dir) else act_lift (Inl (Io next_dir k))) w = (Inr (), w1)"
      and rest: "ensure_hierarchy relative next_dir rest w1 = (Inr u, w')"
    using Cons.prems by (auto simp: c Let_def act_bind_Inr_iff simp flip: next_dir_def)
  have n1: "nodes (cw_disk w1) = (nodes (cw_disk w))(next_dir := Some (case nodes (cw_disk w) next_dir of None \<Rightarrow> DirNode | Some n \<Rightarrow> n))"
    using w1 by (auto simp: lstat_kind_def try_change_Inr_iff create_dir_def new_node_Inr_iff fun_eq_iff
        split: option.splits sum.splits disk_node.splits if_splits)
  have between: "strict_prefix current q \<and> prefix q (current @ c # rest) \<longleftrightarrow>
      q = next_dir \<or> strict_prefix next_dir q \<and> prefix q (next_dir @ rest)" for q
    by (auto simp: next_dir_def c strict_prefix_def prefix_def append_eq_append_conv2 Cons_eq_append_conv)
  show ?case
  proof
    fix q
    show "nodes (cw_disk w') q = (if strict_prefix current q \<and> prefix q (current @ c # rest) \<and> nodes (cw_disk w) q = None
        then Some DirNode else nodes (cw_disk w) q)"
      unfolding Cons.IH [OF rest] n1 using between [of q] by (cases "q = next_dir") (auto split: option.splits)
  qed
qed

lemma target_cleared:
  assumes "remove_materialization_target p w = (Inr u, w')" "nodes (cw_disk w) p \<noteq> Some DirNode"
    "lstat_fault (cw_disk w) p \<noteq> Some IoNotFound"
  shows "nodes (cw_disk w') = (nodes (cw_disk w))(p := None)"
  using assms
  by (auto simp: remove_materialization_target_def lstat_kind_def try_change_Inr_iff remove_file_Inr_iff fun_upd_idem
      split: option.splits sum.splits disk_node.splits if_splits)

text \<open>What an entry needs: a path of names, and a source outside the destination that is what the plan says.\<close>

definition entry_fits :: "disk \<Rightarrow> path \<Rightarrow> capture_entry \<Rightarrow> bool" where
  "entry_fits d destination e \<longleftrightarrow>
    ce_relative e \<noteq> [] \<and> list_all is_normal (ce_relative e) \<and> \<not> prefix destination (ce_source e)
    \<and> (case ce_kind e of
         CapturedFile \<Rightarrow> (\<exists>b m. nodes d (ce_source e) = Some (FileNode b m))
       | CapturedLink \<Rightarrow> (\<exists>t. nodes d (ce_source e) = Some (LinkNode t)))"

lemma join_relative:
  assumes "destination \<noteq> []" "relative \<noteq> []" "list_all is_normal relative"
  shows "join_path destination relative = destination @ relative" "path_parent relative = Some (butlast relative)"
  using assms by (cases relative; auto simp: join_path_def path_parent_def is_normal_def)+

lemma strict_prefix_butlast: "xs \<noteq> [] \<Longrightarrow> strict_prefix q (p @ xs) \<longleftrightarrow> prefix q (p @ butlast xs)"
proof (cases xs rule: rev_cases)
  case (snoc ys y)
  then show ?thesis
    using prefix_snoc [of q "p @ ys" y] prefix_length_le [of q "p @ ys"] by (auto simp: strict_prefix_def)
qed simp

lemma lstat_nodes: "lstat p d = Inr n \<Longrightarrow> nodes d p = Some n"
  by (auto simp: lstat_def lstat_kind_def split: sum.splits option.splits)

lemma read_regular:
  assumes "read_node p d = Inr content" "nodes d p = Some (FileNode b m)"
  shows "content = b"
  using assms by (auto simp: read_node_def read_kind_def stat_node_def lstat_kind_def eval_nat_numeral split: option.splits)

lemma set_permissions_file:
  assumes "set_permissions p m d = Inr d'" "nodes d p = Some (FileNode b m')"
  shows "nodes d' = (nodes d)(p \<mapsto> FileNode b m)"
  using assms by (auto simp: set_permissions_def eval_nat_numeral)

lemma entry_placed:
  assumes run: "materialize_capture_entry cv boundary destination None e w = (Inr stats, w')"
    and dest: "destination \<noteq> []" and fits: "entry_fits (cw_disk w) destination e"
    and free: "nodes (cw_disk w) (destination @ ce_relative e) \<noteq> Some DirNode"
      "lstat_fault (cw_disk w) (destination @ ce_relative e) \<noteq> Some IoNotFound"
  shows "\<exists>n. nodes (cw_disk w) (ce_source e) = Some n
    \<and> nodes (cw_disk w') = placed destination (ce_relative e) n (nodes (cw_disk w))"
proof -
  define target where "target = destination @ ce_relative e"
  have rel: "ce_relative e \<noteq> []" "list_all is_normal (ce_relative e)" "\<not> prefix destination (ce_source e)"
    using fits by (auto simp: entry_fits_def)
  note joined = join_relative [OF dest rel(1,2)]
  from run obtain w1 w2 w3 where
      w1: "check_optional cv boundary w = (Inr (), w1)"
      and w2: "ensure_hierarchy (ce_relative e) destination (butlast (ce_relative e)) w1 = (Inr (), w2)"
      and w3: "remove_materialization_target target w2 = (Inr (), w3)"
      and rest: "(case ce_kind e of
        CapturedFile \<Rightarrow>
            act_bind (on_disk (lstat (ce_source e))) (\<lambda>metadata.
            act_bind (copy_regular_file cv boundary (ce_source e) target) (\<lambda>_.
            act_bind (try_change target (set_permissions target (node_mode metadata))) (\<lambda>_.
            act_return (no_materialization\<lparr>mt_regular_files := 1, mt_materialized_bytes := ce_size e\<rparr>))))
      | CapturedLink \<Rightarrow>
          act_bind (on_disk (read_link (ce_source e))) (\<lambda>points_to.
          act_bind (try_change target (symlink points_to target)) (\<lambda>_.
          act_return (no_materialization\<lparr>mt_symbolic_links := 1, mt_materialized_bytes := ce_size e\<rparr>)))) w3 = (Inr stats, w')"
    by (auto simp: materialize_capture_entry_def Let_def joined target_def act_bind_Inr_iff ensure_materialization_parent_def
        cong: capture_entry_kind.case_cong)
  have d1: "cw_disk w1 = cw_disk w" using looksD(2) [OF looks_check_optional w1] .
  have above: "prefix q (destination @ butlast (ce_relative e)) \<longleftrightarrow> strict_prefix q target" for q
    using strict_prefix_butlast [OF rel(1)] by (simp add: target_def)
  have n2: "nodes (cw_disk w2) = (\<lambda>q. if strict_prefix destination q \<and> strict_prefix q target \<and> nodes (cw_disk w) q = None
      then Some DirNode else nodes (cw_disk w) q)"
    using hierarchy_made [OF w2] d1 above by (auto simp: fun_eq_iff)
  have "lstat_fault (cw_disk w2) = lstat_fault (cw_disk w)"
    using on_tree_onlyD(3) [OF on_tree_only_hierarchy w2] d1 by (simp add: same_system_def)
  then have "nodes (cw_disk w2) target \<noteq> Some DirNode" "lstat_fault (cw_disk w2) target \<noteq> Some IoNotFound"
    using free n2 by (simp_all add: target_def)
  from target_cleared [OF w3 this] have n3: "nodes (cw_disk w3) = (nodes (cw_disk w2))(target := None)" .
  have source: "nodes (cw_disk w3) (ce_source e) = nodes (cw_disk w) (ce_source e)"
    using rel(3) n2 n3 by (auto simp: target_def strict_prefix_def)
  have finish: "?thesis" if "nodes (cw_disk w) (ce_source e) = Some n" "nodes (cw_disk w') = (nodes (cw_disk w3))(target \<mapsto> n)" for n
    using that n2 n3 by (auto simp: placed_def target_def fun_eq_iff)
  show ?thesis
  proof (cases "ce_kind e")
    case CapturedFile
    then obtain b m where regular: "nodes (cw_disk w) (ce_source e) = Some (FileNode b m)" using fits by (auto simp: entry_fits_def)
    obtain metadata len w4 where r: "lstat (ce_source e) (cw_disk w3) = Inr metadata"
        "copy_regular_file cv boundary (ce_source e) target w3 = (Inr len, w4)"
        "try_change target (set_permissions target (node_mode metadata)) w4 = (Inr (), w')"
      using rest CapturedFile by (auto simp: act_bind_Inr_iff on_disk_Inr_iff)
    have "metadata = FileNode b m" using lstat_nodes [OF r(1)] source regular by simp
    moreover obtain content where "read_node (ce_source e) (cw_disk w3) = Inr content"
        "nodes (cw_disk w4) = (nodes (cw_disk w3))(target \<mapsto> FileNode content 420)"
      by (rule copied_file [OF r(2)]) (simp add: n3)
    moreover from this(1) have "content = b" using read_regular source regular by simp
    moreover obtain d where "set_permissions target (node_mode metadata) (cw_disk w4) = Inr d" "cw_disk w' = d"
      using r(3) by (auto simp: try_change_Inr_iff)
    ultimately have "nodes (cw_disk w') = (nodes (cw_disk w3))(target \<mapsto> FileNode b m)"
      using set_permissions_file [of target "node_mode metadata" "cw_disk w4" d b 420] by (simp add: node_mode_def)
    then show ?thesis using finish regular by blast
  next
    case CapturedLink
    then obtain t where link: "nodes (cw_disk w) (ce_source e) = Some (LinkNode t)" using fits by (auto simp: entry_fits_def)
    obtain points_to where r: "read_link (ce_source e) (cw_disk w3) = Inr points_to"
        "try_change target (symlink points_to target) w3 = (Inr (), w')"
      using rest CapturedLink by (auto simp: act_bind_Inr_iff on_disk_Inr_iff)
    have "points_to = t" using r(1) source link by (auto simp: read_link_def split: option.splits)
    then have "nodes (cw_disk w') = (nodes (cw_disk w3))(target \<mapsto> LinkNode t)"
      using r(2) by (auto simp: try_change_Inr_iff symlink_def new_node_Inr_iff)
    then show ?thesis using finish link by blast
  qed
qed

section \<open>A whole plan\<close>

text \<open>No entry lies at or below another one.\<close>

definition apart :: "capture_entry list \<Rightarrow> bool" where
  "apart es \<longleftrightarrow> sorted_wrt (\<lambda>x y. \<not> prefix (ce_relative x) (ce_relative y) \<and> \<not> prefix (ce_relative y) (ce_relative x)) es"

definition laid_out :: "path \<Rightarrow> capture_entry list \<Rightarrow> (path \<Rightarrow> disk_node option) \<Rightarrow> path \<Rightarrow> disk_node option" where
  "laid_out destination es t = (\<lambda>q.
    case find (\<lambda>e. q = destination @ ce_relative e) es of
      Some e \<Rightarrow> t (ce_source e)
    | None \<Rightarrow>
       if strict_prefix destination q \<and> t q = None \<and> list_ex (\<lambda>e. strict_prefix q (destination @ ce_relative e)) es then Some DirNode
       else t q)"

lemma placed_outside: "\<not> prefix destination q \<Longrightarrow> placed destination relative n t q = t q"
  by (auto simp: placed_def strict_prefix_def)

lemma entries_laid_out:
  assumes "materialize_entries cv boundary destination None es stats w = (Inr s, w')"
    and "destination \<noteq> []" "apart es" "list_all (entry_fits (cw_disk w) destination) es"
    and "\<forall>p. lstat_fault (cw_disk w) p \<noteq> Some IoNotFound"
    and "\<forall>e \<in> set es. nodes (cw_disk w) (destination @ ce_relative e) \<noteq> Some DirNode"
  shows "nodes (cw_disk w') = laid_out destination es (nodes (cw_disk w))"
  using assms
proof (induction es arbitrary: stats w)
  case Nil
  then show ?case by (simp add: laid_out_def)
next
  case (Cons e es)
  obtain w1 stats1 w2 where w: "check_optional cv boundary w = (Inr (), w1)"
      "materialize_capture_entry cv boundary destination None e w1 = (Inr stats1, w2)"
      "materialize_entries cv boundary destination None es (add_materialization stats stats1) w2 = (Inr s, w')"
    using Cons.prems(1) by (auto simp: act_bind_Inr_iff)
  let ?t = "nodes (cw_disk w)"
  have d1: "cw_disk w1 = cw_disk w" using looksD(2) [OF looks_check_optional w(1)] .
  obtain n where n: "?t (ce_source e) = Some n" "nodes (cw_disk w2) = placed destination (ce_relative e) n ?t"
    using entry_placed [OF w(2)] Cons.prems d1 by auto
  have source: "\<not> prefix destination (ce_source x)" if "x \<in> set (e # es)" for x
    using Cons.prems(4) that by (auto simp: list_all_iff entry_fits_def)
  have sources: "nodes (cw_disk w2) (ce_source x) = ?t (ce_source x)" if "x \<in> set (e # es)" for x
    using placed_outside source [OF that] n(2) by simp
  have "list_all (entry_fits (cw_disk w2) destination) es"
    using Cons.prems(4) sources by (auto simp: list_all_iff entry_fits_def split: capture_entry_kind.splits)
  moreover have others: "nodes (cw_disk w2) (destination @ ce_relative x) = ?t (destination @ ce_relative x)" if "x \<in> set es" for x
    using Cons.prems(3) that n(2) by (auto simp: apart_def placed_def strict_prefix_def)
  ultimately have rest: "nodes (cw_disk w') = laid_out destination es (nodes (cw_disk w2))"
    using Cons.IH [OF w(3)] Cons.prems on_tree_onlyD(3) [OF on_tree_only_entry w(2)] d1 by (simp add: apart_def same_system_def)
  show ?case
  proof
    fix q
    show "nodes (cw_disk w') q = laid_out destination (e # es) ?t q"
    proof (cases "find (\<lambda>x. q = destination @ ce_relative x) es")
      case (Some x)
      then have x: "x \<in> set es" "q = destination @ ce_relative x" by (auto simp: find_Some_iff)
      then have "ce_relative x \<noteq> ce_relative e" using Cons.prems(3) by (auto simp: apart_def)
      then show ?thesis using Some x sources [of x] by (simp add: rest laid_out_def)
    next
      case None
      then show ?thesis using n by (auto simp: rest laid_out_def placed_def)
    qed
  qed
qed

section \<open>The destination\<close>

lemma dirs_made:
  assumes "create_dirs p d = Inr d'"
  shows "nodes d' = (\<lambda>q. if q \<noteq> [] \<and> prefix q p \<and> nodes d q = None then Some DirNode else nodes d q)"
proof -
  have step: "nodes d2 = (nodes d1)(q := Some (case nodes d1 q of None \<Rightarrow> DirNode | Some n \<Rightarrow> n))" if "dir_step d1 q = Inr d2" for d1 q d2
  proof (cases "is_dir d1 q")
    case True
    then have "nodes d1 q \<noteq> None"
      by (auto simp: is_dir_def stat_node_def lstat_kind_def eval_nat_numeral split: option.splits)
    then show ?thesis using that True by (auto simp: dir_step_def fun_eq_iff)
  next
    case False
    then show ?thesis using that by (auto simp: dir_step_def create_dir_def new_node_Inr_iff fun_eq_iff)
  qed
  have "fold_res dir_step d1 ps = Inr d' \<Longrightarrow>
      nodes d' = (\<lambda>q. if q \<in> set ps \<and> nodes d1 q = None then Some DirNode else nodes d1 q)" for ps d1
  proof (induction ps arbitrary: d1)
    case (Cons q ps)
    then obtain d2 where "dir_step d1 q = Inr d2" "fold_res dir_step d2 ps = Inr d'" by (auto simp: res_bind_Inr_iff)
    then show ?case using Cons.IH [of d2] step [of d1 q d2] by (auto simp: fun_eq_iff split: option.splits)
  qed simp
  from this [of d "filter (\<lambda>q. q \<noteq> []) (prefixes p)"] assms show ?thesis
    by (auto simp: create_dirs_def fun_eq_iff)
qed

lemma destination_ready:
  assumes "ensure_materialization_root p w = (Inr u, w')" "p \<noteq> []"
  shows "nodes (cw_disk w') = (\<lambda>q. if q \<noteq> [] \<and> prefix q p \<and> nodes (cw_disk w) q = None then Some DirNode else nodes (cw_disk w) q)
    \<or> w' = w"
  using assms dirs_made
  by (auto simp: ensure_materialization_root_def try_change_Inr_iff split: sum.splits disk_node.splits if_splits)

lemma laid_out_at:
  assumes "apart es" "e \<in> set es"
  shows "laid_out destination es t (destination @ ce_relative e) = t (ce_source e)"
proof -
  have "find (\<lambda>x. destination @ ce_relative e = destination @ ce_relative x) es = Some e"
    using assms by (induction es) (auto simp: apart_def)
  then show ?thesis by (simp add: laid_out_def)
qed

text \<open>
  C29: Materializing a plan at a fresh place reproduces it: every entry is there with the content and
  the permissions, or the link target, of its source, nothing else is there but the directories above entries,
  and no other file of the tree and no control file has changed.
\<close>

theorem materialized_plan_is_exact:
  assumes run: "materialize_capture_plan cv plan destination w = (Inr (), w')"
    and fresh: "destination \<noteq> []" "\<forall>q. prefix destination q \<longrightarrow> nodes (cw_disk w) q = None"
    and plan: "apart (pl_entries plan)" "list_all (entry_fits (cw_disk w) destination) (pl_entries plan)"
    and honest: "\<forall>p. lstat_fault (cw_disk w) p \<noteq> Some IoNotFound"
  shows "(\<forall>e \<in> set (pl_entries plan).
      nodes (cw_disk w') (destination @ ce_relative e) = nodes (cw_disk w) (ce_source e))
    \<and> (\<forall>q. strict_prefix destination q \<longrightarrow> nodes (cw_disk w') q \<noteq> None \<longrightarrow>
      (\<exists>e \<in> set (pl_entries plan). q = destination @ ce_relative e
        \<or> nodes (cw_disk w') q = Some DirNode \<and> strict_prefix q (destination @ ce_relative e)))
    \<and> (\<forall>q. \<not> prefix destination q \<longrightarrow> \<not> prefix q destination \<longrightarrow> nodes (cw_disk w') q = nodes (cw_disk w) q)
    \<and> cw_fs w' = cw_fs w"
proof -
  obtain stats w1 w2 w3 where
      w1: "check_optional cv (inherited_work_boundary w) w = (Inr (), w1)"
      and w2: "ensure_materialization_root destination w1 = (Inr (), w2)"
      and w3: "materialize_entries cv (inherited_work_boundary w) destination None (pl_entries plan) no_materialization w2 = (Inr stats, w3)"
      and w4: "check_optional cv (inherited_work_boundary w) w3 = (Inr (), w')"
    using run by (auto simp: materialize_capture_plan_def materialize_within_def act_bind_Inr_iff)
  let ?es = "pl_entries plan" and ?t = "nodes (cw_disk w)" and ?t2 = "nodes (cw_disk w2)"
  have d: "cw_disk w1 = cw_disk w" "cw_disk w' = cw_disk w3"
    using looksD(2) [OF looks_check_optional w1] looksD(2) [OF looks_check_optional w4] by simp_all
  have t2: "?t2 q = (if q \<noteq> [] \<and> prefix q destination \<and> ?t q = None then Some DirNode else ?t q) \<or> ?t2 q = ?t q" for q
    using destination_ready [OF w2 fresh(1)] d by auto
  have source: "?t2 (ce_source e) = ?t (ce_source e)" if "e \<in> set ?es" for e
  proof -
    have "?t (ce_source e) \<noteq> None"
      using plan(2) that by (cases "ce_kind e") (force simp: list_all_iff entry_fits_def)+
    then show ?thesis using t2 [of "ce_source e"] by (auto split: if_splits)
  qed
  have "list_all (entry_fits (cw_disk w2) destination) ?es"
    using plan(2) source by (auto simp: list_all_iff entry_fits_def split: capture_entry_kind.splits)
  moreover have inside: "?t2 q = None" if "strict_prefix destination q" for q
    using t2 [of q] fresh(2) that by (auto simp: strict_prefix_def prefix_order.antisym split: if_splits)
  moreover have "lstat_fault (cw_disk w2) = lstat_fault (cw_disk w)"
    using on_tree_onlyD(3) [OF on_tree_only_removal(3) w2] d by (simp add: same_system_def)
  moreover have "strict_prefix destination (destination @ ce_relative e)" if "e \<in> set ?es" for e
    using plan(2) that by (auto simp: list_all_iff entry_fits_def strict_prefix_def)
  ultimately have t3: "nodes (cw_disk w') = laid_out destination ?es ?t2"
    using entries_laid_out [OF w3 fresh(1) plan(1)] honest d(2) by simp
  have "\<exists>e \<in> set ?es. q = destination @ ce_relative e
        \<or> nodes (cw_disk w') q = Some DirNode \<and> strict_prefix q (destination @ ce_relative e)"
    if "strict_prefix destination q" "nodes (cw_disk w') q \<noteq> None" for q
    using that inside [of q] by (auto simp: t3 laid_out_def find_Some_iff list_ex_iff split: option.splits if_splits) 
  moreover have "nodes (cw_disk w') q = ?t q" if "\<not> prefix destination q" "\<not> prefix q destination" for q
    using t2 [of q] that by (auto simp: t3 laid_out_def strict_prefix_def find_Some_iff split: option.splits)
  moreover have "on_tree_only (materialize_entries cv b p r es s)" for b p r es s
    by (induction es arbitrary: s) (auto intro!: on_tree_only_bind)
  then have "cw_fs w3 = cw_fs w2" using on_tree_onlyD(1) w3 by blast
  then have "cw_fs w' = cw_fs w"
    using looksD(1) [OF looks_check_optional w1] looksD(1) [OF looks_check_optional w4] on_tree_onlyD(1) [OF on_tree_only_removal(3) w2]
    by simp
  ultimately show ?thesis using laid_out_at [OF plan(1)] source by (auto simp: t3)
qed

end
