(* ===== verification/Tree_Removal.thy ===== *)
theory Tree_Removal
  imports Materialize_Proof
begin

text \<open>
  Removing a captured tree: when it returns, nothing is left at or below the directory and nothing else has
  gone, and on a healthy disk it returns, whatever the depth: the fuel is enough.
\<close>

text \<open>Below the path, everything hangs on directories.\<close>

definition rooted_at :: "disk \<Rightarrow> path \<Rightarrow> bool" where
  "rooted_at d p \<longleftrightarrow> (\<forall>q r. nodes d q \<noteq> None \<longrightarrow> prefix p r \<longrightarrow> strict_prefix r q \<longrightarrow> nodes d r = Some DirNode)"

definition without :: "path \<Rightarrow> (path \<Rightarrow> disk_node option) \<Rightarrow> path \<Rightarrow> disk_node option" where
  "without p t = (\<lambda>q. if prefix p q then None else t q)"

lemma rooted_below: "rooted_at d p \<Longrightarrow> prefix p c \<Longrightarrow> rooted_at d c"
  unfolding rooted_at_def by (meson prefix_order.trans)

lemma rooted_transfer:
  assumes "rooted_at d p" "\<And>q. prefix p q \<Longrightarrow> nodes d' q = nodes d q"
  shows "rooted_at d' p"
  using assms unfolding rooted_at_def by (metis prefix_order.less_imp_le prefix_order.trans)

lemma in_children: "q \<in> set (children d p) \<longleftrightarrow> q \<noteq> [] \<and> butlast q = p \<and> nodes d q \<noteq> None"
  by (auto simp: children_def nodes_def map_of_eq_None_iff)

lemma child_below: "q \<in> set (children d p) \<Longrightarrow> strict_prefix p q"
proof -
  assume "q \<in> set (children d p)"
  then have "q = p @ [last q]" using in_children by (metis append_butlast_last_id)
  then show ?thesis by (metis append_Nil2 list.distinct(1) same_append_eq strict_prefix_def prefixI)
qed

lemma children_incomparable:
  assumes "c \<in> set (children d p)" "c' \<in> set (children d p)" "prefix c c'"
  shows "c = c'"
proof -
  obtain x y where "c = p @ [x]" "c' = p @ [y]" using assms(1,2) in_children by (metis append_butlast_last_id)
  then show ?thesis using assms(3) by simp
qed

lemma below_child:
  assumes "rooted_at d p" "nodes d q \<noteq> None" "strict_prefix p q"
  shows "\<exists>c \<in> set (children d p). prefix c q"
proof -
  obtain c rest where q: "q = p @ c # rest" using assms(3) by (metis strict_prefixE')
  have "nodes d (p @ [c]) \<noteq> None"
  proof (cases rest)
    case Nil
    then show ?thesis using assms(2) q by simp
  next
    case (Cons a list)
    then have "strict_prefix (p @ [c]) q" by (simp add: q strict_prefix_def)
    then show ?thesis using assms(1,2) unfolding rooted_at_def by (metis option.distinct(1) prefixI)
  qed
  then show ?thesis using q by (intro bexI [of _ "p @ [c]"]) (auto simp: in_children)
qed

section \<open>What removal leaves\<close>

definition cleared :: "path list \<Rightarrow> (path \<Rightarrow> disk_node option) \<Rightarrow> path \<Rightarrow> disk_node option" where
  "cleared cs t = (\<lambda>q. if list_ex (\<lambda>c. prefix c q) cs then None else t q)"

lemma leaf_is_all:
  assumes "rooted_at d c" "nodes d c = Some n" "n \<noteq> DirNode"
  shows "(nodes d)(c := None) = without c (nodes d)"
  using assms unfolding rooted_at_def without_def by (auto simp: fun_eq_iff strict_prefix_def)

definition incomparable :: "path list \<Rightarrow> bool" where
  "incomparable cs \<longleftrightarrow> sorted_wrt (\<lambda>c c'. \<not> prefix c c' \<and> \<not> prefix c' c) cs"

lemma incomparable_children: "incomparable (children d p)"
proof -
  have "incomparable cs" if "distinct cs" "\<forall>c \<in> set cs. \<forall>c' \<in> set cs. prefix c c' \<longrightarrow> c = c'" for cs :: "path list"
    using that
  proof (induction cs)
    case (Cons c cs)
    then have "incomparable cs" by simp
    moreover have "\<not> prefix c c' \<and> \<not> prefix c' c" if "c' \<in> set cs" for c'
      using Cons.prems that by auto
    ultimately show ?case by (simp add: incomparable_def)
  qed (simp add: incomparable_def)
  then show ?thesis
  proof this
    show "distinct (children d p)" by (simp add: children_def)
    show "\<forall>c \<in> set (children d p). \<forall>c' \<in> set (children d p). prefix c c' \<longrightarrow> c = c'"
      using children_incomparable by blast
  qed
qed

lemma children_cleared:
  assumes "for_each (\<lambda>q. act_bind check (\<lambda>_. remove_child sub q)) cs w = (Inr u, w')"
    and look: "looks (check :: unit cap)" and "incomparable cs" "\<forall>c \<in> set cs. rooted_at (cw_disk w) c"
    and sub: "\<And>c v v'. c \<in> set cs \<Longrightarrow> sub c v = (Inr (), v') \<Longrightarrow> rooted_at (cw_disk v) c \<Longrightarrow>
      nodes (cw_disk v') = without c (nodes (cw_disk v))"
  shows "nodes (cw_disk w') = cleared cs (nodes (cw_disk w))"
  using assms(1,3,4) sub
proof (induction cs arbitrary: w)
  case Nil
  then show ?case by (simp add: cleared_def)
next
  case (Cons c cs)
  obtain w1 w2 where w: "check w = (Inr (), w1)" "remove_child sub c w1 = (Inr (), w2)"
      "for_each (\<lambda>q. act_bind check (\<lambda>_. remove_child sub q)) cs w2 = (Inr u, w')"
    using Cons.prems(1) by (auto simp: act_bind_Inr_iff)
  have d: "cw_disk w1 = cw_disk w" using looksD(2) [OF look w(1)] .
  have rooted: "rooted_at (cw_disk w1) c" using Cons.prems(3) d by simp
  have n2: "nodes (cw_disk w2) = without c (nodes (cw_disk w))"
  proof -
    obtain node where node: "lstat c (cw_disk w1) = Inr node"
        "(if node = DirNode then sub c else try_change c (remove_file c)) w1 = (Inr (), w2)"
      using w(2) by (auto simp: remove_child_def act_bind_Inr_iff on_disk_Inr_iff)
    show ?thesis
    proof (cases "node = DirNode")
      case True
      then have "sub c w1 = (Inr (), w2)" using node(2) by simp
      then show ?thesis using Cons.prems(4) [of c w1 w2] rooted d by simp
    next
      case False
      then have "nodes (cw_disk w2) = (nodes (cw_disk w1))(c := None)"
        using node(2) by (auto simp: try_change_Inr_iff remove_file_Inr_iff)
      then show ?thesis using leaf_is_all [OF rooted lstat_nodes [OF node(1)] False] d by simp
    qed
  qed
  have "rooted_at (cw_disk w2) c'" if "c' \<in> set cs" for c'
  proof (rule rooted_transfer)
    show "rooted_at (cw_disk w) c'" using Cons.prems(3) that by simp
    fix q assume "prefix c' q"
    then show "nodes (cw_disk w2) q = nodes (cw_disk w) q"
      using Cons.prems(2) that prefix_same_cases [of c q c'] by (auto simp: n2 without_def incomparable_def)
  qed
  then show ?case using Cons.IH [OF w(3)] Cons.prems(2,4)
    by (auto simp: n2 incomparable_def cleared_def without_def fun_eq_iff)
qed

lemma tree_removed:
  assumes "remove_tree check n p w = (Inr u, w')" "looks check" "rooted_at (cw_disk w) p"
  shows "nodes (cw_disk w') = without p (nodes (cw_disk w))"
  using assms
proof (induction n arbitrary: p w w' u)
  case (Suc n)
  obtain w1 entries w3 w4 where w: "check w = (Inr (), w1)" "read_dir p (cw_disk w1) = Inr entries"
      "for_each (\<lambda>q. act_bind check (\<lambda>_. remove_child (remove_tree check n) q)) entries w1 = (Inr (), w3)"
      "check w3 = (Inr (), w4)" "try_change p (remove_dir p) w4 = (Inr (), w')"
    using Suc.prems(1) by (auto simp: act_bind_Inr_iff on_disk_Inr_iff)
  have d: "cw_disk w1 = cw_disk w" "cw_disk w4 = cw_disk w3"
    using looksD(2) [OF Suc.prems(2) w(1)] looksD(2) [OF Suc.prems(2) w(4)] by simp_all
  have entries: "entries = children (cw_disk w) p"
    using w(2) d by (auto simp: read_dir_def split: option.splits disk_node.splits)
  have "\<forall>c \<in> set entries. rooted_at (cw_disk w1) c"
    using rooted_below [OF Suc.prems(3)] child_below d by (auto simp: entries strict_prefix_def)
  then have n3: "nodes (cw_disk w3) = cleared entries (nodes (cw_disk w))"
    using children_cleared [OF w(3) Suc.prems(2)] incomparable_children Suc.IH [OF _ Suc.prems(2)] d
    by (auto simp: entries)
  have n': "nodes (cw_disk w') = (nodes (cw_disk w3))(p := None)"
    using w(5) d by (auto simp: try_change_Inr_iff remove_dir_def split: option.splits disk_node.splits if_splits)
  show ?case
  proof
    fix q
    show "nodes (cw_disk w') q = without p (nodes (cw_disk w)) q"
    proof (cases "strict_prefix p q")
      case True
      then have "nodes (cw_disk w) q = None \<or> (\<exists>c \<in> set entries. prefix c q)"
        using below_child [OF Suc.prems(3) _ True] entries by blast
      then show ?thesis using True
        by (auto simp: n' n3 cleared_def without_def list_ex_iff strict_prefix_def)
    next
      case False
      then have "\<not> prefix c q" if "c \<in> set entries" for c
        using child_below that unfolding entries by (metis prefix_order.less_le_trans)
      then show ?thesis using False by (auto simp: n' n3 cleared_def without_def list_ex_iff strict_prefix_def)
    qed
  qed
qed simp

section \<open>Removal completes\<close>

definition healthy :: "disk \<Rightarrow> path \<Rightarrow> bool" where
  "healthy d p \<longleftrightarrow> (\<forall>q. prefix p q \<longrightarrow> lstat_fault d q = None \<and> open_fault d q = None \<and> change_fault d q = None)"

definition inside :: "disk \<Rightarrow> path \<Rightarrow> path set" where
  "inside d p = {q. strict_prefix p q \<and> nodes d q \<noteq> None}"

lemma inside_finite: "finite (inside d p)"
proof (rule finite_subset)
  show "inside d p \<subseteq> dom (map_of (tree d))" by (auto simp: inside_def nodes_def)
qed (rule finite_dom_map_of)

lemma inside_child:
  assumes "c \<in> set (children d p)"
  shows "card (inside d c) < card (inside d p)"
proof (rule psubset_card_mono [OF inside_finite])
  have "c \<in> inside d p" using assms child_below [OF assms] by (simp add: inside_def in_children)
  moreover have "c \<notin> inside d c" "inside d c \<subseteq> inside d p"
    using child_below [OF assms] by (auto simp: inside_def intro: prefix_order.less_trans)
  ultimately show "inside d c \<subset> inside d p" by blast
qed

lemma healthy_below: "healthy d p \<Longrightarrow> prefix p c \<Longrightarrow> same_system d d' \<Longrightarrow> healthy d' c"
  unfolding healthy_def same_system_def by (metis prefix_order.trans)

lemma inside_tree_fuel: "card (inside (cw_disk w) p) < tree_fuel w"
proof -
  have "card (inside (cw_disk w) p) \<le> card (fst ` set (tree (cw_disk w)))"
    by (rule card_mono) (auto simp: inside_def nodes_def map_of_eq_None_iff)
  also have "\<dots> \<le> length (tree (cw_disk w))"
    by (metis card_image_le card_length finite_set le_trans)
  finally show ?thesis by (simp add: tree_fuel_def)
qed

text \<open>Room to remove \<open>c\<close>: it is there, on directories, without faults, and within the fuel.\<close>

definition removable :: "nat \<Rightarrow> disk \<Rightarrow> path \<Rightarrow> bool" where
  "removable n d c \<longleftrightarrow> healthy d c \<and> rooted_at d c \<and> nodes d c \<noteq> None \<and> card (inside d c) < n"

lemma removable_transfer:
  assumes "removable n d c" "same_system d d'" "\<And>q. prefix c q \<Longrightarrow> nodes d' q = nodes d q"
  shows "removable n d' c"
proof -
  have "inside d' c = inside d c" using assms(3) by (auto simp: inside_def strict_prefix_def)
  then show ?thesis
    using assms healthy_below [of d c c d'] rooted_transfer [of d c d'] by (simp add: removable_def)
qed

lemma child_removed:
  assumes "removable n (cw_disk w) c"
    and sub: "nodes (cw_disk w) c = Some DirNode \<Longrightarrow> \<exists>w'. sub c w = (Inr (), w')"
  shows "\<exists>w'. remove_child sub c w = (Inr (), w')"
proof -
  obtain node where "nodes (cw_disk w) c = Some node" "lstat_fault (cw_disk w) c = None" "change_fault (cw_disk w) c = None"
    using assms(1) by (auto simp: removable_def healthy_def)
  then show ?thesis using sub
    by (cases node) (auto simp: remove_child_def act_bind_Inr_iff on_disk_Inr_iff lstat_def lstat_kind_def try_change_Inr_iff
        remove_file_Inr_iff)
qed

lemma always_looks: "(\<And>w. check w = (Inr (), w)) \<Longrightarrow> looks check"
  by (simp add: looks_def)

lemma children_go:
  assumes always: "\<And>w. check w = (Inr (), w)" and "incomparable cs" "\<forall>c \<in> set cs. removable n (cw_disk w) c"
    and sub: "\<And>c v. removable n (cw_disk v) c \<Longrightarrow> nodes (cw_disk v) c = Some DirNode \<Longrightarrow>
      \<exists>v'. remove_tree check n c v = (Inr (), v')"
  shows "\<exists>w'. for_each (\<lambda>q. act_bind check (\<lambda>_. remove_child (remove_tree check n) q)) cs w = (Inr (), w')"
  using assms(2,3)
proof (induction cs arbitrary: w)
  case (Cons c cs)
  let ?body = "\<lambda>q. act_bind check (\<lambda>_. remove_child (remove_tree check n) q)"
  have c: "removable n (cw_disk w) c" using Cons.prems(2) by simp
  obtain w2 where w2: "?body c w = (Inr (), w2)"
    using child_removed [OF c] sub [OF c] by (auto simp: always act_bind_Inr_iff)
  have "for_each ?body [c] w = (Inr (), w2)" using w2 by (simp add: always act_bind_Inr_iff)
  then have n2: "nodes (cw_disk w2) = cleared [c] (nodes (cw_disk w))"
    by (rule children_cleared) (use c always_looks [OF always] in \<open>auto simp: incomparable_def removable_def intro: tree_removed\<close>)
  have "on_tree_only (?body c)"
    by (auto simp: remove_child_def intro!: on_tree_only_looks [OF always_looks [OF always]] on_tree_only_bind on_tree_only_remove_tree)
  then have same: "same_system (cw_disk w) (cw_disk w2)" using on_tree_onlyD(3) w2 by blast
  have "removable n (cw_disk w2) c'" if "c' \<in> set cs" for c'
  proof (rule removable_transfer [OF _ same])
    show "removable n (cw_disk w) c'" using Cons.prems(2) that by simp
    fix q assume "prefix c' q"
    then show "nodes (cw_disk w2) q = nodes (cw_disk w) q"
      using Cons.prems(1) that prefix_same_cases [of c q c'] by (auto simp: n2 cleared_def incomparable_def)
  qed
  moreover have "incomparable cs" using Cons.prems(1) by (simp add: incomparable_def)
  ultimately obtain w' where "for_each ?body cs w2 = (Inr (), w')" using Cons.IH [of w2] by blast
  then have "for_each ?body (c # cs) w = (Inr (), w')"
    using w2 unfolding for_each.simps act_bind_Inr_iff by blast
  then show ?case by blast
qed simp

lemma removal_runs:
  assumes always: "\<And>w. check w = (Inr (), w)" and "removable n (cw_disk w) p" "nodes (cw_disk w) p = Some DirNode"
  shows "\<exists>w'. remove_tree check n p w = (Inr (), w')"
  using assms(2,3)
proof (induction n arbitrary: p w)
  case 0
  then show ?case by (simp add: removable_def)
next
  case (Suc n)
  let ?d = "cw_disk w" and ?body = "\<lambda>q. act_bind check (\<lambda>_. remove_child (remove_tree check n) q)"
  have p: "healthy ?d p" "rooted_at ?d p" "card (inside ?d p) < Suc n"
    using Suc.prems(1) by (auto simp: removable_def)
  have entries: "read_dir p ?d = Inr (children ?d p)"
    using p(1) Suc.prems(2) by (simp add: read_dir_def healthy_def stat_node_def lstat_kind_def eval_nat_numeral)
  have kids: "\<forall>c \<in> set (children ?d p). removable n ?d c"
  proof
    fix c assume c: "c \<in> set (children ?d p)"
    have "prefix p c" using child_below [OF c] by (simp add: strict_prefix_def)
    moreover have "card (inside ?d c) < n" using inside_child [OF c] p(3) by simp
    ultimately show "removable n ?d c"
      using p healthy_below [of ?d p c ?d] rooted_below c by (auto simp: removable_def in_children)
  qed
  obtain w3 where w3: "for_each ?body (children ?d p) w = (Inr (), w3)"
    using children_go [OF always incomparable_children kids] Suc.IH by blast
  have n3: "nodes (cw_disk w3) = cleared (children ?d p) (nodes ?d)"
    by (rule children_cleared [OF w3 _ incomparable_children]) (use kids always_looks [OF always] in \<open>auto simp: removable_def intro: tree_removed\<close>)
  have "on_tree_only (for_each ?body (children ?d p))"
    by (auto simp: remove_child_def intro!: on_tree_only_looks [OF always_looks [OF always]] on_tree_only_for_each on_tree_only_bind on_tree_only_remove_tree)
  then have "same_system ?d (cw_disk w3)" using on_tree_onlyD(3) w3 by blast
  then have "change_fault (cw_disk w3) p = None" using p(1) by (simp add: healthy_def same_system_def)
  moreover have "\<not> prefix c p" if "c \<in> set (children ?d p)" for c
    using child_below [OF that] by (metis prefix_order.leD)
  then have "nodes (cw_disk w3) p = Some DirNode" using Suc.prems(2) by (auto simp: n3 cleared_def list_ex_iff)
  moreover have "q \<notin> set (children (cw_disk w3) p)" for q
    by (auto simp: in_children n3 cleared_def list_ex_iff)
  then have "children (cw_disk w3) p = []" by (metis last_in_set)
  ultimately obtain w' where "try_change p (remove_dir p) w3 = (Inr (), w')"
    by (auto simp: try_change_Inr_iff remove_dir_def)
  then have "remove_tree check (Suc n) p w = (Inr (), w')"
    using entries w3 always [of w] always [of w3] unfolding remove_tree.simps act_bind_Inr_iff on_disk_Inr_iff by blast
  then show ?case by blast
qed

text \<open>
  C30: Removing a captured tree completes: with no time limit and no failure of the system, it returns
  whatever the depth and the width of the tree, nothing is left at or below the directory, and every other
  file is as before.
\<close>

theorem tree_removal_completes:
  assumes "nodes (cw_disk w) p = Some DirNode" "rooted_at (cw_disk w) p" "healthy (cw_disk w) p"
    and "inherited_work_boundary w = None"
  shows "\<exists>w'. remove_captured_directory_tree cv p w = (Inr (), w')
    \<and> nodes (cw_disk w') = without p (nodes (cw_disk w))
    \<and> cw_fs w' = cw_fs w \<and> same_system (cw_disk w) (cw_disk w')"
proof -
  have "removable (tree_fuel w) (cw_disk w) p"
    using assms inside_tree_fuel by (simp add: removable_def)
  then obtain w' where w': "remove_tree (act_return ()) (tree_fuel w) p w = (Inr (), w')"
    using removal_runs [of "act_return ()", OF _ _ assms(1)] by fastforce
  have "lstat_kind (cw_disk w) p = Inr DirNode"
    using assms(1,3) by (simp add: lstat_kind_def healthy_def)
  moreover have "check_optional cv None = act_return ()" by (simp add: check_optional_def)
  ultimately have "remove_captured_directory_tree cv p w = (Inr (), w')"
    using w' assms(4) by (simp add: remove_captured_directory_tree_def remove_whole_tree_def)
  then show ?thesis
    using tree_removed [OF w' _ assms(2)] on_tree_onlyD [OF on_tree_only_removal(4)] by auto
qed

end
