(* ===== verification/Projection_Guarantees.thy ===== *)
theory Projection_Guarantees
  imports Result_Projection Tree_Removal Policy_Guarantees
begin

text \<open>
  What the sealed result guarantees: trees that validate against one sealed record hold the same result, the
  sealed candidate is what the working tree held, a materialized result is the sealed one, and cleaning up an
  evaluation touches nothing else. Equality is up to a collision of SHA-256 between texts that were hashed.
\<close>

section \<open>The result a capture selects\<close>

type_synonym artifact = "artifact_file_kind \<times> bytes"

definition artifact_of :: "disk \<Rightarrow> capture_entry \<Rightarrow> artifact option" where
  "artifact_of d e =
    (case ce_kind e of
       CapturedFile \<Rightarrow> (case (lstat (ce_source e) d, read_node (ce_source e) d) of
           (Inr metadata, Inr b) \<Rightarrow> Some (regular_file_kind metadata, b)
         | _ \<Rightarrow> None)
     | CapturedLink \<Rightarrow> (case read_link (ce_source e) d of Inr target \<Rightarrow> Some (LinkArtifact, target) | _ \<Rightarrow> None))"

definition result_at :: "disk \<Rightarrow> workspace_capture_plan \<Rightarrow> path \<Rightarrow> artifact option" where
  "result_at d plan p =
    (case map_of (rev (map (\<lambda>e. (ce_relative e, artifact_of d e)) (pl_entries plan))) p of Some a \<Rightarrow> a | None \<Rightarrow> None)"

definition artifact_text :: "artifact \<Rightarrow> bytes" where
  "artifact_text a = (if fst a = LinkArtifact then bytes_identity (snd a) else snd a)"

definition shows_artifact :: "'z gate_env_scheme \<Rightarrow> artifact_file_fingerprint \<Rightarrow> artifact \<Rightarrow> bool" where
  "shows_artifact gv f a \<longleftrightarrow> af_kind f = fst a \<and> af_hash f = capture_sha256 gv (artifact_text a)"

lemma fingerprint_shows:
  assumes "artifact_fingerprint gv d e = Inr f"
  obtains a where "artifact_of d e = Some a" "shows_artifact gv f a"
  using assms that
  by (cases "ce_kind e")
    (auto simp: artifact_fingerprint_def artifact_of_def shows_artifact_def artifact_text_def sha256_file_def result_simps
      sha256_path_identity_def regular_file_kind_def split: if_splits)

lemma hex_no_nul: "CHR 0x00 \<notin> set (hex_encode bs)"
proof -
  have "hex_digit n \<noteq> CHR 0x00" for n
  proof
    assume "hex_digit n = CHR 0x00"
    then have "lower_alnum (CHR 0x00)" using hex_digit_lower [of n] by simp
    then show False by (simp add: lower_alnum_def)
  qed
  from this [symmetric] show ?thesis by (induction bs) (simp_all add: hex_encode_def hex2_def)
qed

lemma sha_no_nul: "CHR 0x00 \<notin> set (capture_sha256 gv b)"
  using hex_no_nul by (simp add: capture_sha256_def)

text \<open>The index of a capture: sorted, and each entry shows the artifact at its path.\<close>

definition index_of :: "'z gate_env_scheme \<Rightarrow> disk \<Rightarrow> workspace_capture_plan \<Rightarrow> artifact_file_index res" where
  "index_of gv d plan = fold_res (artifact_index_step gv d) [] (pl_entries plan)"

definition describes :: "'z gate_env_scheme \<Rightarrow> artifact_file_index \<Rightarrow> (path \<Rightarrow> artifact option) \<Rightarrow> bool" where
  "describes gv index t \<longleftrightarrow> keys_sorted index
    \<and> (\<forall>p. rel_option (shows_artifact gv) (map_of index p) (t p))"

lemma index_describes:
  assumes "index_of gv d plan = Inr index"
  shows "describes gv index (result_at d plan)"
proof -
  have "describes gv index' (\<lambda>p. case map_of (rev (map (\<lambda>e. (ce_relative e, artifact_of d e)) es)) p of
      Some a \<Rightarrow> a | None \<Rightarrow> t p)"
    if "fold_res (artifact_index_step gv d) index es = Inr index'" "describes gv index t" for es index index' t
    using that
  proof (induction es arbitrary: index t)
    case (Cons e es)
    obtain f where f: "artifact_fingerprint gv d e = Inr f"
        "fold_res (artifact_index_step gv d) (btree_map_insert (ce_relative e) f index) es = Inr index'"
      using Cons.prems(1) by (auto simp: artifact_index_step_def [of gv d index e] result_simps)
    obtain a where a: "artifact_of d e = Some a" "shows_artifact gv f a" by (rule fingerprint_shows [OF f(1)])
    have "describes gv (btree_map_insert (ce_relative e) f index) (t(ce_relative e \<mapsto> a))"
      using Cons.prems(2) a(2) by (simp add: describes_def btree_map_insert_sorted btree_map_insert_map_of)
    from Cons.IH [OF f(2) this] show ?case
      by (rule back_subst [of "describes gv index'"]) (auto simp: fun_eq_iff a(1) map_add_def split: option.splits)
  qed simp
  from this [of "[]" "pl_entries plan" index "\<lambda>_. None"] assms show ?thesis
    by (simp add: index_of_def result_at_def [abs_def]) (simp add: describes_def)
qed

section \<open>Equal records\<close>

definition collides :: "'z gate_env_scheme \<Rightarrow> bytes \<Rightarrow> bytes \<Rightarrow> bool" where
  "collides gv x y \<longleftrightarrow> x \<noteq> y \<and> gv_digest gv x = gv_digest gv y"

definition hashed_texts :: "'z gate_env_scheme \<Rightarrow> disk \<Rightarrow> workspace_capture_plan \<Rightarrow> bytes set" where
  "hashed_texts gv d plan =
    {artifact_tree_text index |index. index_of gv d plan = Inr index} \<union> {artifact_text a |a p. result_at d plan p = Some a}"

text \<open>Two captured trees hold the same result, or the digest has confused two texts hashed for them.\<close>

definition same_result :: "'z gate_env_scheme \<Rightarrow> disk \<Rightarrow> workspace_capture_plan \<Rightarrow> disk \<Rightarrow> workspace_capture_plan \<Rightarrow> bool" where
  "same_result gv d plan d' plan' \<longleftrightarrow>
    (\<forall>p. result_at d plan p = result_at d' plan' p)
    \<or> (\<exists>x \<in> hashed_texts gv d plan. \<exists>y \<in> hashed_texts gv d' plan'. collides gv x y)"

lemma sha_eq: "capture_sha256 gv x = capture_sha256 gv y \<Longrightarrow> x = y \<or> collides gv x y"
  using radix_pairs_encode by (auto simp: capture_sha256_def collides_def) (metis option.inject)

lemma same_shown:
  assumes "shows_artifact gv f a" "shows_artifact gv f a'"
  shows "a = a' \<or> collides gv (artifact_text a) (artifact_text a')"
proof -
  have kind: "fst a = fst a'" using assms by (simp add: shows_artifact_def)
  have "artifact_text a = artifact_text a' \<or> collides gv (artifact_text a) (artifact_text a')"
    using assms by (intro sha_eq) (simp add: shows_artifact_def)
  then show ?thesis using kind by (auto simp: artifact_text_def bytes_identity_def prod_eq_iff split: if_splits)
qed

lemma same_index_same_result:
  assumes "index_of gv d plan = Inr index" "index_of gv d' plan' = Inr index"
  shows "same_result gv d plan d' plan'"
proof (rule ccontr)
  assume no: "\<not> same_result gv d plan d' plan'"
  then obtain p where p: "result_at d plan p \<noteq> result_at d' plan' p" by (auto simp: same_result_def)
  have "rel_option (shows_artifact gv) (map_of index p) (result_at d plan p)"
      "rel_option (shows_artifact gv) (map_of index p) (result_at d' plan' p)"
    using index_describes [OF assms(1)] index_describes [OF assms(2)] by (simp_all add: describes_def)
  then obtain f a a' where a: "result_at d plan p = Some a" "result_at d' plan' p = Some a'" "shows_artifact gv f a" "shows_artifact gv f a'"
    using p by (auto simp: option_rel_Some1 elim!: option.rel_cases)
  then have "collides gv (artifact_text a) (artifact_text a')" using p same_shown by fastforce
  moreover have "artifact_text a \<in> hashed_texts gv d plan" "artifact_text a' \<in> hashed_texts gv d' plan'"
    using a unfolding hashed_texts_def by blast+
  ultimately show False using no by (auto simp: same_result_def)
qed

text \<open>Names as a directory walk finds them: no empty one, no separator, and shorter than memory.\<close>

definition plan_indexable :: "workspace_capture_plan \<Rightarrow> bool" where
  "plan_indexable plan \<longleftrightarrow>
    (\<forall>e \<in> set (pl_entries plan). plain_path (ce_relative e) \<and> length (path_bytes (ce_relative e)) < 2 ^ 64)"

lemma index_indexable:
  assumes "index_of gv d plan = Inr index" "plan_indexable plan"
  shows "list_all indexable index"
proof -
  have step: "list_all indexable index'" if "fold_res (artifact_index_step gv d) index es = Inr index'"
      "list_all indexable index" "\<forall>e \<in> set es. plain_path (ce_relative e) \<and> length (path_bytes (ce_relative e)) < 2 ^ 64" for es index index'
    using that
  proof (induction es arbitrary: index)
    case (Cons e es)
    obtain f where f: "artifact_fingerprint gv d e = Inr f"
        "fold_res (artifact_index_step gv d) (btree_map_insert (ce_relative e) f index) es = Inr index'"
      using Cons.prems(1) by (auto simp: artifact_index_step_def [of gv d index e] result_simps)
    obtain a where "shows_artifact gv f a" by (rule fingerprint_shows [OF f(1)])
    then have "indexable (ce_relative e, f)" using Cons.prems(3) sha_no_nul by (simp add: indexable_def shows_artifact_def)
    then have "list_all indexable (btree_map_insert (ce_relative e) f index)"
      using Cons.prems(2) btree_insert_set [of "ce_relative e" f index] by (auto simp: list_all_iff)
    then show ?case using Cons.IH [OF f(2)] Cons.prems(3) by simp
  qed simp
  show ?thesis using step [of "[]" "pl_entries plan" index] assms by (simp add: index_of_def plan_indexable_def)
qed

lemma same_hash_same_result:
  assumes "index_of gv d plan = Inr index" "index_of gv d' plan' = Inr index'" "plan_indexable plan" "plan_indexable plan'"
    "artifact_tree_hash gv index = artifact_tree_hash gv index'"
  shows "same_result gv d plan d' plan'"
proof (cases "artifact_tree_text index = artifact_tree_text index'")
  case True
  then have "index = index'" using artifact_tree_text_inj index_indexable assms by blast
  then show ?thesis using same_index_same_result assms by blast
next
  case False
  then have "collides gv (artifact_tree_text index) (artifact_tree_text index')"
    using sha_eq assms(5) by (auto simp: artifact_tree_hash_def)
  moreover have "artifact_tree_text index \<in> hashed_texts gv d plan" "artifact_tree_text index' \<in> hashed_texts gv d' plan'"
    using assms(1,2) by (auto simp: hashed_texts_def)
  ultimately show ?thesis by (auto simp: same_result_def)
qed

section \<open>Captured results\<close>

definition captured_result :: "'z capture_env_scheme \<Rightarrow> disk \<Rightarrow> path \<Rightarrow> workspace_capture_policy \<Rightarrow> workspace_capture_plan \<Rightarrow> bool" where
  "captured_result cv d root_dir policy plan \<longleftrightarrow>
    (\<exists>u u'. capture_workspace_strict cv root_dir policy ResultCandidate ForResultCandidate u = (Inr plan, u') \<and> cw_disk u = d)
    \<and> \<not> wm_partial (pl_manifest plan)"

text \<open>What the \<open>ignore\<close> crate hands out below the root has names of the file system.\<close>

definition walk_plain :: "'z capture_env_scheme \<Rightarrow> disk \<Rightarrow> path \<Rightarrow> bool" where
  "walk_plain cv d root_dir \<longleftrightarrow> (\<forall>f e. Yielded e \<in> set (cv_walk cv d root_dir f) \<longrightarrow>
    plain_path (entry_relative root_dir e) \<and> length (path_bytes (entry_relative root_dir e)) < 2 ^ 64)"

lemma captured_indexable:
  assumes "captured_result cv d root_dir policy plan" "walk_plain cv d root_dir"
  shows "plan_indexable plan"
proof -
  obtain u u' where run: "capture_workspace_strict cv root_dir policy ResultCandidate ForResultCandidate u = (Inr plan, u')"
      "cw_disk u = d" using assms(1) by (auto simp: captured_result_def)
  from run(1) obtain tc st boundary started w1 w2 where tc: "tc_root tc = root_dir"
      and t: "traverse cv boundary (wp_budgets policy) started tc (cv_walk cv (cw_disk u) root_dir (admits tc)) capture_start w1
          = (Inr st, w2)"
      and sub: "mset (pl_entries plan) \<subseteq># mset (cl_entries st)"
    by (rule strict_capture_stages) blast
  show ?thesis unfolding plan_indexable_def
  proof
    fix x assume "x \<in> set (pl_entries plan)"
    then have "x \<in> set (cl_entries st)" using sub set_mset_mono by fastforce
    then have "from_walk tc (cv_walk cv (cw_disk u) root_dir (admits tc)) x"
      using traverse_entries [OF t] by (auto simp: list_all_iff)
    then show "plain_path (ce_relative x) \<and> length (path_bytes (ce_relative x)) < 2 ^ 64"
      using assms(2) run(2) tc by (auto simp: from_walk_def walk_plain_def entry_of_def)
  qed
qed

lemma index_from_capture:
  assumes "artifact_file_index_from_capture cv plan w = (Inr index, w')"
  shows "w' = w" "\<not> wm_partial (pl_manifest plan)" "index_of cv (cw_disk w) plan = Inr index"
  using assms by (auto simp: artifact_file_index_from_capture_def require_complete_def index_of_def result_simps split: if_splits)

lemma looks_index [intro!]: "looks (artifact_file_index_from_capture cv plan)" "looks (index_with_policy cv root_dir policy)"
proof -
  show all: "looks (artifact_file_index_from_capture cv plan)" for plan
    unfolding artifact_file_index_from_capture_def by (auto intro!: looks_bind)
  show "looks (index_with_policy cv root_dir policy)"
    unfolding index_with_policy_def capture_workspace_strict_def using all by (auto intro!: looks_bind)
qed

lemma indexed_capture:
  assumes "index_with_policy cv root_dir policy w = (Inr index, w')"
  shows "\<exists>plan. captured_result cv (cw_disk w) root_dir policy plan \<and> index_of cv (cw_disk w) plan = Inr index"
proof -
  obtain plan w1 where c: "capture_workspace_strict cv root_dir policy ResultCandidate ForResultCandidate w = (Inr plan, w1)"
      "artifact_file_index_from_capture cv plan w1 = (Inr index, w')"
    using assms by (auto simp: index_with_policy_def result_simps)
  have "cw_disk w1 = cw_disk w" using looksD(2) [OF looks_capture_workspace c(1) [unfolded capture_workspace_strict_def]] .
  then show ?thesis using c index_from_capture [OF c(2)] by (auto simp: captured_result_def)
qed

section \<open>Loading\<close>

lemma readonly_load [intro!]: "readonly (load_result_projection jv st)"
  unfolding load_result_projection_def Let_def
  using readonly_policy_reads(2) by (auto intro!: readonly_bind)

lemma looks_validate [intro!]: "looks (validate_result_projection_at jv st root_dir)"
  unfolding validate_result_projection_at_def by (auto intro!: looks_bind looks_cap_io)

text \<open>What validates: a capture under the sealed policy whose tree hash is the sealed one.\<close>

lemma validated:
  assumes "validate_result_projection_at jv st root_dir w = (Inr m, w')"
  obtains sp plan index where "load_result_projection jv st (cw_fs w) = (Inr sp, cw_fs w)" "sp_manifest sp = m"
    "captured_result jv (cw_disk w) root_dir (sp_policy sp) plan" "index_of jv (cw_disk w) plan = Inr index"
    "artifact_tree_hash jv index = rp_tree_sha256 m"
proof -
  obtain sp w1 index w2 where load: "cap_io (load_result_projection jv st) w = (Inr sp, w1)"
      and index: "index_with_policy jv root_dir (sp_policy sp) w1 = (Inr index, w2)"
      and m: "sp_manifest sp = m" "artifact_tree_hash jv index = rp_tree_sha256 m"
    using assms by (auto simp: validate_result_projection_at_def act_bind_Inr_iff split: if_splits)
  have "load_result_projection jv st (cw_fs w) = (Inr sp, cw_fs w)" "cw_disk w1 = cw_disk w"
    using load readonlyD [OF readonly_load] by (auto simp: cap_io_Inr_iff)
  then show ?thesis using that indexed_capture [OF index] m by auto
qed

lemma validated_same:
  assumes "validate_result_projection_at jv st root1 w1 = (Inr m1, v1)" "validate_result_projection_at jv st root2 w2 = (Inr m2, v2)"
    and same_record: "cw_fs w2 = cw_fs w1"
    and walks: "walk_plain jv (cw_disk w1) root1" "walk_plain jv (cw_disk w2) root2"
  shows "m2 = m1 \<and> (\<exists>sp plan1 plan2. load_result_projection jv st (cw_fs w1) = (Inr sp, cw_fs w1) \<and> sp_manifest sp = m1
    \<and> captured_result jv (cw_disk w1) root1 (sp_policy sp) plan1
    \<and> captured_result jv (cw_disk w2) root2 (sp_policy sp) plan2 \<and> same_result jv (cw_disk w1) plan1 (cw_disk w2) plan2)"
proof -
  obtain sp1 plan1 index1 where a: "load_result_projection jv st (cw_fs w1) = (Inr sp1, cw_fs w1)" "sp_manifest sp1 = m1"
      "captured_result jv (cw_disk w1) root1 (sp_policy sp1) plan1" "index_of jv (cw_disk w1) plan1 = Inr index1"
      "artifact_tree_hash jv index1 = rp_tree_sha256 m1"
    by (rule validated [OF assms(1)])
  obtain sp2 plan2 index2 where b: "load_result_projection jv st (cw_fs w2) = (Inr sp2, cw_fs w2)" "sp_manifest sp2 = m2"
      "captured_result jv (cw_disk w2) root2 (sp_policy sp2) plan2" "index_of jv (cw_disk w2) plan2 = Inr index2"
      "artifact_tree_hash jv index2 = rp_tree_sha256 m2"
    by (rule validated [OF assms(2)])
  have "sp2 = sp1" using a(1) b(1) same_record by simp
  moreover have "same_result jv (cw_disk w1) plan1 (cw_disk w2) plan2"
    using same_hash_same_result [OF a(4) b(4)] captured_indexable [OF a(3)] captured_indexable [OF b(3)] walks a b calculation
    by simp
  ultimately show ?thesis using a b by blast
qed

section \<open>Materializing the result\<close>

lemma on_tree_only_projection [intro!]:
  "on_tree_only (remove_controller_tree cv p)" "on_tree_only (materialize_capture_plan cv plan destination)"
proof -
  show "on_tree_only (remove_controller_tree cv p)"
    unfolding remove_controller_tree_def
    by (rule on_tree_only_world [of "\<lambda>w. case lstat_kind (cw_disk w) p of
       Inr DirNode \<Rightarrow> remove_captured_directory_tree cv p
     | Inr _ \<Rightarrow> act_lift (Inl (projection_error (ProjectionNotDirectory p)))
     | Inl k \<Rightarrow> if k = IoNotFound then act_return () else act_lift (Inl (Io p k))"])
      (auto split: sum.splits disk_node.splits)
  have "on_tree_only (materialize_entries cv b p r es s)" for b p r es s
    by (induction es arbitrary: s) (auto intro!: on_tree_only_bind)
  then have "on_tree_only (materialize_within cv b plan destination None)" for b
    unfolding materialize_within_def by (auto intro!: on_tree_only_bind)
  then have "on_tree_only (act_bind (materialize_within cv b plan destination None) (\<lambda>_. act_return ()))" for b
    by (auto intro!: on_tree_only_bind)
  then show "on_tree_only (materialize_capture_plan cv plan destination)"
    unfolding materialize_capture_plan_def
    by (rule on_tree_only_world [of "\<lambda>w. act_bind (materialize_within cv (inherited_work_boundary w) plan destination None) (\<lambda>_. act_return ())"])
qed

lemma loaded_candidate:
  assumes "load_result_projection jv st s = (Inr sp, s')"
  shows "sp_candidate sp = result_projection_candidate_path st"
    "\<exists>raw. files s (result_projection_manifest_path st) = Some raw \<and> dec (jv_manifest jv) raw = Some (sp_manifest sp)"
    "\<exists>raw. files s (result_projection_policy_path st) = Some raw \<and> dec (cv_policy jv) raw = Some (sp_policy sp)"
  using assms readonlyD [OF readonly_policy_reads(2)]
  by (auto simp: load_result_projection_def Let_def result_simps parse_json_def split: if_splits)

text \<open>
  C32: A result materialized somewhere is the sealed one: under the policy of the sealed record, what the
  destination holds in the end is what the candidate held, the same paths, each a file of the same kind with the
  same bytes or a link with the same target, unless SHA-256 confused two of the texts hashed for them. The returned
  record is the sealed one, and no control file has changed.
\<close>

theorem materialized_result_is_the_candidate:
  assumes run: "materialize_result_projection jv st destination w = (Inr m, w')"
    and walks: "walk_plain jv (cw_disk w) (result_projection_candidate_path st)" "walk_plain jv (cw_disk w') destination"
  shows "\<exists>sp plan plan'. load_result_projection jv st (cw_fs w) = (Inr sp, cw_fs w) \<and> sp_manifest sp = m
    \<and> captured_result jv (cw_disk w) (result_projection_candidate_path st) (sp_policy sp) plan
    \<and> captured_result jv (cw_disk w') destination (sp_policy sp) plan' \<and> same_result jv (cw_disk w) plan (cw_disk w') plan'
    \<and> cw_fs w' = cw_fs w"
proof -
  obtain sp m0 plan w1 w2 w3 w4 w5 where
      load: "cap_io (load_result_projection jv st) w = (Inr sp, w1)"
      and before: "validate_result_projection_at jv st (sp_candidate sp) w1 = (Inr m0, w2)"
      and capture: "capture_workspace_strict jv (sp_candidate sp) (sp_policy sp) ResultCandidate ForResultCandidate w2 = (Inr plan, w3)"
      and clear: "remove_controller_tree jv destination w3 = (Inr (), w4)"
      and copy: "materialize_capture_plan jv plan destination w4 = (Inr (), w5)"
      and after: "validate_result_projection_at jv st destination w5 = (Inr m, w')"
    using run by (auto simp: materialize_result_projection_def result_simps)
  have w1: "cw_fs w1 = cw_fs w" "cw_disk w1 = cw_disk w" using looksD [OF looks_cap_io [OF readonly_load] load] by simp_all
  have fs: "cw_fs w5 = cw_fs w1"
    using looksD(1) [OF looks_validate before] looksD(1) [OF looks_capture_workspace capture [unfolded capture_workspace_strict_def]]
      on_tree_onlyD(1) [OF on_tree_only_projection(1) clear] on_tree_onlyD(1) [OF on_tree_only_projection(2) copy]
    by simp
  have place: "sp_candidate sp = result_projection_candidate_path st"
    using load loaded_candidate(1) by (auto simp: cap_io_Inr_iff)
  have final: "cw_fs w' = cw_fs w5" "cw_disk w' = cw_disk w5" using looksD [OF looks_validate after] by simp_all
  from validated_same [OF before after fs] walks w1 place fs final show ?thesis by auto
qed

section \<open>Sealing the work\<close>

lemma projection_paths_differ: "result_projection_policy_path st \<noteq> result_projection_manifest_path st"
proof -
  have "plain ''policy.json''" "plain ''manifest.json''" by (simp_all add: plain_def)
  then show ?thesis by (simp add: result_projection_policy_path_def result_projection_manifest_path_def join_plain)
qed

lemma seal_stages:
  assumes "seal_result_projection jv st w = (Inr m, w')"
  obtains admission policy plan index m0 m1 w1 w2 w3 w4 v1 v2 v3 u u'
  where "cap_io (require_workspace_capture_policy (cv_policy jv) st) w = (Inr admission, w1)"
    "freeze_result_projection_policy jv (rs_working_dir st) admission w1 = (Inr policy, w2)"
    "capture_workspace_strict jv (rs_working_dir st) policy ResultCandidate ForResultCandidate w2 = (Inr plan, w3)"
    "artifact_file_index_from_capture jv plan w3 = (Inr index, w4)"
    "cap_io (atomic_write_json (cv_policy jv) (result_projection_policy_path st) policy) v1 = (Inr u, v2)"
    "cap_io (atomic_write_json (jv_manifest jv) (result_projection_manifest_path st) m1) v2 = (Inr u', v3)"
    "validate_result_projection_at jv st (result_projection_candidate_path st) v3 = (Inr m0, w')"
    "m = m1" "rp_tree_sha256 m1 = artifact_tree_hash jv index"
  using assms unfolding seal_result_projection_def Let_def
  by (elim act_bindE, simp only: act_lift_Inr_iff act_run prod.inject sum.inject, elim conjE) (rule that, assumption+, rule refl, erule subst [where t = m], simp (no_asm))

text \<open>
  C31: Sealing keeps the work: the candidate a successful sealing leaves holds what the working tree held when
  it began, captured under one policy, the returned record is the one later loads find, and it describes the
  candidate, unless SHA-256 confused two of the texts hashed.
\<close>

theorem sealed_candidate_is_the_work:
  assumes run: "seal_result_projection jv st w = (Inr m, w')"
    and codecs: "document_ok (jv_manifest jv) m" "\<forall>policy. document_ok (cv_policy jv) policy"
    and walks: "walk_plain jv (cw_disk w) (rs_working_dir st)" "walk_plain jv (cw_disk w') (result_projection_candidate_path st)"
  shows "\<exists>policy plan plan'. captured_result jv (cw_disk w) (rs_working_dir st) policy plan
    \<and> captured_result jv (cw_disk w') (result_projection_candidate_path st) policy plan'
    \<and> same_result jv (cw_disk w) plan (cw_disk w') plan'
    \<and> load_result_projection jv st (cw_fs w') =
      (Inr \<lparr>sp_manifest = m, sp_policy = policy, sp_candidate = result_projection_candidate_path st\<rparr>, cw_fs w')"
proof -
  obtain admission policy plan index m0 m1 w1 w2 w3 w4 v1 v2 v3 u u' where
      require: "cap_io (require_workspace_capture_policy (cv_policy jv) st) w = (Inr admission, w1)"
      and freeze: "freeze_result_projection_policy jv (rs_working_dir st) admission w1 = (Inr policy, w2)"
      and capture: "capture_workspace_strict jv (rs_working_dir st) policy ResultCandidate ForResultCandidate w2 = (Inr plan, w3)"
      and indexed: "artifact_file_index_from_capture jv plan w3 = (Inr index, w4)"
      and write_policy: "cap_io (atomic_write_json (cv_policy jv) (result_projection_policy_path st) policy) v1 = (Inr u, v2)"
      and write_manifest: "cap_io (atomic_write_json (jv_manifest jv) (result_projection_manifest_path st) m1) v2 = (Inr u', v3)"
      and check: "validate_result_projection_at jv st (result_projection_candidate_path st) v3 = (Inr m0, w')"
      and tree_sha: "m = m1" "rp_tree_sha256 m1 = artifact_tree_hash jv index"
    by (rule seal_stages [OF run])
  have disk: "cw_disk w2 = cw_disk w" "cw_disk w3 = cw_disk w"
    using looksD(2) [OF looks_cap_io [OF readonly_policy_reads(2)] require] looksD(2) [OF looks_freeze(4) freeze]
      looksD(2) [OF looks_capture_workspace capture [unfolded capture_workspace_strict_def]] by simp_all
  have work: "captured_result jv (cw_disk w) (rs_working_dir st) policy plan" "index_of jv (cw_disk w) plan = Inr index"
    using capture disk index_from_capture [OF indexed] by (auto simp: captured_result_def)
  have final: "cw_fs w' = cw_fs v3" "cw_disk w' = cw_disk v3" using looksD [OF looks_validate check] by simp_all
  obtain sp plan' index' where c: "load_result_projection jv st (cw_fs v3) = (Inr sp, cw_fs v3)" "sp_manifest sp = m0"
      "captured_result jv (cw_disk v3) (result_projection_candidate_path st) (sp_policy sp) plan'"
      "index_of jv (cw_disk v3) plan' = Inr index'" "artifact_tree_hash jv index' = rp_tree_sha256 m0"
    by (rule validated [OF check])
  have "m0 = m \<and> sp_policy sp = policy"
    using loaded_candidate(2,3) [OF c(1)] write_policy write_manifest codecs projection_paths_differ [of st] c(2) tree_sha(1)
    by (auto simp: cap_io_Inr_iff atomic_write_json_Inr_iff document_ok_def)
  moreover have "same_result jv (cw_disk w) plan (cw_disk v3) plan'"
    using same_hash_same_result [OF work(2) c(4)] captured_indexable [OF work(1) walks(1)]
      captured_indexable [OF c(3)] walks(2) final tree_sha c(5) calculation by simp
  ultimately show ?thesis using work c loaded_candidate(1) [OF c(1)] final
    by (intro exI [of _ policy] exI [of _ plan] exI [of _ plan']) (cases sp, simp)
qed

end
