(* ===== verification/Materialize_Examples.thy ===== *)
theory Materialize_Examples
  imports Tree_Removal Capture_Examples
begin

text \<open>The copying and the removal of the sample workspace.\<close>

definition out_dir :: path where "out_dir = [RootDir, Normal ''out'']"

definition sample_plan :: workspace_capture_plan where
  "sample_plan = plan_of sample_policy (Some sample_hydration) [plan_path] ''d'' ForResultCandidate 0 0 sample_loop"

lemma sample_plan_entries:
  "pl_entries sample_plan = [found_at [''.deadreckon'', ''plan.yaml''] True, found_at [''a.txt''] False]"
proof -
  have "\<not> Normal ''a.txt'' < Normal ''.deadreckon''" by code_simp
  then show ?thesis by (simp add: sample_plan_def plan_of_def sample_loop_def)
qed

lemma chunked_short: "length b \<le> 65536 \<Longrightarrow> chunked b = (if b = [] then [] else [b])"
  by (subst chunked.simps) (simp add: chunked.simps [of "[]"])

lemma no_checks: "check_optional sample_env None w = (Inr (), w)"
  by (simp add: check_optional_def)

lemma stat_once:
  "stat_node d p = (case lstat_kind d p of Inr (LinkNode target) \<Rightarrow> follow_links 40 d (lexical_normalize (join_path (path_pop p) (components target)))
    | Inr n \<Rightarrow> Some n | Inl _ \<Rightarrow> None)"
  by (auto simp: stat_node_def eval_nat_numeral split: sum.splits disk_node.splits)

lemma resolve_once:
  "resolve_links 41 d p = (case nodes d p of Some (LinkNode target) \<Rightarrow> resolve_links 40 d (lexical_normalize (join_path (path_pop p) (components target)))
    | _ \<Rightarrow> Some p)"
  by (auto simp: eval_nat_numeral split: option.splits disk_node.splits)

lemma act_bind_run: "act_bind m f w = (case m w of (r, w') \<Rightarrow> (case r of Inl e \<Rightarrow> (Inl e, w') | Inr a \<Rightarrow> f a w'))"
  by (simp add: act_bind_def split: prod.splits sum.splits)

lemma act_bind_first: "m = m' \<Longrightarrow> act_bind m f = act_bind m' f"
  by simp

lemmas run_simps = act_bind_run try_change_def change_disk_def at_path_def on_disk_def create_dirs_def dir_step_def create_dir_def
  new_node_def is_dir_def parent_is_dir_def path_parent_def lstat_kind_def nodes_def set_node_def del_node_def
  stat_once resolve_once no_checks

lemmas sample_simps = sample_world_def sample_disk_def sample_entries_def at_sample_def sample_dir_def out_dir_def

lemma sample_materialize:
  "\<exists>w'. materialize_capture_plan sample_env sample_plan out_dir sample_world = (Inr (), w')"
  unfolding materialize_capture_plan_def materialize_within_def sample_plan_entries
  by (simp add: sample_simps run_simps inherited_work_boundary_def ensure_materialization_root_def materialize_capture_entry_def
      join_path_def Let_def ensure_materialization_parent_def remove_materialization_target_def lstat_def copy_regular_file_def
      read_node_def read_kind_def open_for_writing_def create_file_def chunked_short write_all_def append_to_file_def
      set_permissions_def cong: act_bind_first)

lemma sample_node:
  "nodes sample_disk q = (if q \<in> {sample_dir, sample_dir @ [Normal ''.git''], sample_dir @ [Normal ''.deadreckon'']} then Some DirNode
    else if q \<in> {sample_dir @ [Normal ''a.txt''], sample_dir @ [Normal ''debug.log''],
      sample_dir @ [Normal ''.deadreckon'', Normal ''plan.yaml''], sample_dir @ [Normal ''.deadreckon'', Normal ''state.json'']}
      then Some (FileNode ''x'' 420) else None)"
  by (simp add: nodes_def sample_disk_def sample_entries_def at_sample_def)

theorem materialized_plan_is_exact_witness:
  "\<exists>w'. materialize_capture_plan sample_env sample_plan out_dir sample_world = (Inr (), w')
    \<and> nodes (cw_disk w') (out_dir @ [Normal ''a.txt'']) = Some (FileNode ''x'' 420)"
proof -
  obtain w' where run: "materialize_capture_plan sample_env sample_plan out_dir sample_world = (Inr (), w')"
    using sample_materialize by blast
  have fresh: "out_dir \<noteq> []" "\<forall>q. prefix out_dir q \<longrightarrow> nodes (cw_disk sample_world) q = None"
    by (auto simp: sample_world_def sample_node out_dir_def sample_dir_def)
  have plan: "apart (pl_entries sample_plan)" "list_all (entry_fits (cw_disk sample_world) out_dir) (pl_entries sample_plan)"
    by (simp_all add: apart_def sample_plan_entries entry_fits_def sample_world_def sample_node out_dir_def sample_dir_def is_normal_def)
  have "\<forall>p. lstat_fault (cw_disk sample_world) p \<noteq> Some IoNotFound" by (simp add: sample_world_def sample_disk_def)
  from materialized_plan_is_exact [OF run fresh plan this] run show ?thesis
    by (auto simp: sample_plan_entries sample_world_def sample_node sample_dir_def)
qed

lemma rooted_check:
  assumes "list_all (\<lambda>q. list_all (\<lambda>r. prefix p r \<and> r \<noteq> q \<longrightarrow> nodes d r = Some DirNode) (prefixes q)) (map fst (tree d))"
  shows "rooted_at d p"
  unfolding rooted_at_def
proof (intro allI impI)
  fix q r assume q: "nodes d q \<noteq> None" "prefix p r" "strict_prefix r q"
  then have "q \<in> set (map fst (tree d))" by (simp add: nodes_def map_of_eq_None_iff)
  moreover have "r \<in> set (prefixes q)" "r \<noteq> q" using q(3) by (auto simp: strict_prefix_def)
  ultimately show "nodes d r = Some DirNode" using assms q(2) by (auto simp: list_all_iff)
qed

lemma sample_rooted: "rooted_at sample_disk sample_dir"
  by (rule rooted_check) code_simp

theorem tree_removal_completes_witness:
  "\<exists>w'. remove_captured_directory_tree sample_env sample_dir sample_world = (Inr (), w')
    \<and> nodes sample_disk (sample_dir @ [Normal ''a.txt'']) \<noteq> None
    \<and> nodes (cw_disk w') (sample_dir @ [Normal ''a.txt'']) = None"
proof -
  have d: "cw_disk sample_world = sample_disk" by (simp add: sample_world_def)
  have "nodes (cw_disk sample_world) sample_dir = Some DirNode" "rooted_at (cw_disk sample_world) sample_dir"
    by (simp_all add: d sample_node sample_rooted)
  moreover have "healthy (cw_disk sample_world) sample_dir" by (simp add: d healthy_def sample_disk_def)
  moreover have "inherited_work_boundary sample_world = None" by (simp add: inherited_work_boundary_def sample_world_def)
  ultimately obtain w' where "remove_captured_directory_tree sample_env sample_dir sample_world = (Inr (), w')"
      "nodes (cw_disk w') = without sample_dir (nodes (cw_disk sample_world))"
    using tree_removal_completes by blast
  then show ?thesis by (auto simp: without_def sample_node)
qed

end
