(* ===== verification/Projection_Examples.thy ===== *)
theory Projection_Examples
  imports Projection_Guarantees Policy_Examples Materialize_Examples
begin

text \<open>
  Sealing, validating and materializing the result of one run, whose working tree holds one file. The digest
  of this environment is the identity, so no two texts collide.
\<close>

section \<open>The run\<close>

definition one_walk :: "disk \<Rightarrow> path \<Rightarrow> (walk_entry \<Rightarrow> bool) \<Rightarrow> walk_event list" where
  "one_walk d below f =
    (let top_entry = \<lparr>we_path = below, we_type = Some TDir\<rparr>;
         entry = \<lparr>we_path = below @ [Normal ''a.txt''], we_type = Some TFile\<rparr>
     in
     if \<not> f top_entry then [Rejected top_entry]
     else Yielded top_entry # (if nodes d (we_path entry) = None then [] else [if f entry then Yielded entry else Rejected entry]))"

definition ready_policy :: workspace_capture_policy where
  "ready_policy = plain_policy\<lparr>wp_ignores := []\<rparr>"

definition ready_env :: capture_env where
  "ready_env = sample_env\<lparr>gv_digest := (\<lambda>b. b), cv_walk := one_walk,
    cv_policy := \<lparr>enc = (\<lambda>p. if p = ready_policy then Some ''P'' else None), dec = (\<lambda>_. Some ready_policy)\<rparr>\<rparr>"

definition sealed_index :: artifact_file_index where
  "sealed_index = [([Normal ''a.txt''], \<lparr>af_kind = RegularArtifact, af_hash = capture_sha256 ready_env ''x'', af_size = 1\<rparr>)]"

definition sealed_manifest :: result_projection_manifest where
  "sealed_manifest = \<lparr>rp_schema_version = 1, rp_run_id = rs_run_id plain_run, rp_sealed_at = 0, rp_source_working_dir = sample_dir,
    rp_admission_policy_sha256 = sha256_text ready_env ''P'', rp_projection_policy_sha256 = sha256_text ready_env ''P'',
    rp_tree_sha256 = artifact_tree_hash ready_env sealed_index, rp_included_files = 1, rp_included_bytes = 1,
    rp_omissions = [], rp_omissions_truncated = 0\<rparr>"

definition sealing_env :: projection_env where
  "sealing_env = capture_env.extend ready_env
    \<lparr>jv_activation = \<lparr>enc = (\<lambda>_. None), dec = (\<lambda>_. None)\<rparr>,
     jv_manifest = \<lparr>enc = (\<lambda>m. if m = sealed_manifest then Some ''M'' else None), dec = (\<lambda>_. Some sealed_manifest)\<rparr>\<rparr>"

lemma sealing_env_simps [simp]:
  "cv_now sealing_env k = 0" "cv_wall sealing_env k = 0" "cv_walk sealing_env = one_walk" "gv_digest sealing_env b = b"
  "cv_policy_compact sealing_env policy = Some ''P''"
  "cv_policy sealing_env = \<lparr>enc = (\<lambda>p. if p = ready_policy then Some ''P'' else None), dec = (\<lambda>_. Some ready_policy)\<rparr>"
  "jv_manifest sealing_env = \<lparr>enc = (\<lambda>m. if m = sealed_manifest then Some ''M'' else None), dec = (\<lambda>_. Some sealed_manifest)\<rparr>"
  by (simp_all add: sealing_env_def ready_env_def capture_env.defs sample_env_def gate_env.defs)

lemma same_digests:
  "capture_sha256 sealing_env b = capture_sha256 ready_env b" "sha256_text sealing_env b = sha256_text ready_env b"
  "artifact_tree_hash sealing_env i = artifact_tree_hash ready_env i"
proof -
  have "gv_digest ready_env b = b" for b by (simp add: ready_env_def)
  then show "capture_sha256 sealing_env b = capture_sha256 ready_env b" "sha256_text sealing_env b = sha256_text ready_env b"
      "artifact_tree_hash sealing_env i = artifact_tree_hash ready_env i"
    by (simp_all add: artifact_tree_hash_def capture_sha256_def sha256_text_def)
qed

lemma never_collides: "\<not> collides sealing_env x y"
  by (simp add: collides_def)

definition work_disk :: disk where
  "work_disk = sample_disk\<lparr>tree := [(sample_dir, DirNode), (sample_dir @ [Normal ''a.txt''], FileNode ''x'' 420)]\<rparr>"

section \<open>Capturing one file\<close>

abbreviation one_entry :: "path \<Rightarrow> capture_entry" where
  "one_entry r \<equiv> \<lparr>ce_relative = [Normal ''a.txt''], ce_source = r @ [Normal ''a.txt''], ce_kind = CapturedFile, ce_size = 1,
    ce_tracked = False\<rparr>"

definition one_plan :: "path \<Rightarrow> workspace_capture_plan" where
  "one_plan r = plan_of ready_policy (Some plain_hydration) [] (capture_sha256 sealing_env ''P'') ForResultCandidate 0 0
    (capture_start\<lparr>cl_entries := [one_entry r], cl_files := 1, cl_bytes := 1\<rparr>)"

definition holds_one :: "disk \<Rightarrow> path \<Rightarrow> bool" where
  "holds_one d r \<longleftrightarrow> nodes d (r @ [Normal ''a.txt'']) = Some (FileNode ''x'' 420) \<and> lstat_fault d = (\<lambda>_. None) \<and> open_fault d = (\<lambda>_. None)"

abbreviation one_context :: "path \<Rightarrow> traversal_context" where
  "one_context r \<equiv> \<lparr>tc_root = r, tc_projection = ResultCandidate, tc_ignores = [], tc_tracked = [],
    tc_tracked_directories = [], tc_output_roots = []\<rparr>"

lemma ready_hydration: "require_frozen_git_hydration ready_policy = Inr plain_hydration"
  by (simp add: require_frozen_git_hydration_def ready_policy_def plain_policy_def validate_frozen_git_hydration_def
      plain_hydration_def FROZEN_GIT_HYDRATION_VERSION_def)

lemma one_context_of:
  "traversal_context_of sealing_env r ready_policy ResultCandidate True
    = Inr (capture_sha256 sealing_env ''P'', Some plain_hydration, one_context r)"
proof -
  have "validate_frozen_git_hydration plain_hydration = Inr ()"
    by (simp add: validate_frozen_git_hydration_def plain_hydration_def FROZEN_GIT_HYDRATION_VERSION_def)
  moreover have "tracked_parent_directories [] = []" by code_simp
  ultimately show ?thesis
    by (simp add: traversal_context_of_def explicit_hydration_def ready_hydration decode_paths_def decode_output_roots_def
        compile_ignores_def)
      (simp add: ready_policy_def plain_policy_def plain_hydration_def decode_paths_def btree_set_def)
qed

lemma one_admitted:
  "filter_capture_entry (one_context r) \<lparr>we_path = r, we_type = Some TDir\<rparr> = Admit"
  "filter_capture_entry (one_context r) \<lparr>we_path = r @ [Normal ''a.txt''], we_type = Some TFile\<rparr> = Admit"
proof -
  have "\<not> is_git_control_path [Normal ''a.txt'']" "projection_boundary_allows ResultCandidate [Normal ''a.txt''] False"
    by code_simp+
  then show "filter_capture_entry (one_context r) \<lparr>we_path = r, we_type = Some TDir\<rparr> = Admit"
      "filter_capture_entry (one_context r) \<lparr>we_path = r @ [Normal ''a.txt''], we_type = Some TFile\<rparr> = Admit"
    by (simp_all add: filter_capture_entry_def entry_relative_def strip_path_prefix_def frozen_ignored_def Let_def)
qed

lemma one_captured:
  assumes d: "holds_one (cw_disk w) r" and "cw_scopes w = []"
  shows "capture_workspace_strict sealing_env r ready_policy ResultCandidate ForResultCandidate w
    = (Inr (one_plan r), w\<lparr>cw_clock := cw_clock w + 5\<rparr>)"
proof -
  have walk: "one_walk (cw_disk w) r (admits (one_context r)) =
      [Yielded \<lparr>we_path = r, we_type = Some TDir\<rparr>, Yielded \<lparr>we_path = r @ [Normal ''a.txt''], we_type = Some TFile\<rparr>]"
    using d by (simp add: one_walk_def admits_def one_admitted holds_one_def)
  have budgets: "wp_budgets ready_policy = default_budgets" by (simp add: ready_policy_def plain_policy_def)
  have no_check: "check_optional sealing_env None = act_return ()" by (simp add: check_optional_def)
  have stats: "update_subtree_stats [Normal ''a.txt''] 1 (FileNode ''x'' 420) [] = []"
    by (simp add: update_subtree_stats_def near_ancestors_def path_parent_def)
  have quiet: "suspicious_subtrees sealing_env [] default_budgets = []" by (simp add: suspicious_subtrees_def)
  have item: "capture_item default_budgets (one_context r) \<lparr>we_path = r, we_type = Some TDir\<rparr> st (cw_disk w) = Inr st" for st
    by (simp add: capture_item_def strip_path_prefix_def)
  have leaf: "capture_item default_budgets (one_context r) \<lparr>we_path = r @ [Normal ''a.txt''], we_type = Some TFile\<rparr> capture_start (cw_disk w)
      = Inr (capture_start\<lparr>cl_entries := [one_entry r], cl_files := 1, cl_bytes := 1\<rparr>)"
    using d by (simp add: capture_item_def strip_path_prefix_def holds_one_def lstat_kind_def leaf_of_node_def admit_leaf_def
        node_len_def capture_start_def saturating_add_u64_def default_budgets_def stats)
  have scan: "traverse sealing_env None default_budgets 0 (one_context r)
      [Yielded \<lparr>we_path = r, we_type = Some TDir\<rparr>, Yielded \<lparr>we_path = r @ [Normal ''a.txt''], we_type = Some TFile\<rparr>] capture_start v
      = (Inr (capture_start\<lparr>cl_entries := [one_entry r], cl_files := 1, cl_bytes := 1\<rparr>), v\<lparr>cw_clock := cw_clock v + 2\<rparr>)"
    if "cw_disk v = cw_disk w" for v
    using that by (simp add: act_bind_run no_check read_clock_def on_disk_def item leaf) (simp add: capture_start_def)
  show ?thesis
    using assms(2)
    by (simp add: capture_workspace_strict_def capture_workspace_inner_def inherited_work_boundary_def capture_within_def
        no_check utc_now_def read_clock_def act_bind_run one_context_of on_disk_def walk budgets scan
        del: traverse.simps)
      (simp add: act_bind_run no_check utc_now_def one_plan_def drop_suspicious_def quiet capture_start_def Let_def outside_suspicious_def)
qed

lemma one_plan_simps [simp]:
  "pl_entries (one_plan r) = [one_entry r]" "wm_partial (pl_manifest (one_plan r)) = False"
  "wm_omissions (pl_manifest (one_plan r)) = []" "wm_omissions_truncated (pl_manifest (one_plan r)) = 0"
  by (simp_all add: one_plan_def plan_of_def capture_start_def)

lemma one_indexed:
  assumes "holds_one (cw_disk w) r"
  shows "artifact_file_index_from_capture sealing_env (one_plan r) w = (Inr sealed_index, w)"
proof -
  have "\<not> executable_mode 420" by code_simp
  then show ?thesis using assms
    by (simp add: artifact_file_index_from_capture_def require_complete_def act_bind_run on_disk_def artifact_index_step_def
        artifact_fingerprint_def lstat_def lstat_kind_def holds_one_def sha256_file_def read_node_def read_kind_def stat_once
        regular_file_kind_def node_mode_def node_len_def sealed_index_def same_digests)
qed

section \<open>The places\<close>

definition sealing_dir :: path where "sealing_dir = [RootDir, Normal ''r'', Normal ''result-projection'']"

definition tree_at :: "path \<Rightarrow> (path \<times> disk_node) list" where
  "tree_at r = [(r, DirNode), (r @ [Normal ''a.txt''], FileNode ''x'' 420)]"

definition sealing_tree :: "(path \<times> disk_node) list" where
  "sealing_tree = tree_at sample_dir @ [([RootDir], DirNode), ([RootDir, Normal ''r''], DirNode), (sealing_dir, DirNode)]"

definition preparing_dir :: path where "preparing_dir = sealing_dir @ [Normal ''.candidate-preparing'']"
definition candidate_dir :: path where "candidate_dir = sealing_dir @ [Normal ''candidate'']"
definition evaluation_dir :: path where "evaluation_dir = sealing_dir @ [Normal ''evaluation'']"

definition disk_of :: "(path \<times> disk_node) list \<Rightarrow> disk" where
  "disk_of t = sample_disk\<lparr>tree := t\<rparr>"

lemma sealing_places:
  "result_projection_dir plain_run = sealing_dir" "join sealing_dir ''.candidate-preparing'' = preparing_dir"
  "result_projection_candidate_path plain_run = candidate_dir" "result_projection_evaluation_path plain_run = evaluation_dir"
  "rs_working_dir plain_run = sample_dir" "rs_run_root plain_run = [RootDir, Normal ''r'']"
  by (simp_all add: plain_run_def new_pipeline_state_def result_projection_dir_def result_projection_candidate_path_def
      result_projection_evaluation_path_def join_plain plain_def sealing_dir_def preparing_dir_def candidate_dir_def evaluation_dir_def)

lemma ready_frozen:
  assumes "cw_disk w = work_disk"
  shows "freeze_result_projection_policy sealing_env sample_dir ready_policy w = (Inr ready_policy, w\<lparr>cw_clock := cw_clock w + 4\<rparr>)"
proof -
  have walk: "one_walk work_disk sample_dir (discovery_admits sample_dir) =
      [Yielded (at_sample [] TDir), Yielded (at_sample [''a.txt''] TFile)]"
  proof -
    have "discovery_admits sample_dir (at_sample [] TDir)" "discovery_admits sample_dir (at_sample [''a.txt''] TFile)" by code_simp+
    then show ?thesis by (simp add: one_walk_def at_sample_def nodes_def work_disk_def)
  qed
  have items: "discover_item sealing_env sample_dir (at_sample [] TDir) found d = found"
      "discover_item sealing_env sample_dir (at_sample [''a.txt''] TFile) found d = found" for found d
  proof -
    have "\<not> is_ecosystem_marker ''a.txt''" "ignore_file_kind ''a.txt'' = None" by code_simp+
    then show "discover_item sealing_env sample_dir (at_sample [] TDir) found d = found"
        "discover_item sealing_env sample_dir (at_sample [''a.txt''] TFile) found d = found"
      by (auto simp: discover_item_def at_sample_def strip_path_prefix_def file_name_def Let_def)
  qed
  have "is_dir work_disk sample_dir" "\<not> is_file work_disk (join sample_dir ''.gitignore'')"
      "\<not> is_file work_disk (join sample_dir ''.ignore'')"
    by code_simp+
  moreover have "settle_discovery \<lparr>pd_ignores = [], pd_markers = [], pd_warnings = []\<rparr> = \<lparr>pd_ignores = [], pd_markers = [], pd_warnings = []\<rparr>"
    by (simp add: settle_discovery_def btree_set_def)
  ultimately show ?thesis using assms
    by (simp add: freeze_result_projection_policy_def ready_hydration act_bind_run discover_policy_inputs_def read_clock_def on_disk_def
        walk items root_ignores_def utc_now_def)
      (simp add: ready_policy_def plain_policy_def plain_hydration_def WORKSPACE_CAPTURE_POLICY_VERSION_def)
qed

lemma sealing_dirs: "create_dirs sealing_dir work_disk = Inr (disk_of sealing_tree)"
  by (simp add: sealing_dir_def work_disk_def disk_of_def sealing_tree_def tree_at_def sample_simps run_simps)

lemma no_sealing_checks: "check_optional sealing_env None w = (Inr (), w)"
  by (simp add: check_optional_def)

lemma candidate_copied:
  assumes "cw_disk w = disk_of sealing_tree" "cw_scopes w = []"
  shows "materialize_capture_plan sealing_env (one_plan sample_dir) preparing_dir w
    = (Inr (), w\<lparr>cw_disk := disk_of (sealing_tree @ tree_at preparing_dir)\<rparr>)"
proof -
  have "\<exists>fs k. w = \<lparr>cw_fs = fs, cw_disk = disk_of sealing_tree, cw_clock = k, cw_scopes = []\<rparr>"
    using assms by (cases w) simp
  then show ?thesis
    unfolding materialize_capture_plan_def materialize_within_def one_plan_simps
    by (auto simp add: sample_simps run_simps no_sealing_checks inherited_work_boundary_def ensure_materialization_root_def materialize_capture_entry_def
      join_path_def Let_def ensure_materialization_parent_def remove_materialization_target_def lstat_def copy_regular_file_def
      read_node_def read_kind_def open_for_writing_def create_file_def chunked_short write_all_def append_to_file_def
      set_permissions_def disk_of_def sealing_tree_def tree_at_def preparing_dir_def sealing_dir_def node_mode_def cong: act_bind_first)
qed

lemma candidate_renamed:
  "rename_dir preparing_dir candidate_dir (disk_of (sealing_tree @ tree_at preparing_dir)) = Inr (disk_of (sealing_tree @ tree_at candidate_dir))"
  by (simp add: rename_dir_def disk_of_def sealing_tree_def tree_at_def preparing_dir_def candidate_dir_def sealing_dir_def
      sample_simps nodes_def parent_is_dir_def path_parent_def del_node_def moved_def strict_prefix_def)


lemma one_bytes: "included_bytes sealed_index = 1" "length sealed_index = 1"
  by (simp_all add: included_bytes_def sealed_index_def)

definition policy_file :: path where "policy_file = [RootDir, Normal ''r'', Normal ''workspace-capture-policy.json'']"
definition manifest_file :: path where "manifest_file = sealing_dir @ [Normal ''manifest.json'']"
definition projection_policy_file :: path where "projection_policy_file = sealing_dir @ [Normal ''policy.json'']"

lemma control_places:
  "workspace_capture_policy_path [RootDir, Normal ''r''] = policy_file"
  "result_projection_manifest_path plain_run = manifest_file" "result_projection_policy_path plain_run = projection_policy_file"
  by (simp_all add: workspace_capture_policy_path_def policy_file_def result_projection_manifest_path_def
      result_projection_policy_path_def sealing_places manifest_file_def projection_policy_file_def join_plain plain_def)

definition admitted_fs :: fs where "admitted_fs = put_file policy_file ''P'' empty_fs"

definition sealed_fs :: fs where
  "sealed_fs = put_file manifest_file [CHR ''M'', newline] (put_file projection_policy_file [CHR ''P'', newline] admitted_fs)"

lemma policy_required:
  assumes "files s policy_file \<noteq> None" "\<forall>p. read_fault s p = None"
  shows "require_workspace_capture_policy (cv_policy sealing_env) plain_run s = (Inr ready_policy, s)"
proof -
  have "wp_schema_version ready_policy = WORKSPACE_CAPTURE_POLICY_VERSION" "wp_frozen_git_hydration ready_policy = Some plain_hydration"
    by (simp_all add: ready_policy_def plain_policy_def WORKSPACE_CAPTURE_POLICY_VERSION_def)
  then show ?thesis using assms
    by (auto simp: require_workspace_capture_policy_def read_workspace_capture_policy_def sealing_places control_places fs_exists_def
        fs_read_def io_bind_def parse_json_def ready_hydration with_hydration_def)
qed

definition run_world :: capture_world where
  "run_world = \<lparr>cw_fs = admitted_fs, cw_disk = work_disk, cw_clock = 0, cw_scopes = []\<rparr>"

definition sealed_world :: capture_world where
  "sealed_world = \<lparr>cw_fs = sealed_fs, cw_disk = disk_of (sealing_tree @ tree_at candidate_dir), cw_clock = 20, cw_scopes = []\<rparr>"

abbreviation sealed_record :: sealed_result_projection where
  "sealed_record \<equiv> \<lparr>sp_manifest = sealed_manifest, sp_policy = ready_policy, sp_candidate = candidate_dir\<rparr>"

lemma control_files_differ: "manifest_file \<noteq> policy_file" "projection_policy_file \<noteq> policy_file" "projection_policy_file \<noteq> manifest_file"
  by (simp_all add: manifest_file_def policy_file_def projection_policy_file_def sealing_dir_def)

lemma record_loaded: "load_result_projection sealing_env plain_run sealed_fs = (Inr sealed_record, sealed_fs)"
proof -
  have "require_workspace_capture_policy (cv_policy sealing_env) plain_run sealed_fs = (Inr ready_policy, sealed_fs)"
    by (rule policy_required) (simp_all add: sealed_fs_def admitted_fs_def)
  moreover have "rp_schema_version sealed_manifest = RESULT_PROJECTION_SCHEMA_VERSION" "rp_run_id sealed_manifest = rs_run_id plain_run"
      "rp_projection_policy_sha256 sealed_manifest = sha256_text ready_env ''P''" "rp_admission_policy_sha256 sealed_manifest = sha256_text ready_env ''P''"
    by (simp_all add: sealed_manifest_def RESULT_PROJECTION_SCHEMA_VERSION_def)
  moreover have "files sealed_fs manifest_file \<noteq> None" "files sealed_fs projection_policy_file \<noteq> None" "\<forall>p. read_fault sealed_fs p = None"
    by (simp_all add: sealed_fs_def admitted_fs_def)
  ultimately show ?thesis
    by (auto simp: load_result_projection_def control_places sealing_places fs_read_def io_bind_def parse_json_def policy_digest_def same_digests)
qed

lemma one_validated:
  assumes "holds_one (cw_disk w) r" "cw_fs w = sealed_fs" "cw_scopes w = []"
  shows "validate_result_projection_at sealing_env plain_run r w = (Inr sealed_manifest, w\<lparr>cw_clock := cw_clock w + 5\<rparr>)"
proof -
  have load: "cap_io (load_result_projection sealing_env plain_run) w = (Inr sealed_record, w)"
    using assms(2) by (simp add: cap_io_def record_loaded)
  have index: "index_with_policy sealing_env r ready_policy w = (Inr sealed_index, w\<lparr>cw_clock := cw_clock w + 5\<rparr>)"
    using assms one_indexed [of "w\<lparr>cw_clock := cw_clock w + 5\<rparr>"] by (simp add: index_with_policy_def act_bind_run one_captured)
  show ?thesis
    by (simp add: validate_result_projection_at_def act_bind_run load index same_digests one_bytes) (simp add: sealed_manifest_def)
qed

lemma places_hold:
  "holds_one work_disk sample_dir" "holds_one (disk_of (sealing_tree @ tree_at r)) r" "holds_one (disk_of sealing_tree) sample_dir"
  "holds_one (disk_of (sealing_tree @ tree_at r @ t)) sample_dir"
  by (auto simp: holds_one_def nodes_def work_disk_def disk_of_def sealing_tree_def tree_at_def sample_disk_def sample_dir_def sealing_dir_def)

lemma nothing_there:
  "remove_controller_tree sealing_env preparing_dir (w\<lparr>cw_disk := disk_of sealing_tree\<rparr>) = (Inr (), w\<lparr>cw_disk := disk_of sealing_tree\<rparr>)"
  "remove_controller_tree sealing_env candidate_dir (w\<lparr>cw_disk := disk_of (sealing_tree @ tree_at preparing_dir)\<rparr>)
    = (Inr (), w\<lparr>cw_disk := disk_of (sealing_tree @ tree_at preparing_dir)\<rparr>)"
  "remove_controller_tree sealing_env evaluation_dir (w\<lparr>cw_disk := disk_of (sealing_tree @ tree_at candidate_dir)\<rparr>)
    = (Inr (), w\<lparr>cw_disk := disk_of (sealing_tree @ tree_at candidate_dir)\<rparr>)"
  by (simp_all add: remove_controller_tree_def lstat_kind_def nodes_def disk_of_def sample_disk_def sealing_tree_def tree_at_def
      sample_dir_def sealing_dir_def preparing_dir_def candidate_dir_def evaluation_dir_def)

lemma with_disk: "cw_disk w = d \<Longrightarrow> w = w\<lparr>cw_disk := d\<rparr>"
  by (cases w) simp

lemma sealed: "seal_result_projection sealing_env plain_run run_world = (Inr sealed_manifest, sealed_world)"
proof -
  define at_time where "at_time d k = \<lparr>cw_fs = admitted_fs, cw_disk = d, cw_clock = k, cw_scopes = []\<rparr>" for d k
  have start: "run_world = at_time work_disk 0" by (simp add: run_world_def at_time_def)
  have at_parts: "cw_disk (at_time d k) = d" "cw_scopes (at_time d k) = []" "cw_fs (at_time d k) = admitted_fs"
      "(at_time d k)\<lparr>cw_disk := d'\<rparr> = at_time d' k" "(at_time d k)\<lparr>cw_clock := cw_clock (at_time d k) + n\<rparr> = at_time d (k + n)" for d d' k n
    by (simp_all add: at_time_def)
  have require: "cap_io (require_workspace_capture_policy (cv_policy sealing_env) plain_run) (at_time d k) = (Inr ready_policy, at_time d k)" for d k
    using policy_required [of admitted_fs] by (simp add: cap_io_def at_time_def admitted_fs_def del: sealing_env_simps)
  have freeze: "freeze_result_projection_policy sealing_env sample_dir ready_policy (at_time work_disk k) = (Inr ready_policy, at_time work_disk (k + 4))" for k
    using ready_frozen [of "at_time work_disk k"] by (simp only: at_parts)
  have capture: "capture_workspace_strict sealing_env r ready_policy ResultCandidate ForResultCandidate (at_time d k) = (Inr (one_plan r), at_time d (k + 5))"
    and index: "artifact_file_index_from_capture sealing_env (one_plan r) (at_time d k) = (Inr sealed_index, at_time d k)" if "holds_one d r" for r d k
    using one_captured [of "at_time d k" r] one_indexed [of "at_time d k" r] that by (simp_all only: at_parts)
  have copied: "materialize_capture_plan sealing_env (one_plan sample_dir) preparing_dir (at_time (disk_of sealing_tree) k)
      = (Inr (), at_time (disk_of (sealing_tree @ tree_at preparing_dir)) k)" for k
    using candidate_copied [of "at_time (disk_of sealing_tree) k"] by (simp only: at_parts)
  have removed: "remove_controller_tree sealing_env preparing_dir (at_time (disk_of sealing_tree) k) = (Inr (), at_time (disk_of sealing_tree) k)"
      "remove_controller_tree sealing_env candidate_dir (at_time (disk_of (sealing_tree @ tree_at preparing_dir)) k)
        = (Inr (), at_time (disk_of (sealing_tree @ tree_at preparing_dir)) k)" for k
    using nothing_there(1) [of "at_time (disk_of sealing_tree) k"] nothing_there(2) [of "at_time (disk_of sealing_tree) k"] by (simp_all only: at_parts)
  have made: "try_change sealing_dir (create_dirs sealing_dir) (at_time work_disk k) = (Inr (), at_time (disk_of sealing_tree) k)"
      "try_change preparing_dir (rename_dir preparing_dir candidate_dir) (at_time (disk_of (sealing_tree @ tree_at preparing_dir)) k)
        = (Inr (), at_time (disk_of (sealing_tree @ tree_at candidate_dir)) k)" for k
    by (simp_all add: try_change_def change_disk_def at_parts at_path_def sealing_dirs candidate_renamed)
  have now: "utc_now sealing_env (at_time d k) = (Inr 0, at_time d (k + 1))" for d k
    by (simp add: utc_now_def at_time_def)
  have complete: "require_complete sealing_env (one_plan r) x = Inr ()" for r x by (simp add: require_complete_def)
  have same: "require_same_index plain_run sealed_index sealed_index x = Inr ()" for x by (simp add: require_same_index_def)
  have digest: "policy_digest sealing_env p = Inr (sha256_text ready_env ''P'')" for p by (simp add: policy_digest_def same_digests)
  have manifest: "\<lparr>rp_schema_version = RESULT_PROJECTION_SCHEMA_VERSION, rp_run_id = rs_run_id plain_run, rp_sealed_at = 0,
      rp_source_working_dir = sample_dir, rp_admission_policy_sha256 = sha256_text ready_env ''P'',
      rp_projection_policy_sha256 = sha256_text ready_env ''P'', rp_tree_sha256 = artifact_tree_hash ready_env sealed_index,
      rp_included_files = 1, rp_included_bytes = 1, rp_omissions = [], rp_omissions_truncated = 0\<rparr> = sealed_manifest"
    by (simp add: sealed_manifest_def RESULT_PROJECTION_SCHEMA_VERSION_def)
  have parents: "path_parent manifest_file \<noteq> None" "path_parent projection_policy_file \<noteq> None"
    by (simp_all add: manifest_file_def projection_policy_file_def path_parent_def sealing_dir_def)
  have writes: "cap_io (atomic_write_json (cv_policy sealing_env) projection_policy_file ready_policy) (at_time d k)
      = (Inr (), (at_time d k)\<lparr>cw_fs := put_file projection_policy_file [CHR ''P'', newline] admitted_fs\<rparr>)"
    "cap_io (atomic_write_json (jv_manifest sealing_env) manifest_file sealed_manifest)
        ((at_time d k)\<lparr>cw_fs := put_file projection_policy_file [CHR ''P'', newline] admitted_fs\<rparr>)
      = (Inr (), (at_time d k)\<lparr>cw_fs := sealed_fs\<rparr>)" for d k
    using parents by (auto simp: cap_io_def atomic_write_json_def at_parts admitted_fs_def sealed_fs_def)
  have valid: "validate_result_projection_at sealing_env plain_run candidate_dir
      ((at_time (disk_of (sealing_tree @ tree_at candidate_dir)) 15)\<lparr>cw_fs := sealed_fs\<rparr>) = (Inr sealed_manifest, sealed_world)"
    using one_validated [of "(at_time (disk_of (sealing_tree @ tree_at candidate_dir)) 15)\<lparr>cw_fs := sealed_fs\<rparr>" candidate_dir] places_hold(2)
    by (simp add: at_time_def sealed_world_def)
  note steps = act_bind_run require freeze capture index copied removed made now complete same digest index_with_policy_def
    sealing_places control_places places_hold same_digests one_bytes manifest writes valid
  show ?thesis unfolding start seal_result_projection_def Let_def
    by (simp del: sealing_env_simps add: steps)
qed

lemma result_copied:
  "materialize_capture_plan sealing_env (one_plan candidate_dir) evaluation_dir (sealed_world\<lparr>cw_clock := k\<rparr>)
    = (Inr (), sealed_world\<lparr>cw_clock := k, cw_disk := disk_of (sealing_tree @ tree_at candidate_dir @ tree_at evaluation_dir)\<rparr>)"
  unfolding materialize_capture_plan_def materialize_within_def one_plan_simps sealed_world_def
  by (simp add: sample_simps run_simps no_sealing_checks inherited_work_boundary_def ensure_materialization_root_def materialize_capture_entry_def
      join_path_def Let_def ensure_materialization_parent_def remove_materialization_target_def lstat_def copy_regular_file_def
      read_node_def read_kind_def open_for_writing_def create_file_def chunked_short write_all_def append_to_file_def
      set_permissions_def disk_of_def sealing_tree_def tree_at_def candidate_dir_def evaluation_dir_def sealing_dir_def node_mode_def cong: act_bind_first)

section \<open>The guarantees\<close>

lemma sealing_walk: "walk_plain sealing_env d r"
proof -
  have "plain ''a.txt''" by (simp add: plain_def)
  then show ?thesis
    by (auto simp: walk_plain_def one_walk_def Let_def entry_relative_def strip_path_prefix_def path_bytes_def split: if_splits)
qed

lemma same_everywhere: "same_result sealing_env d plan d' plan' \<longleftrightarrow> (\<forall>p. result_at d plan p = result_at d' plan' p)"
  by (simp add: same_result_def never_collides)

theorem sealed_candidate_is_the_work_witness:
  "\<exists>policy plan plan'. seal_result_projection sealing_env plain_run run_world = (Inr sealed_manifest, sealed_world)
    \<and> captured_result sealing_env work_disk sample_dir policy plan
    \<and> captured_result sealing_env (cw_disk sealed_world) candidate_dir policy plan'
    \<and> (\<forall>p. result_at work_disk plan p = result_at (cw_disk sealed_world) plan' p)"
proof -
  have "document_ok (jv_manifest sealing_env) sealed_manifest" "\<forall>policy. document_ok (cv_policy sealing_env) policy"
    by (auto simp: document_ok_def)
  from sealed_candidate_is_the_work [OF sealed this sealing_walk sealing_walk] show ?thesis
    using sealed by (auto simp: same_everywhere sealing_places) (auto simp: run_world_def)
qed

lemma materialized_sealed:
  "\<exists>w'. materialize_result_projection sealing_env plain_run evaluation_dir sealed_world = (Inr sealed_manifest, w')"
proof -
  let ?d = "disk_of (sealing_tree @ tree_at candidate_dir)"
  let ?d' = "disk_of (sealing_tree @ tree_at candidate_dir @ tree_at evaluation_dir)"
  define at_time where "at_time d k = sealed_world\<lparr>cw_clock := k, cw_disk := d\<rparr>" for d k
  have start: "sealed_world = at_time ?d 20" by (simp add: sealed_world_def at_time_def)
  have at_parts: "cw_disk (at_time d k) = d" "cw_scopes (at_time d k) = []" "cw_fs (at_time d k) = sealed_fs"
      "(at_time d k)\<lparr>cw_clock := cw_clock (at_time d k) + n\<rparr> = at_time d (k + n)" for d k n
    by (simp_all add: at_time_def sealed_world_def)
  have load: "cap_io (load_result_projection sealing_env plain_run) (at_time d k) = (Inr sealed_record, at_time d k)" for d k
    by (simp add: cap_io_def at_parts record_loaded at_time_def sealed_world_def)
  have capture: "capture_workspace_strict sealing_env r ready_policy ResultCandidate ForResultCandidate (at_time d k) = (Inr (one_plan r), at_time d (k + 5))"
    and valid: "validate_result_projection_at sealing_env plain_run r (at_time d k) = (Inr sealed_manifest, at_time d (k + 5))" if "holds_one d r" for r d k
    using one_captured [of "at_time d k" r] one_validated [of "at_time d k" r] that by (simp_all only: at_parts)
  have clear: "remove_controller_tree sealing_env evaluation_dir (at_time ?d k) = (Inr (), at_time ?d k)" for k
    using nothing_there(3) [of "sealed_world\<lparr>cw_clock := k\<rparr>"] by (simp add: at_time_def)
  have copy: "materialize_capture_plan sealing_env (one_plan candidate_dir) evaluation_dir (at_time ?d k) = (Inr (), at_time ?d' k)" for k
  proof -
    have "at_time ?d k = sealed_world\<lparr>cw_clock := k\<rparr>" by (simp add: at_time_def sealed_world_def)
    then show ?thesis by (simp add: result_copied at_time_def)
  qed
  have complete: "require_complete sealing_env (one_plan r) x = Inr ()" for r x by (simp add: require_complete_def)
  have "holds_one ?d' evaluation_dir"
    using places_hold(2) by (auto simp: holds_one_def nodes_def disk_of_def sealing_tree_def tree_at_def sample_disk_def sample_dir_def
        sealing_dir_def candidate_dir_def evaluation_dir_def)
  then show ?thesis unfolding start materialize_result_projection_def
    by (simp add: act_bind_run load capture valid clear copy complete places_hold)
qed

theorem materialized_result_is_the_candidate_witness:
  "\<exists>w' plan plan'. materialize_result_projection sealing_env plain_run evaluation_dir sealed_world = (Inr sealed_manifest, w')
    \<and> captured_result sealing_env (cw_disk sealed_world) candidate_dir ready_policy plan
    \<and> captured_result sealing_env (cw_disk w') evaluation_dir ready_policy plan'
    \<and> (\<forall>p. result_at (cw_disk sealed_world) plan p = result_at (cw_disk w') plan' p)"
proof -
  obtain w' where run: "materialize_result_projection sealing_env plain_run evaluation_dir sealed_world = (Inr sealed_manifest, w')"
    using materialized_sealed by blast
  have "load_result_projection sealing_env plain_run (cw_fs sealed_world) = (Inr sealed_record, cw_fs sealed_world)"
    by (simp add: sealed_world_def record_loaded)
  with materialized_result_is_the_candidate [OF run sealing_walk sealing_walk] show ?thesis
    by (auto simp: run same_everywhere sealing_places)
qed

end
