(* ===== verification/Spec2Isabelle.thy ===== *)
theory Spec2Isabelle
  imports Plan_Examples Campaign Chain_Examples Steer_Inbox Head_Tail Run_State Run_Lock
    Tamper_Examples Delivery_Examples Acceptance_Examples Policy_Examples Projection_Examples
begin

text \<open>
  DeadReckon drives coding agents through long jobs and keeps every fact about them on disk, so that a
  crash, a second controller or a late worker cannot change what a job has already proved. This
  development models the durable core of the program, the crates \<open>deadreckon-core\<close> and
  \<open>deadreckon-protocol\<close>, and proves what makes it safe to resume. File names are relative to
  \<open>crates/deadreckon-core/src\<close> unless they say otherwise.

  \<^bold>\<open>The parts and how they interact.\<close>
  A job is one directory: an immutable \<open>job.json\<close>, an append-only log of lifecycle events, a
  projection folded from the log, and a lease that says which process may write. Controllers claim the
  lease; a claim appends an event with a higher epoch and then replaces the checkpoint \<open>lease.json\<close>.
  Every later write carries the token of the claim and is checked under the control lock of the job.
  Plans, candidate logs and hook evidence that a job owns are written through the same check. Campaigns
  split a goal over several plans and roll their verdicts up. Runs are the single attempts below a job:
  each has a state file with its phases, a lock, an inbox of operator messages and bounded captures of
  process output. What a run achieved is judged by the gate: it evaluates the checks of the approved
  contract without a key, validates what such an evaluation reports, and signs a marker that binds the
  results, the tamper verdict and the files beside it. Which files count as the result is decided by a
  bounded capture of the workspace under a policy frozen before the agent ran.

  \<^item> \<open>Prelude\<close>: fixed-width integers, strings and paths as the Rust code has them, JSON values, the
    result monad, and the locale \<open>event_machine\<close>: a step function with errors that keeps an
    invariant, with the facts about folding it over a list of events.
  \<^item> \<open>Errors\<close> (\<open>error.rs\<close>): \<open>DeadreckonError\<close> and its classification.
  \<^item> \<open>Store\<close>: files, faults and the computations over them; \<open>atomic_write_json\<close> and
    \<open>append_json_line\<close> (\<open>state.rs\<close>).
  \<^item> \<open>Protocol_Job\<close> (\<open>crates/deadreckon-protocol/src/job.rs\<close>): job, policy, event and lease types.
  \<^item> \<open>Job_History\<close>, \<open>Job_Lifecycle\<close>, \<open>Job_Rows\<close> (\<open>job.rs\<close>): the lifecycle reducer
    \<open>reduce_event\<close>, its row fold \<open>reduce_job_history\<close>, and their theory.
  \<^item> \<open>Job_Log\<close> (\<open>job.rs\<close>): \<open>write_job\<close>, \<open>read_job_history\<close>, \<open>append_job_event\<close>, the projection file.
  \<^item> \<open>Paths\<close> (\<open>paths.rs\<close>): the layout of the home, slugs, task keys, the scope of a work tree.
  \<^item> \<open>Boot_Identity\<close> (\<open>exec/pid_file.rs\<close>): normalising and comparing boot identities.
  \<^item> \<open>Job_Lease\<close>, \<open>Lease_Fencing\<close>, \<open>Lease_Use\<close>, \<open>Lease_Examples\<close> (\<open>job_lease.rs\<close>): claim,
    heartbeat, the five fenced commits; the locale \<open>fenced_operation\<close>.
  \<^item> \<open>Plan_Graph\<close> (\<open>plan.rs\<close>): tasks, the graph check with its depth-first search, readiness,
    retries, nesting. \<open>Plan_Store\<close>, \<open>Plan_Examples\<close> (\<open>plan.rs\<close>): plan files, messages, events,
    coordinator state and the ordered candidate log, with their owned (fenced) writers.
  \<^item> \<open>Campaign\<close> (\<open>campaign.rs\<close>): lineage and its guard, sub-goals, results, budget, roll-up.
  \<^item> \<open>Chain_Steps\<close>, \<open>Ordered_Map\<close>, \<open>Chain_Hooks\<close>, \<open>Chain_Examples\<close> (\<open>chain.rs\<close>): the step machine
    of a chain; frozen hooks, canonical payloads and the evidence log of hook invocations.
  \<^item> \<open>Run_State\<close> (\<open>state.rs\<close>): the record of a run, its phases, its ownership stamp, lookup by prefix,
    listing and spend. \<open>Run_Lock\<close> (\<open>lock.rs\<close>): the advisory lock of a task over inodes.
  \<^item> \<open>Artifact_Policy\<close> (\<open>artifact_policy.rs\<close>), \<open>Workspace_View\<close>, \<open>Tamper\<close>, \<open>Tamper_Examples\<close>
    (\<open>tamper.rs\<close>, the inventory of \<open>artifacts.rs\<close>): which paths count, what a check covers, and the
    verdict on edits of the checks. \<open>Gate_Key\<close> (\<open>gate.rs\<close>): the protected key of a run. \<open>Delivery\<close>,
    \<open>Delivery_Examples\<close> (\<open>delivery.rs\<close>): the signed intent and receipt of a Git delivery and the
    operation lock.
  \<^item> \<open>Project_Kind\<close> (\<open>acceptance_defaults.rs\<close>): the kind of a project and its default checks.
    \<open>Acceptance_Contract\<close> (\<open>gate.rs\<close>, \<open>validate_strict_contract\<close> of \<open>completion.rs\<close>): the contract
    document, network authority, the strict contract. \<open>Acceptance_Marker\<close>, \<open>Marker_Evidence\<close>
    (\<open>gate.rs\<close>): the signed marker and the files it binds. \<open>Gate_Evaluation\<close>, \<open>Gate_Proof\<close>
    (\<open>gate.rs\<close>): evaluating, validating and signing. \<open>Acceptance_Examples\<close>: their properties at one run.
  \<^item> \<open>Capture_Policy\<close>, \<open>Disk\<close>, \<open>Workspace_Capture\<close> (\<open>workspace_capture.rs\<close>, the work boundary of
    \<open>git.rs\<close>): frozen policies and encoded paths, the tree the capture walks with its clock and
    cancellation, and the capture itself; \<open>Capture_Proof\<close>, \<open>Capture_Guarantees\<close>, \<open>Capture_Examples\<close>:
    invariants of its loop, what its plan guarantees, and both at one workspace. \<open>Policy_Freeze\<close>,
    \<open>Policy_Guarantees\<close>, \<open>Policy_Examples\<close>: freezing a policy from a workspace, its ignore files, Git and
    the outputs of its build tools. \<open>Disk_Change\<close>: changes of the tree by the standard library.
    \<open>Materialize\<close>, \<open>Materialize_Proof\<close>, \<open>Tree_Removal\<close>, \<open>Materialize_Examples\<close>: writing a plan to a
    destination, plainly or through a blob store, and removing a captured tree.
  \<^item> \<open>Artifact_Index\<close> (the indexes of \<open>flight.rs\<close>): what a capture selected, with digests, and the text its
    tree hash is taken of. \<open>Result_Projection\<close> (\<open>result_projection.rs\<close>), \<open>Projection_Guarantees\<close>,
    \<open>Projection_Examples\<close>: sealing the result of a run as a candidate, and every later use of it.
  \<^item> \<open>Steer_Inbox\<close> (\<open>steer_inbox.rs\<close>), \<open>Head_Tail\<close> (\<open>exec/head_tail_buffer.rs\<close>,
    \<open>exec/truncation.rs\<close>).

  \<^bold>\<open>What is shown.\<close>
  \<^item> The reducer: outcomes are final, explained and respect a cancellation; accepted sequence numbers are
    contiguous; lease epochs increase; a delivery and an undo happen once; repeated rows are harmless.
  \<^item> The log: an append reads back, is idempotent and only extends; a write torn in the middle of a row
    loses nothing; a written job identity cannot be replaced.
  \<^item> Leases: a claim outdates every earlier token; a lease of this boot that is not behind the log and is
    unexpired or whose owner lives cannot be claimed, and every other lease of a running job can
    (\<open>held\<close> and \<open>free_to_claim\<close> say so without the code's own decision), also after a crash between the
    event and its checkpoint. Every fenced operation refuses a stale token without a trace, and none
    commits for a job that has stopped but the facts of a requested cancellation. \<open>fenced_operation\<close>
    states the contract once; all eleven fenced operations interpret it.
  \<^item> Plans: the graph check accepts exactly the named, closed, acyclic task lists, its recursion ends, an
    accepted plan never stalls, and the candidate log is one chain of revisions.
  \<^item> Campaigns: completion exactly when every leaf stands; nested campaigns are refused; budget shares
    sum to the ceiling.
  \<^item> Chains and runs: a step is applied only after it ran; hook evidence is exact and reused only for
    the same payload; a run always has its current phase; lookup is exact or unique; no
    sequence of attempts and heartbeats displaces a lock holder before it releases (a release in two steps
    can give two holders, \<open>release_race_gives_two_holders\<close>); delivery removes exactly one steer; the output buffer keeps exactly the two ends of
    the stream and shows whole characters only.

  \<^item> Acceptance and delivery: a deleted baseline test that a check covers is refused whatever the agent
    reports when the baseline path is absolute (\<open>relative_snapshot_hides_deletion\<close> otherwise), a lost
    baseline stops the check, a key is created once and stays private, a sealed intent is final, and a
    valid receipt is bound to it in every field. What the gate signs was accepted check by check, an
    honest evaluation validates, a marker vouches for the files beside it but for one named collision of the
    keyed hash (\<open>signed_texts_collide\<close>), the reset leaves no evidence,
    and a contract is strict exactly when it proves something within its declared network.
  \<^item> Captures: a complete capture misses nothing the walk found, records why it refused an entry unless it
    is in Git's control directory, holds only operator output and every
    tracked file, and stays within its budgets; the work boundary interrupts it. The policy a run makes
    sure of is the one every strict operation requires, and one on disk is never replaced; the policy of
    a result takes nothing from the environment of the host, and its rules come from ignore files of the
    workspace (in the root also through a link, \<open>linked_root_ignore_is_followed\<close>). A materialized plan holds every entry as its source was and nothing else, and
    the removal of a captured tree ends with nothing left of it.
  \<^item> Results: the text behind a tree hash determines the index, so a sealed candidate holds what the working
    tree held and a materialized result what the candidate held, but for a collision of SHA-256.

  \<^bold>\<open>Modelling choices.\<close>
  \<open>u32\<close> and \<open>u64\<close> are words, with checked and saturating addition where the code has them; \<open>usize\<close>
  counts are \<open>nat\<close>; time is integer nanoseconds; \<open>f64\<close> amounts are exact reals, so rounding of
  floating-point sums is not covered. Text is its UTF-8 bytes. Errors keep their variant and the data a
  caller can see, not their wording. Operations under the control lock are single steps.

  Code outside the repository is a parameter: serde codecs (\<open>enc\<close>, \<open>dec\<close>) with the laws
  \<open>codec_ok\<close>, \<open>row_ok\<close>, \<open>document_ok\<close> (what is written parses back, rows have no line break),
  digests and keyed hashes (a property that rests on one names its collisions), the regex engine, the YAML
  parser, running a command, Git, \<open>Uuid\<close> parsing and fresh ids, the clock, the process table and boot facts of the host, path
  canonicalisation, file metadata and directory walks. Each property with such a hypothesis is evaluated at a concrete
  instance.

  The recursion of the cycle check runs with fuel; the number of tasks plus one is enough for every task
  list, because each nested call marks a new task. \<open>plan_depth\<close> follows at most two parents, as the
  source does. The removal of a tree runs with one more than the number of nodes of the disk, which is
  enough because the tree below a child is strictly smaller. All other definitions are total.

  \<^bold>\<open>Not modelled.\<close>
  The command line, supervisor, terminal interface and narrative (\<open>crates/deadreckon\<close>), the turn loop and
  provider drivers (\<open>crates/deadreckon-runtime\<close>, \<open>crates/deadreckon-providers\<close>), sandboxes and git:
  processes, network and terminals around the core; the sandbox observation, promotion and the
  completion receipt over all evidence (\<open>sandbox_observation.rs\<close>, \<open>promotion.rs\<close>, \<open>completion.rs\<close>), the
  checkpoints of \<open>flight.rs\<close>. In the modelled files: the Markdown narrative of a
  plan, copying an approved hook to disk with its permission bits, preparing the working copy of a new
  run, sending signals to processes, and loading of evidence for the status view of a job.
\<close>

end
